(* ===== verification/Prelude.thy ===== *)
theory Prelude
  imports Main "HOL-Library.Word"
begin

text \<open>
  Shared vocabulary of the development: the machine types, the decimal printer behind
  \<open>std::to_string\<close>, counters kept in \<open>std::unordered_map\<close>, agent tables, and the generic
  lemmas on them.  Messages and identities are \<open>string\<close>; an operation that returns \<open>false\<close>
  with an error text is a sum whose left side is that text.
\<close>

section \<open>Machine types\<close>

type_synonym u32 = "32 word"
type_synonym u64 = "64 word"

text \<open>
  \<open>++n; if (n == 0) ++n;\<close> on an unsigned 64 bit counter: the increment wraps and the
  value 0 is skipped.
\<close>

definition next_nonzero :: "u64 \<Rightarrow> u64" where
  "next_nonzero n = (if n + 1 = 0 then 1 else n + 1)"

lemma next_nonzero_nonzero [simp]: "next_nonzero n \<noteq> 0"
  by (simp add: next_nonzero_def)

lemma next_nonzero_changes [simp]: "next_nonzero n \<noteq> n"
proof -
  have "n + 1 \<noteq> n" by simp
  moreover have "n + 1 = 0 \<Longrightarrow> n \<noteq> 1"
    by auto
  ultimately show ?thesis by (auto simp: next_nonzero_def)
qed

section \<open>Decimal printing\<close>

definition digit_char :: "nat \<Rightarrow> char" where
  "digit_char d = char_of (48 + d)"

fun dec :: "nat \<Rightarrow> string" where
  "dec n = (if n < 10 then [digit_char n] else dec (n div 10) @ [digit_char (n mod 10)])"

declare dec.simps [simp del]

definition undec :: "string \<Rightarrow> nat" where
  "undec s = foldl (\<lambda>a c. 10 * a + (of_char c - 48)) 0 s"

lemma of_char_digit [simp]: "d < 10 \<Longrightarrow> (of_char (digit_char d) :: nat) = 48 + d"
  by (simp add: digit_char_def)

lemma undec_dec [simp]: "undec (dec n) = n"
proof (induction n rule: dec.induct)
  case (1 n)
  show ?case
  proof (cases "n < 10")
    case True
    then show ?thesis by (simp add: dec.simps [of n] undec_def)
  next
    case False
    with 1 have "undec (dec (n div 10)) = n div 10" by simp
    with False show ?thesis by (simp add: dec.simps [of n] undec_def)
  qed
qed

lemma dec_inject [simp]: "dec m = dec n \<longleftrightarrow> m = n"
  by (metis undec_dec)

lemma dec_nonempty [simp]: "dec n \<noteq> []"
  by (subst dec.simps) simp

section \<open>Counters in maps\<close>

text \<open>\<open>m[k] += n\<close>: a missing key is value-initialised to 0 first.\<close>

definition bump :: "('k \<Rightarrow> int option) \<Rightarrow> 'k \<Rightarrow> int \<Rightarrow> ('k \<Rightarrow> int option)" where
  "bump m k n = m(k \<mapsto> (case m k of None \<Rightarrow> 0 | Some c \<Rightarrow> c) + n)"

definition count_of :: "('k \<Rightarrow> int option) \<Rightarrow> 'k \<Rightarrow> int" where
  "count_of m k = (case m k of None \<Rightarrow> 0 | Some c \<Rightarrow> c)"

lemma count_of_bump [simp]:
  "count_of (bump m k n) j = count_of m j + (if j = k then n else 0)"
  by (simp add: count_of_def bump_def)

section \<open>Agent tables\<close>

text \<open>
  \<open>std::unordered_map<int, Agent>\<close> is an association list with distinct keys: the order of
  the list is the (unspecified) iteration order, so a statement about every list covers every
  iteration order.  \<open>put_at\<close> writes through a reference to an existing entry.
\<close>

type_synonym ('k, 'v) table = "('k \<times> 'v) list"

definition put_at :: "'k \<Rightarrow> 'v \<Rightarrow> ('k, 'v) table \<Rightarrow> ('k, 'v) table" where
  "put_at k v = map (\<lambda>(k', v'). if k' = k then (k', v) else (k', v'))"

lemma fst_put_at [simp]: "map fst (put_at k v t) = map fst t"
  by (simp add: put_at_def case_prod_unfold comp_def if_distrib cong: if_cong)

lemma length_put_at [simp]: "length (put_at k v t) = length t"
  by (simp add: put_at_def)

lemma map_of_put_at [simp]:
  "map_of (put_at k v t) j =
     (if j = k \<and> map_of t k \<noteq> None then Some v else map_of t j)"
  by (induction t) (auto simp: put_at_def)

lemma put_at_same: "distinct (map fst t) \<Longrightarrow> map_of t k = Some v \<Longrightarrow> put_at k v t = t"
  by (induction t)
    (auto simp: put_at_def intro!: map_idI split: if_splits, force simp: image_iff)

lemma put_at_notin: "k \<notin> fst ` set t \<Longrightarrow> put_at k v t = t"
  by (induction t) (auto simp: put_at_def)

text \<open>Replacing one entry changes a sum over the table by the difference.\<close>

lemma sum_put_at:
  fixes f :: "'b \<Rightarrow> int"
  assumes "distinct (map fst t)" "map_of t i = Some a"
  shows "(\<Sum>(_, x)\<leftarrow>put_at i b t. f x) = (\<Sum>(_, x)\<leftarrow>t. f x) - f a + f b"
  using assms
proof (induction t)
  case (Cons x t)
  obtain j c where x: "x = (j, c)" by force
  show ?case
  proof (cases "j = i")
    case True
    with Cons.prems x have "i \<notin> fst ` set t" by simp
    then have "put_at i b t = t" by (rule put_at_notin)
    then have "put_at i b (x # t) = (i, b) # t" using True by (simp add: x put_at_def)
    then show ?thesis using True Cons.prems x by simp
  next
    case False
    then have "put_at i b (x # t) = x # put_at i b t" by (simp add: x put_at_def)
    then show ?thesis using False Cons x by simp
  qed
qed simp

section \<open>Results\<close>

text \<open>Sequencing of fallible steps, first failure wins.\<close>

definition and_then :: "'e + 'a \<Rightarrow> ('a \<Rightarrow> 'e + 'b) \<Rightarrow> 'e + 'b" where
  "and_then r f = (case r of Inl e \<Rightarrow> Inl e | Inr a \<Rightarrow> f a)"

lemma and_then_simps [simp]:
  "and_then (Inl e) f = Inl e" "and_then (Inr a) f = f a"
  by (simp_all add: and_then_def)

lemma and_then_Inr: "and_then r f = Inr b \<longleftrightarrow> (\<exists>a. r = Inr a \<and> f a = Inr b)"
  by (cases r) auto

lemma and_then_Inl: "and_then r f = Inl e \<longleftrightarrow> r = Inl e \<or> (\<exists>a. r = Inr a \<and> f a = Inl e)"
  by (cases r) auto

primrec fold_res :: "('x \<Rightarrow> 's \<Rightarrow> 'e + 's) \<Rightarrow> 'x list \<Rightarrow> 's \<Rightarrow> 'e + 's" where
  "fold_res f [] s = Inr s"
| "fold_res f (x # xs) s = and_then (f x s) (fold_res f xs)"

lemma fold_res_invariant:
  assumes "fold_res f xs s = Inr s'" and "P s"
    and "\<And>x s s'. x \<in> set xs \<Longrightarrow> f x s = Inr s' \<Longrightarrow> P s \<Longrightarrow> P s'"
  shows "P s'"
  using assms
  by (induction xs arbitrary: s) (auto simp: and_then_Inr)

text \<open>\<open>e.empty() ? a : b\<close>\<close>

definition if_empty :: "string \<Rightarrow> string \<Rightarrow> string \<Rightarrow> string" where
  "if_empty e a b = (if e = [] then a else b)"

lemma sum_list_map_nonneg: "(\<And>x. x \<in> set xs \<Longrightarrow> 0 \<le> f x) \<Longrightarrow> 0 \<le> (\<Sum>x\<leftarrow>xs. (f x :: int))"
  by (induction xs) (auto intro: add_nonneg_nonneg)

section \<open>Ordered tables\<close>

text \<open>\<open>std::string\<close> compares as unsigned bytes; \<open>std::map\<close> is a table in key order.\<close>

fun str_less :: "string \<Rightarrow> string \<Rightarrow> bool" where
  "str_less _ [] = False"
| "str_less [] (_ # _) = True"
| "str_less (a # xs) (b # ys) =
     ((of_char a :: nat) < of_char b \<or> (a = b \<and> str_less xs ys))"

fun put_sorted :: "string \<Rightarrow> 'v \<Rightarrow> (string, 'v) table \<Rightarrow> (string, 'v) table" where
  "put_sorted k v [] = [(k, v)]"
| "put_sorted k v ((k', v') # t) =
     (if k = k' then (k, v) # t
      else if str_less k k' then (k, v) # (k', v') # t
      else (k', v') # put_sorted k v t)"

lemma str_less_irrefl [simp]: "\<not> str_less s s"
  by (induction s) auto

lemma str_less_trans: "str_less a b \<Longrightarrow> str_less b c \<Longrightarrow> str_less a c"
proof (induction a b arbitrary: c rule: str_less.induct)
  case (3 x xs y ys)
  then show ?case by (cases c) auto
qed (auto elim: str_less.elims)

lemma str_less_total: "str_less a b \<or> a = b \<or> str_less b a"
proof (induction a b rule: str_less.induct)
  case (3 a xs b ys)
  have "a = b" if "(of_char a :: nat) = of_char b" using that by simp
  with 3 show ?case by fastforce
next
  case (1 u)
  show ?case by (cases u) simp_all
qed simp_all

definition sorted_table :: "(string, 'v) table \<Rightarrow> bool" where
  "sorted_table t \<longleftrightarrow> sorted_wrt str_less (map fst t)"

lemma map_of_put_sorted [simp]:
  "sorted_table t \<Longrightarrow> map_of (put_sorted k v t) = (map_of t)(k \<mapsto> v)"
proof (induction k v t rule: put_sorted.induct)
  case (2 k v k' v' t)
  then show ?case
    by (auto simp: sorted_table_def fun_eq_iff)
qed simp

lemma keys_put_sorted: "fst ` set (put_sorted k v t) = insert k (fst ` set t)"
  by (induction k v t rule: put_sorted.induct) auto

lemma sorted_put_sorted [simp]: "sorted_table t \<Longrightarrow> sorted_table (put_sorted k v t)"
proof (induction k v t rule: put_sorted.induct)
  case (2 k v k' v' t)
  then show ?case
    using str_less_total [of k k'] keys_put_sorted [of k v t] str_less_trans
    by (auto simp: sorted_table_def; blast)
qed (simp add: sorted_table_def)

end
