(* ===== verification/Floats.thy ===== *)
theory Floats
  imports Prelude "HOL-Library.Log_Nat"
begin

text \<open>
  IEEE 754 arithmetic as the code uses it: \<open>float\<close> is binary32, \<open>double\<close> is binary64,
  rounding is to nearest with ties to even.  A finite value is kept as the exact rational it
  denotes, so every operation computes and a conversion from \<open>float\<close> to \<open>double\<close> is the
  identity.  The sign of zero is not kept (no branch of the code depends on it), and every
  operation rounds on its own (no fused multiply-add).
\<close>

section \<open>Rounding to nearest even\<close>

definition round_even :: "rat \<Rightarrow> int" where
  "round_even x =
     (let f = \<lfloor>x\<rfloor>; r = x - of_int f
      in if r < 1 / 2 then f else if 1 / 2 < r then f + 1
         else if even f then f else f + 1)"

lemma round_even_of_int [simp]: "round_even (of_int k) = k"
  by (simp add: round_even_def)

lemma round_even_bounds: "\<lfloor>x\<rfloor> \<le> round_even x" "round_even x \<le> \<lfloor>x\<rfloor> + 1"
  by (simp_all add: round_even_def Let_def)

lemma round_even_mono:
  assumes "x \<le> y" shows "round_even x \<le> round_even y"
proof (cases "\<lfloor>x\<rfloor> = \<lfloor>y\<rfloor>")
  case True
  with assms show ?thesis by (auto simp: round_even_def Let_def)
next
  case False
  with floor_mono [OF assms] have "\<lfloor>x\<rfloor> + 1 \<le> \<lfloor>y\<rfloor>" by simp
  with round_even_bounds [of x] round_even_bounds [of y] show ?thesis by linarith
qed

lemma floor_neg_frac: "x \<noteq> of_int \<lfloor>x\<rfloor> \<Longrightarrow> \<lfloor>- (x :: rat)\<rfloor> = - \<lfloor>x\<rfloor> - 1"
  by (rule floor_unique) (auto simp: less_le, linarith+)

lemma round_even_uminus: "round_even (- x) = - round_even x"
proof (cases "x = of_int \<lfloor>x\<rfloor>")
  case True
  then obtain k where k: "x = of_int k" by blast
  have "round_even (of_int (- k)) = - k" by (rule round_even_of_int)
  with k show ?thesis by simp
next
  case False
  then have f: "\<lfloor>- x\<rfloor> = - \<lfloor>x\<rfloor> - 1" by (rule floor_neg_frac)
  show ?thesis by (auto simp: round_even_def Let_def f)
qed

section \<open>Binades\<close>

definition pow2 :: "int \<Rightarrow> rat" where
  "pow2 e = (if 0 \<le> e then 2 ^ nat e else 1 / 2 ^ nat (- e))"

lemma pow2_powi: "pow2 e = 2 powi e"
  by (simp add: pow2_def power_int_def inverse_eq_divide power_one_over)

lemma pow2_pos [simp]: "0 < pow2 e"
  by (simp add: pow2_def)

lemma abs_pow2 [simp]: "\<bar>pow2 e\<bar> = pow2 e"
  by (simp add: less_imp_le)

lemma pow2_add: "pow2 (a + b) = pow2 a * pow2 b"
  by (simp add: pow2_powi power_int_add)

lemma pow2_diff: "pow2 (a - b) = pow2 a / pow2 b"
  by (simp add: pow2_powi power_int_diff)

lemma pow2_strict: "a < b \<Longrightarrow> pow2 a < pow2 b"
  unfolding pow2_powi by (rule power_int_strict_increasing) simp_all

lemma pow2_less_iff [simp]: "pow2 a < pow2 b \<longleftrightarrow> a < b"
  by (metis linorder_neqE_linordered_idom order_less_asym pow2_strict)

lemma pow2_le_iff [simp]: "pow2 a \<le> pow2 b \<longleftrightarrow> a \<le> b"
  by (meson linorder_not_less pow2_less_iff)

lemma pow2_of_nat [simp]: "pow2 (int n) = 2 ^ n"
  by (simp add: pow2_def)

lemma pow2_shift: "pow2 (int n + e) = 2 ^ n * pow2 e"
  by (simp add: pow2_add)

text \<open>Powers by squaring, so that the code equations evaluate on wide exponents.\<close>

lemma pow2_code [code]:
  "pow2 e =
     (if e = 0 then 1 else if e < 0 then 1 / pow2 (- e)
      else let h = pow2 (e div 2) in if even e then h * h else 2 * (h * h))"
proof -
  have "e < 0 \<Longrightarrow> pow2 e = 1 / pow2 (- e)"
    using pow2_add [of e "- e"] pow2_pos [of "- e"]
    by (simp add: field_simps) (simp add: pow2_def)
  moreover have "even e \<Longrightarrow> pow2 e = pow2 (e div 2) * pow2 (e div 2)"
    by (simp flip: pow2_add)
  moreover have "pow2 e = pow2 (1 + (e div 2 + e div 2))" if "odd e"
    using that by (auto elim!: oddE simp: add.commute)
  then have "odd e \<Longrightarrow> pow2 e = 2 * (pow2 (e div 2) * pow2 (e div 2))"
    by (simp only: pow2_add) (simp add: pow2_def)
  ultimately show ?thesis by (auto simp: Let_def pow2_def)
qed

lemma pow2_int: "0 \<le> e \<Longrightarrow> pow2 e = of_int (2 ^ nat e)"
  by (simp add: pow2_def)

text \<open>The exponent of the leading bit: \<open>pow2 (ilog2 x) \<le> x < pow2 (ilog2 x + 1)\<close>.\<close>

definition ilog2 :: "rat \<Rightarrow> int" where
  "ilog2 x =
     (case quotient_of x of (n, d) \<Rightarrow>
        let e = bitlen n - bitlen d in if pow2 e \<le> x then e else e - 1)"

lemma ilog2_bounds:
  assumes "0 < x" shows "pow2 (ilog2 x) \<le> x" "x < pow2 (ilog2 x + 1)"
proof -
  obtain n d where q: "quotient_of x = (n, d)" by (cases "quotient_of x")
  have x: "x = of_int n / of_int d" and d: "0 < d"
    using q quotient_of_div quotient_of_denom_pos by blast+
  with assms have n: "0 < n" by (simp add: zero_less_divide_iff)
  let ?e = "bitlen n - bitlen d"
  have b1: "bitlen n \<ge> 1" "bitlen d \<ge> 1"
    using n d by (auto simp: bitlen_alt_def)
  have n1: "pow2 (bitlen n - 1) \<le> of_int n" and n2: "of_int n < pow2 (bitlen n)"
    using bitlen_bounds [OF n] b1 by (simp_all add: pow2_int)
  have d1: "pow2 (bitlen d - 1) \<le> of_int d" and d2: "of_int d < pow2 (bitlen d)"
    using bitlen_bounds [OF d] b1 by (simp_all add: pow2_int)
  have dp: "(0 :: rat) < of_int d" using d by simp
  have lo: "pow2 (?e - 1) \<le> x"
  proof -
    have "pow2 (?e - 1) * of_int d \<le> pow2 (?e - 1) * pow2 (bitlen d)"
      using d2 by (simp add: less_imp_le)
    also have "\<dots> = pow2 (bitlen n - 1)" by (simp flip: pow2_add)
    also note n1
    finally show ?thesis using dp by (simp add: x pos_le_divide_eq)
  qed
  have hi: "x < pow2 (?e + 1)"
  proof -
    note n2
    also have "pow2 (bitlen n) = pow2 (?e + 1) * pow2 (bitlen d - 1)"
      by (simp flip: pow2_add)
    also have "\<dots> \<le> pow2 (?e + 1) * of_int d" using d1 by simp
    finally show ?thesis using dp by (simp add: x pos_divide_less_eq)
  qed
  show "pow2 (ilog2 x) \<le> x" "x < pow2 (ilog2 x + 1)"
    using lo hi by (auto simp: ilog2_def q Let_def)
qed

lemma ilog2_unique:
  assumes "pow2 e \<le> x" "x < pow2 (e + 1)" shows "ilog2 x = e"
proof -
  have "0 < x" using assms(1) pow2_pos [of e] by linarith
  note b = ilog2_bounds [OF this]
  from assms b have "pow2 e < pow2 (ilog2 x + 1)" "pow2 (ilog2 x) < pow2 (e + 1)" by linarith+
  then show ?thesis by simp
qed

lemma ilog2_mono: "0 < x \<Longrightarrow> x \<le> y \<Longrightarrow> ilog2 x \<le> ilog2 y"
proof -
  assume "0 < x" "x \<le> y"
  with ilog2_bounds(1) [of x] ilog2_bounds(2) [of y]
  have "pow2 (ilog2 x) < pow2 (ilog2 y + 1)" by linarith
  then show ?thesis by simp
qed

section \<open>Formats\<close>

record fmt =
  prec :: nat
  emin :: int
  emax :: int

definition binary32 :: fmt where
  "binary32 = \<lparr>prec = 24, emin = -126, emax = 127\<rparr>"

definition binary64 :: fmt where
  "binary64 = \<lparr>prec = 53, emin = -1022, emax = 1023\<rparr>"

text \<open>Exponent of the unit in the last place at \<open>x\<close>, subnormals included.\<close>

definition ulp_exp :: "fmt \<Rightarrow> rat \<Rightarrow> int" where
  "ulp_exp f x =
     (if x = 0 then emin f else max (ilog2 \<bar>x\<bar>) (emin f)) - (int (prec f) - 1)"

definition round_fmt :: "fmt \<Rightarrow> rat \<Rightarrow> rat" where
  "round_fmt f x = (let u = pow2 (ulp_exp f x) in of_int (round_even (x / u)) * u)"

lemma ulp_exp_uminus [simp]: "ulp_exp f (- x) = ulp_exp f x"
  by (simp add: ulp_exp_def)

lemma round_fmt_0 [simp]: "round_fmt f 0 = 0"
  using round_even_of_int [of 0] by (simp add: round_fmt_def Let_def)

lemma round_fmt_uminus: "round_fmt f (- x) = - round_fmt f x"
  by (simp add: round_fmt_def Let_def round_even_uminus)

text \<open>A value on the grid of its own binade is left alone.\<close>

lemma round_fmt_grid: "v = of_int k * pow2 (ulp_exp f v) \<Longrightarrow> round_fmt f v = v"
proof -
  assume v: "v = of_int k * pow2 (ulp_exp f v)"
  then have "v / pow2 (ulp_exp f v) = of_int k"
    by (metis less_irrefl nonzero_mult_div_cancel_right pow2_pos)
  then show ?thesis using v by (simp add: round_fmt_def Let_def)
qed

lemma round_fmt_between:
  assumes le: "x \<le> of_int k * pow2 (ulp_exp f x)"
  shows "round_fmt f x \<le> of_int k * pow2 (ulp_exp f x)"
proof -
  have "x / pow2 (ulp_exp f x) \<le> of_int k"
    using le by (simp add: pos_divide_le_eq)
  from round_even_mono [OF this] show ?thesis
    by (simp add: round_fmt_def Let_def)
qed

lemma round_fmt_above:
  assumes le: "of_int k * pow2 (ulp_exp f x) \<le> x"
  shows "of_int k * pow2 (ulp_exp f x) \<le> round_fmt f x"
proof -
  have "of_int k \<le> x / pow2 (ulp_exp f x)"
    using le by (simp add: pos_le_divide_eq)
  from round_even_mono [OF this] show ?thesis
    by (simp add: round_fmt_def Let_def)
qed

lemma round_fmt_same_ulp:
  "ulp_exp f x = ulp_exp f y \<Longrightarrow> x \<le> y \<Longrightarrow> round_fmt f x \<le> round_fmt f y"
proof -
  assume u: "ulp_exp f x = ulp_exp f y" and "x \<le> y"
  then have "x / pow2 (ulp_exp f y) \<le> y / pow2 (ulp_exp f y)"
    by (simp add: divide_right_mono less_imp_le)
  from round_even_mono [OF this] show ?thesis
    by (simp add: round_fmt_def Let_def u)
qed

lemma round_fmt_nonneg: "0 \<le> x \<Longrightarrow> 0 \<le> round_fmt f x"
  using round_fmt_above [of 0 f x] by simp

lemma pow2_on_grid: "u \<le> e \<Longrightarrow> \<exists>k. pow2 e = of_int k * pow2 u"
proof -
  assume "u \<le> e"
  then have "pow2 e = pow2 (e - u) * pow2 u" "0 \<le> e - u" by (simp_all flip: pow2_add)
  then show ?thesis by (metis pow2_int)
qed

lemma round_fmt_mono_pos:
  assumes x: "0 < x" and xy: "x \<le> y" and p: "0 < prec f"
  shows "round_fmt f x \<le> round_fmt f y"
proof (cases "ulp_exp f x = ulp_exp f y")
  case True
  then show ?thesis using xy by (rule round_fmt_same_ulp)
next
  case False
  have y: "0 < y" using x xy by simp
  let ?e = "ilog2 y"
  have "ilog2 x \<le> ?e" using x xy by (rule ilog2_mono)
  with False x y have lt: "ilog2 x < ?e" "emin f < ?e"
    by (auto simp: ulp_exp_def)
  have ux: "ulp_exp f x \<le> ?e" and uy: "ulp_exp f y \<le> ?e"
    using lt x y p by (auto simp: ulp_exp_def)
  obtain k l where k: "pow2 ?e = of_int k * pow2 (ulp_exp f x)"
    and l: "pow2 ?e = of_int l * pow2 (ulp_exp f y)"
    using pow2_on_grid [OF ux] pow2_on_grid [OF uy] by blast
  have "x < pow2 (ilog2 x + 1)" using x by (rule ilog2_bounds)
  also have "\<dots> \<le> pow2 ?e" using lt by simp
  finally have "round_fmt f x \<le> pow2 ?e"
    using round_fmt_between [of x k f] k by simp
  also have "pow2 ?e \<le> round_fmt f y"
    using round_fmt_above [of l f y] l ilog2_bounds(1) [OF y] by simp
  finally show ?thesis .
qed

lemma round_fmt_mono:
  assumes xy: "x \<le> y" and p: "0 < prec f"
  shows "round_fmt f x \<le> round_fmt f y"
proof -
  consider "0 < x" | "x \<le> 0" "0 \<le> y" | "y < 0" using xy by linarith
  then show ?thesis
  proof cases
    case 1
    then show ?thesis using xy p by (rule round_fmt_mono_pos)
  next
    case 2
    then have "round_fmt f x \<le> 0"
      using round_fmt_nonneg [of "- x" f] by (simp add: round_fmt_uminus)
    also have "0 \<le> round_fmt f y" using 2 by (simp add: round_fmt_nonneg)
    finally show ?thesis .
  next
    case 3
    then have "round_fmt f (- y) \<le> round_fmt f (- x)"
      using xy p by (intro round_fmt_mono_pos) simp_all
    then show ?thesis by (simp add: round_fmt_uminus)
  qed
qed

section \<open>Floating-point values\<close>

datatype fp = Fin rat | PInf | NInf | NaN

type_synonym f32 = fp
type_synonym f64 = fp

fun isfinite :: "fp \<Rightarrow> bool" where
  "isfinite (Fin _) = True"
| "isfinite _ = False"

lemma isfinite_iff: "isfinite x \<longleftrightarrow> (\<exists>r. x = Fin r)"
  by (cases x) auto

fun fp_lt :: "fp \<Rightarrow> fp \<Rightarrow> bool" where
  "fp_lt (Fin a) (Fin b) = (a < b)"
| "fp_lt (Fin _) PInf = True"
| "fp_lt NInf (Fin _) = True"
| "fp_lt NInf PInf = True"
| "fp_lt _ _ = False"

fun fp_le :: "fp \<Rightarrow> fp \<Rightarrow> bool" where
  "fp_le (Fin a) (Fin b) = (a \<le> b)"
| "fp_le (Fin _) PInf = True"
| "fp_le NInf (Fin _) = True"
| "fp_le NInf PInf = True"
| "fp_le PInf PInf = True"
| "fp_le NInf NInf = True"
| "fp_le _ _ = False"

text \<open>\<open>==\<close> on floats: no NaN equals anything.\<close>

definition fp_eq :: "fp \<Rightarrow> fp \<Rightarrow> bool" where
  "fp_eq x y = (x \<noteq> NaN \<and> x = y)"

text \<open>\<open>std::max(a, b)\<close> is \<open>(a < b) ? b : a\<close>.\<close>

definition fp_max :: "fp \<Rightarrow> fp \<Rightarrow> fp" where
  "fp_max a b = (if fp_lt a b then b else a)"

fun fp_neg :: "fp \<Rightarrow> fp" where
  "fp_neg (Fin a) = Fin (- a)"
| "fp_neg PInf = NInf"
| "fp_neg NInf = PInf"
| "fp_neg NaN = NaN"

fun fp_add_with :: "(rat \<Rightarrow> fp) \<Rightarrow> fp \<Rightarrow> fp \<Rightarrow> fp" where
  "fp_add_with rnd NaN _ = NaN"
| "fp_add_with rnd _ NaN = NaN"
| "fp_add_with rnd (Fin a) (Fin b) = rnd (a + b)"
| "fp_add_with rnd PInf NInf = NaN"
| "fp_add_with rnd NInf PInf = NaN"
| "fp_add_with rnd PInf _ = PInf"
| "fp_add_with rnd _ PInf = PInf"
| "fp_add_with rnd NInf _ = NInf"
| "fp_add_with rnd _ NInf = NInf"

definition fp_sub_with :: "(rat \<Rightarrow> fp) \<Rightarrow> fp \<Rightarrow> fp \<Rightarrow> fp" where
  "fp_sub_with rnd a b = fp_add_with rnd a (fp_neg b)"

definition fp_signed_inf :: "bool \<Rightarrow> fp" where
  "fp_signed_inf positive = (if positive then PInf else NInf)"

fun fp_mul_with :: "(rat \<Rightarrow> fp) \<Rightarrow> fp \<Rightarrow> fp \<Rightarrow> fp" where
  "fp_mul_with rnd NaN _ = NaN"
| "fp_mul_with rnd _ NaN = NaN"
| "fp_mul_with rnd (Fin a) (Fin b) = rnd (a * b)"
| "fp_mul_with rnd (Fin a) PInf = (if a = 0 then NaN else fp_signed_inf (0 < a))"
| "fp_mul_with rnd (Fin a) NInf = (if a = 0 then NaN else fp_signed_inf (a < 0))"
| "fp_mul_with rnd PInf (Fin b) = (if b = 0 then NaN else fp_signed_inf (0 < b))"
| "fp_mul_with rnd NInf (Fin b) = (if b = 0 then NaN else fp_signed_inf (b < 0))"
| "fp_mul_with rnd PInf PInf = PInf"
| "fp_mul_with rnd NInf NInf = PInf"
| "fp_mul_with rnd PInf NInf = NInf"
| "fp_mul_with rnd NInf PInf = NInf"

text \<open>Division; a zero divisor is taken as \<open>+0\<close>.\<close>

fun fp_div_with :: "(rat \<Rightarrow> fp) \<Rightarrow> fp \<Rightarrow> fp \<Rightarrow> fp" where
  "fp_div_with rnd NaN _ = NaN"
| "fp_div_with rnd _ NaN = NaN"
| "fp_div_with rnd (Fin a) (Fin b) =
     (if b = 0 then (if a = 0 then NaN else fp_signed_inf (0 < a)) else rnd (a / b))"
| "fp_div_with rnd (Fin a) PInf = Fin 0"
| "fp_div_with rnd (Fin a) NInf = Fin 0"
| "fp_div_with rnd PInf (Fin b) = fp_signed_inf (0 \<le> b)"
| "fp_div_with rnd NInf (Fin b) = fp_signed_inf (b < 0)"
| "fp_div_with rnd PInf PInf = NaN"
| "fp_div_with rnd PInf NInf = NaN"
| "fp_div_with rnd NInf PInf = NaN"
| "fp_div_with rnd NInf NInf = NaN"

definition fp_round :: "fmt \<Rightarrow> rat \<Rightarrow> fp" where
  "fp_round f x =
     (let r = round_fmt f x
      in if pow2 (emax f + 1) \<le> r then PInf
         else if r \<le> - pow2 (emax f + 1) then NInf else Fin r)"

abbreviation "rnd32 \<equiv> fp_round binary32"
abbreviation "rnd64 \<equiv> fp_round binary64"

abbreviation "f64_add \<equiv> fp_add_with rnd64"
abbreviation "f64_sub \<equiv> fp_sub_with rnd64"
abbreviation "f64_mul \<equiv> fp_mul_with rnd64"
abbreviation "f64_div \<equiv> fp_div_with rnd64"
abbreviation "f32_add \<equiv> fp_add_with rnd32"
abbreviation "f32_sub \<equiv> fp_sub_with rnd32"
abbreviation "f32_mul \<equiv> fp_mul_with rnd32"
abbreviation "f32_div \<equiv> fp_div_with rnd32"

text \<open>\<open>static_cast<float>\<close> of a double.\<close>

fun to_f32 :: "f64 \<Rightarrow> f32" where
  "to_f32 (Fin a) = rnd32 a"
| "to_f32 x = x"

definition flt_max :: rat where
  "flt_max = pow2 128 - pow2 104"

definition dbl_max :: rat where
  "dbl_max = pow2 1024 - pow2 971"

section \<open>Representable values\<close>

definition is_value :: "fmt \<Rightarrow> fp \<Rightarrow> bool" where
  "is_value f x = (case x of Fin r \<Rightarrow> fp_round f r = Fin r | _ \<Rightarrow> True)"

abbreviation "is_f32 \<equiv> is_value binary32"
abbreviation "is_f64 \<equiv> is_value binary64"

lemma prec_pos [simp]: "0 < prec binary32" "0 < prec binary64"
  by (simp_all add: binary32_def binary64_def)

text \<open>A significand of at most \<open>prec\<close> bits on any grid above the subnormal one is exact.\<close>

lemma round_fmt_exact:
  assumes v: "v = of_int k * pow2 e" and k: "\<bar>k\<bar> < 2 ^ prec f"
    and e: "emin f - (int (prec f) - 1) \<le> e"
  shows "round_fmt f v = v"
proof (cases "v = 0")
  case False
  have "\<bar>v\<bar> = of_int \<bar>k\<bar> * pow2 e" using v by (simp add: abs_mult less_imp_le)
  also have "\<dots> < of_int (2 ^ prec f) * pow2 e" using k
    by (intro mult_strict_right_mono) (simp_all only: of_int_less_iff pow2_pos)
  also have "\<dots> = pow2 (int (prec f) + e)" by (simp add: pow2_shift)
  finally have lt: "\<bar>v\<bar> < pow2 (int (prec f) + e)" .
  with ilog2_bounds(1) [of "\<bar>v\<bar>"] False
  have "pow2 (ilog2 \<bar>v\<bar>) < pow2 (int (prec f) + e)" by linarith
  then have "ilog2 \<bar>v\<bar> < int (prec f) + e" by simp
  then have "ulp_exp f v \<le> e" using False e by (simp add: ulp_exp_def)
  then obtain j where "pow2 e = of_int j * pow2 (ulp_exp f v)"
    using pow2_on_grid by blast
  with v have "v = of_int (k * j) * pow2 (ulp_exp f v)" by simp
  then show ?thesis by (rule round_fmt_grid)
qed simp

lemma abs_le_round_even: "\<bar>x\<bar> \<le> of_int m \<Longrightarrow> \<bar>round_even x\<bar> \<le> m"
  using round_even_mono [of x "of_int m"] round_even_mono [of "of_int (- m)" x]
  by (simp only: round_even_of_int) linarith

lemma round_fmt_pow2:
  assumes "emin f \<le> e" "0 < prec f" shows "round_fmt f (pow2 e) = pow2 e"
proof -
  have "ilog2 (pow2 e) = e" by (rule ilog2_unique) simp_all
  then have "ulp_exp f (pow2 e) \<le> e"
    using assms pow2_pos [of e] by (auto simp: ulp_exp_def)
  then show ?thesis using pow2_on_grid round_fmt_grid by blast
qed

text \<open>Rounding twice is rounding once.\<close>

lemma round_fmt_idem:
  assumes p: "0 < prec f" shows "round_fmt f (round_fmt f x) = round_fmt f x"
proof (cases "x = 0")
  case False
  let ?e = "ulp_exp f x" and ?p = "int (prec f)"
  let ?k = "round_even (x / pow2 ?e)"
  have v: "round_fmt f x = of_int ?k * pow2 ?e" by (simp add: round_fmt_def Let_def)
  have e: "emin f - (?p - 1) \<le> ?e" and il: "ilog2 \<bar>x\<bar> + 1 \<le> ?p + ?e"
    using False by (simp_all add: ulp_exp_def)
  have "\<bar>x\<bar> < pow2 (ilog2 \<bar>x\<bar> + 1)" using False by (intro ilog2_bounds) simp
  also have "\<dots> \<le> pow2 (?p + ?e)" using il by simp
  finally have "\<bar>x\<bar> \<le> of_int (2 ^ prec f) * pow2 ?e" by (simp add: pow2_shift)
  then have "\<bar>x / pow2 ?e\<bar> \<le> of_int (2 ^ prec f)"
    by (simp add: pos_divide_le_eq)
  then have k: "\<bar>?k\<bar> \<le> 2 ^ prec f" by (rule abs_le_round_even)
  show ?thesis
  proof (cases "\<bar>?k\<bar> < 2 ^ prec f")
    case True
    with v e show ?thesis by (metis round_fmt_exact)
  next
    case False
    then have "?k = 2 ^ prec f \<or> ?k = - (2 ^ prec f)" using k by linarith
    then have "round_fmt f x = pow2 (?p + ?e) \<or> round_fmt f x = - pow2 (?p + ?e)"
      by (auto simp: v pow2_shift)
    moreover have "round_fmt f (pow2 (?p + ?e)) = pow2 (?p + ?e)"
      using e p by (intro round_fmt_pow2) simp_all
    ultimately show ?thesis by (auto simp: round_fmt_uminus)
  qed
qed simp

lemma fp_round_is_value: "0 < prec f \<Longrightarrow> is_value f (fp_round f x)"
  by (auto simp: is_value_def fp_round_def Let_def round_fmt_idem)

lemma to_f32_is_f32: "is_f32 (to_f32 x)"
  by (cases x) (simp_all add: fp_round_is_value, simp_all add: is_value_def)

section \<open>Laws of a rounding\<close>

lemma fp_round_0 [simp]: "fp_round f 0 = Fin 0"
  by (simp add: fp_round_def not_le)

lemma fp_round_mono: "0 < prec f \<Longrightarrow> x \<le> y \<Longrightarrow> fp_le (fp_round f x) (fp_round f y)"
  using round_fmt_mono [of x y f] pow2_pos [of "emax f + 1"]
  by (auto simp: fp_round_def Let_def not_le)

lemma fp_round_neg: "fp_round f (- x) = fp_neg (fp_round f x)"
proof -
  have "\<not> (pow2 (emax f + 1) \<le> round_fmt f x \<and> round_fmt f x \<le> - pow2 (emax f + 1))"
    using pow2_pos [of "emax f + 1"] by linarith
  then show ?thesis by (auto simp: fp_round_def Let_def round_fmt_uminus)
qed

lemma flt_max_exact: "rnd32 flt_max = Fin flt_max"
proof -
  have "round_fmt binary32 flt_max = flt_max"
    by (rule round_fmt_exact [where k = "2 ^ 24 - 1" and e = 104])
      (simp_all add: flt_max_def binary32_def pow2_def)
  then show ?thesis by (simp add: fp_round_def flt_max_def binary32_def pow2_def)
qed

text \<open>Casting a double in the range of \<open>float\<close> keeps it finite and in that range.\<close>

lemma fp_le_Fin_Fin: "fp_le (Fin a) x \<Longrightarrow> fp_le x (Fin b) \<Longrightarrow> \<exists>r. x = Fin r \<and> a \<le> r \<and> r \<le> b"
  by (cases x) auto

lemma to_f32_in_range:
  assumes "- flt_max \<le> r" "r \<le> flt_max"
  shows "\<exists>q. to_f32 (Fin r) = Fin q \<and> - flt_max \<le> q \<and> q \<le> flt_max"
proof -
  have "fp_le (rnd32 (- flt_max)) (rnd32 r)" "fp_le (rnd32 r) (rnd32 flt_max)"
    using assms by (simp_all add: fp_round_mono)
  then show ?thesis by (simp add: fp_round_neg flt_max_exact fp_le_Fin_Fin)
qed

text \<open>
  The contract the estimator and the policy rely on: a rounding of exact results that keeps
  0, respects order and is symmetric.  Both formats provide it, and so does exact arithmetic
  (the reference the estimator is compared with).
\<close>

locale rounding =
  fixes rnd :: "rat \<Rightarrow> fp"
  assumes rnd_0: "rnd 0 = Fin 0"
    and rnd_mono: "x \<le> y \<Longrightarrow> fp_le (rnd x) (rnd y)"
    and rnd_neg: "rnd (- x) = fp_neg (rnd x)"
begin

lemma rnd_not_NaN: "rnd x \<noteq> NaN"
  using rnd_mono [of x x] by auto

lemma rnd_nonneg: "0 \<le> x \<Longrightarrow> rnd x = Fin r \<Longrightarrow> 0 \<le> r"
  using rnd_mono [of 0 x] by (simp add: rnd_0)

lemma add_mono:
  assumes "a \<le> a'" "b \<le> b'"
    and "fp_add_with rnd (Fin a) (Fin b) = Fin r" "fp_add_with rnd (Fin a') (Fin b') = Fin r'"
  shows "r \<le> r'"
  using rnd_mono [of "a + b" "a' + b'"] assms by simp

lemma sub_mono_left:
  assumes "a \<le> a'"
    and "fp_sub_with rnd (Fin a) (Fin b) = Fin r" "fp_sub_with rnd (Fin a') (Fin b) = Fin r'"
  shows "r \<le> r'"
  using rnd_mono [of "a - b" "a' - b"] assms by (simp add: fp_sub_with_def)

lemma mul_mono_right:
  assumes "0 \<le> g" "a \<le> a'"
    and "fp_mul_with rnd (Fin g) (Fin a) = Fin r" "fp_mul_with rnd (Fin g) (Fin a') = Fin r'"
  shows "r \<le> r'"
  using rnd_mono [of "g * a" "g * a'"] assms by (simp add: mult_left_mono)

end

interpretation r64: rounding rnd64
  by unfold_locales (simp_all add: fp_round_mono fp_round_neg)

interpretation r32: rounding rnd32
  by unfold_locales (simp_all add: fp_round_mono fp_round_neg)

interpretation exact: rounding Fin
  by unfold_locales simp_all

lemma fp_add_with_Fin:
  "fp_add_with rnd a b = Fin r \<Longrightarrow> \<exists>x y. a = Fin x \<and> b = Fin y \<and> rnd (x + y) = Fin r"
  by (cases a; cases b) simp_all

lemma fp_sub_with_Fin:
  "fp_sub_with rnd a b = Fin r \<Longrightarrow> \<exists>x y. a = Fin x \<and> b = Fin y \<and> rnd (x - y) = Fin r"
  unfolding fp_sub_with_def by (cases a; cases b) simp_all

lemma fp_mul_with_Fin:
  "fp_mul_with rnd a b = Fin r \<Longrightarrow> \<exists>x y. a = Fin x \<and> b = Fin y \<and> rnd (x * y) = Fin r"
  by (cases a; cases b) (simp_all add: fp_signed_inf_def split: if_splits)

lemma isfinite_add_with: "isfinite (fp_add_with rnd a b) \<Longrightarrow> isfinite a \<and> isfinite b"
  by (cases a; cases b) simp_all

lemma isfinite_sub_with: "isfinite (fp_sub_with rnd a b) \<Longrightarrow> isfinite a \<and> isfinite b"
  unfolding fp_sub_with_def by (cases a; cases b) simp_all

text \<open>
  Evaluation on dyadic rationals with few bits: the result is exact, so concrete runs reduce
  to rational arithmetic.
\<close>

lemma fp_round_exact:
  assumes "v = of_int k * pow2 e" "\<bar>k\<bar> < 2 ^ prec f" "emin f - (int (prec f) - 1) \<le> e"
    and "\<bar>v\<bar> < pow2 (emax f + 1)"
  shows "fp_round f v = Fin v"
proof -
  have "round_fmt f v = v" using assms(1-3) by (rule round_fmt_exact)
  moreover have "\<not> pow2 (emax f + 1) \<le> v" "\<not> v \<le> - pow2 (emax f + 1)"
    using assms(4) by linarith+
  ultimately show ?thesis by (simp add: fp_round_def)
qed

lemma abs_scaled_bound:
  fixes v :: rat
  assumes "of_int k = v * of_int c" "\<bar>v\<bar> < of_int b" "0 < c" shows "\<bar>k\<bar> < b * c"
proof -
  have "\<bar>of_int k :: rat\<bar> = \<bar>v\<bar> * of_int c" using assms by (simp add: abs_mult)
  also have "\<dots> < of_int b * of_int c" using assms by (intro mult_strict_right_mono) simp_all
  finally have "(of_int \<bar>k\<bar> :: rat) < of_int (b * c)" by simp
  then show ?thesis by (simp only: of_int_less_iff)
qed

lemma rnd64_exact:
  assumes le: "v * 1073741824 \<le> of_int \<lfloor>v * 1073741824\<rfloor>" and b: "\<bar>v\<bar> < 4194304"
  shows "rnd64 v = Fin v"
proof (rule fp_round_exact [where k = "\<lfloor>v * 1073741824\<rfloor>" and e = "- 30"])
  have eq: "of_int \<lfloor>v * 1073741824\<rfloor> = v * 1073741824"
    using le of_int_floor_le [of "v * 1073741824"] by (rule antisym [rotated])
  then show "v = of_int \<lfloor>v * 1073741824\<rfloor> * pow2 (- 30)"
    by (simp only: pow2_def) simp
  show "\<bar>\<lfloor>v * 1073741824\<rfloor>\<bar> < 2 ^ prec binary64"
    using abs_scaled_bound [of "\<lfloor>v * 1073741824\<rfloor>" v 1073741824 4194304] eq b
    by (simp add: binary64_def)
  have "(4194304 :: rat) \<le> pow2 (emax binary64 + 1)"
    by (simp add: binary64_def pow2_def)
  then show "\<bar>v\<bar> < pow2 (emax binary64 + 1)" using b by linarith
qed (simp add: binary64_def)

lemma rnd32_exact:
  assumes le: "v * 4096 \<le> of_int \<lfloor>v * 4096\<rfloor>" and b: "\<bar>v\<bar> < 4096"
  shows "rnd32 v = Fin v"
proof (rule fp_round_exact [where k = "\<lfloor>v * 4096\<rfloor>" and e = "- 12"])
  have eq: "of_int \<lfloor>v * 4096\<rfloor> = v * 4096"
    using le of_int_floor_le [of "v * 4096"] by (rule antisym [rotated])
  then show "v = of_int \<lfloor>v * 4096\<rfloor> * pow2 (- 12)"
    by (simp only: pow2_def) simp
  show "\<bar>\<lfloor>v * 4096\<rfloor>\<bar> < 2 ^ prec binary32"
    using abs_scaled_bound [of "\<lfloor>v * 4096\<rfloor>" v 4096 4096] eq b
    by (simp add: binary32_def)
  have "(4096 :: rat) \<le> pow2 (emax binary32 + 1)"
    by (simp add: binary32_def pow2_def)
  then show "\<bar>v\<bar> < pow2 (emax binary32 + 1)" using b by linarith
qed (simp add: binary32_def)

lemmas fp_eval = rnd64_exact rnd32_exact fp_sub_with_def fp_max_def fp_eq_def

end
