(* ===== verification/Policy.thy ===== *)
theory Policy
  imports Floats
begin

text \<open>
  \<open>src/task/policy\<close>: the validation of a model output and the choice of an action.  The C++
  library functions \<open>std::exp\<close>, \<open>std::log\<close> and the draw of \<open>std::discrete_distribution\<close> from a
  \<open>std::mt19937\<close> are arguments; what is relied on of them is \<open>exp_spec\<close> and \<open>sampler_spec\<close>.
\<close>

datatype policy_mode = ModeUnspecified | ModeTraining | ModeEvaluation

definition ValidateEpisodeModelOutput :: "f32 list \<Rightarrow> int \<Rightarrow> f32 \<Rightarrow> string + unit" where
  "ValidateEpisodeModelOutput logits expected_action_dim value =
     (if expected_action_dim \<le> 0 \<or> int (length logits) \<noteq> expected_action_dim
      then Inl ''action logits do not match the expected action dimension''
      else if \<not> list_all isfinite logits then Inl ''action logits contain a non-finite value''
      else if \<not> isfinite value then Inl ''state value is non-finite''
      else Inr ())"

lemma ValidateEpisodeModelOutput_Inr:
  "ValidateEpisodeModelOutput logits d value = Inr u \<longleftrightarrow>
     0 < d \<and> int (length logits) = d \<and> list_all isfinite logits \<and> isfinite value"
  by (auto simp: ValidateEpisodeModelOutput_def)

section \<open>Selection\<close>

definition available :: "bool list \<Rightarrow> nat \<Rightarrow> bool" where
  "available action_mask index = (action_mask = [] \<or> action_mask ! index)"

text \<open>The scan of the evaluation branch; \<open>length logits\<close> stands for "none selected yet".\<close>

definition greedy_step :: "f32 list \<Rightarrow> bool list \<Rightarrow> nat \<Rightarrow> nat \<Rightarrow> nat" where
  "greedy_step logits am selected index =
     (if available am index \<and>
         (selected = length logits \<or> fp_lt (logits ! selected) (logits ! index))
      then index else selected)"

definition greedy_action :: "f32 list \<Rightarrow> bool list \<Rightarrow> nat" where
  "greedy_action logits am = foldl (greedy_step logits am) (length logits) [0..<length logits]"

text \<open>The softmax of the training branch.\<close>

definition max_logit :: "f32 list \<Rightarrow> bool list \<Rightarrow> f64" where
  "max_logit logits am =
     foldl (\<lambda>m i. if available am i then fp_max m (logits ! i) else m) NInf [0..<length logits]"

definition weights :: "(f64 \<Rightarrow> f64) \<Rightarrow> f32 list \<Rightarrow> bool list \<Rightarrow> f64 \<Rightarrow> f64 list" where
  "weights exp64 logits am temperature =
     map (\<lambda>i. if available am i
              then exp64 (f64_div (f64_sub (logits ! i) (max_logit logits am)) temperature)
              else Fin 0)
       [0..<length logits]"

definition weight_sum :: "f64 list \<Rightarrow> f64" where
  "weight_sum ws = foldl f64_add (Fin 0) ws"

definition SelectEpisodeAction ::
  "(f64 \<Rightarrow> f64) \<Rightarrow> (f64 \<Rightarrow> f64) \<Rightarrow> (f64 list \<Rightarrow> 'g \<Rightarrow> nat \<times> 'g) \<Rightarrow>
   f32 list \<Rightarrow> bool list \<Rightarrow> policy_mode \<Rightarrow> f64 \<Rightarrow> 'g \<Rightarrow> string + (nat \<times> f32 \<times> 'g)" where
  "SelectEpisodeAction exp64 log64 draw logits action_mask mode temperature generator =
     (if logits = [] \<or> \<not> isfinite temperature \<or> fp_le temperature (Fin 0)
      then Inl ''action logits or temperature are invalid''
      else if \<not> list_all isfinite logits then Inl ''action logits contain a non-finite value''
      else if action_mask \<noteq> [] \<and> (length action_mask \<noteq> length logits \<or> True \<notin> set action_mask)
      then Inl ''action mask does not define an available model action''
      else (case mode of
        ModeEvaluation \<Rightarrow> Inr (greedy_action logits action_mask, Fin 0, generator)
      | ModeTraining \<Rightarrow>
          (let probabilities = weights exp64 logits action_mask temperature;
               total = weight_sum probabilities
           in if \<not> isfinite total \<or> \<not> fp_lt (Fin 0) total
              then Inl ''softmax normalization is invalid''
              else (case draw probabilities generator of (action, generator') \<Rightarrow>
                 Inr (action, to_f32 (log64 (f64_div (probabilities ! action) total)),
                      generator')))
      | ModeUnspecified \<Rightarrow> Inl ''Episode mode does not define a model action policy''))"

text \<open>What the code requires of its inputs before it looks at the mode.\<close>

definition selectable :: "f32 list \<Rightarrow> bool list \<Rightarrow> f64 \<Rightarrow> bool" where
  "selectable logits am temperature =
     (logits \<noteq> [] \<and> isfinite temperature \<and> \<not> fp_le temperature (Fin 0) \<and>
      list_all isfinite logits \<and>
      (am = [] \<or> length am = length logits \<and> True \<in> set am))"

lemma selectable_available:
  assumes "selectable logits am t" shows "\<exists>i < length logits. available am i"
  using assms by (force simp: selectable_def available_def in_set_conv_nth)

section \<open>The greedy scan\<close>

text \<open>
  After \<open>n\<close> steps: nothing was available, or the selected index is available, no available
  index before it ties or beats it, and no available index after it beats it.
\<close>

definition greedy_inv :: "f32 list \<Rightarrow> bool list \<Rightarrow> nat \<Rightarrow> nat \<Rightarrow> bool" where
  "greedy_inv logits am n sel =
     (if sel = length logits then (\<forall>i < n. \<not> available am i)
      else sel < n \<and> available am sel \<and>
           (\<forall>i < n. available am i \<longrightarrow> \<not> fp_lt (logits ! sel) (logits ! i)) \<and>
           (\<forall>i < sel. available am i \<longrightarrow> fp_lt (logits ! i) (logits ! sel)))"

lemma fp_lt_trans [trans]: "fp_lt a b \<Longrightarrow> fp_lt b c \<Longrightarrow> fp_lt a c"
  by (cases a; cases b; cases c) auto

lemma not_fp_lt_trans:
  "isfinite a \<Longrightarrow> isfinite b \<Longrightarrow> isfinite c \<Longrightarrow> \<not> fp_lt a b \<Longrightarrow> fp_lt a c \<Longrightarrow> fp_lt b c"
  by (auto simp: isfinite_iff)

lemma fp_lt_irrefl [simp]: "\<not> fp_lt a a"
  by (cases a) auto

lemma greedy_inv_step:
  assumes fin: "list_all isfinite logits" and n: "n < length logits"
    and inv: "greedy_inv logits am n sel"
  shows "greedy_inv logits am (Suc n) (greedy_step logits am sel n)"
proof -
  have f: "i < length logits \<Longrightarrow> isfinite (logits ! i)" for i
    using fin by (simp add: list_all_length)
  consider "sel = length logits" | "sel < n" "available am n" "fp_lt (logits ! sel) (logits ! n)"
    | "sel < n" "\<not> (available am n \<and> fp_lt (logits ! sel) (logits ! n))"
    using inv by (auto simp: greedy_inv_def split: if_splits)
  then show ?thesis
  proof cases
    case 1
    with inv n show ?thesis
      by (auto simp: greedy_inv_def greedy_step_def less_Suc_eq)
  next
    case 2
    have "fp_lt (logits ! i) (logits ! n)" if "i < n" "available am i" for i
      using that 2 inv n f not_fp_lt_trans [of "logits ! sel" "logits ! i" "logits ! n"]
      by (auto simp: greedy_inv_def)
    moreover have "\<not> fp_lt (logits ! n) (logits ! i)" if "i < n" "available am i" for i
      using calculation [OF that] fp_lt_trans [of "logits ! i" "logits ! n" "logits ! i"] by auto
    ultimately show ?thesis using 2 n
      by (auto simp: greedy_inv_def greedy_step_def less_Suc_eq)
  next
    case 3
    with inv n show ?thesis
      by (auto simp: greedy_inv_def greedy_step_def less_Suc_eq)
  qed
qed

lemma greedy_inv_all:
  assumes "list_all isfinite logits"
  shows "n \<le> length logits \<Longrightarrow>
    greedy_inv logits am n (foldl (greedy_step logits am) (length logits) [0..<n])"
proof (induction n)
  case 0
  then show ?case by (simp add: greedy_inv_def)
next
  case (Suc n)
  then have "greedy_inv logits am n (foldl (greedy_step logits am) (length logits) [0..<n])"
    by simp
  with assms Suc.prems show ?case by (simp add: greedy_inv_step)
qed

lemma greedy_action_spec:
  assumes "selectable logits am t"
  defines "a \<equiv> greedy_action logits am"
  shows "a < length logits" "available am a"
    and "\<And>i. i < length logits \<Longrightarrow> available am i \<Longrightarrow> \<not> fp_lt (logits ! a) (logits ! i)"
    and "\<And>i. i < a \<Longrightarrow> available am i \<Longrightarrow> fp_lt (logits ! i) (logits ! a)"
proof -
  have "greedy_inv logits am (length logits) a"
    unfolding a_def greedy_action_def
    by (rule greedy_inv_all) (use assms(1) in \<open>auto simp: selectable_def\<close>)
  moreover obtain i where "i < length logits" "available am i"
    using selectable_available [OF assms(1)] by blast
  ultimately show "a < length logits" "available am a"
    "\<And>i. i < length logits \<Longrightarrow> available am i \<Longrightarrow> \<not> fp_lt (logits ! a) (logits ! i)"
    "\<And>i. i < a \<Longrightarrow> available am i \<Longrightarrow> fp_lt (logits ! i) (logits ! a)"
    by (auto simp: greedy_inv_def split: if_splits)
qed

section \<open>The softmax\<close>

text \<open>
  What is relied on of \<open>std::exp\<close>: exact at 0, 0 at minus infinity, and in \<open>[0, 1]\<close> on the
  non-positive finite doubles.  What is relied on of the draw: on finite non-negative weights
  with a positive total it returns the index of a positive weight.
\<close>

definition exp_spec :: "(f64 \<Rightarrow> f64) \<Rightarrow> bool" where
  "exp_spec exp64 \<longleftrightarrow>
     exp64 (Fin 0) = Fin 1 \<and> exp64 NInf = Fin 0 \<and>
     (\<forall>r \<le> 0. \<exists>q. exp64 (Fin r) = Fin q \<and> 0 \<le> q \<and> q \<le> 1)"

definition sampler_spec :: "(f64 list \<Rightarrow> 'g \<Rightarrow> nat \<times> 'g) \<Rightarrow> bool" where
  "sampler_spec draw \<longleftrightarrow>
     (\<forall>ws g. (\<forall>w \<in> set ws. \<exists>q. w = Fin q \<and> 0 \<le> q) \<longrightarrow> (\<exists>w \<in> set ws. fp_lt (Fin 0) w) \<longrightarrow>
        fst (draw ws g) < length ws \<and> fp_lt (Fin 0) (ws ! fst (draw ws g)))"

text \<open>A logit is a finite \<open>float\<close>.\<close>

definition logit_range :: "f32 list \<Rightarrow> bool" where
  "logit_range logits \<longleftrightarrow> (\<forall>x \<in> set logits. \<exists>r. x = Fin r \<and> \<bar>r\<bar> \<le> flt_max)"

lemma logit_rangeD:
  "logit_range logits \<Longrightarrow> i < length logits \<Longrightarrow> logits ! i = Fin r \<Longrightarrow> \<bar>r\<bar> \<le> flt_max"
  unfolding logit_range_def by (metis fp.inject nth_mem)

lemma rnd64_bounded:
  assumes "\<bar>x\<bar> \<le> pow2 k" "0 \<le> k" "k \<le> 1023"
  shows "\<exists>q. rnd64 x = Fin q \<and> \<bar>q\<bar> \<le> pow2 k"
proof -
  have "round_fmt binary64 (pow2 k) = pow2 k"
    by (rule round_fmt_pow2) (use assms in \<open>simp_all add: binary64_def\<close>)
  moreover have "pow2 k < pow2 (emax binary64 + 1)"
    using assms by (subst pow2_less_iff) (simp add: binary64_def)
  moreover have "\<not> pow2 k \<le> - pow2 (emax binary64 + 1)"
    using pow2_pos [of k] pow2_pos [of "emax binary64 + 1"] by linarith
  ultimately have k: "rnd64 (pow2 k) = Fin (pow2 k)" by (simp add: fp_round_def)
  have "fp_le (rnd64 (- pow2 k)) (rnd64 x)" "fp_le (rnd64 x) (rnd64 (pow2 k))"
    using assms(1) by (auto intro!: fp_round_mono)
  then show ?thesis using fp_le_Fin_Fin [of "- pow2 k" "rnd64 x" "pow2 k"]
    by (auto simp: fp_round_neg k)
qed

lemma flt_max_le: "flt_max \<le> pow2 128"
  by (simp add: flt_max_def less_imp_le)

text \<open>The greatest available logit is one of them and bounds the others.\<close>

definition max_inv :: "f32 list \<Rightarrow> bool list \<Rightarrow> nat \<Rightarrow> f64 \<Rightarrow> bool" where
  "max_inv logits am n m =
     (if \<exists>i < n. available am i
      then \<exists>M. m = Fin M \<and> (\<exists>j < n. available am j \<and> logits ! j = Fin M) \<and>
               (\<forall>i < n. available am i \<longrightarrow> (\<exists>r. logits ! i = Fin r \<and> r \<le> M))
      else m = NInf)"

lemma max_inv_step:
  assumes "max_inv logits am n m" "logits ! n = Fin x"
  shows "max_inv logits am (Suc n) (if available am n then fp_max m (logits ! n) else m)"
proof (cases "\<exists>i < n. available am i")
  case True
  with assms obtain M j where M: "m = Fin M" "j < n" "available am j" "logits ! j = Fin M"
    "\<And>i. i < n \<Longrightarrow> available am i \<Longrightarrow> \<exists>r. logits ! i = Fin r \<and> r \<le> M"
    by (auto simp: max_inv_def)
  show ?thesis
  proof (cases "available am n \<and> M < x")
    case True
    have "\<exists>r. logits ! i = Fin r \<and> r \<le> x" if "i < Suc n" "available am i" for i
      using M(5) [of i] that True assms(2) by (force simp: less_Suc_eq)
    with True M assms(2) show ?thesis by (auto simp: max_inv_def fp_max_def)
  next
    case False
    have "\<exists>r. logits ! i = Fin r \<and> r \<le> M" if "i < Suc n" "available am i" for i
      using M(5) [of i] that False assms(2) by (force simp: less_Suc_eq)
    with False M assms(2) show ?thesis by (auto simp: max_inv_def fp_max_def less_Suc_eq)
  qed
next
  case False
  with assms show ?thesis by (auto simp: max_inv_def fp_max_def less_Suc_eq)
qed

lemma max_inv_all:
  assumes "list_all isfinite logits"
  shows "n \<le> length logits \<Longrightarrow> max_inv logits am n
    (foldl (\<lambda>m i. if available am i then fp_max m (logits ! i) else m) NInf [0..<n])"
proof (induction n)
  case 0
  then show ?case by (simp add: max_inv_def)
next
  case (Suc n)
  then obtain x where "logits ! n = Fin x"
    using assms by (auto simp: list_all_length isfinite_iff Suc_le_eq)
  with Suc show ?case using max_inv_step [of logits am n _ x] by simp
qed

lemma max_logit_spec:
  assumes sel: "selectable logits am t"
  obtains j M where "j < length logits" "available am j" "logits ! j = Fin M"
    "max_logit logits am = Fin M"
    "\<And>i. i < length logits \<Longrightarrow> available am i \<Longrightarrow> \<exists>r. logits ! i = Fin r \<and> r \<le> M"
proof -
  have "max_inv logits am (length logits) (max_logit logits am)"
    unfolding max_logit_def by (rule max_inv_all) (use sel in \<open>auto simp: selectable_def\<close>)
  with selectable_available [OF sel] that show thesis by (auto simp: max_inv_def)
qed

section \<open>The normalisation never fails\<close>

text \<open>
  A weight is a double in \<open>[0, 1]\<close>, the weight of a greatest logit is exactly 1, and a masked
  action weighs 0.
\<close>

lemma shifted_logit:
  assumes r: "\<bar>r\<bar> \<le> flt_max" "\<bar>M\<bar> \<le> flt_max" "r \<le> M" and T: "0 < T"
  shows "f64_div (f64_sub (Fin r) (Fin M)) (Fin T) = NInf \<or>
         (\<exists>q \<le> 0. f64_div (f64_sub (Fin r) (Fin M)) (Fin T) = Fin q)"
proof -
  have "\<bar>r - M\<bar> \<le> 2 * pow2 128" using r flt_max_le by linarith
  also have "\<dots> = pow2 129" by (simp add: pow2_def)
  finally obtain d where d: "rnd64 (r - M) = Fin d"
    using rnd64_bounded [of "r - M" 129] by auto
  have "d \<le> 0" using r64.rnd_mono [of "r - M" 0] r d by simp
  then have "fp_le (rnd64 (d / T)) (Fin 0)"
    using r64.rnd_mono [of "d / T" 0] T by (simp add: divide_nonpos_pos)
  then show ?thesis using d T by (cases "rnd64 (d / T)") (auto simp: fp_sub_with_def)
qed

lemma weight_in_unit:
  assumes sel: "selectable logits am (Fin T)" and rng: "logit_range logits"
    and ex: "exp_spec exp64" and i: "i < length logits"
  shows "\<exists>q. weights exp64 logits am (Fin T) ! i = Fin q \<and> 0 \<le> q \<and> q \<le> 1"
    and "\<not> available am i \<Longrightarrow> weights exp64 logits am (Fin T) ! i = Fin 0"
proof -
  obtain j M where j: "j < length logits" "logits ! j = Fin M" "max_logit logits am = Fin M"
    "\<And>i. i < length logits \<Longrightarrow> available am i \<Longrightarrow> \<exists>r. logits ! i = Fin r \<and> r \<le> M"
    using max_logit_spec [OF sel] by blast
  have T: "0 < T" using sel by (simp add: selectable_def)
  have M: "\<bar>M\<bar> \<le> flt_max" using rng j(1,2) by (rule logit_rangeD)
  show "\<exists>q. weights exp64 logits am (Fin T) ! i = Fin q \<and> 0 \<le> q \<and> q \<le> 1"
  proof (cases "available am i")
    case True
    with j i obtain r where r: "logits ! i = Fin r" "r \<le> M" by blast
    have "\<bar>r\<bar> \<le> flt_max" using rng i r(1) by (rule logit_rangeD)
    with shifted_logit [of r M T] M r T ex i True j(3) show ?thesis
      by (auto simp: weights_def exp_spec_def)
  next
    case False
    with i show ?thesis by (simp add: weights_def)
  qed
  show "\<not> available am i \<Longrightarrow> weights exp64 logits am (Fin T) ! i = Fin 0"
    using i by (simp add: weights_def)
qed

lemma weight_of_max:
  assumes sel: "selectable logits am (Fin T)" and ex: "exp_spec exp64"
  obtains j where "j < length logits" "weights exp64 logits am (Fin T) ! j = Fin 1"
proof -
  obtain j M where j: "j < length logits" "available am j" "logits ! j = Fin M"
    "max_logit logits am = Fin M"
    using max_logit_spec [OF sel] by blast
  then have "weights exp64 logits am (Fin T) ! j = Fin 1"
    using ex sel by (simp add: weights_def exp_spec_def fp_sub_with_def selectable_def)
  with j that show thesis by blast
qed

lemma rnd64_of_nat: "k < 4194304 \<Longrightarrow> rnd64 (of_nat k) = Fin (of_nat k)"
proof -
  assume k: "k < 4194304"
  have "(of_nat k :: rat) * 1073741824 = of_int (int k * 1073741824)" by simp
  then have "(of_nat k :: rat) * 1073741824 \<le> of_int \<lfloor>(of_nat k :: rat) * 1073741824\<rfloor>"
    by (metis floor_of_int order_refl)
  moreover have "\<bar>of_nat k :: rat\<bar> < 4194304" using k by simp
  ultimately show ?thesis by (rule rnd64_exact)
qed

lemma weight_sum_bounds:
  assumes "\<forall>w \<in> set ws. \<exists>q. w = Fin q \<and> 0 \<le> q \<and> q \<le> 1"
    and "rnd64 a = Fin a" "0 \<le> a" "a \<le> of_nat k" "k + length ws < 4194304"
  shows "\<exists>b. foldl f64_add (Fin a) ws = Fin b \<and> a \<le> b \<and> b \<le> of_nat (k + length ws) \<and>
             (Fin 1 \<in> set ws \<longrightarrow> 1 \<le> b)"
  using assms
proof (induction ws arbitrary: a k)
  case (Cons w ws)
  then obtain q where q: "w = Fin q" "0 \<le> q" "q \<le> 1" by auto
  have "fp_le (rnd64 a) (rnd64 (a + q))" "fp_le (rnd64 (a + q)) (rnd64 (of_nat (Suc k)))"
    using Cons.prems q by (intro fp_round_mono prec_pos; simp)+
  moreover have "rnd64 (of_nat (Suc k)) = Fin (of_nat (Suc k))"
    using Cons.prems by (intro rnd64_of_nat) simp
  ultimately obtain c where c: "rnd64 (a + q) = Fin c" "a \<le> c" "c \<le> of_nat (Suc k)"
    using Cons.prems fp_le_Fin_Fin by fastforce
  have "rnd64 c = Fin c"
    using fp_round_is_value [of binary64 "a + q"] c by (simp add: is_value_def)
  moreover have "1 \<le> c" if "q = 1"
  proof -
    have "fp_le (rnd64 1) (rnd64 (a + q))"
      using that Cons.prems by (intro fp_round_mono prec_pos; simp)
    with rnd64_of_nat [of 1] c show ?thesis by simp
  qed
  moreover from Cons.prems have ws: "\<forall>w \<in> set ws. \<exists>q. w = Fin q \<and> 0 \<le> q \<and> q \<le> 1" by simp
  ultimately obtain b where b: "foldl f64_add (Fin c) ws = Fin b" "c \<le> b"
    "b \<le> of_nat (Suc k + length ws)" "Fin 1 \<in> set ws \<longrightarrow> 1 \<le> b"
    using Cons.IH [of c "Suc k"] c Cons.prems by auto
  from b q c have "foldl f64_add (Fin a) (w # ws) = Fin b" by simp
  moreover have "a \<le> b" using b c by linarith
  moreover have "Fin 1 \<in> set (w # ws) \<longrightarrow> 1 \<le> b" using b q c \<open>q = 1 \<Longrightarrow> 1 \<le> c\<close> by auto
  ultimately show ?case using b by auto
qed auto

text \<open>with a finite positive temperature, finite logits and an action mask that leaves an
  action available, training-mode selection never fails, draws from a normalised softmax,
  and the action it returns is a valid, available index.\<close>

theorem training_selection_total:
  assumes sel: "selectable logits am T" and rng: "logit_range logits"
    and len: "length logits < 4194304"
    and ex: "exp_spec exp64" and draw: "sampler_spec draw"
  shows "\<exists>action log_probability g'.
    SelectEpisodeAction exp64 log64 draw logits am ModeTraining T g
      = Inr (action, log_probability, g') \<and>
    action < length logits \<and> available am action"
proof -
  obtain t where T: "T = Fin t" using sel by (auto simp: selectable_def isfinite_iff)
  let ?ws = "weights exp64 logits am T"
  have lw: "length ?ws = length logits" by (simp add: weights_def)
  have unit: "\<forall>w \<in> set ?ws. \<exists>q. w = Fin q \<and> 0 \<le> q \<and> q \<le> 1"
    using weight_in_unit(1) [OF sel [unfolded T] rng ex] lw T by (auto simp: in_set_conv_nth)
  obtain j where j: "j < length logits" "?ws ! j = Fin 1"
    using weight_of_max [OF sel [unfolded T] ex] T by blast
  then have one: "Fin 1 \<in> set ?ws" using lw by (metis nth_mem)
  then obtain S where S: "weight_sum ?ws = Fin S" "1 \<le> S"
    using weight_sum_bounds [OF unit, of 0 0] len lw by (auto simp: weight_sum_def)
  obtain a g' where d: "draw ?ws g = (a, g')" by (cases "draw ?ws g")
  have "fp_lt (Fin 0) (Fin 1)" by simp
  then have a: "a < length ?ws" "fp_lt (Fin 0) (?ws ! a)"
    using draw unit one d unfolding sampler_spec_def by (metis fst_conv)+
  moreover have "available am a"
    using weight_in_unit(2) [OF sel [unfolded T] rng ex] a lw T by force
  ultimately show ?thesis
    using sel S d lw by (auto simp: SelectEpisodeAction_def selectable_def Let_def)
qed

text \<open>evaluation mode is greedy and deterministic: it returns the first available action of
  greatest logit, with log-probability 0, and leaves the generator alone.\<close>

theorem evaluation_selection_greedy:
  assumes sel: "selectable logits am T"
  shows "\<exists>a. SelectEpisodeAction exp64 log64 draw logits am ModeEvaluation T g = Inr (a, Fin 0, g) \<and>
    a < length logits \<and> available am a \<and>
    (\<forall>i < length logits. available am i \<longrightarrow> \<not> fp_lt (logits ! a) (logits ! i)) \<and>
    (\<forall>i < a. available am i \<longrightarrow> fp_lt (logits ! i) (logits ! a))"
  using greedy_action_spec [OF sel] sel
  by (auto simp: SelectEpisodeAction_def selectable_def)

text \<open>an input outside that contract, or an unspecified mode, is always an error: no action
  is ever produced from an empty or non-finite logit vector, a temperature that is not a
  positive finite number, or a mask that leaves no action available.\<close>

theorem selection_rejects:
  assumes "\<not> selectable logits am T \<or> mode = ModeUnspecified"
  shows "\<exists>e. SelectEpisodeAction exp64 log64 draw logits am mode T g = Inl e"
  using assms by (auto simp: SelectEpisodeAction_def selectable_def split: policy_mode.split)

section \<open>Instances\<close>

text \<open>A concrete \<open>exp\<close> and a concrete draw that meet their contracts.\<close>

definition step_exp :: "f64 \<Rightarrow> f64" where
  "step_exp x = (if x = Fin 0 then Fin 1 else Fin 0)"

definition first_positive :: "f64 list \<Rightarrow> 'g \<Rightarrow> nat \<times> 'g" where
  "first_positive ws g = (length (takeWhile (\<lambda>w. \<not> fp_lt (Fin 0) w) ws), g)"

lemma step_exp_spec: "exp_spec step_exp"
  by (simp add: exp_spec_def step_exp_def)

lemma length_takeWhile_less: "\<exists>x \<in> set xs. \<not> P x \<Longrightarrow> length (takeWhile P xs) < length xs"
  by (induction xs) auto

lemma first_positive_spec: "sampler_spec first_positive"
  unfolding sampler_spec_def
proof (intro allI impI)
  fix ws :: "f64 list" and g :: 'a
  assume "\<exists>w \<in> set ws. fp_lt (Fin 0) w"
  then have "length (takeWhile (\<lambda>w. \<not> fp_lt (Fin 0) w) ws) < length ws"
    by (intro length_takeWhile_less) auto
  moreover from this have "fp_lt (Fin 0) (ws ! length (takeWhile (\<lambda>w. \<not> fp_lt (Fin 0) w) ws))"
    using nth_length_takeWhile by fastforce
  ultimately show "fst (first_positive ws g) < length ws \<and>
      fp_lt (Fin 0) (ws ! fst (first_positive ws g))"
    by (simp add: first_positive_def)
qed

theorem training_selection_total_witness:
  "\<exists>action log_probability g'.
    SelectEpisodeAction step_exp id first_positive [Fin 1, Fin 2, Fin 3] [True, True, False]
      ModeTraining (Fin 1) () = Inr (action, log_probability, g') \<and>
    action < length [Fin 1, Fin 2, Fin 3] \<and> available [True, True, False] action"
proof -
  have "selectable [Fin 1, Fin 2, Fin 3] [True, True, False] (Fin 1)"
    by (simp add: selectable_def)
  moreover have "logit_range [Fin 1, Fin 2, Fin 3]"
    by (simp add: logit_range_def flt_max_def pow2_def)
  moreover have "length [Fin 1, Fin 2, Fin 3] < 4194304" by simp
  ultimately show ?thesis
    using step_exp_spec first_positive_spec by (rule training_selection_total)
qed

theorem evaluation_selection_greedy_witness:
  "\<exists>a. SelectEpisodeAction step_exp id first_positive [Fin 1, Fin 3, Fin 3, Fin 9]
      [True, True, True, False] ModeEvaluation (Fin 1) () = Inr (a, Fin 0, ()) \<and> a = 1"
proof -
  have sel: "selectable [Fin 1, Fin 3, Fin 3, Fin 9] [True, True, True, False] (Fin 1)"
    by (simp add: selectable_def)
  have "greedy_action [Fin 1, Fin 3, Fin 3, Fin 9] [True, True, True, False] = 1"
    by (simp add: greedy_action_def greedy_step_def available_def upt_rec numeral_eq_Suc)
  with evaluation_selection_greedy [OF sel, of step_exp id first_positive "()"]
  show ?thesis by (simp add: SelectEpisodeAction_def)
qed

theorem selection_rejects_witness:
  "\<exists>e. SelectEpisodeAction step_exp id first_positive [Fin 1] [False] ModeTraining (Fin 1) () = Inl e"
  by (rule selection_rejects) (simp add: selectable_def)

end
