(* ===== verification/Task_Types.thy ===== *)
theory Task_Types
  imports Policy
begin

text \<open>
  The data shared by the runtime, its transactions and the RPC service: configuration
  (\<open>task/config\<close>), rewards (\<open>task/reward\<close>), model manifests (\<open>task/model\<close>), raw transitions
  (\<open>task/sample/rollout_types.h\<close>), the per-Agent training state and the session
  (\<open>task/session/training_session.h\<close>).  Signed counters are \<open>int\<close> (their overflow is undefined
  behaviour in C++), unsigned 64 bit ones are \<open>u64\<close>.  A prepared ONNX session is an opaque handle.
\<close>

section \<open>Configuration\<close>

text \<open>\<open>aiserver_mode\<close>: run modes are plain integers.\<close>

definition kTraining :: int where "kTraining = 1"
definition kEvaluation :: int where "kEvaluation = 2"

definition parse_mode :: "string \<Rightarrow> int" where
  "parse_mode value =
     (if value = ''training'' then kTraining else if value = ''evaluation'' then kEvaluation else 0)"

definition workload_name :: "int \<Rightarrow> string" where
  "workload_name mode =
     (if mode = kTraining then ''training'' else if mode = kEvaluation then ''evaluation''
      else ''unknown'')"

definition is_valid_mode :: "int \<Rightarrow> bool" where
  "is_valid_mode mode = (mode = kTraining \<or> mode = kEvaluation)"

definition exposes_training_status :: "int \<Rightarrow> bool" where
  "exposes_training_status mode = (mode = kTraining)"

lemma workload_parse [simp]: "is_valid_mode m \<Longrightarrow> parse_mode (workload_name m) = m"
  by (auto simp: is_valid_mode_def workload_name_def parse_mode_def kTraining_def kEvaluation_def)

record training_config =
  reward_metric_interval_ms :: int
  run_mode :: int
  max_agents :: int
  startup_timeout_ms :: int
  expected_obs_dim :: int
  expected_action_dim :: int
  training_temperature :: f64
  sampling_seed :: u32
  action_mask_mode :: string
  gamma :: f64
  gae_lambda :: f64
  tmax :: u32
  poll_interval_ms :: int
  model_rpc_timeout_ms :: int
  distributor_enabled :: bool
  envelope_max_transitions :: int
  envelope_max_bytes :: nat
  rpc_timeout_ms :: int
  max_attempts :: int
  enqueue_timeout_ms :: int
  drain_timeout_ms :: int
  recovery_timeout_ms :: int
  outbound_max_envelopes :: nat
  outbound_max_estimated_bytes :: nat
  aiserver_id :: string

definition default_config :: training_config where
  "default_config =
    \<lparr>reward_metric_interval_ms = 5000, run_mode = kEvaluation, max_agents = 10,
     startup_timeout_ms = 30000, expected_obs_dim = 0, expected_action_dim = 0,
     training_temperature = Fin 0, sampling_seed = 0, action_mask_mode = [],
     gamma = rnd64 (99 / 100), gae_lambda = rnd64 (95 / 100), tmax = 128,
     poll_interval_ms = 200, model_rpc_timeout_ms = 5000, distributor_enabled = True,
     envelope_max_transitions = 128, envelope_max_bytes = 8 * 1024 * 1024,
     rpc_timeout_ms = 2000, max_attempts = 4, enqueue_timeout_ms = 100,
     drain_timeout_ms = 10000, recovery_timeout_ms = 30000, outbound_max_envelopes = 64,
     outbound_max_estimated_bytes = 64 * 1024 * 1024, aiserver_id = ''aiserver-0''\<rparr>"

section \<open>Rewards and models\<close>

record reward_result =
  rw_valid :: bool
  rw_error :: string
  rw_total :: f32
  rw_items :: "(string \<times> f32) list"

record service_identity =
  component :: string
  instance_id :: string
  lifecycle_epoch :: u64

record model_identity =
  id_lineage :: string
  id_step :: "u64 option"

text \<open>An unset sub-message reads as its default: empty lineage, absent step.\<close>

definition no_identity :: model_identity where
  "no_identity = \<lparr>id_lineage = [], id_step = None\<rparr>"

record model_manifest =
  wire_identity :: "model_identity option"
  size_bytes :: int
  published_at_unix_ms :: int
  trained_samples :: u64
  model_path :: string

definition empty_manifest :: model_manifest where
  "empty_manifest =
    \<lparr>wire_identity = None, size_bytes = 0, published_at_unix_ms = 0, trained_samples = 0,
     model_path = []\<rparr>"

definition manifest_identity :: "model_manifest \<Rightarrow> model_identity" where
  "manifest_identity m = (case wire_identity m of None \<Rightarrow> no_identity | Some i \<Rightarrow> i)"

definition HasModelIdentity :: "model_manifest \<Rightarrow> bool" where
  "HasModelIdentity m =
     (case wire_identity m of None \<Rightarrow> False
      | Some i \<Rightarrow> id_step i \<noteq> None \<and> id_lineage i \<noteq> [])"

definition model_step :: "model_manifest \<Rightarrow> u64" where
  "model_step m = (case id_step (manifest_identity m) of None \<Rightarrow> 0 | Some s \<Rightarrow> s)"

definition model_lineage_id :: "model_manifest \<Rightarrow> string" where
  "model_lineage_id m = id_lineage (manifest_identity m)"

lemma empty_manifest_no_identity [simp]: "\<not> HasModelIdentity empty_manifest"
  by (simp add: HasModelIdentity_def empty_manifest_def)

lemma HasModelIdentity_lineage: "HasModelIdentity m \<Longrightarrow> model_lineage_id m \<noteq> []"
  by (auto simp: HasModelIdentity_def model_lineage_id_def manifest_identity_def split: option.splits)

record prepared_model =
  prep_session :: "nat option"
  prep_path :: string

definition no_prepared :: prepared_model where
  "no_prepared = \<lparr>prep_session = None, prep_path = []\<rparr>"

definition prepared_valid :: "prepared_model \<Rightarrow> bool" where
  "prepared_valid p = (prep_session p \<noteq> None)"

lemma no_prepared_invalid [simp]: "\<not> prepared_valid no_prepared"
  by (simp add: prepared_valid_def no_prepared_def)

section \<open>Transitions\<close>

record raw_transition =
  observation :: "f32 list"
  next_observation :: "f32 list"
  action :: int
  reward :: f32
  behavior_log_probability :: f32
  behavior_value :: f32
  action_mask :: "bool list"
  action_step :: u64
  created_at_unix_ms :: int

record processed_transition =
  item_id :: string
  p_observation :: "f32 list"
  p_action :: int
  p_behavior_log_probability :: f32
  p_behavior_value :: f32
  p_advantage :: f32
  p_value_target :: f32
  p_behavior_model_step :: u64
  p_created_at_unix_ms :: int
  p_action_mask :: "bool list"

record envelope =
  envelope_id :: string
  producer :: service_identity
  env_behavior_model :: model_identity
  samples :: "processed_transition list"

section \<open>Agent and session state\<close>

record agent =
  done_collected :: bool
  has_pending_action :: bool
  pending_action :: int
  pending_action_frame_id :: int
  pending_log_prob :: f32
  pending_value :: f32
  pending_obs :: "f32 list"
  pending_action_mask :: "bool list"
  segment_open :: bool
  segment_id :: string
  pinned_model :: model_manifest
  pinned_prepared_model :: prepared_model
  segment_transitions :: "raw_transition list"
  last_completed_transition_at_unix_ms :: int
  terminal_frame_id :: int
  episode_return :: f64
  episode_transition_count :: int
  episode_behavior_model_seen :: bool
  minimum_episode_behavior_model_step :: u64
  maximum_episode_behavior_model_step :: u64
  episode_behavior_model_lineage_id :: string
  reward_component_sums :: "(string, f64) table"
  observation_done :: bool
  last_observation_frame_id :: int
  activated_model_seen :: bool
  last_activated_model_step :: u64
  last_activated_model_lineage_id :: string

definition agent_ResetForEpisode :: "agent \<Rightarrow> agent" where
  "agent_ResetForEpisode a =
     a\<lparr>done_collected := False, has_pending_action := False, pending_action := 0,
       pending_action_frame_id := -1, pending_log_prob := Fin 0, pending_value := Fin 0,
       pending_obs := [], pending_action_mask := [], segment_open := False, segment_id := [],
       pinned_model := empty_manifest, pinned_prepared_model := no_prepared,
       segment_transitions := [], last_completed_transition_at_unix_ms := 0,
       observation_done := False, last_observation_frame_id := -1,
       terminal_frame_id := -1, episode_return := Fin 0, episode_transition_count := 0,
       episode_behavior_model_seen := False, minimum_episode_behavior_model_step := 0,
       maximum_episode_behavior_model_step := 0, episode_behavior_model_lineage_id := [],
       reward_component_sums := []\<rparr>"

definition new_agent :: agent where
  "new_agent =
    \<lparr>done_collected = False, has_pending_action = False, pending_action = 0,
     pending_action_frame_id = -1, pending_log_prob = Fin 0, pending_value = Fin 0,
     pending_obs = [], pending_action_mask = [], segment_open = False, segment_id = [],
     pinned_model = empty_manifest, pinned_prepared_model = no_prepared,
     segment_transitions = [], last_completed_transition_at_unix_ms = 0,
     terminal_frame_id = -1, episode_return = Fin 0, episode_transition_count = 0,
     episode_behavior_model_seen = False, minimum_episode_behavior_model_step = 0,
     maximum_episode_behavior_model_step = 0, episode_behavior_model_lineage_id = [],
     reward_component_sums = [], observation_done = False,
     last_observation_frame_id = -1, activated_model_seen = False,
     last_activated_model_step = 0, last_activated_model_lineage_id = []\<rparr>"

lemma ResetForEpisode_new [simp]: "agent_ResetForEpisode new_agent = new_agent"
  by (simp add: agent_ResetForEpisode_def new_agent_def)

datatype session_phase =
  PhaseUnspecified | PhaseOpen | PhaseReady | PhaseEpisodeRunning | PhaseEpisodeTerminal |
  PhaseAborted | PhaseTaskComplete | PhaseClosed

datatype behavior_policy_scope = ScopeUnspecified | TrainingAgentSegment | EvaluationEpisode

text \<open>\<open>LifecycleReplayWindow\<close>: the last applied command, its payload and its response.\<close>

record replay_window =
  rp_present :: bool
  rp_sequence :: u64
  rp_payload :: string
  rp_response :: string

definition new_replay :: replay_window where
  "new_replay = \<lparr>rp_present = False, rp_sequence = 0, rp_payload = [], rp_response = []\<rparr>"

text \<open>\<open>RewardMetricWindow\<close>.\<close>

record reward_window =
  rm_started_at :: int
  rm_count :: u64
  rm_total :: f64
  rm_components :: "(string, f64) table"

definition new_reward_window :: reward_window where
  "new_reward_window =
     \<lparr>rm_started_at = 0, rm_count = 0, rm_total = Fin 0, rm_components = []\<rparr>"

definition add_component :: "(string, f64) table \<Rightarrow> string \<times> f32 \<Rightarrow> (string, f64) table" where
  "add_component m item =
     put_sorted (fst item)
       (f64_add (case map_of m (fst item) of None \<Rightarrow> Fin 0 | Some v \<Rightarrow> v) (snd item)) m"

definition reward_Observe ::
  "f64 \<Rightarrow> (string \<times> f32) list \<Rightarrow> int \<Rightarrow> reward_window \<Rightarrow> reward_window" where
  "reward_Observe value items now w =
     \<lparr>rm_started_at = (if rm_count w = 0 then now else rm_started_at w),
      rm_count = rm_count w + 1,
      rm_total = f64_add (rm_total w) value,
      rm_components = foldl add_component (rm_components w) items\<rparr>"

record session =
  reward_metrics :: reward_window
  session_id :: string
  client :: service_identity
  environment_instance_id :: string
  last_valid_client_activity_unix_ms :: int
  session_epoch :: u64
  last_command_sequence :: u64
  phase :: session_phase
  command_replay :: replay_window
  workload_mode :: policy_mode
  agents :: "(int, agent) table"
  current_episode_id :: string
  last_frame_id :: int
  current_episode_mode :: policy_mode
  scope :: behavior_policy_scope
  evaluation_pinned_model_lineage_id :: string
  evaluation_pinned_model_step :: u64

definition no_service :: service_identity where
  "no_service = \<lparr>component = [], instance_id = [], lifecycle_epoch = 0\<rparr>"

definition new_session :: "string \<Rightarrow> session" where
  "new_session sid =
    \<lparr>reward_metrics = new_reward_window, session_id = sid, client = no_service,
     environment_instance_id = [], last_valid_client_activity_unix_ms = 0, session_epoch = 0,
     last_command_sequence = 0, phase = PhaseOpen, command_replay = new_replay,
     workload_mode = ModeUnspecified, agents = [], current_episode_id = [],
     last_frame_id = -1, current_episode_mode = ModeUnspecified, scope = ScopeUnspecified,
     evaluation_pinned_model_lineage_id = [], evaluation_pinned_model_step = 0\<rparr>"

definition session_ResetForEpisode :: "string \<Rightarrow> session \<Rightarrow> session" where
  "session_ResetForEpisode episode s =
     s\<lparr>current_episode_id := episode, last_frame_id := -1,
       agents := map (\<lambda>(i, a). (i, agent_ResetForEpisode a)) (agents s)\<rparr>"

text \<open>Nothing of the Agent is in flight: no pending action and no segment.\<close>

definition agent_idle :: "agent \<Rightarrow> bool" where
  "agent_idle a \<longleftrightarrow>
     \<not> has_pending_action a \<and> \<not> segment_open a \<and> segment_id a = [] \<and> segment_transitions a = []"

lemma ResetForEpisode_idle: "agent_idle (agent_ResetForEpisode a)"
  by (simp add: agent_idle_def agent_ResetForEpisode_def)

end
