(* ===== verification/Rollout.thy ===== *)
theory Rollout
  imports Task_Types
begin

text \<open>
  \<open>src/task/sample\<close>: one trusted transition (\<open>BuildRawRolloutTransition\<close>), the backward GAE
  estimator (\<open>EstimateRolloutSegment\<close>) and the projection onto wire transitions
  (\<open>ProjectProcessedSegment\<close>).  The estimator is written over a rounding: the code is the
  instance at binary64, exact arithmetic gives the textbook sum it is compared with.
\<close>

section \<open>One transition\<close>

text \<open>The mask test both builders make; the chosen action must itself be available.\<close>

definition mask_valid :: "string \<Rightarrow> int \<Rightarrow> bool list \<Rightarrow> int \<Rightarrow> bool" where
  "mask_valid mode action_count am act \<longleftrightarrow>
     (mode = ''disabled'' \<and> am = []) \<or>
     (mode = ''required'' \<and> int (length am) = action_count \<and> True \<in> set am \<and>
      0 \<le> act \<and> act < action_count \<and> am ! nat act)"

definition BuildRawRolloutTransition ::
  "agent \<Rightarrow> f32 list \<Rightarrow> reward_result \<Rightarrow> int \<Rightarrow> int \<Rightarrow> string \<Rightarrow> int \<Rightarrow> string + raw_transition" where
  "BuildRawRolloutTransition a next_obs rw obs_dim act_dim mode now_ms =
     (if \<not> has_pending_action a \<or> \<not> segment_open a \<or>
         \<not> prepared_valid (pinned_prepared_model a) \<or> \<not> rw_valid rw \<or>
         pending_action_frame_id a < 0 \<or> pending_action a < 0 \<or> pending_action a \<ge> act_dim \<or>
         int (length (pending_obs a)) \<noteq> obs_dim \<or> int (length next_obs) \<noteq> obs_dim \<or>
         \<not> list_all isfinite (pending_obs a) \<or> \<not> list_all isfinite next_obs \<or>
         \<not> isfinite (pending_log_prob a) \<or> \<not> isfinite (pending_value a) \<or>
         \<not> mask_valid mode act_dim (pending_action_mask a) (pending_action a) \<or>
         \<not> isfinite (rw_total rw)
      then Inl ''trusted rollout transition inputs are incomplete or non-finite''
      else if segment_transitions a \<noteq> [] \<and>
              word_of_int (pending_action_frame_id a) \<noteq> action_step (last (segment_transitions a)) + 1
      then Inl ''single-Agent segment action steps are not contiguous''
      else Inr \<lparr>observation = pending_obs a, next_observation = next_obs,
                action = pending_action a, reward = rw_total rw,
                behavior_log_probability = pending_log_prob a,
                behavior_value = pending_value a, action_mask = pending_action_mask a,
                action_step = word_of_int (pending_action_frame_id a),
                created_at_unix_ms = now_ms\<rparr>)"

section \<open>The estimator\<close>

text \<open>
  The loop runs from the last transition to the first and carries the advantage and the value
  of the following one; here the tail is processed before the head.
\<close>

definition out_of_float :: "f64 \<Rightarrow> bool" where
  "out_of_float x = (fp_lt x (Fin (- flt_max)) \<or> fp_lt (Fin flt_max) x)"

definition gae_delta :: "(rat \<Rightarrow> fp) \<Rightarrow> f64 \<Rightarrow> raw_transition \<Rightarrow> f64 \<Rightarrow> f64" where
  "gae_delta rnd g t next_value =
     fp_sub_with rnd (fp_add_with rnd (reward t) (fp_mul_with rnd g next_value)) (behavior_value t)"

definition gae_advantage :: "(rat \<Rightarrow> fp) \<Rightarrow> f64 \<Rightarrow> f64 \<Rightarrow> f64 \<Rightarrow> f64 \<Rightarrow> f64" where
  "gae_advantage rnd g l delta next_advantage =
     fp_add_with rnd delta (fp_mul_with rnd (fp_mul_with rnd g l) next_advantage)"

fun gae_loop ::
  "(rat \<Rightarrow> fp) \<Rightarrow> f64 \<Rightarrow> f64 \<Rightarrow> f64 \<Rightarrow> raw_transition list \<Rightarrow>
   string + (f64 list \<times> f64 list \<times> f64 \<times> f64)" where
  "gae_loop rnd g l final_next_value [] = Inr ([], [], Fin 0, final_next_value)"
| "gae_loop rnd g l final_next_value (t # ts) =
     and_then (gae_loop rnd g l final_next_value ts)
       (\<lambda>(advantages, value_targets, next_advantage, next_value).
         if \<not> isfinite (reward t) \<or> \<not> isfinite (behavior_value t)
         then Inl ''rollout segment contains a non-finite scalar''
         else
           let delta = gae_delta rnd g t next_value;
               advantage = gae_advantage rnd g l delta next_advantage;
               value_target = fp_add_with rnd advantage (behavior_value t)
           in if \<not> isfinite delta \<or> \<not> isfinite advantage \<or> \<not> isfinite value_target \<or>
                 out_of_float advantage \<or> out_of_float value_target
              then Inl ''rollout estimator produced a non-finite float result''
              else Inr (advantage # advantages, value_target # value_targets,
                        advantage, behavior_value t))"

definition estimate_with ::
  "(rat \<Rightarrow> fp) \<Rightarrow> raw_transition list \<Rightarrow> f64 \<Rightarrow> f64 \<Rightarrow> f64 \<Rightarrow> string + (f32 list \<times> f32 list)" where
  "estimate_with rnd segment g l final_next_value =
     (if segment = [] \<or> \<not> isfinite g \<or> \<not> isfinite l \<or> \<not> isfinite final_next_value
      then Inl ''rollout estimator inputs are empty or non-finite''
      else and_then (gae_loop rnd g l final_next_value segment)
             (\<lambda>(advantages, value_targets, _, _).
                Inr (map to_f32 advantages, map to_f32 value_targets)))"

definition EstimateRolloutSegment ::
  "raw_transition list \<Rightarrow> f64 \<Rightarrow> f64 \<Rightarrow> f64 \<Rightarrow> string + (f32 list \<times> f32 list)" where
  "EstimateRolloutSegment = estimate_with rnd64"

section \<open>The projection\<close>

definition vec_eq :: "f32 list \<Rightarrow> f32 list \<Rightarrow> bool" where
  "vec_eq xs ys = list_all2 fp_eq xs ys"

text \<open>One iteration: the checks on element \<open>index\<close>, whose successor (if any) is \<open>rest\<close>'s head.\<close>

definition project_item_ok ::
  "int \<Rightarrow> int \<Rightarrow> string \<Rightarrow> u64 \<Rightarrow> raw_transition \<Rightarrow> raw_transition list \<Rightarrow> f32 \<Rightarrow> f32 \<Rightarrow> bool" where
  "project_item_ok obs_dim act_count mode expected_step raw rest adv vt \<longleftrightarrow>
     int (length (observation raw)) = obs_dim \<and> int (length (next_observation raw)) = obs_dim \<and>
     0 \<le> action raw \<and> action raw < act_count \<and>
     mask_valid mode act_count (action_mask raw) (action raw) \<and>
     action_step raw = expected_step \<and> 0 < created_at_unix_ms raw \<and>
     list_all isfinite (observation raw) \<and> list_all isfinite (next_observation raw) \<and>
     isfinite (reward raw) \<and> isfinite (behavior_log_probability raw) \<and>
     isfinite (behavior_value raw) \<and> isfinite adv \<and> isfinite vt \<and>
     (case rest of [] \<Rightarrow> True | succ # _ \<Rightarrow> vec_eq (next_observation raw) (observation succ))"

definition project_item ::
  "string \<Rightarrow> model_identity \<Rightarrow> nat \<Rightarrow> raw_transition \<Rightarrow> f32 \<Rightarrow> f32 \<Rightarrow> processed_transition" where
  "project_item sid identity index raw adv vt =
     \<lparr>item_id = sid @ ''/transition-'' @ dec index, p_observation = observation raw,
      p_action = action raw, p_behavior_log_probability = behavior_log_probability raw,
      p_behavior_value = behavior_value raw, p_advantage = adv, p_value_target = vt,
      p_behavior_model_step = (case id_step identity of None \<Rightarrow> 0 | Some s \<Rightarrow> s),
      p_created_at_unix_ms = created_at_unix_ms raw, p_action_mask = action_mask raw\<rparr>"

fun project_loop ::
  "string \<Rightarrow> model_identity \<Rightarrow> int \<Rightarrow> int \<Rightarrow> string \<Rightarrow> nat \<Rightarrow> u64 \<Rightarrow>
   raw_transition list \<Rightarrow> f32 list \<Rightarrow> f32 list \<Rightarrow> string + processed_transition list" where
  "project_loop sid identity od ac mode index step (raw # raws) (adv # advs) (vt # vts) =
     (if \<not> project_item_ok od ac mode step raw raws adv vt
      then Inl ''processed segment contains an invalid transition''
      else and_then (project_loop sid identity od ac mode (Suc index) (step + 1) raws advs vts)
             (\<lambda>items. Inr (project_item sid identity index raw adv vt # items)))"
| "project_loop sid identity od ac mode index step _ _ _ = Inr []"

definition ProjectProcessedSegment ::
  "raw_transition list \<Rightarrow> f32 list \<Rightarrow> f32 list \<Rightarrow> string \<Rightarrow> model_identity \<Rightarrow> int \<Rightarrow> int \<Rightarrow> string \<Rightarrow>
   string + processed_transition list" where
  "ProjectProcessedSegment raws advs vts sid identity obs_dim act_count mode =
     (if raws = [] \<or> length advs \<noteq> length raws \<or> length vts \<noteq> length raws \<or> sid = [] \<or>
         obs_dim \<le> 0 \<or> act_count \<le> 0 \<or> id_lineage identity = [] \<or> id_step identity = None
      then Inl ''processed segment identity or estimator output is incomplete''
      else project_loop sid identity obs_dim act_count mode 0 (action_step (hd raws)) raws advs vts)"

section \<open>Segments as the runtime builds them\<close>

text \<open>
  What \<open>BuildRawRolloutTransition\<close> guarantees of each transition, and what the runtime keeps
  between neighbours: consecutive action steps and matching observations.
\<close>

definition transition_ok :: "int \<Rightarrow> int \<Rightarrow> string \<Rightarrow> raw_transition \<Rightarrow> bool" where
  "transition_ok obs_dim act_count mode t \<longleftrightarrow>
     int (length (observation t)) = obs_dim \<and> int (length (next_observation t)) = obs_dim \<and>
     0 \<le> action t \<and> action t < act_count \<and> mask_valid mode act_count (action_mask t) (action t) \<and>
     0 < created_at_unix_ms t \<and> list_all isfinite (observation t) \<and>
     list_all isfinite (next_observation t) \<and> isfinite (reward t) \<and>
     isfinite (behavior_log_probability t) \<and> isfinite (behavior_value t)"

definition linked :: "raw_transition \<Rightarrow> raw_transition \<Rightarrow> bool" where
  "linked t u \<longleftrightarrow> action_step u = action_step t + 1 \<and> observation u = next_observation t"

definition segment_ok :: "int \<Rightarrow> int \<Rightarrow> string \<Rightarrow> raw_transition list \<Rightarrow> bool" where
  "segment_ok obs_dim act_count mode ts \<longleftrightarrow>
     (\<forall>t \<in> set ts. transition_ok obs_dim act_count mode t) \<and> successively linked ts"

lemma segment_ok_Nil [simp]: "segment_ok od ac mode []"
  by (simp add: segment_ok_def)

lemma segment_ok_Cons:
  "segment_ok od ac mode (t # ts) \<longleftrightarrow>
     transition_ok od ac mode t \<and> segment_ok od ac mode ts \<and>
     (case ts of [] \<Rightarrow> True | u # _ \<Rightarrow> linked t u)"
  by (cases ts) (auto simp: segment_ok_def)

lemma segment_ok_snoc:
  "segment_ok od ac mode (ts @ [u]) \<longleftrightarrow>
     segment_ok od ac mode ts \<and> transition_ok od ac mode u \<and> (ts \<noteq> [] \<longrightarrow> linked (last ts) u)"
  by (auto simp: segment_ok_def successively_append_iff)

lemma Build_transition_ok:
  assumes "BuildRawRolloutTransition a next_obs rw od ac mode now_ms = Inr t" "0 < now_ms"
  shows "transition_ok od ac mode t"
  using assms by (auto simp: BuildRawRolloutTransition_def transition_ok_def split: if_splits)

lemma Build_result:
  assumes "BuildRawRolloutTransition a next_obs rw od ac mode now_ms = Inr t"
  shows "observation t = pending_obs a" "next_observation t = next_obs" "reward t = rw_total rw"
    "action t = pending_action a" "behavior_value t = pending_value a"
    "action_step t = word_of_int (pending_action_frame_id a)" "created_at_unix_ms t = now_ms"
    "has_pending_action a" "segment_open a"
    "segment_transitions a \<noteq> [] \<Longrightarrow> action_step t = action_step (last (segment_transitions a)) + 1"
  using assms by (auto simp: BuildRawRolloutTransition_def split: if_splits)

text \<open>
  Appending a built transition keeps a segment well formed, provided the pending observation
  is the one the last transition ended in.
\<close>

lemma Build_extends_segment:
  assumes "BuildRawRolloutTransition a next_obs rw od ac mode now_ms = Inr t" "0 < now_ms"
    and "segment_ok od ac mode (segment_transitions a)"
    and "segment_transitions a \<noteq> [] \<longrightarrow>
           pending_obs a = next_observation (last (segment_transitions a))"
  shows "segment_ok od ac mode (segment_transitions a @ [t])"
  using assms Build_transition_ok [OF assms(1,2)] Build_result [OF assms(1)]
  by (auto simp: segment_ok_snoc linked_def)

section \<open>What the loop computes\<close>

definition next_value_at :: "f64 \<Rightarrow> raw_transition list \<Rightarrow> nat \<Rightarrow> f64" where
  "next_value_at final_next_value ts i =
     (if Suc i < length ts then behavior_value (ts ! Suc i) else final_next_value)"

definition next_advantage_at :: "f64 list \<Rightarrow> nat \<Rightarrow> f64" where
  "next_advantage_at advantages i =
     (if Suc i < length advantages then advantages ! Suc i else Fin 0)"

lemma gae_loop_Cons:
  "gae_loop rnd g l fv (t # ts) = Inr (advs, vts, na, nv) \<longleftrightarrow>
     (\<exists>advs' vts' na' nv'. gae_loop rnd g l fv ts = Inr (advs', vts', na', nv') \<and>
        isfinite (reward t) \<and> isfinite (behavior_value t) \<and>
        na = gae_advantage rnd g l (gae_delta rnd g t nv') na' \<and>
        isfinite (gae_delta rnd g t nv') \<and> isfinite na \<and> \<not> out_of_float na \<and>
        isfinite (fp_add_with rnd na (behavior_value t)) \<and>
        \<not> out_of_float (fp_add_with rnd na (behavior_value t)) \<and>
        advs = na # advs' \<and> vts = fp_add_with rnd na (behavior_value t) # vts' \<and>
        nv = behavior_value t)"
  by (auto simp: and_then_Inr Let_def split: if_splits prod.splits)

declare gae_loop.simps(2) [simp del]

lemma gae_loop_length:
  "gae_loop rnd g l fv ts = Inr (advs, vts, na, nv) \<Longrightarrow>
     length advs = length ts \<and> length vts = length ts"
  by (induction ts arbitrary: advs vts na nv) (auto simp: gae_loop_Cons)

lemma gae_loop_carry:
  "gae_loop rnd g l fv ts = Inr (advs, vts, na, nv) \<Longrightarrow>
     na = (if ts = [] then Fin 0 else hd advs) \<and>
     nv = (if ts = [] then fv else behavior_value (hd ts))"
  by (cases ts) (auto simp: gae_loop_Cons)

lemma gae_loop_recurrence:
  assumes "gae_loop rnd g l fv ts = Inr (advs, vts, na, nv)" "i < length ts"
  shows "advs ! i = gae_advantage rnd g l (gae_delta rnd g (ts ! i) (next_value_at fv ts i))
                      (next_advantage_at advs i) \<and>
         vts ! i = fp_add_with rnd (advs ! i) (behavior_value (ts ! i))"
  using assms
proof (induction ts arbitrary: advs vts na nv i)
  case (Cons t ts)
  then obtain advs' vts' na' nv' where
    tl: "gae_loop rnd g l fv ts = Inr (advs', vts', na', nv')" and
    hd: "advs = na # advs'" "vts = fp_add_with rnd na (behavior_value t) # vts'"
    "na = gae_advantage rnd g l (gae_delta rnd g t nv') na'"
    by (auto simp: gae_loop_Cons)
  note len = gae_loop_length [OF tl] and carry = gae_loop_carry [OF tl]
  show ?case
  proof (cases i)
    case 0
    have "na' = next_advantage_at advs 0" "nv' = next_value_at fv (t # ts) 0"
      using carry len hd(1)
      by (cases ts; cases advs'; auto simp: next_advantage_at_def next_value_at_def)+
    moreover have "advs ! i = na" "vts ! i = fp_add_with rnd na (behavior_value t)"
      "(t # ts) ! i = t"
      using 0 hd(1,2) by simp_all
    ultimately show ?thesis using 0 hd(3) by metis
  next
    case (Suc j)
    with Cons.prems have j: "j < length ts" by simp
    have "next_advantage_at advs i = next_advantage_at advs' j"
      "next_value_at fv (t # ts) i = next_value_at fv ts j"
      using Suc hd(1) by (simp_all add: next_advantage_at_def next_value_at_def)
    with Cons.IH [OF tl j] Suc hd show ?thesis by simp
  qed
qed simp

lemma in_float_range:
  "isfinite x \<Longrightarrow> \<not> out_of_float x \<Longrightarrow> \<exists>q. to_f32 x = Fin q \<and> - flt_max \<le> q \<and> q \<le> flt_max"
  by (cases x) (use to_f32_in_range in \<open>auto simp: out_of_float_def not_less\<close>)

lemma gae_loop_in_range:
  "gae_loop rnd g l fv ts = Inr (advs, vts, na, nv) \<Longrightarrow> x \<in> set advs \<union> set vts \<Longrightarrow>
     isfinite x \<and> \<not> out_of_float x"
  by (induction ts arbitrary: advs vts na nv) (auto simp: gae_loop_Cons)

lemma estimate_Inr:
  assumes "estimate_with rnd segment g l fv = Inr (advs, vts)"
  obtains as vs na nv where "gae_loop rnd g l fv segment = Inr (as, vs, na, nv)"
    "advs = map to_f32 as" "vts = map to_f32 vs" "segment \<noteq> []"
    "isfinite g" "isfinite l" "isfinite fv"
  using assms by (auto simp: estimate_with_def and_then_Inr split: if_splits prod.splits)

text \<open>a successful estimate has one advantage and one value target per transition, each a
  finite \<open>float\<close>: the estimator never hands a NaN, an infinity or an out-of-range value on.\<close>

theorem estimate_outputs_finite:
  assumes "EstimateRolloutSegment segment g l final_next_value = Inr (advantages, value_targets)"
  shows "length advantages = length segment \<and> length value_targets = length segment \<and>
    (\<forall>x \<in> set advantages \<union> set value_targets.
       is_f32 x \<and> (\<exists>q. x = Fin q \<and> - flt_max \<le> q \<and> q \<le> flt_max))"
proof -
  obtain as vs na nv where e: "gae_loop rnd64 g l final_next_value segment = Inr (as, vs, na, nv)"
    "advantages = map to_f32 as" "value_targets = map to_f32 vs"
    using assms unfolding EstimateRolloutSegment_def by (rule estimate_Inr)
  then show ?thesis
    using gae_loop_length [OF e(1)] gae_loop_in_range [OF e(1)] in_float_range to_f32_is_f32
    by auto
qed

text \<open>the estimator is the backward GAE recurrence in binary64: with the double advantages
  \<open>as\<close>, every advantage is \<open>delta_i + (gamma * lambda) * as_(i+1)\<close> with
  \<open>delta_i = (reward_i + gamma * V_(i+1)) - V_i\<close>, the caller's bootstrap value after the last
  transition, and every value target is \<open>as_i + V_i\<close>; the outputs are their casts to \<open>float\<close>.\<close>

theorem estimate_recurrence:
  assumes "EstimateRolloutSegment segment g l final_next_value = Inr (advantages, value_targets)"
  shows "\<exists>as. length as = length segment \<and> advantages = map to_f32 as \<and>
    (\<forall>i < length segment.
       as ! i = f64_add
         (f64_sub (f64_add (reward (segment ! i))
                           (f64_mul g (next_value_at final_next_value segment i)))
                  (behavior_value (segment ! i)))
         (f64_mul (f64_mul g l) (next_advantage_at as i)) \<and>
       value_targets ! i = to_f32 (f64_add (as ! i) (behavior_value (segment ! i))))"
proof -
  obtain as vs na nv where e: "gae_loop rnd64 g l final_next_value segment = Inr (as, vs, na, nv)"
    "advantages = map to_f32 as" "value_targets = map to_f32 vs"
    using assms unfolding EstimateRolloutSegment_def by (rule estimate_Inr)
  then show ?thesis
    using gae_loop_length [OF e(1)] gae_loop_recurrence [OF e(1)]
    by (intro exI [of _ as]) (simp add: gae_advantage_def gae_delta_def)
qed

section \<open>The textbook sum\<close>

fun val :: "fp \<Rightarrow> rat" where
  "val (Fin r) = r"
| "val _ = 0"

definition td_error :: "rat \<Rightarrow> rat \<Rightarrow> raw_transition list \<Rightarrow> nat \<Rightarrow> rat" where
  "td_error g fv ts i =
     val (reward (ts ! i)) + g * val (next_value_at (Fin fv) ts i) - val (behavior_value (ts ! i))"

definition gae_sum :: "rat \<Rightarrow> rat \<Rightarrow> rat \<Rightarrow> raw_transition list \<Rightarrow> nat \<Rightarrow> rat" where
  "gae_sum g l fv ts i = (\<Sum>k < length ts - i. (g * l) ^ k * td_error g fv ts (i + k))"

lemma gae_sum_step:
  assumes "i < length ts"
  shows "gae_sum g l fv ts i = td_error g fv ts i + g * l * gae_sum g l fv ts (Suc i)"
proof -
  obtain m where m: "length ts - i = Suc m" using assms by (metis Suc_diff_Suc)
  then have "length ts - Suc i = m" by simp
  then show ?thesis
    by (simp add: gae_sum_def m sum.lessThan_Suc_shift sum_distrib_left mult.assoc
        del: sum.lessThan_Suc)
qed

lemma gae_loop_exact:
  assumes loop: "gae_loop Fin (Fin g) (Fin l) (Fin fv) ts = Inr (as, vs, na, nv)"
    and "i < length ts"
  shows "as ! i = Fin (gae_sum g l fv ts i)"
  using assms(2)
proof (induction "length ts - i" arbitrary: i)
  case (Suc n)
  have fin: "isfinite (reward t) \<and> isfinite (behavior_value t)" if "t \<in> set ts" for t
    using loop that by (induction ts arbitrary: as vs na nv) (auto simp: gae_loop_Cons)
  note len = gae_loop_length [OF loop]
  have adv: "next_advantage_at as i = Fin (gae_sum g l fv ts (Suc i))"
    using Suc.hyps(1) [of "Suc i"] Suc.hyps(2) Suc.prems len
    by (auto simp: next_advantage_at_def gae_sum_def)
  obtain r v where rv: "reward (ts ! i) = Fin r" "behavior_value (ts ! i) = Fin v"
    using fin [of "ts ! i"] Suc.prems by (auto simp: isfinite_iff)
  obtain w where w: "next_value_at (Fin fv) ts i = Fin w"
    using fin [of "ts ! Suc i"] by (cases "Suc i < length ts") (auto simp: next_value_at_def isfinite_iff)
  have "as ! i = gae_advantage Fin (Fin g) (Fin l)
      (gae_delta Fin (Fin g) (ts ! i) (next_value_at (Fin fv) ts i)) (next_advantage_at as i)"
    using gae_loop_recurrence [OF loop Suc.prems] by simp
  also have "\<dots> = Fin (td_error g fv ts i + g * l * gae_sum g l fv ts (Suc i))"
    by (simp add: gae_advantage_def gae_delta_def adv rv w fp_sub_with_def td_error_def)
  finally show ?case using gae_sum_step [OF Suc.prems] by simp
qed simp

text \<open>C22: run in exact arithmetic, the same loop computes the textbook generalised advantage
  \<open>sum_k (gamma * lambda)^k * delta_(i+k)\<close> (rounded once to \<open>float\<close>), for every transition.\<close>

theorem estimate_is_gae:
  assumes "estimate_with Fin segment (Fin g) (Fin l) (Fin fv) = Inr (advantages, value_targets)"
    and "i < length segment"
  shows "advantages ! i = rnd32 (gae_sum g l fv segment i) \<and>
    value_targets ! i = rnd32 (gae_sum g l fv segment i + val (behavior_value (segment ! i)))"
proof -
  obtain as vs na nv where e: "gae_loop Fin (Fin g) (Fin l) (Fin fv) segment = Inr (as, vs, na, nv)"
    "advantages = map to_f32 as" "value_targets = map to_f32 vs"
    using assms(1) by (rule estimate_Inr)
  note len = gae_loop_length [OF e(1)]
  have a: "as ! i = Fin (gae_sum g l fv segment i)" by (rule gae_loop_exact [OF e(1) assms(2)])
  have v: "vs ! i = fp_add_with Fin (as ! i) (behavior_value (segment ! i))"
    using gae_loop_recurrence [OF e(1) assms(2)] by simp
  have "isfinite (vs ! i)"
    using gae_loop_in_range [OF e(1), of "vs ! i"] assms(2) len by auto
  then obtain b where "behavior_value (segment ! i) = Fin b"
    using isfinite_add_with [of Fin "as ! i" "behavior_value (segment ! i)"] v
    by (auto simp: isfinite_iff)
  moreover have "advantages ! i = to_f32 (as ! i)" "value_targets ! i = to_f32 (vs ! i)"
    using e(2,3) len assms(2) by simp_all
  ultimately show ?thesis by (simp add: a v)
qed

section \<open>Monotonicity\<close>

text \<open>
  For every rounding: with non-negative discount factors, raising rewards never lowers an
  advantage.
\<close>

definition no_better :: "raw_transition \<Rightarrow> raw_transition \<Rightarrow> bool" where
  "no_better t u \<longleftrightarrow> behavior_value t = behavior_value u \<and> fp_le (reward t) (reward u)"

context rounding
begin

lemma delta_mono:
  assumes "no_better t u" "gae_delta rnd g t nv = Fin d" "gae_delta rnd g u nv = Fin d'"
  shows "d \<le> d'"
proof -
  obtain x v where x: "fp_add_with rnd (reward t) (fp_mul_with rnd g nv) = Fin x"
    "behavior_value t = Fin v" "rnd (x - v) = Fin d"
    using fp_sub_with_Fin assms(2) unfolding gae_delta_def by blast
  obtain x' v' where x': "fp_add_with rnd (reward u) (fp_mul_with rnd g nv) = Fin x'"
    "behavior_value u = Fin v'" "rnd (x' - v') = Fin d'"
    using fp_sub_with_Fin assms(3) unfolding gae_delta_def by blast
  obtain r m where r: "reward t = Fin r" "fp_mul_with rnd g nv = Fin m" "rnd (r + m) = Fin x"
    using fp_add_with_Fin [OF x(1)] by blast
  obtain r' where r': "reward u = Fin r'" "rnd (r' + m) = Fin x'"
    using fp_add_with_Fin [OF x'(1)] r by auto
  have "r \<le> r'" "v = v'" using assms(1) r r' x x' by (simp_all add: no_better_def)
  then have "x \<le> x'" using rnd_mono [of "r + m" "r' + m"] r r' by simp
  then show ?thesis using rnd_mono [of "x - v" "x' - v"] x x' \<open>v = v'\<close> by simp
qed

lemma advantage_mono:
  assumes "0 \<le> g" "0 \<le> l" and d: "d \<le> d'" and a: "a \<le> a'"
    and "gae_advantage rnd (Fin g) (Fin l) (Fin d) (Fin a) = Fin r"
    and "gae_advantage rnd (Fin g) (Fin l) (Fin d') (Fin a') = Fin r'"
  shows "r \<le> r'"
proof -
  obtain m where m: "fp_mul_with rnd (fp_mul_with rnd (Fin g) (Fin l)) (Fin a) = Fin m"
    "rnd (d + m) = Fin r"
    using fp_add_with_Fin assms(5) unfolding gae_advantage_def by blast
  obtain m' where m': "fp_mul_with rnd (fp_mul_with rnd (Fin g) (Fin l)) (Fin a') = Fin m'"
    "rnd (d' + m') = Fin r'"
    using fp_add_with_Fin assms(6) unfolding gae_advantage_def by blast
  obtain c where c: "rnd (g * l) = Fin c" "rnd (c * a) = Fin m"
    using fp_mul_with_Fin [OF m(1)] by auto
  have c': "rnd (c * a') = Fin m'" using m'(1) c(1) by simp
  have "0 \<le> c" by (rule rnd_nonneg [of "g * l"]) (use assms(1,2) c(1) in simp_all)
  then have "m \<le> m'"
    using rnd_mono [of "c * a" "c * a'"] c c' a by (simp add: mult_left_mono)
  then show ?thesis using rnd_mono [of "d + m" "d' + m'"] d m m' by simp
qed

lemma gae_loop_mono:
  assumes "list_all2 no_better ts us" "0 \<le> g" "0 \<le> l"
    and "gae_loop rnd (Fin g) (Fin l) fv ts = Inr (as, vs, na, nv)"
    and "gae_loop rnd (Fin g) (Fin l) fv us = Inr (as', vs', na', nv')"
  shows "list_all2 fp_le as as' \<and> fp_le na na' \<and> isfinite na \<and> isfinite na' \<and> nv = nv'"
  using assms
proof (induction ts us arbitrary: as vs na nv as' vs' na' nv' rule: list_all2_induct)
  case (Cons t ts u us)
  obtain as1 vs1 na1 nv1 where t: "gae_loop rnd (Fin g) (Fin l) fv ts = Inr (as1, vs1, na1, nv1)"
    "na = gae_advantage rnd (Fin g) (Fin l) (gae_delta rnd (Fin g) t nv1) na1" "as = na # as1"
    "isfinite (gae_delta rnd (Fin g) t nv1)" "isfinite na" "nv = behavior_value t"
    using Cons.prems by (auto simp: gae_loop_Cons)
  obtain as2 vs2 na2 nv2 where u: "gae_loop rnd (Fin g) (Fin l) fv us = Inr (as2, vs2, na2, nv2)"
    "na' = gae_advantage rnd (Fin g) (Fin l) (gae_delta rnd (Fin g) u nv2) na2" "as' = na' # as2"
    "isfinite (gae_delta rnd (Fin g) u nv2)" "isfinite na'" "nv' = behavior_value u"
    using Cons.prems by (auto simp: gae_loop_Cons)
  from Cons.IH [OF Cons.prems(1,2) t(1) u(1)] have IH: "list_all2 fp_le as1 as2" "fp_le na1 na2"
    "isfinite na1" "isfinite na2" "nv1 = nv2" by auto
  obtain d d' a a' r r' where v: "gae_delta rnd (Fin g) t nv1 = Fin d"
    "gae_delta rnd (Fin g) u nv2 = Fin d'" "na1 = Fin a" "na2 = Fin a'" "na = Fin r" "na' = Fin r'"
    using t u IH by (auto simp: isfinite_iff)
  have "d \<le> d'" using delta_mono Cons.hyps v IH by blast
  moreover have "a \<le> a'" using IH(2) v by simp
  ultimately have "r \<le> r'"
    using advantage_mono [OF Cons.prems(1,2), of d d' a a' r r'] v t(2) u(2) by simp
  then have le: "fp_le na na'" using v by simp
  have "nv = nv'" using t(6) u(6) Cons.hyps by (simp add: no_better_def)
  with le t(3,5) u(3,5) IH(1) show ?case by simp
qed (auto simp: rnd_0)

end

text \<open>with discount factors that are not negative, raising any rewards of a segment (same
  behaviour values) never lowers any advantage the estimator emits, rounding included.\<close>

theorem estimate_reward_monotone:
  assumes "0 \<le> g" "0 \<le> l" "list_all2 no_better ts us"
    and "EstimateRolloutSegment ts (Fin g) (Fin l) v = Inr (advs, vts)"
    and "EstimateRolloutSegment us (Fin g) (Fin l) v = Inr (advs', vts')"
  shows "list_all2 fp_le advs advs'"
proof -
  obtain as vs na nv where t: "gae_loop rnd64 (Fin g) (Fin l) v ts = Inr (as, vs, na, nv)"
    "advs = map to_f32 as"
    using assms(4) unfolding EstimateRolloutSegment_def by (rule estimate_Inr)
  obtain as' vs' na' nv' where u: "gae_loop rnd64 (Fin g) (Fin l) v us = Inr (as', vs', na', nv')"
    "advs' = map to_f32 as'"
    using assms(5) unfolding EstimateRolloutSegment_def by (rule estimate_Inr)
  have le: "list_all2 fp_le as as'"
    using r64.gae_loop_mono [OF assms(3,1,2) t(1) u(1)] by blast
  have "fp_le (to_f32 x) (to_f32 y)" if "fp_le x y" for x y
    using that r32.rnd_mono by (cases x; cases y) (auto simp: fp_round_def Let_def)
  with le t(2) u(2) show ?thesis
    by (auto simp: list_all2_map1 list_all2_map2 elim!: list_all2_mono)
qed

section \<open>Projection\<close>

lemma project_loop_Inr:
  "length advs = length raws \<Longrightarrow> length vts = length raws \<Longrightarrow>
   project_loop sid identity od ac mode index step raws advs vts = Inr items \<Longrightarrow>
     items = map (\<lambda>i. project_item sid identity (index + i) (raws ! i) (advs ! i) (vts ! i))
               [0..<length raws]"
proof (induction raws arbitrary: index step advs vts items)
  case (Cons raw raws)
  then obtain adv advs' vt vts' where a: "advs = adv # advs'" "vts = vt # vts'"
    "length advs' = length raws" "length vts' = length raws"
    by (auto simp: length_Suc_conv)
  with Cons.prems obtain rest where
    r: "project_loop sid identity od ac mode (Suc index) (step + 1) raws advs' vts' = Inr rest"
    "items = project_item sid identity index raw adv vt # rest"
    by (auto simp: and_then_Inr split: if_splits)
  from Cons.IH [OF a(3,4) r(1)] r(2) a show ?case
    by (simp add: upt_conv_Cons comp_def flip: map_Suc_upt del: upt_Suc)
qed simp

lemma project_loop_ok:
  assumes "segment_ok od ac mode raws" "length advs = length raws" "length vts = length raws"
    and "list_all isfinite advs" "list_all isfinite vts"
    and "raws \<noteq> [] \<longrightarrow> action_step (hd raws) = step"
  shows "\<exists>items. project_loop sid identity od ac mode index step raws advs vts = Inr items"
  using assms
proof (induction raws arbitrary: index step advs vts)
  case (Cons raw raws)
  then obtain adv advs' vt vts' where a: "advs = adv # advs'" "vts = vt # vts'"
    "length advs' = length raws" "length vts' = length raws" by (auto simp: length_Suc_conv)
  have ok: "transition_ok od ac mode raw" "segment_ok od ac mode raws"
    "case raws of [] \<Rightarrow> True | u # _ \<Rightarrow> linked raw u"
    using Cons.prems(1) by (auto simp: segment_ok_Cons split: list.splits)
  have refl: "list_all isfinite xs \<Longrightarrow> vec_eq xs xs" for xs
    by (auto simp: vec_eq_def list_all2_same fp_eq_def list_all_iff isfinite_iff)
  have "raws \<noteq> [] \<longrightarrow> action_step (hd raws) = step + 1"
    using ok(3) Cons.prems(6) by (cases raws) (auto simp: linked_def)
  then obtain rest where
    "project_loop sid identity od ac mode (Suc index) (step + 1) raws advs' vts' = Inr rest"
    using Cons.IH [OF ok(2) a(3,4), of "step + 1"] Cons.prems(4,5) a by auto
  moreover have "project_item_ok od ac mode step raw raws adv vt"
    using ok Cons.prems(4-6) a refl
    by (auto simp: project_item_ok_def transition_ok_def linked_def split: list.splits)
  ultimately show ?case using a by simp
qed simp

lemma estimate_outputs_finite_aux:
  assumes "EstimateRolloutSegment segment g l v = Inr (advs, vts)"
  shows "length advs = length segment \<and> length vts = length segment \<and> segment \<noteq> [] \<and>
    list_all isfinite advs \<and> list_all isfinite vts"
proof -
  obtain as vs na nv where e: "gae_loop rnd64 g l v segment = Inr (as, vs, na, nv)"
    "advs = map to_f32 as" "vts = map to_f32 vs" "segment \<noteq> []"
    using assms unfolding EstimateRolloutSegment_def by (rule estimate_Inr)
  have "isfinite (to_f32 x)" if "x \<in> set as \<union> set vs" for x
    using gae_loop_in_range [OF e(1) that] in_float_range by fastforce
  with e gae_loop_length [OF e(1)] show ?thesis by (simp add: list_all_iff)
qed

lemma project_estimated:
  assumes "segment_ok obs_dim act_count mode segment" "0 < obs_dim" "0 < act_count"
    and "EstimateRolloutSegment segment g l v = Inr (advs, vts)"
    and "sid \<noteq> []" "id_lineage identity \<noteq> []" "id_step identity \<noteq> None"
  shows "\<exists>items. ProjectProcessedSegment segment advs vts sid identity obs_dim act_count mode
           = Inr items"
proof -
  have fin: "length advs = length segment" "length vts = length segment"
    "list_all isfinite advs" "list_all isfinite vts" "segment \<noteq> []"
    using estimate_outputs_finite_aux [OF assms(4)] by auto
  then obtain items where "project_loop sid identity obs_dim act_count mode 0
      (action_step (hd segment)) segment advs vts = Inr items"
    using project_loop_ok [OF assms(1)] by blast
  with fin assms show ?thesis by (simp add: ProjectProcessedSegment_def)
qed

text \<open>whatever the estimator accepts on a segment of trusted, linked transitions, the
  projection accepts too: a successful estimate is never lost between the two functions.\<close>

theorem estimate_then_project:
  assumes "segment_ok obs_dim act_count mode segment" "0 < obs_dim" "0 < act_count"
    and "EstimateRolloutSegment segment g l v = Inr (advs, vts)"
    and "sid \<noteq> []" "id_lineage identity \<noteq> []" "id_step identity \<noteq> None"
  shows "\<exists>items. ProjectProcessedSegment segment advs vts sid identity obs_dim act_count mode
           = Inr items"
  using assms by (rule project_estimated)

text \<open>a successful projection has one item per transition, in order, carrying the data of
  its transition, its advantage and target and the step of the behaviour model; the item ids of
  one segment are pairwise distinct.\<close>

theorem projection_items:
  assumes "ProjectProcessedSegment raws advs vts sid identity obs_dim act_count mode = Inr items"
  shows "length items = length raws \<and> distinct (map item_id items) \<and>
    (\<forall>i < length raws. items ! i = project_item sid identity i (raws ! i) (advs ! i) (vts ! i))"
proof -
  have *: "length advs = length raws" "length vts = length raws"
    "project_loop sid identity obs_dim act_count mode 0 (action_step (hd raws)) raws advs vts
       = Inr items"
    using assms by (auto simp: ProjectProcessedSegment_def split: if_splits)
  then have items: "items = map (\<lambda>i. project_item sid identity i (raws ! i) (advs ! i) (vts ! i))
      [0..<length raws]"
    using project_loop_Inr [OF *] by simp
  then show ?thesis
    by (auto simp: distinct_map comp_def project_item_def inj_on_def)
qed

lemma project_loop_item_ok:
  "length advs = length raws \<Longrightarrow> length vts = length raws \<Longrightarrow> i < length raws \<Longrightarrow>
   project_loop sid identity od ac mode index step raws advs vts = Inr items \<Longrightarrow>
     project_item_ok od ac mode (step + of_nat i) (raws ! i) (drop (Suc i) raws) (advs ! i) (vts ! i)"
proof (induction raws arbitrary: i index step advs vts items)
  case (Cons raw raws)
  then obtain adv advs' vt vts' where a: "advs = adv # advs'" "vts = vt # vts'"
    "length advs' = length raws" "length vts' = length raws" by (auto simp: length_Suc_conv)
  with Cons.prems obtain rest where
    r: "project_loop sid identity od ac mode (Suc index) (step + 1) raws advs' vts' = Inr rest"
    "project_item_ok od ac mode step raw raws adv vt"
    by (auto simp: and_then_Inr split: if_splits)
  show ?case
  proof (cases i)
    case 0
    with r(2) a show ?thesis by simp
  next
    case (Suc j)
    with Cons.IH [OF a(3,4) _ r(1), of j] Cons.prems(3) a show ?thesis
      by (simp add: add.assoc)
  qed
qed simp

lemma fp_eq_imp_eq: "list_all2 fp_eq xs ys \<Longrightarrow> xs = ys"
  by (auto simp: list_eq_iff_nth_eq list_all2_conv_all_nth fp_eq_def)

lemma projection_links_aux:
  assumes "ProjectProcessedSegment raws advs vts sid identity obs_dim act_count mode = Inr items"
    and "Suc i < length raws"
  shows "action_step (raws ! Suc i) = action_step (raws ! i) + 1 \<and>
    observation (raws ! Suc i) = next_observation (raws ! i) \<and>
    isfinite (reward (raws ! i)) \<and> isfinite (advs ! i)"
proof -
  have *: "length advs = length raws" "length vts = length raws"
    "project_loop sid identity obs_dim act_count mode 0 (action_step (hd raws)) raws advs vts
       = Inr items"
    using assms(1) by (auto simp: ProjectProcessedSegment_def split: if_splits)
  have "drop (Suc i) raws = raws ! Suc i # drop (Suc (Suc i)) raws"
    using assms(2) by (rule Cons_nth_drop_Suc [symmetric])
  with project_loop_item_ok [OF *(1,2) _ *(3), of i]
    project_loop_item_ok [OF *(1,2) _ *(3), of "Suc i"] assms(2)
  show ?thesis by (auto simp: project_item_ok_def vec_eq_def dest: fp_eq_imp_eq)
qed

text \<open>a transition whose observation is not the one its predecessor ended in, whose action
  step does not follow, or that carries a non-finite number, is never projected.\<close>

theorem projection_rejects_broken_links:
  assumes "ProjectProcessedSegment raws advs vts sid identity obs_dim act_count mode = Inr items"
    and "Suc i < length raws"
  shows "action_step (raws ! Suc i) = action_step (raws ! i) + 1 \<and>
    observation (raws ! Suc i) = next_observation (raws ! i) \<and>
    isfinite (reward (raws ! i)) \<and> isfinite (advs ! i)"
  using assms by (rule projection_links_aux)

section \<open>Instances\<close>

definition sample_transition :: "u64 \<Rightarrow> rat \<Rightarrow> rat \<Rightarrow> rat \<Rightarrow> rat \<Rightarrow> raw_transition" where
  "sample_transition k o1 o2 r v =
     \<lparr>observation = [Fin o1], next_observation = [Fin o2], action = 1, reward = Fin r,
      behavior_log_probability = Fin (-1), behavior_value = Fin v, action_mask = [False, True],
      action_step = k, created_at_unix_ms = 7\<rparr>"

definition sample_segment :: "raw_transition list" where
  "sample_segment = [sample_transition 4 1 2 3 (1/2), sample_transition 5 2 8 1 2]"

lemma sample_segment_ok: "segment_ok 1 2 ''required'' sample_segment"
  by (simp add: sample_segment_def sample_transition_def segment_ok_def transition_ok_def
      linked_def mask_valid_def)

lemmas gae_eval = EstimateRolloutSegment_def estimate_with_def gae_loop.simps gae_delta_def
  gae_advantage_def out_of_float_def fp_eval

lemma flt_max_big: "4096 \<le> flt_max"
  by (simp add: flt_max_def pow2_def)

lemma small_in_range: "\<bar>x\<bar> \<le> 4096 \<Longrightarrow> \<not> out_of_float (Fin x)"
  using flt_max_big by (auto simp: out_of_float_def)

lemma sample_estimate:
  "EstimateRolloutSegment sample_segment (Fin (1/2)) (Fin (1/2)) (Fin 4)
     = Inr ([Fin (15/4), Fin 1], [Fin (17/4), Fin 3])"
  by (simp add: EstimateRolloutSegment_def estimate_with_def gae_loop.simps gae_delta_def
      gae_advantage_def fp_eval sample_segment_def sample_transition_def small_in_range Let_def)

theorem estimate_outputs_finite_witness:
  "length [Fin (15/4), Fin 1] = length sample_segment \<and> is_f32 (Fin (15/4))"
  using estimate_outputs_finite [OF sample_estimate] by simp

theorem estimate_recurrence_witness:
  "\<exists>as. length as = 2 \<and> [Fin (15/4), Fin 1] = map to_f32 as"
proof -
  have "length sample_segment = 2" by (simp add: sample_segment_def)
  with estimate_recurrence [OF sample_estimate] show ?thesis by metis
qed

lemma sample_estimate_exact:
  "estimate_with Fin sample_segment (Fin (1/2)) (Fin (1/2)) (Fin 4)
     = Inr ([Fin (15/4), Fin 1], [Fin (17/4), Fin 3])"
  by (simp add: estimate_with_def gae_loop.simps gae_delta_def
      gae_advantage_def fp_eval sample_segment_def sample_transition_def small_in_range Let_def)

theorem estimate_is_gae_witness:
  "Fin (15/4) = rnd32 (gae_sum (1/2) (1/2) 4 sample_segment 0)"
  using estimate_is_gae [OF sample_estimate_exact, of 0] by (simp add: sample_segment_def)

theorem estimate_reward_monotone_witness:
  "list_all2 fp_le [Fin (15/4), Fin 1] [Fin (15/4), Fin 1]"
  by (rule estimate_reward_monotone [OF _ _ _ sample_estimate sample_estimate])
    (simp_all add: sample_segment_def sample_transition_def no_better_def)

definition sample_identity :: model_identity where
  "sample_identity = \<lparr>id_lineage = ''run'', id_step = Some 9\<rparr>"

theorem estimate_then_project_witness:
  "\<exists>items. ProjectProcessedSegment sample_segment [Fin (15/4), Fin 1] [Fin (17/4), Fin 3]
     ''seg'' sample_identity 1 2 ''required'' = Inr items"
  by (rule estimate_then_project [OF sample_segment_ok _ _ sample_estimate])
    (simp_all add: sample_identity_def)

lemma sample_projection:
  "ProjectProcessedSegment sample_segment [Fin (15/4), Fin 1] [Fin (17/4), Fin 3]
     ''seg'' sample_identity 1 2 ''required''
   = Inr [project_item ''seg'' sample_identity 0 (sample_transition 4 1 2 3 (1/2)) (Fin (15/4)) (Fin (17/4)),
          project_item ''seg'' sample_identity 1 (sample_transition 5 2 8 1 2) (Fin 1) (Fin 3)]"
  by (simp add: ProjectProcessedSegment_def sample_segment_def sample_identity_def
      project_item_ok_def sample_transition_def mask_valid_def vec_eq_def fp_eq_def)

theorem projection_items_witness:
  "distinct (map item_id
     [project_item ''seg'' sample_identity 0 (sample_transition 4 1 2 3 (1/2)) (Fin (15/4)) (Fin (17/4)),
      project_item ''seg'' sample_identity 1 (sample_transition 5 2 8 1 2) (Fin 1) (Fin 3)])"
  using projection_items [OF sample_projection] by blast

theorem projection_rejects_broken_links_witness:
  "observation (sample_segment ! 1) = next_observation (sample_segment ! 0)"
  using projection_rejects_broken_links [OF sample_projection, of 0]
  by (simp add: sample_segment_def)

end
