(* ===== verification/Sample_Distributor.thy ===== *)
theory Sample_Distributor
  imports Task_Types
begin

text \<open>
  \<open>src/task/sample/sample_sender\<close>: the bounded outbound queue, its two-phase admission
  (reserve, seal, commit), the delivery state machine, and the sender.  Every block the code
  runs under \<open>mutex_\<close> is one operation on the state record.  The clock, the RPC results and the
  serialised size of an envelope are arguments.
\<close>

section \<open>State\<close>

datatype delivery_state =
  DsStarting | DsHealthy | DsLocalBackpressure | DsTransientRetry | DsTerminalFault |
  DsDraining | DsStopped

datatype reservation_result = Reserved | RetryableUnavailable | TerminalFault
datatype seal_result = Sealed | SealRetryable | SealTerminal
datatype commit_result = Committed | CommitRetryable | CommitTerminal

record queue_item =
  q_envelope :: envelope
  q_transitions :: int
  q_bytes :: int
  q_attempts :: int
  q_outcome_unknown :: bool

record dist_stats =
  queue_high_watermark :: int
  push_attempt_count :: int
  accepted_unique_transitions :: int
  accepted_unique_envelopes :: int
  duplicate_push_attempt_count :: int
  rejected_push_attempt_count :: int
  retry_attempt_count :: int
  final_drop_unique_transitions :: int
  final_drop_unique_envelopes :: int
  unresolved_push_outcome_unknown_transitions :: int
  unresolved_push_outcome_unknown_envelopes :: int
  push_rpc_count :: int
  push_rpc_latency_sum_ms :: f64
  push_rpc_latency_max_ms :: f64

record dist =
  queue :: "queue_item list"
  reserved_items :: "queue_item list"
  active_reservation_id :: u64
  active_reservation_delivery_generation :: u64
  active_reservation_sealed :: bool
  next_reservation_id :: u64
  reserved_transitions :: int
  reserved_estimated_bytes :: int
  queue_transitions :: int
  queue_estimated_bytes :: int
  accepting :: bool
  stop_requested :: bool
  force_stop :: bool
  ready :: bool
  degraded :: bool
  delivery_state :: delivery_state
  delivery_generation :: u64
  transient_retry_after_ms :: int
  status_failure_attempts :: int
  recovery_active :: bool
  recovery_started :: int
  sender_joinable :: bool
  sample_pool :: service_identity
  dist_last_error :: string
  stats :: dist_stats

definition init_dist :: dist where
  "init_dist =
    \<lparr>queue = [], reserved_items = [], active_reservation_id = 0,
     active_reservation_delivery_generation = 0, active_reservation_sealed = False,
     next_reservation_id = 1, reserved_transitions = 0, reserved_estimated_bytes = 0,
     queue_transitions = 0, queue_estimated_bytes = 0, accepting = False,
     stop_requested = False, force_stop = False, ready = False, degraded = False,
     delivery_state = DsStopped, delivery_generation = 0, transient_retry_after_ms = 0,
     status_failure_attempts = 0, recovery_active = False, recovery_started = 0,
     sender_joinable = False, sample_pool = no_service, dist_last_error = [],
     stats = \<lparr>queue_high_watermark = 0, push_attempt_count = 0, accepted_unique_transitions = 0,
       accepted_unique_envelopes = 0, duplicate_push_attempt_count = 0,
       rejected_push_attempt_count = 0, retry_attempt_count = 0,
       final_drop_unique_transitions = 0, final_drop_unique_envelopes = 0,
       unresolved_push_outcome_unknown_transitions = 0,
       unresolved_push_outcome_unknown_envelopes = 0, push_rpc_count = 0,
       push_rpc_latency_sum_ms = Fin 0, push_rpc_latency_max_ms = Fin 0\<rparr>\<rparr>"

section \<open>Delivery state\<close>

definition SetDeliveryStateLocked :: "delivery_state \<Rightarrow> dist \<Rightarrow> dist" where
  "SetDeliveryStateLocked st d =
     (if delivery_state d = st then d
      else d\<lparr>delivery_state := st, delivery_generation := next_nonzero (delivery_generation d)\<rparr>)"

definition release_reservation :: "dist \<Rightarrow> dist" where
  "release_reservation d =
     d\<lparr>reserved_items := [], reserved_transitions := 0, reserved_estimated_bytes := 0,
       active_reservation_id := 0, active_reservation_delivery_generation := 0,
       active_reservation_sealed := False\<rparr>"

definition dist_MarkDegraded :: "string \<Rightarrow> dist \<Rightarrow> dist" where
  "dist_MarkDegraded err d =
     (SetDeliveryStateLocked DsTerminalFault
        (d\<lparr>degraded := True, ready := False, recovery_active := False\<rparr>))
     \<lparr>transient_retry_after_ms := 0, dist_last_error := err\<rparr>"

definition not_recoverable :: "dist \<Rightarrow> bool" where
  "not_recoverable d \<longleftrightarrow>
     degraded d \<or> delivery_state d \<in> {DsTerminalFault, DsDraining, DsStopped}"

definition MarkTransient :: "training_config \<Rightarrow> int \<Rightarrow> string \<Rightarrow> int \<Rightarrow> dist \<Rightarrow> bool \<times> dist" where
  "MarkTransient cfg now err retry_after_ms d =
     (if not_recoverable d then (False, d)
      else
        let d1 = (if recovery_active d then d
                  else d\<lparr>recovery_active := True, recovery_started := now\<rparr>);
            elapsed_ms = now - recovery_started d1;
            d2 = d1\<lparr>ready := False\<rparr>
        in if elapsed_ms \<ge> recovery_timeout_ms cfg
           then (False, (SetDeliveryStateLocked DsTerminalFault
                   (d2\<lparr>degraded := True, recovery_active := False\<rparr>))
                 \<lparr>transient_retry_after_ms := 0,
                  dist_last_error :=
                    ''SamplePool ingress recovery deadline exceeded after '' @
                    (if elapsed_ms < 0 then ''-'' else []) @ dec (nat \<bar>elapsed_ms\<bar>) @ ''ms: '' @ err\<rparr>)
           else (True, (SetDeliveryStateLocked DsTransientRetry d2)
                 \<lparr>transient_retry_after_ms := retry_after_ms, dist_last_error := err\<rparr>))"

definition MarkHealthy :: "dist \<Rightarrow> dist" where
  "MarkHealthy d =
     (if not_recoverable d then d
      else (SetDeliveryStateLocked DsHealthy
              (d\<lparr>status_failure_attempts := 0, ready := True, recovery_active := False\<rparr>))
           \<lparr>transient_retry_after_ms := 0, dist_last_error := []\<rparr>)"

definition RecordFinalDrop :: "int \<Rightarrow> int \<Rightarrow> string \<Rightarrow> dist \<Rightarrow> dist" where
  "RecordFinalDrop ts es err d =
     (SetDeliveryStateLocked DsTerminalFault
       (d\<lparr>stats := (stats d)
            \<lparr>final_drop_unique_transitions := final_drop_unique_transitions (stats d) + ts,
             final_drop_unique_envelopes := final_drop_unique_envelopes (stats d) + es\<rparr>,
          degraded := True\<rparr>))\<lparr>dist_last_error := err\<rparr>"

section \<open>Admission\<close>

definition make_item :: "(envelope \<Rightarrow> nat) \<Rightarrow> envelope \<Rightarrow> queue_item" where
  "make_item byte_size e =
     \<lparr>q_envelope = e, q_transitions = int (length (samples e)), q_bytes = int (byte_size e),
      q_attempts = 0, q_outcome_unknown = False\<rparr>"

definition int64_max :: int where "int64_max = 2 ^ 63 - 1"

fun reservation_items ::
  "(envelope \<Rightarrow> nat) \<Rightarrow> envelope list \<Rightarrow> int \<Rightarrow> int \<Rightarrow> (queue_item list \<times> int \<times> int) option" where
  "reservation_items byte_size [] transitions estimated_bytes = Some ([], transitions, estimated_bytes)"
| "reservation_items byte_size (e # es) transitions estimated_bytes =
     (let item = make_item byte_size e
      in if q_transitions item \<le> 0 \<or> q_bytes item \<le> 0 \<or>
            transitions > int64_max - q_transitions item \<or>
            estimated_bytes > int64_max - q_bytes item
         then None
         else map_option (\<lambda>(items, ts, bs). (item # items, ts, bs))
                (reservation_items byte_size es (transitions + q_transitions item)
                   (estimated_bytes + q_bytes item)))"

definition terminal_for_admission :: "dist \<Rightarrow> bool" where
  "terminal_for_admission d \<longleftrightarrow>
     \<not> accepting d \<or> force_stop d \<or> degraded d \<or> \<not> ready d \<or>
     delivery_state d \<in> {DsTerminalFault, DsDraining, DsStopped, DsStarting}"

text \<open>The limit is a \<open>size_t\<close> that is compared after a cast to \<open>int64_t\<close>: a limit of \<open>2 ^ 63\<close> or more
  is negative and admits nothing.\<close>

definition byte_limit :: "training_config \<Rightarrow> int" where
  "byte_limit cfg = sint (of_nat (outbound_max_estimated_bytes cfg) :: u64)"

lemma byte_limit_le: "byte_limit cfg \<le> int (outbound_max_estimated_bytes cfg)"
proof -
  let ?n = "int (outbound_max_estimated_bytes cfg)"
  have "byte_limit cfg \<le> take_bit 64 ?n"
    by (simp add: byte_limit_def sint_uint unsigned_of_nat of_nat_take_bit signed_take_bit_eq_take_bit_minus)
  also have "take_bit 64 ?n \<le> ?n" by (simp only: take_bit_int_less_eq_self_iff of_nat_0_le_iff)
  finally show ?thesis .
qed

lemma byte_limit_default [simp]: "byte_limit default_config = 67108864"
  by (simp add: byte_limit_def default_config_def)

definition reserve_has_capacity :: "training_config \<Rightarrow> dist \<Rightarrow> queue_item list \<Rightarrow> int \<Rightarrow> bool" where
  "reserve_has_capacity cfg d items estimated_bytes \<longleftrightarrow>
     force_stop d \<or> \<not> accepting d \<or> degraded d \<or> delivery_state d \<noteq> DsHealthy \<or>
     (reserved_items d = [] \<and>
      length (queue d) + length items \<le> outbound_max_envelopes cfg \<and>
      queue_estimated_bytes d + estimated_bytes \<le> byte_limit cfg)"

text \<open>
  The state is the one at the end of \<open>space_cv_.wait_for\<close>, which returns the value of its
  predicate then.
\<close>

definition ReserveEnqueueEnvelopeSet ::
  "training_config \<Rightarrow> (envelope \<Rightarrow> nat) \<Rightarrow> envelope list \<Rightarrow> dist \<Rightarrow>
   reservation_result \<times> u64 \<times> string \<times> dist" where
  "ReserveEnqueueEnvelopeSet cfg byte_size es d =
     (if es = [] then (Reserved, 0, [], d)
      else case reservation_items byte_size es 0 0 of
        None \<Rightarrow> (TerminalFault, 0, ''processed envelope reservation is invalid'', d)
      | Some (items, transitions, estimated_bytes) \<Rightarrow>
        if \<not> reserve_has_capacity cfg d items estimated_bytes
        then (RetryableUnavailable, 0, ''outbound envelope-set reservation timeout'', d)
        else if terminal_for_admission d
        then (TerminalFault, 0,
              if_empty (dist_last_error d) ''outbound queue is not accepting reservations''
                (dist_last_error d), d)
        else if delivery_state d \<noteq> DsHealthy
        then (RetryableUnavailable, 0,
              (if delivery_state d = DsTransientRetry then ''sample delivery is recovering''
               else ''sample delivery is locally backpressured''), d)
        else if reserved_items d \<noteq> []
        then (TerminalFault, 0, ''another outbound envelope-set reservation is active'', d)
        else
          let rid = (if next_reservation_id d = 0 then 1 else next_reservation_id d)
          in (Reserved, rid, [],
              d\<lparr>active_reservation_id := rid, next_reservation_id := rid + 1,
                reserved_items := items, reserved_transitions := transitions,
                reserved_estimated_bytes := estimated_bytes,
                active_reservation_delivery_generation := delivery_generation d,
                active_reservation_sealed := False\<rparr>))"

definition identity_fault :: "string \<Rightarrow> dist \<Rightarrow> dist" where
  "identity_fault err d =
     release_reservation
       ((SetDeliveryStateLocked DsTerminalFault (d\<lparr>degraded := True\<rparr>))\<lparr>dist_last_error := err\<rparr>)"

definition SealEnqueueEnvelopeSet :: "u64 \<Rightarrow> dist \<Rightarrow> seal_result \<times> string \<times> dist" where
  "SealEnqueueEnvelopeSet rid d =
     (if rid = 0 then (Sealed, [], d)
      else if rid \<noteq> active_reservation_id d \<or> reserved_items d = []
      then (let err = ''outbound reservation identity invariant failed before seal''
            in (SealTerminal, err, identity_fault err d))
      else if terminal_for_admission d
      then (SealTerminal,
            if_empty (dist_last_error d) ''sample delivery became terminal before seal''
              (dist_last_error d), release_reservation d)
      else if delivery_state d \<noteq> DsHealthy \<or>
              active_reservation_delivery_generation d \<noteq> delivery_generation d
      then (SealRetryable,
            (if delivery_state d = DsTransientRetry
             then ''sample delivery became transient before seal''
             else ''sample delivery state changed before seal''), release_reservation d)
      else (Sealed, [], d\<lparr>active_reservation_sealed := True\<rparr>))"

definition splice_reservation :: "dist \<Rightarrow> dist" where
  "splice_reservation d =
     release_reservation
       (d\<lparr>queue := queue d @ reserved_items d,
          queue_transitions := queue_transitions d + reserved_transitions d,
          queue_estimated_bytes := queue_estimated_bytes d + reserved_estimated_bytes d,
          stats := (stats d)\<lparr>queue_high_watermark :=
            max (queue_high_watermark (stats d))
                (int (length (queue d @ reserved_items d)))\<rparr>\<rparr>)"

definition CommitEnqueueEnvelopeSet :: "u64 \<Rightarrow> dist \<Rightarrow> commit_result \<times> string \<times> dist" where
  "CommitEnqueueEnvelopeSet rid d =
     (if rid = 0 then (Committed, [], d)
      else if active_reservation_sealed d \<and> rid \<noteq> active_reservation_id d
      then (let err = ''sealed outbound reservation identity invariant failed''
            in (CommitTerminal, err, identity_fault err d))
      else if active_reservation_sealed d then (Committed, [], splice_reservation d)
      else if rid \<noteq> active_reservation_id d
      then (let err = ''outbound reservation identity invariant failed''
            in (CommitTerminal, err, identity_fault err d))
      else if terminal_for_admission d
      then (CommitTerminal,
            if_empty (dist_last_error d) ''sample delivery became terminal before commit''
              (dist_last_error d), release_reservation d)
      else if delivery_state d \<noteq> DsHealthy \<or>
              active_reservation_delivery_generation d \<noteq> delivery_generation d
      then (CommitRetryable,
            (if delivery_state d = DsTransientRetry
             then ''sample delivery became transient before commit''
             else ''sample delivery state changed before commit''), release_reservation d)
      else (Committed, [], splice_reservation d))"

definition HasEnqueueReservation :: "u64 \<Rightarrow> dist \<Rightarrow> bool" where
  "HasEnqueueReservation rid d \<longleftrightarrow>
     rid = 0 \<or>
     (rid = active_reservation_id d \<and> reserved_items d \<noteq> [] \<and> \<not> degraded d \<and> ready d \<and>
      accepting d \<and> delivery_state d = DsHealthy \<and>
      active_reservation_delivery_generation d = delivery_generation d)"

definition CancelEnqueueEnvelopeSet :: "u64 \<Rightarrow> dist \<Rightarrow> dist" where
  "CancelEnqueueEnvelopeSet rid d =
     (if rid = 0 \<or> rid \<noteq> active_reservation_id d then d else release_reservation d)"

definition enqueue_has_capacity :: "training_config \<Rightarrow> dist \<Rightarrow> queue_item \<Rightarrow> bool" where
  "enqueue_has_capacity cfg d item \<longleftrightarrow>
     force_stop d \<or> \<not> accepting d \<or> degraded d \<or>
     (length (queue d) + length (reserved_items d) < outbound_max_envelopes cfg \<and>
      queue_estimated_bytes d + reserved_estimated_bytes d + q_bytes item
        \<le> byte_limit cfg)"

definition dist_Enqueue ::
  "training_config \<Rightarrow> (envelope \<Rightarrow> nat) \<Rightarrow> envelope \<Rightarrow> dist \<Rightarrow> bool \<times> dist" where
  "dist_Enqueue cfg byte_size e d =
     (let item = make_item byte_size e
      in if q_transitions item \<le> 0 \<or> q_bytes item \<le> 0 then (False, d)
         else if \<not> enqueue_has_capacity cfg d item then (False, d)
         else if \<not> accepting d \<or> force_stop d \<or> degraded d then (False, d)
         else (True, d\<lparr>queue := queue d @ [item],
                 queue_transitions := queue_transitions d + q_transitions item,
                 queue_estimated_bytes := queue_estimated_bytes d + q_bytes item,
                 stats := (stats d)\<lparr>queue_high_watermark :=
                   max (queue_high_watermark (stats d)) (int (length (queue d @ [item])))\<rparr>\<rparr>))"

section \<open>Ingress status\<close>

datatype grpc_status =
  GrpcOk | GrpcCancelled | GrpcUnknown | GrpcInvalidArgument | GrpcDeadlineExceeded |
  GrpcNotFound | GrpcAlreadyExists | GrpcPermissionDenied | GrpcResourceExhausted |
  GrpcFailedPrecondition | GrpcAborted | GrpcOutOfRange | GrpcUnimplemented | GrpcInternal |
  GrpcUnavailable | GrpcDataLoss | GrpcUnauthenticated

definition IsRetryableOutcomeUnknownTransport :: "grpc_status \<Rightarrow> bool" where
  "IsRetryableOutcomeUnknownTransport st \<longleftrightarrow>
     st \<in> {GrpcCancelled, GrpcUnknown, GrpcDeadlineExceeded, GrpcResourceExhausted, GrpcAborted,
           GrpcInternal, GrpcUnavailable}"

definition RetryBackoffMs :: "int \<Rightarrow> int" where
  "RetryBackoffMs attempts = min 1000 (50 * 2 ^ nat (min 5 (max 0 (attempts - 1))))"

record pool_status =
  ps_pool :: service_identity
  ps_ready :: bool
  ps_ingress_ready :: bool
  ps_finalized :: bool

definition ValidateSamplePoolStatus :: "pool_status \<Rightarrow> string + unit" where
  "ValidateSamplePoolStatus rsp =
     (if component (ps_pool rsp) = [] \<or> instance_id (ps_pool rsp) = [] \<or>
         lifecycle_epoch (ps_pool rsp) = 0
      then Inl ''SamplePool ingress lifecycle identity is invalid''
      else if \<not> ps_ready rsp \<or> \<not> ps_ingress_ready rsp \<or> ps_finalized rsp
      then Inl ''SamplePool ingress is not accepting transitions''
      else Inr ())"

definition SameSamplePool :: "service_identity \<Rightarrow> service_identity \<Rightarrow> bool" where
  "SameSamplePool actual expected \<longleftrightarrow>
     instance_id actual = instance_id expected \<and> lifecycle_epoch actual = lifecycle_epoch expected"

definition ProbeSamplePool :: "grpc_status \<Rightarrow> string \<Rightarrow> pool_status \<Rightarrow> dist \<Rightarrow> bool \<times> dist" where
  "ProbeSamplePool st msg rsp d =
     (if st \<noteq> GrpcOk
      then (False, dist_MarkDegraded (''SamplePool ingress status failed: '' @ msg) d)
      else case ValidateSamplePoolStatus rsp of
        Inl err \<Rightarrow> (False, dist_MarkDegraded err d)
      | Inr _ \<Rightarrow> (True, (SetDeliveryStateLocked DsHealthy
            (d\<lparr>sample_pool := ps_pool rsp, ready := True, degraded := False\<rparr>))
          \<lparr>transient_retry_after_ms := 0, dist_last_error := []\<rparr>))"

datatype refresh_result = RefreshHealthy | RefreshTransient | RefreshTerminal

definition RefreshSamplePoolStatus ::
  "training_config \<Rightarrow> int \<Rightarrow> grpc_status \<Rightarrow> string \<Rightarrow> pool_status \<Rightarrow> dist \<Rightarrow> refresh_result \<times> dist" where
  "RefreshSamplePoolStatus cfg now st msg rsp d =
     (if st \<noteq> GrpcOk
      then (let err = ''SamplePool ingress status refresh failed: '' @ msg
            in if IsRetryableOutcomeUnknownTransport st
               then (let d1 = d\<lparr>status_failure_attempts := status_failure_attempts d + 1\<rparr>
                     in case MarkTransient cfg now err (RetryBackoffMs (status_failure_attempts d1)) d1 of
                          (True, d2) \<Rightarrow> (RefreshTransient, d2)
                        | (False, d2) \<Rightarrow> (RefreshTerminal, d2))
               else (RefreshTerminal, dist_MarkDegraded err d))
      else case ValidateSamplePoolStatus rsp of
        Inl err \<Rightarrow> (RefreshTerminal, dist_MarkDegraded err d)
      | Inr _ \<Rightarrow>
          if \<not> SameSamplePool (ps_pool rsp) (sample_pool d)
          then (RefreshTerminal, dist_MarkDegraded ''SamplePool identity changed during training'' d)
          else (RefreshHealthy, MarkHealthy d))"

text \<open>\<open>Start\<close>; the connection attempt and the probe are its arguments.\<close>

definition dist_Start ::
  "training_config \<Rightarrow> string \<Rightarrow> bool \<Rightarrow> grpc_status \<Rightarrow> string \<Rightarrow> pool_status \<Rightarrow> dist \<Rightarrow> bool \<times> dist" where
  "dist_Start cfg target conn_ok st msg rsp d =
     (let d0 = SetDeliveryStateLocked DsStarting d
      in if \<not> distributor_enabled cfg
         then (False, dist_MarkDegraded ''AIServer SampleDistributor is disabled'' d0)
         else if \<not> conn_ok
         then (False, dist_MarkDegraded (''SamplePool ingress connection timeout: '' @ target) d0)
         else case ProbeSamplePool st msg rsp d0 of
           (False, d1) \<Rightarrow> (False, d1)
         | (True, d1) \<Rightarrow>
             (True, (SetDeliveryStateLocked DsHealthy
                (d1\<lparr>accepting := True, stop_requested := False, force_stop := False,
                    recovery_active := False, transient_retry_after_ms := 0,
                    status_failure_attempts := 0\<rparr>))\<lparr>sender_joinable := True\<rparr>))"

section \<open>Pushing the front envelope\<close>

datatype push_result =
  PushUnspecified | PushAccepted | PushDuplicate | PushRejectedCapacity | PushRejectedInvalid |
  PushRejectedConflict | PushRejectedFinalized

record push_rsp =
  pr_result :: push_result
  pr_message :: string
  pr_envelope_id :: string
  pr_pool :: service_identity

definition IsTerminalPushRejection :: "push_result \<Rightarrow> bool" where
  "IsTerminalPushRejection r \<longleftrightarrow>
     r \<in> {PushRejectedInvalid, PushRejectedConflict, PushRejectedFinalized}"

definition ValidatePushResponse ::
  "envelope \<Rightarrow> int \<Rightarrow> push_rsp \<Rightarrow> service_identity \<Rightarrow> string + unit" where
  "ValidatePushResponse e transition_count rsp pool =
     (if \<not> SameSamplePool (pr_pool rsp) pool
      then Inl ''PushSamples response SamplePool identity changed''
      else if pr_envelope_id rsp \<noteq> envelope_id e
      then Inl ''PushSamples response does not echo the exact envelope_id''
      else if pr_result rsp = PushAccepted
      then (if transition_count \<le> 0 \<or> transition_count \<noteq> int (length (samples e))
            then Inl ''PushSamples ACCEPTED response has an invalid count'' else Inr ())
      else if pr_result rsp = PushDuplicate
      then (if transition_count \<le> 0 \<or> transition_count \<noteq> int (length (samples e))
            then Inl ''PushSamples DUPLICATE response has an invalid count'' else Inr ())
      else if pr_result rsp = PushRejectedCapacity \<or> IsTerminalPushRejection (pr_result rsp)
      then Inr ()
      else Inl ''PushSamples response result is unspecified'')"

text \<open>The writes through \<open>queue_.front()\<close> happen only while it is the item being sent.\<close>

definition update_front :: "queue_item \<Rightarrow> (queue_item \<Rightarrow> queue_item) \<Rightarrow> dist \<Rightarrow> dist" where
  "update_front item f d =
     (case queue d of [] \<Rightarrow> d
      | front # rest \<Rightarrow>
          if envelope_id (q_envelope front) = envelope_id (q_envelope item)
          then d\<lparr>queue := f front # rest\<rparr> else d)"

definition begin_attempt :: "queue_item \<Rightarrow> int \<Rightarrow> dist \<Rightarrow> dist" where
  "begin_attempt item attempt d =
     update_front item (\<lambda>front. front\<lparr>q_outcome_unknown := True\<rparr>)
       (d\<lparr>stats := (stats d)
           \<lparr>push_attempt_count := push_attempt_count (stats d) + 1,
            retry_attempt_count := retry_attempt_count (stats d) +
              (if q_attempts item + attempt > 0 then 1 else 0)\<rparr>\<rparr>)"

definition count_rpc :: "f64 \<Rightarrow> dist \<Rightarrow> dist" where
  "count_rpc latency d =
     d\<lparr>stats := (stats d)
        \<lparr>push_rpc_count := push_rpc_count (stats d) + 1,
         push_rpc_latency_sum_ms := f64_add (push_rpc_latency_sum_ms (stats d)) latency,
         push_rpc_latency_max_ms := fp_max (push_rpc_latency_max_ms (stats d)) latency\<rparr>\<rparr>"

definition clear_unknown :: "queue_item \<Rightarrow> dist \<Rightarrow> dist" where
  "clear_unknown item = update_front item (\<lambda>front. front\<lparr>q_outcome_unknown := False\<rparr>)"

definition count_rejected :: "dist \<Rightarrow> dist" where
  "count_rejected d =
     d\<lparr>stats := (stats d)
        \<lparr>rejected_push_attempt_count := rejected_push_attempt_count (stats d) + 1\<rparr>\<rparr>"

datatype send_result =
  SendCommitted bool
| SendTransient int string
| SendRejected string
| SendRetry

text \<open>
  What follows one RPC of \<open>SendFront\<close>: \<open>note_returned\<close> is the block run right after a successful
  call, \<open>after_rpc\<close> the rest, up to the return or the next attempt; \<open>attempts_used\<close> counts the
  attempts made so far, this one included.
\<close>

definition note_returned :: "queue_item \<Rightarrow> grpc_status \<Rightarrow> dist \<Rightarrow> dist" where
  "note_returned item st d = (if st = GrpcOk then clear_unknown item d else d)"

definition after_rpc ::
  "training_config \<Rightarrow> service_identity \<Rightarrow> queue_item \<Rightarrow> int \<Rightarrow> grpc_status \<Rightarrow> string \<Rightarrow> push_rsp \<Rightarrow> dist \<Rightarrow>
   send_result \<times> dist" where
  "after_rpc cfg pool item attempts_used st msg rsp d =
     (if st = GrpcOk then
        case ValidatePushResponse (q_envelope item) (q_transitions item) rsp pool of
          Inl err \<Rightarrow> (SendRejected err, count_rejected d)
        | Inr _ \<Rightarrow>
            if pr_result rsp = PushAccepted \<or> pr_result rsp = PushDuplicate
            then (SendCommitted (pr_result rsp = PushDuplicate), MarkHealthy d)
            else let err = if_empty (pr_message rsp) ''SamplePool rejected the immutable envelope''
                             (pr_message rsp)
                 in if pr_result rsp = PushRejectedCapacity
                    then (SendTransient (RetryBackoffMs (q_attempts item + attempts_used)) err,
                          count_rejected d)
                    else (SendRejected err, count_rejected d)
      else
        let err = ''PushSamples failed: '' @ msg
        in if \<not> IsRetryableOutcomeUnknownTransport st
           then (SendRejected err, count_rejected (clear_unknown item d))
           else if attempts_used \<ge> max_attempts cfg
           then (SendTransient (RetryBackoffMs (q_attempts item + attempts_used)) err, d)
           else (SendRetry, d))"

text \<open>The bookkeeping of \<open>SenderLoop\<close> for each outcome of \<open>SendFront\<close>.\<close>

definition pop_committed :: "queue_item \<Rightarrow> bool \<Rightarrow> dist \<Rightarrow> dist" where
  "pop_committed item duplicate d =
     (case queue d of [] \<Rightarrow> d
      | front # rest \<Rightarrow>
          if envelope_id (q_envelope front) = envelope_id (q_envelope item)
          then d\<lparr>queue := rest, queue_transitions := queue_transitions d - q_transitions front,
                 queue_estimated_bytes := queue_estimated_bytes d - q_bytes front,
                 stats :=
                   (if duplicate
                    then (stats d)\<lparr>duplicate_push_attempt_count :=
                                     duplicate_push_attempt_count (stats d) + 1\<rparr>
                    else (stats d)\<lparr>accepted_unique_transitions :=
                                     accepted_unique_transitions (stats d) + q_transitions item,
                                   accepted_unique_envelopes :=
                                     accepted_unique_envelopes (stats d) + 1\<rparr>)\<rparr>
          else d)"

definition add_attempts :: "queue_item \<Rightarrow> int \<Rightarrow> dist \<Rightarrow> dist" where
  "add_attempts item n =
     update_front item (\<lambda>front. front\<lparr>q_attempts := q_attempts front + n\<rparr>)"

definition sender_exit :: "dist \<Rightarrow> dist" where
  "sender_exit d =
     (let d1 = d\<lparr>ready := False\<rparr>
      in if delivery_state d1 \<noteq> DsTerminalFault then SetDeliveryStateLocked DsStopped d1 else d1)"

section \<open>Stopping\<close>

text \<open>The first locked block of \<open>StopAndDrain\<close>, and its result when no sender runs.\<close>

definition stop_begin :: "dist \<Rightarrow> bool option \<times> dist" where
  "stop_begin d =
     (let d1 = release_reservation d
      in if \<not> sender_joinable d1
         then (let d2 = d1\<lparr>accepting := False, ready := False\<rparr>;
                   d3 = (if delivery_state d2 \<noteq> DsTerminalFault
                         then SetDeliveryStateLocked DsStopped d2 else d2)
               in (Some (queue d3 = []), d3))
         else (let d2 = d1\<lparr>accepting := False, stop_requested := True\<rparr>
               in (None, if delivery_state d2 \<noteq> DsTerminalFault
                         then SetDeliveryStateLocked DsDraining d2 else d2)))"

definition stop_timeout :: "dist \<Rightarrow> bool \<times> dist" where
  "stop_timeout d = (if queue d = [] then (True, d) else (False, d\<lparr>force_stop := True\<rparr>))"

definition classify_left :: "dist_stats \<Rightarrow> queue_item \<Rightarrow> dist_stats" where
  "classify_left st item =
     (if q_outcome_unknown item
      then st\<lparr>unresolved_push_outcome_unknown_transitions :=
                unresolved_push_outcome_unknown_transitions st + q_transitions item,
              unresolved_push_outcome_unknown_envelopes :=
                unresolved_push_outcome_unknown_envelopes st + 1\<rparr>
      else st\<lparr>final_drop_unique_transitions := final_drop_unique_transitions st + q_transitions item,
              final_drop_unique_envelopes := final_drop_unique_envelopes st + 1\<rparr>)"

text \<open>After the sender has been joined.\<close>

definition stop_finish :: "bool \<Rightarrow> dist \<Rightarrow> bool \<times> dist" where
  "stop_finish drained d =
     (let d0 = d\<lparr>sender_joinable := False\<rparr>
      in if drained \<or> queue d0 = [] then (True, d0)
         else
           let d1 = d0\<lparr>stats := foldl classify_left (stats d0) (queue d0), queue := [],
                       queue_transitions := 0, queue_estimated_bytes := 0, degraded := True\<rparr>;
               d2 = SetDeliveryStateLocked DsTerminalFault d1
           in (False, d2\<lparr>dist_last_error :=
                 (if unresolved_push_outcome_unknown_envelopes (stats d2) > 0
                  then ''outbound drain deadline exceeded with unresolved PushSamples outcomes''
                  else ''outbound drain deadline exceeded'')\<rparr>))"

section \<open>Observers\<close>

definition ProducerCapacityConstrainedLocked :: "training_config \<Rightarrow> dist \<Rightarrow> bool" where
  "ProducerCapacityConstrainedLocked cfg d \<longleftrightarrow>
     length (queue d) + length (reserved_items d) \<ge> outbound_max_envelopes cfg \<or>
     queue_estimated_bytes d + reserved_estimated_bytes d \<ge> byte_limit cfg"

definition IsTrainingDeliveryReady :: "training_config \<Rightarrow> dist \<Rightarrow> bool" where
  "IsTrainingDeliveryReady cfg d \<longleftrightarrow>
     accepting d \<and> ready d \<and> \<not> degraded d \<and> delivery_state d = DsHealthy \<and>
     \<not> ProducerCapacityConstrainedLocked cfg d"

definition IsPausedAtSafeBoundary :: "training_config \<Rightarrow> dist \<Rightarrow> bool" where
  "IsPausedAtSafeBoundary cfg d \<longleftrightarrow>
     delivery_state d = DsTransientRetry \<or> ProducerCapacityConstrainedLocked cfg d"

definition PauseRetryAfterMs :: "training_config \<Rightarrow> dist \<Rightarrow> int" where
  "PauseRetryAfterMs cfg d =
     (if transient_retry_after_ms d > 0 then transient_retry_after_ms d else enqueue_timeout_ms cfg)"

record dist_snapshot =
  sn_delivery_state :: delivery_state
  sn_ready :: bool
  sn_degraded :: bool
  sn_transient_retry :: bool
  sn_backend_recovering :: bool
  sn_terminal_fault :: bool
  sn_local_backpressure :: bool
  sn_sample_delivery_paused :: bool
  sn_retry_after_ms :: int
  sn_recovery_elapsed_ms :: int
  sn_queue_envelopes :: nat
  sn_queue_transitions :: int
  sn_queue_estimated_bytes :: int
  sn_stats :: dist_stats
  sn_pool_instance_id :: string
  sn_last_error :: string

definition GetSnapshot :: "training_config \<Rightarrow> int \<Rightarrow> dist \<Rightarrow> dist_snapshot" where
  "GetSnapshot cfg now d =
     \<lparr>sn_delivery_state = delivery_state d, sn_ready = ready d, sn_degraded = degraded d,
      sn_transient_retry = (delivery_state d = DsTransientRetry),
      sn_backend_recovering = (delivery_state d = DsTransientRetry),
      sn_terminal_fault = (delivery_state d = DsTerminalFault),
      sn_local_backpressure = ProducerCapacityConstrainedLocked cfg d,
      sn_sample_delivery_paused =
        (delivery_state d = DsTransientRetry \<or> ProducerCapacityConstrainedLocked cfg d),
      sn_retry_after_ms = transient_retry_after_ms d,
      sn_recovery_elapsed_ms = (if recovery_active d then now - recovery_started d else 0),
      sn_queue_envelopes = length (queue d), sn_queue_transitions = queue_transitions d,
      sn_queue_estimated_bytes = queue_estimated_bytes d, sn_stats = stats d,
      sn_pool_instance_id = instance_id (sample_pool d), sn_last_error = dist_last_error d\<rparr>"

end
