(* ===== verification/Distributor_Protocol.thy ===== *)
theory Distributor_Protocol
  imports Sample_Distributor
begin

text \<open>
  The sample distributor as a concurrent system: the runtime's calls (reserve, seal, commit,
  cancel, enqueue), the sender thread and \<open>StopAndDrain\<close>, each advancing by one locked block of
  the code at a time, in any interleaving.  Ghost fields record what was admitted, what was
  acknowledged (with the duplicate flag) and what a failed drain gave up.
\<close>

section \<open>Frames\<close>

text \<open>The delivery-state operations touch neither the queue nor the reservation.\<close>

lemma Set_simps [simp]:
  "queue (SetDeliveryStateLocked st d) = queue d"
  "reserved_items (SetDeliveryStateLocked st d) = reserved_items d"
  "active_reservation_id (SetDeliveryStateLocked st d) = active_reservation_id d"
  "active_reservation_sealed (SetDeliveryStateLocked st d) = active_reservation_sealed d"
  "reserved_transitions (SetDeliveryStateLocked st d) = reserved_transitions d"
  "reserved_estimated_bytes (SetDeliveryStateLocked st d) = reserved_estimated_bytes d"
  "queue_transitions (SetDeliveryStateLocked st d) = queue_transitions d"
  "queue_estimated_bytes (SetDeliveryStateLocked st d) = queue_estimated_bytes d"
  "accepting (SetDeliveryStateLocked st d) = accepting d"
  "force_stop (SetDeliveryStateLocked st d) = force_stop d"
  "stop_requested (SetDeliveryStateLocked st d) = stop_requested d"
  "ready (SetDeliveryStateLocked st d) = ready d"
  "degraded (SetDeliveryStateLocked st d) = degraded d"
  "sender_joinable (SetDeliveryStateLocked st d) = sender_joinable d"
  "stats (SetDeliveryStateLocked st d) = stats d"
  "delivery_state (SetDeliveryStateLocked st d) = st"
  by (simp_all add: SetDeliveryStateLocked_def)

lemma release_simps [simp]:
  "queue (release_reservation d) = queue d"
  "reserved_items (release_reservation d) = []"
  "active_reservation_id (release_reservation d) = 0"
  "active_reservation_sealed (release_reservation d) = False"
  "reserved_transitions (release_reservation d) = 0"
  "reserved_estimated_bytes (release_reservation d) = 0"
  "queue_transitions (release_reservation d) = queue_transitions d"
  "queue_estimated_bytes (release_reservation d) = queue_estimated_bytes d"
  "accepting (release_reservation d) = accepting d"
  "ready (release_reservation d) = ready d"
  "sender_joinable (release_reservation d) = sender_joinable d"
  "stats (release_reservation d) = stats d"
  "delivery_state (release_reservation d) = delivery_state d"
  by (simp_all add: release_reservation_def)

text \<open>
  What the properties below observe: of a queued item everything but its attempt count and
  outcome mark, of the statistics the ones that classify transitions.
\<close>

definition view :: "queue_item \<Rightarrow> envelope \<times> int \<times> int" where
  "view i = (q_envelope i, q_transitions i, q_bytes i)"

definition tally :: "dist_stats \<Rightarrow> (int \<times> int \<times> int) \<times> (int \<times> int \<times> int \<times> int) \<times> int" where
  "tally st =
     ((accepted_unique_transitions st, accepted_unique_envelopes st, duplicate_push_attempt_count st),
      (final_drop_unique_transitions st, final_drop_unique_envelopes st,
       unresolved_push_outcome_unknown_transitions st, unresolved_push_outcome_unknown_envelopes st),
      queue_high_watermark st)"

definition core :: "dist \<Rightarrow> ((envelope \<times> int \<times> int) list \<times> queue_item list \<times> u64 \<times> bool) \<times>
    (int \<times> int \<times> int \<times> int) \<times> (bool \<times> bool \<times> bool \<times> bool) \<times>
    (int \<times> int \<times> int) \<times> (int \<times> int \<times> int \<times> int) \<times> int" where
  "core d = ((map view (queue d), reserved_items d, active_reservation_id d,
      active_reservation_sealed d),
     (reserved_transitions d, reserved_estimated_bytes d, queue_transitions d,
      queue_estimated_bytes d),
     (accepting d, sender_joinable d, force_stop d, stop_requested d), tally (stats d))"

lemma core_dest:
  assumes "core d' = core d"
  shows "map view (queue d') = map view (queue d)" "reserved_items d' = reserved_items d"
    "active_reservation_id d' = active_reservation_id d"
    "active_reservation_sealed d' = active_reservation_sealed d"
    "reserved_transitions d' = reserved_transitions d"
    "reserved_estimated_bytes d' = reserved_estimated_bytes d"
    "queue_transitions d' = queue_transitions d"
    "queue_estimated_bytes d' = queue_estimated_bytes d"
    "accepting d' = accepting d" "sender_joinable d' = sender_joinable d"
    "force_stop d' = force_stop d" "stop_requested d' = stop_requested d"
    "tally (stats d') = tally (stats d)"
  using assms by (simp_all add: core_def)

lemma core_MarkDegraded [simp]: "core (dist_MarkDegraded err d) = core d"
  by (simp add: core_def dist_MarkDegraded_def)

lemma core_MarkHealthy [simp]: "core (MarkHealthy d) = core d"
  by (simp add: core_def MarkHealthy_def)

lemma core_MarkTransient [simp]: "core (snd (MarkTransient cfg now err ms d)) = core d"
  by (simp add: core_def MarkTransient_def Let_def)

lemma core_update_front:
  assumes "\<And>i. view (g i) = view i"
  shows "core (update_front item g d) = core d"
  using assms by (simp add: core_def update_front_def split: list.splits)

lemma core_count_rpc [simp]: "core (count_rpc l d) = core d"
  by (simp add: core_def count_rpc_def tally_def)

lemma core_count_rejected [simp]: "core (count_rejected d) = core d"
  by (simp add: core_def count_rejected_def tally_def)

lemma core_clear_unknown [simp]: "core (clear_unknown item d) = core d"
  unfolding clear_unknown_def by (rule core_update_front) (simp add: view_def)

lemma core_note_returned [simp]: "core (note_returned item st d) = core d"
  by (simp add: note_returned_def)

lemma core_add_attempts [simp]: "core (add_attempts item n d) = core d"
  unfolding add_attempts_def by (rule core_update_front) (simp add: view_def)

lemma core_begin_attempt [simp]: "core (begin_attempt item n d) = core d"
  unfolding begin_attempt_def
  by (subst core_update_front) (simp_all add: view_def, simp add: core_def tally_def)

lemma core_after_rpc [simp]: "core (snd (after_rpc cfg pool item n st msg rsp d)) = core d"
  by (simp add: after_rpc_def Let_def split: sum.splits)

lemma core_sender_exit [simp]: "core (sender_exit d) = core d"
  by (simp add: core_def sender_exit_def Let_def)

text \<open>The three outcomes of a status refresh.\<close>

lemma Refresh_cases:
  obtains (healthy) "RefreshSamplePoolStatus cfg now st msg rsp d = (RefreshHealthy, MarkHealthy d)"
  | (degraded) err where
      "RefreshSamplePoolStatus cfg now st msg rsp d = (RefreshTerminal, dist_MarkDegraded err d)"
  | (transient) err ms n where
      "RefreshSamplePoolStatus cfg now st msg rsp d =
         (let m = MarkTransient cfg now err ms (d\<lparr>status_failure_attempts := n\<rparr>)
          in (if fst m then RefreshTransient else RefreshTerminal, snd m))"
proof (cases "st = GrpcOk")
  case True
  then show thesis
    by (cases "ValidateSamplePoolStatus rsp";
        cases "SameSamplePool (ps_pool rsp) (sample_pool d)")
      (auto simp: RefreshSamplePoolStatus_def intro: healthy degraded)
next
  case False
  show thesis
  proof (cases "IsRetryableOutcomeUnknownTransport st")
    case True
    with False show thesis
      by (intro transient [of "''SamplePool ingress status refresh failed: '' @ msg"
            "RetryBackoffMs (status_failure_attempts d + 1)" "status_failure_attempts d + 1"])
        (simp add: RefreshSamplePoolStatus_def Let_def case_prod_unfold split: bool.splits)
  next
    case nr: False
    with False show thesis by (auto simp: RefreshSamplePoolStatus_def Let_def intro: degraded)
  qed
qed

lemma core_attempts [simp]: "core (d\<lparr>status_failure_attempts := n\<rparr>) = core d"
  by (simp add: core_def)

lemma core_Refresh [simp]: "core (snd (RefreshSamplePoolStatus cfg now st msg rsp d)) = core d"
  by (rule Refresh_cases [of cfg now st msg rsp d]) (simp_all add: Let_def)

section \<open>Delivery flags\<close>

text \<open>
  Healthy means ready, retrying means not ready, and local back-pressure is never a stored
  state (it is computed by the observers instead).
\<close>

definition flags_ok :: "dist \<Rightarrow> bool" where
  "flags_ok d \<longleftrightarrow>
     (delivery_state d = DsHealthy \<longrightarrow> ready d) \<and>
     (delivery_state d = DsTransientRetry \<longrightarrow> \<not> ready d) \<and>
     delivery_state d \<noteq> DsLocalBackpressure"

lemma flags_MarkDegraded [simp]: "flags_ok (dist_MarkDegraded err d)"
  by (simp add: flags_ok_def dist_MarkDegraded_def)

lemma flags_MarkHealthy [simp]: "flags_ok d \<Longrightarrow> flags_ok (MarkHealthy d)"
  by (auto simp: flags_ok_def MarkHealthy_def)

lemma flags_MarkTransient [simp]: "flags_ok d \<Longrightarrow> flags_ok (snd (MarkTransient cfg now err ms d))"
  by (auto simp: flags_ok_def MarkTransient_def Let_def)

lemma flags_sender_exit [simp]: "flags_ok (sender_exit d)"
  by (auto simp: flags_ok_def sender_exit_def Let_def)

lemma flags_irrelevant [simp]:
  "flags_ok (d\<lparr>queue := q\<rparr>) = flags_ok d"
  "flags_ok (d\<lparr>stats := st\<rparr>) = flags_ok d"
  "flags_ok (d\<lparr>status_failure_attempts := n\<rparr>) = flags_ok d"
  "flags_ok (d\<lparr>force_stop := b\<rparr>) = flags_ok d"
  by (simp_all add: flags_ok_def)

lemma flags_release [simp]: "flags_ok (release_reservation d) = flags_ok d"
  by (simp add: flags_ok_def)

lemma flags_Refresh [simp]:
  "flags_ok d \<Longrightarrow> flags_ok (snd (RefreshSamplePoolStatus cfg now st msg rsp d))"
  by (rule Refresh_cases [of cfg now st msg rsp d]) (simp_all add: Let_def)

section \<open>Accounting\<close>

definition item_ok :: "(envelope \<Rightarrow> nat) \<Rightarrow> queue_item \<Rightarrow> bool" where
  "item_ok byte_size i \<longleftrightarrow>
     q_transitions i = int (length (samples (q_envelope i))) \<and> 0 < q_transitions i \<and>
     q_bytes i = int (byte_size (q_envelope i)) \<and> 0 < q_bytes i"

definition sum_transitions :: "queue_item list \<Rightarrow> int" where
  "sum_transitions q = (\<Sum>i\<leftarrow>q. q_transitions i)"

definition sum_bytes :: "queue_item list \<Rightarrow> int" where
  "sum_bytes q = (\<Sum>i\<leftarrow>q. q_bytes i)"

lemma sums_simps [simp]:
  "sum_transitions [] = 0" "sum_bytes [] = 0"
  "sum_transitions (i # q) = q_transitions i + sum_transitions q"
  "sum_bytes (i # q) = q_bytes i + sum_bytes q"
  "sum_transitions (p @ q) = sum_transitions p + sum_transitions q"
  "sum_bytes (p @ q) = sum_bytes p + sum_bytes q"
  by (simp_all add: sum_transitions_def sum_bytes_def)

definition acct :: "training_config \<Rightarrow> (envelope \<Rightarrow> nat) \<Rightarrow> dist \<Rightarrow> bool" where
  "acct cfg byte_size d \<longleftrightarrow>
     queue_transitions d = sum_transitions (queue d) \<and>
     queue_estimated_bytes d = sum_bytes (queue d) \<and>
     reserved_transitions d = sum_transitions (reserved_items d) \<and>
     reserved_estimated_bytes d = sum_bytes (reserved_items d) \<and>
     (active_reservation_id d = 0 \<longleftrightarrow> reserved_items d = []) \<and>
     (active_reservation_sealed d \<longrightarrow> reserved_items d \<noteq> [] \<and> accepting d) \<and>
     list_all (item_ok byte_size) (queue d) \<and> list_all (item_ok byte_size) (reserved_items d) \<and>
     length (queue d) + length (reserved_items d) \<le> outbound_max_envelopes cfg \<and>
     sum_bytes (queue d) + sum_bytes (reserved_items d) \<le> int (outbound_max_estimated_bytes cfg)"

lemma views_eq:
  "map view q' = map view q \<Longrightarrow>
     sum_transitions q' = sum_transitions q \<and> sum_bytes q' = sum_bytes q \<and>
     list_all (item_ok bs) q' = list_all (item_ok bs) q \<and> length q' = length q \<and>
     map q_envelope q' = map q_envelope q"
proof (induction q' arbitrary: q)
  case (Cons i q')
  then obtain j r where q: "q = j # r" "view i = view j" "map view q' = map view r"
    by (cases q) auto
  from Cons.IH [OF q(3)] q(2) show ?case by (simp add: q(1) view_def item_ok_def)
qed simp

lemma acct_core:
  assumes "core d' = core d"
  shows "acct cfg bs d' = acct cfg bs d"
  unfolding acct_def core_dest(2-) [OF assms]
  using views_eq [OF core_dest(1) [OF assms], of bs] by simp

lemma sum_bytes_nonneg: "list_all (item_ok bs) q \<Longrightarrow> 0 \<le> sum_bytes q"
  by (induction q) (auto simp: item_ok_def)

lemma acct_release: "acct cfg bs d \<Longrightarrow> acct cfg bs (release_reservation d)"
  using sum_bytes_nonneg [of bs "reserved_items d"] by (auto simp: acct_def)

lemma reservation_items_ok:
  "reservation_items bs es ts b = Some (items, ts', b') \<Longrightarrow>
     list_all (item_ok bs) items \<and> map q_envelope items = es \<and>
     ts' = ts + sum_transitions items \<and> b' = b + sum_bytes items"
proof (induction es arbitrary: ts b items)
  case (Cons e es)
  let ?i = "make_item bs e"
  from Cons.prems obtain rest where r: "items = ?i # rest"
      "reservation_items bs es (ts + q_transitions ?i) (b + q_bytes ?i) = Some (rest, ts', b')"
    and pos: "q_transitions ?i > 0" "q_bytes ?i > 0"
    by (auto simp: Let_def split: if_splits)
  have "item_ok bs ?i" using pos by (simp add: item_ok_def make_item_def)
  moreover have "q_envelope ?i = e" by (simp add: make_item_def)
  ultimately show ?case using Cons.IH [OF r(2)] by (simp only: r(1)) simp
qed simp

lemma acct_Reserve:
  assumes "acct cfg bs d" "ReserveEnqueueEnvelopeSet cfg bs es d = (r, rid, e, d')"
  shows "acct cfg bs d' \<and> queue d' = queue d \<and> accepting d' = accepting d \<and> stats d' = stats d \<and>
    sender_joinable d' = sender_joinable d"
proof (cases "d' = d")
  case False
  with assms(2) obtain items ts b where i: "reservation_items bs es 0 0 = Some (items, ts, b)"
    and d': "d' = d\<lparr>active_reservation_id := rid, next_reservation_id := rid + 1,
                reserved_items := items, reserved_transitions := ts,
                reserved_estimated_bytes := b,
                active_reservation_delivery_generation := delivery_generation d,
                active_reservation_sealed := False\<rparr>"
    and g: "reserve_has_capacity cfg d items b" "\<not> terminal_for_admission d"
      "delivery_state d = DsHealthy" "reserved_items d = []" "rid \<noteq> 0" "es \<noteq> []"
    by (auto simp: ReserveEnqueueEnvelopeSet_def Let_def split: if_splits option.splits)
  note ok = reservation_items_ok [OF i]
  have "items \<noteq> []" using ok g(6) by auto
  with ok g assms(1) show ?thesis
    using byte_limit_le [of cfg] by (auto simp: acct_def d' reserve_has_capacity_def terminal_for_admission_def)
qed (use assms in auto)

lemma acct_identity_fault: "acct cfg bs d \<Longrightarrow> acct cfg bs (identity_fault err d)"
  unfolding identity_fault_def by (rule acct_release) (simp add: acct_def)

lemma acct_Seal:
  assumes "acct cfg bs d" "SealEnqueueEnvelopeSet rid d = (r, e, d')"
  shows "acct cfg bs d' \<and> queue d' = queue d \<and> accepting d' = accepting d \<and> stats d' = stats d \<and>
    sender_joinable d' = sender_joinable d"
  using assms acct_release [OF assms(1)] acct_identity_fault [OF assms(1)]
  by (auto simp: SealEnqueueEnvelopeSet_def Let_def identity_fault_def split: if_splits)
    (auto simp: acct_def terminal_for_admission_def)

lemma acct_splice: "acct cfg bs d \<Longrightarrow> acct cfg bs (splice_reservation d)"
  by (auto simp: acct_def splice_reservation_def)

lemma acct_Commit:
  assumes "acct cfg bs d" "CommitEnqueueEnvelopeSet rid d = (r, e, d')"
  shows "acct cfg bs d' \<and> accepting d' = accepting d \<and>
    sender_joinable d' = sender_joinable d \<and>
    queue d' = (if r = Committed \<and> rid \<noteq> 0 then queue d @ reserved_items d else queue d)"
  using assms acct_release [OF assms(1)] acct_identity_fault [OF assms(1)] acct_splice [OF assms(1)]
  by (auto simp: CommitEnqueueEnvelopeSet_def Let_def identity_fault_def splice_reservation_def
      split: if_splits)

section \<open>The system\<close>

datatype sender_pc =
  AtTop
| Refreshing
| Taken queue_item
| Attempt queue_item service_identity int
| InRpc queue_item service_identity int
| Returned queue_item service_identity int grpc_status string push_rsp
| Judging queue_item service_identity int grpc_status string push_rsp
| Popping queue_item bool
| BackingOff queue_item int int string
| Marking int string
| Failing queue_item int string
| Degrading string
| Exiting
| Exited

datatype stop_pc = NotStopping | Waiting | Joining bool | StopReturned bool

record sys =
  dst :: dist
  pc :: sender_pc
  stopper :: stop_pc
  admitted :: "envelope list"
  delivered :: "(envelope \<times> bool) list"
  abandoned :: "envelope list"
  dropped_unqueued :: "(int \<times> int) list"

definition next_pc :: "queue_item \<Rightarrow> service_identity \<Rightarrow> int \<Rightarrow> send_result \<Rightarrow> sender_pc" where
  "next_pc item pool used r =
     (case r of
        SendCommitted dup \<Rightarrow> Popping item dup
      | SendTransient ms err \<Rightarrow> BackingOff item used ms err
      | SendRejected err \<Rightarrow> Failing item used err
      | SendRetry \<Rightarrow> Attempt item pool used)"

text \<open>\<open>SenderLoop\<close> and \<open>SendFront\<close>, one rule per locked block; what the RPCs return is arbitrary.\<close>

inductive sender_step :: "training_config \<Rightarrow> sys \<Rightarrow> sys \<Rightarrow> bool" for cfg where
  top_exit:
    "pc s = AtTop \<Longrightarrow> force_stop (dst s) \<or> (stop_requested (dst s) \<and> queue (dst s) = []) \<Longrightarrow>
     sender_step cfg s (s\<lparr>pc := Exiting\<rparr>)"
| top_idle:
    "pc s = AtTop \<Longrightarrow> \<not> force_stop (dst s) \<Longrightarrow> \<not> stop_requested (dst s) \<Longrightarrow> queue (dst s) = [] \<Longrightarrow>
     sender_step cfg s (s\<lparr>pc := Refreshing\<rparr>)"
| top_take:
    "pc s = AtTop \<Longrightarrow> \<not> force_stop (dst s) \<Longrightarrow> queue (dst s) = item # rest \<Longrightarrow>
     sender_step cfg s (s\<lparr>pc := Taken item\<rparr>)"
| refresh:
    "pc s = Refreshing \<Longrightarrow> RefreshSamplePoolStatus cfg now st msg status (dst s) = (r, d) \<Longrightarrow>
     sender_step cfg s (s\<lparr>dst := d, pc := (if r = RefreshTerminal then Exiting else AtTop)\<rparr>)"
| pin:
    "pc s = Taken item \<Longrightarrow> sender_step cfg s (s\<lparr>pc := Attempt item (sample_pool (dst s)) 0\<rparr>)"
| no_attempt_left:
    "pc s = Attempt item pool n \<Longrightarrow> n \<ge> max_attempts cfg \<Longrightarrow>
     sender_step cfg s (s\<lparr>pc := Failing item n []\<rparr>)"
| attempt_stopped:
    "pc s = Attempt item pool n \<Longrightarrow> n < max_attempts cfg \<Longrightarrow> force_stop (dst s) \<Longrightarrow>
     sender_step cfg s (s\<lparr>pc := Failing item n ''distributor forced to stop''\<rparr>)"
| attempt:
    "pc s = Attempt item pool n \<Longrightarrow> n < max_attempts cfg \<Longrightarrow> \<not> force_stop (dst s) \<Longrightarrow>
     sender_step cfg s (s\<lparr>dst := begin_attempt item n (dst s), pc := InRpc item pool (n + 1)\<rparr>)"
| rpc_returns:
    "pc s = InRpc item pool n \<Longrightarrow>
     sender_step cfg s (s\<lparr>dst := count_rpc latency (dst s), pc := Returned item pool n st msg rsp\<rparr>)"
| note_outcome:
    "pc s = Returned item pool n st msg rsp \<Longrightarrow>
     sender_step cfg s (s\<lparr>dst := note_returned item st (dst s), pc := Judging item pool n st msg rsp\<rparr>)"
| judge:
    "pc s = Judging item pool n st msg rsp \<Longrightarrow>
     after_rpc cfg pool item n st msg rsp (dst s) = (r, d) \<Longrightarrow>
     sender_step cfg s (s\<lparr>dst := d, pc := next_pc item pool n r\<rparr>)"
| pop:
    "pc s = Popping item dup \<Longrightarrow>
     sender_step cfg s (s\<lparr>dst := pop_committed item dup (dst s), pc := AtTop,
                          delivered := delivered s @ [(q_envelope item, dup)]\<rparr>)"
| back_off:
    "pc s = BackingOff item n ms err \<Longrightarrow>
     sender_step cfg s (s\<lparr>dst := add_attempts item n (dst s),
       pc := (if force_stop (dst s) then Exiting else Marking ms err)\<rparr>)"
| mark:
    "pc s = Marking ms err \<Longrightarrow>
     MarkTransient cfg now (if_empty err ''SamplePool ingress transport is unavailable'' err) ms (dst s)
       = (ok, d) \<Longrightarrow>
     sender_step cfg s (s\<lparr>dst := d, pc := (if ok then AtTop else Exiting)\<rparr>)"
| fail:
    "pc s = Failing item n err \<Longrightarrow>
     sender_step cfg s (s\<lparr>dst := add_attempts item n (dst s), pc := Degrading err\<rparr>)"
| degrade:
    "pc s = Degrading err \<Longrightarrow>
     sender_step cfg s (s\<lparr>dst := dist_MarkDegraded (if_empty err ''PushSamples failed'' err) (dst s),
                          pc := Exiting\<rparr>)"
| exit_sender:
    "pc s = Exiting \<Longrightarrow> sender_step cfg s (s\<lparr>dst := sender_exit (dst s), pc := Exited\<rparr>)"

text \<open>The calls of the training runtime, in any order and with any arguments.\<close>

inductive client_step ::
  "training_config \<Rightarrow> (envelope \<Rightarrow> nat) \<Rightarrow> sys \<Rightarrow> sys \<Rightarrow> bool" for cfg byte_size where
  reserve:
    "ReserveEnqueueEnvelopeSet cfg byte_size es (dst s) = (r, rid, err, d) \<Longrightarrow>
     client_step cfg byte_size s (s\<lparr>dst := d\<rparr>)"
| seal:
    "SealEnqueueEnvelopeSet rid (dst s) = (sr, err, d) \<Longrightarrow>
     client_step cfg byte_size s (s\<lparr>dst := d\<rparr>)"
| commit:
    "CommitEnqueueEnvelopeSet rid (dst s) = (cr, err, d) \<Longrightarrow>
     client_step cfg byte_size s (s\<lparr>dst := d,
       admitted := admitted s @
         (if cr = Committed \<and> rid \<noteq> 0 then map q_envelope (reserved_items (dst s)) else [])\<rparr>)"
| cancel:
    "client_step cfg byte_size s (s\<lparr>dst := CancelEnqueueEnvelopeSet rid (dst s)\<rparr>)"
| enqueue:
    "dist_Enqueue cfg byte_size e (dst s) = (ok, d) \<Longrightarrow>
     client_step cfg byte_size s (s\<lparr>dst := d, admitted := admitted s @ (if ok then [e] else [])\<rparr>)"
| final_drop:
    "client_step cfg byte_size s (s\<lparr>dst := RecordFinalDrop ts es err (dst s),
       dropped_unqueued := dropped_unqueued s @ [(ts, es)]\<rparr>)"

text \<open>\<open>StopAndDrain\<close>; the join waits for the sender.\<close>

inductive stop_step :: "sys \<Rightarrow> sys \<Rightarrow> bool" where
  stop_idle:
    "stopper s = NotStopping \<or> stopper s = StopReturned b \<Longrightarrow> stop_begin (dst s) = (Some r, d) \<Longrightarrow>
     stop_step s (s\<lparr>dst := d, stopper := StopReturned r\<rparr>)"
| stop_request:
    "stopper s = NotStopping \<or> stopper s = StopReturned b \<Longrightarrow> stop_begin (dst s) = (None, d) \<Longrightarrow>
     stop_step s (s\<lparr>dst := d, stopper := Waiting\<rparr>)"
| stop_waited:
    "stopper s = Waiting \<Longrightarrow> stop_timeout (dst s) = (b, d) \<Longrightarrow>
     stop_step s (s\<lparr>dst := d, stopper := Joining b\<rparr>)"
| stop_joined:
    "stopper s = Joining b \<Longrightarrow> pc s = Exited \<Longrightarrow> stop_finish b (dst s) = (r, d) \<Longrightarrow>
     stop_step s (s\<lparr>dst := d, stopper := StopReturned r,
       abandoned := abandoned s @ (if r then [] else map q_envelope (queue (dst s)))\<rparr>)"

definition sys_step :: "training_config \<Rightarrow> (envelope \<Rightarrow> nat) \<Rightarrow> sys \<Rightarrow> sys \<Rightarrow> bool" where
  "sys_step cfg byte_size s s' \<longleftrightarrow>
     sender_step cfg s s' \<or> client_step cfg byte_size s s' \<or> stop_step s s'"

text \<open>A distributor starts with a successful \<open>Start\<close>.\<close>

inductive reachable :: "training_config \<Rightarrow> (envelope \<Rightarrow> nat) \<Rightarrow> sys \<Rightarrow> bool" for cfg byte_size where
  started:
    "dist_Start cfg target conn_ok st msg status init_dist = (True, d) \<Longrightarrow>
     reachable cfg byte_size
       \<lparr>dst = d, pc = AtTop, stopper = NotStopping, admitted = [], delivered = [], abandoned = [],
        dropped_unqueued = []\<rparr>"
| stepped: "reachable cfg byte_size s \<Longrightarrow> sys_step cfg byte_size s s' \<Longrightarrow> reachable cfg byte_size s'"

end
