(* ===== verification/Distributor_Properties.thy ===== *)
theory Distributor_Properties
  imports Distributor_Protocol
begin

text \<open>
  What holds of the sample distributor in every reachable state, whatever the interleaving of the
  runtime's calls, the sender and \<open>StopAndDrain\<close>, and whatever the SamplePool answers: the
  accounting, the bounds of the queue, the FIFO ledger of admitted envelopes, the two-phase
  admission and what \<open>StopAndDrain\<close> promises.
\<close>

section \<open>The invariant\<close>

text \<open>The item the sender holds outside the lock.\<close>

fun held :: "sender_pc \<Rightarrow> queue_item option" where
  "held (Taken i) = Some i"
| "held (Attempt i p n) = Some i"
| "held (InRpc i p n) = Some i"
| "held (Returned i p n st msg rsp) = Some i"
| "held (Judging i p n st msg rsp) = Some i"
| "held (Popping i dup) = Some i"
| "held (BackingOff i n ms err) = Some i"
| "held (Failing i n err) = Some i"
| "held _ = None"

definition holds_front :: "sys \<Rightarrow> bool" where
  "holds_front s \<longleftrightarrow>
     (\<forall>i. held (pc s) = Some i \<longrightarrow> (\<exists>vs. map view (queue (dst s)) = view i # vs))"

definition ledger :: "sys \<Rightarrow> bool" where
  "ledger s \<longleftrightarrow>
     admitted s = map fst (delivered s) @ map q_envelope (queue (dst s)) @ abandoned s \<and>
     (abandoned s \<noteq> [] \<longrightarrow> queue (dst s) = [] \<and> (\<exists>b. stopper s = StopReturned b))"

definition stop_ok :: "sys \<Rightarrow> bool" where
  "stop_ok s \<longleftrightarrow>
     (sender_joinable (dst s) \<longleftrightarrow> (\<forall>b. stopper s \<noteq> StopReturned b)) \<and>
     (stopper s \<noteq> NotStopping \<longrightarrow> \<not> accepting (dst s)) \<and>
     (force_stop (dst s) \<longrightarrow> \<not> accepting (dst s)) \<and>
     (stopper s = Joining True \<longrightarrow> queue (dst s) = []) \<and>
     (\<forall>b. stopper s = StopReturned b \<longrightarrow>
        pc s = Exited \<and> queue (dst s) = [])"

definition samples_of :: "envelope list \<Rightarrow> int" where
  "samples_of es = (\<Sum>e\<leftarrow>es. int (length (samples e)))"

definition uniques :: "(envelope \<times> bool) list \<Rightarrow> envelope list" where
  "uniques ds = map fst (filter (\<lambda>x. \<not> snd x) ds)"

definition duplicates :: "(envelope \<times> bool) list \<Rightarrow> envelope list" where
  "duplicates ds = map fst (filter snd ds)"

definition tally_ok :: "training_config \<Rightarrow> sys \<Rightarrow> bool" where
  "tally_ok cfg s \<longleftrightarrow>
     (let st = stats (dst s) in
      accepted_unique_transitions st = samples_of (uniques (delivered s)) \<and>
      accepted_unique_envelopes st = int (length (uniques (delivered s))) \<and>
      duplicate_push_attempt_count st = int (length (duplicates (delivered s))) \<and>
      final_drop_unique_transitions st + unresolved_push_outcome_unknown_transitions st =
        samples_of (abandoned s) + sum_list (map fst (dropped_unqueued s)) \<and>
      final_drop_unique_envelopes st + unresolved_push_outcome_unknown_envelopes st =
        int (length (abandoned s)) + sum_list (map snd (dropped_unqueued s)) \<and>
      int (length (queue (dst s))) \<le> queue_high_watermark st \<and>
      queue_high_watermark st \<le> int (outbound_max_envelopes cfg))"

lemma samples_of_simps [simp]:
  "samples_of [] = 0" "samples_of (e # es) = int (length (samples e)) + samples_of es"
  "samples_of (es @ fs) = samples_of es + samples_of fs"
  by (simp_all add: samples_of_def)

lemma uniques_simps [simp]:
  "uniques [] = []" "uniques (ds @ [(e, b)]) = uniques ds @ (if b then [] else [e])"
  "duplicates [] = []" "duplicates (ds @ [(e, b)]) = duplicates ds @ (if b then [e] else [])"
  by (simp_all add: uniques_def duplicates_def)

lemma samples_of_delivered:
  "samples_of (map fst ds) = samples_of (uniques ds) + samples_of (duplicates ds)"
  by (induction ds) (auto simp: uniques_def duplicates_def)

lemma samples_of_queue:
  "list_all (item_ok bs) q \<Longrightarrow> samples_of (map q_envelope q) = sum_transitions q"
  by (induction q) (auto simp: item_ok_def)

definition inv :: "training_config \<Rightarrow> (envelope \<Rightarrow> nat) \<Rightarrow> sys \<Rightarrow> bool" where
  "inv cfg bs s \<longleftrightarrow>
     acct cfg bs (dst s) \<and> flags_ok (dst s) \<and> holds_front s \<and> ledger s \<and> stop_ok s \<and>
     tally_ok cfg s"

section \<open>Quiet steps\<close>

text \<open>
  A step that changes nothing observed, keeps the flags in order and hands the sender an item
  only from the front preserves the invariant.
\<close>

lemma queue_views:
  assumes "core d' = core d"
  shows "map q_envelope (queue d') = map q_envelope (queue d)" "queue d' = [] \<longleftrightarrow> queue d = []"
    "length (queue d') = length (queue d)"
  using views_eq [OF core_dest(1) [OF assms]] core_dest(1) [OF assms] by auto

lemma inv_quiet:
  assumes i: "inv cfg bs s" and c: "core d' = core (dst s)" and f: "flags_ok d'"
    and h: "held p = None \<or> held p = held (pc s)"
    and e: "p = Exited \<or> pc s \<noteq> Exited"
  shows "inv cfg bs (s\<lparr>dst := d', pc := p\<rparr>)"
proof -
  note [simp] = core_dest(2-12) [OF c] queue_views [OF c]
  note v = core_dest(1) [OF c]
  have t: "tally (stats d') = tally (stats (dst s))" by (rule core_dest(13) [OF c])
  have "acct cfg bs d'" using i acct_core [OF c] by (simp add: inv_def)
  moreover have "holds_front (s\<lparr>dst := d', pc := p\<rparr>)"
    using i h v by (auto simp: inv_def holds_front_def)
  moreover have "ledger (s\<lparr>dst := d', pc := p\<rparr>)" using i by (simp add: inv_def ledger_def)
  moreover have "stop_ok (s\<lparr>dst := d', pc := p\<rparr>)" using i e by (auto simp: inv_def stop_ok_def)
  moreover have "tally_ok cfg (s\<lparr>dst := d', pc := p\<rparr>)"
    using i t by (simp add: inv_def tally_ok_def tally_def Let_def)
  ultimately show ?thesis using f by (simp add: inv_def)
qed

text \<open>The sender's steps.\<close>

lemma inv_pc:
  assumes "inv cfg bs s" "held p = None \<or> held p = held (pc s)" "pc s \<noteq> Exited"
  shows "inv cfg bs (s\<lparr>pc := p\<rparr>)"
  using inv_quiet [OF assms(1) refl _ assms(2)] assms(1,3) by (simp add: inv_def)

lemma view_pop:
  assumes "map view q = view i # vs"
  obtains f r where "q = f # r" "q_envelope f = q_envelope i" "q_transitions f = q_transitions i"
    "q_bytes f = q_bytes i" "map view r = vs"
  using assms by (cases q) (auto simp: view_def)

lemma inv_pop:
  assumes i: "inv cfg bs s" and p: "pc s = Popping item dup"
  shows "inv cfg bs (s\<lparr>dst := pop_committed item dup (dst s), pc := AtTop,
           delivered := delivered s @ [(q_envelope item, dup)]\<rparr>)"
proof -
  from i p obtain vs where "map view (queue (dst s)) = view item # vs"
    by (auto simp: inv_def holds_front_def)
  then obtain f r where q: "queue (dst s) = f # r" and f: "q_envelope f = q_envelope item"
    "q_transitions f = q_transitions item" by (rule view_pop)
  from i q have ok: "item_ok bs f" by (auto simp: inv_def acct_def)
  let ?d = "pop_committed item dup (dst s)"
  have "acct cfg bs ?d" using i q f ok
    by (simp add: inv_def acct_def pop_committed_def) (simp add: item_ok_def)
  moreover have "flags_ok ?d" using i q f by (simp add: inv_def flags_ok_def pop_committed_def)
  ultimately show ?thesis using i q f ok p
    by (simp add: inv_def holds_front_def ledger_def stop_ok_def tally_ok_def Let_def)
      (auto simp: pop_committed_def item_ok_def)
qed

lemma flags_update_front [simp]: "flags_ok (update_front item g d) = flags_ok d"
  by (simp add: flags_ok_def update_front_def split: list.splits)

lemma flags_sender_ops [simp]:
  "flags_ok (begin_attempt item n d) = flags_ok d"
  "flags_ok (count_rpc l d) = flags_ok d"
  "flags_ok (count_rejected d) = flags_ok d"
  "flags_ok (clear_unknown item d) = flags_ok d"
  "flags_ok (note_returned item st d) = flags_ok d"
  "flags_ok (add_attempts item n d) = flags_ok d"
  by (simp_all add: begin_attempt_def count_rpc_def count_rejected_def clear_unknown_def
      note_returned_def add_attempts_def)

lemma flags_after_rpc [simp]:
  "flags_ok d \<Longrightarrow> flags_ok (snd (after_rpc cfg pool item n st msg rsp d))"
  by (simp add: after_rpc_def Let_def split: sum.splits)

lemma held_next_pc: "held (next_pc item pool n r) = Some item"
  by (cases r) (simp_all add: next_pc_def)

lemma inv_sender_step:
  assumes "sender_step cfg s s'" and i: "inv cfg bs s"
  shows "inv cfg bs s'"
proof -
  have f: "flags_ok (dst s)" using i by (simp add: inv_def)
  note quiet = inv_quiet [OF i]
  from assms(1) show ?thesis
  proof cases
    case (top_take item rest)
    have "holds_front (s\<lparr>pc := Taken item\<rparr>)" using top_take by (simp add: holds_front_def)
    with i top_take show ?thesis
      by (simp add: inv_def ledger_def stop_ok_def tally_ok_def Let_def)
  next
    case (refresh now st msg status r d)
    have "core d = core (dst s)" "flags_ok d"
      using core_Refresh [of cfg now st msg status "dst s"]
        flags_Refresh [OF f, of cfg now st msg status] by (simp_all add: refresh(3))
    then show ?thesis unfolding refresh(1) by (intro quiet) (simp_all add: refresh(2))
  next
    case (judge item pool n st msg rsp r d)
    have "core d = core (dst s)" "flags_ok d"
      using core_after_rpc [of cfg pool item n st msg rsp "dst s"]
        flags_after_rpc [OF f, of cfg pool item n st msg rsp] by (simp_all add: judge(3))
    then show ?thesis unfolding judge(1)
      by (intro quiet) (simp_all add: judge(2) held_next_pc)
  next
    case (mark ms err now ok d)
    let ?e = "if_empty err ''SamplePool ingress transport is unavailable'' err"
    have "core d = core (dst s)" "flags_ok d"
      using core_MarkTransient [of cfg now ?e ms "dst s"]
        flags_MarkTransient [OF f, of cfg now ?e ms] by (simp_all only: mark(3) snd_conv)
    then show ?thesis unfolding mark(1) by (intro quiet) (simp_all add: mark(2))
  next
    case (pop item dup)
    with inv_pop [OF i] show ?thesis by simp
  next
    case (back_off item n ms err)
    with f show ?thesis by (auto intro!: quiet)
  next
    case top_exit
    with i show ?thesis by (auto intro!: inv_pc)
  next
    case top_idle
    with i show ?thesis by (auto intro!: inv_pc)
  next
    case pin
    with i show ?thesis by (auto intro!: inv_pc)
  next
    case no_attempt_left
    with i show ?thesis by (auto intro!: inv_pc)
  next
    case attempt_stopped
    with i show ?thesis by (auto intro!: inv_pc)
  next
    case attempt
    with f show ?thesis by (auto intro!: quiet)
  next
    case rpc_returns
    with f show ?thesis by (auto intro!: quiet)
  next
    case note_outcome
    with f show ?thesis by (auto intro!: quiet)
  next
    case fail
    with f show ?thesis by (auto intro!: quiet)
  next
    case degrade
    with f show ?thesis by (auto intro!: quiet)
  next
    case exit_sender
    with f show ?thesis by (auto intro!: quiet)
  qed
qed

text \<open>The runtime's calls.\<close>

lemma inv_client:
  assumes i: "inv cfg bs s" and a: "acct cfg bs d" and f: "flags_ok d"
    and q: "queue d = queue (dst s) @ new" and acc: "new \<noteq> [] \<Longrightarrow> accepting (dst s)"
    and keep: "accepting d = accepting (dst s)" "sender_joinable d = sender_joinable (dst s)"
      "force_stop d = force_stop (dst s)"
    and t: "tally (stats d) = (fst (tally (stats (dst s))), fst (snd (tally (stats (dst s)))), hw)"
    and hw: "int (length (queue d)) \<le> hw" "hw \<le> int (outbound_max_envelopes cfg)"
  shows "inv cfg bs (s\<lparr>dst := d, admitted := admitted s @ map q_envelope new\<rparr>)"
proof -
  have "holds_front (s\<lparr>dst := d, admitted := admitted s @ map q_envelope new\<rparr>)"
    using i q by (auto simp: inv_def holds_front_def)
  moreover have "ledger (s\<lparr>dst := d, admitted := admitted s @ map q_envelope new\<rparr>)"
    and "stop_ok (s\<lparr>dst := d, admitted := admitted s @ map q_envelope new\<rparr>)"
  proof -
    have l: "ledger s" and st: "stop_ok s" using i by (simp_all add: inv_def)
    show "stop_ok (s\<lparr>dst := d, admitted := admitted s @ map q_envelope new\<rparr>)"
      using st acc by (cases "new = []") (auto simp: stop_ok_def q keep)
    have "abandoned s = [] \<or> new = []" using l st acc by (auto simp: ledger_def stop_ok_def)
    then show "ledger (s\<lparr>dst := d, admitted := admitted s @ map q_envelope new\<rparr>)"
      using l by (elim disjE) (simp_all add: ledger_def q)
  qed
  moreover have "tally_ok cfg (s\<lparr>dst := d, admitted := admitted s @ map q_envelope new\<rparr>)"
    using i t hw by (simp add: inv_def tally_ok_def tally_def Let_def)
  ultimately show ?thesis using a f by (simp add: inv_def)
qed

text \<open>The part of the state a reservation does not own.\<close>

definition frame :: "dist \<Rightarrow> bool \<times> bool \<times> bool \<times> dist_stats" where
  "frame d = (accepting d, sender_joinable d, force_stop d, stats d)"

lemma frame_dest:
  assumes "frame d' = frame d"
  shows "accepting d' = accepting d" "sender_joinable d' = sender_joinable d"
    "force_stop d' = force_stop d" "stats d' = stats d"
  using assms by (simp_all add: frame_def)

lemma frame_release [simp]: "frame (release_reservation d) = frame d"
  by (simp add: frame_def release_reservation_def)

lemma identity_fault_frame [simp]:
  "frame (identity_fault err d) = frame d" "queue (identity_fault err d) = queue d"
  "flags_ok (identity_fault err d)"
  by (simp_all add: frame_def identity_fault_def release_reservation_def flags_ok_def)

lemma Reserve_frame:
  assumes "ReserveEnqueueEnvelopeSet cfg bs es d = (r, rid, e, d')"
  shows "frame d' = frame d" "queue d' = queue d" "flags_ok d \<Longrightarrow> flags_ok d'"
  using assms
  by (auto simp: ReserveEnqueueEnvelopeSet_def Let_def frame_def flags_ok_def
      split: if_splits option.splits)

lemma Seal_frame:
  assumes "SealEnqueueEnvelopeSet rid d = (r, e, d')"
  shows "frame d' = frame d" "queue d' = queue d" "flags_ok d \<Longrightarrow> flags_ok d'"
proof -
  from assms have "d' = d \<or> d' = release_reservation d \<or> (\<exists>e. d' = identity_fault e d) \<or>
      d' = d\<lparr>active_reservation_sealed := True\<rparr>"
    by (auto simp: SealEnqueueEnvelopeSet_def Let_def split: if_splits)
  then have "frame d' = frame d \<and> queue d' = queue d \<and> (flags_ok d \<longrightarrow> flags_ok d')"
    by (elim disjE exE) (simp_all, simp_all add: frame_def flags_ok_def)
  then show "frame d' = frame d" "queue d' = queue d" "flags_ok d \<Longrightarrow> flags_ok d'" by auto
qed

lemma Commit_cases:
  assumes "CommitEnqueueEnvelopeSet rid d = (r, e, d')"
  obtains (none) "rid = 0" "r = Committed" "d' = d"
  | (spliced) "rid \<noteq> 0" "r = Committed" "rid = active_reservation_id d" "d' = splice_reservation d"
      "active_reservation_sealed d \<or> accepting d"
  | (released) "rid \<noteq> 0" "r \<noteq> Committed" "d' = release_reservation d"
  | (fault) err where "rid \<noteq> 0" "r \<noteq> Committed" "d' = identity_fault err d"
proof -
  from assms have "(rid = 0 \<and> r = Committed \<and> d' = d) \<or>
      (rid \<noteq> 0 \<and> r = Committed \<and> rid = active_reservation_id d \<and> d' = splice_reservation d \<and>
         (active_reservation_sealed d \<or> accepting d)) \<or>
      (rid \<noteq> 0 \<and> r \<noteq> Committed \<and> d' = release_reservation d) \<or>
      (rid \<noteq> 0 \<and> r \<noteq> Committed \<and> (\<exists>e. d' = identity_fault e d))"
    by (auto simp: CommitEnqueueEnvelopeSet_def Let_def terminal_for_admission_def
        split: if_splits)
  then show thesis using none spliced released fault by blast
qed

lemma splice_simps [simp]:
  "queue (splice_reservation d) = queue d @ reserved_items d"
  "accepting (splice_reservation d) = accepting d"
  "sender_joinable (splice_reservation d) = sender_joinable d"
  "force_stop (splice_reservation d) = force_stop d"
  "flags_ok (splice_reservation d) = flags_ok d"
  "tally (stats (splice_reservation d)) =
     (fst (tally (stats d)), fst (snd (tally (stats d))),
      max (queue_high_watermark (stats d)) (int (length (queue d @ reserved_items d))))"
  by (simp_all add: splice_reservation_def release_reservation_def tally_def flags_ok_def)

lemma inv_same_queue:
  assumes i: "inv cfg bs s" and "acct cfg bs d" "flags_ok d"
    and f: "frame d = frame (dst s)" and q: "queue d = queue (dst s)"
  shows "inv cfg bs (s\<lparr>dst := d\<rparr>)"
proof -
  have hw: "int (length (queue d)) \<le> queue_high_watermark (stats (dst s))"
    "queue_high_watermark (stats (dst s)) \<le> int (outbound_max_envelopes cfg)"
    using i q by (simp_all add: inv_def tally_ok_def Let_def)
  show ?thesis
    using inv_client [OF assms(1-3), of "[]", OF _ _ frame_dest(1-3) [OF f] _ hw]
    by (simp add: q frame_dest(4) [OF f] tally_def)
qed

lemma inv_splice:
  assumes i: "inv cfg bs s"
    and acc: "active_reservation_sealed (dst s) \<or> accepting (dst s)"
  shows "inv cfg bs (s\<lparr>dst := splice_reservation (dst s),
           admitted := admitted s @ map q_envelope (reserved_items (dst s))\<rparr>)"
proof -
  have a: "acct cfg bs (dst s)" and f: "flags_ok (dst s)" and t: "tally_ok cfg s"
    using i by (simp_all add: inv_def)
  have "accepting (dst s)" using acc a by (auto simp: acct_def)
  moreover have "int (length (queue (splice_reservation (dst s)))) \<le>
      max (queue_high_watermark (stats (dst s)))
        (int (length (queue (dst s) @ reserved_items (dst s))))"
    "max (queue_high_watermark (stats (dst s)))
        (int (length (queue (dst s) @ reserved_items (dst s)))) \<le> int (outbound_max_envelopes cfg)"
    using a t by (simp_all add: acct_def tally_ok_def Let_def)
  ultimately show ?thesis
    by (intro inv_client [OF i acct_splice [OF a], where hw = "max (queue_high_watermark (stats (dst s)))
          (int (length (queue (dst s) @ reserved_items (dst s))))"]) (simp_all add: f)
qed

lemma inv_enqueue:
  assumes i: "inv cfg bs s" and e: "dist_Enqueue cfg bs e (dst s) = (True, d)"
  shows "inv cfg bs (s\<lparr>dst := d, admitted := admitted s @ [e]\<rparr>)"
proof -
  let ?i = "make_item bs e"
  have a: "acct cfg bs (dst s)" and f: "flags_ok (dst s)" and t: "tally_ok cfg s"
    using i by (simp_all add: inv_def)
  from e have g: "0 < q_transitions ?i" "0 < q_bytes ?i" "enqueue_has_capacity cfg (dst s) ?i"
      "accepting (dst s)" "\<not> force_stop (dst s)" "\<not> degraded (dst s)"
    and d: "d = (dst s)\<lparr>queue := queue (dst s) @ [?i],
       queue_transitions := queue_transitions (dst s) + q_transitions ?i,
       queue_estimated_bytes := queue_estimated_bytes (dst s) + q_bytes ?i,
       stats := (stats (dst s))\<lparr>queue_high_watermark :=
         max (queue_high_watermark (stats (dst s))) (int (length (queue (dst s) @ [?i])))\<rparr>\<rparr>"
    by (auto simp: dist_Enqueue_def Let_def split: if_splits)
  have ok: "item_ok bs ?i" using g by (simp add: item_ok_def make_item_def)
  have m: "q_envelope ?i = e" by (simp add: make_item_def)
  have "acct cfg bs d" using a g ok byte_limit_le [of cfg] by (simp add: acct_def d enqueue_has_capacity_def)
  moreover have "flags_ok d" using f by (simp add: d flags_ok_def)
  moreover have "int (length (queue d)) \<le> queue_high_watermark (stats d)"
    "queue_high_watermark (stats d) \<le> int (outbound_max_envelopes cfg)"
    using t g by (simp_all add: d enqueue_has_capacity_def tally_ok_def Let_def)
  ultimately have "inv cfg bs (s\<lparr>dst := d, admitted := admitted s @ map q_envelope [?i]\<rparr>)"
    by (intro inv_client [OF i, where hw = "queue_high_watermark (stats d)"])
      (use g in \<open>simp_all add: d tally_def\<close>)
  then show ?thesis by (simp add: m)
qed

lemma inv_client_step:
  assumes "client_step cfg bs s s'" and i: "inv cfg bs s"
  shows "inv cfg bs s'"
proof -
  have a: "acct cfg bs (dst s)" and f: "flags_ok (dst s)" using i by (simp_all add: inv_def)
  from assms(1) show ?thesis
  proof cases
    case (reserve es r rid err d)
    with i a f show ?thesis using acct_Reserve [OF a reserve(2)] Reserve_frame [OF reserve(2)]
      by (auto intro!: inv_same_queue)
  next
    case (seal rid sr err d)
    with i a f show ?thesis using acct_Seal [OF a seal(2)] Seal_frame [OF seal(2)]
      by (auto intro!: inv_same_queue)
  next
    case (commit rid cr err d)
    from commit(2) show ?thesis
    proof (cases rule: Commit_cases)
      case none
      with i show ?thesis by (simp add: commit(1))
    next
      case spliced
      with inv_splice [OF i] show ?thesis by (simp add: commit(1))
    next
      case released
      with i a f show ?thesis by (auto simp: commit(1) intro!: inv_same_queue acct_release)
    next
      case (fault err)
      with i a f show ?thesis by (auto simp: commit(1) intro!: inv_same_queue acct_identity_fault)
    qed
  next
    case (cancel rid)
    with i a f show ?thesis
      by (auto simp: CancelEnqueueEnvelopeSet_def intro!: inv_same_queue acct_release)
  next
    case (enqueue e ok d)
    show ?thesis
    proof (cases ok)
      case True
      with inv_enqueue [OF i] enqueue(2) show ?thesis by (simp add: enqueue(1))
    next
      case False
      with enqueue(2) have "d = dst s" by (auto simp: dist_Enqueue_def Let_def split: if_splits)
      with False i show ?thesis by (simp add: enqueue(1))
    qed
  next
    case (final_drop ts es err)
    let ?d = "RecordFinalDrop ts es err (dst s)"
    have "acct cfg bs ?d" using a by (simp add: acct_def RecordFinalDrop_def)
    moreover have "flags_ok ?d" by (simp add: flags_ok_def RecordFinalDrop_def)
    ultimately show ?thesis using i
      by (simp add: final_drop inv_def holds_front_def ledger_def stop_ok_def tally_ok_def Let_def)
        (simp add: RecordFinalDrop_def)
  qed
qed

text \<open>\<open>StopAndDrain\<close>.\<close>

lemma classify_left_total:
  "(let st' = foldl classify_left st q in
     accepted_unique_transitions st' = accepted_unique_transitions st \<and>
     accepted_unique_envelopes st' = accepted_unique_envelopes st \<and>
     duplicate_push_attempt_count st' = duplicate_push_attempt_count st \<and>
     queue_high_watermark st' = queue_high_watermark st \<and>
     final_drop_unique_transitions st' + unresolved_push_outcome_unknown_transitions st' =
       final_drop_unique_transitions st + unresolved_push_outcome_unknown_transitions st +
       sum_transitions q \<and>
     final_drop_unique_envelopes st' + unresolved_push_outcome_unknown_envelopes st' =
       final_drop_unique_envelopes st + unresolved_push_outcome_unknown_envelopes st +
       int (length q))"
proof (induction q arbitrary: st)
  case (Cons i q)
  from Cons [of "classify_left st i"] show ?case
    by (simp add: Let_def) (simp add: classify_left_def)
qed simp

lemma acct_stop_begin: "acct cfg bs d \<Longrightarrow> stop_begin d = (r, d') \<Longrightarrow> acct cfg bs d'"
  using acct_release [of cfg bs d]
  by (auto simp: stop_begin_def Let_def acct_def split: if_splits)

lemma stop_begin_frame:
  assumes "stop_begin d = (r, d')"
  shows "queue d' = queue d" "stats d' = stats d" "\<not> accepting d'"
    "sender_joinable d' = sender_joinable d" "force_stop d' = force_stop d"
    "flags_ok d \<Longrightarrow> flags_ok d'" "r = (if sender_joinable d then None else Some (queue d = []))"
  using assms
  by (auto simp: stop_begin_def Let_def release_reservation_def flags_ok_def split: if_splits)

lemma inv_stop_joined:
  assumes i: "inv cfg bs s" and p: "stopper s = Joining b" "pc s = Exited"
    and r: "stop_finish b (dst s) = (r, d)"
  shows "inv cfg bs (s\<lparr>dst := d, stopper := StopReturned r,
           abandoned := abandoned s @ (if r then [] else map q_envelope (queue (dst s)))\<rparr>)"
proof -
  have a: "acct cfg bs (dst s)" and f: "flags_ok (dst s)" and st: "stop_ok s" and l: "ledger s"
    and t: "tally_ok cfg s" using i by (simp_all add: inv_def)
  have ab: "abandoned s = []" using l p by (auto simp: ledger_def)
  have na: "\<not> accepting (dst s)" using st p by (auto simp: stop_ok_def)
  have bq: "b \<Longrightarrow> queue (dst s) = []" using st p by (auto simp: stop_ok_def)
  show ?thesis
  proof (cases "queue (dst s) = []")
    case True
    with r have d: "r = True" "d = (dst s)\<lparr>sender_joinable := False\<rparr>"
      by (auto simp: stop_finish_def Let_def)
    have "acct cfg bs d" using a by (simp add: d acct_def)
    moreover have "flags_ok d" using f by (simp add: d flags_ok_def)
    ultimately show ?thesis using i p True na
      by (simp add: inv_def holds_front_def ledger_def stop_ok_def tally_ok_def Let_def d) blast
  next
    case False
    with bq have nb: "\<not> b" by blast
    from r False nb have rF: "r = False"
      and d: "queue d = []" "reserved_items d = reserved_items (dst s)" "accepting d = accepting (dst s)"
        "sender_joinable d = False" "force_stop d = force_stop (dst s)" "delivery_state d = DsTerminalFault"
        "stats d = foldl classify_left (stats (dst s)) (queue (dst s))"
        "queue_transitions d = 0" "queue_estimated_bytes d = 0"
        "reserved_transitions d = reserved_transitions (dst s)"
        "reserved_estimated_bytes d = reserved_estimated_bytes (dst s)"
        "active_reservation_id d = active_reservation_id (dst s)"
        "active_reservation_sealed d = active_reservation_sealed (dst s)"
      by (auto simp: stop_finish_def Let_def)
    have "acct cfg bs d" using a sum_bytes_nonneg [of bs "queue (dst s)"] by (simp add: acct_def d)
    moreover have "flags_ok d" by (simp add: flags_ok_def d)
    moreover have "list_all (item_ok bs) (queue (dst s))" using a by (simp add: acct_def)
    ultimately show ?thesis
      using i p ab na rF classify_left_total [of "stats (dst s)" "queue (dst s)"]
      by (simp add: inv_def holds_front_def ledger_def stop_ok_def tally_ok_def Let_def d
          samples_of_queue) blast
  qed
qed

lemma inv_stop_step:
  assumes "stop_step s s'" and i: "inv cfg bs s"
  shows "inv cfg bs s'"
  using assms(1)
proof cases
  case (stop_idle b r d)
  note d = stop_begin_frame [OF stop_idle(3)] acct_stop_begin [OF _ stop_idle(3)]
  have "\<exists>b. stopper s = StopReturned b" using d(7) i by (auto simp: inv_def stop_ok_def split: if_splits)
  then show ?thesis using i d
    by (auto simp: stop_idle(1) inv_def holds_front_def ledger_def stop_ok_def tally_ok_def Let_def)
next
  case (stop_request b d)
  note d = stop_begin_frame [OF stop_request(3)] acct_stop_begin [OF _ stop_request(3)]
  have "stopper s = NotStopping"
    using d(7) i stop_request(2) by (auto simp: inv_def stop_ok_def split: if_splits)
  then show ?thesis using i d
    by (auto simp: stop_request(1) inv_def holds_front_def ledger_def stop_ok_def tally_ok_def Let_def)
next
  case (stop_waited b d)
  then have "d = dst s \<and> b \<and> queue (dst s) = [] \<or> \<not> b \<and> d = (dst s)\<lparr>force_stop := True\<rparr>"
    by (auto simp: stop_timeout_def split: if_splits)
  then show ?thesis using i stop_waited(2)
    by (auto simp: stop_waited(1) inv_def holds_front_def ledger_def stop_ok_def tally_ok_def Let_def
        acct_def)
next
  case (stop_joined b r d)
  with inv_stop_joined [OF i] show ?thesis by simp
qed

theorem reachable_inv: "reachable cfg bs s \<Longrightarrow> inv cfg bs s"
proof (induction rule: reachable.induct)
  case (started target conn_ok st msg status d)
  then have d: "queue d = []" "reserved_items d = []" "active_reservation_id d = 0"
      "active_reservation_sealed d = False" "reserved_transitions d = 0"
      "reserved_estimated_bytes d = 0" "queue_transitions d = 0" "queue_estimated_bytes d = 0"
      "force_stop d = False" "sender_joinable d" "stats d = stats init_dist" "ready d"
      "delivery_state d = DsHealthy"
    by (auto simp: dist_Start_def ProbeSamplePool_def Let_def split: if_splits sum.splits)
      (auto simp: init_dist_def SetDeliveryStateLocked_def)
  show ?case
    by (simp add: inv_def acct_def flags_ok_def holds_front_def ledger_def stop_ok_def tally_ok_def
        Let_def d) (simp add: init_dist_def)
next
  case (stepped s s')
  then show ?case
    using inv_sender_step inv_client_step inv_stop_step by (auto simp: sys_step_def)
qed

section \<open>The sender leaves reservations alone\<close>

lemma core_fst:
  assumes "core d = core d'"
  shows "map q_envelope (queue d) = map q_envelope (queue d')" "accepting d = accepting d'"
    "reserved_items d = reserved_items d'" "active_reservation_id d = active_reservation_id d'"
    "active_reservation_sealed d = active_reservation_sealed d'"
  using queue_views [OF assms] core_dest [OF assms] by simp_all

text \<open>A sender step is invisible, or it takes an acknowledged envelope off the front.\<close>

lemma sender_step_effect:
  assumes "sender_step cfg s s'"
  shows "core (dst s') = core (dst s) \<and> delivered s' = delivered s \<or>
    (\<exists>item dup. pc s = Popping item dup \<and> dst s' = pop_committed item dup (dst s) \<and>
       delivered s' = delivered s @ [(q_envelope item, dup)])"
    and "admitted s' = admitted s" "abandoned s' = abandoned s" "stopper s' = stopper s"
proof -
  from assms have "(core (dst s') = core (dst s) \<and> delivered s' = delivered s \<or>
      (\<exists>item dup. pc s = Popping item dup \<and> dst s' = pop_committed item dup (dst s) \<and>
       delivered s' = delivered s @ [(q_envelope item, dup)])) \<and>
      admitted s' = admitted s \<and> abandoned s' = abandoned s \<and> stopper s' = stopper s"
  proof cases
    case (refresh now st msg status r d)
    then show ?thesis using core_Refresh [of cfg now st msg status "dst s"] by simp
  next
    case (judge item pool n st msg rsp r d)
    then show ?thesis using core_after_rpc [of cfg pool item n st msg rsp "dst s"] by simp
  next
    case (mark ms err now ok d)
    then show ?thesis using core_MarkTransient [of cfg now "if_empty err
        ''SamplePool ingress transport is unavailable'' err" ms "dst s"] by (simp del: core_MarkTransient)
  qed (simp_all)
  then show "core (dst s') = core (dst s) \<and> delivered s' = delivered s \<or>
    (\<exists>item dup. pc s = Popping item dup \<and> dst s' = pop_committed item dup (dst s) \<and>
       delivered s' = delivered s @ [(q_envelope item, dup)])"
    and "admitted s' = admitted s" "abandoned s' = abandoned s" "stopper s' = stopper s" by auto
qed

lemma pop_keeps_reservation [simp]:
  "reserved_items (pop_committed item dup d) = reserved_items d"
  "active_reservation_id (pop_committed item dup d) = active_reservation_id d"
  "active_reservation_sealed (pop_committed item dup d) = active_reservation_sealed d"
  "accepting (pop_committed item dup d) = accepting d"
  by (simp_all add: pop_committed_def split: list.splits)

lemma sender_keeps_reservation:
  assumes "(sender_step cfg)\<^sup>*\<^sup>* s s'"
  shows "reserved_items (dst s') = reserved_items (dst s) \<and>
    active_reservation_id (dst s') = active_reservation_id (dst s) \<and>
    active_reservation_sealed (dst s') = active_reservation_sealed (dst s)"
  using assms
proof (induction rule: rtranclp_induct)
  case (step s1 s2)
  from sender_step_effect(1) [OF step.hyps(2)] show ?case
  proof
    assume "core (dst s2) = core (dst s1) \<and> delivered s2 = delivered s1"
    then show ?thesis using step.IH core_fst(3-5) [of "dst s2" "dst s1"] by simp
  next
    assume "\<exists>item dup. pc s1 = Popping item dup \<and> dst s2 = pop_committed item dup (dst s1) \<and>
       delivered s2 = delivered s1 @ [(q_envelope item, dup)]"
    then show ?thesis using step.IH by auto
  qed
qed simp

section \<open>The abstract channel\<close>

text \<open>
  What the distributor is for: a first-in first-out channel that takes envelopes while it is
  open, hands them over in order, and can only lose what is left in it after it was closed.
\<close>

record channel =
  pending :: "envelope list"
  acked :: "envelope list"
  lost :: "envelope list"
  is_open :: bool

inductive channel_step :: "channel \<Rightarrow> channel \<Rightarrow> bool" where
  ch_admit: "is_open c \<or> es = [] \<Longrightarrow> channel_step c (c\<lparr>pending := pending c @ es\<rparr>)"
| ch_ack: "pending c = e # es \<Longrightarrow> channel_step c (c\<lparr>pending := es, acked := acked c @ [e]\<rparr>)"
| ch_close: "channel_step c (c\<lparr>is_open := False\<rparr>)"
| ch_give_up:
    "\<not> is_open c \<Longrightarrow> lost c = [] \<Longrightarrow> channel_step c (c\<lparr>pending := [], lost := pending c\<rparr>)"

definition abs_channel :: "sys \<Rightarrow> channel" where
  "abs_channel s =
     \<lparr>pending = map q_envelope (queue (dst s)), acked = map fst (delivered s),
      lost = abandoned s, is_open = accepting (dst s)\<rparr>"

lemma channel_stutter: "channel_step c c"
  using ch_admit [of c "[]"] by simp

lemma abs_sender_step:
  assumes "inv cfg bs s" "sender_step cfg s s'"
  shows "channel_step (abs_channel s) (abs_channel s')"
  using sender_step_effect(1) [OF assms(2)]
proof
  assume "core (dst s') = core (dst s) \<and> delivered s' = delivered s"
  then have "abs_channel s' = abs_channel s"
    using core_fst(1,2) [of "dst s'" "dst s"] sender_step_effect(3) [OF assms(2)]
    by (simp add: abs_channel_def)
  then show ?thesis by (simp add: channel_stutter)
next
  assume "\<exists>item dup. pc s = Popping item dup \<and> dst s' = pop_committed item dup (dst s) \<and>
       delivered s' = delivered s @ [(q_envelope item, dup)]"
  then obtain item dup where p: "pc s = Popping item dup" "dst s' = pop_committed item dup (dst s)"
    "delivered s' = delivered s @ [(q_envelope item, dup)]" by blast
  from p(1) assms(1) obtain vs where "map view (queue (dst s)) = view item # vs"
    by (auto simp: inv_def holds_front_def)
  then obtain f r where q: "queue (dst s) = f # r" "q_envelope f = q_envelope item"
    by (rule view_pop)
  have "queue (dst s') = r" using p q by (simp add: pop_committed_def)
  then show ?thesis
    using ch_ack [of "abs_channel s" "q_envelope item" "map q_envelope r"] p q
      sender_step_effect(3) [OF assms(2)]
    by (simp add: abs_channel_def)
qed

lemma abs_admit:
  assumes "queue (dst s') = queue (dst s) @ new" "accepting (dst s') = accepting (dst s)"
    "delivered s' = delivered s" "abandoned s' = abandoned s" "new = [] \<or> accepting (dst s)"
  shows "channel_step (abs_channel s) (abs_channel s')"
  using ch_admit [of "abs_channel s" "map q_envelope new"] assms by (auto simp: abs_channel_def)

lemma abs_client_step:
  assumes i: "inv cfg bs s" and "client_step cfg bs s s'"
  shows "channel_step (abs_channel s) (abs_channel s')"
  using assms(2)
proof cases
  case (reserve es r rid err d)
  then show ?thesis using Reserve_frame(2) [OF reserve(2)] frame_dest(1) [OF Reserve_frame(1) [OF reserve(2)]]
    by (intro abs_admit [of _ _ "[]"]) simp_all
next
  case (seal rid sr err d)
  then show ?thesis using Seal_frame(2) [OF seal(2)] frame_dest(1) [OF Seal_frame(1) [OF seal(2)]]
    by (intro abs_admit [of _ _ "[]"]) simp_all
next
  case (commit rid cr err d)
  from commit(2) show ?thesis
  proof (cases rule: Commit_cases)
    case none
    then show ?thesis using commit(1) by (intro abs_admit [of _ _ "[]"]) auto
  next
    case spliced
    then have "accepting (dst s)" using i by (auto simp: inv_def acct_def)
    with spliced show ?thesis using commit(1) by (intro abs_admit [of _ _ "reserved_items (dst s)"]) auto
  next
    case released
    then show ?thesis using commit(1) by (intro abs_admit [of _ _ "[]"]) auto
  next
    case (fault err)
    then show ?thesis using commit(1) frame_dest(1) [OF identity_fault_frame(1) [of err "dst s"]]
      by (intro abs_admit [of _ _ "[]"]) simp_all
  qed
next
  case (cancel rid)
  then show ?thesis by (intro abs_admit [of _ _ "[]"]) (auto simp: CancelEnqueueEnvelopeSet_def)
next
  case (enqueue e ok d)
  then show ?thesis
    by (intro abs_admit [of _ _ "if ok then [make_item bs e] else []"])
      (auto simp: dist_Enqueue_def Let_def split: if_splits)
next
  case (final_drop ts es err)
  then show ?thesis by (intro abs_admit [of _ _ "[]"]) (auto simp: RecordFinalDrop_def)
qed

lemma abs_stop_step:
  assumes i: "inv cfg bs s" and "stop_step s s'"
  shows "channel_step (abs_channel s) (abs_channel s')"
  using assms(2)
proof cases
  case (stop_idle b r d)
  then show ?thesis using ch_close [of "abs_channel s"] stop_begin_frame [OF stop_idle(3)]
    by (simp add: abs_channel_def)
next
  case (stop_request b d)
  then show ?thesis using ch_close [of "abs_channel s"] stop_begin_frame [OF stop_request(3)]
    by (simp add: abs_channel_def)
next
  case (stop_waited b d)
  then have "abs_channel s' = abs_channel s"
    by (auto simp: abs_channel_def stop_timeout_def split: if_splits)
  then show ?thesis by (simp add: channel_stutter)
next
  case (stop_joined b r d)
  have st: "\<not> accepting (dst s)" "abandoned s = []"
    using i stop_joined(2) by (auto simp: inv_def stop_ok_def ledger_def)
  show ?thesis
  proof (cases r)
    case True
    then have "queue d = queue (dst s)" "accepting d = accepting (dst s)"
      using stop_joined(4) by (auto simp: stop_finish_def Let_def split: if_splits)
    with True have "abs_channel s' = abs_channel s" by (simp add: stop_joined(1) abs_channel_def)
    then show ?thesis by (simp add: channel_stutter)
  next
    case False
    then have "queue d = []" "accepting d = accepting (dst s)"
      using stop_joined(4) by (auto simp: stop_finish_def Let_def split: if_splits)
    with False st show ?thesis using ch_give_up [of "abs_channel s"]
      by (simp add: stop_joined(1) abs_channel_def)
  qed
qed

end
