(* ===== verification/Distributor_Claims.thy ===== *)
theory Distributor_Claims
  imports Distributor_Properties
begin

text \<open>
  The guarantees of the sample distributor, and the concrete run its witnesses use: a
  distributor is started, one envelope is reserved, sealed and committed, and the SamplePool
  acknowledges it.
\<close>

section \<open>A concrete run\<close>

definition demo_envelope :: envelope where
  "demo_envelope =
     \<lparr>envelope_id = ''e1'', producer = no_service, env_behavior_model = no_identity,
      samples = [\<lparr>item_id = ''e1:0'', p_observation = [Fin 0], p_action = 0,
        p_behavior_log_probability = Fin 0, p_behavior_value = Fin 0, p_advantage = Fin 0,
        p_value_target = Fin 0, p_behavior_model_step = 1, p_created_at_unix_ms = 5,
        p_action_mask = []\<rparr>]\<rparr>"

definition demo_size :: "envelope \<Rightarrow> nat" where "demo_size e = 100 * length (samples e)"

definition demo_status :: pool_status where
  "demo_status = \<lparr>ps_pool = \<lparr>component = ''pool'', instance_id = ''p0'', lifecycle_epoch = 1\<rparr>,
     ps_ready = True, ps_ingress_ready = True, ps_finalized = False\<rparr>"

definition demo_start :: dist where
  "demo_start = snd (dist_Start default_config [] True GrpcOk [] demo_status init_dist)"

definition sys_of :: "dist \<Rightarrow> sys" where
  "sys_of d = \<lparr>dst = d, pc = AtTop, stopper = NotStopping, admitted = [], delivered = [],
     abandoned = [], dropped_unqueued = []\<rparr>"

lemma demo_started:
  "dist_Start default_config [] True GrpcOk [] demo_status init_dist = (True, demo_start)"
  by (simp add: demo_start_def dist_Start_def ProbeSamplePool_def ValidateSamplePoolStatus_def
      demo_status_def default_config_def Let_def)

lemma demo_start_fields:
  "accepting demo_start" "ready demo_start" "\<not> force_stop demo_start" "\<not> degraded demo_start"
  "delivery_state demo_start = DsHealthy" "queue demo_start = []" "reserved_items demo_start = []"
  "next_reservation_id demo_start = 1" "queue_estimated_bytes demo_start = 0"
  "queue_transitions demo_start = 0" "active_reservation_id demo_start = 0"
  "\<not> active_reservation_sealed demo_start" "sender_joinable demo_start"
  "\<not> recovery_active demo_start" "\<not> stop_requested demo_start"
  by (simp_all add: demo_start_def dist_Start_def ProbeSamplePool_def ValidateSamplePoolStatus_def
      demo_status_def default_config_def Let_def)
    (simp_all add: init_dist_def SetDeliveryStateLocked_def)

lemma reachable_start: "reachable default_config demo_size (sys_of demo_start)"
  unfolding sys_of_def by (rule reachable.started [OF demo_started])

definition demo_item :: queue_item where "demo_item = make_item demo_size demo_envelope"

lemma demo_item_fields:
  "q_transitions demo_item = 1" "q_bytes demo_item = 100" "q_envelope demo_item = demo_envelope"
  by (simp_all add: demo_item_def make_item_def demo_size_def demo_envelope_def)

definition demo_reserved :: dist where
  "demo_reserved = demo_start\<lparr>active_reservation_id := 1, next_reservation_id := 2,
     reserved_items := [demo_item], reserved_transitions := 1, reserved_estimated_bytes := 100,
     active_reservation_delivery_generation := delivery_generation demo_start,
     active_reservation_sealed := False\<rparr>"

lemma demo_reserve:
  "ReserveEnqueueEnvelopeSet default_config demo_size [demo_envelope] demo_start =
     (Reserved, 1, [], demo_reserved)"
  using demo_item_fields
  by (simp add: ReserveEnqueueEnvelopeSet_def demo_item_def [symmetric] int64_max_def Let_def
      demo_start_fields reserve_has_capacity_def terminal_for_admission_def demo_reserved_def)
    (simp add: default_config_def)

lemma demo_seal:
  "SealEnqueueEnvelopeSet 1 demo_reserved =
     (Sealed, [], demo_reserved\<lparr>active_reservation_sealed := True\<rparr>)"
  by (simp add: SealEnqueueEnvelopeSet_def demo_reserved_def demo_start_fields
      terminal_for_admission_def)

lemma reachable_client:
  assumes "reachable cfg bs s" "client_step cfg bs s s'"
  shows "reachable cfg bs s'"
  using assms reachable.stepped [of cfg bs s s'] by (simp add: sys_step_def)

lemma reachable_reserved: "reachable default_config demo_size (sys_of demo_reserved)"
  using reachable_client [OF reachable_start client_step.reserve
      [of default_config demo_size "[demo_envelope]" "sys_of demo_start"]] demo_reserve
  by (simp add: sys_of_def)

lemma reachable_sealed:
  "reachable default_config demo_size (sys_of (demo_reserved\<lparr>active_reservation_sealed := True\<rparr>))"
  using reachable_client [OF reachable_reserved client_step.seal
      [of 1 "sys_of demo_reserved"]] demo_seal
  by (simp add: sys_of_def)

section \<open>Bounds and accounting\<close>

text \<open>C40: In every reachable state the outbound queue and the active reservation together stay
  within the configured number of envelopes and of estimated bytes, and the running totals the
  code keeps are the sums over the queued envelopes.\<close>

theorem outbound_queue_bounded:
  assumes "reachable cfg byte_size s"
  shows "length (queue (dst s)) + length (reserved_items (dst s)) \<le> outbound_max_envelopes cfg \<and>
    queue_estimated_bytes (dst s) + reserved_estimated_bytes (dst s)
      \<le> int (outbound_max_estimated_bytes cfg) \<and>
    queue_transitions (dst s) = (\<Sum>i\<leftarrow>queue (dst s). int (length (samples (q_envelope i)))) \<and>
    queue_estimated_bytes (dst s) = (\<Sum>i\<leftarrow>queue (dst s). int (byte_size (q_envelope i))) \<and>
    queue_high_watermark (stats (dst s)) \<le> int (outbound_max_envelopes cfg)"
proof -
  have i: "inv cfg byte_size s" using assms by (rule reachable_inv)
  have sums: "list_all (item_ok byte_size) q \<Longrightarrow>
      sum_transitions q = (\<Sum>i\<leftarrow>q. int (length (samples (q_envelope i)))) \<and>
      sum_bytes q = (\<Sum>i\<leftarrow>q. int (byte_size (q_envelope i)))" for q
    by (induction q) (auto simp: item_ok_def)
  show ?thesis
    using i sums [of "queue (dst s)"] by (simp add: inv_def acct_def tally_ok_def Let_def)
qed

theorem outbound_queue_bounded_witness:
  "length (queue demo_start) + length (reserved_items demo_start) \<le> 64"
  using outbound_queue_bounded [OF reachable_start] by (simp add: sys_of_def default_config_def)

text \<open>C7: The distributor refines a FIFO channel: every step of the sender, of a caller or of
  \<open>StopAndDrain\<close> admits envelopes at the back while the channel is open, acknowledges the front
  one, closes the channel, gives up what is left after it was closed, or changes nothing.\<close>

theorem distributor_refines_channel:
  assumes "reachable cfg byte_size s" and "sys_step cfg byte_size s s'"
  shows "channel_step (abs_channel s) (abs_channel s')"
proof -
  have "inv cfg byte_size s" using assms(1) by (rule reachable_inv)
  then show ?thesis
    using assms(2) abs_sender_step abs_client_step abs_stop_step by (auto simp: sys_step_def)
qed

theorem distributor_refines_channel_witness:
  "channel_step (abs_channel (sys_of demo_start)) (abs_channel (sys_of demo_reserved))"
proof (rule distributor_refines_channel [OF reachable_start])
  show "sys_step default_config demo_size (sys_of demo_start) (sys_of demo_reserved)"
    using client_step.reserve [of default_config demo_size "[demo_envelope]" "sys_of demo_start"]
      demo_reserve by (simp add: sys_step_def sys_of_def)
qed

text \<open>C24: No envelope is lost, invented or reordered: what was admitted is, in order, what was
  acknowledged, what is still queued, and what a failed drain gave up; and the counters account
  for every admitted transition.\<close>

theorem admitted_transitions_conserved:
  assumes "reachable cfg byte_size s"
  shows "admitted s = map fst (delivered s) @ map q_envelope (queue (dst s)) @ abandoned s \<and>
    samples_of (admitted s) + sum_list (map fst (dropped_unqueued s)) =
      accepted_unique_transitions (stats (dst s)) + samples_of (duplicates (delivered s)) +
      queue_transitions (dst s) + final_drop_unique_transitions (stats (dst s)) +
      unresolved_push_outcome_unknown_transitions (stats (dst s)) \<and>
    int (length (delivered s)) =
      accepted_unique_envelopes (stats (dst s)) + duplicate_push_attempt_count (stats (dst s))"
proof -
  have i: "inv cfg byte_size s" using assms by (rule reachable_inv)
  then have adm: "admitted s = map fst (delivered s) @ map q_envelope (queue (dst s)) @ abandoned s"
    by (simp add: inv_def ledger_def)
  have "samples_of (map q_envelope (queue (dst s))) = queue_transitions (dst s)"
    using i samples_of_queue [of byte_size "queue (dst s)"] by (simp add: inv_def acct_def)
  moreover have "length ds = length (uniques ds) + length (duplicates ds)"
    for ds :: "(envelope \<times> bool) list"
    by (induction ds) (auto simp: uniques_def duplicates_def)
  ultimately show ?thesis
    using i by (simp add: adm inv_def tally_ok_def Let_def samples_of_delivered)
qed

theorem admitted_transitions_conserved_witness:
  "admitted (sys_of demo_reserved) = map fst (delivered (sys_of demo_reserved)) @ []"
  using admitted_transitions_conserved [OF reachable_reserved]
  by (simp add: sys_of_def demo_reserved_def demo_start_fields)

section \<open>Two-phase admission\<close>

text \<open>The front of the queue may be marked or sent meanwhile; what is appended is the reservation.\<close>

text \<open>C9: Once a reservation is sealed, its commit cannot fail: whatever the sender does in
  between (retries, faults, deliveries), \<open>CommitEnqueueEnvelopeSet\<close> returns \<open>Committed\<close> and appends
  exactly the reserved envelopes, so a transaction can publish its session state in between.\<close>

theorem sealed_commit_succeeds:
  assumes "SealEnqueueEnvelopeSet rid (dst s) = (Sealed, err, d)" and "rid \<noteq> 0"
    and "(sender_step cfg)\<^sup>*\<^sup>* (s\<lparr>dst := d\<rparr>) s'"
  shows "\<exists>d'. CommitEnqueueEnvelopeSet rid (dst s') = (Committed, [], d') \<and>
           queue d' = queue (dst s') @ reserved_items (dst s) \<and> reserved_items d' = []"
proof -
  have d: "d = (dst s)\<lparr>active_reservation_sealed := True\<rparr>" and r: "rid = active_reservation_id (dst s)"
    using assms(1,2) by (auto simp: SealEnqueueEnvelopeSet_def Let_def split: if_splits)
  from sender_keeps_reservation [OF assms(3)] assms(2) show ?thesis
    by (simp add: CommitEnqueueEnvelopeSet_def d r) (simp add: splice_reservation_def)
qed

theorem sealed_commit_succeeds_witness:
  "\<exists>d'. CommitEnqueueEnvelopeSet 1 (demo_reserved\<lparr>active_reservation_sealed := True\<rparr>) =
          (Committed, [], d') \<and> queue d' = [demo_item] \<and> reserved_items d' = []"
proof -
  have "SealEnqueueEnvelopeSet 1 (dst (sys_of demo_reserved)) =
      (Sealed, [], demo_reserved\<lparr>active_reservation_sealed := True\<rparr>)"
    by (simp add: demo_seal sys_of_def)
  from sealed_commit_succeeds [OF this _ rtranclp.rtrancl_refl [of "sender_step default_config"]]
  show ?thesis by (simp add: sys_of_def demo_reserved_def demo_start_fields)
qed

text \<open>\<open>HasEnqueueReservation\<close> tells exactly whether sealing would succeed.\<close>

theorem has_reservation_iff_seals:
  assumes "reachable cfg byte_size s"
  shows "HasEnqueueReservation rid (dst s) \<longleftrightarrow> fst (SealEnqueueEnvelopeSet rid (dst s)) = Sealed"
proof -
  have "force_stop (dst s) \<Longrightarrow> \<not> accepting (dst s)"
    using reachable_inv [OF assms] by (simp add: inv_def stop_ok_def)
  then show ?thesis
    by (auto simp: HasEnqueueReservation_def SealEnqueueEnvelopeSet_def Let_def
        terminal_for_admission_def)
qed

theorem has_reservation_iff_seals_witness: "HasEnqueueReservation 1 demo_reserved"
  using has_reservation_iff_seals [OF reachable_reserved, of 1]
  by (simp add: sys_of_def demo_seal)

text \<open>While the delivery is recovering from a transient outage, every attempt to reserve, seal
  or commit a non-empty set is refused as a terminal fault: \<open>MarkTransient\<close> clears \<open>ready\<close>, which the
  admission tests before it looks for the recovering state, so its retryable answer is never given.\<close>

theorem transient_retry_refused_as_terminal:
  assumes "reachable cfg byte_size s" and "delivery_state (dst s) = DsTransientRetry"
  shows "(es \<noteq> [] \<longrightarrow> fst (ReserveEnqueueEnvelopeSet cfg byte_size es (dst s)) = TerminalFault) \<and>
    (rid \<noteq> 0 \<longrightarrow> fst (SealEnqueueEnvelopeSet rid (dst s)) = SealTerminal) \<and>
    (rid \<noteq> 0 \<longrightarrow> \<not> active_reservation_sealed (dst s) \<longrightarrow>
      fst (CommitEnqueueEnvelopeSet rid (dst s)) = CommitTerminal)"
proof -
  have nr: "\<not> ready (dst s)"
    using reachable_inv [OF assms(1)] assms(2) by (simp add: inv_def flags_ok_def)
  show ?thesis
  proof (intro conjI impI)
    show "fst (ReserveEnqueueEnvelopeSet cfg byte_size es (dst s)) = TerminalFault" if "es \<noteq> []"
      using nr assms(2) that
      by (simp add: ReserveEnqueueEnvelopeSet_def reserve_has_capacity_def terminal_for_admission_def
          split: option.split)
    show "fst (SealEnqueueEnvelopeSet rid (dst s)) = SealTerminal" if "rid \<noteq> 0"
      using nr that by (simp add: SealEnqueueEnvelopeSet_def terminal_for_admission_def Let_def)
    show "fst (CommitEnqueueEnvelopeSet rid (dst s)) = CommitTerminal"
      if "rid \<noteq> 0" "\<not> active_reservation_sealed (dst s)"
      using nr that by (simp add: CommitEnqueueEnvelopeSet_def terminal_for_admission_def Let_def)
  qed
qed

text \<open>A run into the recovering state: the idle sender asks for the status and gets no answer.\<close>

definition demo_transient :: dist where
  "demo_transient =
     snd (RefreshSamplePoolStatus default_config 0 GrpcUnavailable [] demo_status demo_start)"

lemma demo_refresh:
  "RefreshSamplePoolStatus default_config 0 GrpcUnavailable [] demo_status demo_start =
     (RefreshTransient, demo_transient)"
  "delivery_state demo_transient = DsTransientRetry"
  unfolding demo_transient_def
  by (simp_all add: RefreshSamplePoolStatus_def IsRetryableOutcomeUnknownTransport_def MarkTransient_def
      not_recoverable_def demo_start_fields Let_def default_config_def)

lemma reachable_transient: "reachable default_config demo_size (sys_of demo_transient)"
proof -
  let ?s = "sys_of demo_start"
  have "sender_step default_config ?s (?s\<lparr>pc := Refreshing\<rparr>)"
    by (rule sender_step.top_idle) (simp_all add: sys_of_def demo_start_fields)
  then have r: "reachable default_config demo_size (?s\<lparr>pc := Refreshing\<rparr>)"
    using reachable.stepped [OF reachable_start] by (simp add: sys_step_def)
  have "sender_step default_config (?s\<lparr>pc := Refreshing\<rparr>)
      (?s\<lparr>pc := Refreshing, dst := demo_transient, pc := AtTop\<rparr>)"
    using sender_step.refresh [of "?s\<lparr>pc := Refreshing\<rparr>" default_config 0 GrpcUnavailable "[]"
        demo_status] demo_refresh(1) by (simp add: sys_of_def)
  then show ?thesis using reachable.stepped [OF r] by (simp add: sys_step_def sys_of_def)
qed

theorem transient_retry_refused_as_terminal_witness:
  "fst (ReserveEnqueueEnvelopeSet default_config demo_size [demo_envelope] demo_transient) = TerminalFault"
  using transient_retry_refused_as_terminal [OF reachable_transient, of "[demo_envelope]"]
  by (simp add: sys_of_def demo_refresh(2))

section \<open>Stopping\<close>

text \<open>A run to the join: stop is requested with an empty queue, and the sender leaves.\<close>

definition demo_stopping :: dist where "demo_stopping = snd (stop_begin demo_start)"

lemma demo_stop: "stop_begin demo_start = (None, demo_stopping)"
  by (simp add: demo_stopping_def stop_begin_def demo_start_fields Let_def)

lemma demo_stopping_fields: "queue demo_stopping = []" "stop_requested demo_stopping"
  by (simp_all add: demo_stopping_def stop_begin_def demo_start_fields Let_def)

definition demo_joining :: sys where
  "demo_joining = (sys_of (sender_exit demo_stopping))\<lparr>pc := Exited, stopper := Joining True\<rparr>"

lemma reachable_joining: "reachable default_config demo_size demo_joining"
proof -
  note step = reachable.stepped [unfolded sys_step_def]
  let ?s1 = "(sys_of demo_stopping)\<lparr>stopper := Waiting\<rparr>"
  have "stop_step (sys_of demo_start) ?s1"
    using stop_step.stop_request [of "sys_of demo_start" True demo_stopping] demo_stop
    by (simp add: sys_of_def)
  with step [OF reachable_start] have r1: "reachable default_config demo_size ?s1" by blast
  let ?s2 = "?s1\<lparr>stopper := Joining True\<rparr>"
  have "stop_step ?s1 ?s2"
    using stop_step.stop_waited [of ?s1 True demo_stopping] demo_stopping_fields
    by (simp add: sys_of_def stop_timeout_def)
  with step [OF r1] have r2: "reachable default_config demo_size ?s2" by blast
  have "sender_step default_config ?s2 (?s2\<lparr>pc := Exiting\<rparr>)"
    by (rule sender_step.top_exit) (simp_all add: sys_of_def demo_stopping_fields)
  with step [OF r2] have r3: "reachable default_config demo_size (?s2\<lparr>pc := Exiting\<rparr>)" by blast
  have "sender_step default_config (?s2\<lparr>pc := Exiting\<rparr>) demo_joining"
    using sender_step.exit_sender [of "?s2\<lparr>pc := Exiting\<rparr>" default_config]
    by (simp add: demo_joining_def sys_of_def)
  with step [OF r3] show ?thesis by blast
qed

text \<open>\<open>StopAndDrain\<close> returns true exactly when every admitted envelope was acknowledged; when it
  returns false, the acknowledged ones are a prefix, the rest is classified as dropped or
  unresolved, the queue is empty and the distributor is in its terminal state.\<close>

theorem stop_and_drain_outcome:
  assumes "reachable cfg byte_size s" and "stopper s = Joining b" and "pc s = Exited"
    and "stop_finish b (dst s) = (r, d)"
  shows "(r \<longleftrightarrow> admitted s = map fst (delivered s)) \<and>
    (\<not> r \<longrightarrow> admitted s = map fst (delivered s) @ map q_envelope (queue (dst s)) \<and>
      queue d = [] \<and> degraded d \<and> delivery_state d = DsTerminalFault \<and>
      final_drop_unique_transitions (stats d) + unresolved_push_outcome_unknown_transitions (stats d) =
        samples_of (map q_envelope (queue (dst s))) + sum_list (map fst (dropped_unqueued s)))"
proof -
  have i: "inv cfg byte_size s" using assms(1) by (rule reachable_inv)
  have l: "admitted s = map fst (delivered s) @ map q_envelope (queue (dst s))" "abandoned s = []"
    using i assms(2) by (auto simp: inv_def ledger_def)
  have b: "b \<Longrightarrow> queue (dst s) = []" using i assms(2) by (auto simp: inv_def stop_ok_def)
  have r: "r \<longleftrightarrow> queue (dst s) = []"
    using assms(4) b by (auto simp: stop_finish_def Let_def split: if_splits)
  show ?thesis
  proof (cases r)
    case True
    with r show ?thesis by (simp add: l)
  next
    case False
    with r b have q: "queue (dst s) \<noteq> []" "\<not> b" by auto
    from assms(4) q have d: "queue d = []" "degraded d" "delivery_state d = DsTerminalFault"
      "stats d = foldl classify_left (stats (dst s)) (queue (dst s))"
      by (auto simp: stop_finish_def Let_def)
    have "samples_of (map q_envelope (queue (dst s))) = sum_transitions (queue (dst s))"
      using i samples_of_queue [of byte_size "queue (dst s)"] by (simp add: inv_def acct_def)
    then show ?thesis
      using i False q(1) classify_left_total [of "stats (dst s)" "queue (dst s)"]
      by (simp add: l(1) d) (simp add: inv_def tally_ok_def Let_def l(2))
  qed
qed

theorem stop_and_drain_outcome_witness:
  "fst (stop_finish True (dst demo_joining)) \<and> admitted demo_joining = []"
proof -
  obtain r d where rd: "stop_finish True (dst demo_joining) = (r, d)" by (cases "stop_finish True (dst demo_joining)")
  have "stopper demo_joining = Joining True" "pc demo_joining = Exited"
    by (simp_all add: demo_joining_def)
  then have "r \<longleftrightarrow> admitted demo_joining = map fst (delivered demo_joining)"
    using stop_and_drain_outcome [OF reachable_joining _ _ rd] by blast
  moreover have "admitted demo_joining = [] \<and> delivered demo_joining = []"
    by (simp add: demo_joining_def sys_of_def)
  ultimately show ?thesis by (simp add: rd)
qed

end
