(* ===== verification/Metric_Journal.thy ===== *)
theory Metric_Journal
  imports Task_Types
begin

text \<open>
  \<open>task/metrics/episode_metrics\<close>: the bounded journal of metric facts and its pull protocol.  A
  consumer pulls one batch at a time (\<open>Get\<close>) and acknowledges it (\<open>Ack\<close>); facts that overflow
  the journal are reported as a gap.  The two parallel deques of events and enqueue times are one
  list of pairs; clocks and serialised sizes are arguments.  \<open>Get\<close> gives up the lock while it
  waits, so it is two operations here: \<open>journal_Get\<close> up to the wait, \<open>journal_GetAfterWait\<close>
  from there.
\<close>

record metric_event =
  ev_sequence :: u64
  ev_observed_at :: int
  ev_payload :: string

record metric_gap =
  gap_first :: u64
  gap_last :: u64
  gap_oldest :: u64
  gap_reason :: string

record metric_cursor =
  mc_source :: service_identity
  mc_batch :: u64
  mc_event :: u64

record metric_batch =
  mb_source :: service_identity
  mb_sequence :: u64
  mb_created_at :: int
  mb_first :: u64
  mb_last :: u64
  mb_events :: "metric_event list"
  mb_gap :: "metric_gap option"
  mb_heartbeat :: bool
  mb_source_final :: bool
  mb_final_event :: u64

record journal =
  j_source :: service_identity
  j_capacity :: nat
  j_byte_capacity :: nat
  j_flush_interval :: int
  j_events :: "(metric_event \<times> int) list"
  j_event_bytes :: int
  j_next_event :: u64
  j_next_batch :: u64
  j_committed :: metric_cursor
  j_pending :: "metric_batch option"
  j_consumer :: "service_identity option"
  j_source_final :: bool
  j_final_acknowledged :: bool
  j_final_event :: u64
  j_last_observed :: "int option"
  j_last_batch_at :: int

definition new_journal :: "service_identity \<Rightarrow> nat \<Rightarrow> nat \<Rightarrow> int \<Rightarrow> int \<Rightarrow> journal" where
  "new_journal source capacity byte_capacity flush_interval now =
    \<lparr>j_source = source, j_capacity = capacity, j_byte_capacity = byte_capacity,
     j_flush_interval = flush_interval, j_events = [], j_event_bytes = 0, j_next_event = 1,
     j_next_batch = 1, j_committed = \<lparr>mc_source = source, mc_batch = 0, mc_event = 0\<rparr>,
     j_pending = None, j_consumer = None, j_source_final = False, j_final_acknowledged = False,
     j_final_event = 0, j_last_observed = None, j_last_batch_at = now\<rparr>"

section \<open>Appending\<close>

fun trim_events ::
  "(metric_event \<Rightarrow> nat) \<Rightarrow> nat \<Rightarrow> nat \<Rightarrow> (metric_event \<times> int) list \<Rightarrow> int \<Rightarrow>
   (metric_event \<times> int) list \<times> int" where
  "trim_events esize cap bytecap [] bytes = ([], bytes)"
| "trim_events esize cap bytecap (e # es) bytes =
     (if length (e # es) > cap \<or> bytes > int bytecap
      then trim_events esize cap bytecap es (bytes - int (esize (fst e)))
      else (e # es, bytes))"

datatype append_result = AppendApplied "int option" | AppendSourceFinal

text \<open>The result carries the previous observation time when the wall clock went backwards.\<close>

definition AppendFact ::
  "(metric_event \<Rightarrow> nat) \<Rightarrow> string \<Rightarrow> int \<Rightarrow> int \<Rightarrow> journal \<Rightarrow> append_result \<times> journal" where
  "AppendFact esize payload observed_at now j =
     (if j_source_final j then (AppendSourceFinal, j)
      else
        let regressed = (case j_last_observed j of
              Some t \<Rightarrow> if observed_at < t then Some t else None | None \<Rightarrow> None);
            e = \<lparr>ev_sequence = j_next_event j, ev_observed_at = observed_at, ev_payload = payload\<rparr>;
            (es, bytes) = trim_events esize (j_capacity j) (j_byte_capacity j)
              (j_events j @ [(e, now)]) (j_event_bytes j + int (esize e))
        in (AppendApplied regressed,
            j\<lparr>j_next_event := j_next_event j + 1, j_last_observed := Some observed_at,
              j_events := es, j_event_bytes := bytes\<rparr>))"

definition journal_Finalize :: "journal \<Rightarrow> journal" where
  "journal_Finalize j =
     (if j_source_final j then j
      else j\<lparr>j_source_final := True, j_final_event := j_next_event j - 1\<rparr>)"

text \<open>The value of \<open>WaitForFinalAcknowledgement\<close>, with the state at the end of its wait.\<close>

definition WaitForFinalAcknowledgement :: "int \<Rightarrow> journal \<Rightarrow> journal \<Rightarrow> bool" where
  "WaitForFinalAcknowledgement timeout before after =
     (if j_consumer before = None \<or> j_final_acknowledged before then True
      else if timeout \<le> 0 then False
      else j_final_acknowledged after)"

section \<open>Pulling\<close>

definition ValidConsumer :: "service_identity \<Rightarrow> bool" where
  "ValidConsumer c \<longleftrightarrow> component c \<noteq> [] \<and> instance_id c \<noteq> [] \<and> lifecycle_epoch c > 0"

definition SameConsumer :: "journal \<Rightarrow> service_identity \<Rightarrow> bool" where
  "SameConsumer j c \<longleftrightarrow> j_consumer j = Some c"

definition CursorMatchesCommitted :: "journal \<Rightarrow> metric_cursor \<Rightarrow> bool" where
  "CursorMatchesCommitted j c \<longleftrightarrow>
     mc_source c = j_source j \<and> mc_batch c = mc_batch (j_committed j) \<and>
     mc_event c = mc_event (j_committed j)"

definition next_requested :: "journal \<Rightarrow> u64" where
  "next_requested j = mc_event (j_committed j) + 1"

definition oldest_available :: "journal \<Rightarrow> u64" where
  "oldest_available j =
     (case j_events j of [] \<Rightarrow> j_next_event j | (e, _) # _ \<Rightarrow> ev_sequence e)"

fun ready_loop ::
  "(metric_event \<Rightarrow> nat) \<Rightarrow> int \<Rightarrow> int \<Rightarrow> u64 \<Rightarrow> nat \<Rightarrow> nat \<Rightarrow> (metric_event \<times> int) list \<Rightarrow> bool option" where
  "ready_loop esize now flush requested count bytes [] = (if count > 0 then Some False else None)"
| "ready_loop esize now flush requested count bytes ((e, at_ms) # es) =
     (if ev_sequence e < requested then ready_loop esize now flush requested count bytes es
      else if count = 0 \<and> now \<ge> at_ms + flush then Some True
      else if count + 1 \<ge> 1024 \<or> bytes + esize e \<ge> 16 * 1024 * 1024 then Some True
      else ready_loop esize now flush requested (count + 1) (bytes + esize e) es)"

definition ReadyToSeal :: "(metric_event \<Rightarrow> nat) \<Rightarrow> int \<Rightarrow> journal \<Rightarrow> bool" where
  "ReadyToSeal esize now j =
     (if j_source_final j then True
      else if next_requested j < oldest_available j then True
      else case ready_loop esize now (j_flush_interval j) (next_requested j) 0 0 (j_events j) of
        Some b \<Rightarrow> b
      | None \<Rightarrow> now \<ge> j_last_batch_at j + j_flush_interval j)"

record get_req =
  gr_consumer :: service_identity
  gr_cursor :: metric_cursor
  gr_max_events :: nat
  gr_max_bytes :: int
  gr_wait_ms :: int

fun collect_events ::
  "(metric_batch \<Rightarrow> nat) \<Rightarrow> nat \<Rightarrow> int \<Rightarrow> metric_batch \<Rightarrow> metric_event list \<Rightarrow> metric_batch" where
  "collect_events bsize max_events max_bytes b [] = b"
| "collect_events bsize max_events max_bytes b (e # es) =
     (if length (mb_events b) \<ge> max_events then b
      else let b' = b\<lparr>mb_events := mb_events b @ [e]\<rparr>
           in if int (bsize b') > max_bytes then b
              else collect_events bsize max_events max_bytes b' es)"

definition uncommitted :: "journal \<Rightarrow> metric_event list" where
  "uncommitted j = filter (\<lambda>e. \<not> ev_sequence e < next_requested j) (map fst (j_events j))"

definition empty_batch :: "journal \<Rightarrow> int \<Rightarrow> metric_batch" where
  "empty_batch j now_unix =
     \<lparr>mb_source = j_source j, mb_sequence = j_next_batch j, mb_created_at = now_unix, mb_first = 0,
      mb_last = 0, mb_events = [], mb_gap = None, mb_heartbeat = False, mb_source_final = False,
      mb_final_event = 0\<rparr>"

text \<open>The batch before it is marked final.\<close>

definition batch_body ::
  "(metric_batch \<Rightarrow> nat) \<Rightarrow> get_req \<Rightarrow> int \<Rightarrow> journal \<Rightarrow> string + metric_batch" where
  "batch_body bsize req now_unix j =
     (if next_requested j < oldest_available j
      then Inr ((empty_batch j now_unix)
        \<lparr>mb_first := next_requested j, mb_last := oldest_available j - 1,
         mb_gap := Some \<lparr>gap_first = next_requested j, gap_last = oldest_available j - 1,
           gap_oldest = oldest_available j, gap_reason = ''bounded metric event journal overflow''\<rparr>\<rparr>)
      else
        let b = collect_events bsize (gr_max_events req) (gr_max_bytes req) (empty_batch j now_unix)
                  (uncommitted j)
        in if mb_events b \<noteq> []
           then Inr (b\<lparr>mb_first := ev_sequence (hd (mb_events b)),
                       mb_last := ev_sequence (last (mb_events b))\<rparr>)
           else if uncommitted j \<noteq> [] then Inl ''max_bytes is smaller than the next metric event''
           else Inr (b\<lparr>mb_heartbeat := True\<rparr>))"

definition mark_final :: "journal \<Rightarrow> metric_batch \<Rightarrow> metric_batch" where
  "mark_final j b =
     (if j_source_final j \<and>
         (mb_events b \<noteq> [] \<and> mb_last b = j_final_event j \<or>
          mb_gap b \<noteq> None \<and> mb_last b = j_final_event j \<or>
          mb_heartbeat b \<and> mc_event (j_committed j) = j_final_event j)
      then b\<lparr>mb_source_final := True, mb_final_event := j_final_event j\<rparr> else b)"

definition BuildPendingBatch ::
  "(metric_batch \<Rightarrow> nat) \<Rightarrow> get_req \<Rightarrow> int \<Rightarrow> int \<Rightarrow> journal \<Rightarrow> string + journal" where
  "BuildPendingBatch bsize req now_unix now j =
     (case batch_body bsize req now_unix j of
        Inl err \<Rightarrow> Inl err
      | Inr b0 \<Rightarrow>
          let b = mark_final j b0
          in if int (bsize b) > gr_max_bytes req
             then Inl ''max_bytes is smaller than the next metric batch''
             else Inr (j\<lparr>j_pending := Some b, j_next_batch := j_next_batch j + 1,
                         j_last_batch_at := now\<rparr>))"

datatype get_result =
  GetRejectedInvalid string | GetRejectedCursor string | GetDelivered metric_batch | GetFinal |
  GetWait string | GetMustWait

definition journal_Get :: "get_req \<Rightarrow> journal \<Rightarrow> get_result \<times> journal" where
  "journal_Get req j =
     (if \<not> ValidConsumer (gr_consumer req)
      then (GetRejectedInvalid ''metric consumer lifecycle identity is invalid'', j)
      else if j_consumer j \<noteq> None \<and> \<not> SameConsumer j (gr_consumer req)
      then (GetRejectedInvalid ''metric journal is pinned to another consumer'', j)
      else if \<not> CursorMatchesCommitted j (gr_cursor req)
      then (GetRejectedCursor ''metric cursor does not match committed cursor'', j)
      else if gr_max_events req = 0 \<or> gr_max_events req > 1024 \<or> gr_max_bytes req \<le> 0 \<or>
              gr_max_bytes req > 16 * 1024 * 1024 \<or> gr_wait_ms req < 0 \<or> gr_wait_ms req > 5000
      then (GetRejectedInvalid ''metric batch limits are invalid'', j)
      else
        let j1 = (if j_consumer j = None then j\<lparr>j_consumer := Some (gr_consumer req)\<rparr> else j)
        in case j_pending j1 of
             Some b \<Rightarrow> (GetDelivered b, j1)
           | None \<Rightarrow>
               if j_source_final j1 \<and> j_final_acknowledged j1 then (GetFinal, j1)
               else if \<not> j_source_final j1 \<and>
                       \<not> (j_events j1 \<noteq> [] \<and> ev_sequence (fst (last (j_events j1))) \<ge> next_requested j1) \<and>
                       \<not> next_requested j1 < oldest_available j1 \<and> gr_wait_ms req = 0
               then (GetWait ''no metric event is currently available'', j1)
               else (GetMustWait, j1))"

definition journal_GetAfterWait ::
  "(metric_event \<Rightarrow> nat) \<Rightarrow> (metric_batch \<Rightarrow> nat) \<Rightarrow> get_req \<Rightarrow> int \<Rightarrow> int \<Rightarrow> journal \<Rightarrow>
   get_result \<times> journal" where
  "journal_GetAfterWait esize bsize req now_unix now j =
     (if \<not> ReadyToSeal esize now j then (GetWait ''metric flush window has not closed'', j)
      else case BuildPendingBatch bsize req now_unix now j of
        Inl err \<Rightarrow> (GetRejectedInvalid err, j)
      | Inr j' \<Rightarrow> (case j_pending j' of Some b \<Rightarrow> (GetDelivered b, j') | None \<Rightarrow> (GetFinal, j')))"

section \<open>Acknowledging\<close>

datatype ack_result = AckRejectedInvalid | AckRejectedCursor | AckAlreadyApplied | AckApplied

fun drop_acknowledged ::
  "(metric_event \<Rightarrow> nat) \<Rightarrow> u64 \<Rightarrow> (metric_event \<times> int) list \<Rightarrow> int \<Rightarrow>
   (metric_event \<times> int) list \<times> int" where
  "drop_acknowledged esize n [] bytes = ([], bytes)"
| "drop_acknowledged esize n (e # es) bytes =
     (if ev_sequence (fst e) \<le> n
      then drop_acknowledged esize n es (bytes - int (esize (fst e))) else (e # es, bytes))"

definition journal_Ack ::
  "(metric_event \<Rightarrow> nat) \<Rightarrow> service_identity \<Rightarrow> metric_cursor \<Rightarrow> journal \<Rightarrow> ack_result \<times> journal" where
  "journal_Ack esize consumer cursor j =
     (if \<not> ValidConsumer consumer \<or> \<not> SameConsumer j consumer then (AckRejectedInvalid, j)
      else if cursor = j_committed j then (AckAlreadyApplied, j)
      else case j_pending j of
        None \<Rightarrow> (AckRejectedCursor, j)
      | Some b \<Rightarrow>
          if mc_source cursor \<noteq> j_source j \<or> mc_batch cursor \<noteq> mb_sequence b
          then (AckRejectedCursor, j)
          else if mc_event cursor \<noteq>
                  (if mb_events b \<noteq> [] \<or> mb_gap b \<noteq> None then mb_last b
                   else mc_event (j_committed j))
          then (AckRejectedCursor, j)
          else (let (es, bytes) = drop_acknowledged esize (mc_event cursor) (j_events j) (j_event_bytes j)
                in (AckApplied,
                    j\<lparr>j_committed := cursor, j_events := es, j_event_bytes := bytes,
                      j_pending := None,
                      j_final_acknowledged := j_final_acknowledged j \<or> mb_source_final b\<rparr>)))"

end
