(* ===== verification/Metric_Protocol.thy ===== *)
theory Metric_Protocol
  imports Metric_Journal
begin

text \<open>
  The metric journal under any interleaving of its producer, its consumer's pulls (several may be
  waiting at once) and acknowledgements: what was acknowledged is an exact account of the facts
  appended, the journal stays within its capacity, and the final batch ends the stream.
\<close>

section \<open>The system\<close>

text \<open>Ghosts: every fact ever appended, and the batches acknowledged so far.\<close>

record jsys =
  jn :: journal
  waiting :: "get_req list"
  facts :: "(int \<times> string) list"
  acked_batches :: "metric_batch list"

text \<open>A 64 bit event number is not used up: fewer than \<open>2 ^ 64 - 1\<close> facts are appended.\<close>

inductive journal_step ::
  "(metric_event \<Rightarrow> nat) \<Rightarrow> (metric_batch \<Rightarrow> nat) \<Rightarrow> jsys \<Rightarrow> jsys \<Rightarrow> bool" for esize bsize where
  js_append:
    "length (facts s) + 2 < 2 ^ 64 \<Longrightarrow> AppendFact esize payload observed_at now (jn s) = (r, j) \<Longrightarrow>
     journal_step esize bsize s (s\<lparr>jn := j, facts := facts s @
        (if r = AppendSourceFinal then [] else [(observed_at, payload)])\<rparr>)"
| js_finalize: "journal_step esize bsize s (s\<lparr>jn := journal_Finalize (jn s)\<rparr>)"
| js_get:
    "journal_Get req (jn s) = (r, j) \<Longrightarrow>
     journal_step esize bsize s
       (s\<lparr>jn := j, waiting := (if r = GetMustWait then req # waiting s else waiting s)\<rparr>)"
| js_resume:
    "req \<in> set (waiting s) \<Longrightarrow>
     journal_GetAfterWait esize bsize req now_unix now (jn s) = (r, j) \<Longrightarrow>
     journal_step esize bsize s (s\<lparr>jn := j, waiting := remove1 req (waiting s)\<rparr>)"
| js_ack:
    "journal_Ack esize consumer cur (jn s) = (r, j) \<Longrightarrow>
     journal_step esize bsize s (s\<lparr>jn := j, acked_batches := acked_batches s @
        (if r = AckApplied then [the (j_pending (jn s))] else [])\<rparr>)"

inductive journal_reachable ::
  "(metric_event \<Rightarrow> nat) \<Rightarrow> (metric_batch \<Rightarrow> nat) \<Rightarrow> jsys \<Rightarrow> bool" for esize bsize where
  jr_new:
    "journal_reachable esize bsize
       \<lparr>jn = new_journal source capacity byte_capacity flush_interval now, waiting = [],
        facts = [], acked_batches = []\<rparr>"
| jr_step:
    "journal_reachable esize bsize s \<Longrightarrow> journal_step esize bsize s s' \<Longrightarrow>
     journal_reachable esize bsize s'"

section \<open>The account a batch gives\<close>

definition fact_event :: "(int \<times> string) list \<Rightarrow> nat \<Rightarrow> metric_event" where
  "fact_event fs i =
     \<lparr>ev_sequence = of_nat (Suc i), ev_observed_at = fst (fs ! i), ev_payload = snd (fs ! i)\<rparr>"

text \<open>
  Batch \<open>b\<close> takes the consumer from \<open>n\<close> facts to \<open>m\<close>: with the facts themselves, with a gap
  that names exactly the missing ones, or with nothing new.
\<close>

definition accounts :: "(int \<times> string) list \<Rightarrow> nat \<Rightarrow> metric_batch \<Rightarrow> nat \<Rightarrow> bool" where
  "accounts fs n b m \<longleftrightarrow>
     (mb_events b \<noteq> [] \<and> mb_gap b = None \<and> \<not> mb_heartbeat b \<and> n < m \<and> m \<le> length fs \<and>
      mb_events b = map (fact_event fs) [n..<m] \<and> mb_last b = of_nat m) \<or>
     (mb_events b = [] \<and> \<not> mb_heartbeat b \<and> n < m \<and> m \<le> length fs \<and> mb_last b = of_nat m \<and>
      (\<exists>g. mb_gap b = Some g \<and> gap_first g = of_nat (Suc n) \<and> gap_last g = of_nat m)) \<or>
     (mb_events b = [] \<and> mb_gap b = None \<and> mb_heartbeat b \<and> m = n \<and> n \<le> length fs)"

fun stream :: "(int \<times> string) list \<Rightarrow> nat \<Rightarrow> metric_batch list \<Rightarrow> nat \<Rightarrow> bool" where
  "stream fs n [] m \<longleftrightarrow> m = n"
| "stream fs n (b # bs) m \<longleftrightarrow> (\<exists>k. accounts fs n b k \<and> stream fs k bs m)"

lemma stream_snoc: "stream fs n bs k \<Longrightarrow> accounts fs k b m \<Longrightarrow> stream fs n (bs @ [b]) m"
  by (induction bs arbitrary: n) auto

lemma fact_event_append [simp]: "i < length fs \<Longrightarrow> fact_event (fs @ gs) i = fact_event fs i"
  by (simp add: fact_event_def nth_append)

lemma accounts_append: "accounts fs n b m \<Longrightarrow> accounts (fs @ gs) n b m"
  by (auto simp: accounts_def)

lemma stream_append: "stream fs n bs m \<Longrightarrow> stream (fs @ gs) n bs m"
  by (induction bs arbitrary: n) (auto intro: accounts_append)

section \<open>The invariant\<close>

text \<open>\<open>low\<close> facts are no longer in the journal, \<open>cm\<close> are acknowledged.\<close>

definition total_bytes :: "(metric_event \<Rightarrow> nat) \<Rightarrow> (metric_event \<times> int) list \<Rightarrow> int" where
  "total_bytes esize es = (\<Sum>e\<leftarrow>es. int (esize (fst e)))"

definition jinv :: "(metric_event \<Rightarrow> nat) \<Rightarrow> jsys \<Rightarrow> nat \<Rightarrow> nat \<Rightarrow> bool" where
  "jinv esize s low cm \<longleftrightarrow>
     (let j = jn s; n = length (facts s) in
      n + 1 < 2 ^ 64 \<and> j_next_event j = of_nat (Suc n) \<and>
      cm \<le> low \<and> low \<le> n \<and> map fst (j_events j) = map (fact_event (facts s)) [low..<n] \<and>
      j_event_bytes j = total_bytes esize (j_events j) \<and>
      length (j_events j) \<le> j_capacity j \<and> total_bytes esize (j_events j) \<le> int (j_byte_capacity j) \<and>
      mc_event (j_committed j) = of_nat cm \<and> stream (facts s) 0 (acked_batches s) cm \<and>
      (j_source_final j \<longrightarrow> j_final_event j = of_nat n) \<and>
      (j_final_acknowledged j \<longrightarrow> j_source_final j \<and> cm = n) \<and>
      (\<forall>b. j_pending j = Some b \<longrightarrow> (\<exists>m. accounts (facts s) cm b m \<and>
         (mb_source_final b \<longrightarrow> j_source_final j \<and> m = n))))"

lemma total_bytes_simps [simp]:
  "total_bytes esize [] = 0"
  "total_bytes esize (e # es) = int (esize (fst e)) + total_bytes esize es"
  "total_bytes esize (es @ fs) = total_bytes esize es + total_bytes esize fs"
  by (simp_all add: total_bytes_def)

lemma trim_events_spec:
  assumes "trim_events esize cap bytecap es bytes = (es', bytes')" "bytes = total_bytes esize es"
  shows "(\<exists>k \<le> length es. es' = drop k es) \<and> bytes' = total_bytes esize es' \<and> length es' \<le> cap \<and>
    total_bytes esize es' \<le> int bytecap"
  using assms
proof (induction es arbitrary: bytes)
  case (Cons e es)
  show ?case
  proof (cases "length (e # es) > cap \<or> bytes > int bytecap")
    case True
    with Cons.prems have "trim_events esize cap bytecap es (total_bytes esize es) = (es', bytes')"
      by simp
    from Cons.IH [OF this refl] show ?thesis by (auto intro: exI [of _ "Suc _"])
  next
    case False
    with Cons.prems show ?thesis by (auto intro: exI [of _ 0])
  qed
qed auto

lemma of_nat_u64_less: "m < 2 ^ 64 \<Longrightarrow> n < 2 ^ 64 \<Longrightarrow> (of_nat m < (of_nat n :: u64)) = (m < n)"
  by (simp add: word_less_nat_alt unat_of_nat take_bit_nat_eq_self)

lemma of_nat_u64_eq: "m < 2 ^ 64 \<Longrightarrow> n < 2 ^ 64 \<Longrightarrow> (of_nat m = (of_nat n :: u64)) = (m = n)"
  by (metis of_nat_u64_less nat_neq_iff less_irrefl)

lemma of_nat_u64_le: "m < 2 ^ 64 \<Longrightarrow> n < 2 ^ 64 \<Longrightarrow> (of_nat m \<le> (of_nat n :: u64)) = (m \<le> n)"
  by (simp add: not_less [symmetric] of_nat_u64_less)

lemma drop_acknowledged_spec:
  assumes "drop_acknowledged esize n es bytes = (es', bytes')" "bytes = total_bytes esize es"
    and "map fst es = map (fact_event fs) [low..<hi]" "n = of_nat m" "low \<le> hi" "hi + 1 < 2 ^ 64"
    "m \<le> hi"
  shows "map fst es' = map (fact_event fs) [max low m..<hi] \<and> bytes' = total_bytes esize es' \<and>
    length es' \<le> length es \<and> total_bytes esize es' \<le> total_bytes esize es"
  using assms
proof (induction es arbitrary: bytes low)
  case (Cons e es)
  from Cons.prems(3) have low: "low < hi" by (cases "low < hi") auto
  with Cons.prems(3) have e: "fst e = fact_event fs low"
    "map fst es = map (fact_event fs) [Suc low..<hi]" by (simp_all add: upt_conv_Cons)
  show ?case
  proof (cases "ev_sequence (fst e) \<le> n")
    case True
    with e low Cons.prems(4,6,7) have m: "Suc low \<le> m"
      by (simp add: fact_event_def of_nat_u64_le del: of_nat_Suc)
    from True Cons.prems have "drop_acknowledged esize n es (total_bytes esize es) = (es', bytes')"
      by simp
    from Cons.IH [OF this refl e(2) Cons.prems(4) _ Cons.prems(6,7)] low m show ?thesis
      by (simp add: max_def)
  next
    case False
    with e low Cons.prems(4,6,7) have "m \<le> low"
      by (simp add: fact_event_def of_nat_u64_le del: of_nat_Suc)
    with False Cons.prems show ?thesis by (auto simp: max_def)
  qed
qed (auto)

section \<open>Preservation\<close>

lemma jinv_dest:
  assumes "jinv esize s low cm"
  shows "length (facts s) + 1 < 2 ^ 64" "j_next_event (jn s) = of_nat (Suc (length (facts s)))"
    "cm \<le> low" "low \<le> length (facts s)"
    "map fst (j_events (jn s)) = map (fact_event (facts s)) [low..<length (facts s)]"
    "j_event_bytes (jn s) = total_bytes esize (j_events (jn s))"
    "length (j_events (jn s)) \<le> j_capacity (jn s)"
    "total_bytes esize (j_events (jn s)) \<le> int (j_byte_capacity (jn s))"
    "mc_event (j_committed (jn s)) = of_nat cm" "stream (facts s) 0 (acked_batches s) cm"
    "j_source_final (jn s) \<Longrightarrow> j_final_event (jn s) = of_nat (length (facts s))"
    "j_final_acknowledged (jn s) \<Longrightarrow> j_source_final (jn s) \<and> cm = length (facts s)"
    "j_pending (jn s) = Some b \<Longrightarrow> \<exists>m. accounts (facts s) cm b m \<and>
         (mb_source_final b \<longrightarrow> j_source_final (jn s) \<and> m = length (facts s))"
  using assms by (simp_all add: jinv_def Let_def)

lemma jinv_append:
  assumes i: "jinv esize s low cm" and n: "length (facts s) + 2 < 2 ^ 64"
    and a: "AppendFact esize payload observed_at now (jn s) = (r, j)"
  shows "\<exists>low'. jinv esize (s\<lparr>jn := j, facts := facts s @
      (if r = AppendSourceFinal then [] else [(observed_at, payload)])\<rparr>) low' cm"
proof (cases "j_source_final (jn s)")
  case True
  with a i show ?thesis by (auto simp: AppendFact_def)
next
  case False
  note d = jinv_dest [OF i]
  let ?fs = "facts s @ [(observed_at, payload)]" and ?n = "length (facts s)"
  let ?e = "\<lparr>ev_sequence = j_next_event (jn s), ev_observed_at = observed_at, ev_payload = payload\<rparr>"
  obtain es bytes where t: "trim_events esize (j_capacity (jn s)) (j_byte_capacity (jn s))
      (j_events (jn s) @ [(?e, now)]) (j_event_bytes (jn s) + int (esize ?e)) = (es, bytes)"
    by (metis surj_pair)
  with a False have r: "r \<noteq> AppendSourceFinal"
    and j: "j = (jn s)\<lparr>j_next_event := j_next_event (jn s) + 1, j_last_observed := Some observed_at,
              j_events := es, j_event_bytes := bytes\<rparr>"
    by (auto simp: AppendFact_def Let_def)
  from trim_events_spec [OF t] d(6) obtain k where k: "k \<le> length (j_events (jn s)) + 1"
      "es = drop k (j_events (jn s) @ [(?e, now)])" "bytes = total_bytes esize es"
      "length es \<le> j_capacity (jn s)" "total_bytes esize es \<le> int (j_byte_capacity (jn s))"
    by auto
  have len: "length (j_events (jn s)) = ?n - low"
    using d(5) by (metis length_map length_upt)
  have "map fst (j_events (jn s) @ [(?e, now)]) = map (fact_event ?fs) [low..<Suc ?n]"
    using d(4,5) d(2) by (simp add: fact_event_def [of "facts s @ _" "length (facts s)"])
  moreover have "map fst es = drop k (map fst (j_events (jn s) @ [(?e, now)]))"
    by (simp only: k(2) drop_map)
  ultimately have "map fst es = map (fact_event ?fs) [low + k..<Suc ?n]"
    by (simp only: drop_map drop_upt)
  moreover have "\<forall>b. j_pending (jn s) = Some b \<longrightarrow> (\<exists>m. accounts ?fs cm b m \<and> \<not> mb_source_final b)"
    using d(13) False accounts_append by blast
  moreover have "\<not> j_final_acknowledged (jn s)" using d(12) False by blast
  ultimately have "jinv esize (s\<lparr>jn := j, facts := ?fs\<rparr>) (low + k) cm"
    using d n k len False stream_append [OF d(10)]
    by (simp add: jinv_def Let_def j)
  with r show ?thesis by auto
qed

lemma oldest_low:
  assumes i: "jinv esize s low cm"
  shows "oldest_available (jn s) = of_nat (Suc low)"
proof (cases "low < length (facts s)")
  case True
  with jinv_dest(5) [OF i] obtain e t es where "j_events (jn s) = (e, t) # es" "e = fact_event (facts s) low"
    by (cases "j_events (jn s)") (auto simp: upt_conv_Cons)
  then show ?thesis by (simp add: oldest_available_def fact_event_def)
next
  case False
  with jinv_dest(2,4,5) [OF i] show ?thesis by (simp add: oldest_available_def)
qed

lemma next_requested_cm: "jinv esize s low cm \<Longrightarrow> next_requested (jn s) = of_nat (Suc cm)"
  using jinv_dest(9) [of esize s low cm] by (simp add: next_requested_def)

lemma uncommitted_all:
  assumes i: "jinv esize s low cm"
  shows "uncommitted (jn s) = map (fact_event (facts s)) [low..<length (facts s)]"
proof -
  note d = jinv_dest [OF i]
  have "\<not> ev_sequence (fact_event (facts s) k) < next_requested (jn s)"
    if "k \<in> set [low..<length (facts s)]" for k
    using that d(1,3) next_requested_cm [OF i]
    by (simp add: fact_event_def of_nat_u64_less del: of_nat_Suc)
  then show ?thesis unfolding uncommitted_def d(5) by (intro filter_True) auto
qed

lemma collect_events_prefix:
  "\<exists>k. collect_events bsize me mb b evs = b\<lparr>mb_events := mb_events b @ take k evs\<rparr>"
proof (induction evs arbitrary: b)
  case (Cons e evs)
  let ?b = "b\<lparr>mb_events := mb_events b @ [e]\<rparr>"
  obtain k where k: "collect_events bsize me mb ?b evs = ?b\<lparr>mb_events := mb_events ?b @ take k evs\<rparr>"
    using Cons by blast
  show ?case
  proof (cases "length (mb_events b) \<ge> me \<or> int (bsize ?b) > mb")
    case True
    then show ?thesis by (auto intro!: exI [of _ 0] simp: Let_def)
  next
    case False
    with k show ?thesis by (auto intro!: exI [of _ "Suc k"] simp: Let_def)
  qed
qed simp

lemma batch_body_accounts:
  assumes i: "jinv esize s low cm" and b: "batch_body bsize req now_unix (jn s) = Inr b"
  shows "\<exists>m. accounts (facts s) cm b m \<and> (mb_heartbeat b \<longrightarrow> cm = length (facts s))"
proof -
  note d = jinv_dest [OF i] and o = oldest_low [OF i] and nr = next_requested_cm [OF i]
  have lt: "next_requested (jn s) < oldest_available (jn s) \<longleftrightarrow> cm < low"
    using d(1,3,4) by (simp add: o nr of_nat_u64_less del: of_nat_Suc)
  show ?thesis
  proof (cases "cm < low")
    case True
    with lt b have "b = (empty_batch (jn s) now_unix)
        \<lparr>mb_first := next_requested (jn s), mb_last := oldest_available (jn s) - 1,
         mb_gap := Some \<lparr>gap_first = next_requested (jn s), gap_last = oldest_available (jn s) - 1,
           gap_oldest = oldest_available (jn s),
           gap_reason = ''bounded metric event journal overflow''\<rparr>\<rparr>"
      by (simp add: batch_body_def)
    then have "accounts (facts s) cm b low \<and> \<not> mb_heartbeat b"
      using True d(4) by (simp add: accounts_def empty_batch_def o nr)
    then show ?thesis by blast
  next
    case False
    with d(3) have low: "low = cm" by simp
    obtain k where k: "collect_events bsize (gr_max_events req) (gr_max_bytes req)
        (empty_batch (jn s) now_unix) (uncommitted (jn s)) =
        (empty_batch (jn s) now_unix)\<lparr>mb_events := take k (uncommitted (jn s))\<rparr>"
      using collect_events_prefix [of bsize "gr_max_events req" "gr_max_bytes req"
          "empty_batch (jn s) now_unix" "uncommitted (jn s)"] by (auto simp: empty_batch_def)
    define evs where "evs = take k (uncommitted (jn s))"
    define m where "m = min (length (facts s)) (cm + k)"
    have evs: "evs = map (fact_event (facts s)) [cm..<m]"
      by (simp add: evs_def uncommitted_all [OF i] low take_map m_def min_def take_upt)
    show ?thesis
    proof (cases "evs = []")
      case True
      with b k lt low have h: "b = (empty_batch (jn s) now_unix)\<lparr>mb_heartbeat := True\<rparr>"
          "uncommitted (jn s) = []"
        by (auto simp: batch_body_def Let_def evs_def [symmetric] empty_batch_def split: if_splits)
      then have "cm = length (facts s)" using uncommitted_all [OF i] low d(3,4) by auto
      then show ?thesis by (auto simp: h(1) accounts_def empty_batch_def)
    next
      case ne: False
      then have m: "cm < m" "m \<le> length (facts s)" by (auto simp: evs m_def)
      have "last evs = fact_event (facts s) (m - 1)" using m by (simp add: evs last_map)
      then have l: "ev_sequence (last evs) = of_nat m" using m by (simp add: fact_event_def)
      from b k lt low ne have "b = (empty_batch (jn s) now_unix)
          \<lparr>mb_events := evs, mb_first := ev_sequence (hd evs), mb_last := ev_sequence (last evs)\<rparr>"
        by (auto simp: batch_body_def Let_def evs_def [symmetric] empty_batch_def)
      then have "accounts (facts s) cm b m \<and> \<not> mb_heartbeat b"
        using m ne l evs by (simp add: accounts_def empty_batch_def)
      then show ?thesis by blast
    qed
  qed
qed

lemma mark_final_accounts:
  assumes "jinv esize s low cm" "accounts (facts s) cm b m" "\<not> mb_source_final b"
  shows "accounts (facts s) cm (mark_final (jn s) b) m"
    and "mb_source_final (mark_final (jn s) b) \<longrightarrow> j_source_final (jn s) \<and> m = length (facts s)"
proof -
  note d = jinv_dest [OF assms(1)]
  show "accounts (facts s) cm (mark_final (jn s) b) m"
    using assms(2) by (simp add: mark_final_def accounts_def)
  show "mb_source_final (mark_final (jn s) b) \<longrightarrow> j_source_final (jn s) \<and> m = length (facts s)"
  proof
    assume "mb_source_final (mark_final (jn s) b)"
    with assms(3) have f: "j_source_final (jn s)" "(mb_events b \<noteq> [] \<or> mb_gap b \<noteq> None) \<and>
        mb_last b = of_nat (length (facts s)) \<or> mb_heartbeat b \<and> cm = length (facts s)"
      using d(1,3,4,9,11)
      by (auto simp: mark_final_def of_nat_u64_eq split: if_splits)
    then show "j_source_final (jn s) \<and> m = length (facts s)" using assms(2) d(1)
      by (auto simp: accounts_def of_nat_u64_eq)
  qed
qed

lemma batch_body_not_final:
  "batch_body bsize req now_unix j = Inr b \<Longrightarrow> \<not> mb_source_final b"
  using collect_events_prefix [of bsize "gr_max_events req" "gr_max_bytes req" "empty_batch j now_unix"
      "uncommitted j"]
  by (auto simp: batch_body_def Let_def empty_batch_def split: if_splits)

lemma jinv_build:
  assumes i: "jinv esize s low cm" and b: "BuildPendingBatch bsize req now_unix now (jn s) = Inr j"
  shows "jinv esize (s\<lparr>jn := j, waiting := w\<rparr>) low cm"
proof -
  from b obtain b0 where b0: "batch_body bsize req now_unix (jn s) = Inr b0"
    and j: "j = (jn s)\<lparr>j_pending := Some (mark_final (jn s) b0),
              j_next_batch := j_next_batch (jn s) + 1, j_last_batch_at := now\<rparr>"
    by (auto simp: BuildPendingBatch_def Let_def split: sum.splits if_splits)
  from batch_body_accounts [OF i b0] obtain m where "accounts (facts s) cm b0 m" by blast
  from mark_final_accounts [OF i this batch_body_not_final [OF b0]]
  have "\<exists>m. accounts (facts s) cm (mark_final (jn s) b0) m \<and>
      (mb_source_final (mark_final (jn s) b0) \<longrightarrow> j_source_final (jn s) \<and> m = length (facts s))"
    by blast
  then show ?thesis using i by (simp add: jinv_def Let_def j)
qed

lemma jinv_ack:
  assumes i: "jinv esize s low cm" and a: "journal_Ack esize consumer cur (jn s) = (r, j)"
  shows "\<exists>m \<ge> cm. jinv esize (s\<lparr>jn := j, acked_batches := acked_batches s @
        (if r = AckApplied then [the (j_pending (jn s))] else [])\<rparr>) (max low m) m"
proof (cases "r = AckApplied")
  case False
  with a have "j = jn s"
    by (auto simp: journal_Ack_def Let_def split: if_splits option.splits prod.splits)
  with False i jinv_dest(3) [OF i] show ?thesis by (auto intro!: exI [of _ cm] simp: max_def)
next
  case True
  note d = jinv_dest [OF i]
  from a True obtain b es bytes where b: "j_pending (jn s) = Some b"
    and mc: "mc_event cur = (if mb_events b \<noteq> [] \<or> mb_gap b \<noteq> None then mb_last b else of_nat cm)"
    and dr: "drop_acknowledged esize (mc_event cur) (j_events (jn s)) (j_event_bytes (jn s)) = (es, bytes)"
    and j: "j = (jn s)\<lparr>j_committed := cur, j_events := es, j_event_bytes := bytes, j_pending := None,
              j_final_acknowledged := j_final_acknowledged (jn s) \<or> mb_source_final b\<rparr>"
    by (auto simp: journal_Ack_def Let_def d(9) split: if_splits option.splits prod.splits)
  from d(13) [OF b] obtain m where m: "accounts (facts s) cm b m"
    and fin: "mb_source_final b \<longrightarrow> j_source_final (jn s) \<and> m = length (facts s)" by blast
  have ms: "m \<le> length (facts s)" "cm \<le> m" "mc_event cur = of_nat m"
    using m mc by (auto simp: accounts_def)
  have "m = length (facts s)" if "j_final_acknowledged (jn s)"
    using d(12) [OF that] ms by simp
  with drop_acknowledged_spec [OF dr d(6,5) ms(3) d(4,1) ms(1)]
  have "jinv esize (s\<lparr>jn := j, acked_batches := acked_batches s @ [b]\<rparr>) (max low m) m"
    using d ms fin stream_snoc [OF d(10) m] by (auto simp: jinv_def Let_def j)
  with True b ms(2) show ?thesis by auto
qed

lemma jinv_Get:
  assumes i: "jinv esize s low cm" and g: "journal_Get req (jn s) = (r, j)"
  shows "jinv esize (s\<lparr>jn := j, waiting := w\<rparr>) low cm"
proof -
  from g have "j = jn s \<or> j = (jn s)\<lparr>j_consumer := Some (gr_consumer req)\<rparr>"
    by (auto simp: journal_Get_def Let_def split: if_splits option.splits)
  with i show ?thesis by (auto simp: jinv_def Let_def)
qed

lemma jinv_Finalize:
  assumes i: "jinv esize s low cm"
  shows "jinv esize (s\<lparr>jn := journal_Finalize (jn s)\<rparr>) low cm"
  using i jinv_dest(13) [OF i] by (auto simp: jinv_def Let_def journal_Finalize_def)

theorem journal_reachable_inv: "journal_reachable esize bsize s \<Longrightarrow> \<exists>low cm. jinv esize s low cm"
proof (induction rule: journal_reachable.induct)
  case (jr_new source capacity byte_capacity flush_interval now)
  show ?case by (intro exI [of _ 0]) (simp add: jinv_def new_journal_def)
next
  case (jr_step s s')
  then obtain low cm where i: "jinv esize s low cm" by blast
  from jr_step.hyps(2) show ?case
  proof cases
    case (js_append payload observed_at now r j)
    from jinv_append [OF i js_append(2,3)] show ?thesis unfolding js_append(1) by blast
  next
    case js_finalize
    with jinv_Finalize [OF i] show ?thesis by blast
  next
    case (js_get req r j)
    from jinv_Get [OF i js_get(2)] show ?thesis unfolding js_get(1) by blast
  next
    case (js_resume req now_unix now r j)
    have "j = jn s \<or> BuildPendingBatch bsize req now_unix now (jn s) = Inr j"
      using js_resume(3) by (auto simp: journal_GetAfterWait_def split: if_splits sum.splits option.splits)
    then have "jinv esize s' low cm"
      using jinv_build [OF i, of bsize req now_unix now j] i unfolding js_resume(1)
      by (auto simp: jinv_def Let_def)
    then show ?thesis by blast
  next
    case (js_ack consumer cur r j)
    from jinv_ack [OF i js_ack(2)] show ?thesis unfolding js_ack(1) by blast
  qed
qed

end
