(* ===== verification/Metric_Claims.thy ===== *)
theory Metric_Claims
  imports Metric_Protocol
begin

text \<open>The guarantees of the metric journal, and the concrete run of their witnesses.\<close>

section \<open>Without overflow there is no gap\<close>

definition facts_fit :: "(metric_event \<Rightarrow> nat) \<Rightarrow> jsys \<Rightarrow> bool" where
  "facts_fit esize s \<longleftrightarrow>
     length (facts s) \<le> j_capacity (jn s) \<and>
     (\<Sum>i\<leftarrow>[0..<length (facts s)]. int (esize (fact_event (facts s) i))) \<le> int (j_byte_capacity (jn s))"

definition gapless :: "jsys \<Rightarrow> bool" where
  "gapless s \<longleftrightarrow>
     (\<forall>b \<in> set (acked_batches s). mb_gap b = None) \<and>
     (\<forall>b. j_pending (jn s) = Some b \<longrightarrow> mb_gap b = None)"

lemma trim_events_id:
  "length es \<le> cap \<Longrightarrow> bytes \<le> int bytecap \<Longrightarrow> trim_events esize cap bytecap es bytes = (es, bytes)"
  by (cases es) auto

lemma total_bytes_facts:
  "map fst es = map (fact_event fs) [low..<n] \<Longrightarrow>
     total_bytes esize es = (\<Sum>i\<leftarrow>[low..<n]. int (esize (fact_event fs i)))"
proof -
  assume e: "map fst es = map (fact_event fs) [low..<n]"
  have "total_bytes esize es = sum_list (map (\<lambda>e. int (esize e)) (map fst es))"
    by (simp add: total_bytes_def comp_def)
  then show ?thesis by (simp add: e comp_def)
qed

lemma facts_fit_append:
  assumes "facts_fit esize s'" "facts s' = facts s @ x" "j_capacity (jn s') = j_capacity (jn s)"
    "j_byte_capacity (jn s') = j_byte_capacity (jn s)"
  shows "facts_fit esize s"
proof -
  have "(\<Sum>i\<leftarrow>[0..<length (facts s)]. int (esize (fact_event (facts s) i))) =
      (\<Sum>i\<leftarrow>[0..<length (facts s)]. int (esize (fact_event (facts s') i)))"
    by (intro arg_cong [of _ _ sum_list] map_cong) (simp_all add: assms(2))
  also have "\<dots> \<le> (\<Sum>i\<leftarrow>[0..<length (facts s')]. int (esize (fact_event (facts s') i)))"
    by (simp add: assms(2) upt_add_eq_append [of 0 "length (facts s)" "length x"]
        sum_list_map_nonneg)
  finally show ?thesis using assms by (simp add: facts_fit_def)
qed

lemma append_keeps_low:
  assumes i: "jinv esize s cm cm" and n: "length (facts s) + 2 < 2 ^ 64"
    and a: "AppendFact esize payload observed_at now (jn s) = (r, j)"
    and fit: "facts_fit esize (s\<lparr>jn := j, facts := facts s @
      (if r = AppendSourceFinal then [] else [(observed_at, payload)])\<rparr>)"
  shows "jinv esize (s\<lparr>jn := j, facts := facts s @
      (if r = AppendSourceFinal then [] else [(observed_at, payload)])\<rparr>) cm cm"
proof (cases "j_source_final (jn s)")
  case True
  with a i show ?thesis by (auto simp: AppendFact_def)
next
  case False
  note d = jinv_dest [OF i]
  let ?fs = "facts s @ [(observed_at, payload)]" and ?n = "length (facts s)"
  let ?e = "\<lparr>ev_sequence = j_next_event (jn s), ev_observed_at = observed_at, ev_payload = payload\<rparr>"
  let ?es = "j_events (jn s) @ [(?e, now)]"
  have ev: "map fst ?es = map (fact_event ?fs) [cm..<Suc ?n]"
    using d(4,5) d(2) by (simp add: fact_event_def [of "facts s @ _" "length (facts s)"])
  from a False have r: "r \<noteq> AppendSourceFinal" and caps: "j_capacity j = j_capacity (jn s)"
      "j_byte_capacity j = j_byte_capacity (jn s)"
    by (auto simp: AppendFact_def Let_def split: prod.splits)
  have fit': "Suc ?n \<le> j_capacity (jn s)"
      "(\<Sum>i\<leftarrow>[0..<Suc ?n]. int (esize (fact_event ?fs i))) \<le> int (j_byte_capacity (jn s))"
    using fit r caps by (simp_all add: facts_fit_def)
  have tb: "total_bytes esize ?es = (\<Sum>i\<leftarrow>[cm..<Suc ?n]. int (esize (fact_event ?fs i)))"
    by (rule total_bytes_facts [OF ev])
  have split: "[0..<Suc ?n] = [0..<cm] @ [cm..<Suc ?n]"
    using upt_add_eq_append [of 0 cm "Suc ?n - cm"] d(4) by simp
  have tot: "total_bytes esize ?es \<le> int (j_byte_capacity (jn s))"
    using fit'(2) sum_list_map_nonneg [of "[0..<cm]" "\<lambda>i. int (esize (fact_event ?fs i))"]
    unfolding split map_append sum_list_append tb [symmetric] by simp
  have len: "length (j_events (jn s)) = ?n - cm"
    using d(5) by (metis length_map length_upt)
  have "trim_events esize (j_capacity (jn s)) (j_byte_capacity (jn s)) ?es
      (j_event_bytes (jn s) + int (esize ?e)) = (?es, total_bytes esize ?es)"
    using trim_events_id [of ?es "j_capacity (jn s)" "total_bytes esize ?es" "j_byte_capacity (jn s)"]
      fit'(1) tot len d(6) by simp
  with a False have j: "j = (jn s)\<lparr>j_next_event := j_next_event (jn s) + 1,
      j_last_observed := Some observed_at, j_events := ?es, j_event_bytes := total_bytes esize ?es\<rparr>"
    by (auto simp: AppendFact_def Let_def)
  have "\<forall>b. j_pending (jn s) = Some b \<longrightarrow> (\<exists>m. accounts ?fs cm b m \<and> \<not> mb_source_final b)"
    using d(13) False accounts_append by blast
  moreover have "\<not> j_final_acknowledged (jn s)" using d(12) False by blast
  ultimately have "jinv esize (s\<lparr>jn := j, facts := ?fs\<rparr>) cm cm"
    using d n ev tot len fit'(1) False stream_append [OF d(10)]
    by (simp add: jinv_def Let_def j)
  with r show ?thesis by auto
qed

lemma batch_body_no_gap:
  assumes "jinv esize s cm cm" "batch_body bsize req now_unix (jn s) = Inr b"
  shows "mb_gap b = None"
proof -
  have "\<not> next_requested (jn s) < oldest_available (jn s)"
    by (simp add: oldest_low [OF assms(1)] next_requested_cm [OF assms(1)])
  then show ?thesis
    using assms(2) collect_events_prefix [of bsize "gr_max_events req" "gr_max_bytes req"
        "empty_batch (jn s) now_unix" "uncommitted (jn s)"]
    by (auto simp: batch_body_def Let_def empty_batch_def split: if_splits)
qed

lemma capacity_constant:
  assumes "journal_step esize bsize s s'"
  shows "j_capacity (jn s') = j_capacity (jn s) \<and> j_byte_capacity (jn s') = j_byte_capacity (jn s) \<and>
    (\<exists>x. facts s' = facts s @ x)"
  using assms
  by cases
    (auto simp: AppendFact_def journal_Finalize_def journal_Get_def journal_GetAfterWait_def
      BuildPendingBatch_def journal_Ack_def Let_def
      split: if_splits option.splits sum.splits prod.splits)

lemma no_overflow_no_gap:
  "journal_reachable esize bsize s \<Longrightarrow> facts_fit esize s \<Longrightarrow> (\<exists>cm. jinv esize s cm cm) \<and> gapless s"
proof (induction rule: journal_reachable.induct)
  case (jr_new source capacity byte_capacity flush_interval now)
  show ?case by (auto intro!: exI [of _ 0] simp: jinv_def gapless_def new_journal_def)
next
  case (jr_step s s')
  from capacity_constant [OF jr_step.hyps(2)] jr_step.prems have "facts_fit esize s"
    using facts_fit_append by blast
  with jr_step.IH obtain cm where i: "jinv esize s cm cm" and g: "gapless s" by blast
  from jr_step.hyps(2) show ?case
  proof cases
    case (js_append payload observed_at now r j)
    have "j_pending j = j_pending (jn s)"
      using js_append(3) by (auto simp: AppendFact_def Let_def split: if_splits prod.splits)
    moreover note append_keeps_low [OF i js_append(2,3)] jr_step.prems
    ultimately show ?thesis using g unfolding js_append(1) by (auto simp: gapless_def)
  next
    case js_finalize
    with jinv_Finalize [OF i] g show ?thesis by (auto simp: gapless_def journal_Finalize_def)
  next
    case (js_get req r j)
    have "j_pending j = j_pending (jn s)"
      using js_get(2) by (auto simp: journal_Get_def Let_def split: if_splits option.splits)
    then have "gapless s'" using g by (simp add: js_get(1) gapless_def)
    moreover have "jinv esize s' cm cm"
      unfolding js_get(1) by (rule jinv_Get [OF i js_get(2)])
    ultimately show ?thesis by blast
  next
    case (js_resume req now_unix now r j)
    consider "j = jn s" | "BuildPendingBatch bsize req now_unix now (jn s) = Inr j"
      using js_resume(3) by (auto simp: journal_GetAfterWait_def split: if_splits sum.splits option.splits)
    then show ?thesis
    proof cases
      case 1
      with i g show ?thesis unfolding js_resume(1) by (auto simp: jinv_def Let_def gapless_def)
    next
      case 2
      then obtain b where b: "batch_body bsize req now_unix (jn s) = Inr b"
        and j: "j_pending j = Some (mark_final (jn s) b)"
        by (auto simp: BuildPendingBatch_def Let_def split: sum.splits if_splits)
      have "mb_gap (mark_final (jn s) b) = None"
        using batch_body_no_gap [OF i b] by (simp add: mark_final_def)
      with jinv_build [OF i 2] g j show ?thesis unfolding js_resume(1) by (auto simp: gapless_def)
    qed
  next
    case (js_ack consumer cur r j)
    from jinv_ack [OF i js_ack(2)] have "\<exists>m. jinv esize s' m m"
      unfolding js_ack(1) by (auto simp: max_def split: if_splits)
    moreover have "gapless s'"
      using js_ack(2) g unfolding js_ack(1)
      by (auto simp: gapless_def journal_Ack_def Let_def split: if_splits option.splits prod.splits)
    ultimately show ?thesis by blast
  qed
qed

section \<open>The guarantees\<close>

text \<open>C19: What the consumer has acknowledged is an exact account of the facts appended: every fact
  up to the committed cursor was delivered once, in order and unchanged, or lies in a reported
  gap.\<close>

theorem acknowledged_facts_exact:
  assumes "journal_reachable esize bsize s"
  shows "\<exists>cm \<le> length (facts s). mc_event (j_committed (jn s)) = of_nat cm \<and>
    stream (facts s) 0 (acked_batches s) cm"
  using journal_reachable_inv [OF assms] by (auto simp: jinv_def Let_def intro: le_trans)

text \<open>A gap is reported only after an overflow: while all facts fit into the journal, every
  acknowledged batch carries its facts.\<close>

theorem metric_gap_only_on_overflow:
  assumes "journal_reachable esize bsize s"
    and "length (facts s) \<le> j_capacity (jn s)"
    and "(\<Sum>i\<leftarrow>[0..<length (facts s)]. int (esize (fact_event (facts s) i)))
           \<le> int (j_byte_capacity (jn s))"
  shows "\<forall>b \<in> set (acked_batches s). mb_gap b = None"
  using no_overflow_no_gap [OF assms(1)] assms(2,3) by (simp add: facts_fit_def gapless_def)

text \<open>The journal never holds more events or bytes than configured, its byte count is exact, and
  the events it holds are the latest facts.\<close>

theorem metric_journal_bounded:
  assumes "journal_reachable esize bsize s"
  shows "length (j_events (jn s)) \<le> j_capacity (jn s) \<and>
    j_event_bytes (jn s) = (\<Sum>e\<leftarrow>j_events (jn s). int (esize (fst e))) \<and>
    j_event_bytes (jn s) \<le> int (j_byte_capacity (jn s)) \<and>
    map fst (j_events (jn s)) =
      map (fact_event (facts s)) [length (facts s) - length (j_events (jn s))..<length (facts s)]"
proof -
  obtain low cm where i: "jinv esize s low cm" using journal_reachable_inv [OF assms] by blast
  note d = jinv_dest [OF i]
  have "length (j_events (jn s)) = length (facts s) - low"
    using d(5) by (metis length_map length_upt)
  then have "length (facts s) - length (j_events (jn s)) = low" using d(4) by simp
  then show ?thesis using d(5-8) by (simp add: total_bytes_def)
qed

text \<open>When the final batch has been acknowledged, the consumer has accounted for every fact ever
  appended, and none can follow.\<close>

theorem final_acknowledgement_complete:
  assumes "journal_reachable esize bsize s" and "j_final_acknowledged (jn s)"
  shows "stream (facts s) 0 (acked_batches s) (length (facts s)) \<and>
    fst (AppendFact esize payload observed_at now (jn s)) = AppendSourceFinal"
  using journal_reachable_inv [OF assms(1)] assms(2)
  by (auto simp: jinv_def Let_def AppendFact_def)

section \<open>A concrete run\<close>

text \<open>One fact is appended, pulled and acknowledged; then the source ends.\<close>

definition run_source :: service_identity where
  "run_source = \<lparr>component = ''rl-aiserver'', instance_id = ''a'', lifecycle_epoch = 3\<rparr>"

definition run_consumer :: service_identity where
  "run_consumer = \<lparr>component = ''monitor'', instance_id = ''m'', lifecycle_epoch = 4\<rparr>"

definition run_cursor :: "u64 \<Rightarrow> u64 \<Rightarrow> metric_cursor" where
  "run_cursor b e = \<lparr>mc_source = run_source, mc_batch = b, mc_event = e\<rparr>"

definition run_req :: "u64 \<Rightarrow> u64 \<Rightarrow> get_req" where
  "run_req b e = \<lparr>gr_consumer = run_consumer, gr_cursor = run_cursor b e, gr_max_events = 16,
     gr_max_bytes = 1000, gr_wait_ms = 0\<rparr>"

definition run_esize :: "metric_event \<Rightarrow> nat" where "run_esize e = 10"
definition run_bsize :: "metric_batch \<Rightarrow> nat" where "run_bsize b = 10 * length (mb_events b) + 5"

definition run1 :: journal where
  "run1 = snd (AppendFact run_esize ''fact'' 7 0 (new_journal run_source 4 100 5000 0))"
definition run2 :: journal where "run2 = snd (journal_Get (run_req 0 0) run1)"
definition run3 :: journal where
  "run3 = snd (journal_GetAfterWait run_esize run_bsize (run_req 0 0) 9 6000 run2)"
definition run4 :: journal where
  "run4 = snd (journal_Ack run_esize run_consumer (run_cursor 1 1) run3)"
definition run5 :: journal where "run5 = journal_Finalize run4"
definition run6 :: journal where "run6 = snd (journal_Get (run_req 1 1) run5)"
definition run7 :: journal where
  "run7 = snd (journal_GetAfterWait run_esize run_bsize (run_req 1 1) 9 6001 run6)"
definition run8 :: journal where
  "run8 = snd (journal_Ack run_esize run_consumer (run_cursor 2 1) run7)"

lemmas run_defs = run_source_def run_consumer_def run_cursor_def run_req_def run_esize_def run_bsize_def
  run1_def run2_def run3_def run4_def run5_def run6_def run7_def run8_def

lemma run_results:
  "fst (AppendFact run_esize ''fact'' 7 0 (new_journal run_source 4 100 5000 0)) = AppendApplied None"
  "fst (journal_Get (run_req 0 0) run1) = GetMustWait"
  "fst (journal_Ack run_esize run_consumer (run_cursor 1 1) run3) = AckApplied"
  "fst (journal_Get (run_req 1 1) run5) = GetMustWait"
  "fst (journal_Ack run_esize run_consumer (run_cursor 2 1) run7) = AckApplied"
  "j_final_acknowledged run8"
  "j_capacity run8 = 4 \<and> j_byte_capacity run8 = 100"
  by code_simp+

definition run_end :: jsys where
  "run_end = \<lparr>jn = run8, waiting = [], facts = [(7, ''fact'')],
     acked_batches = [the (j_pending run3), the (j_pending run7)]\<rparr>"

lemma run_reachable: "journal_reachable run_esize run_bsize run_end"
proof -
  let ?j = "journal_reachable run_esize run_bsize" and ?fs = "[(7, ''fact'')]"
  have 0: "?j \<lparr>jn = new_journal run_source 4 100 5000 0, waiting = [], facts = [], acked_batches = []\<rparr>"
    by (rule journal_reachable.jr_new)
  have 1: "?j \<lparr>jn = run1, waiting = [], facts = ?fs, acked_batches = []\<rparr>"
    by (rule journal_reachable.jr_step [OF 0])
      (use journal_step.js_append [of "\<lparr>jn = new_journal run_source 4 100 5000 0, waiting = [],
          facts = [], acked_batches = []\<rparr>" run_esize "''fact''" 7 0 _ run1 run_bsize] run_results(1)
        in \<open>simp add: prod_eq_iff run1_def\<close>)
  have 2: "?j \<lparr>jn = run2, waiting = [run_req 0 0], facts = ?fs, acked_batches = []\<rparr>"
    by (rule journal_reachable.jr_step [OF 1])
      (use journal_step.js_get [of "run_req 0 0" "\<lparr>jn = run1, waiting = [], facts = ?fs,
          acked_batches = []\<rparr>" _ run2] run_results(2) in \<open>simp add: prod_eq_iff run2_def\<close>)
  have 3: "?j \<lparr>jn = run3, waiting = [], facts = ?fs, acked_batches = []\<rparr>"
    by (rule journal_reachable.jr_step [OF 2])
      (use journal_step.js_resume [of "run_req 0 0" "\<lparr>jn = run2, waiting = [run_req 0 0], facts = ?fs,
          acked_batches = []\<rparr>" run_esize run_bsize 9 6000 _ run3] in \<open>simp add: prod_eq_iff run3_def\<close>)
  have 4: "?j \<lparr>jn = run4, waiting = [], facts = ?fs, acked_batches = [the (j_pending run3)]\<rparr>"
    by (rule journal_reachable.jr_step [OF 3])
      (use journal_step.js_ack [of run_esize run_consumer "run_cursor 1 1" "\<lparr>jn = run3, waiting = [],
          facts = ?fs, acked_batches = []\<rparr>" _ run4] run_results(3) in \<open>simp add: prod_eq_iff run4_def\<close>)
  have 5: "?j \<lparr>jn = run5, waiting = [], facts = ?fs, acked_batches = [the (j_pending run3)]\<rparr>"
    by (rule journal_reachable.jr_step [OF 4])
      (use journal_step.js_finalize [of run_esize run_bsize "\<lparr>jn = run4, waiting = [],
          facts = ?fs, acked_batches = [the (j_pending run3)]\<rparr>"] in \<open>simp add: run5_def\<close>)
  have 6: "?j \<lparr>jn = run6, waiting = [run_req 1 1], facts = ?fs, acked_batches = [the (j_pending run3)]\<rparr>"
    by (rule journal_reachable.jr_step [OF 5])
      (use journal_step.js_get [of "run_req 1 1" "\<lparr>jn = run5, waiting = [], facts = ?fs,
          acked_batches = [the (j_pending run3)]\<rparr>" _ run6] run_results(4)
        in \<open>simp add: prod_eq_iff run6_def\<close>)
  have 7: "?j \<lparr>jn = run7, waiting = [], facts = ?fs, acked_batches = [the (j_pending run3)]\<rparr>"
    by (rule journal_reachable.jr_step [OF 6])
      (use journal_step.js_resume [of "run_req 1 1" "\<lparr>jn = run6, waiting = [run_req 1 1], facts = ?fs,
          acked_batches = [the (j_pending run3)]\<rparr>" run_esize run_bsize 9 6001 _ run7]
        in \<open>simp add: prod_eq_iff run7_def\<close>)
  show ?thesis unfolding run_end_def
    by (rule journal_reachable.jr_step [OF 7])
      (use journal_step.js_ack [of run_esize run_consumer "run_cursor 2 1" "\<lparr>jn = run7, waiting = [],
          facts = ?fs, acked_batches = [the (j_pending run3)]\<rparr>" _ run8] run_results(5)
        in \<open>simp add: prod_eq_iff run8_def\<close>)
qed

theorem acknowledged_facts_exact_witness:
  "\<exists>cm \<le> 1. stream [(7, ''fact'')] 0 (acked_batches run_end) cm"
  using acknowledged_facts_exact [OF run_reachable] by (auto simp: run_end_def)

theorem metric_gap_only_on_overflow_witness: "list_all (\<lambda>b. mb_gap b = None) (acked_batches run_end)"
proof -
  have a: "length (facts run_end) \<le> j_capacity (jn run_end)"
    using run_results(7) by (simp add: run_end_def)
  have b: "(\<Sum>i\<leftarrow>[0..<length (facts run_end)]. int (run_esize (fact_event (facts run_end) i)))
      \<le> int (j_byte_capacity (jn run_end))"
    using run_results(7) by (simp add: run_end_def run_esize_def)
  show ?thesis unfolding list_all_iff by (rule metric_gap_only_on_overflow [OF run_reachable a b])
qed

theorem metric_journal_bounded_witness: "length (j_events (jn run_end)) \<le> 4"
  using metric_journal_bounded [OF run_reachable] run_results(7) by (simp add: run_end_def)

theorem final_acknowledgement_complete_witness:
  "stream [(7, ''fact'')] 0 (acked_batches run_end) 1"
  using final_acknowledgement_complete [OF run_reachable] run_results(6) by (simp add: run_end_def)

end
