(* ===== verification/Sessions.thy ===== *)
theory Sessions
  imports Task_Types
begin

text \<open>
  The lifecycle protocol: the server side of a command (\<open>rl_sdk/replay_window.h\<close>,
  \<open>rl_sdk/server_command.h\<close>), the session store (\<open>task/session/session_manager.h\<close>) and the
  client's cursor and command exchange (\<open>rl_sdk/session.h\<close>).  Requests and responses carry a
  task payload of any type; the protobuf serialisation is a parameter.
\<close>

section \<open>Messages\<close>

datatype command_result =
  ResultUnspecified | ResultApplied | ResultAlreadyApplied | ResultWait | ResultRejected

datatype command_error =
  ErrorUnspecified | InvalidIdentity | StaleEpoch | OutOfOrder | PayloadConflict | StateConflict |
  TaskInputInvalid | ModelIdentityMismatch

record command_identity =
  cmd_session_id :: string
  cmd_session_epoch :: u64
  cmd_sequence :: u64
  cmd_episode_id :: string

record command_reply =
  rpl_result :: command_result
  rpl_error :: command_error
  rpl_message :: string
  rpl_applied_sequence :: u64
  rpl_phase :: session_phase

definition empty_reply :: command_reply where
  "empty_reply = \<lparr>rpl_result = ResultUnspecified, rpl_error = ErrorUnspecified, rpl_message = [],
     rpl_applied_sequence = 0, rpl_phase = PhaseUnspecified\<rparr>"

record 'q request =
  command :: command_identity
  body :: 'q

record 'p response =
  reply :: command_reply
  wait_ms :: "int option"
  result_body :: "'p option"

definition empty_response :: "'p response" where
  "empty_response = \<lparr>reply = empty_reply, wait_ms = None, result_body = None\<rparr>"

text \<open>
  \<open>SerializeAsString\<close> and \<open>ParseFromString\<close> of the generated message classes.
\<close>

record ('q, 'p) codec =
  ser_request :: "'q request \<Rightarrow> string"
  ser_response :: "'p response \<Rightarrow> string"
  parse_response :: "string \<Rightarrow> 'p response option"

definition codec_ok :: "('q, 'p) codec \<Rightarrow> bool" where
  "codec_ok w \<longleftrightarrow> (\<forall>r. parse_response w (ser_response w r) = Some r)"

section \<open>The replay window\<close>

datatype replay_decision = DecideProceed | DecideReplay | DecideConflict | DecideOutOfOrder

definition replay_Classify :: "replay_window \<Rightarrow> u64 \<Rightarrow> u64 \<Rightarrow> string \<Rightarrow> replay_decision" where
  "replay_Classify w command_sequence last_applied_sequence payload =
     (if rp_present w \<and> command_sequence = rp_sequence w
      then (if payload \<noteq> rp_payload w then DecideConflict else DecideReplay)
      else if command_sequence \<noteq> last_applied_sequence + 1 then DecideOutOfOrder
      else DecideProceed)"

definition replay_Store :: "u64 \<Rightarrow> string \<Rightarrow> string \<Rightarrow> replay_window \<Rightarrow> replay_window" where
  "replay_Store command_sequence payload response w =
     w\<lparr>rp_sequence := command_sequence, rp_payload := payload, rp_response := response,
       rp_present := True\<rparr>"

section \<open>Commands on the server\<close>

definition FillReply ::
  "session \<Rightarrow> u64 \<Rightarrow> command_result \<Rightarrow> command_error \<Rightarrow> string \<Rightarrow> 'p response \<Rightarrow> 'p response" where
  "FillReply s applied_sequence result error_code message rsp =
     rsp\<lparr>reply := (reply rsp)\<lparr>rpl_result := result, rpl_error := error_code, rpl_message := message,
       rpl_applied_sequence := applied_sequence, rpl_phase := phase s\<rparr>\<rparr>"

definition RejectCommand ::
  "session \<Rightarrow> command_error \<Rightarrow> string \<Rightarrow> 'p response \<Rightarrow> 'p response" where
  "RejectCommand s error_code message rsp =
     FillReply s (last_command_sequence s) ResultRejected error_code message rsp"

datatype command_check = CheckProceed | CheckReplayed | CheckRejected

text \<open>
  A response that fails to parse has unspecified contents in the code; here it is left as it was.
\<close>

definition CheckCommand ::
  "('q, 'p) codec \<Rightarrow> session \<Rightarrow> 'q request \<Rightarrow> 'p response \<Rightarrow> command_check \<times> 'p response" where
  "CheckCommand w s req rsp =
     (let cmd = command req;
          reject = (\<lambda>code msg. (CheckRejected,
            FillReply s (last_command_sequence s) ResultRejected code msg rsp))
      in case replay_Classify (command_replay s) (cmd_sequence cmd) (last_command_sequence s)
                (ser_request w req) of
           DecideConflict \<Rightarrow>
             reject PayloadConflict ''command sequence was reused with a different payload''
         | DecideReplay \<Rightarrow>
             (case parse_response w (rp_response (command_replay s)) of
                None \<Rightarrow> reject StateConflict ''idempotent response is unavailable''
              | Some old \<Rightarrow> (CheckReplayed, old\<lparr>reply := (reply old)
                  \<lparr>rpl_result := ResultAlreadyApplied,
                   rpl_message := ''command was already applied''\<rparr>\<rparr>))
         | DecideOutOfOrder \<Rightarrow> reject OutOfOrder ''command sequence is not contiguous''
         | DecideProceed \<Rightarrow>
             if cmd_session_id cmd \<noteq> session_id s
             then reject InvalidIdentity ''session identity does not match''
             else if cmd_session_epoch cmd \<noteq> session_epoch s
             then reject StaleEpoch ''Session epoch does not match''
             else (CheckProceed, rsp))"

definition CommitCommand ::
  "('q, 'p) codec \<Rightarrow> string \<Rightarrow> 'q request \<Rightarrow> 'p response \<Rightarrow> session \<Rightarrow> 'p response \<times> session" where
  "CommitCommand w message req rsp s =
     (let n = cmd_sequence (command req);
          s1 = s\<lparr>last_command_sequence := n\<rparr>;
          rsp1 = FillReply s1 n ResultApplied ErrorUnspecified message rsp
      in (rsp1, s1\<lparr>command_replay :=
            replay_Store n (ser_request w req) (ser_response w rsp1) (command_replay s1)\<rparr>))"

section \<open>The session store\<close>

record session_manager =
  sessions :: "(string, session) table"
  next_session_id :: u64

definition empty_manager :: session_manager where
  "empty_manager = \<lparr>sessions = [], next_session_id = 1\<rparr>"

definition session_name :: "u64 \<Rightarrow> string" where
  "session_name n = ''session-'' @ dec (unat n)"

text \<open>\<open>sessions_[sid] = Session{}\<close>: overwrite or insert.\<close>

definition put_session :: "string \<Rightarrow> session \<Rightarrow> (string, session) table \<Rightarrow> (string, session) table" where
  "put_session sid s t =
     (if map_of t sid = None then t @ [(sid, s)] else put_at sid s t)"

definition CreateSession :: "session_manager \<Rightarrow> string \<times> session_manager" where
  "CreateSession m =
     (let sid = session_name (next_session_id m)
      in (sid, m\<lparr>next_session_id := next_session_id m + 1,
                sessions := put_session sid (new_session sid) (sessions m)\<rparr>))"

definition GetSession :: "session_manager \<Rightarrow> string \<Rightarrow> session option" where
  "GetSession m sid = map_of (sessions m) sid"

text \<open>Writing through the pointer \<open>GetSession\<close> returns.\<close>

definition SetSession :: "string \<Rightarrow> session \<Rightarrow> session_manager \<Rightarrow> session_manager" where
  "SetSession sid s m = m\<lparr>sessions := put_at sid s (sessions m)\<rparr>"

definition DestroySession :: "string \<Rightarrow> session_manager \<Rightarrow> session_manager" where
  "DestroySession sid m = m\<lparr>sessions := filter (\<lambda>(k, _). k \<noteq> sid) (sessions m)\<rparr>"

definition GetActiveSessionCount :: "session_manager \<Rightarrow> nat" where
  "GetActiveSessionCount m = length (filter (\<lambda>(_, s). phase s \<noteq> PhaseClosed) (sessions m))"

record activity_snapshot =
  active_session_count :: int
  recent_active_session_count :: int
  latest_active_activity_unix_ms :: int

definition activity_step ::
  "int \<Rightarrow> int \<Rightarrow> activity_snapshot \<Rightarrow> string \<times> session \<Rightarrow> activity_snapshot" where
  "activity_step now lease snap item =
     (let s = snd item; t = last_valid_client_activity_unix_ms s
      in if phase s = PhaseClosed then snap
         else snap\<lparr>active_session_count := active_session_count snap + 1,
           latest_active_activity_unix_ms := max (latest_active_activity_unix_ms snap) t,
           recent_active_session_count := recent_active_session_count snap +
             (if lease \<ge> 0 \<and> t > 0 \<and> now \<ge> t \<and> now - t \<le> lease then 1 else 0)\<rparr>)"

definition GetClientActivitySnapshot :: "session_manager \<Rightarrow> int \<Rightarrow> int \<Rightarrow> activity_snapshot" where
  "GetClientActivitySnapshot m now lease =
     foldl (activity_step now lease)
       \<lparr>active_session_count = 0, recent_active_session_count = 0,
        latest_active_activity_unix_ms = 0\<rparr> (sessions m)"

definition GetActiveEpisodeCount :: "session_manager \<Rightarrow> nat" where
  "GetActiveEpisodeCount m =
     length (filter (\<lambda>(_, s). phase s = PhaseEpisodeRunning \<or> phase s = PhaseEpisodeTerminal)
       (sessions m))"

definition GetSessionIds :: "session_manager \<Rightarrow> string list" where
  "GetSessionIds m = map fst (sessions m)"

section \<open>The client\<close>

record cursor =
  cur_session_id :: string
  cur_episode_id :: string
  cur_session_epoch :: u64
  next_sequence :: u64
  cur_phase :: session_phase

definition FillCommand :: "cursor \<Rightarrow> command_identity" where
  "FillCommand c = \<lparr>cmd_session_id = cur_session_id c, cmd_session_epoch = cur_session_epoch c,
     cmd_sequence = next_sequence c, cmd_episode_id = cur_episode_id c\<rparr>"

text \<open>All phases but \<open>UNSPECIFIED\<close> lie between \<open>OPEN\<close> and \<open>ABORTED\<close> in the enumeration.\<close>

definition HasConcretePhase :: "command_reply \<Rightarrow> bool" where
  "HasConcretePhase r \<longleftrightarrow> rpl_phase r \<noteq> PhaseUnspecified"

definition CommandAccepted :: "command_reply \<Rightarrow> bool" where
  "CommandAccepted r \<longleftrightarrow>
     (rpl_result r = ResultApplied \<or> rpl_result r = ResultAlreadyApplied) \<and>
     rpl_error r = ErrorUnspecified"

definition AcceptCommandReply :: "cursor \<Rightarrow> command_reply \<Rightarrow> cursor option" where
  "AcceptCommandReply c r =
     (if \<not> CommandAccepted r \<or> rpl_applied_sequence r \<noteq> next_sequence c \<or> \<not> HasConcretePhase r
      then None
      else Some (c\<lparr>cur_phase := rpl_phase r, next_sequence := next_sequence c + 1\<rparr>))"

definition IsCommandWait :: "cursor \<Rightarrow> command_reply \<Rightarrow> bool" where
  "IsCommandWait c r \<longleftrightarrow>
     next_sequence c > 0 \<and> rpl_result r = ResultWait \<and> rpl_error r = ErrorUnspecified \<and>
     rpl_applied_sequence r = next_sequence c - 1 \<and> HasConcretePhase r \<and>
     rpl_phase r = cur_phase c"

definition IsConclusiveRejected :: "cursor \<Rightarrow> command_reply \<Rightarrow> bool" where
  "IsConclusiveRejected c r \<longleftrightarrow>
     next_sequence c > 0 \<and> rpl_result r = ResultRejected \<and> rpl_error r \<noteq> ErrorUnspecified \<and>
     rpl_applied_sequence r = next_sequence c - 1 \<and> HasConcretePhase r \<and>
     rpl_phase r = cur_phase c"

datatype command_outcome =
  OutcomeApplied | OutcomeRejected | OutcomeUnknown | OutcomeStopped | OutcomeWaitExpired

text \<open>
  \<open>Exchange\<close>, with one element of the list per turn of its loop: whether \<open>stopped()\<close> held,
  whether the budget was used up, and what happens to the call.  \<open>invoke\<close> threads the state of
  the rest of the world; \<open>None\<close> means that the loop is still waiting at the end of the list.
\<close>

record 'n turn =
  turn_stopped :: bool
  turn_expired :: bool
  turn_net :: 'n

definition answer ::
  "('p response \<Rightarrow> bool) \<Rightarrow> int \<Rightarrow> cursor \<Rightarrow> 'p response \<Rightarrow> command_outcome \<times> cursor" where
  "answer valid delay c rsp =
     (case (if delay = 0 \<and> valid rsp then AcceptCommandReply c (reply rsp) else None) of
        Some c' \<Rightarrow> (OutcomeApplied, c')
      | None \<Rightarrow> (if IsConclusiveRejected c (reply rsp) then OutcomeRejected else OutcomeUnknown, c))"

fun Exchange ::
  "('n \<Rightarrow> 'w \<Rightarrow> 'p response option \<times> 'w) \<Rightarrow> ('p response \<Rightarrow> bool) \<Rightarrow> ('p response \<Rightarrow> int) \<Rightarrow>
   'n turn list \<Rightarrow> cursor \<Rightarrow> 'w \<Rightarrow> (command_outcome \<times> cursor \<times> 'w) option" where
  "Exchange invoke valid delay [] c w = None"
| "Exchange invoke valid delay (t # ts) c w =
     (if turn_stopped t then Some (OutcomeStopped, c, w)
      else if turn_expired t then Some (OutcomeWaitExpired, c, w)
      else case invoke (turn_net t) w of
        (None, w') \<Rightarrow> Some (OutcomeUnknown, c, w')
      | (Some rsp, w') \<Rightarrow>
          if delay rsp > 0 \<and> IsCommandWait c (reply rsp)
          then Exchange invoke valid delay ts c w'
          else (case answer valid (delay rsp) c rsp of (r, c') \<Rightarrow> Some (r, c', w')))"

text \<open>\<open>Bind\<close> and \<open>SetEpisode\<close>\<close>

definition cursor_Bind :: "string \<Rightarrow> u64 \<Rightarrow> command_reply \<Rightarrow> cursor \<Rightarrow> cursor" where
  "cursor_Bind sid epoch r c =
     c\<lparr>cur_session_id := sid, cur_session_epoch := epoch,
       next_sequence := rpl_applied_sequence r + 1, cur_phase := rpl_phase r\<rparr>"

definition SetEpisode :: "string \<Rightarrow> cursor \<Rightarrow> cursor" where
  "SetEpisode episode c = c\<lparr>cur_episode_id := episode\<rparr>"

end
