(* ===== verification/Metric_Registry.thy ===== *)
theory Metric_Registry
  imports Task_Types
begin

text \<open>
  Metric definitions and points: \<open>task/metrics/metric_registry.h\<close>, the per-Agent facts of an Episode
  (\<open>task/metrics/agent_episode_metrics.h\<close>) and the reward window of \<open>task/metrics/reward_metrics.h\<close>.
  A thrown \<open>std::invalid_argument\<close> is an error value; the record it leaves behind is dropped by
  every caller.
\<close>

section \<open>Messages\<close>

datatype value_type = ValueUnspecified | ValueScalar | ValueUnsigned | ValueSumCount

datatype aggregation = AggUnspecified | AggLatest | AggSum | AggMin | AggMax | AggMean

record metric_definition =
  metric_id :: string
  display_name :: string
  unit_name :: string
  metric_scope :: string
  value_kind :: value_type
  aggregation_kind :: aggregation
  denominator :: string
  category :: string
  description :: string

datatype point_value = PointScalar f64 | PointUnsigned u64 | PointSumCount f64 u64

record metric_point =
  point_id :: string
  point_value :: point_value
  point_attributes :: "(string, string) table"
  interval_start :: "int option"
  interval_end :: "int option"

record metric_record =
  rec_definitions :: "metric_definition list"
  rec_points :: "metric_point list"
  rec_attributes :: "(string, string) table"

definition empty_record :: metric_record where
  "empty_record = \<lparr>rec_definitions = [], rec_points = [], rec_attributes = []\<rparr>"

section \<open>The registry\<close>

type_synonym registry = "(string, metric_definition) table"

definition definition_valid :: "metric_definition \<Rightarrow> bool" where
  "definition_valid d \<longleftrightarrow>
     metric_id d \<noteq> [] \<and> display_name d \<noteq> [] \<and> unit_name d \<noteq> [] \<and> metric_scope d \<noteq> [] \<and>
     value_kind d \<noteq> ValueUnspecified \<and> aggregation_kind d \<noteq> AggUnspecified \<and>
     (aggregation_kind d = AggMean) = (value_kind d = ValueSumCount) \<and>
     (aggregation_kind d = AggMean) = (denominator d \<noteq> [])"

text \<open>The argument carries what the parameters of \<open>Register\<close> describe.\<close>

definition registry_Register :: "metric_definition \<Rightarrow> registry \<Rightarrow> string + registry" where
  "registry_Register d reg =
     (case map_of reg (metric_id d) of
        Some old \<Rightarrow>
          if old \<noteq> d then Inl (''metric definition changed: '' @ metric_id d) else Inr reg
      | None \<Rightarrow>
          if \<not> definition_valid d then Inl (''invalid metric definition: '' @ metric_id d)
          else Inr (put_sorted (metric_id d) d reg))"

definition registry_Add ::
  "registry \<Rightarrow> metric_record \<Rightarrow> string \<Rightarrow> value_type \<Rightarrow> point_value \<Rightarrow> string + metric_record" where
  "registry_Add reg r mid type v =
     (case map_of reg mid of
        None \<Rightarrow> Inl (''unregistered metric or wrong value type: '' @ mid)
      | Some d \<Rightarrow>
          if value_kind d \<noteq> type then Inl (''unregistered metric or wrong value type: '' @ mid)
          else Inr (r\<lparr>rec_definitions :=
                 (if list_ex (\<lambda>e. metric_id e = mid) (rec_definitions r) then rec_definitions r
                  else rec_definitions r @ [d]),
               rec_points := rec_points r @
                 [\<lparr>point_id = mid, point_value = v, point_attributes = [], interval_start = None,
                   interval_end = None\<rparr>]\<rparr>))"

definition registry_Mean ::
  "registry \<Rightarrow> metric_record \<Rightarrow> string \<Rightarrow> f64 \<Rightarrow> u64 \<Rightarrow> string + metric_record" where
  "registry_Mean reg r mid amount count =
     (if \<not> isfinite amount \<or> count = 0 then Inl (''invalid metric sum/count: '' @ mid)
      else registry_Add reg r mid ValueSumCount (PointSumCount amount count))"

definition registry_Scalar ::
  "registry \<Rightarrow> metric_record \<Rightarrow> string \<Rightarrow> f64 \<Rightarrow> string + metric_record" where
  "registry_Scalar reg r mid v =
     (if \<not> isfinite v then Inl (''non-finite metric: '' @ mid)
      else registry_Add reg r mid ValueScalar (PointScalar v))"

definition registry_Unsigned ::
  "registry \<Rightarrow> metric_record \<Rightarrow> string \<Rightarrow> u64 \<Rightarrow> string + metric_record" where
  "registry_Unsigned reg r mid v = registry_Add reg r mid ValueUnsigned (PointUnsigned v)"

definition registry_Catalog :: "registry \<Rightarrow> metric_definition list" where
  "registry_Catalog reg = map snd reg"

section \<open>Agent facts of an Episode\<close>

record agent_summary =
  sum_agent_id :: u32
  sum_return :: f64
  sum_transitions :: int
  sum_min_step :: u64
  sum_max_step :: u64
  sum_lineage :: string
  sum_terminal_frame :: u64
  sum_components :: "(string, f64) table"

record metric_ids =
  ids_agent_episodes :: string
  ids_return :: string
  ids_length :: string
  ids_min_return :: string
  ids_max_return :: string
  ids_component_prefix :: string

definition plain_definition ::
  "string \<Rightarrow> string \<Rightarrow> string \<Rightarrow> string \<Rightarrow> value_type \<Rightarrow> aggregation \<Rightarrow> string \<Rightarrow> string \<Rightarrow>
   metric_definition" where
  "plain_definition mid label unit scp type agg denom cat =
     \<lparr>metric_id = mid, display_name = label, unit_name = unit, metric_scope = scp, value_kind = type,
      aggregation_kind = agg, denominator = denom, category = cat, description = []\<rparr>"

fun register_all :: "metric_definition list \<Rightarrow> registry \<Rightarrow> string + registry" where
  "register_all [] reg = Inr reg"
| "register_all (d # ds) reg = and_then (registry_Register d reg) (register_all ds)"

definition RegisterAgentEpisodeMetrics :: "metric_ids \<Rightarrow> registry \<Rightarrow> string + registry" where
  "RegisterAgentEpisodeMetrics ids =
     register_all
       [plain_definition (ids_agent_episodes ids) ''Agent Episodes'' ''count'' ''agent_episode''
          ValueUnsigned AggSum [] ''episode'',
        plain_definition (ids_return ids) ''Mean Episode Return'' ''reward'' ''agent_episode''
          ValueSumCount AggMean ''agent_episode'' ''reward'',
        plain_definition (ids_length ids) ''Episode Length'' ''transition'' ''agent_episode''
          ValueSumCount AggMean ''agent_episode'' ''episode'',
        plain_definition (ids_min_return ids) ''Episode Return Min'' ''reward'' ''agent_episode''
          ValueScalar AggMin [] ''episode'',
        plain_definition (ids_max_return ids) ''Episode Return Max'' ''reward'' ''agent_episode''
          ValueScalar AggMax [] ''episode'']"

definition annotate_point :: "agent_summary \<Rightarrow> metric_point \<Rightarrow> metric_point" where
  "annotate_point a p =
     p\<lparr>point_attributes := foldl (\<lambda>t (k, v). put_sorted k v t) (point_attributes p)
       [(''agent_id'', dec (unat (sum_agent_id a))),
        (''behavior_model_lineage_id'', sum_lineage a),
        (''minimum_behavior_model_step'', dec (unat (sum_min_step a))),
        (''maximum_behavior_model_step'', dec (unat (sum_max_step a))),
        (''terminal_frame_id'', dec (unat (sum_terminal_frame a)))]\<rparr>"

definition AnnotateAgentEpisodeMetricPoints ::
  "agent_summary \<Rightarrow> nat \<Rightarrow> metric_record \<Rightarrow> metric_record" where
  "AnnotateAgentEpisodeMetricPoints a first r =
     r\<lparr>rec_points := take first (rec_points r) @ map (annotate_point a) (drop first (rec_points r))\<rparr>"

fun fp_abs :: "fp \<Rightarrow> fp" where
  "fp_abs (Fin x) = Fin \<bar>x\<bar>"
| "fp_abs NaN = NaN"
| "fp_abs _ = PInf"

definition f64_micro :: f64 where
  "f64_micro = rnd64 (1 / 1000000)"

text \<open>
  \<open>order\<close> is the order in which the unordered map of component sums is iterated.
\<close>

definition components_conserve ::
  "((string, f64) table \<Rightarrow> (string, f64) table) \<Rightarrow> agent_summary \<Rightarrow> bool" where
  "components_conserve order a =
     (let reward_sum = foldl f64_add (Fin 0) (map snd (order (sum_components a)))
      in isfinite reward_sum \<and>
         \<not> fp_lt (fp_max f64_micro (f64_mul (fp_abs (sum_return a)) f64_micro))
               (fp_abs (f64_sub reward_sum (sum_return a))))"

fun component_means ::
  "registry \<Rightarrow> string \<Rightarrow> (string, f64) table \<Rightarrow> metric_record \<Rightarrow> string + metric_record" where
  "component_means reg prefix [] r = Inr r"
| "component_means reg prefix ((name, v) # cs) r =
     and_then (registry_Mean reg r (prefix @ name @ ''.per_episode'') v 1)
       (component_means reg prefix cs)"

definition f64_of_int :: "int \<Rightarrow> f64" where
  "f64_of_int n = rnd64 (of_int n)"

definition AppendAgentEpisodeMetrics ::
  "((string, f64) table \<Rightarrow> (string, f64) table) \<Rightarrow> registry \<Rightarrow> metric_ids \<Rightarrow> agent_summary \<Rightarrow>
   metric_record \<Rightarrow> string + metric_record" where
  "AppendAgentEpisodeMetrics order reg ids a r =
     (if sum_transitions a < 0 \<or> sum_min_step a > sum_max_step a \<or> sum_lineage a = []
      then Inl ''agent episode metric facts are contradictory''
      else if \<not> components_conserve order a
      then Inl ''reward components do not conserve episode return''
      else
        and_then (registry_Unsigned reg r (ids_agent_episodes ids) 1) (\<lambda>r1.
        and_then (registry_Mean reg r1 (ids_return ids) (sum_return a) 1) (\<lambda>r2.
        and_then (registry_Mean reg r2 (ids_length ids) (f64_of_int (sum_transitions a)) 1) (\<lambda>r3.
        and_then (registry_Scalar reg r3 (ids_min_return ids) (sum_return a)) (\<lambda>r4.
        and_then (registry_Scalar reg r4 (ids_max_return ids) (sum_return a)) (\<lambda>r5.
        and_then (component_means reg (ids_component_prefix ids) (sum_components a) r5) (\<lambda>r6.
          Inr (AnnotateAgentEpisodeMetricPoints a (length (rec_points r)) r6))))))))"

section \<open>Reward windows\<close>

definition window_point ::
  "registry \<Rightarrow> u64 \<Rightarrow> int \<Rightarrow> int \<Rightarrow> string \<Rightarrow> f64 \<Rightarrow> metric_record \<Rightarrow> string + metric_record" where
  "window_point reg count start_ms end_ms mid amount r =
     and_then (registry_Mean reg r mid amount count) (\<lambda>r'.
       Inr (r'\<lparr>rec_points := butlast (rec_points r') @
         [(last (rec_points r'))\<lparr>interval_start := Some start_ms, interval_end := Some end_ms\<rparr>]\<rparr>))"

fun window_points ::
  "registry \<Rightarrow> u64 \<Rightarrow> int \<Rightarrow> int \<Rightarrow> string \<Rightarrow> (string, f64) table \<Rightarrow> metric_record \<Rightarrow>
   string + metric_record" where
  "window_points reg count start_ms end_ms prefix [] r = Inr r"
| "window_points reg count start_ms end_ms prefix ((name, v) # cs) r =
     and_then (window_point reg count start_ms end_ms (prefix @ name @ ''.per_transition'') v r)
       (window_points reg count start_ms end_ms prefix cs)"

text \<open>The steady clock counts milliseconds here.\<close>

definition reward_AppendTo ::
  "registry \<Rightarrow> string \<Rightarrow> int \<Rightarrow> int \<Rightarrow> reward_window \<Rightarrow> metric_record \<Rightarrow> string + metric_record" where
  "reward_AppendTo reg prefix end_unix_ms ended_at w r =
     (if rm_count w = 0 then Inr r
      else let start_ms = end_unix_ms - (ended_at - rm_started_at w)
           in and_then (window_point reg (rm_count w) start_ms end_unix_ms
                         (prefix @ ''total.per_transition'') (rm_total w) r)
                (window_points reg (rm_count w) start_ms end_unix_ms prefix (rm_components w)))"

end
