(* ===== verification/Runtime.thy ===== *)
theory Runtime
  imports Rollout Sample_Distributor Sessions Metric_Journal Metric_Registry
begin

text \<open>
  \<open>task/runtime/training_runtime\<close>: the state of the training runtime and its operations on Agent
  segments.  The ONNX session, the random generator, clocks and serialised sizes are an
  environment record.  Counters the code passes by reference are components of the transaction
  record \<open>txn\<close>.
\<close>

section \<open>Environment\<close>

text \<open>
  \<open>run_session\<close> is what the ONNX session of a handle answers to an observation at the n-th inference
  of the process (so it may differ from call to call); \<open>infer_ms\<close> the time that took;
  \<open>transition_ms\<close> the wall clock when the transition of an Agent is built; \<open>reward_at\<close> the steady
  clock when its reward is observed.
\<close>

record 'g environ =
  run_session :: "nat \<Rightarrow> f32 list \<Rightarrow> int \<Rightarrow> string + (f32 list \<times> f32)"
  infer_ms :: "int \<Rightarrow> f64"
  math_exp :: "f64 \<Rightarrow> f64"
  math_log :: "f64 \<Rightarrow> f64"
  draw_index :: "f64 list \<Rightarrow> 'g \<Rightarrow> nat \<times> 'g"
  byte_size :: "envelope \<Rightarrow> nat"
  transition_ms :: "int \<Rightarrow> int"
  reward_at :: "int \<Rightarrow> int"

section \<open>State\<close>

datatype aiserver_state =
  AiUnspecified | AiStarting | AiReady | AiDegraded | AiDraining | AiStopped

datatype model_state = ModelUnspecified | ModelWaiting | ModelReady | ModelFailed

datatype close_reason =
  CloseUnspecified | EnvironmentTerminated | CloseTmax | ClientControlledClose |
  ClientRecoveryTimeout | AiserverControlledShutdown

record feedback =
  fb_candidate :: model_identity
  fb_stage :: string
  fb_error :: string

record 'g runtime =
  config :: training_config
  session_mgr :: session_manager
  producer_instance_id :: string
  producer_lifecycle_epoch :: u64
  distributor :: dist
  loaded_session :: "nat option"
  current_model_path :: string
  active_manifest :: model_manifest
  staged_manifest :: model_manifest
  staged_prepared :: prepared_model
  model_ack_pending :: bool
  pending_ack_manifest :: model_manifest
  pending_ack_authority :: service_identity
  pending_ack_deadline :: int
  pending_ack_error :: string
  pending_ack_cause :: string
  model_feedback :: feedback
  server_state :: aiserver_state
  model_load_state :: model_state
  next_segment_seq :: u64
  next_episode_id :: u64
  next_lifecycle_epoch :: u64
  action_rng :: 'g
  open_payloads :: "string \<Rightarrow> string option"
  open_responses :: "string \<Rightarrow> string option"
  metric_events :: journal
  metric_registry :: registry
  reward_metric_prefix :: string
  workspace_lease_held :: bool
  started :: bool
  shutdown_started :: bool
  shutdown_completed :: bool
  shutdown_succeeded :: bool
  client_initialized :: bool
  produced_unique_transitions :: int
  produced_by_model :: "u64 \<Rightarrow> int option"
  produced_unique_envelopes :: int
  enqueue_count :: int
  enqueue_latency_sum_ms :: f64
  enqueue_latency_max_ms :: f64
  update_rpc_count :: int
  update_rpc_latency_sum_ms :: f64
  update_rpc_latency_max_ms :: f64
  inference_count :: int
  inference_latency_sum_ms :: f64
  inference_latency_max_ms :: f64
  model_switch_count :: int
  quarantined_transition_count :: int
  quarantined_envelope_count :: int
  closed_segment_count :: int
  pending_action_excluded_count :: int
  rollout_estimator_failure_count :: int
  model_activation_count :: int
  superseded_without_activation_count :: int
  latest_prepared_used :: bool
  segment_close_counts :: "close_reason \<Rightarrow> int option"
  rt_last_error :: string

text \<open>The constructor: identity, lifecycle epoch and journal are made by the caller.\<close>

definition init_runtime ::
  "training_config \<Rightarrow> string \<Rightarrow> string \<Rightarrow> u64 \<Rightarrow> 'g \<Rightarrow> journal \<Rightarrow> 'g runtime" where
  "init_runtime cfg prefix pid epoch rng events =
     \<lparr>config = cfg, session_mgr = empty_manager, producer_instance_id = pid,
      producer_lifecycle_epoch = epoch, distributor = init_dist, loaded_session = None,
      current_model_path = [], active_manifest = empty_manifest, staged_manifest = empty_manifest,
      staged_prepared = no_prepared, model_ack_pending = False, pending_ack_manifest = empty_manifest,
      pending_ack_authority = no_service, pending_ack_deadline = 0, pending_ack_error = [],
      pending_ack_cause = [],
      model_feedback = \<lparr>fb_candidate = no_identity, fb_stage = [], fb_error = []\<rparr>,
      server_state = AiStarting, model_load_state = ModelWaiting, next_segment_seq = 1,
      next_episode_id = 1, next_lifecycle_epoch = epoch + 1, action_rng = rng,
      open_payloads = Map.empty, open_responses = Map.empty, metric_events = events,
      metric_registry = [], reward_metric_prefix = prefix, workspace_lease_held = False,
      started = False, shutdown_started = False, shutdown_completed = False,
      shutdown_succeeded = True, client_initialized = False, produced_unique_transitions = 0,
      produced_by_model = Map.empty, produced_unique_envelopes = 0, enqueue_count = 0,
      enqueue_latency_sum_ms = Fin 0, enqueue_latency_max_ms = Fin 0, update_rpc_count = 0,
      update_rpc_latency_sum_ms = Fin 0, update_rpc_latency_max_ms = Fin 0, inference_count = 0,
      inference_latency_sum_ms = Fin 0, inference_latency_max_ms = Fin 0, model_switch_count = 0,
      quarantined_transition_count = 0, quarantined_envelope_count = 0, closed_segment_count = 0,
      pending_action_excluded_count = 0, rollout_estimator_failure_count = 0,
      model_activation_count = 0, superseded_without_activation_count = 0,
      latest_prepared_used = False, segment_close_counts = Map.empty, rt_last_error = []\<rparr>"

definition rt_MarkDegraded :: "string \<Rightarrow> 'g runtime \<Rightarrow> 'g runtime" where
  "rt_MarkDegraded err rt = rt\<lparr>server_state := AiDegraded, rt_last_error := err\<rparr>"

definition RecordUpdateLatency :: "f64 \<Rightarrow> 'g runtime \<Rightarrow> 'g runtime" where
  "RecordUpdateLatency latency rt =
     rt\<lparr>update_rpc_count := update_rpc_count rt + 1,
        update_rpc_latency_sum_ms := f64_add (update_rpc_latency_sum_ms rt) latency,
        update_rpc_latency_max_ms := fp_max (update_rpc_latency_max_ms rt) latency\<rparr>"

definition count_inference :: "f64 \<Rightarrow> 'g runtime \<Rightarrow> 'g runtime" where
  "count_inference latency rt =
     rt\<lparr>inference_count := inference_count rt + 1,
        inference_latency_sum_ms := f64_add (inference_latency_sum_ms rt) latency,
        inference_latency_max_ms := fp_max (inference_latency_max_ms rt) latency\<rparr>"

definition rollout_failure :: "'g runtime \<Rightarrow> 'g runtime" where
  "rollout_failure rt =
     rt\<lparr>rollout_estimator_failure_count := rollout_estimator_failure_count rt + 1\<rparr>"

definition CountCachedTransitions :: "'g runtime \<Rightarrow> int" where
  "CountCachedTransitions rt =
     (\<Sum>(_, s)\<leftarrow>sessions (session_mgr rt). \<Sum>(_, a)\<leftarrow>agents s. int (length (segment_transitions a)))"

definition CountCachedSegments :: "'g runtime \<Rightarrow> int" where
  "CountCachedSegments rt =
     (\<Sum>(_, s)\<leftarrow>sessions (session_mgr rt). \<Sum>(_, a)\<leftarrow>agents s. if segment_open a then 1 else 0)"

section \<open>Inference\<close>

definition SnapshotPreparedModel :: "'g runtime \<Rightarrow> prepared_model" where
  "SnapshotPreparedModel rt =
     \<lparr>prep_session = loaded_session rt, prep_path = current_model_path rt\<rparr>"

definition InferSession ::
  "'g environ \<Rightarrow> nat option \<Rightarrow> f32 list \<Rightarrow> int \<Rightarrow> string + (f32 list \<times> f32)" where
  "InferSession env sess obs n =
     (case sess of None \<Rightarrow> Inl ''ONNX session is not loaded'' | Some h \<Rightarrow> run_session env h obs n)"

definition InferPinnedValue ::
  "'g environ \<Rightarrow> agent \<Rightarrow> f32 list \<Rightarrow> 'g runtime \<Rightarrow> f32 option \<times> 'g runtime" where
  "InferPinnedValue env a obs rt =
     (if \<not> segment_open a \<or> \<not> prepared_valid (pinned_prepared_model a) \<or>
         int (length obs) \<noteq> expected_obs_dim (config rt)
      then (None, rt_MarkDegraded ''pinned bootstrap inference inputs are incomplete'' rt)
      else
        let n = inference_count rt; rt1 = count_inference (infer_ms env n) rt;
            failed = (\<lambda>err. (None, rt_MarkDegraded (''pinned bootstrap inference failed: '' @ err) rt1))
        in case InferSession env (prep_session (pinned_prepared_model a)) obs n of
             Inl err \<Rightarrow> failed err
           | Inr (logits, value) \<Rightarrow>
               (case ValidateEpisodeModelOutput logits (expected_action_dim (config rt)) value of
                  Inl err \<Rightarrow> failed err
                | Inr _ \<Rightarrow> (Some value, rt1)))"

section \<open>Segments\<close>

text \<open>The counters and outputs of one transaction.\<close>

record 'g txn =
  tx_session :: session
  tx_transitions :: int
  tx_envelopes :: int
  tx_by_model :: "u64 \<Rightarrow> int option"
  tx_segment_sequence :: u64
  tx_activations :: int
  tx_latest_used :: bool
  tx_closed :: int
  tx_quarantined :: int
  tx_excluded :: int
  tx_close_counts :: "close_reason \<Rightarrow> int option"
  tx_rng :: 'g
  tx_output :: "envelope list"

definition set_agent :: "int \<Rightarrow> agent \<Rightarrow> 'g txn \<Rightarrow> 'g txn" where
  "set_agent agent_id a tx =
     tx\<lparr>tx_session := (tx_session tx)\<lparr>agents := put_at agent_id a (agents (tx_session tx))\<rparr>\<rparr>"

definition int_text :: "int \<Rightarrow> string" where
  "int_text i = (if i < 0 then ''-'' else []) @ dec (nat \<bar>i\<bar>)"

definition segment_name :: "string \<Rightarrow> string \<Rightarrow> string \<Rightarrow> int \<Rightarrow> u64 \<Rightarrow> string" where
  "segment_name pid sid episode agent_id n =
     pid @ ''/'' @ sid @ ''/'' @ episode @ ''/agent-'' @ int_text agent_id @ ''/segment-'' @
     dec (unat n)"

definition EnsureAgentSegmentPin ::
  "'g runtime \<Rightarrow> int \<Rightarrow> agent \<Rightarrow> 'g txn \<Rightarrow> string + (agent \<times> 'g txn)" where
  "EnsureAgentSegmentPin rt agent_id a tx =
     (if segment_open a
      then (if \<not> HasModelIdentity (pinned_model a) \<or> \<not> prepared_valid (pinned_prepared_model a) \<or>
               segment_id a = []
            then Inl ''open Agent segment has incomplete pinned model state'' else Inr (a, tx))
      else if \<not> HasModelIdentity (active_manifest rt)
      then Inl ''latest prepared training model has no identity''
      else if \<not> prepared_valid (SnapshotPreparedModel rt) \<or>
              prep_path (SnapshotPreparedModel rt) \<noteq> model_path (active_manifest rt)
      then Inl ''latest model manifest and prepared ORT session disagree''
      else if tmax (config rt) = 0 then Inl ''AIServer rollout tmax is invalid''
      else Inr
        (a\<lparr>segment_open := True,
           segment_id := segment_name (producer_instance_id rt) (session_id (tx_session tx))
             (current_episode_id (tx_session tx)) agent_id (tx_segment_sequence tx),
           pinned_model := active_manifest rt,
           pinned_prepared_model := SnapshotPreparedModel rt, segment_transitions := []\<rparr>,
         tx\<lparr>tx_segment_sequence := next_nonzero (tx_segment_sequence tx),
            tx_activations := tx_activations tx + 1, tx_latest_used := True\<rparr>))"

text \<open>
  On success the action; on failure only the runtime survives (the caller drops the transaction).
\<close>

definition PrepareModelAction ::
  "'g environ \<Rightarrow> int \<Rightarrow> agent \<Rightarrow> f32 list \<Rightarrow> int \<Rightarrow> bool list \<Rightarrow> 'g txn \<Rightarrow> 'g runtime \<Rightarrow>
   (nat \<times> 'g txn) option \<times> 'g runtime" where
  "PrepareModelAction env agent_id a obs action_frame_id am tx rt =
     (let training = (current_episode_mode (tx_session tx) = ModeTraining)
      in case (if training then EnsureAgentSegmentPin rt agent_id a tx else Inr (a, tx)) of
           Inl err \<Rightarrow> (None, rt_MarkDegraded (''Agent segment pin failed: '' @ err) rt)
         | Inr (a1, tx1) \<Rightarrow>
             let n = inference_count rt; rt1 = count_inference (infer_ms env n) rt
             in case InferSession env (if training then prep_session (pinned_prepared_model a1)
                                       else loaded_session rt) obs n of
                  Inl err \<Rightarrow> (None, rt_MarkDegraded (''ONNX inference failed: '' @ err) rt1)
                | Inr (logits, value) \<Rightarrow>
                    (case ValidateEpisodeModelOutput logits (expected_action_dim (config rt)) value of
                       Inl err \<Rightarrow> (None, rt_MarkDegraded (''ONNX model output is invalid: '' @ err) rt1)
                     | Inr _ \<Rightarrow>
                         (case SelectEpisodeAction (math_exp env) (math_log env) (draw_index env) logits am
                                (current_episode_mode (tx_session tx)) (training_temperature (config rt))
                                (tx_rng tx1) of
                            Inl err \<Rightarrow> (None, rt_MarkDegraded err rt1)
                          | Inr (act, log_prob, rng) \<Rightarrow>
                              if has_pending_action a1
                              then (None, rt_MarkDegraded
                                ''Agent action would overwrite a pending transition'' rt1)
                              else (Some (act, set_agent agent_id
                                (a1\<lparr>pending_obs := obs, pending_action_mask := am,
                                    pending_action := int act,
                                    pending_action_frame_id := action_frame_id,
                                    pending_log_prob := log_prob, pending_value := value,
                                    has_pending_action := True\<rparr>)
                                (tx1\<lparr>tx_rng := rng\<rparr>)), rt1))))"

definition clear_pending :: "agent \<Rightarrow> agent" where
  "clear_pending a =
     a\<lparr>has_pending_action := False, pending_action_frame_id := -1, pending_obs := [],
       pending_action_mask := []\<rparr>"

text \<open>The behaviour model bookkeeping of an Episode.\<close>

definition note_behavior_model :: "agent \<Rightarrow> string + agent" where
  "note_behavior_model a =
     (let lineage = model_lineage_id (pinned_model a); step = model_step (pinned_model a)
      in if lineage = [] then Inl ''training transition behavior model identity is incomplete''
         else if \<not> episode_behavior_model_seen a
         then Inr (a\<lparr>episode_behavior_model_seen := True,
                     minimum_episode_behavior_model_step := step,
                     maximum_episode_behavior_model_step := step,
                     episode_behavior_model_lineage_id := lineage\<rparr>)
         else if episode_behavior_model_lineage_id a \<noteq> lineage
         then Inl ''training Episode contains mixed model lineages''
         else Inr (a\<lparr>minimum_episode_behavior_model_step :=
                       min (minimum_episode_behavior_model_step a) step,
                     maximum_episode_behavior_model_step :=
                       max (maximum_episode_behavior_model_step a) step\<rparr>))"

definition FinalizePendingTransition ::
  "'g environ \<Rightarrow> training_config \<Rightarrow> int \<Rightarrow> reward_result \<Rightarrow> f32 list \<Rightarrow> bool \<Rightarrow> session \<Rightarrow>
   string + session" where
  "FinalizePendingTransition env cfg agent_id rw next_obs collect s =
     (case map_of (agents s) agent_id of
        None \<Rightarrow> Inl ''transition Agent identity is unknown''
      | Some a \<Rightarrow>
          if \<not> has_pending_action a then Inr s
          else if \<not> collect
          then Inr (s\<lparr>agents := put_at agent_id (clear_pending
                 (a\<lparr>episode_transition_count := episode_transition_count a + 1\<rparr>)) (agents s)\<rparr>)
          else if \<not> segment_open a \<or> \<not> HasModelIdentity (pinned_model a) \<or>
                  \<not> prepared_valid (pinned_prepared_model a)
          then Inl ''training action result has no pinned Agent segment''
          else if \<not> rw_valid rw then Inl (rw_error rw)
          else case BuildRawRolloutTransition a next_obs rw (expected_obs_dim cfg)
                 (expected_action_dim cfg) (action_mask_mode cfg) (transition_ms env agent_id) of
            Inl err \<Rightarrow> Inl (''training transition continuity is invalid: '' @ err)
          | Inr t \<Rightarrow>
              and_then (note_behavior_model a) (\<lambda>a1.
                Inr (s\<lparr>reward_metrics := reward_Observe (rw_total rw) (rw_items rw)
                         (reward_at env agent_id) (reward_metrics s),
                       agents := put_at agent_id (clear_pending
                         (a1\<lparr>episode_transition_count := episode_transition_count a1 + 1,
                             episode_return := f64_add (episode_return a1) (rw_total rw),
                             reward_component_sums :=
                               foldl add_component (reward_component_sums a1) (rw_items rw),
                             last_completed_transition_at_unix_ms := created_at_unix_ms t,
                             segment_transitions := segment_transitions a1 @ [t]\<rparr>)) (agents s)\<rparr>)))"

section \<open>Closing a segment\<close>

fun fill_envelope ::
  "(envelope \<Rightarrow> nat) \<Rightarrow> training_config \<Rightarrow> envelope \<Rightarrow> processed_transition list \<Rightarrow>
   envelope \<times> processed_transition list" where
  "fill_envelope bsize cfg e [] = (e, [])"
| "fill_envelope bsize cfg e (x # xs) =
     (if int (length (samples e)) < envelope_max_transitions cfg
      then (let e' = e\<lparr>samples := samples e @ [x]\<rparr>
            in if bsize e' > envelope_max_bytes cfg then (e, x # xs)
               else fill_envelope bsize cfg e' xs)
      else (e, x # xs))"

lemma fill_envelope_split:
  "fill_envelope bsize cfg e xs = (e', rest) \<Longrightarrow>
     \<exists>ys. xs = ys @ rest \<and> e' = e\<lparr>samples := samples e @ ys\<rparr>"
proof (induction xs arbitrary: e)
  case (Cons x xs)
  show ?case
  proof (cases "int (length (samples e)) < envelope_max_transitions cfg \<and>
      \<not> bsize (e\<lparr>samples := samples e @ [x]\<rparr>) > envelope_max_bytes cfg")
    case True
    with Cons.prems have "fill_envelope bsize cfg (e\<lparr>samples := samples e @ [x]\<rparr>) xs = (e', rest)"
      by (simp add: Let_def)
    from Cons.IH [OF this] show ?thesis by auto
  next
    case False
    with Cons.prems show ?thesis by (auto simp: Let_def split: if_splits)
  qed
qed simp

definition envelope_head :: "service_identity \<Rightarrow> string \<Rightarrow> model_identity \<Rightarrow> nat \<Rightarrow> envelope" where
  "envelope_head pid sid identity chunk_index =
     \<lparr>envelope_id = sid @ ''/envelope-'' @ dec chunk_index, producer = pid,
      env_behavior_model = identity, samples = []\<rparr>"

text \<open>Each turn consumes the samples of the envelope it builds, so the loop ends.\<close>

function chunk_loop ::
  "(envelope \<Rightarrow> nat) \<Rightarrow> training_config \<Rightarrow> service_identity \<Rightarrow> string \<Rightarrow> model_identity \<Rightarrow> nat \<Rightarrow>
   processed_transition list \<Rightarrow> string + envelope list" where
  "chunk_loop bsize cfg pid sid identity chunk_index xs =
     (if xs = [] then Inr []
      else case fill_envelope bsize cfg (envelope_head pid sid identity chunk_index) xs of
        (e, rest) \<Rightarrow>
          if samples e = [] then Inl ''one processed sample exceeds envelope_max_bytes''
          else if bsize e > envelope_max_bytes cfg
          then Inl ''processed envelope exceeds envelope_max_bytes''
          else and_then (chunk_loop bsize cfg pid sid identity (Suc chunk_index) rest)
                 (\<lambda>es. Inr (e # es)))"
  by pat_completeness auto

termination
  by (relation "measure (\<lambda>(_, _, _, _, _, _, xs). length xs)")
    (auto simp: envelope_head_def dest!: fill_envelope_split [OF sym])

declare chunk_loop.simps [simp del]

definition reset_segment :: "agent \<Rightarrow> agent" where
  "reset_segment a =
     a\<lparr>segment_open := False, segment_id := [], pinned_model := empty_manifest,
       pinned_prepared_model := no_prepared, segment_transitions := []\<rparr>"

definition PrepareAgentSegmentClose ::
  "'g environ \<Rightarrow> 'g runtime \<Rightarrow> int \<Rightarrow> close_reason \<Rightarrow> f32 \<Rightarrow> bool \<Rightarrow> 'g txn \<Rightarrow> string + 'g txn" where
  "PrepareAgentSegmentClose env rt agent_id reason bootstrap bootstrap_applied tx =
     (case map_of (agents (tx_session tx)) agent_id of
        None \<Rightarrow> Inl ''segment close Agent identity is unknown''
      | Some a \<Rightarrow>
          if \<not> segment_open a \<or> segment_transitions a = [] \<or> segment_id a = [] \<or>
             \<not> HasModelIdentity (pinned_model a) \<or> \<not> prepared_valid (pinned_prepared_model a)
          then Inl ''cannot close an empty or unpinned Agent segment''
          else if reason = CloseUnspecified then Inl ''segment close reason must be explicit''
          else
            let terminal = (reason = EnvironmentTerminated)
            in if (terminal \<and> (bootstrap_applied \<or> bootstrap \<noteq> Fin 0)) \<or>
                  (\<not> terminal \<and> \<not> bootstrap_applied) \<or> \<not> isfinite bootstrap
               then Inl ''segment close bootstrap facts contradict the close reason''
               else
                 and_then (EstimateRolloutSegment (segment_transitions a) (gamma (config rt))
                             (gae_lambda (config rt)) bootstrap)
                  (\<lambda>(advantages, value_targets).
                 and_then (ProjectProcessedSegment (segment_transitions a) advantages value_targets
                             (segment_id a) (manifest_identity (pinned_model a))
                             (expected_obs_dim (config rt)) (expected_action_dim (config rt))
                             (action_mask_mode (config rt)))
                  (\<lambda>processed.
                 and_then (chunk_loop (byte_size env) (config rt)
                             \<lparr>component = ''sample-distributor'', instance_id = producer_instance_id rt,
                              lifecycle_epoch = producer_lifecycle_epoch rt\<rparr>
                             (segment_id a) (manifest_identity (pinned_model a)) 0 processed)
                  (\<lambda>built.
                 let n = int (length (segment_transitions a))
                 in Inr (set_agent agent_id (reset_segment a)
                   (tx\<lparr>tx_transitions := tx_transitions tx + n,
                       tx_envelopes := tx_envelopes tx + int (length built),
                       tx_by_model := bump (tx_by_model tx) (model_step (pinned_model a)) n,
                       tx_output := tx_output tx @ built,
                       tx_close_counts := bump (tx_close_counts tx) reason 1\<rparr>))))))"

definition DiscardAgentSegment ::
  "int \<Rightarrow> close_reason \<Rightarrow> bool \<Rightarrow> 'g txn \<Rightarrow> 'g txn" where
  "DiscardAgentSegment agent_id reason exclude_pending tx =
     (case map_of (agents (tx_session tx)) agent_id of
        None \<Rightarrow> tx
      | Some a \<Rightarrow>
          let tx1 = (if exclude_pending \<and> has_pending_action a
                     then tx\<lparr>tx_excluded := tx_excluded tx + 1\<rparr> else tx);
              tx2 = (if segment_open a \<or> has_pending_action a \<or> segment_transitions a \<noteq> []
                     then tx1\<lparr>tx_quarantined := tx_quarantined tx1 + int (length (segment_transitions a)),
                              tx_close_counts := bump (tx_close_counts tx1) reason 1,
                              tx_closed := tx_closed tx1 + 1\<rparr>
                     else tx1)
          in set_agent agent_id (reset_segment (clear_pending a)) tx2)"

end
