(* ===== verification/Transaction.thy ===== *)
theory Transaction
  imports Runtime
begin

text \<open>
  \<open>task/runtime/training_transaction.h\<close>: a command prepares its effect on a copy of the session and
  of the counters, has its samples admitted, and only then commits.  A failed preparation returns
  an error and the runtime, whose error and failure counters are the only trace.
\<close>

record task_input =
  in_agent :: int
  in_terminal :: bool
  in_observation :: "f32 list"
  in_mask :: "bool list"
  in_reward :: reward_result

definition new_txn :: "'g runtime \<Rightarrow> session \<Rightarrow> 'g txn" where
  "new_txn rt s =
     \<lparr>tx_session = s, tx_transitions = produced_unique_transitions rt,
      tx_envelopes = produced_unique_envelopes rt, tx_by_model = produced_by_model rt,
      tx_segment_sequence = next_segment_seq rt, tx_activations = model_activation_count rt,
      tx_latest_used = latest_prepared_used rt, tx_closed = closed_segment_count rt,
      tx_quarantined = quarantined_transition_count rt,
      tx_excluded = pending_action_excluded_count rt,
      tx_close_counts = segment_close_counts rt, tx_rng = action_rng rt, tx_output = []\<rparr>"

definition agent_at :: "'g txn \<Rightarrow> int \<Rightarrow> agent option" where
  "agent_at tx agent_id = map_of (agents (tx_session tx)) agent_id"

section \<open>Preparing a frame\<close>

fun finalize_inputs ::
  "'g environ \<Rightarrow> task_input list \<Rightarrow> int \<Rightarrow> bool \<Rightarrow> 'g txn \<Rightarrow> 'g runtime \<Rightarrow>
   (string + 'g txn) \<times> 'g runtime" where
  "finalize_inputs env [] frame collect tx rt = (Inr tx, rt)"
| "finalize_inputs env (i # inputs) frame collect tx rt =
     (case FinalizePendingTransition env (config rt) (in_agent i) (in_reward i) (in_observation i)
             collect (tx_session tx) of
        Inl err \<Rightarrow> (Inl err, rt_MarkDegraded (''Episode transition preparation failed: '' @ err)
                     (rollout_failure rt))
      | Inr s \<Rightarrow>
          let tx1 = tx\<lparr>tx_session := s\<rparr>;
              tx2 = (case agent_at tx1 (in_agent i) of
                       None \<Rightarrow> tx1
                     | Some a \<Rightarrow>
                         if in_terminal i
                         then set_agent (in_agent i) (a\<lparr>done_collected := True, terminal_frame_id := frame\<rparr>) tx1
                         else tx1)
          in finalize_inputs env inputs frame collect tx2 rt)"

definition txn_Close ::
  "'g environ \<Rightarrow> int \<Rightarrow> close_reason \<Rightarrow> f32 \<Rightarrow> bool \<Rightarrow> 'g txn \<Rightarrow> 'g runtime \<Rightarrow>
   (string + 'g txn) \<times> 'g runtime" where
  "txn_Close env agent_id reason bootstrap bootstrap_applied tx rt =
     (case PrepareAgentSegmentClose env rt agent_id reason bootstrap bootstrap_applied tx of
        Inl err \<Rightarrow> (Inl err, rt_MarkDegraded (''Agent segment close failed: '' @ err) (rollout_failure rt))
      | Inr tx' \<Rightarrow> (Inr (tx'\<lparr>tx_closed := tx_closed tx' + 1\<rparr>), rt))"

text \<open>One turn of the closing loop.\<close>

definition close_input ::
  "'g environ \<Rightarrow> task_input \<Rightarrow> 'g txn \<Rightarrow> 'g runtime \<Rightarrow> (string + 'g txn) \<times> 'g runtime" where
  "close_input env i tx rt =
     (case agent_at tx (in_agent i) of
        None \<Rightarrow> (Inr tx, rt)
      | Some a \<Rightarrow>
          if \<not> segment_open a \<or> segment_transitions a = [] then (Inr tx, rt)
          else if in_terminal i then txn_Close env (in_agent i) EnvironmentTerminated (Fin 0) False tx rt
          else if length (segment_transitions a) > unat (tmax (config rt))
          then (let err = ''Agent segment exceeded its configured TMax''
                in (Inl err, rt_MarkDegraded err (rollout_failure rt)))
          else if length (segment_transitions a) \<noteq> unat (tmax (config rt)) then (Inr tx, rt)
          else case InferPinnedValue env a (next_observation (last (segment_transitions a))) rt of
                 (None, rt1) \<Rightarrow> (Inl (rt_last_error rt1), rollout_failure rt1)
               | (Some bootstrap, rt1) \<Rightarrow> txn_Close env (in_agent i) CloseTmax bootstrap True tx rt1)"

fun close_inputs ::
  "'g environ \<Rightarrow> task_input list \<Rightarrow> 'g txn \<Rightarrow> 'g runtime \<Rightarrow> (string + 'g txn) \<times> 'g runtime" where
  "close_inputs env [] tx rt = (Inr tx, rt)"
| "close_inputs env (i # inputs) tx rt =
     (case close_input env i tx rt of
        (Inl err, rt1) \<Rightarrow> (Inl err, rt1)
      | (Inr tx1, rt1) \<Rightarrow> close_inputs env inputs tx1 rt1)"

fun act_inputs ::
  "'g environ \<Rightarrow> task_input list \<Rightarrow> int \<Rightarrow> 'g txn \<Rightarrow> 'g runtime \<Rightarrow>
   (string + ('g txn \<times> (int \<times> nat) list)) \<times> 'g runtime" where
  "act_inputs env [] frame tx rt = (Inr (tx, []), rt)"
| "act_inputs env (i # inputs) frame tx rt =
     (if in_terminal i then act_inputs env inputs frame tx rt
      else case agent_at tx (in_agent i) of
        None \<Rightarrow> (Inl [], rt)
      | Some a \<Rightarrow>
          (case PrepareModelAction env (in_agent i) a (in_observation i) frame (in_mask i) tx rt of
             (None, rt1) \<Rightarrow> (Inl (rt_last_error rt1), rt1)
           | (Some (act, tx1), rt1) \<Rightarrow>
               (case act_inputs env inputs frame tx1 rt1 of
                  (Inl err, rt2) \<Rightarrow> (Inl err, rt2)
                | (Inr (tx2, acts), rt2) \<Rightarrow> (Inr (tx2, (in_agent i, act) # acts), rt2))))"

definition end_frame :: "int \<Rightarrow> 'g txn \<Rightarrow> 'g txn" where
  "end_frame frame tx =
     (let s = (tx_session tx)\<lparr>last_frame_id := frame\<rparr>
      in tx\<lparr>tx_session :=
           (if list_all (\<lambda>(_, a). done_collected a) (agents s)
            then s\<lparr>phase := PhaseEpisodeTerminal\<rparr> else s)\<rparr>)"

definition PrepareFrame ::
  "'g environ \<Rightarrow> task_input list \<Rightarrow> int \<Rightarrow> bool \<Rightarrow> 'g txn \<Rightarrow> 'g runtime \<Rightarrow>
   (string + ('g txn \<times> (int \<times> nat) list)) \<times> 'g runtime" where
  "PrepareFrame env inputs frame collect tx rt =
     (case finalize_inputs env inputs frame collect tx rt of
        (Inl err, rt1) \<Rightarrow> (Inl err, rt1)
      | (Inr tx1, rt1) \<Rightarrow>
          (case (if collect then close_inputs env inputs tx1 rt1 else (Inr tx1, rt1)) of
             (Inl err, rt2) \<Rightarrow> (Inl err, rt2)
           | (Inr tx2, rt2) \<Rightarrow>
               (case act_inputs env inputs frame tx2 rt2 of
                  (Inl err, rt3) \<Rightarrow> (Inl err, rt3)
                | (Inr (tx3, acts), rt3) \<Rightarrow> (Inr (end_frame frame tx3, acts), rt3))))"

section \<open>Preparing an abort\<close>

definition ReleaseEpisodePolicy :: "session \<Rightarrow> session" where
  "ReleaseEpisodePolicy s =
     s\<lparr>scope := ScopeUnspecified, evaluation_pinned_model_lineage_id := [],
       evaluation_pinned_model_step := 0\<rparr>"

text \<open>The first half of a turn of the abort loop: close the segment or discard it.\<close>

definition abort_close ::
  "'g environ \<Rightarrow> int \<Rightarrow> agent \<Rightarrow> 'g txn \<Rightarrow> 'g runtime \<Rightarrow> (string + 'g txn) \<times> 'g runtime" where
  "abort_close env agent_id a tx rt =
     (if segment_open a \<and> segment_transitions a \<noteq> []
      then
        let pending = has_pending_action a;
            (bootstrap, rt1) =
              (if pending
               then (if isfinite (pending_value a) then Inr (pending_value a)
                     else Inl ''controlled close pending bootstrap is non-finite'', rt)
               else case InferPinnedValue env a (next_observation (last (segment_transitions a))) rt of
                      (None, rt1) \<Rightarrow> (Inl (rt_last_error rt1), rt1)
                    | (Some v, rt1) \<Rightarrow> (Inr v, rt1))
        in case bootstrap of
             Inl err \<Rightarrow> (Inl err, rt_MarkDegraded err (rollout_failure rt1))
           | Inr v \<Rightarrow>
               (case txn_Close env agent_id ClientControlledClose v True tx rt1 of
                  (Inl err, rt2) \<Rightarrow> (Inl err, rt2)
                | (Inr tx1, rt2) \<Rightarrow>
                    (Inr (if pending then tx1\<lparr>tx_excluded := tx_excluded tx1 + 1\<rparr> else tx1), rt2))
      else (Inr (DiscardAgentSegment agent_id ClientControlledClose True tx), rt))"

text \<open>One Agent of the abort loop.\<close>

definition abort_agent ::
  "'g environ \<Rightarrow> bool \<Rightarrow> int \<Rightarrow> 'g txn \<Rightarrow> 'g runtime \<Rightarrow> (string + 'g txn) \<times> 'g runtime" where
  "abort_agent env collect agent_id tx rt =
     (case agent_at tx agent_id of
        None \<Rightarrow> (Inr tx, rt)
      | Some a \<Rightarrow>
          (case (if collect \<and> (segment_open a \<or> has_pending_action a \<or> segment_transitions a \<noteq> [])
                 then abort_close env agent_id a tx rt else (Inr tx, rt)) of
             (Inl err, rt1) \<Rightarrow> (Inl err, rt1)
           | (Inr tx1, rt1) \<Rightarrow>
               (case agent_at tx1 agent_id of
                  None \<Rightarrow> (Inr tx1, rt1)
                | Some a1 \<Rightarrow> (Inr (set_agent agent_id (clear_pending a1) tx1), rt1))))"

fun abort_agents ::
  "'g environ \<Rightarrow> bool \<Rightarrow> int list \<Rightarrow> 'g txn \<Rightarrow> 'g runtime \<Rightarrow> (string + 'g txn) \<times> 'g runtime" where
  "abort_agents env collect [] tx rt = (Inr tx, rt)"
| "abort_agents env collect (i # ids) tx rt =
     (case abort_agent env collect i tx rt of
        (Inl err, rt1) \<Rightarrow> (Inl err, rt1)
      | (Inr tx1, rt1) \<Rightarrow> abort_agents env collect ids tx1 rt1)"

definition PrepareAbort ::
  "'g environ \<Rightarrow> bool \<Rightarrow> 'g txn \<Rightarrow> 'g runtime \<Rightarrow> (string + 'g txn) \<times> 'g runtime" where
  "PrepareAbort env collect tx rt =
     (case abort_agents env collect (map fst (agents (tx_session tx))) tx rt of
        (Inl err, rt1) \<Rightarrow> (Inl err, rt1)
      | (Inr tx1, rt1) \<Rightarrow>
          (Inr (tx1\<lparr>tx_session := ReleaseEpisodePolicy ((tx_session tx1)\<lparr>phase := PhaseAborted\<rparr>)\<rparr>), rt1))"

section \<open>Admission and commit\<close>

text \<open>
  The three calls of \<open>Admit\<close>; \<open>between1\<close> and \<open>between2\<close> are what the sender thread does to the
  distributor between them.
\<close>

definition Admit ::
  "'g environ \<Rightarrow> (dist \<Rightarrow> dist) \<Rightarrow> (dist \<Rightarrow> dist) \<Rightarrow> bool \<Rightarrow> f64 \<Rightarrow> 'g txn \<Rightarrow> 'g runtime \<Rightarrow>
   reservation_result \<times> string \<times> 'g runtime" where
  "Admit env between1 between2 record_latency elapsed tx rt =
     (case ReserveEnqueueEnvelopeSet (config rt) (byte_size env) (tx_output tx) (distributor rt) of
        (r, rid, err, d1) \<Rightarrow>
          if r \<noteq> Reserved then (r, err, rt\<lparr>distributor := d1\<rparr>)
          else case SealEnqueueEnvelopeSet rid (between1 d1) of
            (SealRetryable, err2, d2) \<Rightarrow> (RetryableUnavailable, err2, rt\<lparr>distributor := d2\<rparr>)
          | (SealTerminal, err2, d2) \<Rightarrow> (TerminalFault, err2, rt\<lparr>distributor := d2\<rparr>)
          | (Sealed, _, d2) \<Rightarrow>
              (case CommitEnqueueEnvelopeSet rid (between2 d2) of
                 (c, err3, d3) \<Rightarrow>
                   if c \<noteq> Committed then (TerminalFault, err3, rt\<lparr>distributor := d3\<rparr>)
                   else (Reserved, err3,
                     if record_latency \<and> tx_output tx \<noteq> []
                     then rt\<lparr>distributor := d3,
                       enqueue_count := enqueue_count rt + int (length (tx_output tx)),
                       enqueue_latency_sum_ms := f64_add (enqueue_latency_sum_ms rt) elapsed,
                       enqueue_latency_max_ms := fp_max (enqueue_latency_max_ms rt) elapsed\<rparr>
                     else rt\<lparr>distributor := d3\<rparr>)))"

definition txn_Commit :: "string \<Rightarrow> 'g txn \<Rightarrow> 'g runtime \<Rightarrow> 'g runtime" where
  "txn_Commit sid tx rt =
     rt\<lparr>session_mgr := SetSession sid (tx_session tx) (session_mgr rt),
        produced_unique_transitions := tx_transitions tx,
        produced_unique_envelopes := tx_envelopes tx, produced_by_model := tx_by_model tx,
        next_segment_seq := tx_segment_sequence tx, model_activation_count := tx_activations tx,
        latest_prepared_used := tx_latest_used tx, closed_segment_count := tx_closed tx,
        quarantined_transition_count := tx_quarantined tx,
        pending_action_excluded_count := tx_excluded tx, segment_close_counts := tx_close_counts tx,
        action_rng := tx_rng tx\<rparr>"

end
