(* ===== verification/Segments.thy ===== *)
theory Segments
  imports Transaction Distributor_Properties
begin

text \<open>
  Segments from the frame that opens them to the envelopes that carry them: how a closed segment
  is cut into envelopes, which Agents are well formed, and what a frame or an abort does to them.
\<close>

section \<open>Cutting a segment into envelopes\<close>

lemma fill_envelope_bounds:
  assumes "fill_envelope bsize cfg e xs = (e', rest)"
    and "int (length (samples e)) \<le> max 0 (envelope_max_transitions cfg)"
    and "samples e = [] \<or> bsize e \<le> envelope_max_bytes cfg"
  shows "int (length (samples e')) \<le> max 0 (envelope_max_transitions cfg) \<and>
    (samples e' = [] \<or> bsize e' \<le> envelope_max_bytes cfg)"
  using assms
proof (induction xs arbitrary: e)
  case (Cons x xs)
  show ?case
  proof (cases "int (length (samples e)) < envelope_max_transitions cfg \<and>
      \<not> bsize (e\<lparr>samples := samples e @ [x]\<rparr>) > envelope_max_bytes cfg")
    case True
    with Cons.prems have "fill_envelope bsize cfg (e\<lparr>samples := samples e @ [x]\<rparr>) xs = (e', rest)"
      by (simp add: Let_def)
    from Cons.IH [OF this] True show ?thesis by simp
  next
    case False
    with Cons.prems show ?thesis by (auto simp: Let_def split: if_splits)
  qed
qed simp

definition envelope_fits :: "(envelope \<Rightarrow> nat) \<Rightarrow> training_config \<Rightarrow> envelope \<Rightarrow> bool" where
  "envelope_fits bsize cfg e \<longleftrightarrow>
     samples e \<noteq> [] \<and> int (length (samples e)) \<le> envelope_max_transitions cfg \<and>
     bsize e \<le> envelope_max_bytes cfg"

text \<open>What one turn of the loop does.\<close>

lemma chunk_loop_Cons:
  assumes "xs \<noteq> []"
    and "fill_envelope bsize cfg (envelope_head pid sid identity k) xs = (e, rest)"
  shows "chunk_loop bsize cfg pid sid identity k xs =
    (if samples e = [] then Inl ''one processed sample exceeds envelope_max_bytes''
     else and_then (chunk_loop bsize cfg pid sid identity (Suc k) rest) (\<lambda>es. Inr (e # es)))"
    and "xs = samples e @ rest"
    and "e = (envelope_head pid sid identity k)\<lparr>samples := samples e\<rparr>"
    and "samples e \<noteq> [] \<longrightarrow> envelope_fits bsize cfg e"
proof -
  from fill_envelope_split [OF assms(2)] obtain ys where ys: "xs = ys @ rest"
    "e = (envelope_head pid sid identity k)\<lparr>samples := ys\<rparr>" by (auto simp: envelope_head_def)
  then show "xs = samples e @ rest" "e = (envelope_head pid sid identity k)\<lparr>samples := samples e\<rparr>"
    by simp_all
  show fits: "samples e \<noteq> [] \<longrightarrow> envelope_fits bsize cfg e"
    using fill_envelope_bounds [OF assms(2)]
    by (cases "0 \<le> envelope_max_transitions cfg")
      (auto simp: envelope_head_def envelope_fits_def)
  show "chunk_loop bsize cfg pid sid identity k xs =
    (if samples e = [] then Inl ''one processed sample exceeds envelope_max_bytes''
     else and_then (chunk_loop bsize cfg pid sid identity (Suc k) rest) (\<lambda>es. Inr (e # es)))"
    using assms fits by (subst chunk_loop.simps) (auto simp: envelope_fits_def)
qed

lemma chunk_loop_result:
  "chunk_loop bsize cfg pid sid identity k xs = Inr es \<Longrightarrow>
     concat (map samples es) = xs \<and> list_all (envelope_fits bsize cfg) es \<and>
     (\<forall>i < length es. envelope_id (es ! i) = sid @ ''/envelope-'' @ dec (k + i) \<and>
        producer (es ! i) = pid \<and> env_behavior_model (es ! i) = identity)"
proof (induction bsize cfg pid sid identity k xs arbitrary: es rule: chunk_loop.induct)
  case (1 bsize cfg pid sid identity k xs)
  show ?case
  proof (cases "xs = []")
    case True
    with "1.prems" show ?thesis by (simp add: chunk_loop.simps)
  next
    case False
    obtain e rest where f: "fill_envelope bsize cfg (envelope_head pid sid identity k) xs = (e, rest)"
      by (metis surj_pair)
    note c = chunk_loop_Cons [OF False f]
    from "1.prems" c(1) obtain es' where es: "es = e # es'" "samples e \<noteq> []"
        "chunk_loop bsize cfg pid sid identity (Suc k) rest = Inr es'"
      by (auto simp: and_then_Inr split: if_splits)
    from c(4) es(2) have fits: "envelope_fits bsize cfg e" by simp
    then have "\<not> bsize e > envelope_max_bytes cfg" by (simp add: envelope_fits_def)
    from "1.IH" [OF False f [symmetric] es(2) this es(3)]
    have IH: "concat (map samples es') = rest" "list_all (envelope_fits bsize cfg) es'"
      "\<And>i. i < length es' \<Longrightarrow> envelope_id (es' ! i) = sid @ ''/envelope-'' @ dec (Suc k + i) \<and>
        producer (es' ! i) = pid \<and> env_behavior_model (es' ! i) = identity" by simp_all
    have "envelope_id e = sid @ ''/envelope-'' @ dec k \<and> producer e = pid \<and>
        env_behavior_model e = identity"
      by (subst (1 2 3) c(3)) (simp add: envelope_head_def)
    then have "envelope_id (es ! i) = sid @ ''/envelope-'' @ dec (k + i) \<and>
        producer (es ! i) = pid \<and> env_behavior_model (es ! i) = identity" if "i < length es" for i
      using that IH(3) [of "i - 1"] by (cases i) (simp_all add: es(1))
    then show ?thesis using c(2) IH(1,2) fits by (simp add: es(1))
  qed
qed

text \<open>The loop has one way to fail: the test after the loop of the source never fires.\<close>

lemma chunk_loop_error:
  "chunk_loop bsize cfg pid sid identity k xs = Inl err \<Longrightarrow>
     err = ''one processed sample exceeds envelope_max_bytes''"
proof (induction bsize cfg pid sid identity k xs rule: chunk_loop.induct)
  case (1 bsize cfg pid sid identity k xs)
  show ?case
  proof (cases "xs = []")
    case True
    with "1.prems" show ?thesis by (simp add: chunk_loop.simps)
  next
    case False
    obtain e rest where f: "fill_envelope bsize cfg (envelope_head pid sid identity k) xs = (e, rest)"
      by (metis surj_pair)
    note c = chunk_loop_Cons [OF False f]
    show ?thesis
    proof (cases "samples e = []")
      case True
      with "1.prems" c(1) show ?thesis by simp
    next
      case ne: False
      with c(4) have "\<not> bsize e > envelope_max_bytes cfg" by (simp add: envelope_fits_def)
      moreover have "chunk_loop bsize cfg pid sid identity (Suc k) rest = Inl err"
        using "1.prems" c(1) ne
        by (cases "chunk_loop bsize cfg pid sid identity (Suc k) rest") simp_all
      ultimately show ?thesis using "1.IH" [OF False f [symmetric] ne] by blast
    qed
  qed
qed

text \<open>The loop succeeds when every sample fits into an envelope of its own.\<close>

lemma chunk_loop_total:
  assumes "1 \<le> envelope_max_transitions cfg"
  shows "(\<And>x k. x \<in> set xs \<Longrightarrow>
       bsize ((envelope_head pid sid identity k)\<lparr>samples := [x]\<rparr>) \<le> envelope_max_bytes cfg) \<Longrightarrow>
     \<exists>es. chunk_loop bsize cfg pid sid identity k xs = Inr es"
proof (induction "length xs" arbitrary: xs k rule: less_induct)
  case less
  show ?case
  proof (cases xs)
    case Nil
    then show ?thesis by (simp add: chunk_loop.simps)
  next
    case (Cons x xs')
    obtain e rest where f: "fill_envelope bsize cfg (envelope_head pid sid identity k) xs = (e, rest)"
      by (metis surj_pair)
    note c = chunk_loop_Cons [OF _ f]
    have "bsize ((envelope_head pid sid identity k)\<lparr>samples := [x]\<rparr>) \<le> envelope_max_bytes cfg"
      using less.prems [of x k] Cons by simp
    with f assms Cons fill_envelope_split
    have "\<exists>ys. samples e = x # ys"
      by (fastforce simp: envelope_head_def Let_def split: if_splits)
    then have ne: "samples e \<noteq> []" by auto
    have xs: "xs = samples e @ rest" using c(2) Cons by simp
    then have "length rest < length xs" using ne by simp
    moreover have "set rest \<subseteq> set xs" by (subst xs) auto
    ultimately obtain es where "chunk_loop bsize cfg pid sid identity (Suc k) rest = Inr es"
      using less.hyps [of rest "Suc k"] less.prems by blast
    then show ?thesis using c(1) Cons ne by simp
  qed
qed

section \<open>Identifiers\<close>

lemma dec_no_dash: "c \<in> set (dec n) \<Longrightarrow> c \<noteq> CHR ''-''"
proof (induction n rule: dec.induct)
  case (1 n)
  have d: "digit_char d \<noteq> CHR ''-''" if "d < 10" for d
    using of_char_digit [OF that] by auto
  show ?case
  proof (cases "n < 10")
    case True
    with "1.prems" d [of n] show ?thesis by (subst (asm) dec.simps) auto
  next
    case False
    with "1.prems" have "c \<in> set (dec (n div 10)) \<or> c = digit_char (n mod 10)"
      by (subst (asm) dec.simps) auto
    with "1.IH" [OF False] d [of "n mod 10"] show ?thesis by auto
  qed
qed

lemma dash_dec_inject:
  assumes "xs @ ''-'' @ dec m = ys @ ''-'' @ dec n"
  shows "m = n \<and> xs = ys"
proof -
  have *: "takeWhile (\<lambda>c. c \<noteq> CHR ''-'') (rev (zs @ ''-'' @ dec k)) = rev (dec k)" for zs k
    using dec_no_dash by (auto simp: takeWhile_append)
  have "rev (dec m) = rev (dec n)"
    using arg_cong [OF assms, of "\<lambda>zs. takeWhile (\<lambda>c. c \<noteq> CHR ''-'') (rev zs)"] unfolding * .
  with assms show ?thesis by simp
qed

lemma envelope_id_inject:
  "s @ ''/envelope-'' @ dec j = t @ ''/envelope-'' @ dec k \<longleftrightarrow> s = t \<and> j = k"
  using dash_dec_inject [of "s @ ''/envelope''" j "t @ ''/envelope''" k] by auto

lemma segment_name_inject:
  "segment_name p s e a m = segment_name p' s' e' a' n \<Longrightarrow> m = n"
  using dash_dec_inject [of "p @ ''/'' @ s @ ''/'' @ e @ ''/agent-'' @ int_text a @ ''/segment''"
      "unat m" "p' @ ''/'' @ s' @ ''/'' @ e' @ ''/agent-'' @ int_text a' @ ''/segment''" "unat n"]
  by (simp add: segment_name_def word_unat_eq_iff)

section \<open>Well-formed Agents\<close>

text \<open>
  Between two commands of a training Episode, \<open>agent_good\<close> holds with \<open>None\<close>: collected transitions
  form a trusted, linked segment under a pinned model, and a pending action starts where the last
  one ended.  Inside a frame, once its input is finalised, the segment ends in that observation.
\<close>

definition agent_good :: "training_config \<Rightarrow> f32 list option \<Rightarrow> agent \<Rightarrow> bool" where
  "agent_good cfg ob a \<longleftrightarrow>
     (segment_open a \<longrightarrow> segment_id a \<noteq> [] \<and> HasModelIdentity (pinned_model a) \<and>
        prepared_valid (pinned_prepared_model a)) \<and>
     (\<not> segment_open a \<longrightarrow> segment_transitions a = []) \<and>
     segment_ok (expected_obs_dim cfg) (expected_action_dim cfg) (action_mask_mode cfg)
       (segment_transitions a) \<and>
     (case ob of
        None \<Rightarrow> segment_transitions a \<noteq> [] \<longrightarrow>
          has_pending_action a \<and> pending_obs a = next_observation (last (segment_transitions a))
      | Some obs \<Rightarrow> \<not> has_pending_action a \<and>
          (segment_transitions a \<noteq> [] \<longrightarrow> next_observation (last (segment_transitions a)) = obs))"

definition good :: "training_config \<Rightarrow> (int \<Rightarrow> f32 list option) \<Rightarrow> session \<Rightarrow> bool" where
  "good cfg f s \<longleftrightarrow>
     distinct (map fst (agents s)) \<and>
     (\<forall>i a. map_of (agents s) i = Some a \<longrightarrow> agent_good cfg (f i) a)"

abbreviation session_good :: "training_config \<Rightarrow> session \<Rightarrow> bool" where
  "session_good cfg s \<equiv> good cfg (\<lambda>_. None) s"

definition cached :: "session \<Rightarrow> int" where
  "cached s = (\<Sum>(_, a)\<leftarrow>agents s. int (length (segment_transitions a)))"

lemma cached_put_at:
  assumes "distinct (map fst t)" "map_of t i = Some a"
  shows "(\<Sum>(_, a)\<leftarrow>put_at i b t. int (length (segment_transitions a))) =
    (\<Sum>(_, a)\<leftarrow>t. int (length (segment_transitions a)))
      - int (length (segment_transitions a)) + int (length (segment_transitions b))"
  using sum_put_at [OF assms, of "\<lambda>a. int (length (segment_transitions a))"] by simp

lemma good_put:
  assumes "good cfg f s" "agent_good cfg ob b"
  shows "good cfg (f(i := ob)) (s\<lparr>agents := put_at i b (agents s)\<rparr>)"
  using assms by (auto simp: good_def split: if_splits)

lemma cached_put:
  assumes "good cfg f s" "map_of (agents s) i = Some a"
  shows "cached (s\<lparr>agents := put_at i b (agents s)\<rparr>) =
    cached s - int (length (segment_transitions a)) + int (length (segment_transitions b))"
  using cached_put_at [OF _ assms(2)] assms(1) by (simp add: cached_def good_def)

lemma note_behavior_model_keeps:
  assumes "note_behavior_model a = Inr b"
  shows "segment_open b = segment_open a" "segment_id b = segment_id a"
    "pinned_model b = pinned_model a" "pinned_prepared_model b = pinned_prepared_model a"
    "segment_transitions b = segment_transitions a"
  using assms by (auto simp: note_behavior_model_def Let_def split: if_splits)

text \<open>Finalising an input: one transition more, if an action was pending.\<close>

definition pending_at :: "session \<Rightarrow> int \<Rightarrow> int" where
  "pending_at s i =
     (case map_of (agents s) i of None \<Rightarrow> 0 | Some a \<Rightarrow> if has_pending_action a then 1 else 0)"

lemma finalize_good:
  assumes "FinalizePendingTransition env cfg i rw obs True s = Inr s'" "good cfg f s" "f i = None"
    and "0 < transition_ms env i"
  shows "good cfg (f(i \<mapsto> obs)) s' \<and> cached s' = cached s + pending_at s i \<and>
    map fst (agents s') = map fst (agents s) \<and> i \<in> fst ` set (agents s) \<and>
    (\<forall>j. j \<noteq> i \<longrightarrow> map_of (agents s') j = map_of (agents s) j)"
proof -
  from assms(1) obtain a where a: "map_of (agents s) i = Some a"
    by (auto simp: FinalizePendingTransition_def split: option.splits)
  have ag: "agent_good cfg None a" using assms(2,3) a by (metis good_def)
  have mem: "i \<in> fst ` set (agents s)" using a by (metis domIff dom_map_of_conv_image_fst option.simps(3))
  show ?thesis
  proof (cases "has_pending_action a")
    case False
    with assms(1) a have s': "s' = s" by (simp add: FinalizePendingTransition_def)
    have "agent_good cfg (Some obs) a" using ag False by (auto simp: agent_good_def)
    then have "good cfg (f(i \<mapsto> obs)) s"
      using assms(2) a unfolding good_def by (metis fun_upd_apply option.inject)
    then show ?thesis using False mem by (simp add: s' pending_at_def a)
  next
    case True
    with assms(1) a obtain t a1 where t: "BuildRawRolloutTransition a obs rw (expected_obs_dim cfg)
          (expected_action_dim cfg) (action_mask_mode cfg) (transition_ms env i) = Inr t"
      and a1: "note_behavior_model a = Inr a1"
      and open_a: "segment_open a" "HasModelIdentity (pinned_model a)"
        "prepared_valid (pinned_prepared_model a)"
      and s': "s' = s\<lparr>reward_metrics := reward_Observe (rw_total rw) (rw_items rw)
                         (reward_at env i) (reward_metrics s),
                       agents := put_at i (clear_pending
                         (a1\<lparr>episode_transition_count := episode_transition_count a1 + 1,
                             episode_return := f64_add (episode_return a1) (rw_total rw),
                             reward_component_sums :=
                               foldl add_component (reward_component_sums a1) (rw_items rw),
                             last_completed_transition_at_unix_ms := created_at_unix_ms t,
                             segment_transitions := segment_transitions a1 @ [t]\<rparr>)) (agents s)\<rparr>"
      by (auto simp: FinalizePendingTransition_def and_then_Inr split: if_splits sum.splits)
    note k = note_behavior_model_keeps [OF a1]
    let ?b = "clear_pending
                         (a1\<lparr>episode_transition_count := episode_transition_count a1 + 1,
                             episode_return := f64_add (episode_return a1) (rw_total rw),
                             reward_component_sums :=
                               foldl add_component (reward_component_sums a1) (rw_items rw),
                             last_completed_transition_at_unix_ms := created_at_unix_ms t,
                             segment_transitions := segment_transitions a1 @ [t]\<rparr>)"
    have b: "segment_transitions ?b = segment_transitions a @ [t]" "\<not> has_pending_action ?b"
      "segment_open ?b = segment_open a" "segment_id ?b = segment_id a"
      "pinned_model ?b = pinned_model a" "pinned_prepared_model ?b = pinned_prepared_model a"
      by (simp_all add: clear_pending_def k)
    have "segment_ok (expected_obs_dim cfg) (expected_action_dim cfg) (action_mask_mode cfg)
        (segment_transitions a @ [t])"
      using Build_extends_segment [OF t assms(4)] ag by (auto simp: agent_good_def)
    then have "agent_good cfg (Some obs) ?b"
      using ag open_a Build_result(2) [OF t] by (simp add: agent_good_def b)
    from good_put [OF assms(2) this] have "good cfg (f(i \<mapsto> obs)) s'" by (simp add: good_def s')
    moreover have "cached s' = cached s + 1"
      using cached_put [OF assms(2) a, of ?b] by (simp add: cached_def s' b)
    ultimately show ?thesis using True mem by (simp add: s' pending_at_def a)
  qed
qed

lemma set_agent_session [simp]:
  "tx_session (set_agent i b tx) = (tx_session tx)\<lparr>agents := put_at i b (agents (tx_session tx))\<rparr>"
  "tx_output (set_agent i b tx) = tx_output tx"
  "tx_transitions (set_agent i b tx) = tx_transitions tx"
  "tx_envelopes (set_agent i b tx) = tx_envelopes tx"
  by (simp_all add: set_agent_def)

lemma good_set_agent:
  "good cfg f (tx_session tx) \<Longrightarrow> agent_good cfg ob b \<Longrightarrow>
     good cfg (f(i := ob)) (tx_session (set_agent i b tx))"
  by (simp add: good_put)

text \<open>What a transaction has put out so far matches its counters.\<close>

definition output_ok :: "'g environ \<Rightarrow> training_config \<Rightarrow> 'g txn \<Rightarrow> 'g txn \<Rightarrow> bool" where
  "output_ok env cfg tx0 tx \<longleftrightarrow>
     tx_transitions tx - samples_of (tx_output tx) = tx_transitions tx0 - samples_of (tx_output tx0) \<and>
     tx_envelopes tx - int (length (tx_output tx)) = tx_envelopes tx0 - int (length (tx_output tx0)) \<and>
     (list_all (envelope_fits (byte_size env) cfg) (tx_output tx0) \<longrightarrow>
      list_all (envelope_fits (byte_size env) cfg) (tx_output tx))"

lemma output_ok_refl: "tx_output tx' = tx_output tx \<Longrightarrow> tx_transitions tx' = tx_transitions tx \<Longrightarrow>
    tx_envelopes tx' = tx_envelopes tx \<Longrightarrow> output_ok env cfg tx tx'"
  by (simp add: output_ok_def)

lemma output_ok_trans:
  "output_ok env cfg tx0 tx1 \<Longrightarrow> output_ok env cfg tx1 tx2 \<Longrightarrow> output_ok env cfg tx0 tx2"
  by (simp add: output_ok_def)

text \<open>Closing moves the transitions of one Agent into the output.\<close>

lemma close_effect:
  assumes "PrepareAgentSegmentClose env rt i reason bootstrap applied tx = Inr tx'"
  obtains a built where "map_of (agents (tx_session tx)) i = Some a"
    "tx_session tx' = (tx_session tx)\<lparr>agents := put_at i (reset_segment a) (agents (tx_session tx))\<rparr>"
    "tx_output tx' = tx_output tx @ built" "segment_open a"
    "tx_transitions tx' = tx_transitions tx + int (length (segment_transitions a))"
    "tx_envelopes tx' = tx_envelopes tx + int (length built)"
    "samples_of built = int (length (segment_transitions a))"
    "list_all (envelope_fits (byte_size env) (config rt)) built"
proof -
  from assms obtain a advantages value_targets processed built where
    a: "map_of (agents (tx_session tx)) i = Some a" "segment_open a"
    and p: "ProjectProcessedSegment (segment_transitions a) advantages value_targets
        (segment_id a) (manifest_identity (pinned_model a)) (expected_obs_dim (config rt))
        (expected_action_dim (config rt)) (action_mask_mode (config rt)) = Inr processed"
    and c: "chunk_loop (byte_size env) (config rt)
        \<lparr>component = ''sample-distributor'', instance_id = producer_instance_id rt,
         lifecycle_epoch = producer_lifecycle_epoch rt\<rparr>
        (segment_id a) (manifest_identity (pinned_model a)) 0 processed = Inr built"
    and tx': "tx' = set_agent i (reset_segment a)
       (tx\<lparr>tx_transitions := tx_transitions tx + int (length (segment_transitions a)),
           tx_envelopes := tx_envelopes tx + int (length built),
           tx_by_model := bump (tx_by_model tx) (model_step (pinned_model a))
             (int (length (segment_transitions a))),
           tx_output := tx_output tx @ built,
           tx_close_counts := bump (tx_close_counts tx) reason 1\<rparr>)"
    by (auto simp: PrepareAgentSegmentClose_def Let_def and_then_Inr split: option.splits if_splits)
  have "length processed = length (segment_transitions a)"
    using p by (auto simp: ProjectProcessedSegment_def and_then_Inr dest: project_loop_Inr split: if_splits)
  moreover have "samples_of built = int (length (concat (map samples built)))"
    by (induction built) auto
  ultimately have "samples_of built = int (length (segment_transitions a))"
    using chunk_loop_result [OF c] by simp
  then show thesis using that [OF a(1) _ _ a(2), of built] chunk_loop_result [OF c] by (simp add: tx')
qed

lemma close_good:
  assumes "PrepareAgentSegmentClose env rt i reason bootstrap applied tx = Inr tx'"
    and "good cfg f (tx_session tx)" "config rt = cfg"
  shows "good cfg f (tx_session tx') \<and> output_ok env cfg tx tx' \<and>
    cached (tx_session tx') + samples_of (tx_output tx') =
      cached (tx_session tx) + samples_of (tx_output tx) \<and>
    map fst (agents (tx_session tx')) = map fst (agents (tx_session tx)) \<and>
    (\<forall>a. map_of (agents (tx_session tx')) i = Some a \<longrightarrow> segment_transitions a = []) \<and>
    (\<forall>j. j \<noteq> i \<longrightarrow> map_of (agents (tx_session tx')) j = map_of (agents (tx_session tx)) j)"
  using assms(1)
proof (rule close_effect)
  fix a built
  assume a: "map_of (agents (tx_session tx)) i = Some a"
    and s: "tx_session tx' = (tx_session tx)\<lparr>agents := put_at i (reset_segment a) (agents (tx_session tx))\<rparr>"
    and o: "tx_output tx' = tx_output tx @ built" "segment_open a"
      "tx_transitions tx' = tx_transitions tx + int (length (segment_transitions a))"
      "tx_envelopes tx' = tx_envelopes tx + int (length built)"
      "samples_of built = int (length (segment_transitions a))"
      "list_all (envelope_fits (byte_size env) (config rt)) built"
  have "agent_good cfg (f i) a" using assms(2) a by (metis good_def)
  then have "agent_good cfg (f i) (reset_segment a)"
    by (auto simp: agent_good_def reset_segment_def split: option.splits)
  from good_put [OF assms(2) this, of i] have "good cfg f (tx_session tx')" by (simp add: s)
  moreover have "cached (tx_session tx') = cached (tx_session tx) - int (length (segment_transitions a))"
    using cached_put [OF assms(2) a, of "reset_segment a"] by (simp add: s reset_segment_def)
  ultimately show ?thesis using o a assms(3)
    by (auto simp: s output_ok_def reset_segment_def)
qed

lemma config_keeps [simp]:
  "config (rt_MarkDegraded err rt) = config rt" "config (count_inference l rt) = config rt"
  "config (rollout_failure rt) = config rt"
  by (simp_all add: rt_MarkDegraded_def count_inference_def rollout_failure_def)

lemma InferPinnedValue_config [simp]: "config (snd (InferPinnedValue env a obs rt)) = config rt"
  by (simp add: InferPinnedValue_def Let_def split: sum.split prod.split)

lemma pin_effect:
  assumes "EnsureAgentSegmentPin rt i a tx = Inr (a1, tx1)" "agent_good cfg (Some obs) a"
  shows "agent_good cfg (Some obs) a1 \<and> segment_transitions a1 = segment_transitions a \<and>
    tx_session tx1 = tx_session tx \<and> output_ok env cfg tx tx1 \<and> tx_output tx1 = tx_output tx"
  using assms
  by (auto simp: EnsureAgentSegmentPin_def agent_good_def output_ok_def segment_name_def
      split: if_splits)

lemma act_good:
  assumes "PrepareModelAction env i a obs fr am tx rt = (Some (act, tx'), rt')"
    and "good cfg f (tx_session tx)" "f i = Some obs" "map_of (agents (tx_session tx)) i = Some a"
  shows "good cfg (f(i := None)) (tx_session tx') \<and> output_ok env cfg tx tx' \<and>
    tx_output tx' = tx_output tx \<and> cached (tx_session tx') = cached (tx_session tx) \<and>
    config rt' = config rt \<and>
    map fst (agents (tx_session tx')) = map fst (agents (tx_session tx)) \<and>
    (\<forall>j. j \<noteq> i \<longrightarrow> map_of (agents (tx_session tx')) j = map_of (agents (tx_session tx)) j)"
proof -
  have ag: "agent_good cfg (Some obs) a" using assms(2-4) by (metis good_def)
  from assms(1) obtain a1 tx1 lp v rng where
    pin: "(if current_episode_mode (tx_session tx) = ModeTraining
           then EnsureAgentSegmentPin rt i a tx else Inr (a, tx)) = Inr (a1, tx1)"
    and np: "\<not> has_pending_action a1"
    and tx': "tx' = set_agent i (a1\<lparr>pending_obs := obs, pending_action_mask := am,
        pending_action := int act, pending_action_frame_id := fr, pending_log_prob := lp,
        pending_value := v, has_pending_action := True\<rparr>) (tx1\<lparr>tx_rng := rng\<rparr>)"
    and rt': "config rt' = config rt"
    by (auto simp: PrepareModelAction_def Let_def split: sum.splits prod.splits if_splits)
  have a1: "agent_good cfg (Some obs) a1 \<and> segment_transitions a1 = segment_transitions a \<and>
      tx_session tx1 = tx_session tx \<and> output_ok env cfg tx tx1 \<and> tx_output tx1 = tx_output tx"
    using pin pin_effect [OF _ ag, of rt i tx a1 tx1 env] ag
    by (cases "current_episode_mode (tx_session tx) = ModeTraining") (auto simp: output_ok_def)
  let ?b = "a1\<lparr>pending_obs := obs, pending_action_mask := am,
        pending_action := int act, pending_action_frame_id := fr, pending_log_prob := lp,
        pending_value := v, has_pending_action := True\<rparr>"
  have "agent_good cfg None ?b" using a1 by (auto simp: agent_good_def)
  from good_put [OF assms(2) this, of i] have "good cfg (f(i := None)) (tx_session tx')"
    using a1 by (simp add: tx')
  moreover have "cached (tx_session tx') = cached (tx_session tx)"
    using cached_put [OF assms(2,4), of ?b] a1 by (simp add: tx')
  ultimately show ?thesis using a1 rt' by (auto simp: tx' output_ok_def)
qed

section \<open>The loops of a frame\<close>

definition input_map :: "task_input list \<Rightarrow> int \<Rightarrow> f32 list option" where
  "input_map inputs = map_of (map (\<lambda>i. (in_agent i, in_observation i)) inputs)"

lemma good_mark_done:
  assumes "good cfg f (tx_session tx)" "map_of (agents (tx_session tx)) i = Some a"
  shows "good cfg f (tx_session (set_agent i (a\<lparr>done_collected := b, terminal_frame_id := n\<rparr>) tx)) \<and>
    cached (tx_session (set_agent i (a\<lparr>done_collected := b, terminal_frame_id := n\<rparr>) tx)) =
      cached (tx_session tx)"
proof -
  have "agent_good cfg (f i) a" using assms by (metis good_def)
  then have "agent_good cfg (f i) (a\<lparr>done_collected := b, terminal_frame_id := n\<rparr>)"
    by (auto simp: agent_good_def split: option.splits)
  from good_put [OF assms(1) this, of i] show ?thesis
    using cached_put [OF assms, of "a\<lparr>done_collected := b, terminal_frame_id := n\<rparr>"] by simp
qed

lemma finalize_inputs_good:
  assumes "finalize_inputs env inputs fr True tx rt = (Inr tx', rt')"
    and "good cfg f (tx_session tx)" "\<forall>i \<in> set inputs. f (in_agent i) = None"
    and "distinct (map in_agent inputs)" "config rt = cfg" "\<And>i. 0 < transition_ms env i"
  shows "good cfg (f ++ input_map inputs) (tx_session tx') \<and> rt' = rt \<and>
    tx_output tx' = tx_output tx \<and> output_ok env cfg tx tx' \<and>
    cached (tx_session tx') =
      cached (tx_session tx) + (\<Sum>i\<leftarrow>inputs. pending_at (tx_session tx) (in_agent i)) \<and>
    map fst (agents (tx_session tx')) = map fst (agents (tx_session tx)) \<and>
    in_agent ` set inputs \<subseteq> fst ` set (agents (tx_session tx))"
  using assms
proof (induction inputs arbitrary: tx f)
  case Nil
  then show ?case by (simp add: input_map_def output_ok_refl)
next
  case (Cons i inputs)
  from Cons.prems(1,5) obtain s where
    s: "FinalizePendingTransition env cfg (in_agent i) (in_reward i) (in_observation i) True
        (tx_session tx) = Inr s"
    and rest: "finalize_inputs env inputs fr True
        (case agent_at (tx\<lparr>tx_session := s\<rparr>) (in_agent i) of None \<Rightarrow> tx\<lparr>tx_session := s\<rparr>
         | Some a \<Rightarrow> if in_terminal i
             then set_agent (in_agent i) (a\<lparr>done_collected := True, terminal_frame_id := fr\<rparr>)
               (tx\<lparr>tx_session := s\<rparr>) else tx\<lparr>tx_session := s\<rparr>) rt = (Inr tx', rt')"
    by (auto simp: Let_def split: sum.splits)
  have fi: "f (in_agent i) = None" using Cons.prems(3) by simp
  note g = finalize_good [OF s Cons.prems(2) fi Cons.prems(6)]
  let ?f = "f(in_agent i \<mapsto> in_observation i)" and ?tx = "tx\<lparr>tx_session := s\<rparr>"
  define tx2 where "tx2 = (case agent_at ?tx (in_agent i) of None \<Rightarrow> ?tx
         | Some a \<Rightarrow> if in_terminal i
             then set_agent (in_agent i) (a\<lparr>done_collected := True, terminal_frame_id := fr\<rparr>) ?tx
             else ?tx)"
  have tx2: "good cfg ?f (tx_session tx2)" "cached (tx_session tx2) = cached s"
      "tx_output tx2 = tx_output tx" "output_ok env cfg tx tx2"
      "map fst (agents (tx_session tx2)) = map fst (agents (tx_session tx))"
      "\<forall>j. j \<noteq> in_agent i \<longrightarrow> map_of (agents (tx_session tx2)) j = map_of (agents (tx_session tx)) j"
    using g good_mark_done [where f = ?f and tx = ?tx and i = "in_agent i" and b = True and n = fr and cfg = cfg]
    by (auto simp: tx2_def agent_at_def output_ok_def split: option.splits)
  have ni: "in_agent i \<notin> in_agent ` set inputs" using Cons.prems(4) by simp
  have differ: "in_agent j \<noteq> in_agent i" if "j \<in> set inputs" for j
    using ni that by (metis imageI)
  then have "\<forall>j \<in> set inputs. ?f (in_agent j) = None" using Cons.prems(3) by simp
  moreover have "distinct (map in_agent inputs)" using Cons.prems(4) by simp
  ultimately have IH: "good cfg (?f ++ input_map inputs) (tx_session tx')" "rt' = rt" "tx_output tx' = tx_output tx2"
    "output_ok env cfg tx2 tx'"
    "cached (tx_session tx') =
      cached (tx_session tx2) + (\<Sum>i\<leftarrow>inputs. pending_at (tx_session tx2) (in_agent i))"
    "map fst (agents (tx_session tx')) = map fst (agents (tx_session tx2))"
    "in_agent ` set inputs \<subseteq> fst ` set (agents (tx_session tx2))"
    using Cons.IH [OF rest [folded tx2_def] tx2(1) _ _ Cons.prems(5,6)] by blast+
  have "input_map inputs (in_agent i) = None"
    using ni by (auto simp: input_map_def map_of_eq_None_iff image_image)
  then have "?f ++ input_map inputs = f ++ input_map (i # inputs)"
    by (auto simp: input_map_def map_add_def fun_eq_iff split: option.splits)
  moreover have "(\<Sum>i\<leftarrow>inputs. pending_at (tx_session tx2) (in_agent i)) =
      (\<Sum>i\<leftarrow>inputs. pending_at (tx_session tx) (in_agent i))"
    using differ tx2(6) by (intro arg_cong [of _ _ sum_list] map_cong) (simp_all add: pending_at_def)
  moreover have "fst ` set (agents (tx_session tx2)) = fst ` set (agents (tx_session tx))"
    using arg_cong [OF tx2(5), of set] by simp
  ultimately show ?case
    using IH tx2 g output_ok_trans [OF tx2(4) IH(4)] by simp
qed

lemma txn_Close_good:
  assumes "txn_Close env i reason bootstrap applied tx rt = (Inr tx', rt')"
    and "good cfg f (tx_session tx)" "config rt = cfg"
  shows "good cfg f (tx_session tx') \<and> output_ok env cfg tx tx' \<and> rt' = rt \<and>
    cached (tx_session tx') + samples_of (tx_output tx') =
      cached (tx_session tx) + samples_of (tx_output tx) \<and>
    map fst (agents (tx_session tx')) = map fst (agents (tx_session tx)) \<and>
    (\<forall>a. map_of (agents (tx_session tx')) i = Some a \<longrightarrow> segment_transitions a = []) \<and>
    (\<forall>j. j \<noteq> i \<longrightarrow> map_of (agents (tx_session tx')) j = map_of (agents (tx_session tx)) j)"
proof -
  from assms(1) obtain tx1 where "PrepareAgentSegmentClose env rt i reason bootstrap applied tx = Inr tx1"
    "tx' = tx1\<lparr>tx_closed := tx_closed tx1 + 1\<rparr>" "rt' = rt"
    by (auto simp: txn_Close_def split: sum.splits)
  with close_good [OF this(1) assms(2,3)] show ?thesis by (simp add: output_ok_def)
qed

definition no_segment_at :: "session \<Rightarrow> int \<Rightarrow> bool" where
  "no_segment_at s i \<longleftrightarrow> (\<forall>a. map_of (agents s) i = Some a \<longrightarrow> segment_transitions a = [])"

text \<open>A turn of the closing loop either leaves the transaction alone or closes the Agent's segment.\<close>

lemma close_input_cases:
  assumes "close_input env i tx rt = (Inr tx', rt')"
  obtains (alone) "tx' = tx" "rt' = rt" |
    (closed) reason v b rt1 where "txn_Close env (in_agent i) reason v b tx rt1 = (Inr tx', rt')"
      "config rt1 = config rt"
proof (cases "agent_at tx (in_agent i)")
  case None
  with assms show thesis by (intro alone) (simp_all add: close_input_def)
next
  case (Some a)
  show thesis
  proof (cases "\<not> segment_open a \<or> segment_transitions a = []")
    case True
    with assms Some show thesis by (intro alone) (auto simp: close_input_def)
  next
    case live: False
    show thesis
    proof (cases "in_terminal i")
      case True
      with assms Some live show thesis by (intro closed) (auto simp: close_input_def)
    next
      case False
      obtain v rt1 where v: "InferPinnedValue env a (next_observation (last (segment_transitions a))) rt
          = (v, rt1)" by force
      have rt1: "config rt1 = config rt" using InferPinnedValue_config [of env a _ rt] v by (metis snd_conv)
      show thesis
      proof (cases "length (segment_transitions a) = unat (tmax (config rt))")
        case True
        with assms Some live False v obtain x where "v = Some x"
          by (cases v) (auto simp: close_input_def)
        with True assms Some live False v rt1 show thesis
          by (intro closed [of CloseTmax x True rt1]) (auto simp: close_input_def)
      next
        case other: False
        show thesis
        proof (cases "length (segment_transitions a) > unat (tmax (config rt))")
          case True
          with assms Some live False other show thesis by (simp add: close_input_def Let_def)
        next
          case small: False
          with assms Some live False other show thesis
            by (intro alone) (simp_all add: close_input_def)
        qed
      qed
    qed
  qed
qed

lemma close_input_terminal:
  assumes "close_input env i tx rt = (Inr tx', rt')" "in_terminal i"
    and "good cfg f (tx_session tx)" "config rt = cfg"
  shows "no_segment_at (tx_session tx') (in_agent i)"
proof (cases "map_of (agents (tx_session tx)) (in_agent i)")
  case None
  with assms(1) show ?thesis by (simp add: close_input_def agent_at_def no_segment_at_def)
next
  case (Some a)
  show ?thesis
  proof (cases "segment_transitions a = []")
    case True
    with assms(1) Some show ?thesis by (simp add: close_input_def agent_at_def no_segment_at_def)
  next
    case False
    have "agent_good cfg (f (in_agent i)) a" using assms(3) Some by (metis good_def)
    with False have "segment_open a" by (auto simp: agent_good_def)
    with assms(1,2) Some False have "txn_Close env (in_agent i) EnvironmentTerminated (Fin 0) False tx rt
        = (Inr tx', rt')" by (simp add: close_input_def agent_at_def)
    from txn_Close_good [OF this assms(3,4)] show ?thesis by (simp add: no_segment_at_def)
  qed
qed

definition closing_ok ::
  "'g environ \<Rightarrow> training_config \<Rightarrow> (int \<Rightarrow> f32 list option) \<Rightarrow> 'g txn \<Rightarrow> 'g txn \<Rightarrow> bool" where
  "closing_ok env cfg f tx tx' \<longleftrightarrow>
     good cfg f (tx_session tx') \<and> output_ok env cfg tx tx' \<and>
     cached (tx_session tx') + samples_of (tx_output tx') =
       cached (tx_session tx) + samples_of (tx_output tx) \<and>
     map fst (agents (tx_session tx')) = map fst (agents (tx_session tx)) \<and>
     (\<forall>j. no_segment_at (tx_session tx) j \<longrightarrow> no_segment_at (tx_session tx') j)"

lemma closing_ok_refl: "good cfg f (tx_session tx) \<Longrightarrow> closing_ok env cfg f tx tx"
  by (simp add: closing_ok_def output_ok_refl)

lemma closing_ok_trans:
  "closing_ok env cfg f tx tx1 \<Longrightarrow> closing_ok env cfg f tx1 tx2 \<Longrightarrow> closing_ok env cfg f tx tx2"
  unfolding closing_ok_def using output_ok_trans by metis

lemma txn_Close_closing:
  assumes "txn_Close env i reason bootstrap applied tx rt = (Inr tx', rt')"
    and "good cfg f (tx_session tx)" "config rt = cfg"
  shows "closing_ok env cfg f tx tx'"
proof -
  note g = txn_Close_good [OF assms]
  have "no_segment_at (tx_session tx') j" if "no_segment_at (tx_session tx) j" for j
    using that g by (cases "j = i") (simp_all add: no_segment_at_def)
  with g show ?thesis unfolding closing_ok_def by blast
qed

lemma close_input_good:
  assumes "close_input env i tx rt = (Inr tx', rt')"
    and "good cfg f (tx_session tx)" "config rt = cfg"
  shows "closing_ok env cfg f tx tx' \<and> config rt' = cfg"
  using assms(1)
proof (cases rule: close_input_cases)
  case alone
  with assms(2,3) show ?thesis by (simp add: closing_ok_refl)
next
  case (closed reason v b rt1)
  with assms(3) have "config rt1 = cfg" by simp
  with txn_Close_closing [OF closed(1) assms(2)] txn_Close_good [OF closed(1) assms(2)]
  show ?thesis by simp
qed

lemma close_inputs_good:
  assumes "close_inputs env inputs tx rt = (Inr tx', rt')"
    and "good cfg f (tx_session tx)" "config rt = cfg"
  shows "closing_ok env cfg f tx tx' \<and> config rt' = cfg \<and>
    (\<forall>i \<in> set inputs. in_terminal i \<longrightarrow> no_segment_at (tx_session tx') (in_agent i))"
  using assms
proof (induction inputs arbitrary: tx rt)
  case Nil
  then show ?case by (simp add: closing_ok_refl)
next
  case (Cons i inputs)
  then obtain tx1 rt1 where c: "close_input env i tx rt = (Inr tx1, rt1)"
    and r: "close_inputs env inputs tx1 rt1 = (Inr tx', rt')"
    by (auto split: prod.splits sum.splits)
  note g = close_input_good [OF c Cons.prems(2,3)]
  then have "good cfg f (tx_session tx1)" "config rt1 = cfg" by (simp_all add: closing_ok_def)
  note IH = Cons.IH [OF r this]
  have "no_segment_at (tx_session tx') (in_agent i)" if "in_terminal i"
    using close_input_terminal [OF c that Cons.prems(2,3)] IH unfolding closing_ok_def by blast
  with IH closing_ok_trans [of env cfg f tx tx1 tx'] g show ?case by simp
qed

lemma act_inputs_good:
  assumes "act_inputs env inputs fr tx rt = (Inr (tx', acts), rt')"
    and "good cfg f (tx_session tx)" "distinct (map in_agent inputs)"
    and "\<forall>i \<in> set inputs. f (in_agent i) = Some (in_observation i)"
    and "\<forall>i \<in> set inputs. in_terminal i \<longrightarrow> no_segment_at (tx_session tx) (in_agent i)"
    and "\<forall>j. f j \<noteq> None \<longrightarrow> j \<in> in_agent ` set inputs \<or> no_segment_at (tx_session tx) j"
  shows "session_good cfg (tx_session tx') \<and> output_ok env cfg tx tx' \<and>
    tx_output tx' = tx_output tx \<and> cached (tx_session tx') = cached (tx_session tx) \<and>
    map fst acts = map in_agent (filter (\<lambda>i. \<not> in_terminal i) inputs)"
  using assms
proof (induction inputs arbitrary: tx rt f acts)
  case Nil
  have "agent_good cfg None a" if "map_of (agents (tx_session tx)) j = Some a" for j a
  proof -
    have "agent_good cfg (f j) a" using Nil.prems(2) that by (metis good_def)
    then show ?thesis using Nil.prems(6) that
      by (cases "f j") (auto simp: agent_good_def no_segment_at_def)
  qed
  with Nil.prems(2) have "session_good cfg (tx_session tx)" by (simp add: good_def)
  with Nil.prems(1) show ?case by (simp add: output_ok_refl)
next
  case (Cons i inputs)
  have ni: "in_agent j \<noteq> in_agent i" if "j \<in> set inputs" for j
    using Cons.prems(3) that by (metis distinct.simps(2) image_eqI list.set_map list.simps(9))
  show ?case
  proof (cases "in_terminal i")
    case True
    then have "act_inputs env inputs fr tx rt = (Inr (tx', acts), rt')" using Cons.prems(1) by simp
    moreover have "\<forall>j. f j \<noteq> None \<longrightarrow> j \<in> in_agent ` set inputs \<or> no_segment_at (tx_session tx) j"
      using Cons.prems(5,6) True by auto
    ultimately show ?thesis using Cons.IH [of tx rt acts f] Cons.prems(2-5) True by simp
  next
    case False
    with Cons.prems(1) obtain a act tx1 rt1 acts' where
      a: "map_of (agents (tx_session tx)) (in_agent i) = Some a"
      and p: "PrepareModelAction env (in_agent i) a (in_observation i) fr (in_mask i) tx rt
         = (Some (act, tx1), rt1)"
      and r: "act_inputs env inputs fr tx1 rt1 = (Inr (tx', acts'), rt')"
      and acts: "acts = (in_agent i, act) # acts'"
      by (auto simp: agent_at_def split: option.splits prod.splits sum.splits)
    have fi: "f (in_agent i) = Some (in_observation i)" using Cons.prems(4) by simp
    note g = act_good [OF p Cons.prems(2) fi a]
    let ?f = "f(in_agent i := None)"
    have same: "no_segment_at (tx_session tx1) j = no_segment_at (tx_session tx) j"
      if "j \<noteq> in_agent i" for j
      using g that by (simp add: no_segment_at_def)
    have 1: "\<forall>j \<in> set inputs. ?f (in_agent j) = Some (in_observation j)"
      using Cons.prems(4) ni by simp
    have 2: "\<forall>j \<in> set inputs. in_terminal j \<longrightarrow> no_segment_at (tx_session tx1) (in_agent j)"
      using Cons.prems(5) ni same by simp
    have 3: "\<forall>j. ?f j \<noteq> None \<longrightarrow> j \<in> in_agent ` set inputs \<or> no_segment_at (tx_session tx1) j"
      using Cons.prems(6) same by auto
    from g have gd: "good cfg ?f (tx_session tx1)" by simp
    have d: "distinct (map in_agent inputs)" using Cons.prems(3) by simp
    from Cons.IH [OF r gd d 1 2 3] g False show ?thesis
      by (auto simp: acts output_ok_def)
  qed
qed

lemma end_frame_keeps [simp]:
  "agents (tx_session (end_frame n tx)) = agents (tx_session tx)"
  "tx_output (end_frame n tx) = tx_output tx" "tx_transitions (end_frame n tx) = tx_transitions tx"
  "tx_envelopes (end_frame n tx) = tx_envelopes tx"
  by (simp_all add: end_frame_def Let_def)

section \<open>The loop of an abort\<close>

lemma reset_clear [simp]:
  "segment_transitions (reset_segment a) = []" "segment_transitions (clear_pending a) = segment_transitions a"
  "segment_open (reset_segment a) = False" "has_pending_action (clear_pending a) = False"
  "segment_open (clear_pending a) = segment_open a" "segment_id (clear_pending a) = segment_id a"
  "pinned_model (clear_pending a) = pinned_model a"
  "pinned_prepared_model (clear_pending a) = pinned_prepared_model a"
  "has_pending_action (reset_segment a) = has_pending_action a"
  by (simp_all add: reset_segment_def clear_pending_def)

lemma agent_good_empty: "segment_transitions a = [] \<Longrightarrow> agent_good cfg f a \<Longrightarrow> agent_good cfg None a"
  by (cases f) (auto simp: agent_good_def)

lemma agent_good_reset: "agent_good cfg None (reset_segment a)"
  by (simp add: agent_good_def)

lemma agent_good_clear:
  "agent_good cfg None a \<Longrightarrow> segment_transitions a = [] \<Longrightarrow> agent_good cfg None (clear_pending a)"
  by (simp add: agent_good_def)

text \<open>Quarantined transitions: the counter of \<open>DiscardAgentSegment\<close>.\<close>

definition abort_ok :: "'g environ \<Rightarrow> training_config \<Rightarrow> 'g txn \<Rightarrow> 'g txn \<Rightarrow> bool" where
  "abort_ok env cfg tx tx' \<longleftrightarrow>
     closing_ok env cfg (\<lambda>_. None) tx tx' \<and> tx_quarantined tx' = tx_quarantined tx"

lemma close_keeps_quarantined:
  "PrepareAgentSegmentClose env rt i reason v b tx = Inr tx' \<Longrightarrow> tx_quarantined tx' = tx_quarantined tx"
  by (auto simp: PrepareAgentSegmentClose_def Let_def and_then_Inr set_agent_def
      split: option.splits if_splits)

lemma abort_ok_trans: "abort_ok env cfg tx tx1 \<Longrightarrow> abort_ok env cfg tx1 tx2 \<Longrightarrow> abort_ok env cfg tx tx2"
  unfolding abort_ok_def using closing_ok_trans by metis

lemma abort_ok_put:
  assumes "session_good cfg (tx_session tx)" "map_of (agents (tx_session tx)) i = Some a"
    and "segment_transitions a = []" "segment_transitions b = []" "agent_good cfg None b"
    and "tx_session tx' = (tx_session tx)\<lparr>agents := put_at i b (agents (tx_session tx))\<rparr>"
    and "tx_output tx' = tx_output tx" "tx_transitions tx' = tx_transitions tx"
      "tx_envelopes tx' = tx_envelopes tx" "tx_quarantined tx' = tx_quarantined tx"
  shows "abort_ok env cfg tx tx'"
proof -
  have "session_good cfg (tx_session tx')"
    using good_put [OF assms(1,5), of i] by (simp add: fun_upd_idem assms(6))
  moreover have "cached (tx_session tx') = cached (tx_session tx)"
    using cached_put [OF assms(1,2), of b] assms(3,4) by (simp add: assms(6))
  moreover have "no_segment_at (tx_session tx') j" if "no_segment_at (tx_session tx) j" for j
    using that assms(2,4) by (auto simp: no_segment_at_def assms(6))
  ultimately show ?thesis using assms(6-)
    by (simp add: abort_ok_def closing_ok_def output_ok_refl)
qed

lemma discard_effect:
  assumes "map_of (agents (tx_session tx)) i = Some a" "segment_transitions a = []"
  shows "tx_session (DiscardAgentSegment i r x tx) = (tx_session tx)\<lparr>agents :=
      put_at i (reset_segment (clear_pending a)) (agents (tx_session tx))\<rparr>"
    "tx_output (DiscardAgentSegment i r x tx) = tx_output tx"
    "tx_transitions (DiscardAgentSegment i r x tx) = tx_transitions tx"
    "tx_envelopes (DiscardAgentSegment i r x tx) = tx_envelopes tx"
    "tx_quarantined (DiscardAgentSegment i r x tx) = tx_quarantined tx"
  using assms by (simp_all add: DiscardAgentSegment_def Let_def set_agent_def)

lemma txn_Close_abort:
  assumes "txn_Close env i reason v b tx rt = (Inr tx', rt')"
    and "session_good cfg (tx_session tx)" "config rt = cfg"
  shows "abort_ok env cfg tx tx' \<and> no_segment_at (tx_session tx') i"
proof -
  from assms(1) obtain tx1 where "PrepareAgentSegmentClose env rt i reason v b tx = Inr tx1"
    "tx' = tx1\<lparr>tx_closed := tx_closed tx1 + 1\<rparr>"
    by (auto simp: txn_Close_def split: sum.splits)
  then have "tx_quarantined tx' = tx_quarantined tx" using close_keeps_quarantined by fastforce
  with txn_Close_closing [OF assms] txn_Close_good [OF assms] show ?thesis
    by (simp add: abort_ok_def no_segment_at_def)
qed

lemma abort_close_good:
  assumes "abort_close env i a tx rt = (Inr tx', rt')" "map_of (agents (tx_session tx)) i = Some a"
    and "session_good cfg (tx_session tx)" "config rt = cfg"
  shows "abort_ok env cfg tx tx' \<and> config rt' = cfg \<and> no_segment_at (tx_session tx') i"
proof (cases "segment_open a \<and> segment_transitions a \<noteq> []")
  case False
  have ag: "agent_good cfg None a" using assms(2,3) by (metis good_def)
  with False have e: "segment_transitions a = []" by (auto simp: agent_good_def)
  from False assms(1) have tx': "tx' = DiscardAgentSegment i ClientControlledClose True tx" "rt' = rt"
    by (auto simp: abort_close_def)
  note d = discard_effect [OF assms(2) e, of ClientControlledClose True, folded tx'(1)]
  have "abort_ok env cfg tx tx'"
    by (rule abort_ok_put [OF assms(3,2) e _ _ d]) (simp_all add: agent_good_reset)
  then show ?thesis using assms(4) tx'(2) by (simp add: no_segment_at_def d(1))
next
  case True
  let ?inf = "InferPinnedValue env a (next_observation (last (segment_transitions a))) rt"
  have ci: "config (snd ?inf) = cfg" using assms(4) by simp
  obtain v rt1 tx1 where c: "txn_Close env i ClientControlledClose v True tx rt1 = (Inr tx1, rt')"
    and rt1: "config rt1 = cfg"
    and tx': "tx' = (if has_pending_action a then tx1\<lparr>tx_excluded := tx_excluded tx1 + 1\<rparr> else tx1)"
  proof (cases "has_pending_action a")
    case pending: True
    from assms(1) True pending obtain tx1 where
      "txn_Close env i ClientControlledClose (pending_value a) True tx rt = (Inr tx1, rt')"
      "tx' = tx1\<lparr>tx_excluded := tx_excluded tx1 + 1\<rparr>"
      by (auto simp: abort_close_def Let_def split: if_splits prod.splits sum.splits)
    with assms(4) pending show thesis by (intro that) simp_all
  next
    case pending: False
    with assms(1) True obtain v rt1 where v: "?inf = (Some v, rt1)"
      and "txn_Close env i ClientControlledClose v True tx rt1 = (Inr tx', rt')"
      by (auto simp: abort_close_def Let_def split: prod.splits sum.splits option.splits)
    with ci pending show thesis by (intro that) simp_all
  qed
  note g = txn_Close_abort [OF c assms(3) rt1] txn_Close_good [OF c assms(3) rt1]
  have "abort_ok env cfg tx tx1 \<longrightarrow> abort_ok env cfg tx (tx1\<lparr>tx_excluded := n\<rparr>)" for n
    by (simp add: abort_ok_def closing_ok_def output_ok_def)
  with g rt1 show ?thesis by (simp add: tx')
qed

lemma abort_agent_good:
  assumes "abort_agent env True i tx rt = (Inr tx', rt')"
    and "session_good cfg (tx_session tx)" "config rt = cfg"
  shows "abort_ok env cfg tx tx' \<and> config rt' = cfg \<and> no_segment_at (tx_session tx') i"
proof (cases "map_of (agents (tx_session tx)) i")
  case None
  with assms show ?thesis
    by (simp add: abort_agent_def agent_at_def no_segment_at_def abort_ok_def closing_ok_refl)
next
  case (Some a)
  have ag: "agent_good cfg None a" using assms(2) Some by (metis good_def)
  obtain tx1 where first: "abort_ok env cfg tx tx1 \<and> config rt' = cfg \<and> no_segment_at (tx_session tx1) i"
    and tx': "tx' = (case agent_at tx1 i of None \<Rightarrow> tx1 | Some a1 \<Rightarrow> set_agent i (clear_pending a1) tx1)"
  proof (cases "segment_open a \<or> has_pending_action a \<or> segment_transitions a \<noteq> []")
    case True
    with assms(1) Some obtain tx1 where c: "abort_close env i a tx rt = (Inr tx1, rt')"
      and t: "tx' = (case agent_at tx1 i of None \<Rightarrow> tx1 | Some a1 \<Rightarrow> set_agent i (clear_pending a1) tx1)"
      by (auto simp: abort_agent_def agent_at_def split: prod.splits sum.splits option.splits)
    show thesis by (rule that [OF abort_close_good [OF c Some assms(2,3)] t])
  next
    case False
    with assms(1) Some have "tx' = (case agent_at tx i of None \<Rightarrow> tx | Some a1 \<Rightarrow> set_agent i (clear_pending a1) tx)"
      "rt' = rt" by (auto simp: abort_agent_def agent_at_def)
    with False Some assms(2,3) show thesis
      by (intro that [of tx]) (simp_all add: abort_ok_def closing_ok_refl no_segment_at_def)
  qed
  show ?thesis
  proof (cases "map_of (agents (tx_session tx1)) i")
    case None
    with first tx' show ?thesis by (simp add: agent_at_def)
  next
    case (Some a1)
    have sg: "session_good cfg (tx_session tx1)" using first by (simp add: abort_ok_def closing_ok_def)
    then have a1: "agent_good cfg None a1" "segment_transitions a1 = []"
      using Some first by (metis good_def, simp add: no_segment_at_def)
    have t: "tx' = set_agent i (clear_pending a1) tx1" using tx' Some by (simp add: agent_at_def)
    have "abort_ok env cfg tx1 tx'"
      by (rule abort_ok_put [OF sg Some a1(2), of "clear_pending a1"])
        (use a1 in \<open>simp_all add: t agent_good_clear set_agent_def\<close>)
    with first abort_ok_trans a1(2) show ?thesis
      by (auto simp: t no_segment_at_def)
  qed
qed

lemma abort_agents_good:
  assumes "abort_agents env True ids tx rt = (Inr tx', rt')"
    and "session_good cfg (tx_session tx)" "config rt = cfg"
  shows "abort_ok env cfg tx tx' \<and> (\<forall>i \<in> set ids. no_segment_at (tx_session tx') i)"
  using assms
proof (induction ids arbitrary: tx rt)
  case Nil
  then show ?case by (simp add: abort_ok_def closing_ok_refl)
next
  case (Cons i ids)
  then obtain tx1 rt1 where c: "abort_agent env True i tx rt = (Inr tx1, rt1)"
    and r: "abort_agents env True ids tx1 rt1 = (Inr tx', rt')"
    by (auto split: prod.splits sum.splits)
  note g = abort_agent_good [OF c Cons.prems(2,3)]
  then have "session_good cfg (tx_session tx1)" "config rt1 = cfg"
    by (simp_all add: abort_ok_def closing_ok_def)
  note IH = Cons.IH [OF r this]
  have "no_segment_at (tx_session tx') i" using g IH unfolding abort_ok_def closing_ok_def by blast
  with IH g abort_ok_trans [of env cfg tx tx1 tx'] show ?case by simp
qed

end
