(* ===== verification/Segment_Claims.thy ===== *)
theory Segment_Claims
  imports Segments
begin

text \<open>
  What a frame, an abort and an admission do to collected transitions, with the run their
  witnesses use: an Agent whose segment reaches TMax in the frame it acts in.
\<close>

section \<open>A concrete run\<close>

definition demo_cfg :: training_config where
  "demo_cfg = default_config\<lparr>run_mode := kTraining, expected_obs_dim := 1, expected_action_dim := 2,
     action_mask_mode := ''required'', gamma := Fin (1/2), gae_lambda := Fin (1/2), tmax := 2,
     training_temperature := Fin 1\<rparr>"

definition demo_env :: "unit environ" where
  "demo_env = \<lparr>run_session = \<lambda>h obs n. Inr ([Fin 0, Fin 0], Fin 4), infer_ms = \<lambda>n. Fin 1,
     math_exp = \<lambda>x. Fin 1, math_log = \<lambda>x. Fin 0, draw_index = \<lambda>ws g. (1, g),
     byte_size = \<lambda>e. 100 * length (samples e), transition_ms = \<lambda>i. 7, reward_at = \<lambda>i. 0\<rparr>"

definition demo_manifest :: model_manifest where
  "demo_manifest = empty_manifest\<lparr>wire_identity := Some \<lparr>id_lineage = ''run'', id_step = Some 9\<rparr>,
     model_path := ''m9''\<rparr>"

definition demo_runtime :: "unit runtime" where
  "demo_runtime = (init_runtime demo_cfg ''r.'' ''ai-0'' 5 () (new_journal no_service 10 1000 5 0))
     \<lparr>active_manifest := demo_manifest, loaded_session := Some 9, current_model_path := ''m9'',
      distributor := init_dist\<lparr>accepting := True, ready := True, delivery_state := DsHealthy\<rparr>\<rparr>"

definition demo_agent :: agent where
  "demo_agent = new_agent\<lparr>has_pending_action := True, pending_action := 1,
     pending_action_frame_id := 5, pending_log_prob := Fin (-1), pending_value := Fin 2,
     pending_obs := [Fin 2], pending_action_mask := [False, True], segment_open := True,
     segment_id := ''seg'', pinned_model := demo_manifest,
     pinned_prepared_model := \<lparr>prep_session = Some 9, prep_path = ''m9''\<rparr>,
     segment_transitions := [sample_transition 4 1 2 3 (1/2)]\<rparr>"

definition demo_session :: session where
  "demo_session = (new_session ''session-1'')\<lparr>agents := [(0, demo_agent)],
     current_episode_id := ''ep'', current_episode_mode := ModeTraining,
     phase := PhaseEpisodeRunning, scope := TrainingAgentSegment\<rparr>"

definition demo_input :: "bool \<Rightarrow> task_input" where
  "demo_input done = \<lparr>in_agent = 0, in_terminal = done, in_observation = [Fin 8],
     in_mask = [False, True],
     in_reward = \<lparr>rw_valid = True, rw_error = [], rw_total = Fin 1, rw_items = [(''goal'', Fin 1)]\<rparr>\<rparr>"

lemma demo_session_good: "session_good demo_cfg demo_session"
  by (simp add: good_def demo_session_def agent_good_def demo_agent_def HasModelIdentity_def
      demo_manifest_def prepared_valid_def segment_ok_def transition_ok_def demo_cfg_def
      default_config_def sample_transition_def mask_valid_def)

definition demo_agent2 :: agent where
  "demo_agent2 = new_agent\<lparr>has_pending_action := True, pending_action_frame_id := 6,
     pending_value := Fin 4, pending_obs := [Fin 8], pending_action_mask := [False, True],
     segment_open := True, segment_id := ''seg'', pinned_model := demo_manifest,
     pinned_prepared_model := \<lparr>prep_session = Some 9, prep_path = ''m9''\<rparr>,
     segment_transitions := sample_segment\<rparr>"

definition demo_session2 :: session where
  "demo_session2 = demo_session\<lparr>agents := [(0, demo_agent2)]\<rparr>"

lemma demo_session2_good: "session_good demo_cfg demo_session2"
  using sample_segment_ok
  by (simp add: good_def demo_session2_def demo_session_def agent_good_def demo_agent2_def
      HasModelIdentity_def demo_manifest_def prepared_valid_def demo_cfg_def default_config_def
      sample_segment_def sample_transition_def)

lemma demo_chunks:
  "length xs = 2 \<Longrightarrow> \<exists>e. chunk_loop (\<lambda>e. 100 * length (samples e)) demo_cfg pid sid identity 0 xs = Inr [e]"
  by (auto simp: numeral_2_eq_2 length_Suc_conv chunk_loop.simps envelope_head_def Let_def demo_cfg_def
      default_config_def)

lemma demo_cfg_fields:
  "gamma demo_cfg = Fin (1/2)" "gae_lambda demo_cfg = Fin (1/2)" "expected_obs_dim demo_cfg = 1"
  "expected_action_dim demo_cfg = 2" "action_mask_mode demo_cfg = ''required''"
  by (simp_all add: demo_cfg_def)

definition demo_closable :: "agent \<Rightarrow> bool" where
  "demo_closable a \<longleftrightarrow> segment_transitions a = sample_segment \<and> segment_open a \<and> segment_id a = ''seg'' \<and>
     pinned_model a = demo_manifest \<and> prepared_valid (pinned_prepared_model a)"

lemma project_length:
  "ProjectProcessedSegment raws advs vts sid identity od ac mode = Inr items \<Longrightarrow>
     length items = length raws"
  by (auto simp: ProjectProcessedSegment_def and_then_Inr dest: project_loop_Inr split: if_splits)

lemma demo_close:
  assumes a: "map_of (agents (tx_session tx)) 0 = Some a" "demo_closable a" and rt: "config rt = demo_cfg"
    and e: "EstimateRolloutSegment sample_segment (Fin (1/2)) (Fin (1/2)) v = Inr (advs, vts)"
    and r: "reason = EnvironmentTerminated \<and> \<not> b \<and> v = Fin 0 \<or>
      reason = ClientControlledClose \<and> b \<and> isfinite v"
  shows "\<exists>tx'. PrepareAgentSegmentClose demo_env rt 0 reason v b tx = Inr tx' \<and>
    agents (tx_session tx') = put_at 0 (reset_segment a) (agents (tx_session tx))"
proof -
  have m: "HasModelIdentity demo_manifest" "sample_segment \<noteq> []"
    "byte_size demo_env = (\<lambda>e. 100 * length (samples e))" "id_lineage (manifest_identity demo_manifest) \<noteq> []"
    "id_step (manifest_identity demo_manifest) \<noteq> None"
    by (simp_all add: HasModelIdentity_def demo_manifest_def manifest_identity_def sample_segment_def
        demo_env_def)
  obtain items where items: "ProjectProcessedSegment sample_segment advs vts ''seg''
      (manifest_identity demo_manifest) 1 2 ''required'' = Inr items"
    using project_estimated [OF sample_segment_ok _ _ e _ m(4,5), of "''seg''"] by auto
  have "length items = 2" using project_length [OF items] by (simp add: sample_segment_def)
  from demo_chunks [OF this] obtain c where "chunk_loop (\<lambda>e. 100 * length (samples e)) demo_cfg
      \<lparr>component = ''sample-distributor'', instance_id = producer_instance_id rt,
       lifecycle_epoch = producer_lifecycle_epoch rt\<rparr> ''seg'' (manifest_identity demo_manifest) 0 items
      = Inr [c]" by blast
  then show ?thesis
    using a(2) r by (auto simp: demo_closable_def PrepareAgentSegmentClose_def a(1) rt m(1-3)
        demo_cfg_fields e items Let_def)
qed

text \<open>What a successful reservation leaves behind.\<close>

lemma Reserve_effect:
  assumes "ReserveEnqueueEnvelopeSet cfg bs es d = (r, rid, err, d')"
  shows "queue d' = queue d \<and> (r \<noteq> Reserved \<longrightarrow> d' = d) \<and> (es = [] \<longrightarrow> d' = d \<and> rid = 0) \<and>
    (r = Reserved \<and> es \<noteq> [] \<longrightarrow> rid \<noteq> 0 \<and> rid = active_reservation_id d' \<and>
       map q_envelope (reserved_items d') = es \<and> \<not> terminal_for_admission d' \<and>
       delivery_state d' = DsHealthy \<and>
       active_reservation_delivery_generation d' = delivery_generation d')"
proof (cases "r = Reserved \<and> es \<noteq> []")
  case False
  with assms show ?thesis
    by (auto simp: ReserveEnqueueEnvelopeSet_def Let_def split: if_splits option.splits)
next
  case True
  have items: "map q_envelope items = es" if "reservation_items bs es t b = Some (items, t', b')"
    for items t b t' b' and es :: "envelope list"
    using that by (induction bs es t b arbitrary: items t' b' rule: reservation_items.induct)
      (auto simp: Let_def make_item_def split: if_splits)
  from True assms obtain items ts tb where i: "reservation_items bs es 0 0 = Some (items, ts, tb)"
    and c: "\<not> terminal_for_admission d" "delivery_state d = DsHealthy"
      "rid = (if next_reservation_id d = 0 then 1 else next_reservation_id d)"
      "d' = d\<lparr>active_reservation_id := rid, next_reservation_id := rid + 1,
                reserved_items := items, reserved_transitions := ts,
                reserved_estimated_bytes := tb,
                active_reservation_delivery_generation := delivery_generation d,
                active_reservation_sealed := False\<rparr>"
    by (auto simp: ReserveEnqueueEnvelopeSet_def Let_def split: if_splits option.splits)
  with items [OF i] True show ?thesis by (simp add: terminal_for_admission_def)
qed

section \<open>Guarantees\<close>

lemma finalize_close_act:
  assumes f: "finalize_inputs env inputs fr True tx rt = (Inr tx1, rt1)"
    and c: "close_inputs env inputs tx1 rt1 = (Inr tx2, rt2)"
    and a: "act_inputs env inputs fr tx2 rt2 = (Inr (tx3, acts), rt3)"
    and good: "session_good (config rt) (tx_session tx)" and d: "distinct (map in_agent inputs)"
    and t: "\<And>i. 0 < transition_ms env i"
  shows "session_good (config rt) (tx_session tx3) \<and> output_ok env (config rt) tx tx3 \<and>
    cached (tx_session tx3) + samples_of (tx_output tx3) =
      cached (tx_session tx) + samples_of (tx_output tx) +
        (\<Sum>i\<leftarrow>inputs. pending_at (tx_session tx) (in_agent i)) \<and>
    map fst acts = map in_agent (filter (\<lambda>i. \<not> in_terminal i) inputs)"
proof -
  let ?f = "Map.empty ++ input_map inputs"
  note 1 = finalize_inputs_good [OF f good _ d refl t, simplified]
  have g1: "good (config rt) (input_map inputs) (tx_session tx1)" "config rt1 = config rt"
    using 1 by simp_all
  note 2 = close_inputs_good [OF c g1]
  have g2: "good (config rt) (input_map inputs) (tx_session tx2)" using 2 by (simp add: closing_ok_def)
  have m: "input_map inputs (in_agent i) = Some (in_observation i)" if "i \<in> set inputs" for i
    using that d by (auto simp: input_map_def map_of_eq_Some_iff distinct_map comp_def)
  have n: "j \<in> in_agent ` set inputs" if "input_map inputs j \<noteq> None" for j
    using that by (auto simp: input_map_def map_of_eq_None_iff image_image)
  note 3 = act_inputs_good [OF a g2 d]
  have "session_good (config rt) (tx_session tx3) \<and> output_ok env (config rt) tx2 tx3 \<and>
      tx_output tx3 = tx_output tx2 \<and> cached (tx_session tx3) = cached (tx_session tx2) \<and>
      map fst acts = map in_agent (filter (\<lambda>i. \<not> in_terminal i) inputs)"
    by (rule 3) (use 2 m n in \<open>auto\<close>)
  moreover have "output_ok env (config rt) tx tx1" "output_ok env (config rt) tx1 tx2"
    using 1 2 by (simp_all add: closing_ok_def)
  ultimately show ?thesis
    using 1 2 output_ok_trans [of env "config rt"] unfolding closing_ok_def by (metis (no_types, lifting) add.assoc add.commute)
qed

lemma session_cong:
  assumes "agents s' = agents s"
  shows "good cfg f s' = good cfg f s" "cached s' = cached s" "no_segment_at s' i = no_segment_at s i"
  by (simp_all add: good_def cached_def no_segment_at_def assms)

lemma frame_effect:
  assumes "PrepareFrame env inputs frame_no True (new_txn rt s) rt = (Inr (tx, acts), rt')"
    and "session_good (config rt) s" "distinct (map in_agent inputs)" "\<And>i. 0 < transition_ms env i"
  shows "session_good (config rt) (tx_session tx) \<and>
    cached (tx_session tx) + samples_of (tx_output tx) =
      cached s + (\<Sum>i\<leftarrow>inputs. pending_at s (in_agent i)) \<and>
    tx_transitions tx = produced_unique_transitions rt + samples_of (tx_output tx) \<and>
    tx_envelopes tx = produced_unique_envelopes rt + int (length (tx_output tx)) \<and>
    list_all (envelope_fits (byte_size env) (config rt)) (tx_output tx) \<and>
    map fst acts = map in_agent (filter (\<lambda>i. \<not> in_terminal i) inputs)"
proof -
  from assms(1) obtain tx1 rt1 tx2 rt2 tx3 where
    f: "finalize_inputs env inputs frame_no True (new_txn rt s) rt = (Inr tx1, rt1)"
    and c: "close_inputs env inputs tx1 rt1 = (Inr tx2, rt2)"
    and a: "act_inputs env inputs frame_no tx2 rt2 = (Inr (tx3, acts), rt')"
    and tx: "tx = end_frame frame_no tx3"
    by (auto simp: PrepareFrame_def split: prod.splits sum.splits)
  have n: "tx_session (new_txn rt s) = s" "tx_output (new_txn rt s) = []"
    "tx_transitions (new_txn rt s) = produced_unique_transitions rt"
    "tx_envelopes (new_txn rt s) = produced_unique_envelopes rt" by (simp_all add: new_txn_def)
  note r = finalize_close_act [OF f c a, unfolded n, OF assms(2,3,4)]
  have "good (config rt) (\<lambda>_. None) (tx_session tx) = good (config rt) (\<lambda>_. None) (tx_session tx3)"
    "cached (tx_session tx) = cached (tx_session tx3)"
    by (simp_all add: tx good_def cached_def)
  with r show ?thesis by (simp add: output_ok_def n tx)
qed

text \<open>C11: a training frame that is prepared on a session whose segments are well formed loses and
  invents nothing: every pending action becomes exactly one transition, which is either still in its
  Agent's segment or in one of the envelopes put out; these respect the configured sizes, the
  counters agree with them, each Agent that did not end gets one action, and the segments are well
  formed again.\<close>

theorem frame_conserves_transitions:
  assumes "PrepareFrame env inputs frame_no True (new_txn rt s) rt = (Inr (tx, acts), rt')"
    and "session_good (config rt) s" "distinct (map in_agent inputs)" "\<And>i. 0 < transition_ms env i"
  shows "session_good (config rt) (tx_session tx) \<and>
    cached (tx_session tx) + samples_of (tx_output tx) =
      cached s + (\<Sum>i\<leftarrow>inputs. pending_at s (in_agent i)) \<and>
    tx_transitions tx = produced_unique_transitions rt + samples_of (tx_output tx) \<and>
    tx_envelopes tx = produced_unique_envelopes rt + int (length (tx_output tx)) \<and>
    list_all (envelope_fits (byte_size env) (config rt)) (tx_output tx) \<and>
    map fst acts = map in_agent (filter (\<lambda>i. \<not> in_terminal i) inputs)"
  using frame_effect [OF assms] .

lemma abort_effect:
  assumes "PrepareAbort env True (new_txn rt s) rt = (Inr tx, rt')" "session_good (config rt) s"
  shows "samples_of (tx_output tx) = cached s \<and>
    tx_transitions tx = produced_unique_transitions rt + cached s \<and>
    tx_quarantined tx = quarantined_transition_count rt \<and>
    list_all (envelope_fits (byte_size env) (config rt)) (tx_output tx) \<and>
    (\<forall>i. no_segment_at (tx_session tx) i) \<and> phase (tx_session tx) = PhaseAborted \<and>
    session_good (config rt) (tx_session tx) \<and> cached (tx_session tx) = 0"
proof -
  from assms(1) obtain tx1 rt1 where
    a: "abort_agents env True (map fst (agents (tx_session (new_txn rt s)))) (new_txn rt s) rt = (Inr tx1, rt1)"
    and tx: "tx = tx1\<lparr>tx_session := ReleaseEpisodePolicy ((tx_session tx1)\<lparr>phase := PhaseAborted\<rparr>)\<rparr>"
    by (auto simp: PrepareAbort_def split: prod.splits sum.splits)
  have n: "tx_session (new_txn rt s) = s" "tx_output (new_txn rt s) = []"
    "tx_transitions (new_txn rt s) = produced_unique_transitions rt"
    "tx_quarantined (new_txn rt s) = quarantined_transition_count rt" by (simp_all add: new_txn_def)
  note g = abort_agents_good [OF a _ refl, unfolded n, OF assms(2)]
  then have keys: "map fst (agents (tx_session tx1)) = map fst (agents s)"
    by (simp add: abort_ok_def closing_ok_def n)
  have d: "distinct (map fst (agents (tx_session tx1)))"
    using assms(2) unfolding keys by (simp add: good_def)
  have none: "no_segment_at (tx_session tx1) i" for i
  proof (cases "i \<in> fst ` set (agents s)")
    case True
    with g show ?thesis by auto
  next
    case False
    then have "i \<notin> fst ` set (agents (tx_session tx1))" using keys by (metis list.set_map)
    then show ?thesis by (simp add: no_segment_at_def map_of_eq_None_iff [THEN iffD2])
  qed
  have "int (length (segment_transitions a)) = 0" if "(i, a) \<in> set (agents (tx_session tx1))" for i a
    using none [of i] map_of_is_SomeI [OF d that] by (simp add: no_segment_at_def)
  moreover have "(\<Sum>x\<leftarrow>xs. f x) = (0 :: int)" if "\<And>x. x \<in> set xs \<Longrightarrow> f x = 0"
    for f and xs :: "(int \<times> agent) list"
    using that by (induction xs) auto
  then have "(\<Sum>x\<leftarrow>agents (tx_session tx1). case x of (_, a) \<Rightarrow> int (length (segment_transitions a))) = 0"
    using calculation by fastforce
  then have "cached (tx_session tx1) = 0" by (simp add: cached_def)
  moreover have "agents (tx_session tx) = agents (tx_session tx1)" by (simp add: tx ReleaseEpisodePolicy_def)
  note session_cong [OF this]
  ultimately show ?thesis using g none
    by (simp add: abort_ok_def closing_ok_def output_ok_def n tx ReleaseEpisodePolicy_def)
qed

text \<open>A controlled abort of a training Episode whose segments are well formed delivers every
  collected transition: all of them go into envelopes, none is quarantined, and no Agent keeps a
  segment.\<close>

theorem abort_delivers_everything:
  assumes "PrepareAbort env True (new_txn rt s) rt = (Inr tx, rt')" "session_good (config rt) s"
  shows "samples_of (tx_output tx) = cached s \<and>
    tx_transitions tx = produced_unique_transitions rt + cached s \<and>
    tx_quarantined tx = quarantined_transition_count rt \<and>
    list_all (envelope_fits (byte_size env) (config rt)) (tx_output tx) \<and>
    (\<forall>i. no_segment_at (tx_session tx) i) \<and> phase (tx_session tx) = PhaseAborted"
  using abort_effect [OF assms] by simp

text \<open>closing a well-formed segment for a consistent reason fails only when the estimator does or
  when a single sample does not fit into an envelope; validation never rejects its own data.\<close>

theorem close_failure_causes:
  assumes "PrepareAgentSegmentClose env rt i reason bootstrap applied tx = Inl err"
    and "map_of (agents (tx_session tx)) i = Some a" "agent_good (config rt) f a"
    and "segment_transitions a \<noteq> []" "0 < expected_obs_dim (config rt)"
    and "0 < expected_action_dim (config rt)"
    and "reason = EnvironmentTerminated \<and> \<not> applied \<and> bootstrap = Fin 0 \<or>
         reason \<noteq> EnvironmentTerminated \<and> reason \<noteq> CloseUnspecified \<and> applied \<and> isfinite bootstrap"
  shows "EstimateRolloutSegment (segment_transitions a) (gamma (config rt)) (gae_lambda (config rt))
      bootstrap = Inl err \<or> err = ''one processed sample exceeds envelope_max_bytes''"
proof (cases "EstimateRolloutSegment (segment_transitions a) (gamma (config rt)) (gae_lambda (config rt))
    bootstrap")
  case (Inl e)
  have "segment_open a" "segment_id a \<noteq> []" "HasModelIdentity (pinned_model a)"
    "prepared_valid (pinned_prepared_model a)" using assms(3,4) by (auto simp: agent_good_def)
  with assms Inl show ?thesis by (auto simp: PrepareAgentSegmentClose_def Let_def)
next
  case (Inr r)
  obtain advs vts where r: "r = (advs, vts)" by force
  have o: "segment_open a" "segment_id a \<noteq> []" "HasModelIdentity (pinned_model a)"
    "prepared_valid (pinned_prepared_model a)" using assms(3,4) by (auto simp: agent_good_def)
  have ok: "segment_ok (expected_obs_dim (config rt)) (expected_action_dim (config rt))
      (action_mask_mode (config rt)) (segment_transitions a)" using assms(3) by (simp add: agent_good_def)
  have "id_lineage (manifest_identity (pinned_model a)) \<noteq> []" "id_step (manifest_identity (pinned_model a)) \<noteq> None"
    using o(3) by (auto simp: HasModelIdentity_def manifest_identity_def split: option.splits)
  then obtain items where items: "ProjectProcessedSegment (segment_transitions a) advs vts (segment_id a)
      (manifest_identity (pinned_model a)) (expected_obs_dim (config rt)) (expected_action_dim (config rt))
      (action_mask_mode (config rt)) = Inr items"
    using project_estimated [OF ok assms(5,6) Inr [unfolded r] o(2)] by blast
  from assms(1,2,4,7) o Inr items r have "chunk_loop (byte_size env) (config rt)
      \<lparr>component = ''sample-distributor'', instance_id = producer_instance_id rt,
       lifecycle_epoch = producer_lifecycle_epoch rt\<rparr>
      (segment_id a) (manifest_identity (pinned_model a)) 0 items = Inl err"
    by (auto simp: PrepareAgentSegmentClose_def Let_def and_then_Inl)
  then show ?thesis using chunk_loop_error by blast
qed

text \<open>the envelopes of one segment have pairwise different identifiers, and segments opened under
  different sequence numbers share none, whatever session, Episode or Agent they belong to.\<close>

theorem envelope_ids_unique:
  assumes "chunk_loop bs cfg pid (segment_name p s e a m) identity 0 xs = Inr es"
    and "chunk_loop bs' cfg' pid' (segment_name p' s' e' a' n) identity' 0 ys = Inr es'" "m \<noteq> n"
  shows "distinct (map envelope_id es) \<and> set (map envelope_id es) \<inter> set (map envelope_id es') = {}"
proof -
  note r = chunk_loop_result [OF assms(1)] and r' = chunk_loop_result [OF assms(2)]
  have "distinct (map envelope_id es)"
    using r by (auto simp: distinct_conv_nth)
  moreover have "envelope_id (es ! i) \<noteq> envelope_id (es' ! j)" if "i < length es" "j < length es'" for i j
    using r r' that assms(3) envelope_id_inject segment_name_inject by metis
  ultimately show ?thesis by (auto simp: in_set_conv_nth)
qed

text \<open>admission is all or nothing.  With no sender step in between, a prepared transaction either
  has all of its envelopes, in order, at the end of the outbound queue, or the queue is as before;
  in both cases no session and no produced counter changes.\<close>

theorem admission_all_or_nothing:
  "case Admit env id id record_latency elapsed tx rt of (r, err, rt') \<Rightarrow>
     map q_envelope (queue (distributor rt')) = map q_envelope (queue (distributor rt)) @
       (if r = Reserved then tx_output tx else []) \<and>
     session_mgr rt' = session_mgr rt \<and>
     produced_unique_transitions rt' = produced_unique_transitions rt"
proof -
  obtain r rid err d1 where R: "ReserveEnqueueEnvelopeSet (config rt) (byte_size env) (tx_output tx)
      (distributor rt) = (r, rid, err, d1)" by (metis surj_pair)
  note Q = Reserve_effect [OF R]
  show ?thesis
  proof (cases "r = Reserved")
    case False
    with Q show ?thesis by (simp add: Admit_def R)
  next
    case True
    show ?thesis
    proof (cases "tx_output tx = []")
      case empty: True
      with True Q show ?thesis
        by (simp add: Admit_def R [unfolded empty] SealEnqueueEnvelopeSet_def CommitEnqueueEnvelopeSet_def)
    next
      case False
      with True Q have q: "rid \<noteq> 0" "rid = active_reservation_id d1" "reserved_items d1 \<noteq> []"
        "\<not> terminal_for_admission d1" "delivery_state d1 = DsHealthy"
        "active_reservation_delivery_generation d1 = delivery_generation d1"
        "map q_envelope (reserved_items d1) = tx_output tx"
        "queue d1 = queue (distributor rt)" by auto
      then have "SealEnqueueEnvelopeSet rid d1 = (Sealed, [], d1\<lparr>active_reservation_sealed := True\<rparr>)"
        by (simp add: SealEnqueueEnvelopeSet_def)
      with q True False show ?thesis
        by (simp add: Admit_def R CommitEnqueueEnvelopeSet_def splice_reservation_def
            release_reservation_def)
    qed
  qed
qed

section \<open>Instances\<close>

lemma terminal_estimate:
  "EstimateRolloutSegment sample_segment (Fin (1/2)) (Fin (1/2)) (Fin 0)
     = Inr ([Fin (13/4), Fin (-1)], [Fin (15/4), Fin 1])"
  by (simp add: EstimateRolloutSegment_def estimate_with_def gae_loop.simps gae_delta_def
      gae_advantage_def fp_eval sample_segment_def sample_transition_def small_in_range Let_def)

lemma demo_finalize:
  "\<exists>s a. FinalizePendingTransition demo_env demo_cfg 0 (in_reward (demo_input True)) [Fin 8] True
     demo_session = Inr s \<and> agents s = [(0, a)] \<and> demo_closable a"
  by (simp add: FinalizePendingTransition_def demo_session_def demo_agent_def demo_input_def new_agent_def
      BuildRawRolloutTransition_def demo_cfg_fields demo_env_def demo_manifest_def HasModelIdentity_def
      prepared_valid_def mask_valid_def note_behavior_model_def Let_def model_lineage_id_def
      manifest_identity_def put_at_def demo_closable_def clear_pending_def sample_segment_def
      sample_transition_def)

lemma demo_runtime_fields: "config demo_runtime = demo_cfg" "produced_unique_transitions demo_runtime = 0"
  "quarantined_transition_count demo_runtime = 0"
  by (simp_all add: demo_runtime_def init_runtime_def)

lemma demo_frame:
  "\<exists>tx acts rt'. PrepareFrame demo_env [demo_input True] 6 True (new_txn demo_runtime demo_session)
     demo_runtime = (Inr (tx, acts), rt')"
proof -
  obtain s a where f: "FinalizePendingTransition demo_env demo_cfg 0 (in_reward (demo_input True)) [Fin 8]
      True demo_session = Inr s" "agents s = [(0, a)]" "demo_closable a" using demo_finalize by blast
  let ?a = "a\<lparr>done_collected := True, terminal_frame_id := 6\<rparr>"
  define tx1 where "tx1 = set_agent 0 ?a ((new_txn demo_runtime demo_session)\<lparr>tx_session := s\<rparr>)"
  have i: "in_agent (demo_input True) = 0" "in_terminal (demo_input True)"
    "in_observation (demo_input True) = [Fin 8]" by (simp_all add: demo_input_def)
  have 1: "finalize_inputs demo_env [demo_input True] 6 True (new_txn demo_runtime demo_session) demo_runtime
      = (Inr tx1, demo_runtime)"
    using f by (simp add: i demo_runtime_fields new_txn_def tx1_def agent_at_def)
  have a: "map_of (agents (tx_session tx1)) 0 = Some ?a" using f(2) by (simp add: tx1_def put_at_def)
  have c: "demo_closable ?a" using f(3) by (simp add: demo_closable_def)
  obtain tx2 where 2: "PrepareAgentSegmentClose demo_env demo_runtime 0 EnvironmentTerminated (Fin 0) False tx1
      = Inr tx2" using demo_close [OF a c demo_runtime_fields(1) terminal_estimate] by blast
  have "segment_open a" "segment_transitions a \<noteq> []"
    using f(3) by (simp_all add: demo_closable_def sample_segment_def)
  then have "close_inputs demo_env [demo_input True] tx1 demo_runtime = (Inr (tx2\<lparr>tx_closed := tx_closed tx2 + 1\<rparr>), demo_runtime)"
    using a by (simp add: close_input_def i agent_at_def txn_Close_def 2)
  with 1 show ?thesis by (simp add: PrepareFrame_def i)
qed

theorem frame_conserves_transitions_witness:
  "\<exists>tx acts rt'. PrepareFrame demo_env [demo_input True] 6 True (new_txn demo_runtime demo_session)
     demo_runtime = (Inr (tx, acts), rt') \<and> cached (tx_session tx) + samples_of (tx_output tx) = 2"
proof -
  obtain tx acts rt' where r: "PrepareFrame demo_env [demo_input True] 6 True
      (new_txn demo_runtime demo_session) demo_runtime = (Inr (tx, acts), rt')" using demo_frame by blast
  have "cached demo_session = 1" "pending_at demo_session 0 = 1" "in_agent (demo_input True) = 0"
    by (simp_all add: cached_def pending_at_def demo_session_def demo_agent_def demo_input_def)
  with frame_conserves_transitions [OF r] demo_session_good
  have "cached (tx_session tx) + samples_of (tx_output tx) = 2"
    by (simp add: demo_runtime_fields demo_env_def)
  with r show ?thesis by blast
qed

lemma demo_abort:
  "\<exists>tx rt'. PrepareAbort demo_env True (new_txn demo_runtime demo_session2) demo_runtime = (Inr tx, rt')"
proof -
  let ?tx = "new_txn demo_runtime demo_session2"
  have a: "map_of (agents (tx_session ?tx)) 0 = Some demo_agent2"
    by (simp add: new_txn_def demo_session2_def)
  have c: "demo_closable demo_agent2" by (simp add: demo_closable_def demo_agent2_def prepared_valid_def)
  obtain tx2 where 2: "PrepareAgentSegmentClose demo_env demo_runtime 0 ClientControlledClose (Fin 4) True ?tx
      = Inr tx2" "agents (tx_session tx2) = put_at 0 (reset_segment demo_agent2) (agents (tx_session ?tx))"
    using demo_close [OF a c demo_runtime_fields(1) sample_estimate] by auto
  have f: "has_pending_action demo_agent2" "pending_value demo_agent2 = Fin 4" "segment_open demo_agent2"
    "segment_transitions demo_agent2 \<noteq> []" "agents (tx_session ?tx) = [(0, demo_agent2)]"
    by (simp_all add: demo_agent2_def sample_segment_def new_txn_def demo_session2_def)
  have "abort_close demo_env 0 demo_agent2 ?tx demo_runtime =
      (Inr (tx2\<lparr>tx_closed := tx_closed tx2 + 1, tx_excluded := tx_excluded tx2 + 1\<rparr>), demo_runtime)"
    using f by (simp add: abort_close_def txn_Close_def 2)
  then have "\<exists>tx3. abort_agent demo_env True 0 ?tx demo_runtime = (Inr tx3, demo_runtime)"
    using f by (simp add: abort_agent_def agent_at_def split: option.split)
  then show ?thesis using f(5) by (auto simp: PrepareAbort_def)
qed

theorem abort_delivers_everything_witness:
  "\<exists>tx rt'. PrepareAbort demo_env True (new_txn demo_runtime demo_session2) demo_runtime = (Inr tx, rt') \<and>
     samples_of (tx_output tx) = 2"
proof -
  obtain tx rt' where r: "PrepareAbort demo_env True (new_txn demo_runtime demo_session2) demo_runtime
      = (Inr tx, rt')" using demo_abort by blast
  have "cached demo_session2 = 2"
    by (simp add: cached_def demo_session2_def demo_agent2_def sample_segment_def)
  with abort_delivers_everything [OF r] demo_session2_good r show ?thesis
    by (auto simp: demo_runtime_fields)
qed

text \<open>An estimator failure: the configured discount is not a number.\<close>

definition bad_runtime :: "unit runtime" where
  "bad_runtime = demo_runtime\<lparr>config := demo_cfg\<lparr>gamma := NaN\<rparr>\<rparr>"

theorem close_failure_causes_witness:
  "EstimateRolloutSegment sample_segment NaN (Fin (1/2)) (Fin 4)
     = Inl ''rollout estimator inputs are empty or non-finite''"
proof -
  let ?tx = "new_txn bad_runtime demo_session2"
  have a: "map_of (agents (tx_session ?tx)) 0 = Some demo_agent2"
    by (simp add: new_txn_def demo_session2_def)
  have c: "gamma (config bad_runtime) = NaN" "gae_lambda (config bad_runtime) = Fin (1/2)"
    "expected_obs_dim (config bad_runtime) = 1" "expected_action_dim (config bad_runtime) = 2"
    "action_mask_mode (config bad_runtime) = ''required''"
    by (simp_all add: bad_runtime_def demo_cfg_fields)
  have g: "agent_good (config bad_runtime) None demo_agent2"
    using demo_session2_good c unfolding good_def
    by (simp add: demo_session2_def agent_good_def demo_cfg_fields)
  have s: "segment_transitions demo_agent2 = sample_segment" "segment_open demo_agent2"
    "segment_id demo_agent2 = ''seg''" "HasModelIdentity (pinned_model demo_agent2)"
    "prepared_valid (pinned_prepared_model demo_agent2)" "sample_segment \<noteq> []"
    by (simp_all add: demo_agent2_def HasModelIdentity_def demo_manifest_def prepared_valid_def
        sample_segment_def)
  have "PrepareAgentSegmentClose demo_env bad_runtime 0 ClientControlledClose (Fin 4) True ?tx
      = Inl ''rollout estimator inputs are empty or non-finite''"
    by (simp add: PrepareAgentSegmentClose_def a s c EstimateRolloutSegment_def estimate_with_def)
  from close_failure_causes [OF this a g] s c show ?thesis by simp
qed

definition one_sample :: "processed_transition list" where
  "one_sample = [project_item ''seg'' no_identity 0 (sample_transition 4 1 2 3 (1/2)) (Fin 1) (Fin 1)]"

lemma demo_chunks1:
  "\<exists>e. chunk_loop (\<lambda>e. 100 * length (samples e)) demo_cfg pid sid identity 0 one_sample = Inr [e]"
  by (simp add: one_sample_def chunk_loop.simps envelope_head_def Let_def demo_cfg_def default_config_def)

theorem envelope_ids_unique_witness:
  "\<exists>e e'. chunk_loop (\<lambda>e. 100 * length (samples e)) demo_cfg no_service
       (segment_name ''p'' ''s'' ''e'' 0 1) no_identity 0 one_sample = Inr [e] \<and>
     chunk_loop (\<lambda>e. 100 * length (samples e)) demo_cfg no_service
       (segment_name ''p'' ''s'' ''e'' 0 2) no_identity 0 one_sample = Inr [e'] \<and>
     envelope_id e \<noteq> envelope_id e'"
proof -
  obtain e e' where c: "chunk_loop (\<lambda>e. 100 * length (samples e)) demo_cfg no_service
       (segment_name ''p'' ''s'' ''e'' 0 1) no_identity 0 one_sample = Inr [e]"
     "chunk_loop (\<lambda>e. 100 * length (samples e)) demo_cfg no_service
       (segment_name ''p'' ''s'' ''e'' 0 2) no_identity 0 one_sample = Inr [e']"
    using demo_chunks1 by blast
  with envelope_ids_unique [OF c] show ?thesis by simp
qed

end
