(* ===== verification/Breadth_First.thy ===== *)
theory Breadth_First
  imports Prelude "HOL-Library.While_Combinator"
begin

text \<open>
  The queue loop of \<open>maze/environment/map.cpp\<close> over any neighbour function: the distance array
  starts at \<open>-1\<close> and a cell enters the queue when it gets its distance.  The loop ends, and then
  holds exactly the lengths of the shortest walks from the source.
\<close>

definition visit :: "nat \<Rightarrow> int list \<times> nat list \<Rightarrow> nat \<Rightarrow> int list \<times> nat list" where
  "visit cur dq nxt =
     (case dq of (d, q) \<Rightarrow>
        if d ! nxt \<ge> 0 then (d, q) else (d[nxt := d ! cur + 1], q @ [nxt]))"

definition bfs_step :: "(nat \<Rightarrow> nat list) \<Rightarrow> int list \<times> nat list \<Rightarrow> int list \<times> nat list" where
  "bfs_step nbrs dq =
     (case dq of (d, q) \<Rightarrow> foldl (visit (hd q)) (d, tl q) (nbrs (hd q)))"

definition bfs :: "(nat \<Rightarrow> nat list) \<Rightarrow> nat \<Rightarrow> nat \<Rightarrow> int list option" where
  "bfs nbrs n source =
     map_option fst (while_option (\<lambda>(d, q). q \<noteq> []) (bfs_step nbrs)
       ((replicate n (-1))[source := 0], [source]))"

inductive walk :: "(nat \<Rightarrow> nat list) \<Rightarrow> nat \<Rightarrow> nat \<Rightarrow> nat \<Rightarrow> bool" for nbrs c where
  walk_refl: "walk nbrs c 0 c"
| walk_snoc: "walk nbrs c k x \<Longrightarrow> y \<in> set (nbrs x) \<Longrightarrow> walk nbrs c (Suc k) y"

inductive_cases walk_SucE: "walk nbrs c (Suc k) y"
inductive_simps walk_0 [simp]: "walk nbrs c 0 y"

section \<open>One turn of the loop\<close>

definition unseen :: "int list \<Rightarrow> nat" where
  "unseen d = card {c. c < length d \<and> d ! c < 0}"

lemma unseen_update:
  assumes "x < length d" "d ! x < 0" "0 \<le> v"
  shows "Suc (unseen (d[x := v])) = unseen d"
proof -
  have "{c. c < length d \<and> d ! c < 0} = insert x {c. c < length (d[x := v]) \<and> d[x := v] ! c < 0}"
    using assms by (auto simp: nth_list_update split: if_splits)
  then show ?thesis using assms by (simp add: unseen_def)
qed

definition reach_new :: "int list \<Rightarrow> nat \<Rightarrow> nat list \<Rightarrow> int list" where
  "reach_new d cur ns =
     map (\<lambda>c. if d ! c < 0 \<and> c \<in> set ns then d ! cur + 1 else d ! c) [0..<length d]"

lemma reach_new_simps [simp]:
  "length (reach_new d cur ns) = length d"
  "c < length d \<Longrightarrow> reach_new d cur ns ! c = (if d ! c < 0 \<and> c \<in> set ns then d ! cur + 1 else d ! c)"
  by (simp_all add: reach_new_def)

lemma reach_new_Cons:
  assumes "cur < length d" "0 \<le> d ! cur" "x < length d"
  shows "reach_new d cur (x # ns) =
    (if d ! x \<ge> 0 then reach_new d cur ns else reach_new (d[x := d ! cur + 1]) cur ns)"
  using assms by (auto intro!: nth_equalityI simp: nth_list_update)

lemma visit_fold:
  assumes "cur < length d" "0 \<le> d ! cur" "set ns \<subseteq> {..<length d}"
  shows "\<exists>new. foldl (visit cur) (d, q) ns = (reach_new d cur ns, q @ new) \<and>
    set new = {x \<in> set ns. d ! x < 0} \<and> unseen (reach_new d cur ns) + length new = unseen d"
  using assms
proof (induction ns arbitrary: d q)
  case Nil
  then show ?case by (auto simp: reach_new_def intro!: exI [of _ "[]"] simp: map_nth)
next
  case (Cons x ns)
  then have x: "x < length d" by simp
  show ?case
  proof (cases "d ! x \<ge> 0")
    case True
    then have r: "reach_new d cur (x # ns) = reach_new d cur ns"
      "foldl (visit cur) (d, q) (x # ns) = foldl (visit cur) (d, q) ns"
      using reach_new_Cons [OF Cons.prems(1,2) x] by (simp_all add: visit_def)
    have "{y \<in> set (x # ns). d ! y < 0} = {y \<in> set ns. d ! y < 0}" using True by auto
    then show ?thesis unfolding r using Cons.IH [of d q] Cons.prems by simp
  next
    case False
    let ?d = "d[x := d ! cur + 1]"
    have ne: "cur \<noteq> x" using False Cons.prems(2) by auto
    obtain new where new: "foldl (visit cur) (?d, q @ [x]) ns = (reach_new ?d cur ns, (q @ [x]) @ new)"
      "set new = {y \<in> set ns. ?d ! y < 0}" "unseen (reach_new ?d cur ns) + length new = unseen ?d"
      using Cons.IH [of ?d "q @ [x]"] Cons.prems ne by auto
    have r: "reach_new d cur (x # ns) = reach_new ?d cur ns"
      using reach_new_Cons [OF Cons.prems(1,2) x] False by simp
    have "?d ! y < 0 \<longleftrightarrow> d ! y < 0 \<and> y \<noteq> x" if "y < length d" for y
      using that Cons.prems(2) by (cases "y = x") simp_all
    then have "set (x # new) = {y \<in> set (x # ns). d ! y < 0}"
      using new(2) False Cons.prems(3) by auto
    moreover have "unseen (reach_new d cur (x # ns)) + length (x # new) = unseen d"
      using new(3) unseen_update [OF x, of "d ! cur + 1"] False Cons.prems(2) by (simp add: r)
    moreover have "foldl (visit cur) (d, q) (x # ns) = foldl (visit cur) (?d, q @ [x]) ns"
      using False by (simp add: visit_def)
    then have "foldl (visit cur) (d, q) (x # ns) = (reach_new d cur (x # ns), q @ (x # new))"
      using new(1) by (simp add: r)
    ultimately show ?thesis by blast
  qed
qed

section \<open>The invariant\<close>

locale grid_graph =
  fixes nbrs :: "nat \<Rightarrow> nat list" and n :: nat
  assumes nbrs_range: "c < n \<Longrightarrow> x \<in> set (nbrs c) \<Longrightarrow> x < n"
begin

definition bfs_inv :: "nat \<Rightarrow> int list \<times> nat list \<Rightarrow> bool" where
  "bfs_inv source dq \<longleftrightarrow>
     (case dq of (d, q) \<Rightarrow>
        length d = n \<and> source < n \<and> d ! source = 0 \<and>
        (\<forall>c<n. -1 \<le> d ! c) \<and>
        (\<forall>c\<in>set q. c < n \<and> 0 \<le> d ! c) \<and>
        (\<forall>c<n. 0 \<le> d ! c \<longrightarrow> walk nbrs source (nat (d ! c)) c) \<and>
        sorted (map (\<lambda>c. d ! c) q) \<and>
        (q \<noteq> [] \<longrightarrow> (\<forall>c<n. d ! c \<le> d ! hd q + 1)) \<and>
        (\<forall>c<n. 0 \<le> d ! c \<longrightarrow> c \<notin> set q \<longrightarrow>
           (\<forall>x\<in>set (nbrs c). 0 \<le> d ! x \<and> d ! x \<le> d ! c + 1)))"

lemma bfs_inv_init: "source < n \<Longrightarrow> bfs_inv source ((replicate n (-1))[source := 0], [source])"
  by (auto simp: bfs_inv_def nth_list_update walk_refl)

lemma bfs_inv_step:
  assumes "bfs_inv source (d, cur # q)"
  shows "bfs_inv source (bfs_step nbrs (d, cur # q)) \<and>
    (case bfs_step nbrs (d, cur # q) of (d', q') \<Rightarrow>
       unseen d' + length q' < unseen d + length (cur # q))"
proof -
  have I: "length d = n" "source < n" "d ! source = 0" "\<And>c. c < n \<Longrightarrow> -1 \<le> d ! c"
    "cur < n" "0 \<le> d ! cur" "\<And>c. c \<in> set q \<Longrightarrow> c < n \<and> 0 \<le> d ! c"
    "\<And>c. c < n \<Longrightarrow> 0 \<le> d ! c \<Longrightarrow> walk nbrs source (nat (d ! c)) c"
    "sorted (map (\<lambda>c. d ! c) q)" "\<And>c. c \<in> set q \<Longrightarrow> d ! cur \<le> d ! c"
    "\<And>c. c < n \<Longrightarrow> d ! c \<le> d ! cur + 1"
    "\<And>c x. c < n \<Longrightarrow> 0 \<le> d ! c \<Longrightarrow> c \<notin> set (cur # q) \<Longrightarrow> x \<in> set (nbrs c) \<Longrightarrow>
       0 \<le> d ! x \<and> d ! x \<le> d ! c + 1"
    using assms by (auto simp: bfs_inv_def)
  have ns: "set (nbrs cur) \<subseteq> {..<length d}" using nbrs_range [OF I(5)] I(1) by auto
  let ?d = "reach_new d cur (nbrs cur)"
  obtain new where new: "foldl (visit cur) (d, q) (nbrs cur) = (?d, q @ new)"
    "set new = {x \<in> set (nbrs cur). d ! x < 0}" "unseen ?d + length new = unseen d"
    using visit_fold [of cur d "nbrs cur" q] I(1,5,6) ns by auto
  have step: "bfs_step nbrs (d, cur # q) = (?d, q @ new)" by (simp add: bfs_step_def new(1))
  have old: "?d ! c = d ! c" if "c < n" "0 \<le> d ! c" for c using that I(1) by simp
  have fresh: "?d ! c = d ! cur + 1" if "c \<in> set new" for c
    using that new(2) nbrs_range [OF I(5)] I(1) by auto
  have val: "?d ! c = d ! c \<or> c \<in> set new \<and> ?d ! c = d ! cur + 1" if "c < n" for c
    using that new(2) I(1) by auto
  have newn: "c < n" if "c \<in> set new" for c using that new(2) nbrs_range [OF I(5)] by auto
  have below: "?d ! c \<le> d ! cur + 1" if "c < n" for c using val [OF that] I(11) [OF that] by auto
  have walks: "walk nbrs source (nat (?d ! c)) c" if "c < n" "0 \<le> ?d ! c" for c
  proof (cases "c \<in> set new")
    case True
    then have "c \<in> set (nbrs cur)" using new(2) by simp
    with walk_snoc [OF I(8) [OF I(5,6)], of c] fresh [OF True] I(6) show ?thesis
      by (simp add: nat_add_distrib)
  next
    case False
    with val [OF that(1)] I(8) that show ?thesis by auto
  qed
  have "map (\<lambda>c. ?d ! c) q = map (\<lambda>c. d ! c) q" using I(7) old by (intro map_cong) auto
  moreover have "map (\<lambda>c. ?d ! c) new = map (\<lambda>_. d ! cur + 1) new" using fresh by (intro map_cong) auto
  ultimately have q_vals: "map (\<lambda>c. ?d ! c) (q @ new) = map (\<lambda>c. d ! c) q @ map (\<lambda>_. d ! cur + 1) new"
    unfolding map_append by presburger
  have "sorted (map (\<lambda>_. v :: int) xs)" for v and xs :: "nat list" by (induction xs) auto
  then have sorts: "sorted (map (\<lambda>c. ?d ! c) (q @ new))"
    unfolding q_vals using I(7,9,11) by (auto simp: sorted_append)
  have heads: "?d ! c \<le> ?d ! hd (q @ new) + 1" if "q @ new \<noteq> []" "c < n" for c
  proof -
    have "hd (q @ new) \<in> set (q @ new)" using that(1) by (rule hd_in_set)
    then have "d ! cur \<le> ?d ! hd (q @ new)"
    proof (cases "hd (q @ new) \<in> set q")
      case True
      with I(7,10) old show ?thesis by metis
    next
      case False
      with \<open>hd (q @ new) \<in> set (q @ new)\<close> fresh show ?thesis by (metis Un_iff less_add_one order.strict_implies_order set_append)
    qed
    with below [OF that(2)] show ?thesis by simp
  qed
  have closed: "0 \<le> ?d ! x \<and> ?d ! x \<le> ?d ! c + 1"
    if c: "c < n" "0 \<le> ?d ! c" "c \<notin> set (q @ new)" and x: "x \<in> set (nbrs c)" for c x
  proof -
    have xn: "x < n" using nbrs_range c(1) x by blast
    have dc: "?d ! c = d ! c" using val [OF c(1)] c(3) by auto
    show ?thesis
    proof (cases "c = cur")
      case True
      then have "0 \<le> ?d ! x" using x xn I(1,6) by auto
      then show ?thesis using below [OF xn] dc True by simp
    next
      case False
      then have "0 \<le> d ! x \<and> d ! x \<le> d ! c + 1" using I(12) [of c x] c x dc by auto
      then show ?thesis using old [OF xn] dc by simp
    qed
  qed
  have lows: "-1 \<le> ?d ! c" if "c < n" for c using val [OF that] I(4) [OF that] I(6) by auto
  have queued: "c < n \<and> 0 \<le> ?d ! c" if "c \<in> set (q @ new)" for c
    using that I(6,7) fresh newn old by fastforce
  have "length ?d = n" "?d ! source = 0" using I(1-3) by simp_all
  then have "bfs_inv source (?d, q @ new)"
    unfolding bfs_inv_def prod.case
    by (intro conjI allI ballI impI) (use I(2) lows queued walks sorts heads closed in blast)+
  then show ?thesis using new(3) by (simp add: step)
qed

lemma bfs_step_smaller:
  assumes "bfs_inv source (d, q)" "q \<noteq> []"
  shows "bfs_inv source (bfs_step nbrs (d, q)) \<and>
    (\<lambda>(d, q). unseen d + length q) (bfs_step nbrs (d, q)) < (\<lambda>(d, q). unseen d + length q) (d, q)"
  using bfs_inv_step [of source d "hd q" "tl q"] assms
  by (cases "bfs_step nbrs (d, q)") simp

lemma bfs_terminates:
  assumes "source < n"
  shows "\<exists>d. bfs nbrs n source = Some d"
proof -
  have "\<exists>t. while_option (\<lambda>(d, q). q \<noteq> []) (bfs_step nbrs)
      ((replicate n (-1))[source := 0], [source]) = Some t"
  proof (rule measure_while_option_Some [where P = "bfs_inv source" and f = "\<lambda>(d, q). unseen d + length q"])
    fix s :: "int list \<times> nat list"
    assume "bfs_inv source s" "case s of (d, q) \<Rightarrow> q \<noteq> []"
    then show "bfs_inv source (bfs_step nbrs s) \<and>
        (case bfs_step nbrs s of (d, q) \<Rightarrow> unseen d + length q) <
        (case s of (d, q) \<Rightarrow> unseen d + length q)"
      using bfs_step_smaller by (cases s) simp
  qed (rule bfs_inv_init [OF assms])
  then show ?thesis by (auto simp: bfs_def)
qed

lemma bfs_result:
  assumes "bfs nbrs n source = Some d" "source < n"
  shows "bfs_inv source (d, [])"
proof -
  from assms(1) obtain q where w: "while_option (\<lambda>(d, q). q \<noteq> []) (bfs_step nbrs)
      ((replicate n (-1))[source := 0], [source]) = Some (d, q)" by (auto simp: bfs_def)
  have "bfs_inv source (d, q)"
  proof (rule while_option_rule [where P = "bfs_inv source", OF _ w bfs_inv_init [OF assms(2)]])
    fix s :: "int list \<times> nat list"
    assume "bfs_inv source s" "case s of (d, q) \<Rightarrow> q \<noteq> []"
    then show "bfs_inv source (bfs_step nbrs s)" using bfs_step_smaller by (cases s) simp
  qed
  moreover have "q = []" using while_option_stop [OF w] by simp
  ultimately show ?thesis by simp
qed

text \<open>A distance is never more than the length of any walk, and there is a walk of that length.\<close>

lemma bfs_walk:
  assumes "bfs_inv source (d, [])" "walk nbrs source k c"
  shows "c < n \<and> 0 \<le> d ! c \<and> d ! c \<le> int k"
  using assms(2)
proof (induction rule: walk.induct)
  case walk_refl
  show ?case using assms(1) by (simp add: bfs_inv_def)
next
  case (walk_snoc k x y)
  then have "0 \<le> d ! y \<and> d ! y \<le> d ! x + 1" using assms(1) by (auto simp: bfs_inv_def)
  with walk_snoc nbrs_range show ?case by auto
qed

text \<open>So the array holds exact distances, and \<open>-1\<close> where there is no walk.\<close>

lemma bfs_exact:
  assumes "bfs nbrs n source = Some d" "source < n" "c < n"
  shows "(0 \<le> d ! c \<longrightarrow> walk nbrs source (nat (d ! c)) c) \<and>
    (\<forall>k. walk nbrs source k c \<longrightarrow> 0 \<le> d ! c \<and> d ! c \<le> int k) \<and> (d ! c < 0 \<longrightarrow> d ! c = -1)"
proof -
  have i: "bfs_inv source (d, [])" using bfs_result [OF assms(1,2)] .
  have "walk nbrs source (nat (d ! c)) c" if "0 \<le> d ! c"
    using i that assms(3) by (simp add: bfs_inv_def)
  moreover have "-1 \<le> d ! c" using i assms(3) by (simp add: bfs_inv_def)
  ultimately show ?thesis using bfs_walk [OF i] by auto
qed

lemma bfs_length: "bfs nbrs n source = Some d \<Longrightarrow> source < n \<Longrightarrow> length d = n"
  using bfs_result by (simp add: bfs_inv_def)

end

end
