(* ===== verification/Maze_Map.thy ===== *)
theory Maze_Map
  imports Breadth_First
begin

text \<open>
  \<open>maze/environment/map\<close>: validation of the map a client sends, and the distance of every cell to
  the goal.  Coordinates are \<open>int\<close>; the bounds the code checks first keep all index arithmetic
  within 32 bit.  The loop is an option: \<open>None\<close> would be a run that never ends.
\<close>

section \<open>The code\<close>

record map_descriptor =
  md_map_id :: string
  md_columns :: u32
  md_rows :: u32
  md_size_microunits :: u32
  md_start_x :: int
  md_start_y :: int
  md_goal_x :: int
  md_goal_y :: int
  md_bitmap :: "8 word list"

record validated_map =
  vm_blocked :: "bool list"
  vm_distance :: "int list"
  vm_shortest :: int
  vm_max_finite :: int

definition kDirections :: "(int \<times> int) list" where
  "kDirections = [(0, 1), (1, 1), (1, 0), (1, -1), (0, -1), (-1, -1), (-1, 0), (-1, 1)]"

definition int_max :: int where "int_max = 2 ^ 31 - 1"

definition cols_of :: "map_descriptor \<Rightarrow> int" where "cols_of m = int (unat (md_columns m))"
definition rows_of :: "map_descriptor \<Rightarrow> int" where "rows_of m = int (unat (md_rows m))"

definition BasicShapeValid :: "map_descriptor \<Rightarrow> string + unit" where
  "BasicShapeValid m =
     (let in_bounds = (\<lambda>gx gy. gx \<ge> 0 \<and> gx < cols_of m \<and> gy \<ge> 0 \<and> gy < rows_of m)
      in if md_columns m = 0 \<or> md_rows m = 0 \<or> md_size_microunits m = 0
         then Inl ''unsupported map format or dimensions''
         else if cols_of m * rows_of m > int_max \<or>
                 int (length (md_bitmap m)) \<noteq> cols_of m * rows_of m
         then Inl ''blocked bitmap size does not match grid dimensions''
         else if \<not> in_bounds (md_start_x m) (md_start_y m) \<or>
                 \<not> in_bounds (md_goal_x m) (md_goal_y m)
         then Inl ''map start or goal is outside the grid''
         else if \<not> list_all (\<lambda>b. b \<le> 1) (md_bitmap m)
         then Inl ''blocked bitmap contains a non-boolean value''
         else Inr ())"

definition walkable :: "int \<Rightarrow> int \<Rightarrow> bool list \<Rightarrow> int \<Rightarrow> int \<Rightarrow> bool" where
  "walkable cols rows blocked gx gy \<longleftrightarrow>
     gx \<ge> 0 \<and> gx < cols \<and> gy \<ge> 0 \<and> gy < rows \<and> \<not> blocked ! nat (gy * cols + gx)"

text \<open>A diagonal move may not cut a corner.\<close>

definition open_move :: "(int \<Rightarrow> int \<Rightarrow> bool) \<Rightarrow> int \<Rightarrow> int \<Rightarrow> int \<times> int \<Rightarrow> bool" where
  "open_move w gx gy dir =
     (case dir of (dx, dy) \<Rightarrow>
        w (gx + dx) (gy + dy) \<and>
        \<not> (dx \<noteq> 0 \<and> dy \<noteq> 0 \<and> (\<not> w (gx + dx) gy \<or> \<not> w gx (gy + dy))))"

definition cell_nbrs :: "int \<Rightarrow> int \<Rightarrow> bool list \<Rightarrow> nat \<Rightarrow> nat list" where
  "cell_nbrs cols rows blocked c =
     (let gx = int c mod cols; gy = int c div cols
      in map (\<lambda>(dx, dy). nat ((gy + dy) * cols + (gx + dx)))
           (filter (open_move (walkable cols rows blocked) gx gy) kDirections))"

definition max_finite :: "int list \<Rightarrow> int" where
  "max_finite d = foldl (\<lambda>m v. if v \<ge> 0 then max m v else m) 0 d"

definition ValidateMazeMapDescriptor ::
  "map_descriptor \<Rightarrow> string \<Rightarrow> (string + validated_map) option" where
  "ValidateMazeMapDescriptor m expected_map_id =
     (if expected_map_id = [] \<or> md_map_id m \<noteq> expected_map_id then Some (Inl ''map identity is invalid'')
      else case BasicShapeValid m of
        Inl err \<Rightarrow> Some (Inl err)
      | Inr _ \<Rightarrow>
          let cols = cols_of m; rows = rows_of m; cell_count = nat (cols * rows);
              blocked = map (\<lambda>b. b = 1) (md_bitmap m);
              w = walkable cols rows blocked
          in if \<not> w (md_start_x m) (md_start_y m) \<or> \<not> w (md_goal_x m) (md_goal_y m)
             then Some (Inl ''map blocks the start or goal cell'')
             else (case bfs (cell_nbrs cols rows blocked) cell_count
                          (nat (md_goal_y m * cols + md_goal_x m)) of
                     None \<Rightarrow> None
                   | Some d \<Rightarrow>
                       let steps = d ! nat (md_start_y m * cols + md_start_x m)
                       in if steps \<le> 0 then Some (Inl ''map is unreachable'')
                          else if max_finite d \<le> 0
                          then Some (Inl ''map has no finite geodesic distance range'')
                          else Some (Inr \<lparr>vm_blocked = blocked, vm_distance = d,
                                 vm_shortest = steps, vm_max_finite = max_finite d\<rparr>)))"

section \<open>Routes on the grid\<close>

text \<open>What the distances should mean: \<open>route w k p q\<close> is a sequence of \<open>k\<close> legal moves.\<close>

inductive route :: "(int \<Rightarrow> int \<Rightarrow> bool) \<Rightarrow> nat \<Rightarrow> int \<times> int \<Rightarrow> int \<times> int \<Rightarrow> bool" for w where
  route_refl: "route w 0 p p"
| route_move: "route w k p (x, y) \<Longrightarrow> (dx, dy) \<in> set kDirections \<Longrightarrow> open_move w x y (dx, dy) \<Longrightarrow>
     route w (Suc k) p (x + dx, y + dy)"

lemma directions_closed: "(dx, dy) \<in> set kDirections \<Longrightarrow> (- dx, - dy) \<in> set kDirections"
  by (auto simp: kDirections_def)

lemma route_prepend:
  "route w k (x + dx, y + dy) q \<Longrightarrow> (dx, dy) \<in> set kDirections \<Longrightarrow> open_move w x y (dx, dy) \<Longrightarrow>
     route w (Suc k) (x, y) q"
proof (induction k "(x + dx, y + dy)" q rule: route.induct)
  case route_refl
  then show ?case using route_move [OF route.route_refl, of dx dy w x y] by simp
next
  case (route_move k x' y' dx' dy')
  then show ?case by (intro route.route_move) auto
qed

lemma open_move_reverse:
  "w x y \<Longrightarrow> open_move w x y (dx, dy) \<Longrightarrow> open_move w (x + dx) (y + dy) (- dx, - dy)"
  by (auto simp: open_move_def)

lemma route_reverse:
  "route w k p q \<Longrightarrow> w (fst p) (snd p) \<Longrightarrow> route w k q p \<and> w (fst q) (snd q)"
proof (induction rule: route.induct)
  case (route_refl p)
  then show ?case by (simp add: route.route_refl)
next
  case (route_move k p x y dx dy)
  then have r: "route w k (x, y) p" "w x y" by simp_all
  have "open_move w (x + dx) (y + dy) (- dx, - dy)"
    using open_move_reverse [of w x y dx dy] route_move.hyps(3) r(2) by simp
  from route_prepend [OF _ directions_closed [OF route_move.hyps(2)] this, of k p] r(1)
  have "route w (Suc k) (x + dx, y + dy) p" by simp
  then show ?case using route_move.hyps(3) by (simp add: open_move_def)
qed

section \<open>Cells and coordinates\<close>

definition cell_at :: "int \<Rightarrow> int \<times> int \<Rightarrow> nat" where
  "cell_at cols p = nat (snd p * cols + fst p)"

definition coords :: "int \<Rightarrow> nat \<Rightarrow> int \<times> int" where
  "coords cols c = (int c mod cols, int c div cols)"

lemma cell_in_grid:
  assumes "0 \<le> x" "x < cols" "0 \<le> y" "y < rows"
  shows "cell_at cols (x, y) < nat (cols * rows)" "coords cols (cell_at cols (x, y)) = (x, y)"
    "int (cell_at cols (x, y)) = y * cols + x"
proof -
  have "0 \<le> y * cols" using assms by simp
  then show i: "int (cell_at cols (x, y)) = y * cols + x" using assms by (simp add: cell_at_def)
  have "y * cols + x < y * cols + cols" using assms by simp
  also have "\<dots> = (y + 1) * cols" by (simp add: distrib_right)
  also have "\<dots> \<le> rows * cols" using assms by (intro mult_right_mono) auto
  finally have "int (cell_at cols (x, y)) < cols * rows" by (simp add: i mult.commute)
  then show "cell_at cols (x, y) < nat (cols * rows)" by linarith
  show "coords cols (cell_at cols (x, y)) = (x, y)" unfolding coords_def i using assms by simp
qed

lemma cell_at_coords:
  assumes "c < nat (cols * rows)" "0 < cols"
  shows "cell_at cols (coords cols c) = c"
  using assms by (simp add: cell_at_def coords_def)

lemma cell_nbrs_iff:
  assumes "0 < cols"
  shows "y \<in> set (cell_nbrs cols rows blocked c) \<longleftrightarrow>
    (\<exists>dx dy. (dx, dy) \<in> set kDirections \<and>
       open_move (walkable cols rows blocked) (fst (coords cols c)) (snd (coords cols c)) (dx, dy) \<and>
       y = cell_at cols (fst (coords cols c) + dx, snd (coords cols c) + dy))"
  by (auto simp: cell_nbrs_def coords_def cell_at_def Let_def image_iff)

lemma open_move_in_grid:
  "open_move (walkable cols rows blocked) gx gy (dx, dy) \<Longrightarrow>
     0 \<le> gx + dx \<and> gx + dx < cols \<and> 0 \<le> gy + dy \<and> gy + dy < rows"
  by (simp add: open_move_def walkable_def)

lemma cell_nbrs_range:
  "0 < cols \<Longrightarrow> x \<in> set (cell_nbrs cols rows blocked c) \<Longrightarrow> x < nat (cols * rows)"
  using cell_in_grid(1) open_move_in_grid by (auto simp: cell_nbrs_iff)

interpretation maze_grid: grid_graph "cell_nbrs (cols_of m) (rows_of m) blocked"
  "nat (cols_of m * rows_of m)" for m blocked
proof unfold_locales
  fix c x
  assume c: "c < nat (cols_of m * rows_of m)"
    and x: "x \<in> set (cell_nbrs (cols_of m) (rows_of m) blocked c)"
  have "cols_of m \<noteq> 0" using c by auto
  moreover have "0 \<le> cols_of m" by (simp add: cols_of_def)
  ultimately have "0 < cols_of m" by linarith
  then show "x < nat (cols_of m * rows_of m)" using cell_nbrs_range x by blast
qed

lemma walk_route:
  assumes "0 < cols" "c < nat (cols * rows)"
  shows "walk (cell_nbrs cols rows blocked) c k x \<longleftrightarrow>
    route (walkable cols rows blocked) k (coords cols c) (coords cols x) \<and> x < nat (cols * rows)"
proof
  assume "walk (cell_nbrs cols rows blocked) c k x"
  then show "route (walkable cols rows blocked) k (coords cols c) (coords cols x) \<and> x < nat (cols * rows)"
  proof (induction rule: walk.induct)
    case walk_refl
    show ?case using assms(2) by (simp add: route_refl)
  next
    case (walk_snoc k x y)
    from walk_snoc.hyps(2) obtain dx dy where d: "(dx, dy) \<in> set kDirections"
      "open_move (walkable cols rows blocked) (fst (coords cols x)) (snd (coords cols x)) (dx, dy)"
      "y = cell_at cols (fst (coords cols x) + dx, snd (coords cols x) + dy)"
      using cell_nbrs_iff [OF assms(1)] by blast
    have y: "coords cols y = (fst (coords cols x) + dx, snd (coords cols x) + dy)"
      using cell_in_grid(2) open_move_in_grid [OF d(2)] d(3) by blast
    have "route (walkable cols rows blocked) k (coords cols c) (fst (coords cols x), snd (coords cols x))"
      using walk_snoc.IH by simp
    from route_move [OF this d(1,2)] y cell_nbrs_range [OF assms(1) walk_snoc.hyps(2)]
    show ?case by simp
  qed
next
  assume r: "route (walkable cols rows blocked) k (coords cols c) (coords cols x) \<and> x < nat (cols * rows)"
  have "route w k p q \<Longrightarrow> p = coords cols c \<Longrightarrow> w = walkable cols rows blocked \<Longrightarrow>
      walk (cell_nbrs cols rows blocked) c k (cell_at cols q) \<and> (q = coords cols (cell_at cols q))" for w k p q
  proof (induction rule: route.induct)
    case (route_refl p)
    then show ?case using cell_at_coords [OF assms(2,1)] by (simp add: walk_refl)
  next
    case (route_move k p x y dx dy)
    then have IH: "walk (cell_nbrs cols rows blocked) c k (cell_at cols (x, y))"
      "(x, y) = coords cols (cell_at cols (x, y))" by simp_all
    have "cell_at cols (x + dx, y + dy) \<in> set (cell_nbrs cols rows blocked (cell_at cols (x, y)))"
      using route_move.hyps(2,3) route_move.prems(2) IH(2) [symmetric]
      by (auto simp: cell_nbrs_iff [OF assms(1)])
    with IH(1) walk_snoc have "walk (cell_nbrs cols rows blocked) c (Suc k) (cell_at cols (x + dx, y + dy))"
      by metis
    moreover have "coords cols (cell_at cols (x + dx, y + dy)) = (x + dx, y + dy)"
      using open_move_in_grid route_move.hyps(3) route_move.prems(2) cell_in_grid(2) by metis
    ultimately show ?case by simp
  qed
  with r show "walk (cell_nbrs cols rows blocked) c k x"
    using cell_at_coords [of x cols rows] assms(1) by metis
qed

section \<open>What validation guarantees\<close>

definition goal_of :: "map_descriptor \<Rightarrow> int \<times> int" where "goal_of m = (md_goal_x m, md_goal_y m)"
definition start_of :: "map_descriptor \<Rightarrow> int \<times> int" where "start_of m = (md_start_x m, md_start_y m)"

definition blocked_of :: "map_descriptor \<Rightarrow> bool list" where
  "blocked_of m = map (\<lambda>b. b = 1) (md_bitmap m)"

abbreviation map_open :: "map_descriptor \<Rightarrow> int \<Rightarrow> int \<Rightarrow> bool" where
  "map_open m \<equiv> walkable (cols_of m) (rows_of m) (blocked_of m)"

definition map_well_formed :: "map_descriptor \<Rightarrow> string \<Rightarrow> bool" where
  "map_well_formed m expected \<longleftrightarrow>
     expected \<noteq> [] \<and> md_map_id m = expected \<and> BasicShapeValid m = Inr () \<and>
     map_open m (md_start_x m) (md_start_y m) \<and> map_open m (md_goal_x m) (md_goal_y m)"

lemma Validate_unfold:
  "ValidateMazeMapDescriptor m expected =
     (if map_well_formed m expected
      then (case bfs (cell_nbrs (cols_of m) (rows_of m) (blocked_of m)) (nat (cols_of m * rows_of m))
                   (cell_at (cols_of m) (goal_of m)) of
              None \<Rightarrow> None
            | Some d \<Rightarrow>
                let steps = d ! cell_at (cols_of m) (start_of m)
                in if steps \<le> 0 then Some (Inl ''map is unreachable'')
                   else if max_finite d \<le> 0
                   then Some (Inl ''map has no finite geodesic distance range'')
                   else Some (Inr \<lparr>vm_blocked = blocked_of m, vm_distance = d, vm_shortest = steps,
                          vm_max_finite = max_finite d\<rparr>))
      else Some (Inl (if expected = [] \<or> md_map_id m \<noteq> expected then ''map identity is invalid''
             else case BasicShapeValid m of Inl err \<Rightarrow> err
                  | Inr _ \<Rightarrow> ''map blocks the start or goal cell'')))"
  by (simp add: ValidateMazeMapDescriptor_def map_well_formed_def blocked_of_def cell_at_def
      goal_of_def start_of_def Let_def split: sum.split option.split)

lemma well_formed_cells:
  assumes "map_well_formed m expected"
  shows "0 < cols_of m" "cell_at (cols_of m) (goal_of m) < nat (cols_of m * rows_of m)"
    "cell_at (cols_of m) (start_of m) < nat (cols_of m * rows_of m)"
    "coords (cols_of m) (cell_at (cols_of m) (goal_of m)) = goal_of m"
    "coords (cols_of m) (cell_at (cols_of m) (start_of m)) = start_of m"
  using assms cell_in_grid [of "md_goal_x m" "cols_of m" "md_goal_y m" "rows_of m"]
    cell_in_grid [of "md_start_x m" "cols_of m" "md_start_y m" "rows_of m"]
  by (auto simp: map_well_formed_def walkable_def goal_of_def start_of_def)

lemma validate_bfs:
  assumes "map_well_formed m expected"
  obtains d where "bfs (cell_nbrs (cols_of m) (rows_of m) (blocked_of m)) (nat (cols_of m * rows_of m))
      (cell_at (cols_of m) (goal_of m)) = Some d"
  using maze_grid.bfs_terminates [OF well_formed_cells(2) [OF assms]] by blast

lemma distance_is_route:
  assumes wf: "map_well_formed m expected"
    and d: "bfs (cell_nbrs (cols_of m) (rows_of m) (blocked_of m)) (nat (cols_of m * rows_of m))
      (cell_at (cols_of m) (goal_of m)) = Some d"
    and p: "map_open m x y"
  shows "(0 \<le> d ! cell_at (cols_of m) (x, y) \<longrightarrow>
       route (map_open m) (nat (d ! cell_at (cols_of m) (x, y))) (x, y) (goal_of m)) \<and>
    (\<forall>k. route (map_open m) k (x, y) (goal_of m) \<longrightarrow>
       0 \<le> d ! cell_at (cols_of m) (x, y) \<and> d ! cell_at (cols_of m) (x, y) \<le> int k)"
proof -
  note c = well_formed_cells [OF wf]
  have b: "0 \<le> x" "x < cols_of m" "0 \<le> y" "y < rows_of m" using p by (simp_all add: walkable_def)
  note xy = cell_in_grid [OF b]
  have g: "map_open m (fst (goal_of m)) (snd (goal_of m))"
    using wf by (simp add: map_well_formed_def goal_of_def)
  have rev: "route (map_open m) k (goal_of m) (x, y) \<longleftrightarrow> route (map_open m) k (x, y) (goal_of m)" for k
    using route_reverse [of "map_open m" k "goal_of m" "(x, y)"]
      route_reverse [of "map_open m" k "(x, y)" "goal_of m"] g p by auto
  have w: "walk (cell_nbrs (cols_of m) (rows_of m) (blocked_of m)) (cell_at (cols_of m) (goal_of m)) k
      (cell_at (cols_of m) (x, y)) \<longleftrightarrow> route (map_open m) k (x, y) (goal_of m)" for k
    using walk_route [OF c(1,2), of "blocked_of m" k "cell_at (cols_of m) (x, y)"] xy(1,2) c(4) rev
    by simp
  show ?thesis using maze_grid.bfs_exact [OF d c(2) xy(1)] by (simp add: w)
qed

lemma max_finite_ge: "v \<in> set d \<Longrightarrow> v \<le> max_finite d"
proof -
  have mono: "m \<le> foldl (\<lambda>m v. if v \<ge> 0 then max m v else m) m d" for m :: int and d
  proof (induction d arbitrary: m)
    case (Cons a d)
    from order_trans [OF max.cobounded1 Cons.IH] Cons.IH show ?case by simp
  qed simp
  have "v \<in> set d \<Longrightarrow> 0 \<le> v \<Longrightarrow> v \<le> foldl (\<lambda>m v. if v \<ge> 0 then max m v else m) m d" for m :: int and v d
  proof (induction d arbitrary: m)
    case (Cons x d)
    show ?case
    proof (cases "v = x")
      case True
      with Cons.prems mono [of "max m x" d] show ?thesis by simp
    next
      case False
      with Cons show ?thesis by simp
    qed
  qed simp
  then show "v \<in> set d \<Longrightarrow> v \<le> max_finite d"
    using mono [of 0 d] unfolding max_finite_def by (cases "0 \<le> v") force+
qed

text \<open>C37: the validation of a map returns on every input: its queue loop always ends.\<close>

theorem map_validation_terminates: "ValidateMazeMapDescriptor m expected \<noteq> None"
proof (cases "map_well_formed m expected")
  case True
  then obtain d where "bfs (cell_nbrs (cols_of m) (rows_of m) (blocked_of m)) (nat (cols_of m * rows_of m))
      (cell_at (cols_of m) (goal_of m)) = Some d" by (rule validate_bfs)
  with True show ?thesis by (simp add: Validate_unfold Let_def)
next
  case False
  then show ?thesis by (simp add: Validate_unfold)
qed

text \<open>C13: the distances of an accepted map are exact: from every open cell the stored value is the
  least number of legal moves to the goal, it is negative exactly when the goal cannot be reached,
  and the shortest step count is that of the start.\<close>

theorem map_distances_exact:
  assumes "ValidateMazeMapDescriptor m expected = Some (Inr v)" "map_open m x y"
  shows "(0 \<le> vm_distance v ! cell_at (cols_of m) (x, y) \<longrightarrow>
       route (map_open m) (nat (vm_distance v ! cell_at (cols_of m) (x, y))) (x, y) (goal_of m)) \<and>
    (\<forall>k. route (map_open m) k (x, y) (goal_of m) \<longrightarrow>
       0 \<le> vm_distance v ! cell_at (cols_of m) (x, y) \<and>
       vm_distance v ! cell_at (cols_of m) (x, y) \<le> int k) \<and>
    vm_shortest v = vm_distance v ! cell_at (cols_of m) (start_of m) \<and> 0 < vm_shortest v"
proof -
  have wf: "map_well_formed m expected" using assms(1) by (auto simp: Validate_unfold split: if_splits)
  then obtain d where d: "bfs (cell_nbrs (cols_of m) (rows_of m) (blocked_of m))
      (nat (cols_of m * rows_of m)) (cell_at (cols_of m) (goal_of m)) = Some d" by (rule validate_bfs)
  with assms(1) wf have "vm_distance v = d" "vm_shortest v = d ! cell_at (cols_of m) (start_of m)"
    "0 < vm_shortest v" by (auto simp: Validate_unfold Let_def split: if_splits)
  with distance_is_route [OF wf d assms(2)] show ?thesis by simp
qed

text \<open>C38: a map is accepted exactly when it has the expected identity and a valid shape, its start and
  goal are different open cells, and the goal can be reached from the start; the last check of the
  code never fires.\<close>

theorem map_accepted_iff:
  "(\<exists>v. ValidateMazeMapDescriptor m expected = Some (Inr v)) \<longleftrightarrow>
     map_well_formed m expected \<and> start_of m \<noteq> goal_of m \<and>
     (\<exists>k. route (map_open m) k (start_of m) (goal_of m))"
proof (cases "map_well_formed m expected")
  case False
  then show ?thesis by (simp add: Validate_unfold)
next
  case wf: True
  then obtain d where d: "bfs (cell_nbrs (cols_of m) (rows_of m) (blocked_of m))
      (nat (cols_of m * rows_of m)) (cell_at (cols_of m) (goal_of m)) = Some d" by (rule validate_bfs)
  let ?s = "d ! cell_at (cols_of m) (start_of m)"
  note c = well_formed_cells [OF wf]
  have "map_open m (md_start_x m) (md_start_y m)" using wf by (simp add: map_well_formed_def)
  note r = distance_is_route [OF wf d this, folded start_of_def]
  have len: "length d = nat (cols_of m * rows_of m)" using maze_grid.bfs_length [OF d c(2)] .
  have "max_finite d \<ge> ?s" using max_finite_ge c(3) len by simp
  then have acc: "(\<exists>v. ValidateMazeMapDescriptor m expected = Some (Inr v)) \<longleftrightarrow> 0 < ?s"
    using wf d by (auto simp: Validate_unfold Let_def)
  show ?thesis
  proof
    assume "\<exists>v. ValidateMazeMapDescriptor m expected = Some (Inr v)"
    then have pos: "0 < ?s" using acc by simp
    have "start_of m \<noteq> goal_of m"
    proof
      assume "start_of m = goal_of m"
      then have "route (map_open m) 0 (start_of m) (goal_of m)" by (simp add: route_refl)
      with r pos show False by force
    qed
    with wf r pos show "map_well_formed m expected \<and> start_of m \<noteq> goal_of m \<and>
        (\<exists>k. route (map_open m) k (start_of m) (goal_of m))" by auto
  next
    assume a: "map_well_formed m expected \<and> start_of m \<noteq> goal_of m \<and>
        (\<exists>k. route (map_open m) k (start_of m) (goal_of m))"
    then have "0 \<le> ?s" using r by auto
    moreover have "?s \<noteq> 0"
    proof
      assume "?s = 0"
      with r have "route (map_open m) 0 (start_of m) (goal_of m)" by auto
      with a show False by (auto elim: route.cases)
    qed
    ultimately show "\<exists>v. ValidateMazeMapDescriptor m expected = Some (Inr v)" using acc by simp
  qed
qed

section \<open>Instances\<close>

text \<open>A corridor of three cells.\<close>

definition demo_map :: map_descriptor where
  "demo_map = \<lparr>md_map_id = ''m'', md_columns = 3, md_rows = 1, md_size_microunits = 1,
     md_start_x = 0, md_start_y = 0, md_goal_x = 2, md_goal_y = 0, md_bitmap = [0, 0, 0]\<rparr>"

lemma demo_map_valid:
  "ValidateMazeMapDescriptor demo_map ''m'' =
     Some (Inr \<lparr>vm_blocked = [False, False, False], vm_distance = [2, 1, 0], vm_shortest = 2, vm_max_finite = 2\<rparr>)"
  by code_simp

theorem map_distances_exact_witness:
  "route (map_open demo_map) 1 (1, 0) (2, 0) \<and> \<not> route (map_open demo_map) 1 (0, 0) (2, 0)"
proof -
  have "map_open demo_map 1 0" "map_open demo_map 0 0" by code_simp+
  from map_distances_exact [OF demo_map_valid this(1)] map_distances_exact [OF demo_map_valid this(2)]
  show ?thesis by (force simp: cell_at_def demo_map_def cols_of_def goal_of_def)
qed

end
