(* ===== verification/Maze_Types.thy ===== *)
theory Maze_Types
  imports Task_Types Maze_Map
begin

text \<open>
  The Maze task's state: \<open>maze/episode/session.h\<close> and \<open>maze/config/config.h\<close>.  The float fields of
  \<open>MazeSessionState\<close> (\<open>map_width\<close> to \<open>end_y\<close>) and \<open>start_gx\<close>, \<open>start_gy\<close> are written by nobody or
  read by nobody and are left out.
\<close>

datatype termination_reason =
  ReasonUnspecified | ReasonActive | GoalReached | TimeLimit | ClientAbort | ChainFailure

record maze_agent =
  prev_grid_x :: int
  prev_grid_y :: int
  reached_goal :: bool
  visited :: "int list"
  current_state_first_visit :: bool
  first_visit_bonus_total :: f32
  episode_start_geodesic_distance :: int
  observation_grid_x :: int
  observation_grid_y :: int
  last_move_blocked :: bool
  blocked_move_count :: int
  final_termination_reason :: termination_reason

definition new_maze_agent :: maze_agent where
  "new_maze_agent = \<lparr>prev_grid_x = -1, prev_grid_y = -1, reached_goal = False, visited = [],
     current_state_first_visit = False, first_visit_bonus_total = Fin 0,
     episode_start_geodesic_distance = -1, observation_grid_x = -1, observation_grid_y = -1,
     last_move_blocked = False, blocked_move_count = 0,
     final_termination_reason = ReasonUnspecified\<rparr>"

text \<open>The Agents' task parts are kept beside the training parts, under the same identities.\<close>

record maze_state =
  ms_map_id :: string
  ms_shortest_action_steps :: int
  ms_end_gx :: int
  ms_end_gy :: int
  ms_cols :: int
  ms_rows :: int
  ms_blocked :: "bool list"
  ms_distance :: "int list"
  ms_max_finite :: int
  ms_current_max_steps :: int
  ms_agents :: "(int, maze_agent) table"

definition new_maze_state :: maze_state where
  "new_maze_state = \<lparr>ms_map_id = [], ms_shortest_action_steps = 0, ms_end_gx = 0, ms_end_gy = 0,
     ms_cols = 0, ms_rows = 0, ms_blocked = [], ms_distance = [], ms_max_finite = -1,
     ms_current_max_steps = 0, ms_agents = []\<rparr>"

definition IsWalkable :: "maze_state \<Rightarrow> int \<Rightarrow> int \<Rightarrow> bool" where
  "IsWalkable m gx gy \<longleftrightarrow> walkable (ms_cols m) (ms_rows m) (ms_blocked m) gx gy"

record maze_config =
  mz_training :: training_config
  mz_ray_max_range :: int
  mz_agent_count :: int
  mz_fixed_map_id :: string
  mz_episode_max_steps :: int

text \<open>Conversions of \<open>int\<close> to \<open>float\<close> and to a 32 bit \<open>int\<close>.\<close>

definition f32_of_int :: "int \<Rightarrow> f32" where
  "f32_of_int i = rnd32 (of_int i)"

definition to_int32 :: "int \<Rightarrow> int" where
  "to_int32 i = sint (word_of_int i :: 32 word)"

definition to_int64 :: "u64 \<Rightarrow> int" where
  "to_int64 w = sint w"

definition IsEnvironmentTerminal :: "termination_reason \<Rightarrow> bool" where
  "IsEnvironmentTerminal r \<longleftrightarrow> r = GoalReached \<or> r = TimeLimit"

end
