(* ===== verification/Maze_Reward.thy ===== *)
theory Maze_Reward
  imports Maze_Types Metric_Registry
begin

text \<open>
  \<open>maze/reward/reward\<close>.  The reward is computed in \<open>float\<close>; \<open>calculate_with\<close> takes the rounding as
  an argument, so that the shaping can also be read in exact arithmetic, where the budgets of the
  reward's design hold.
\<close>

section \<open>The code\<close>

text \<open>The constants of \<open>kReward\<close>, as the floats they are cast to.\<close>

definition goal_reward_value :: rat where "goal_reward_value = 10"
definition timeout_penalty_value :: rat where "timeout_penalty_value = -2"
definition progress_budget :: rat where "progress_budget = 1"
definition first_visit_budget :: rat where "first_visit_budget = 3 / 4"
definition wasted_action_penalty_value :: rat where "wasted_action_penalty_value = -1 / 500"

record reward_context =
  rc_cols :: int
  rc_rows :: int
  rc_distance :: "int list"
  rc_shortest :: int
  rc_prev_x :: int
  rc_prev_y :: int
  rc_start_distance :: int
  rc_first_visit :: bool
  rc_bonus_total :: f32

definition DistanceAt :: "reward_context \<Rightarrow> int \<Rightarrow> int \<Rightarrow> int option" where
  "DistanceAt c gx gy =
     (if gx < 0 \<or> gx \<ge> rc_cols c \<or> gy < 0 \<or> gy \<ge> rc_rows c then None
      else let i = nat (gy * rc_cols c + gx)
           in if i \<ge> length (rc_distance c) then None
              else if rc_distance c ! i \<ge> 0 then Some (rc_distance c ! i) else None)"

definition fp_min :: "fp \<Rightarrow> fp \<Rightarrow> fp" where
  "fp_min a b = (if fp_lt b a then b else a)"

definition invalid_reward :: "string \<Rightarrow> reward_result" where
  "invalid_reward err = \<lparr>rw_valid = False, rw_error = err, rw_total = Fin 0, rw_items = []\<rparr>"

text \<open>The five items, in the order they are listed.\<close>

definition progress_item :: "(rat \<Rightarrow> fp) \<Rightarrow> int \<Rightarrow> int \<Rightarrow> int \<Rightarrow> fp" where
  "progress_item rnd start prev cur =
     fp_div_with rnd (fp_mul_with rnd (rnd progress_budget) (rnd (of_int (prev - cur)))) (rnd (of_int start))"

definition visit_item :: "(rat \<Rightarrow> fp) \<Rightarrow> int \<Rightarrow> bool \<Rightarrow> fp \<Rightarrow> fp" where
  "visit_item rnd start fresh so_far =
     (let scale = fp_div_with rnd (rnd first_visit_budget) (rnd (of_int start))
      in if fresh \<and> fp_lt (Fin 0) scale
         then fp_min scale (fp_max (Fin 0) (fp_sub_with rnd (rnd first_visit_budget) so_far))
         else Fin 0)"

definition reward_items_with ::
  "(rat \<Rightarrow> fp) \<Rightarrow> reward_context \<Rightarrow> int \<Rightarrow> int \<Rightarrow> termination_reason \<Rightarrow> int \<Rightarrow> int \<Rightarrow> (string \<times> fp) list" where
  "reward_items_with rnd c gx gy reason prev cur =
     (let moved = (gx \<noteq> rc_prev_x c \<or> gy \<noteq> rc_prev_y c)
      in [(''goal_reward'', if reason = GoalReached then rnd goal_reward_value else Fin 0),
          (''timeout_penalty'', if reason = TimeLimit then rnd timeout_penalty_value else Fin 0),
          (''geodesic_progress'', progress_item rnd (rc_start_distance c) prev cur),
          (''first_visit_bonus'',
             visit_item rnd (rc_start_distance c) (moved \<and> rc_first_visit c) (rc_bonus_total c)),
          (''wasted_action_penalty'', if moved then Fin 0 else rnd wasted_action_penalty_value)])"

definition item_sum :: "(rat \<Rightarrow> fp) \<Rightarrow> (string \<times> fp) list \<Rightarrow> fp" where
  "item_sum rnd items =
     (case map snd items of
        [g, t, p, v, w] \<Rightarrow>
          fp_add_with rnd (fp_add_with rnd g t) (fp_add_with rnd (fp_add_with rnd p v) w)
      | _ \<Rightarrow> NaN)"

definition calculate_with ::
  "(rat \<Rightarrow> fp) \<Rightarrow> reward_context \<Rightarrow> int \<Rightarrow> int \<Rightarrow> bool \<Rightarrow> termination_reason \<Rightarrow> reward_result" where
  "calculate_with rnd c gx gy is_done reason =
     (if rc_prev_x c < 0 \<or> rc_prev_y c < 0
      then invalid_reward ''reward transition has no previous state''
      else if rc_shortest c \<le> 0 \<or> rc_start_distance c \<le> 0
      then invalid_reward ''Reward episode distance is invalid''
      else if is_done \<noteq> IsEnvironmentTerminal reason
      then invalid_reward ''reward termination reason is inconsistent''
      else case (DistanceAt c (rc_prev_x c) (rc_prev_y c), DistanceAt c gx gy) of
        (Some prev, Some cur) \<Rightarrow>
          let items = reward_items_with rnd c gx gy reason prev cur; total_reward = item_sum rnd items;
              task_total = fp_add_with rnd (snd (items ! 0)) (snd (items ! 1));
              shaping_total = fp_add_with rnd (fp_add_with rnd (snd (items ! 2)) (snd (items ! 3)))
                                (snd (items ! 4))
          in if \<not> isfinite total_reward \<or> \<not> isfinite task_total \<or> \<not> isfinite shaping_total
             then invalid_reward ''reward calculation produced a non-finite value''
             else (case find (\<lambda>i. \<not> isfinite (snd i)) items of
                     Some i \<Rightarrow> invalid_reward (''reward component is non-finite: '' @ fst i)
                   | None \<Rightarrow> \<lparr>rw_valid = True, rw_error = [], rw_total = total_reward, rw_items = items\<rparr>)
      | _ \<Rightarrow> invalid_reward ''reward transition entered an unreachable map cell'')"

definition reward_Calculate ::
  "reward_context \<Rightarrow> int \<Rightarrow> int \<Rightarrow> bool \<Rightarrow> termination_reason \<Rightarrow> reward_result" where
  "reward_Calculate = calculate_with rnd32"

definition reward_metric_names :: "(string \<times> string) list" where
  "reward_metric_names =
     [(''goal_reward'', ''Goal Reward''), (''timeout_penalty'', ''Timeout Penalty''),
      (''geodesic_progress'', ''Geodesic Progress''), (''first_visit_bonus'', ''First Visit Bonus''),
      (''wasted_action_penalty'', ''Wasted Action Penalty'')]"

definition RegisterRewardMetrics :: "registry \<Rightarrow> string + registry" where
  "RegisterRewardMetrics =
     register_all
       (plain_definition ''task.maze.reward.total.per_transition'' ''Total Reward / Transition'' ''reward''
          ''agent_episode'' ValueSumCount AggMean ''transition'' ''reward'' #
        concat (map (\<lambda>(name, label).
          [plain_definition (''task.maze.reward.'' @ name @ ''.per_transition'') (label @ '' / Transition'')
             ''reward'' ''agent_episode'' ValueSumCount AggMean ''transition'' ''reward'',
           plain_definition (''task.maze.reward.'' @ name @ ''.per_episode'') (label @ '' / Agent Episode'')
             ''reward'' ''agent_episode'' ValueSumCount AggMean ''agent_episode'' ''reward''])
          reward_metric_names))"

section \<open>The rewards of an Episode\<close>

text \<open>
  The transitions of one Agent: the position it reaches, whether the cell is fresh, and how the
  frame ends.  The context carries the previous position and the bonus granted so far from one
  transition to the next, as \<open>DecodeFrame\<close> and \<open>EncodeActions\<close> do.
\<close>

record move =
  mv_x :: int
  mv_y :: int
  mv_fresh :: bool
  mv_reason :: termination_reason

definition bonus_of :: "reward_result \<Rightarrow> fp" where
  "bonus_of r = (case map_of (rw_items r) ''first_visit_bonus'' of None \<Rightarrow> Fin 0 | Some v \<Rightarrow> v)"

definition at_move :: "reward_context \<Rightarrow> move \<Rightarrow> reward_context" where
  "at_move c m = c\<lparr>rc_first_visit := mv_fresh m\<rparr>"

definition after_move :: "(rat \<Rightarrow> fp) \<Rightarrow> reward_context \<Rightarrow> move \<Rightarrow> reward_result \<Rightarrow> reward_context" where
  "after_move rnd c m r =
     c\<lparr>rc_prev_x := mv_x m, rc_prev_y := mv_y m,
       rc_bonus_total := fp_add_with rnd (rc_bonus_total c) (bonus_of r)\<rparr>"

fun episode_rewards :: "(rat \<Rightarrow> fp) \<Rightarrow> reward_context \<Rightarrow> move list \<Rightarrow> reward_result list" where
  "episode_rewards rnd c [] = []"
| "episode_rewards rnd c (m # ms) =
     (let r = calculate_with rnd (at_move c m) (mv_x m) (mv_y m) (IsEnvironmentTerminal (mv_reason m)) (mv_reason m)
      in r # episode_rewards rnd (after_move rnd c m r) ms)"

section \<open>The design of the reward, in exact arithmetic\<close>

fun rat_of :: "fp \<Rightarrow> rat" where
  "rat_of (Fin r) = r"
| "rat_of _ = 0"

definition total_of :: "reward_result list \<Rightarrow> rat" where
  "total_of rs = (\<Sum>r\<leftarrow>rs. rat_of (rw_total r))"

definition timeouts :: "move list \<Rightarrow> rat" where
  "timeouts ms = of_nat (length (filter (\<lambda>m. mv_reason m = TimeLimit) ms))"

definition goals :: "move list \<Rightarrow> rat" where
  "goals ms = of_nat (length (filter (\<lambda>m. mv_reason m = GoalReached) ms))"

lemma fp_min_max_Fin [simp]: "fp_min (Fin a) (Fin b) = Fin (min a b)" "fp_max (Fin a) (Fin b) = Fin (max a b)"
  by (auto simp: fp_min_def fp_max_def)

text \<open>
  What the moves of an Agent earn: a bonus for each move to a fresh cell until the budget is used up,
  and a penalty for each action that left it where it was.
\<close>

fun fresh_moves :: "int \<times> int \<Rightarrow> move list \<Rightarrow> nat" where
  "fresh_moves p [] = 0"
| "fresh_moves p (m # ms) =
     (if mv_fresh m \<and> (mv_x m, mv_y m) \<noteq> p then 1 else 0) + fresh_moves (mv_x m, mv_y m) ms"

fun idle_moves :: "int \<times> int \<Rightarrow> move list \<Rightarrow> nat" where
  "idle_moves p [] = 0"
| "idle_moves p (m # ms) = (if (mv_x m, mv_y m) = p then 1 else 0) + idle_moves (mv_x m, mv_y m) ms"

definition position :: "reward_context \<Rightarrow> int \<times> int" where
  "position c = (rc_prev_x c, rc_prev_y c)"

definition bonus_after :: "int \<Rightarrow> nat \<Rightarrow> rat" where
  "bonus_after start n = min (3 / 4) (of_nat n * (3 / 4) / of_int start)"

lemma visit_exact:
  assumes "0 < start"
  shows "visit_item Fin start fresh (Fin (bonus_after start n)) =
    Fin (bonus_after start (n + (if fresh then 1 else 0)) - bonus_after start n)"
proof (cases fresh)
  case False
  then show ?thesis by (simp add: visit_item_def)
next
  case True
  define step x where "step = (3 / 4 / of_int start :: rat)" and "x = of_nat n * (3 / 4) / (of_int start :: rat)"
  have s: "0 < step" using assms by (simp add: step_def)
  have b: "bonus_after start n = min (3 / 4) x" "bonus_after start (n + 1) = min (3 / 4) (x + step)"
    by (simp_all add: bonus_after_def x_def step_def add_divide_distrib distrib_right)
  have "visit_item Fin start fresh (Fin (min (3 / 4) x)) = Fin (min step (max 0 (3 / 4 - min (3 / 4) x)))"
    using True s assms by (simp add: visit_item_def Let_def fp_sub_with_def first_visit_budget_def step_def)
  also have "min step (max 0 (3 / 4 - min (3 / 4) x)) = min (3 / 4) (x + step) - min (3 / 4) x"
    using s by (auto simp: min_def max_def)
  finally show ?thesis using True b by simp
qed

text \<open>One transition.\<close>

lemma exact_reward:
  assumes "calculate_with Fin c gx gy dn reason = r" "rw_valid r"
    and "rc_bonus_total c = Fin (bonus_after (rc_start_distance c) n)"
  shows "\<exists>prev cur. DistanceAt c (rc_prev_x c) (rc_prev_y c) = Some prev \<and> DistanceAt c gx gy = Some cur \<and>
    0 < rc_start_distance c \<and>
    bonus_of r = Fin (bonus_after (rc_start_distance c)
        (n + (if rc_first_visit c \<and> (gx, gy) \<noteq> position c then 1 else 0)) - bonus_after (rc_start_distance c) n) \<and>
    rw_total r = Fin ((if reason = GoalReached then 10 else 0) + (if reason = TimeLimit then -2 else 0) +
      of_int (prev - cur) / of_int (rc_start_distance c) +
      (bonus_after (rc_start_distance c)
        (n + (if rc_first_visit c \<and> (gx, gy) \<noteq> position c then 1 else 0)) - bonus_after (rc_start_distance c) n) +
      (if (gx, gy) = position c then -1 / 500 else 0))"
proof -
  from assms(1,2) obtain prev cur where d: "DistanceAt c (rc_prev_x c) (rc_prev_y c) = Some prev"
    "DistanceAt c gx gy = Some cur" "0 < rc_start_distance c"
    by (auto simp: calculate_with_def invalid_reward_def not_le split: if_splits option.splits)
  let ?items = "reward_items_with Fin c gx gy reason prev cur"
  let ?moved = "gx \<noteq> rc_prev_x c \<or> gy \<noteq> rc_prev_y c"
  have m: "?moved \<longleftrightarrow> (gx, gy) \<noteq> position c" by (auto simp: position_def)
  have v: "visit_item Fin (rc_start_distance c) ((gx, gy) \<noteq> position c \<and> rc_first_visit c) (rc_bonus_total c) =
      Fin (bonus_after (rc_start_distance c)
        (n + (if rc_first_visit c \<and> (gx, gy) \<noteq> position c then 1 else 0)) - bonus_after (rc_start_distance c) n)"
    using visit_exact [OF d(3), of "(gx, gy) \<noteq> position c \<and> rc_first_visit c" n] unfolding assms(3)
    by (simp add: conj_commute)
  have p: "progress_item Fin (rc_start_distance c) prev cur = Fin (of_int (prev - cur) / of_int (rc_start_distance c))"
    using d(3) by (simp add: progress_item_def progress_budget_def)
  have r: "rw_items r = ?items" "rw_total r = item_sum Fin ?items"
    using assms(1,2) d
    by (auto simp: calculate_with_def invalid_reward_def Let_def split: if_splits option.splits)
  have "bonus_of r = visit_item Fin (rc_start_distance c) ((gx, gy) \<noteq> position c \<and> rc_first_visit c) (rc_bonus_total c)"
    unfolding bonus_of_def r reward_items_with_def Let_def m by simp
  moreover have "rw_total r = Fin ((if reason = GoalReached then 10 else 0) + (if reason = TimeLimit then -2 else 0) +
      of_int (prev - cur) / of_int (rc_start_distance c) +
      (bonus_after (rc_start_distance c)
        (n + (if rc_first_visit c \<and> (gx, gy) \<noteq> position c then 1 else 0)) - bonus_after (rc_start_distance c) n) +
      (if (gx, gy) = position c then -1 / 500 else 0))"
    unfolding r(2) item_sum_def reward_items_with_def Let_def m
    unfolding v p by (simp add: wasted_action_penalty_value_def goal_reward_value_def timeout_penalty_value_def)
  ultimately show ?thesis using d v by simp
qed

lemma mv_counts [simp]:
  "timeouts (m # ms) = (if mv_reason m = TimeLimit then 1 else 0) + timeouts ms"
  "goals (m # ms) = (if mv_reason m = GoalReached then 1 else 0) + goals ms"
  "timeouts [] = 0" "goals [] = 0"
  by (simp_all add: timeouts_def goals_def)

definition last_position :: "reward_context \<Rightarrow> move list \<Rightarrow> int \<times> int" where
  "last_position c ms = (if ms = [] then (rc_prev_x c, rc_prev_y c) else (mv_x (last ms), mv_y (last ms)))"

lemma DistanceAt_cong [simp]:
  "DistanceAt (at_move c m) gx gy = DistanceAt c gx gy" "DistanceAt (after_move rnd c m r) gx gy = DistanceAt c gx gy"
  by (simp_all add: DistanceAt_def at_move_def after_move_def Let_def)

lemma episode_exact:
  assumes "list_all rw_valid (episode_rewards Fin c ms)" "ms \<noteq> []"
    and "rc_bonus_total c = Fin (bonus_after (rc_start_distance c) n)"
  shows "\<exists>d0 d1. DistanceAt c (rc_prev_x c) (rc_prev_y c) = Some d0 \<and>
    DistanceAt c (fst (last_position c ms)) (snd (last_position c ms)) = Some d1 \<and> 0 < rc_start_distance c \<and>
    total_of (episode_rewards Fin c ms) = 10 * goals ms - 2 * timeouts ms +
      of_int (d0 - d1) / of_int (rc_start_distance c) +
      (bonus_after (rc_start_distance c) (n + fresh_moves (position c) ms) - bonus_after (rc_start_distance c) n) -
      of_nat (idle_moves (position c) ms) / 500"
  using assms
proof (induction ms arbitrary: c n)
  case (Cons m ms)
  define r where "r = calculate_with Fin (at_move c m) (mv_x m) (mv_y m) (IsEnvironmentTerminal (mv_reason m)) (mv_reason m)"
  let ?c = "after_move Fin c m r" and ?D = "rc_start_distance c"
  define n' where "n' = n + (if mv_fresh m \<and> (mv_x m, mv_y m) \<noteq> position c then 1 else 0)"
  define w :: rat where "w = (if (mv_x m, mv_y m) = position c then -1 / 500 else 0)"
  have split: "episode_rewards Fin c (m # ms) = r # episode_rewards Fin ?c ms" by (simp add: r_def Let_def)
  have rv: "rw_valid r" "list_all rw_valid (episode_rewards Fin ?c ms)"
    using Cons.prems(1) unfolding split by simp_all
  have ctx: "rc_bonus_total (at_move c m) = rc_bonus_total c" "rc_start_distance (at_move c m) = ?D"
    "rc_prev_x (at_move c m) = rc_prev_x c" "rc_prev_y (at_move c m) = rc_prev_y c"
    "rc_first_visit (at_move c m) = mv_fresh m" "position (at_move c m) = position c"
    by (simp_all add: at_move_def position_def)
  obtain prev cur where e: "DistanceAt c (rc_prev_x c) (rc_prev_y c) = Some prev"
    "DistanceAt c (mv_x m) (mv_y m) = Some cur" "0 < ?D" "bonus_of r = Fin (bonus_after ?D n' - bonus_after ?D n)"
    "rw_total r = Fin ((if mv_reason m = GoalReached then 10 else 0) +
      (if mv_reason m = TimeLimit then -2 else 0) + of_int (prev - cur) / of_int ?D +
      (bonus_after ?D n' - bonus_after ?D n) + w)"
    using exact_reward [OF r_def [symmetric] rv(1), unfolded ctx DistanceAt_cong, OF Cons.prems(3)]
    unfolding n'_def w_def by blast
  have c': "rc_bonus_total ?c = Fin (bonus_after (rc_start_distance ?c) n')" "rc_start_distance ?c = ?D"
    "rc_prev_x ?c = mv_x m" "rc_prev_y ?c = mv_y m" "position ?c = (mv_x m, mv_y m)"
    using Cons.prems(3) e(4) by (simp_all add: after_move_def position_def)
  have n: "n + fresh_moves (position c) (m # ms) = n' + fresh_moves (mv_x m, mv_y m) ms" by (simp add: n'_def)
  show ?case
  proof (cases "ms = []")
    case True
    have lp: "last_position c (m # ms) = (mv_x m, mv_y m)" using True by (simp add: last_position_def)
    have idle: "(of_nat (idle_moves (position c) (m # ms)) / 500 :: rat) = - w"
      using True by (simp add: w_def)
    show ?thesis unfolding split lp n idle using True e
      by (auto simp: total_of_def)
  next
    case False
    from Cons.IH [OF rv(2) False c'(1)] obtain d1 where
      IH: "DistanceAt c (fst (last_position ?c ms)) (snd (last_position ?c ms)) = Some d1"
        "total_of (episode_rewards Fin ?c ms) = 10 * goals ms - 2 * timeouts ms +
          of_int (cur - d1) / of_int ?D +
          (bonus_after ?D (n' + fresh_moves (mv_x m, mv_y m) ms) - bonus_after ?D n') -
          of_nat (idle_moves (mv_x m, mv_y m) ms) / 500"
      unfolding c'(2-5) DistanceAt_cong using e(2) by auto
    have lp: "last_position c (m # ms) = last_position ?c ms" using False by (simp add: last_position_def)
    have frac: "of_int (prev - d1) / of_int ?D = of_int (prev - cur) / of_int ?D + (of_int (cur - d1) / of_int ?D :: rat)"
      by (simp add: diff_divide_distrib)
    have idle: "(of_nat (idle_moves (position c) (m # ms)) / 500 :: rat) =
        of_nat (idle_moves (mv_x m, mv_y m) ms) / 500 - w"
      by (simp add: add_divide_distrib w_def)
    have "total_of (episode_rewards Fin c (m # ms)) = 10 * goals (m # ms) - 2 * timeouts (m # ms) +
        of_int (prev - d1) / of_int ?D + (bonus_after ?D (n' + fresh_moves (mv_x m, mv_y m) ms) - bonus_after ?D n) -
        of_nat (idle_moves (position c) (m # ms)) / 500"
      using e(5) IH(2) unfolding split frac idle
      by (simp add: total_of_def algebra_simps del: episode_rewards.simps idle_moves.simps)
    with e(1,3) IH(1) show ?thesis unfolding lp n by blast
  qed
qed simp

lemma bonus_after_0 [simp]: "bonus_after start 0 = 0"
  by (simp add: bonus_after_def)

text \<open>C32: the shaping of the reward is potential based.  In exact arithmetic, that is with the float
  rounding of the code left out, the rewards of the transitions of an Agent's Episode sum up to 10 when it
  reached the goal, less 2 when it ran into the time limit, plus the progress made towards the goal in
  units of the start distance, plus the first-visit bonus, a share of 3/4 for each move to a fresh cell
  up to 3/4 in all, less 0.002 for each action that left it where it was.\<close>

theorem reward_is_potential_based:
  assumes "list_all rw_valid (episode_rewards Fin c ms)" "rc_bonus_total c = Fin 0" "ms \<noteq> []"
  shows "\<exists>d0 d1. DistanceAt c (rc_prev_x c) (rc_prev_y c) = Some d0 \<and>
    DistanceAt c (fst (last_position c ms)) (snd (last_position c ms)) = Some d1 \<and>
    total_of (episode_rewards Fin c ms) = 10 * goals ms - 2 * timeouts ms +
      of_int (d0 - d1) / of_int (rc_start_distance c) +
      min (3 / 4) (of_nat (fresh_moves (rc_prev_x c, rc_prev_y c) ms) * (3 / 4) / of_int (rc_start_distance c)) -
      of_nat (idle_moves (rc_prev_x c, rc_prev_y c) ms) / 500"
  using episode_exact [OF assms(1,3), of 0] assms(2) by (auto simp: bonus_after_def position_def)

text \<open>failing never pays.  In exact arithmetic an Episode that starts at its start distance and
  ends by the time limit, without reaching the goal, has a negative total reward.\<close>

theorem failure_never_pays:
  assumes "list_all rw_valid (episode_rewards Fin c ms)" "rc_bonus_total c = Fin 0"
    and "goals ms = 0" "timeouts ms \<ge> 1"
    and "DistanceAt c (rc_prev_x c) (rc_prev_y c) = Some (rc_start_distance c)"
  shows "total_of (episode_rewards Fin c ms) < 0"
proof -
  have ne: "ms \<noteq> []" using assms(4) by auto
  obtain d1 where e: "DistanceAt c (fst (last_position c ms)) (snd (last_position c ms)) = Some d1"
    "0 < rc_start_distance c"
    "total_of (episode_rewards Fin c ms) = 10 * goals ms - 2 * timeouts ms +
      of_int (rc_start_distance c - d1) / of_int (rc_start_distance c) +
      bonus_after (rc_start_distance c) (fresh_moves (position c) ms) -
      of_nat (idle_moves (position c) ms) / 500"
    using episode_exact [OF assms(1) ne, of 0] assms(2,5) by auto
  have "0 \<le> d1" using e(1) by (auto simp: DistanceAt_def Let_def split: if_splits)
  then have "of_int (rc_start_distance c - d1) / of_int (rc_start_distance c) \<le> (1 :: rat)"
    using e(2) by (simp add: divide_le_eq)
  moreover have "bonus_after (rc_start_distance c) (fresh_moves (position c) ms) \<le> 3 / 4"
    by (simp add: bonus_after_def)
  moreover have "0 \<le> (of_nat (idle_moves (position c) ms) / 500 :: rat)" by simp
  ultimately show ?thesis using e(3) assms(3,4) by linarith
qed

definition demo_context :: reward_context where
  "demo_context = \<lparr>rc_cols = 3, rc_rows = 1, rc_distance = [2, 1, 0], rc_shortest = 2, rc_prev_x = 0,
     rc_prev_y = 0, rc_start_distance = 2, rc_first_visit = False, rc_bonus_total = Fin 0\<rparr>"

definition demo_moves :: "move list" where
  "demo_moves = [\<lparr>mv_x = 1, mv_y = 0, mv_fresh = True, mv_reason = ReasonActive\<rparr>,
     \<lparr>mv_x = 1, mv_y = 0, mv_fresh = False, mv_reason = TimeLimit\<rparr>]"

lemma demo_rewards: "list_all rw_valid (episode_rewards Fin demo_context demo_moves)"
  by (simp add: demo_context_def demo_moves_def calculate_with_def Let_def DistanceAt_def at_move_def
      after_move_def IsEnvironmentTerminal_def reward_items_with_def item_sum_def progress_item_def
      visit_item_def fp_sub_with_def bonus_of_def progress_budget_def first_visit_budget_def)

theorem reward_is_potential_based_witness:
  "total_of (episode_rewards Fin demo_context demo_moves) = -2 + 1 / 2 + 3 / 8 - 1 / 500"
proof -
  have "demo_moves \<noteq> []" "rc_bonus_total demo_context = Fin 0"
    by (simp_all add: demo_moves_def demo_context_def)
  from reward_is_potential_based [OF demo_rewards this(2,1)] show ?thesis
    by (simp add: demo_context_def demo_moves_def DistanceAt_def last_position_def goals_def timeouts_def)
qed

theorem failure_never_pays_witness: "total_of (episode_rewards Fin demo_context demo_moves) < 0"
  by (rule failure_never_pays [OF demo_rewards])
    (simp_all add: demo_context_def demo_moves_def DistanceAt_def goals_def timeouts_def)

end
