(* ===== verification/Maze_Metrics.thy ===== *)
theory Maze_Metrics
  imports Maze_Reward
begin

text \<open>
  \<open>maze/metrics/episode_metrics.h\<close>: the metrics of a finished Maze Episode and their registration.
  \<open>order\<close> is the iteration order of the unordered map of reward components.
\<close>

record agent_result = agent_summary +
  ar_success :: bool
  ar_reason :: termination_reason
  ar_shortest :: int
  ar_unique_cells :: int
  ar_blocked :: int
  ar_attempted :: int
  ar_final_x :: int
  ar_final_y :: int
  ar_goal_rank :: "u32 option"

definition MazeAgentEpisodeMetricIds :: metric_ids where
  "MazeAgentEpisodeMetricIds =
     \<lparr>ids_agent_episodes = ''task.maze.agent_episodes'', ids_return = ''task.maze.return'',
      ids_length = ''task.maze.episode_length'', ids_min_return = ''task.maze.return_min'',
      ids_max_return = ''task.maze.return_max'', ids_component_prefix = ''task.maze.reward.''\<rparr>"

fun MazeTerminationReason_Name :: "termination_reason \<Rightarrow> string" where
  "MazeTerminationReason_Name ReasonUnspecified = ''MAZE_TERMINATION_REASON_UNSPECIFIED''"
| "MazeTerminationReason_Name ReasonActive = ''MAZE_TERMINATION_REASON_ACTIVE''"
| "MazeTerminationReason_Name GoalReached = ''MAZE_TERMINATION_REASON_GOAL_REACHED''"
| "MazeTerminationReason_Name TimeLimit = ''MAZE_TERMINATION_REASON_TIME_LIMIT''"
| "MazeTerminationReason_Name ClientAbort = ''MAZE_TERMINATION_REASON_CLIENT_ABORT''"
| "MazeTerminationReason_Name ChainFailure = ''MAZE_TERMINATION_REASON_CHAIN_FAILURE''"

definition all_reasons :: "termination_reason list" where
  "all_reasons = [ReasonUnspecified, ReasonActive, GoalReached, TimeLimit, ClientAbort, ChainFailure]"

definition mean_definition :: "string \<Rightarrow> string \<Rightarrow> string \<Rightarrow> string \<Rightarrow> string \<Rightarrow> string \<Rightarrow> metric_definition" where
  "mean_definition mid label unit scp denom cat =
     plain_definition mid label unit scp ValueSumCount AggMean denom cat"

definition count_definition :: "string \<Rightarrow> string \<Rightarrow> string \<Rightarrow> metric_definition" where
  "count_definition mid label scp =
     plain_definition mid label ''count'' scp ValueUnsigned AggSum [] ''episode''"

definition RegisterMazeEpisodeMetrics :: "registry \<Rightarrow> string + registry" where
  "RegisterMazeEpisodeMetrics reg =
     and_then (RegisterAgentEpisodeMetrics MazeAgentEpisodeMetricIds reg)
       (register_all
         ([count_definition ''task.maze.environment_episodes'' ''Environment Episodes'' ''environment_episode'',
           mean_definition ''task.maze.any_success'' ''Any Agent Success Rate'' ''ratio''
             ''environment_episode'' ''environment_episode'' ''success'',
           mean_definition ''task.maze.all_success'' ''All Agents Success Rate'' ''ratio''
             ''environment_episode'' ''environment_episode'' ''success'',
           mean_definition ''task.maze.success'' ''Agent Success Rate'' ''ratio'' ''agent_episode''
             ''agent_episode'' ''success'',
           mean_definition ''task.maze.unique_cells'' ''Unique Cells'' ''cell'' ''agent_episode''
             ''agent_episode'' ''episode'',
           mean_definition ''task.maze.blocked_move_rate'' ''Blocked Move Rate'' ''ratio''
             ''agent_episode'' ''attempted_move'' ''episode'',
           mean_definition ''task.maze.path_ratio'' ''Successful Path Ratio'' ''ratio'' ''agent_episode''
             ''successful_agent_episode'' ''episode''] @
          map (\<lambda>r. count_definition (''task.maze.termination.'' @ MazeTerminationReason_Name r)
                  (MazeTerminationReason_Name r) ''agent_episode'') all_reasons))"

definition RegisterMetrics :: "registry \<Rightarrow> string + registry" where
  "RegisterMetrics reg = and_then (RegisterRewardMetrics reg) RegisterMazeEpisodeMetrics"

definition ratio_of :: "bool \<Rightarrow> f64" where
  "ratio_of b = (if b then Fin 1 else Fin 0)"

definition agent_points ::
  "((string, f64) table \<Rightarrow> (string, f64) table) \<Rightarrow> registry \<Rightarrow> agent_result \<Rightarrow> metric_record \<Rightarrow>
   string + metric_record" where
  "agent_points order reg a r =
     (if ar_blocked a < 0 \<or> ar_blocked a > ar_attempted a \<or> ar_reason a = ReasonUnspecified
      then Inl ''agent episode metric facts are contradictory''
      else
        and_then (AppendAgentEpisodeMetrics order reg MazeAgentEpisodeMetricIds (agent_summary.truncate a) r) (\<lambda>r1.
        and_then (registry_Mean reg r1 ''task.maze.success'' (ratio_of (ar_success a)) 1) (\<lambda>r2.
        and_then (registry_Mean reg r2 ''task.maze.unique_cells'' (f64_of_int (ar_unique_cells a)) 1) (\<lambda>r3.
        and_then (if ar_attempted a > 0
                  then registry_Mean reg r3 ''task.maze.blocked_move_rate''
                         (f64_of_int (ar_blocked a)) (word_of_int (ar_attempted a))
                  else Inr r3) (\<lambda>r4.
        and_then (if ar_success a \<and> ar_shortest a > 0
                  then registry_Mean reg r4 ''task.maze.path_ratio''
                         (f64_div (f64_of_int (sum_transitions a)) (f64_of_int (ar_shortest a))) 1
                  else Inr r4) (\<lambda>r5.
        and_then (registry_Unsigned reg r5
                    (''task.maze.termination.'' @ MazeTerminationReason_Name (ar_reason a)) 1) (\<lambda>r6.
          Inr (AnnotateAgentEpisodeMetricPoints (agent_summary.truncate a) (length (rec_points r1)) r6))))))))"

definition BuildMazeEpisodeMetrics ::
  "((string, f64) table \<Rightarrow> (string, f64) table) \<Rightarrow> registry \<Rightarrow> string \<Rightarrow> string \<Rightarrow> agent_result list \<Rightarrow>
   string + metric_record" where
  "BuildMazeEpisodeMetrics order reg environment_id episode_id results =
     (if environment_id = [] \<or> episode_id = [] \<or> results = []
      then Inl ''episode metric context is incomplete''
      else
        and_then (registry_Unsigned reg
            (empty_record\<lparr>rec_attributes :=
               put_sorted ''episode_id'' episode_id
                 (put_sorted ''environment_instance_id'' environment_id [])\<rparr>)
            ''task.maze.environment_episodes'' 1) (\<lambda>r1.
        and_then (registry_Mean reg r1 ''task.maze.any_success''
            (ratio_of (list_ex ar_success results)) 1) (\<lambda>r2.
        and_then (registry_Mean reg r2 ''task.maze.all_success''
            (ratio_of (list_all ar_success results)) 1) (\<lambda>r3.
          fold_res (agent_points order reg) results r3))))"

end
