(* ===== verification/Maze_Controller.thy ===== *)
theory Maze_Controller
  imports Maze_Types
begin

text \<open>
  \<open>maze/episode/episode_controller\<close>: the ledger of a training run.  Its counters only ever advance.
\<close>

section \<open>The code\<close>

record maze_model =
  mm_step :: u64
  mm_lineage :: string
  mm_trained :: int

definition no_model :: maze_model where
  "no_model = \<lparr>mm_step = 0, mm_lineage = [], mm_trained = 0\<rparr>"

text \<open>\<open>trained_samples\<close> is assigned from an unsigned to a signed 64 bit field.\<close>

definition ModelIdentity :: "model_manifest \<Rightarrow> maze_model" where
  "ModelIdentity m = \<lparr>mm_step = model_step m, mm_lineage = model_lineage_id m,
     mm_trained = to_int64 (trained_samples m)\<rparr>"

record episode_controller =
  ec_initialized :: bool
  ec_baseline :: maze_model
  ec_latest :: maze_model
  ec_max_steps :: int
  ec_produced :: int

definition new_controller :: episode_controller where
  "new_controller = \<lparr>ec_initialized = False, ec_baseline = no_model, ec_latest = no_model,
     ec_max_steps = 0, ec_produced = 0\<rparr>"

record maze_plan =
  plan_training :: bool
  plan_max_steps :: int
  plan_model :: maze_model

definition ValidateModel :: "maze_model \<Rightarrow> string + unit" where
  "ValidateModel m =
     (if mm_lineage m = [] \<or> mm_trained m < 0 then Inl ''single-map model identity is invalid''
      else Inr ())"

definition ValidateTrainingProgress :: "maze_model \<Rightarrow> int \<Rightarrow> episode_controller \<Rightarrow> string + unit" where
  "ValidateTrainingProgress m produced c =
     and_then (ValidateModel m) (\<lambda>_.
       if produced < 0 \<or> produced < ec_produced c
       then Inl ''single-map produced-transition counter moved backwards''
       else if mm_step m < mm_step (ec_baseline c) \<or> mm_trained m < mm_trained (ec_baseline c)
       then Inl ''single-map model counters moved behind the resume baseline''
       else if mm_step m < mm_step (ec_latest c) \<or> mm_trained m < mm_trained (ec_latest c)
       then Inl ''single-map active model counters moved backwards''
       else if mm_step m = mm_step (ec_latest c) \<and> m \<noteq> ec_latest c
       then Inl ''single-map active model identity changed at one step''
       else Inr ())"

definition ec_Initialize :: "int \<Rightarrow> maze_model \<Rightarrow> int \<Rightarrow> episode_controller \<Rightarrow> string + episode_controller" where
  "ec_Initialize max_steps m produced c =
     (if ec_initialized c then Inl ''single-map task controller is already initialized''
      else and_then (ValidateModel m) (\<lambda>_.
        if max_steps \<le> 0 \<or> produced \<noteq> 0
        then Inl ''single-map training must start with zero produced transitions''
        else if mm_step m \<noteq> 0 \<or> mm_trained m \<noteq> 0
        then Inl ''single-map training must start at model step 0 with zero counters''
        else Inr (c\<lparr>ec_max_steps := max_steps, ec_baseline := m, ec_latest := m, ec_produced := 0,
                   ec_initialized := True\<rparr>)))"

definition PlanNextEpisode :: "maze_model \<Rightarrow> int \<Rightarrow> episode_controller \<Rightarrow> string + maze_plan \<times> episode_controller" where
  "PlanNextEpisode m produced c =
     (if \<not> ec_initialized c then Inl ''single-map task controller is not initialized''
      else and_then (ValidateTrainingProgress m produced c) (\<lambda>_.
        Inr (\<lparr>plan_training = True, plan_max_steps = ec_max_steps c, plan_model = m\<rparr>,
             c\<lparr>ec_latest := m, ec_produced := produced\<rparr>)))"

definition ObserveTrainingProgress :: "maze_model \<Rightarrow> int \<Rightarrow> episode_controller \<Rightarrow> string + episode_controller" where
  "ObserveTrainingProgress m produced c =
     (if \<not> ec_initialized c then Inl ''single-map task controller is not initialized''
      else and_then (ValidateTrainingProgress m produced c) (\<lambda>_.
        Inr (c\<lparr>ec_latest := m, ec_produced := produced\<rparr>)))"

definition ec_ToJson :: "episode_controller \<Rightarrow> string" where
  "ec_ToJson c =
     ''{\"baseline\":{\"model_step\":'' @ dec (unat (mm_step (ec_baseline c))) @
     '',\"model_lineage_id\":\"'' @ mm_lineage (ec_baseline c) @
     ''\",\"trained_samples\":'' @ dec (nat (mm_trained (ec_baseline c))) @ ''}'' @
     '',\"produced_transitions\":'' @ dec (nat (ec_produced c)) @
     '',\"episode_max_steps\":'' @ dec (nat (ec_max_steps c)) @ ''}''"

section \<open>The ledger\<close>

definition ledger_ok :: "episode_controller \<Rightarrow> bool" where
  "ledger_ok c \<longleftrightarrow>
     (ec_initialized c \<longrightarrow>
        ec_max_steps c > 0 \<and> mm_lineage (ec_latest c) \<noteq> [] \<and> mm_step (ec_baseline c) = 0 \<and>
        mm_trained (ec_baseline c) = 0 \<and> 0 \<le> mm_trained (ec_latest c) \<and> 0 \<le> ec_produced c)"

text \<open>A run of the ledger: the inputs it accepted, oldest first.\<close>

datatype ledger_event = Planned maze_model int | Observed maze_model int

fun ledger_step :: "ledger_event \<Rightarrow> episode_controller \<Rightarrow> string + episode_controller" where
  "ledger_step (Planned m n) c = and_then (PlanNextEpisode m n c) (\<lambda>(_, c'). Inr c')"
| "ledger_step (Observed m n) c = ObserveTrainingProgress m n c"

definition advances :: "episode_controller \<Rightarrow> episode_controller \<Rightarrow> bool" where
  "advances c c' \<longleftrightarrow>
     mm_step (ec_latest c) \<le> mm_step (ec_latest c') \<and>
     mm_trained (ec_latest c) \<le> mm_trained (ec_latest c') \<and> ec_produced c \<le> ec_produced c' \<and>
     ec_baseline c' = ec_baseline c \<and> ec_max_steps c' = ec_max_steps c \<and>
     ec_initialized c' = ec_initialized c \<and>
     (mm_step (ec_latest c) = mm_step (ec_latest c') \<longrightarrow> ec_latest c = ec_latest c')"

lemma progress_valid:
  assumes "ValidateTrainingProgress m n c = Inr u"
  shows "mm_lineage m \<noteq> [] \<and> 0 \<le> mm_trained m \<and> 0 \<le> n \<and> ec_produced c \<le> n \<and>
    mm_step (ec_latest c) \<le> mm_step m \<and> mm_trained (ec_latest c) \<le> mm_trained m \<and>
    (mm_step m = mm_step (ec_latest c) \<longrightarrow> m = ec_latest c)"
  using assms unfolding ValidateTrainingProgress_def ValidateModel_def
  by (simp split: if_splits)

lemma ledger_step_form:
  assumes "ledger_step e c = Inr c'"
  obtains m n where "ValidateTrainingProgress m n c = Inr ()" "ec_initialized c"
    "c' = c\<lparr>ec_latest := m, ec_produced := n\<rparr>"
  using assms
  by (cases e) (auto simp: PlanNextEpisode_def ObserveTrainingProgress_def and_then_Inr split: if_splits)

lemma ledger_step_advances:
  assumes "ledger_step e c = Inr c'" "ledger_ok c"
  shows "advances c c' \<and> ledger_ok c'"
  using assms(1)
proof (rule ledger_step_form)
  fix m n
  assume v: "ValidateTrainingProgress m n c = Inr ()" and i: "ec_initialized c"
    and c': "c' = c\<lparr>ec_latest := m, ec_produced := n\<rparr>"
  from progress_valid [OF v] assms(2) i show ?thesis
    by (auto simp: advances_def ledger_ok_def c')
qed

lemma advances_trans:
  assumes "advances a b" "advances b c"
  shows "advances a c"
proof -
  have "ec_latest a = ec_latest c" if "mm_step (ec_latest a) = mm_step (ec_latest c)"
  proof -
    have "mm_step (ec_latest a) = mm_step (ec_latest b)" "mm_step (ec_latest b) = mm_step (ec_latest c)"
      using assms that by (auto simp: advances_def)
    with assms show ?thesis by (simp add: advances_def)
  qed
  moreover have "mm_step (ec_latest a) \<le> mm_step (ec_latest c)"
    using assms order_trans unfolding advances_def by blast
  ultimately show ?thesis using assms by (auto simp: advances_def)
qed

text \<open>C20: whatever sequence of plans and progress reports the ledger accepts, the model step, the
  trained samples and the produced transitions never decrease, one step never has two identities,
  and the baseline stays the fresh model the run started from.\<close>

theorem ledger_never_regresses:
  assumes "fold_res ledger_step events c = Inr c'" "ledger_ok c"
  shows "advances c c' \<and> ledger_ok c'"
  using assms
proof (induction events arbitrary: c)
  case Nil
  then show ?case by (simp add: advances_def)
next
  case (Cons e events)
  then obtain c1 where "ledger_step e c = Inr c1" "fold_res ledger_step events c1 = Inr c'"
    by (auto simp: and_then_Inr)
  with Cons.IH [of c1] ledger_step_advances [of e c c1] Cons.prems(2) advances_trans
  show ?case by blast
qed

definition demo_model :: "u64 \<Rightarrow> int \<Rightarrow> maze_model" where
  "demo_model s n = \<lparr>mm_step = s, mm_lineage = ''run'', mm_trained = n\<rparr>"

definition demo_ledger :: episode_controller where
  "demo_ledger = \<lparr>ec_initialized = True, ec_baseline = demo_model 0 0, ec_latest = demo_model 0 0,
     ec_max_steps = 5, ec_produced = 0\<rparr>"

theorem ledger_never_regresses_witness:
  "\<exists>c'. fold_res ledger_step [Planned (demo_model 0 0) 0, Observed (demo_model 1 64) 70] demo_ledger = Inr c' \<and>
     mm_step (ec_latest demo_ledger) \<le> mm_step (ec_latest c')"
proof -
  have r: "fold_res ledger_step [Planned (demo_model 0 0) 0, Observed (demo_model 1 64) 70] demo_ledger
      = Inr (demo_ledger\<lparr>ec_latest := demo_model 1 64, ec_produced := 70\<rparr>)"
    by (simp add: PlanNextEpisode_def ObserveTrainingProgress_def ValidateTrainingProgress_def
        ValidateModel_def demo_ledger_def demo_model_def)
  have "ledger_ok demo_ledger" by (simp add: ledger_ok_def demo_ledger_def demo_model_def)
  with ledger_never_regresses [OF r] r show ?thesis by (simp add: advances_def)
qed

end
