(* ===== verification/Maze_Observation.thy ===== *)
theory Maze_Observation
  imports Maze_Types
begin

text \<open>
  \<open>maze/observation/observation\<close>: what an Agent sees, and the bookkeeping of the positions it
  reports.  \<open>std::sqrt\<close> on floats is the parameter \<open>f_sqrt\<close>.
\<close>

section \<open>Building an observation\<close>

definition kDimension :: int where "kDimension = 17"

text \<open>The turns left, the step and the previous position of the loop over one ray.\<close>

fun ray_loop :: "(int \<Rightarrow> int \<Rightarrow> bool) \<Rightarrow> int \<Rightarrow> int \<Rightarrow> nat \<Rightarrow> int \<Rightarrow> int \<Rightarrow> int \<Rightarrow> int \<Rightarrow> int" where
  "ray_loop w dx dy 0 next_x next_y prev_x prev_y = 0"
| "ray_loop w dx dy (Suc n) next_x next_y prev_x prev_y =
     (if \<not> w next_x next_y then 0
      else if dx \<noteq> 0 \<and> dy \<noteq> 0 \<and> (\<not> w (prev_x + dx) prev_y \<or> \<not> w prev_x (prev_y + dy)) then 0
      else 1 + ray_loop w dx dy n (next_x + dx) (next_y + dy) next_x next_y)"

definition ray_open :: "(int \<Rightarrow> int \<Rightarrow> bool) \<Rightarrow> int \<Rightarrow> int \<Rightarrow> int \<Rightarrow> int \<times> int \<Rightarrow> int" where
  "ray_open w max_range gx gy dir =
     (case dir of (dx, dy) \<Rightarrow> ray_loop w dx dy (nat max_range) (gx + dx) (gy + dy) gx gy)"

definition scaled :: "int \<Rightarrow> int \<Rightarrow> f32" where
  "scaled v extent = (if extent > 1 then f32_div (f32_of_int v) (f32_of_int (extent - 1)) else Fin 0)"

definition obs_direction :: "(f32 \<Rightarrow> f32) \<Rightarrow> maze_state \<Rightarrow> int \<Rightarrow> int \<Rightarrow> f32 list" where
  "obs_direction f_sqrt m gx gy =
     (let dx = f32_of_int (ms_end_gx m - gx); dy = f32_of_int (ms_end_gy m - gy);
          distance = f_sqrt (f32_add (f32_mul dx dx) (f32_mul dy dy));
          max_distance = f_sqrt (f32_of_int (to_int32
            (to_int32 ((ms_cols m - 1) * (ms_cols m - 1)) + to_int32 ((ms_rows m - 1) * (ms_rows m - 1)))))
      in (if fp_lt (Fin 0) distance then [f32_div dx distance, f32_div dy distance] else [Fin 0, Fin 0]) @
         [if fp_lt (Fin 0) max_distance then f32_div distance max_distance else Fin 0])"

definition obs_values ::
  "(f32 \<Rightarrow> f32) \<Rightarrow> maze_state \<Rightarrow> maze_agent \<Rightarrow> int \<Rightarrow> int \<Rightarrow> int \<Rightarrow> int \<Rightarrow> f32 list" where
  "obs_values f_sqrt m a gx gy episode_step ray_max_range =
     [scaled gx (ms_cols m), scaled gy (ms_rows m), scaled (ms_end_gx m) (ms_cols m),
      scaled (ms_end_gy m) (ms_rows m)] @
     obs_direction f_sqrt m gx gy @
     map (\<lambda>dir. f32_div (f32_of_int (ray_open (IsWalkable m) ray_max_range gx gy dir))
                  (f32_of_int ray_max_range)) kDirections @
     [to_f32 (f64_div (fp_max (Fin 0) (f64_sub (rnd64 (of_int (ms_current_max_steps m)))
                                         (rnd64 (of_int episode_step))))
                (rnd64 (of_int (ms_current_max_steps m)))),
      if last_move_blocked a then Fin 1 else Fin 0]"

definition obs_Build ::
  "(f32 \<Rightarrow> f32) \<Rightarrow> maze_state \<Rightarrow> maze_agent \<Rightarrow> int \<Rightarrow> int \<Rightarrow> int \<Rightarrow> int \<Rightarrow> int \<Rightarrow> string + f32 list" where
  "obs_Build f_sqrt m a gx gy episode_step ray_max_range obs_dim =
     (if obs_dim \<noteq> kDimension \<or> ms_current_max_steps m \<le> 0 \<or> episode_step < 0 \<or>
         \<not> IsWalkable m gx gy
      then Inl ''observation dimensions, step, or grid state are invalid''
      else let obs = obs_values f_sqrt m a gx gy episode_step ray_max_range
           in if list_all isfinite obs then Inr obs else Inl ''observation contains a non-finite value'')"

section \<open>Applying a reported state\<close>

text \<open>
  Both parts of the Agent change.  \<open>visited\<close> is a set; \<open>insert\<close> tells whether the key is new.
\<close>

definition ApplyState ::
  "maze_state \<Rightarrow> agent \<times> maze_agent \<Rightarrow> int \<Rightarrow> int \<Rightarrow> int \<Rightarrow> bool \<Rightarrow> bool \<Rightarrow> string + agent \<times> maze_agent" where
  "ApplyState m am gx gy frame is_done blocked =
     (case am of (a, t) \<Rightarrow>
        let key = gy * ms_cols m + gx
        in if \<not> IsWalkable m gx gy then Inl ''observation state is not walkable''
           else if observation_done a
           then (if \<not> is_done then Inl ''terminal observation became active'' else Inr (a, t))
           else if frame = 0 \<and> last_observation_frame_id a < 0
           then (if blocked then Inl ''initial observation cannot report a blocked move''
                 else if key < 0 \<or> key \<ge> int (length (ms_distance m)) \<or> ms_distance m ! nat key \<le> 0
                 then Inl ''initial observation cannot seed the reward distance''
                 else Inr (a\<lparr>last_observation_frame_id := 0, observation_done := is_done\<rparr>,
                           t\<lparr>visited := [key], current_state_first_visit := False,
                             episode_start_geodesic_distance := ms_distance m ! nat key,
                             observation_grid_x := gx, observation_grid_y := gy,
                             last_move_blocked := False\<rparr>))
           else if last_observation_frame_id a < 0 \<or> frame \<noteq> last_observation_frame_id a + 1
           then Inl ''observation frame is not contiguous''
           else let moved = (gx \<noteq> observation_grid_x t \<or> gy \<noteq> observation_grid_y t);
                    fresh = (moved \<and> key \<notin> set (visited t))
                in Inr (a\<lparr>last_observation_frame_id := frame, observation_done := is_done\<rparr>,
                     t\<lparr>last_move_blocked := blocked,
                       blocked_move_count := (if blocked then blocked_move_count t + 1
                                              else blocked_move_count t),
                       current_state_first_visit := fresh,
                       visited := (if fresh then key # visited t else visited t),
                       observation_grid_x := gx, observation_grid_y := gy\<rparr>))"

section \<open>What a ray measures\<close>

lemma ray_loop_bounds: "0 \<le> ray_loop w dx dy n x y px py \<and> ray_loop w dx dy n x y px py \<le> int n"
  by (induction w dx dy n x y px py rule: ray_loop.induct) auto

lemma ray_loop_open:
  "int k < ray_loop w dx dy n (px + dx) (py + dy) px py \<Longrightarrow>
     open_move w (px + int k * dx) (py + int k * dy) (dx, dy)"
proof (induction n arbitrary: k px py)
  case (Suc n)
  show ?case
  proof (cases k)
    case 0
    with Suc.prems show ?thesis by (auto simp: open_move_def split: if_splits)
  next
    case (Suc j)
    with Suc.prems have "int j < ray_loop w dx dy n (px + dx + dx) (py + dy + dy) (px + dx) (py + dy)"
      by (simp split: if_splits)
    from Suc.IH [OF this] show ?thesis by (simp add: Suc algebra_simps)
  qed
qed simp

lemma ray_loop_stops:
  "r = ray_loop w dx dy n (px + dx) (py + dy) px py \<Longrightarrow> r < int n \<Longrightarrow>
     \<not> open_move w (px + r * dx) (py + r * dy) (dx, dy)"
proof (induction n arbitrary: r px py)
  case (Suc n)
  let ?r = "ray_loop w dx dy n (px + dx + dx) (py + dy + dy) (px + dx) (py + dy)"
  show ?case
  proof (cases "open_move w px py (dx, dy)")
    case False
    with Suc.prems(1) have "r = 0" by (auto simp: open_move_def)
    with False show ?thesis by simp
  next
    case True
    with Suc.prems(1) have r: "r = 1 + ?r" by (auto simp: open_move_def)
    with Suc.prems(2) have "?r < int n" by simp
    from Suc.IH [OF refl this] show ?thesis by (simp add: r algebra_simps)
  qed
qed simp

lemma ray_route:
  "(dx, dy) \<in> set kDirections \<Longrightarrow> (\<And>j. j < k \<Longrightarrow> open_move w (x + int j * dx) (y + int j * dy) (dx, dy)) \<Longrightarrow>
     route w k (x, y) (x + int k * dx, y + int k * dy)"
proof (induction k)
  case (Suc k)
  then have "route w k (x, y) (x + int k * dx, y + int k * dy)" by simp
  from route_move [OF this Suc.prems(1) Suc.prems(2) [of k]] show ?case by (simp add: algebra_simps)
qed (simp add: route_refl)

text \<open>C33: a ray of the observation is the exact number of legal moves the Agent can make in that
  direction, up to the configured range: that many moves form a route, and one more, within the
  range, would be illegal.\<close>

theorem ray_measures_moves:
  assumes "(dx, dy) \<in> set kDirections" "r = ray_open w max_range gx gy (dx, dy)"
  shows "0 \<le> r \<and> r \<le> max 0 max_range \<and> route w (nat r) (gx, gy) (gx + r * dx, gy + r * dy) \<and>
    (r < max_range \<longrightarrow> \<not> open_move w (gx + r * dx) (gy + r * dy) (dx, dy))"
proof -
  let ?n = "nat max_range"
  have r: "r = ray_loop w dx dy ?n (gx + dx) (gy + dy) gx gy" using assms(2) by (simp add: ray_open_def)
  note b = ray_loop_bounds [of w dx dy ?n "gx + dx" "gy + dy" gx gy, folded r]
  have "route w (nat r) (gx, gy) (gx + int (nat r) * dx, gy + int (nat r) * dy)"
  proof (rule ray_route [OF assms(1)])
    fix j assume "j < nat r"
    then have "int j < ray_loop w dx dy ?n (gx + dx) (gy + dy) gx gy" using r by linarith
    then show "open_move w (gx + int j * dx) (gy + int j * dy) (dx, dy)" by (rule ray_loop_open)
  qed
  moreover have "r \<le> max 0 max_range" using b by linarith
  ultimately show ?thesis using b ray_loop_stops [OF r] by auto
qed

theorem ray_measures_moves_witness:
  "route (\<lambda>x y. 0 \<le> x \<and> x < 3 \<and> y = 0) 2 (0, 0) (2, 0)"
proof -
  have "(1, 0) \<in> set kDirections" by (simp add: kDirections_def)
  moreover have "2 = ray_open (\<lambda>x y. 0 \<le> x \<and> x < 3 \<and> y = 0) 10 0 0 (1, 0)" by code_simp
  ultimately show ?thesis using ray_measures_moves by fastforce
qed

section \<open>What reported states keep\<close>

text \<open>The positions seen so far are pairwise different cells of the map.\<close>

definition seen_ok :: "maze_state \<Rightarrow> agent \<times> maze_agent \<Rightarrow> bool" where
  "seen_ok m am \<longleftrightarrow>
     (case am of (a, t) \<Rightarrow>
        distinct (visited t) \<and> 0 \<le> blocked_move_count t \<and>
        (last_observation_frame_id a \<ge> 0 \<longrightarrow>
           blocked_move_count t \<le> last_observation_frame_id a \<and>
           int (length (visited t)) \<le> last_observation_frame_id a + 1 \<and>
           0 < episode_start_geodesic_distance t \<and> visited t \<noteq> [] \<and>
           IsWalkable m (observation_grid_x t) (observation_grid_y t)) \<and>
        (last_observation_frame_id a < 0 \<longrightarrow> blocked_move_count t = 0))"

text \<open>every accepted state keeps the bookkeeping of an Agent sound: visited cells are counted
  once, a frame adds at most one cell and one blocked move, the start distance is positive and the
  position is open; frames are accepted in sequence only.\<close>

theorem apply_state_invariant:
  assumes "ApplyState m am gx gy frame is_done blocked = Inr am'" "seen_ok m am" "0 \<le> frame"
  shows "seen_ok m am' \<and>
    (\<not> observation_done (fst am) \<longrightarrow>
       last_observation_frame_id (fst am') = frame \<and>
       (0 \<le> last_observation_frame_id (fst am) \<longrightarrow> frame = last_observation_frame_id (fst am) + 1))"
proof -
  obtain a t where am: "am = (a, t)" by force
  show ?thesis
  proof (cases "observation_done a \<or> frame = 0 \<and> last_observation_frame_id a < 0")
    case True
    with assms show ?thesis
      by (auto simp: am ApplyState_def Let_def seen_ok_def split: if_splits)
  next
    case False
    with assms show ?thesis
      by (auto simp: am ApplyState_def Let_def seen_ok_def split: if_splits)
  qed
qed

definition demo_maze :: maze_state where
  "demo_maze = new_maze_state\<lparr>ms_cols := 3, ms_rows := 1, ms_blocked := [False, False, False],
     ms_distance := [2, 1, 0], ms_shortest_action_steps := 2, ms_end_gx := 2\<rparr>"

theorem apply_state_invariant_witness:
  "\<exists>am'. ApplyState demo_maze (new_agent, new_maze_agent) 0 0 0 False False = Inr am' \<and> seen_ok demo_maze am'"
proof -
  have r: "\<exists>am'. ApplyState demo_maze (new_agent, new_maze_agent) 0 0 0 False False = Inr am'"
    by (simp add: ApplyState_def demo_maze_def IsWalkable_def walkable_def new_agent_def)
  have "seen_ok demo_maze (new_agent, new_maze_agent)"
    by (simp add: seen_ok_def new_agent_def new_maze_agent_def)
  with r apply_state_invariant show ?thesis by blast
qed

end
