(* ===== verification/Task_Service.thy ===== *)
theory Task_Service
  imports Transaction
begin

text \<open>
  \<open>task/protocol/training_task_service.h\<close>: the lifecycle RPCs.  Every handler runs under the
  runtime's mutex and is one function from the service state to a response and the next state.  The
  class is a template over the task; its operations are the record \<open>task_ops\<close>, which the Maze
  task instantiates.  The generated message classes of an RPC are its \<open>codec\<close>.
\<close>

section \<open>The task's side\<close>

datatype task_error_kind = KindInput | KindRuntime | KindRollout

record task_error =
  te_code :: command_error
  te_message :: string
  te_kind :: task_error_kind

text \<open>
  A session of the template has a task part of type \<open>'t\<close>.  \<open>PrepareOutcome\<close> may throw; the
  response then keeps what was already written to it.
\<close>

datatype 'p outcome_result =
  OutcomeFailed task_error | OutcomeThrown "'p option" string | OutcomePrepared 'p metric_record

record ('t, 'c, 'q, 'p) task_ops =
  op_new :: 't
  op_fill_open :: "session \<Rightarrow> 't \<Rightarrow> 't \<times> 'p"
  op_initialize :: "session \<times> 't \<Rightarrow> 'c \<Rightarrow> 'q \<Rightarrow> model_manifest \<Rightarrow> int \<Rightarrow>
    task_error + (session \<times> 't) \<times> 'c"
  op_assign :: "session \<times> 't \<Rightarrow> 'c \<Rightarrow> model_manifest \<Rightarrow> int \<Rightarrow> string \<Rightarrow>
    task_error + (session \<times> 't) \<times> 'c \<times> 'p"
  op_decode :: "session \<times> 't \<Rightarrow> 'q \<Rightarrow> bool \<Rightarrow> task_error + (session \<times> 't) \<times> task_input list"
  op_encode :: "session \<times> 't \<Rightarrow> (int \<times> nat) list \<Rightarrow> (session \<times> 't) \<times> 'p"
  op_observe :: "'c \<Rightarrow> model_manifest \<Rightarrow> int \<Rightarrow> task_error + 'c"
  op_outcome :: "session \<times> 't \<Rightarrow> registry \<Rightarrow> 'p outcome_result"
  op_valid_abort :: "'q \<Rightarrow> bool"
  op_episode_id :: "u64 \<Rightarrow> string"
  op_frame_id :: "'q \<Rightarrow> int"

section \<open>State\<close>

record ('g, 't, 'c) service =
  srv :: "'g runtime"
  tasks :: "string \<Rightarrow> 't"
  controller :: 'c

text \<open>
  What a call observes of the rest of the process: clocks, the time it took, what the sender thread
  does to the distributor meanwhile, and the serialisation of metric records.
\<close>

record 'g call_env =
  ce_env :: "'g environ"
  ce_now_ms :: int
  ce_steady :: int
  ce_latency :: f64
  ce_enqueue_ms :: f64
  ce_sender :: "dist \<Rightarrow> dist"
  ce_before_seal :: "dist \<Rightarrow> dist"
  ce_before_commit :: "dist \<Rightarrow> dist"
  ce_ser_metric :: "metric_record \<Rightarrow> string option"
  ce_event_size :: "metric_event \<Rightarrow> nat"

definition WorkloadModeForRunMode :: "int \<Rightarrow> policy_mode" where
  "WorkloadModeForRunMode m =
     (if m = kTraining then ModeTraining else if m = kEvaluation then ModeEvaluation
      else ModeUnspecified)"

definition FillOpenRejected :: "command_error \<Rightarrow> string \<Rightarrow> command_reply" where
  "FillOpenRejected code message =
     \<lparr>rpl_result = ResultRejected, rpl_error = code, rpl_message = message, rpl_applied_sequence = 0,
      rpl_phase = PhaseUnspecified\<rparr>"

definition IsCoreInferenceReady :: "'g runtime \<Rightarrow> bool" where
  "IsCoreInferenceReady rt \<longleftrightarrow> server_state rt = AiReady \<and> model_load_state rt = ModelReady"

definition IsReady :: "'g runtime \<Rightarrow> bool" where
  "IsReady rt \<longleftrightarrow> IsCoreInferenceReady rt \<and>
     (run_mode (config rt) \<noteq> kTraining \<or> IsTrainingDeliveryReady (config rt) (distributor rt))"

text \<open>\<open>prefix + ": " + cause\<close>, when there is a cause.\<close>

definition because :: "string \<Rightarrow> string \<Rightarrow> string \<Rightarrow> string" where
  "because plain prefix cause = (if cause = [] then plain else prefix @ cause)"

section \<open>OpenSession\<close>

record 'q open_req =
  oq_request_id :: string
  oq_client :: service_identity
  oq_environment :: string
  oq_body :: 'q

record 'p open_rsp =
  or_reply :: command_reply
  or_session_id :: string
  or_session_epoch :: u64
  or_aiserver :: service_identity
  or_body :: "'p option"

definition empty_open :: "'p open_rsp" where
  "empty_open = \<lparr>or_reply = empty_reply, or_session_id = [], or_session_epoch = 0,
     or_aiserver = no_service, or_body = None\<rparr>"

record ('q, 'p) open_codec =
  ser_open_req :: "'q open_req \<Rightarrow> string"
  ser_open_rsp :: "'p open_rsp \<Rightarrow> string"
  parse_open_rsp :: "string \<Rightarrow> 'p open_rsp option"

definition open_rejected :: "command_error \<Rightarrow> string \<Rightarrow> 'p open_rsp" where
  "open_rejected code message = empty_open\<lparr>or_reply := FillOpenRejected code message\<rparr>"

definition note_activity :: "string \<Rightarrow> int \<Rightarrow> 'g runtime \<Rightarrow> 'g runtime" where
  "note_activity sid now rt =
     (case GetSession (session_mgr rt) sid of
        None \<Rightarrow> rt
      | Some s \<Rightarrow> rt\<lparr>session_mgr :=
          SetSession sid (s\<lparr>last_valid_client_activity_unix_ms := now\<rparr>) (session_mgr rt)\<rparr>)"

text \<open>The session \<open>CreateSession\<close> just made always exists, so the branch for a missing one is gone.\<close>

definition open_fresh ::
  "('t, 'c, 'q, 'p) task_ops \<Rightarrow> 'g call_env \<Rightarrow> 'q open_req \<Rightarrow> ('g, 't, 'c) service \<Rightarrow>
   'p open_rsp \<times> ('g, 't, 'c) service" where
  "open_fresh ops ce req S =
     (case CreateSession (session_mgr (srv S)) of
        (sid, m) \<Rightarrow>
          let epoch = next_lifecycle_epoch (srv S);
              s = (new_session sid)\<lparr>client := oq_client req,
                    environment_instance_id := oq_environment req,
                    last_valid_client_activity_unix_ms := ce_now_ms ce, session_epoch := epoch,
                    workload_mode := WorkloadModeForRunMode (run_mode (config (srv S))),
                    phase := PhaseOpen\<rparr>;
              (t, b) = op_fill_open ops s (op_new ops);
              rsp = \<lparr>or_reply = \<lparr>rpl_result = ResultApplied, rpl_error = ErrorUnspecified,
                       rpl_message = ''session opened'', rpl_applied_sequence = 0,
                       rpl_phase = phase s\<rparr>,
                     or_session_id = sid, or_session_epoch = epoch,
                     or_aiserver = \<lparr>component = ''rl-aiserver'',
                       instance_id = producer_instance_id (srv S),
                       lifecycle_epoch = producer_lifecycle_epoch (srv S)\<rparr>,
                     or_body = Some b\<rparr>
          in (rsp, S\<lparr>srv := (srv S)\<lparr>session_mgr := SetSession sid s m,
                              next_lifecycle_epoch := epoch + 1\<rparr>,
                     tasks := (tasks S)(sid := t)\<rparr>))"

definition remember_open :: "string \<Rightarrow> string \<Rightarrow> string \<Rightarrow> 'g runtime \<Rightarrow> 'g runtime" where
  "remember_open request_id payload response rt =
     rt\<lparr>open_payloads := (open_payloads rt)(request_id \<mapsto> payload),
        open_responses := (open_responses rt)(request_id \<mapsto> response)\<rparr>"

definition OpenSession ::
  "('t, 'c, 'q, 'p) task_ops \<Rightarrow> ('q, 'p) open_codec \<Rightarrow> 'g call_env \<Rightarrow> 'q open_req \<Rightarrow>
   ('g, 't, 'c) service \<Rightarrow> 'p open_rsp \<times> ('g, 't, 'c) service" where
  "OpenSession ops w ce req S =
     (let payload = ser_open_req w req; rt = srv S
      in case open_payloads rt (oq_request_id req) of
           Some prior \<Rightarrow>
             if prior \<noteq> payload
             then (open_rejected PayloadConflict ''OpenSession request_id conflicts'', S)
             else (case Option.bind (open_responses rt (oq_request_id req)) (parse_open_rsp w) of
                     Some old \<Rightarrow>
                       (old\<lparr>or_reply := (or_reply old)\<lparr>rpl_result := ResultAlreadyApplied,
                          rpl_message := ''session was already opened''\<rparr>\<rparr>,
                        S\<lparr>srv := note_activity (or_session_id old) (ce_now_ms ce) rt\<rparr>)
                   | None \<Rightarrow>
                       (open_rejected StateConflict ''OpenSession response is unavailable'', S))
         | None \<Rightarrow>
             if \<not> IsReady rt
             then (open_rejected StateConflict
                     (because ''AIServer is not ready'' ''AIServer is not ready: '' (rt_last_error rt)), S)
             else if oq_request_id req = [] \<or> component (oq_client req) = [] \<or>
                     instance_id (oq_client req) = [] \<or> lifecycle_epoch (oq_client req) = 0 \<or>
                     oq_environment req = []
             then (open_rejected InvalidIdentity ''Client or environment identity is invalid'', S)
             else (case open_fresh ops ce req S of
                     (rsp, S') \<Rightarrow>
                       (rsp, S'\<lparr>srv := remember_open (oq_request_id req) payload
                                 (ser_open_rsp w rsp) (srv S')\<rparr>)))"

section \<open>Shared parts of the command handlers\<close>

definition put_session_part ::
  "string \<Rightarrow> session \<times> 't \<Rightarrow> ('g, 't, 'c) service \<Rightarrow> ('g, 't, 'c) service" where
  "put_session_part sid st S =
     S\<lparr>srv := (srv S)\<lparr>session_mgr := SetSession sid (fst st) (session_mgr (srv S))\<rparr>,
       tasks := (tasks S)(sid := snd st)\<rparr>"

definition touch :: "command_check \<Rightarrow> int \<Rightarrow> session \<Rightarrow> session" where
  "touch c now s =
     (if c = CheckProceed \<or> c = CheckReplayed
      then s\<lparr>last_valid_client_activity_unix_ms := now\<rparr> else s)"

text \<open>
  \<open>CheckedSession\<close>: the session when the command may proceed, and the response so far.
\<close>

definition CheckedSession ::
  "('q, 'p) codec \<Rightarrow> int \<Rightarrow> 'q request \<Rightarrow> ('g, 't, 'c) service \<Rightarrow>
   session option \<times> 'p response \<times> ('g, 't, 'c) service" where
  "CheckedSession w now req S =
     (let sid = cmd_session_id (command req)
      in case GetSession (session_mgr (srv S)) sid of
           None \<Rightarrow> (None, empty_response\<lparr>reply :=
                     FillOpenRejected InvalidIdentity ''session does not exist''\<rparr>, S)
         | Some s \<Rightarrow>
             (case CheckCommand w s req empty_response of
                (c, rsp) \<Rightarrow>
                  let s' = touch c now s
                  in (if c = CheckProceed then Some s' else None, rsp,
                      S\<lparr>srv := (srv S)\<lparr>session_mgr := SetSession sid s' (session_mgr (srv S))\<rparr>\<rparr>)))"

definition reject ::
  "session \<Rightarrow> command_error \<Rightarrow> string \<Rightarrow> 'p response" where
  "reject s code message = RejectCommand s code message empty_response"

definition note_task_error :: "task_error \<Rightarrow> 'g runtime \<Rightarrow> 'g runtime" where
  "note_task_error e rt =
     (let rt1 = (if te_kind e = KindRollout then rollout_failure rt else rt)
      in if te_kind e \<noteq> KindInput then rt_MarkDegraded (te_message e) rt1 else rt1)"

definition RejectTask ::
  "session \<Rightarrow> task_error \<Rightarrow> ('g, 't, 'c) service \<Rightarrow> 'p response \<times> ('g, 't, 'c) service" where
  "RejectTask s e S =
     (reject s (te_code e) (te_message e), S\<lparr>srv := note_task_error e (srv S)\<rparr>)"

definition admit_failed ::
  "session \<Rightarrow> reservation_result \<Rightarrow> string \<Rightarrow> ('g, 't, 'c) service \<Rightarrow>
   'p response \<times> ('g, 't, 'c) service" where
  "admit_failed s r err S =
     (if r = RetryableUnavailable
      then (FillReply s (last_command_sequence s) ResultWait ErrorUnspecified err
              (empty_response\<lparr>wait_ms :=
                 Some (PauseRetryAfterMs (config (srv S)) (distributor (srv S)))\<rparr>), S)
      else (let rt = rt_MarkDegraded (''processed envelope-set admission failed: '' @ err) (srv S)
            in (reject s StateConflict (rt_last_error rt), S\<lparr>srv := rt\<rparr>)))"

text \<open>\<open>Admit\<close>, followed by the commit of the transaction when it succeeds.\<close>

definition admit_and_commit ::
  "'g call_env \<Rightarrow> session \<Rightarrow> bool \<Rightarrow> 'p response \<Rightarrow> 't \<Rightarrow> 'c \<Rightarrow> 'g txn \<Rightarrow> ('g, 't, 'c) service \<Rightarrow>
   'p response \<times> ('g, 't, 'c) service" where
  "admit_and_commit ce s record_latency rsp t ctl tx S =
     (case Admit (ce_env ce) (ce_before_seal ce) (ce_before_commit ce) record_latency
             (ce_enqueue_ms ce) tx (srv S) of
        (r, err, rt) \<Rightarrow>
          if r = Reserved
          then (rsp, S\<lparr>srv := txn_Commit (session_id s) tx rt,
                       tasks := (tasks S)(session_id s := t), controller := ctl\<rparr>)
          else admit_failed s r err (S\<lparr>srv := rt\<rparr>))"

section \<open>Init\<close>

definition Init_proceed ::
  "('t, 'c, 'q, 'p) task_ops \<Rightarrow> ('q, 'p) codec \<Rightarrow> 'q request \<Rightarrow> session \<Rightarrow> ('g, 't, 'c) service \<Rightarrow>
   'p response \<times> ('g, 't, 'c) service" where
  "Init_proceed ops w req s S =
     (let rt = srv S; sid = session_id s
      in if phase s \<noteq> PhaseOpen \<or> cmd_episode_id (command req) \<noteq> []
         then (reject s StateConflict ''Init is not valid in the current session state'', S)
         else if \<not> IsReady rt \<or> model_ack_pending rt
         then (reject s StateConflict
                 (because ''AIServer is not ready to initialize the assigned task''
                   ''AIServer cannot initialize the assigned task: ''
                   (if_empty (rt_last_error rt) (pending_ack_cause rt) (rt_last_error rt))), S)
         else case op_initialize ops (s, tasks S sid) (controller S) (body req)
                     (active_manifest rt) (produced_unique_transitions rt) of
                Inl e \<Rightarrow> RejectTask s e S
              | Inr ((s1, t1), ctl) \<Rightarrow>
                  (case CommitCommand w ''task accepted and session initialized'' req empty_response
                          (s1\<lparr>phase := PhaseReady\<rparr>) of
                     (rsp, s2) \<Rightarrow>
                       (rsp, (put_session_part sid (s2, t1) S)
                          \<lparr>srv := (srv (put_session_part sid (s2, t1) S))\<lparr>client_initialized := True\<rparr>,
                           controller := (if run_mode (config rt) = kTraining then ctl
                                          else controller S)\<rparr>)))"

section \<open>BeginEpisode\<close>

definition delivery_refuses_episode :: "dist_snapshot \<Rightarrow> bool" where
  "delivery_refuses_episode sn \<longleftrightarrow>
     sn_terminal_fault sn \<or> sn_degraded sn \<or> \<not> sn_ready sn \<or>
     sn_delivery_state sn \<notin> {DsHealthy, DsLocalBackpressure, DsTransientRetry}"

definition pin_policy :: "bool \<Rightarrow> model_manifest \<Rightarrow> session \<Rightarrow> session" where
  "pin_policy training m s =
     s\<lparr>current_episode_mode := (if training then ModeTraining else ModeEvaluation),
       scope := (if training then TrainingAgentSegment else EvaluationEpisode),
       evaluation_pinned_model_lineage_id := (if training then [] else model_lineage_id m),
       evaluation_pinned_model_step := (if training then 0 else model_step m)\<rparr>"

definition BeginEpisode_proceed ::
  "('t, 'c, 'q, 'p) task_ops \<Rightarrow> ('q, 'p) codec \<Rightarrow> 'g call_env \<Rightarrow> 'q request \<Rightarrow> session \<Rightarrow>
   ('g, 't, 'c) service \<Rightarrow> 'p response \<times> ('g, 't, 'c) service" where
  "BeginEpisode_proceed ops w ce req s S =
     (let rt = srv S; sid = session_id s; training = (run_mode (config rt) = kTraining);
          sn = GetSnapshot (config rt) (ce_steady ce) (distributor rt)
      in if \<not> IsCoreInferenceReady rt
         then (reject s StateConflict
                 (because ''AIServer core inference is not ready to begin an episode''
                   ''AIServer cannot begin an episode: '' (rt_last_error rt)), S)
         else if phase s \<noteq> PhaseReady \<or> cmd_episode_id (command req) \<noteq> []
         then (reject s StateConflict ''BeginEpisode is not valid in the current state'', S)
         else if training \<and> delivery_refuses_episode sn
         then (reject s StateConflict
                 (because ''sample delivery cannot begin an episode''
                   ''sample delivery cannot begin an episode: '' (sn_last_error sn)), S)
         else case op_assign ops (pin_policy training (active_manifest rt) s, tasks S sid)
                     (controller S) (active_manifest rt) (produced_unique_transitions rt)
                     (op_episode_id ops (next_episode_id rt)) of
                Inl e \<Rightarrow> RejectTask s e S
              | Inr ((s1, t1), ctl, b) \<Rightarrow>
                  (case CommitCommand w
                          (if training
                           then ''training episode assigned with per-Agent segment model pinning''
                           else ''evaluation episode assigned with episode-pinned behavior policy'')
                          req (empty_response\<lparr>result_body := Some b\<rparr>)
                          (s1\<lparr>phase := PhaseEpisodeRunning\<rparr>) of
                     (rsp, s2) \<Rightarrow>
                       (rsp, (put_session_part sid (s2, t1) S)
                          \<lparr>srv := (srv (put_session_part sid (s2, t1) S))
                             \<lparr>next_episode_id := next_episode_id rt + 1\<rparr>,
                           controller := (if training then ctl else controller S)\<rparr>)))"

section \<open>Update\<close>

datatype delivery_gate = GateOpen | GateWait string | GateReject string

definition delivery_gate_of :: "dist_snapshot \<Rightarrow> delivery_gate" where
  "delivery_gate_of sn =
     (if sn_terminal_fault sn \<or> sn_degraded sn
      then GateReject (because ''SampleDistributor has a terminal fault''
             ''SampleDistributor has a terminal fault: '' (sn_last_error sn))
      else if sn_sample_delivery_paused sn \<or> sn_delivery_state sn \<noteq> DsHealthy
      then GateWait (if sn_transient_retry sn
             then ''SampleDistributor is recovering its ingress transport''
             else ''SampleDistributor local outbound queue is full'')
      else if \<not> sn_ready sn then GateReject ''SampleDistributor is not ready''
      else GateOpen)"

text \<open>From the transaction on.\<close>

definition Update_frame ::
  "('t, 'c, 'q, 'p) task_ops \<Rightarrow> ('q, 'p) codec \<Rightarrow> 'g call_env \<Rightarrow> 'q request \<Rightarrow> bool \<Rightarrow> session \<Rightarrow>
   ('g, 't, 'c) service \<Rightarrow> 'p response \<times> ('g, 't, 'c) service" where
  "Update_frame ops w ce req collect s S =
     (let training = (current_episode_mode s = ModeTraining)
      in case op_decode ops (s, tasks S (session_id s)) (body req) collect of
           Inl e \<Rightarrow> RejectTask s e S
         | Inr ((s1, t1), inputs) \<Rightarrow>
             (case PrepareFrame (ce_env ce) inputs (op_frame_id ops (body req)) collect
                     ((new_txn (srv S) s)\<lparr>tx_session := s1\<rparr>) (srv S) of
                (Inl err, rt1) \<Rightarrow> (reject s StateConflict err, S\<lparr>srv := rt1\<rparr>)
              | (Inr (tx, acts), rt1) \<Rightarrow>
                  (case op_encode ops (tx_session tx, t1) acts of
                     ((s2, t2), b) \<Rightarrow>
                       (case (if training
                              then op_observe ops (controller S) (active_manifest rt1) (tx_transitions tx)
                              else Inr (controller S)) of
                          Inl e \<Rightarrow> RejectTask s e (S\<lparr>srv := rt1\<rparr>)
                        | Inr ctl \<Rightarrow>
                            (case CommitCommand w
                                    (if acts = [] then ''terminal Agent states accepted''
                                     else ''Agent states accepted and actions assigned'')
                                    req (empty_response\<lparr>result_body := Some b\<rparr>) s2 of
                               (rsp, s3) \<Rightarrow>
                                 admit_and_commit ce s True rsp t2 ctl (tx\<lparr>tx_session := s3\<rparr>)
                                   (S\<lparr>srv := rt1\<lparr>distributor := ce_sender ce (distributor rt1)\<rparr>\<rparr>))))))"

definition Update_proceed ::
  "('t, 'c, 'q, 'p) task_ops \<Rightarrow> ('q, 'p) codec \<Rightarrow> 'g call_env \<Rightarrow> 'q request \<Rightarrow> session \<Rightarrow>
   ('g, 't, 'c) service \<Rightarrow> 'p response \<times> ('g, 't, 'c) service" where
  "Update_proceed ops w ce req s S =
     (let rt = srv S; training = (current_episode_mode s = ModeTraining);
          collect = (run_mode (config rt) = kTraining \<and> training)
      in if phase s \<noteq> PhaseEpisodeRunning
         then (reject s StateConflict ''Update requires a running active Episode'', S)
         else if cmd_episode_id (command req) \<noteq> current_episode_id s
         then (reject s InvalidIdentity ''Update Episode identity does not match'', S)
         else if \<not> IsCoreInferenceReady rt
         then (reject s StateConflict
                 (because ''AIServer core inference is not ready''
                   ''AIServer core inference is not ready: '' (rt_last_error rt)), S)
         else if scope s \<noteq> (if training then TrainingAgentSegment else EvaluationEpisode)
         then (reject s StateConflict ''Episode mode and behavior policy scope disagree'', S)
         else if \<not> training \<and>
                 (evaluation_pinned_model_lineage_id s \<noteq> model_lineage_id (active_manifest rt) \<or>
                  evaluation_pinned_model_step s \<noteq> model_step (active_manifest rt))
         then (reject s ModelIdentityMismatch ''evaluation behavior policy identity changed'', S)
         else if \<not> collect then Update_frame ops w ce req collect s S
         else case delivery_gate_of (GetSnapshot (config rt) (ce_steady ce) (distributor rt)) of
                GateReject message \<Rightarrow> (reject s StateConflict message, S)
              | GateWait message \<Rightarrow>
                  (FillReply s (last_command_sequence s) ResultWait ErrorUnspecified message
                     (empty_response\<lparr>wait_ms :=
                        Some (PauseRetryAfterMs (config rt) (distributor rt))\<rparr>), S)
              | GateOpen \<Rightarrow> Update_frame ops w ce req collect s S)"

section \<open>EndEpisode\<close>

definition agent_settled :: "agent \<Rightarrow> bool" where
  "agent_settled a \<longleftrightarrow>
     done_collected a \<and> \<not> has_pending_action a \<and> \<not> segment_open a \<and> segment_id a = [] \<and>
     segment_transitions a = []"

definition with_body :: "'p option \<Rightarrow> 'p response \<Rightarrow> 'p response" where
  "with_body b rsp = rsp\<lparr>result_body := b\<rparr>"

text \<open>The metrics of a finished training Episode.\<close>

definition append_episode_metrics ::
  "'g call_env \<Rightarrow> session \<Rightarrow> metric_record \<Rightarrow> 'g runtime \<Rightarrow> string + 'g runtime" where
  "append_episode_metrics ce s facts rt =
     (case reward_AppendTo (metric_registry rt) (reward_metric_prefix rt) (ce_now_ms ce) (ce_steady ce)
             (reward_metrics s) facts of
        Inl err \<Rightarrow> Inl (''episode metric producer failed: '' @ err)
      | Inr full \<Rightarrow>
          (case ce_ser_metric ce full of
             None \<Rightarrow> Inl ''Episode metric payload serialization failed''
           | Some payload \<Rightarrow>
               (case AppendFact (ce_event_size ce) payload (ce_now_ms ce) (ce_steady ce)
                       (metric_events rt) of
                  (AppendSourceFinal, _) \<Rightarrow> Inl ''Episode metric journal is already final''
                | (AppendApplied _, j) \<Rightarrow> Inr (rt\<lparr>metric_events := j\<rparr>))))"

definition EndEpisode_proceed ::
  "('t, 'c, 'q, 'p) task_ops \<Rightarrow> ('q, 'p) codec \<Rightarrow> 'g call_env \<Rightarrow> 'q request \<Rightarrow> session \<Rightarrow>
   ('g, 't, 'c) service \<Rightarrow> 'p response \<times> ('g, 't, 'c) service" where
  "EndEpisode_proceed ops w ce req s S =
     (let rt = srv S; sid = session_id s; training = (current_episode_mode s = ModeTraining)
      in if shutdown_started rt
         then (reject s StateConflict ''AIServer is draining and no longer accepts EndEpisode'', S)
         else if phase s \<noteq> PhaseEpisodeTerminal \<or> cmd_episode_id (command req) \<noteq> current_episode_id s
         then (reject s StateConflict ''EndEpisode requires a terminal report'', S)
         else if \<not> list_all (\<lambda>(_, a). agent_settled a) (agents s)
         then (reject s StateConflict ''Episode has an uncommitted Agent segment'', S)
         else if run_mode (config rt) = kTraining \<and> \<not> training
         then (reject s StateConflict ''training sessions cannot commit evaluation episodes'', S)
         else case op_outcome ops (s, tasks S sid) (metric_registry rt) of
                OutcomeFailed e \<Rightarrow> RejectTask s e S
              | OutcomeThrown b err \<Rightarrow>
                  (with_body b (reject s StateConflict (''episode metric producer failed: '' @ err)), S)
              | OutcomePrepared b facts \<Rightarrow>
                  (case (if training then append_episode_metrics ce s facts rt else Inr rt) of
                     Inl err \<Rightarrow> (with_body (Some b) (reject s StateConflict err), S)
                   | Inr rt1 \<Rightarrow>
                       (case CommitCommand w ''Episode outcome and metrics committed'' req
                               (empty_response\<lparr>result_body := Some b\<rparr>)
                               ((ReleaseEpisodePolicy (s\<lparr>phase := PhaseReady\<rparr>))
                                  \<lparr>reward_metrics := new_reward_window\<rparr>) of
                          (rsp, s2) \<Rightarrow>
                            (rsp, put_session_part sid (s2, tasks S sid) (S\<lparr>srv := rt1\<rparr>)))))"

section \<open>AbortEpisode and CloseSession\<close>

definition AbortEpisode_proceed ::
  "('t, 'c, 'q, 'p) task_ops \<Rightarrow> ('q, 'p) codec \<Rightarrow> 'g call_env \<Rightarrow> 'q request \<Rightarrow> session \<Rightarrow>
   ('g, 't, 'c) service \<Rightarrow> 'p response \<times> ('g, 't, 'c) service" where
  "AbortEpisode_proceed ops w ce req s S =
     (let rt = srv S;
          collect = (run_mode (config rt) = kTraining \<and> current_episode_mode s = ModeTraining)
      in if shutdown_started rt
         then (reject s StateConflict ''AIServer is draining and no longer accepts AbortEpisode'', S)
         else if \<not> op_valid_abort ops (body req) \<or> phase s \<noteq> PhaseEpisodeRunning \<or>
                 cmd_episode_id (command req) \<noteq> current_episode_id s
         then (reject s StateConflict ''AbortEpisode reason or identity is invalid'', S)
         else case PrepareAbort (ce_env ce) collect (new_txn rt s) rt of
                (Inl err, rt1) \<Rightarrow> (reject s StateConflict err, S\<lparr>srv := rt1\<rparr>)
              | (Inr tx, rt1) \<Rightarrow>
                  (case CommitCommand w ''Episode aborted after controlled Agent segment close'' req
                          empty_response (tx_session tx) of
                     (rsp, s1) \<Rightarrow>
                       admit_and_commit ce s False rsp (tasks S (session_id s)) (controller S)
                         (tx\<lparr>tx_session := s1\<rparr>)
                         (S\<lparr>srv := rt1\<lparr>distributor := ce_sender ce (distributor rt1)\<rparr>\<rparr>)))"

definition CloseSession_proceed ::
  "('q, 'p) codec \<Rightarrow> 'q request \<Rightarrow> session \<Rightarrow> ('g, 't, 'c) service \<Rightarrow>
   'p response \<times> ('g, 't, 'c) service" where
  "CloseSession_proceed w req s S =
     (if phase s \<notin> {PhaseOpen, PhaseReady, PhaseAborted, PhaseTaskComplete}
      then (reject s StateConflict ''Session close requires no active Episode'', S)
      else case CommitCommand w ''Session closed without live resources'' req empty_response
                  (s\<lparr>phase := PhaseClosed\<rparr>) of
             (rsp, s1) \<Rightarrow> (rsp, put_session_part (session_id s) (s1, tasks S (session_id s)) S))"

section \<open>The handlers\<close>

text \<open>Each handler first checks the command against its session.\<close>

definition handle ::
  "(session \<Rightarrow> ('g, 't, 'c) service \<Rightarrow> 'p response \<times> ('g, 't, 'c) service) \<Rightarrow>
   ('q, 'p) codec \<Rightarrow> int \<Rightarrow> 'q request \<Rightarrow> ('g, 't, 'c) service \<Rightarrow>
   'p response \<times> ('g, 't, 'c) service" where
  "handle proceed w now req S =
     (case CheckedSession w now req S of
        (None, rsp, S1) \<Rightarrow> (rsp, S1)
      | (Some s, _, S1) \<Rightarrow> proceed s S1)"

definition Init where
  "Init ops w ce req S = handle (Init_proceed ops w req) w (ce_now_ms ce) req S"

definition BeginEpisode where
  "BeginEpisode ops w ce req S = handle (BeginEpisode_proceed ops w ce req) w (ce_now_ms ce) req S"

text \<open>\<open>finish()\<close> runs on every exit of \<open>Update\<close>.\<close>

definition Update where
  "Update ops w ce req S =
     (case handle (Update_proceed ops w ce req) w (ce_now_ms ce) req S of
        (rsp, S1) \<Rightarrow> (rsp, S1\<lparr>srv := RecordUpdateLatency (ce_latency ce) (srv S1)\<rparr>))"

definition EndEpisode where
  "EndEpisode ops w ce req S = handle (EndEpisode_proceed ops w ce req) w (ce_now_ms ce) req S"

definition AbortEpisode where
  "AbortEpisode ops w ce req S = handle (AbortEpisode_proceed ops w ce req) w (ce_now_ms ce) req S"

definition CloseSession where
  "CloseSession w ce req S = handle (CloseSession_proceed w req) w (ce_now_ms ce) req S"

end
