(* ===== verification/Maze_Adapter.thy ===== *)
theory Maze_Adapter
  imports Maze_Metrics Maze_Controller Maze_Observation Task_Service
begin

text \<open>
  \<open>maze/protocol/adapter\<close> and \<open>maze/protocol/protocol_adapter.cpp\<close>: the Maze task behind the
  template's operations.  The fields of all request messages are one record (an absent field reads
  as its default); unknown enumerators of a reason behave as \<open>ReasonUnspecified\<close>.  Writing the
  receipt file is I/O: \<open>me_receipt\<close> tells the error it met, if any.
\<close>

section \<open>Messages and configuration\<close>

record agent_report =
  rp_agent_id :: u32
  rp_x :: f32
  rp_y :: f32
  rp_done :: bool
  rp_reason :: termination_reason
  rp_blocked :: bool
  rp_executed :: "int option"
  rp_mask :: "bool list"

record maze_request =
  mq_map :: map_descriptor
  mq_frame_id :: u64
  mq_agents :: "agent_report list"
  mq_reason :: termination_reason

record environment_spec =
  es_agent_count :: u32
  es_map_id :: string
  es_max_steps :: u32
  es_mask_required :: bool

record assignment =
  as_episode_id :: string
  as_training :: bool
  as_max_steps :: u32

record agent_outcome =
  ao_agent_id :: u32
  ao_reason :: termination_reason
  ao_terminal_frame :: u64
  ao_x :: f32
  ao_y :: f32
  ao_goal_rank :: "u32 option"

datatype maze_result =
    OpenResult environment_spec bool
  | AssignmentResult assignment
  | ActionsResult "(u32 \<times> int) list"
  | OutcomeResult string "agent_outcome list"

record maze_env =
  me_sqrt :: "f32 \<Rightarrow> f32"
  me_receipt :: "episode_controller \<Rightarrow> string option"
  me_order :: "(string, f64) table \<Rightarrow> (string, f64) table"

definition fail_input :: "command_error \<Rightarrow> string \<Rightarrow> task_error" where
  "fail_input code message = \<lparr>te_code = code, te_message = message, te_kind = KindInput\<rparr>"

definition fail_state :: "task_error_kind \<Rightarrow> string \<Rightarrow> task_error" where
  "fail_state kind message = \<lparr>te_code = StateConflict, te_message = message, te_kind = kind\<rparr>"

section \<open>Opening and initialising\<close>

definition FillOpen :: "maze_config \<Rightarrow> session \<Rightarrow> maze_state \<Rightarrow> maze_state \<times> maze_result" where
  "FillOpen cfg s m =
     (m\<lparr>ms_map_id := mz_fixed_map_id cfg\<rparr>,
      OpenResult \<lparr>es_agent_count = word_of_int (mz_agent_count cfg), es_map_id = mz_fixed_map_id cfg,
                  es_max_steps = word_of_int (mz_episode_max_steps cfg),
                  es_mask_required = (action_mask_mode (mz_training cfg) = ''required'')\<rparr>
        (workload_mode s = ModeTraining))"

definition task_of_map :: "map_descriptor \<Rightarrow> validated_map \<Rightarrow> maze_state \<Rightarrow> maze_state" where
  "task_of_map d v m =
     m\<lparr>ms_map_id := md_map_id d, ms_shortest_action_steps := vm_shortest v, ms_cols := cols_of d,
       ms_rows := rows_of d, ms_end_gx := md_goal_x d, ms_end_gy := md_goal_y d,
       ms_blocked := vm_blocked v, ms_distance := vm_distance v, ms_max_finite := vm_max_finite v\<rparr>"

definition agent_ids :: "maze_config \<Rightarrow> int list" where
  "agent_ids cfg = map int [0..<nat (mz_agent_count cfg)]"

text \<open>The receipt is written only when the ledger was initialised.\<close>

definition InitializeTask ::
  "maze_config \<Rightarrow> maze_env \<Rightarrow> session \<times> maze_state \<Rightarrow> episode_controller \<Rightarrow> maze_request \<Rightarrow>
   model_manifest \<Rightarrow> int \<Rightarrow> task_error + (session \<times> maze_state) \<times> episode_controller" where
  "InitializeTask cfg me sm ctl q model produced =
     (case the (ValidateMazeMapDescriptor (mq_map q) (mz_fixed_map_id cfg)) of
        Inl err \<Rightarrow> Inl (fail_input TaskInputInvalid
                     (if_empty err ''map descriptor does not match assignment'' err))
      | Inr v \<Rightarrow>
          let s1 = (fst sm)\<lparr>agents := map (\<lambda>i. (i, new_agent)) (agent_ids cfg)\<rparr>;
              m1 = (task_of_map (mq_map q) v (snd sm))
                     \<lparr>ms_agents := map (\<lambda>i. (i, new_maze_agent)) (agent_ids cfg)\<rparr>;
              failed = (\<lambda>err. Inl (fail_input StateConflict (''TaskController initialization failed: '' @ err)))
          in if run_mode (mz_training cfg) \<noteq> kTraining then Inr ((s1, m1), ctl)
             else case ec_Initialize (mz_episode_max_steps cfg) (ModelIdentity model) produced ctl of
                Inl err \<Rightarrow> failed err
              | Inr ctl1 \<Rightarrow>
                  (case me_receipt me ctl1 of
                     Some err \<Rightarrow> failed err
                   | None \<Rightarrow> Inr ((s1, m1), ctl1)))"

section \<open>Beginning an Episode\<close>

definition reset_maze_agent :: "maze_agent \<Rightarrow> maze_agent" where
  "reset_maze_agent t =
     t\<lparr>prev_grid_x := -1, prev_grid_y := -1, reached_goal := False, visited := [],
       current_state_first_visit := False, first_visit_bonus_total := Fin 0,
       episode_start_geodesic_distance := -1, observation_grid_x := -1, observation_grid_y := -1,
       last_move_blocked := False, blocked_move_count := 0,
       final_termination_reason := ReasonUnspecified\<rparr>"

lemma reset_maze_agent_new [simp]: "reset_maze_agent t = new_maze_agent"
  by (simp add: reset_maze_agent_def new_maze_agent_def)

definition ResetEpisodeState :: "string \<Rightarrow> session \<times> maze_state \<Rightarrow> session \<times> maze_state" where
  "ResetEpisodeState episode sm =
     (case sm of (s, m) \<Rightarrow>
        (session_ResetForEpisode episode s,
         m\<lparr>ms_agents := map (\<lambda>(i, t). (i, reset_maze_agent t)) (ms_agents m)\<rparr>))"

definition AssignEpisode ::
  "maze_config \<Rightarrow> session \<times> maze_state \<Rightarrow> episode_controller \<Rightarrow> model_manifest \<Rightarrow> int \<Rightarrow> string \<Rightarrow>
   task_error + (session \<times> maze_state) \<times> episode_controller \<times> maze_result" where
  "AssignEpisode cfg sm ctl model produced episode =
     (let training = (run_mode (mz_training cfg) = kTraining)
      in case (if training then PlanNextEpisode (ModelIdentity model) produced ctl
               else Inr (\<lparr>plan_training = False, plan_max_steps = mz_episode_max_steps cfg,
                          plan_model = ModelIdentity model\<rparr>, ctl)) of
           Inl err \<Rightarrow> Inl (fail_state KindRuntime (''TaskController planning failed: '' @ err))
         | Inr (plan, ctl1) \<Rightarrow>
             if training \<and> \<not> plan_training plan
             then Inl (fail_state KindRuntime ''training TaskController attempted to schedule evaluation'')
             else if plan_max_steps plan \<le> 0 \<or>
                     training \<and> (plan_model plan \<noteq> ModelIdentity model \<or> model_lineage_id model = [])
             then Inl (fail_input ModelIdentityMismatch
                    ''Episode plan does not match the loaded model identity'')
             else Inr (ResetEpisodeState episode
                         (fst sm, (snd sm)\<lparr>ms_current_max_steps := plan_max_steps plan\<rparr>),
                       ctl1,
                       AssignmentResult \<lparr>as_episode_id = episode, as_training = plan_training plan,
                         as_max_steps = word_of_int (plan_max_steps plan)\<rparr>))"

section \<open>Decoding a frame\<close>

definition maze_reward_context :: "maze_state \<Rightarrow> maze_agent \<Rightarrow> reward_context" where
  "maze_reward_context m t =
     \<lparr>rc_cols = ms_cols m, rc_rows = ms_rows m, rc_distance = ms_distance m,
      rc_shortest = ms_shortest_action_steps m, rc_prev_x = prev_grid_x t, rc_prev_y = prev_grid_y t,
      rc_start_distance = episode_start_geodesic_distance t,
      rc_first_visit = current_state_first_visit t, rc_bonus_total = first_visit_bonus_total t\<rparr>"

definition CalculateReward ::
  "maze_state \<Rightarrow> maze_agent \<Rightarrow> int \<Rightarrow> int \<Rightarrow> bool \<Rightarrow> termination_reason \<Rightarrow> reward_result" where
  "CalculateReward m t gx gy is_done reason =
     reward_Calculate (maze_reward_context m t) gx gy is_done reason"

definition add_bonus :: "(string \<times> f32) list \<Rightarrow> maze_agent \<Rightarrow> maze_agent" where
  "add_bonus items t =
     foldl (\<lambda>t (name, v). if name = ''first_visit_bonus''
              then t\<lparr>first_visit_bonus_total := f32_add (first_visit_bonus_total t) v\<rparr> else t) t items"

text \<open>
  The cell of a position: finite with integral coordinates.  A float beyond the range of \<open>int\<close> is
  undefined behaviour in the code; here it keeps its value, which no map contains.
\<close>

definition coordinate :: "f32 \<Rightarrow> int option" where
  "coordinate x = (case x of Fin r \<Rightarrow> if of_int \<lfloor>r\<rfloor> = r then Some \<lfloor>r\<rfloor> else None | _ \<Rightarrow> None)"

definition mask_contradicts :: "training_config \<Rightarrow> agent_report \<Rightarrow> bool" where
  "mask_contradicts cfg r \<longleftrightarrow>
     (let required = (action_mask_mode cfg = ''required'')
      in rp_done r \<and> rp_mask r \<noteq> [] \<or>
         \<not> rp_done r \<and> required \<and>
           (int (length (rp_mask r)) \<noteq> expected_action_dim cfg \<or> \<not> list_ex id (rp_mask r)) \<or>
         \<not> rp_done r \<and> \<not> required \<and> rp_mask r \<noteq> [])"

definition receipt_mismatch :: "bool \<Rightarrow> agent_report \<Rightarrow> agent \<Rightarrow> bool" where
  "receipt_mismatch initial r a \<longleftrightarrow>
     (case rp_executed r of
        None \<Rightarrow> \<not> initial
      | Some act \<Rightarrow> initial \<or> act < 0 \<or> act > 8 \<or> \<not> has_pending_action a \<or> act \<noteq> pending_action a)"

definition state_invalid :: "maze_state \<Rightarrow> int \<Rightarrow> agent_report \<Rightarrow> agent \<Rightarrow> int \<Rightarrow> int \<Rightarrow> bool" where
  "state_invalid m frame r a gx gy \<longleftrightarrow>
     \<not> IsWalkable m gx gy \<or> rp_done r \<noteq> IsEnvironmentTerminal (rp_reason r) \<or>
     \<not> rp_done r \<and> rp_reason r \<noteq> ReasonActive \<or>
     \<not> rp_done r \<and> frame \<ge> ms_current_max_steps m \<or>
     rp_reason r = TimeLimit \<and> frame \<noteq> ms_current_max_steps m \<or>
     \<not> has_pending_action a \<and> last_observation_frame_id a < 0 \<and> rp_done r"

text \<open>From the observation on: reward, observation vector, and the facts of the end.\<close>

definition decode_input ::
  "maze_config \<Rightarrow> maze_env \<Rightarrow> maze_state \<Rightarrow> bool \<Rightarrow> int \<Rightarrow> agent_report \<Rightarrow> agent \<Rightarrow> maze_agent \<Rightarrow>
   int \<Rightarrow> int \<Rightarrow> task_error + maze_agent \<times> task_input" where
  "decode_input cfg me m collect frame r a t gx gy =
     (let rewarded = (has_pending_action a \<and> collect);
          rw = (if rewarded then CalculateReward m t gx gy (rp_done r) (rp_reason r)
                else \<lparr>rw_valid = True, rw_error = [], rw_total = Fin 0, rw_items = []\<rparr>)
      in if rewarded \<and> \<not> rw_valid rw
         then Inl (fail_state KindRollout (''Episode transition preparation failed: '' @ rw_error rw))
         else let t1 = (if rewarded then add_bonus (rw_items rw) t else t)
              in case (if \<not> rp_done r \<or> rewarded
                       then obs_Build (me_sqrt me) m t1 gx gy frame (mz_ray_max_range cfg)
                              (expected_obs_dim (mz_training cfg))
                       else Inr []) of
                   Inl err \<Rightarrow> Inl (fail_state KindRollout (''maze.observation construction failed: '' @ err))
                 | Inr obs \<Rightarrow>
                     Inr (if rp_done r
                          then t1\<lparr>reached_goal := (rp_reason r = GoalReached),
                                  final_termination_reason := rp_reason r\<rparr> else t1,
                          \<lparr>in_agent = sint (rp_agent_id r), in_terminal = rp_done r,
                           in_observation = obs, in_mask = rp_mask r, in_reward = rw\<rparr>))"

definition identity_invalid :: "session \<Rightarrow> int list \<Rightarrow> agent_report \<Rightarrow> bool" where
  "identity_invalid s seen r \<longleftrightarrow>
     map_of (agents s) (sint (rp_agent_id r)) = None \<or> sint (rp_agent_id r) \<in> set seen \<or>
     coordinate (rp_x r) = None \<or> coordinate (rp_y r) = None"

definition decode_report ::
  "maze_config \<Rightarrow> maze_env \<Rightarrow> bool \<Rightarrow> int \<Rightarrow> int list \<Rightarrow> agent_report \<Rightarrow> session \<times> maze_state \<Rightarrow>
   task_error + (session \<times> maze_state) \<times> task_input" where
  "decode_report cfg me collect frame seen r sm =
     (case sm of (s, m) \<Rightarrow>
       let i = sint (rp_agent_id r); gx = the (coordinate (rp_x r)); gy = the (coordinate (rp_y r))
       in if identity_invalid s seen r
          then Inl (fail_input InvalidIdentity ''Agent identity or position is invalid'')
          else let a = the (map_of (agents s) i);
                   t = (case map_of (ms_agents m) i of None \<Rightarrow> new_maze_agent | Some t \<Rightarrow> t)
          in if done_collected a
             then Inl (fail_state KindInput ''terminal Agent cannot be reported again'')
             else if mask_contradicts (mz_training cfg) r
             then Inl (fail_state KindInput ''Agent action mask contradicts the session mode'')
             else if receipt_mismatch (frame = 0) r a
             then Inl (fail_state KindInput
                    (if frame = 0 then ''initial Agent state cannot report an executed action''
                     else ''executed action receipt does not match the pending AIServer action''))
             else if state_invalid m frame r a gx gy
             then Inl (fail_state KindInput ''Agent state or termination reason is invalid'')
             else case ApplyState m (a, t) gx gy frame (rp_done r) (rp_blocked r) of
                    Inl err \<Rightarrow> Inl (fail_state KindInput err)
                  | Inr (a1, t1) \<Rightarrow>
                      and_then (decode_input cfg me m collect frame r a1 t1 gx gy) (\<lambda>(t2, i2).
                        Inr ((s\<lparr>agents := put_at i a1 (agents s)\<rparr>,
                              m\<lparr>ms_agents := put_at i t2 (ms_agents m)\<rparr>), i2)))"

fun decode_reports ::
  "maze_config \<Rightarrow> maze_env \<Rightarrow> bool \<Rightarrow> int \<Rightarrow> int list \<Rightarrow> agent_report list \<Rightarrow> session \<times> maze_state \<Rightarrow>
   task_error + (session \<times> maze_state) \<times> task_input list" where
  "decode_reports cfg me collect frame seen [] sm = Inr (sm, [])"
| "decode_reports cfg me collect frame seen (r # rs) sm =
     and_then (decode_report cfg me collect frame seen r sm) (\<lambda>(sm1, i).
     and_then (decode_reports cfg me collect frame (sint (rp_agent_id r) # seen) rs sm1) (\<lambda>(sm2, is).
       Inr (sm2, i # is)))"

definition active_agent_count :: "session \<Rightarrow> nat" where
  "active_agent_count s = length (filter (\<lambda>(_, a). \<not> done_collected a) (agents s))"

definition DecodeFrame ::
  "maze_config \<Rightarrow> maze_env \<Rightarrow> session \<times> maze_state \<Rightarrow> maze_request \<Rightarrow> bool \<Rightarrow>
   task_error + (session \<times> maze_state) \<times> task_input list" where
  "DecodeFrame cfg me sm q collect =
     (if mq_frame_id q \<noteq> word_of_int (last_frame_id (fst sm) + 1) \<or>
         length (mq_agents q) \<noteq> active_agent_count (fst sm)
      then Inl (fail_input OutOfOrder
             ''frame is not contiguous or does not contain every active Agent exactly once'')
      else if ms_current_max_steps (snd sm) \<le> 0 \<or>
              int (unat (mq_frame_id q)) > ms_current_max_steps (snd sm)
      then Inl (fail_input OutOfOrder ''frame exceeds the assigned Episode horizon'')
      else decode_reports cfg me collect (int (unat (mq_frame_id q))) [] (mq_agents q) sm)"

section \<open>Actions, progress and the end of an Episode\<close>

definition remember_position :: "int \<Rightarrow> maze_state \<Rightarrow> maze_state" where
  "remember_position i m =
     (case map_of (ms_agents m) i of
        None \<Rightarrow> m
      | Some t \<Rightarrow> m\<lparr>ms_agents := put_at i (t\<lparr>prev_grid_x := observation_grid_x t,
                                          prev_grid_y := observation_grid_y t\<rparr>) (ms_agents m)\<rparr>)"

definition EncodeActions ::
  "session \<times> maze_state \<Rightarrow> (int \<times> nat) list \<Rightarrow> (session \<times> maze_state) \<times> maze_result" where
  "EncodeActions sm acts =
     ((fst sm, foldl (\<lambda>m (i, _). remember_position i m) (snd sm) acts),
      ActionsResult (map (\<lambda>(i, act). (word_of_int i, int act)) acts))"

definition ObserveProgress ::
  "episode_controller \<Rightarrow> model_manifest \<Rightarrow> int \<Rightarrow> task_error + episode_controller" where
  "ObserveProgress ctl model produced =
     (case ObserveTrainingProgress (ModelIdentity model) produced ctl of
        Inl err \<Rightarrow> Inl (fail_state KindRuntime (''TaskController collection check failed: '' @ err))
      | Inr ctl1 \<Rightarrow> Inr ctl1)"

definition result_of :: "maze_state \<Rightarrow> int \<Rightarrow> agent \<Rightarrow> maze_agent \<Rightarrow> agent_result" where
  "result_of m i a t =
     \<lparr>sum_agent_id = word_of_int i, sum_return = episode_return a,
      sum_transitions = episode_transition_count a,
      sum_min_step = minimum_episode_behavior_model_step a,
      sum_max_step = maximum_episode_behavior_model_step a,
      sum_lineage = episode_behavior_model_lineage_id a,
      sum_terminal_frame = word_of_int (terminal_frame_id a),
      sum_components = reward_component_sums a, ar_success = reached_goal t,
      ar_reason = final_termination_reason t, ar_shortest = ms_shortest_action_steps m,
      ar_unique_cells = int (length (visited t)), ar_blocked = blocked_move_count t,
      ar_attempted = episode_transition_count a, ar_final_x = observation_grid_x t,
      ar_final_y = observation_grid_y t, ar_goal_rank = None\<rparr>"

definition facts_invalid :: "agent_result \<Rightarrow> bool" where
  "facts_invalid r \<longleftrightarrow>
     \<not> isfinite (sum_return r) \<or> sum_transitions r \<le> 0 \<or> ar_shortest r \<le> 0 \<or>
     ar_unique_cells r \<le> 0 \<or> ar_blocked r < 0 \<or> ar_attempted r < 0 \<or> ar_blocked r > ar_attempted r"

definition components_inconsistent ::
  "((string, f64) table \<Rightarrow> (string, f64) table) \<Rightarrow> agent_result \<Rightarrow> bool" where
  "components_inconsistent order r \<longleftrightarrow>
     (let parts = order (sum_components r); component_total = foldl f64_add (Fin 0) (map snd parts);
          tolerance = f64_mul (rnd64 (1 / 100000))
            (fp_max (Fin 1) (fp_max (fp_abs (sum_return r)) (fp_abs component_total)))
      in parts = [] \<or> \<not> list_all (\<lambda>(name, v). name \<noteq> [] \<and> isfinite v) parts \<or>
         fp_lt tolerance (fp_abs (f64_sub (sum_return r) component_total)) \<or>
         sum_min_step r > sum_max_step r)"

definition agent_fact ::
  "maze_env \<Rightarrow> bool \<Rightarrow> maze_state \<Rightarrow> int \<times> agent \<Rightarrow> task_error + agent_result" where
  "agent_fact me training m ia =
     (case ia of (i, a) \<Rightarrow>
       let t = (case map_of (ms_agents m) i of None \<Rightarrow> new_maze_agent | Some t \<Rightarrow> t); r = result_of m i a t
       in if \<not> IsEnvironmentTerminal (final_termination_reason t)
          then Inl (fail_state KindInput ''Episode termination reason is invalid'')
          else if facts_invalid r
          then Inl (fail_state KindInput ''Episode metric source facts are invalid'')
          else if training \<and> (\<not> episode_behavior_model_seen a \<or> episode_behavior_model_lineage_id a = [])
          then Inl (fail_state KindInput ''training Episode has no behavior model facts'')
          else if terminal_frame_id a < 0
          then Inl (fail_state KindInput ''Episode terminal frame is missing'')
          else if training \<and> components_inconsistent (me_order me) r
          then Inl (fail_state KindInput ''training Episode metric facts are inconsistent'')
          else Inr r)"

fun agent_facts ::
  "maze_env \<Rightarrow> bool \<Rightarrow> maze_state \<Rightarrow> (int \<times> agent) list \<Rightarrow> task_error + agent_result list" where
  "agent_facts me training m [] = Inr []"
| "agent_facts me training m (ia # ias) =
     and_then (agent_fact me training m ia) (\<lambda>r.
     and_then (agent_facts me training m ias) (\<lambda>rs. Inr (r # rs)))"

text \<open>Agents that reach the goal in the same frame share a rank.\<close>

definition goal_frames :: "agent_result list \<Rightarrow> u64 list" where
  "goal_frames rs = remdups_adj (sort (map sum_terminal_frame (filter ar_success rs)))"

definition rank_agent :: "u64 list \<Rightarrow> agent_result \<Rightarrow> agent_result" where
  "rank_agent frames r =
     (if ar_success r
      then r\<lparr>ar_goal_rank := Some (word_of_nat (length (takeWhile (\<lambda>f. f < sum_terminal_frame r) frames) + 1))\<rparr>
      else r)"

definition outcome_of :: "agent_result \<Rightarrow> agent_outcome" where
  "outcome_of r =
     \<lparr>ao_agent_id = sum_agent_id r, ao_reason = ar_reason r, ao_terminal_frame = sum_terminal_frame r,
      ao_x = f32_of_int (ar_final_x r), ao_y = f32_of_int (ar_final_y r), ao_goal_rank = ar_goal_rank r\<rparr>"

definition BuildEpisodeOutcome :: "session \<Rightarrow> agent_result list \<Rightarrow> maze_result" where
  "BuildEpisodeOutcome s rs = OutcomeResult (current_episode_id s) (map outcome_of rs)"

definition BuildEpisodeMetricFact ::
  "maze_env \<Rightarrow> registry \<Rightarrow> session \<Rightarrow> agent_result list \<Rightarrow> string + metric_record" where
  "BuildEpisodeMetricFact me reg s rs =
     BuildMazeEpisodeMetrics (me_order me) reg (environment_instance_id s) (current_episode_id s) rs"

definition ranked :: "agent_result list \<Rightarrow> agent_result list" where
  "ranked rs = (let sorted_rs = sort_key sum_agent_id rs
                in map (rank_agent (goal_frames sorted_rs)) sorted_rs)"

definition PrepareOutcome ::
  "maze_env \<Rightarrow> session \<times> maze_state \<Rightarrow> registry \<Rightarrow> maze_result outcome_result" where
  "PrepareOutcome me sm reg =
     (case sm of (s, m) \<Rightarrow>
       let training = (current_episode_mode s = ModeTraining)
       in case agent_facts me training m (agents s) of
            Inl e \<Rightarrow> OutcomeFailed e
          | Inr rs \<Rightarrow>
              let rs' = ranked rs; b = BuildEpisodeOutcome s rs'
              in if \<not> training then OutcomePrepared b empty_record
                 else case BuildEpisodeMetricFact me reg s rs' of
                        Inl err \<Rightarrow> OutcomeThrown (Some b) err
                      | Inr facts \<Rightarrow> OutcomePrepared b facts)"

definition ValidAbort :: "maze_request \<Rightarrow> bool" where
  "ValidAbort q \<longleftrightarrow> mq_reason q = ClientAbort \<or> mq_reason q = ChainFailure"

definition EpisodeId :: "u64 \<Rightarrow> string" where
  "EpisodeId n = ''maze-episode-'' @ dec (unat n)"

section \<open>The task\<close>

definition maze_ops ::
  "maze_config \<Rightarrow> maze_env \<Rightarrow> (maze_state, episode_controller, maze_request, maze_result) task_ops" where
  "maze_ops cfg me =
     \<lparr>op_new = new_maze_state, op_fill_open = FillOpen cfg, op_initialize = InitializeTask cfg me,
      op_assign = AssignEpisode cfg, op_decode = DecodeFrame cfg me, op_encode = EncodeActions,
      op_observe = ObserveProgress, op_outcome = PrepareOutcome me, op_valid_abort = ValidAbort,
      op_episode_id = EpisodeId, op_frame_id = (\<lambda>q. to_int64 (mq_frame_id q))\<rparr>"

section \<open>The rewards of an Episode, frame by frame\<close>

text \<open>
  What \<open>episode_rewards\<close> composes is what the frames of an Episode compute: the reward of a frame is that
  of a move, and after the position was remembered the context of the next frame continues it.  The
  fresh flag is the one \<open>ApplyState\<close> found; the next frame finds its own.
\<close>

lemma add_bonus_items:
  "add_bonus (reward_items_with rnd c gx gy reason prev cur) t =
     t\<lparr>first_visit_bonus_total := f32_add (first_visit_bonus_total t)
        (visit_item rnd (rc_start_distance c) ((gx \<noteq> rc_prev_x c \<or> gy \<noteq> rc_prev_y c) \<and> rc_first_visit c)
          (rc_bonus_total c))\<rparr>"
  by (simp add: add_bonus_def reward_items_with_def Let_def)

lemma rewards_follow_frames:
  assumes step: "ApplyState m (a, t) gx gy frame (rp_done r) (rp_blocked r) = Inr (a1, t1)"
    and later: "\<not> observation_done a" "0 \<le> last_observation_frame_id a" and act: "has_pending_action a1"
    and dec: "decode_input cfg me m True frame r a1 t1 gx gy = Inr (t2, i)"
  defines "mv \<equiv> \<lparr>mv_x = gx, mv_y = gy, mv_fresh = current_state_first_visit t1, mv_reason = rp_reason r\<rparr>"
    and "c \<equiv> maze_reward_context m t"
    and "t3 \<equiv> t2\<lparr>prev_grid_x := observation_grid_x t2, prev_grid_y := observation_grid_y t2\<rparr>"
  shows "in_reward i = calculate_with rnd32 (at_move c mv) gx gy (rp_done r) (rp_reason r)"
    and "(maze_reward_context m t3)\<lparr>rc_first_visit := f\<rparr> =
      (after_move rnd32 c mv (in_reward i))\<lparr>rc_first_visit := f\<rparr>"
proof -
  have t1: "first_visit_bonus_total t1 = first_visit_bonus_total t" "prev_grid_x t1 = prev_grid_x t"
      "prev_grid_y t1 = prev_grid_y t" "episode_start_geodesic_distance t1 = episode_start_geodesic_distance t"
      "observation_grid_x t1 = gx" "observation_grid_y t1 = gy"
    using step later by (auto simp: ApplyState_def Let_def split: if_splits)
  have ctx: "maze_reward_context m t1 = at_move c mv"
    by (simp add: maze_reward_context_def at_move_def c_def mv_def t1)
  let ?rw = "CalculateReward m t1 gx gy (rp_done r) (rp_reason r)"
  have v: "rw_valid ?rw" and i: "in_reward i = ?rw"
    and t2: "\<exists>g q. t2 = add_bonus (rw_items ?rw) t1 \<or>
      t2 = (add_bonus (rw_items ?rw) t1)\<lparr>reached_goal := g, final_termination_reason := q\<rparr>"
    using dec act by (auto simp: decode_input_def Let_def split: if_splits sum.splits)
  have rw: "?rw = calculate_with rnd32 (at_move c mv) gx gy (rp_done r) (rp_reason r)"
    by (simp add: CalculateReward_def reward_Calculate_def ctx)
  then show "in_reward i = calculate_with rnd32 (at_move c mv) gx gy (rp_done r) (rp_reason r)" by (simp add: i)
  obtain prev cur where items: "rw_items ?rw = reward_items_with rnd32 (at_move c mv) gx gy (rp_reason r) prev cur"
    using v unfolding rw calculate_with_def by (auto simp: invalid_reward_def Let_def split: if_splits option.splits)
  have b: "first_visit_bonus_total (add_bonus (rw_items ?rw) t1) =
      fp_add_with rnd32 (rc_bonus_total c) (bonus_of (in_reward i))"
    unfolding items add_bonus_items
    by (simp add: i bonus_of_def items reward_items_with_def Let_def c_def maze_reward_context_def t1)
  have k: "prev_grid_x (add_bonus (rw_items ?rw) t1) = prev_grid_x t"
    "episode_start_geodesic_distance (add_bonus (rw_items ?rw) t1) = episode_start_geodesic_distance t"
    "observation_grid_x (add_bonus (rw_items ?rw) t1) = gx" "observation_grid_y (add_bonus (rw_items ?rw) t1) = gy"
    unfolding items add_bonus_items by (simp_all add: t1)
  from t2 b k show "(maze_reward_context m t3)\<lparr>rc_first_visit := f\<rparr> =
      (after_move rnd32 c mv (in_reward i))\<lparr>rc_first_visit := f\<rparr>"
    by (auto simp: t3_def maze_reward_context_def after_move_def mv_def c_def)
qed

end
