(* ===== verification/Preparation.thy ===== *)
theory Preparation
  imports Task_Service Segments
begin

text \<open>
  What the preparation of a frame or of an abort leaves alone: it works on copies, so that whatever it
  returns, the runtime only gains error traces and inference counts, and the session keeps its
  identity.
\<close>

section \<open>What a preparation leaves alone\<close>

text \<open>The runtime without its error traces and inference counters.\<close>

definition core :: "'g runtime \<Rightarrow> 'g runtime" where
  "core rt = rt\<lparr>server_state := AiUnspecified, rt_last_error := [], rollout_estimator_failure_count := 0,
     inference_count := 0, inference_latency_sum_ms := Fin 0, inference_latency_max_ms := Fin 0\<rparr>"

lemma core_keeps [simp]:
  "core (rt_MarkDegraded e rt) = core rt" "core (rollout_failure rt) = core rt"
  "core (count_inference l rt) = core rt" "core (note_task_error te rt) = core rt"
  by (simp_all add: core_def rt_MarkDegraded_def rollout_failure_def count_inference_def
      note_task_error_def Let_def)

lemma core_fields:
  assumes "core rt' = core rt"
  shows "session_mgr rt' = session_mgr rt" "config rt' = config rt" "distributor rt' = distributor rt"
    "produced_unique_transitions rt' = produced_unique_transitions rt"
    "active_manifest rt' = active_manifest rt" "metric_registry rt' = metric_registry rt"
    "next_segment_seq rt' = next_segment_seq rt"
proof -
  have "session_mgr (core rt') = session_mgr (core rt)" "config (core rt') = config (core rt)"
    "distributor (core rt') = distributor (core rt)"
    "produced_unique_transitions (core rt') = produced_unique_transitions (core rt)"
    "active_manifest (core rt') = active_manifest (core rt)"
    "metric_registry (core rt') = metric_registry (core rt)"
    "next_segment_seq (core rt') = next_segment_seq (core rt)" using assms by simp_all
  then show "session_mgr rt' = session_mgr rt" "config rt' = config rt" "distributor rt' = distributor rt"
    "produced_unique_transitions rt' = produced_unique_transitions rt"
    "active_manifest rt' = active_manifest rt" "metric_registry rt' = metric_registry rt"
    "next_segment_seq rt' = next_segment_seq rt" by (simp_all add: core_def)
qed

lemma InferPinnedValue_core [simp]: "core (snd (InferPinnedValue env a obs rt)) = core rt"
  by (auto simp: InferPinnedValue_def Let_def split: sum.splits)

lemma InferPinnedValue_core': "InferPinnedValue env a obs rt = (v, rt') \<Longrightarrow> core rt' = core rt"
  using InferPinnedValue_core [of env a obs rt] by simp

lemma PrepareModelAction_core: "PrepareModelAction env i a obs fr am tx rt = (r, rt') \<Longrightarrow> core rt' = core rt"
  by (auto simp: PrepareModelAction_def Let_def split: sum.splits if_splits)

lemma finalize_inputs_core: "finalize_inputs env inputs fr collect tx rt = (r, rt') \<Longrightarrow> core rt' = core rt"
  by (induction inputs arbitrary: tx rt) (auto simp: Let_def split: sum.splits option.splits if_splits)

lemma txn_Close_core: "txn_Close env i reason b ap tx rt = (r, rt') \<Longrightarrow> core rt' = core rt"
  by (auto simp: txn_Close_def split: sum.splits)

lemma close_input_core: "close_input env i tx rt = (r, rt') \<Longrightarrow> core rt' = core rt"
  by (auto simp: close_input_def Let_def split: option.splits if_splits prod.splits
      dest!: txn_Close_core InferPinnedValue_core')

lemma close_inputs_core: "close_inputs env inputs tx rt = (r, rt') \<Longrightarrow> core rt' = core rt"
proof (induction inputs arbitrary: tx rt)
  case (Cons i inputs)
  then show ?case
    by (cases "close_input env i tx rt") (auto split: sum.splits dest!: close_input_core)
qed simp

lemma act_inputs_core: "act_inputs env inputs fr tx rt = (r, rt') \<Longrightarrow> core rt' = core rt"
proof (induction inputs arbitrary: tx rt r rt')
  case (Cons i inputs)
  show ?case
  proof (cases "in_terminal i")
    case True
    with Cons show ?thesis by simp
  next
    case False
    show ?thesis
    proof (cases "agent_at tx (in_agent i)")
      case None
      with False Cons.prems show ?thesis by simp
    next
      case (Some a)
      obtain x rt1 where x: "PrepareModelAction env (in_agent i) a (in_observation i) fr (in_mask i) tx rt
          = (x, rt1)" by force
      note c1 = PrepareModelAction_core [OF x]
      show ?thesis
      proof (cases x)
        case None
        with x False Some Cons.prems c1 show ?thesis by simp
      next
        case act: (Some y)
        obtain act tx1 where y: "y = (act, tx1)" by force
        obtain z rt2 where z: "act_inputs env inputs fr tx1 rt1 = (z, rt2)" by force
        from Cons.IH [OF z] x False Some act y z Cons.prems c1 show ?thesis by (cases z) auto
      qed
    qed
  qed
qed simp

lemma PrepareFrame_core: "PrepareFrame env inputs fr collect tx rt = (r, rt') \<Longrightarrow> core rt' = core rt"
  by (auto simp: PrepareFrame_def split: prod.splits sum.splits if_splits
      dest!: finalize_inputs_core close_inputs_core act_inputs_core)

lemma abort_close_core: "abort_close env i a tx rt = (r, rt') \<Longrightarrow> core rt' = core rt"
  by (auto simp: abort_close_def Let_def split: if_splits prod.splits sum.splits option.splits
      dest!: txn_Close_core InferPinnedValue_core')

lemma abort_agent_core: "abort_agent env collect i tx rt = (r, rt') \<Longrightarrow> core rt' = core rt"
  by (auto simp: abort_agent_def split: option.splits prod.splits sum.splits if_splits dest!: abort_close_core)

lemma abort_agents_core: "abort_agents env collect ids tx rt = (r, rt') \<Longrightarrow> core rt' = core rt"
proof (induction ids arbitrary: tx rt)
  case (Cons i ids)
  then show ?case
    by (cases "abort_agent env collect i tx rt") (auto split: sum.splits dest!: abort_agent_core)
qed simp

lemma PrepareAbort_core: "PrepareAbort env collect tx rt = (r, rt') \<Longrightarrow> core rt' = core rt"
  by (auto simp: PrepareAbort_def split: prod.splits sum.splits dest!: abort_agents_core)

section \<open>The head of a session\<close>

text \<open>What preparations of frames and aborts do not touch.\<close>

definition head :: "session \<Rightarrow> string \<times> u64 \<times> policy_mode \<times> string" where
  "head s = (session_id s, session_epoch s, current_episode_mode s, current_episode_id s)"

lemma head_agents [simp]: "head (s\<lparr>agents := as\<rparr>) = head s" "head (s\<lparr>phase := p\<rparr>) = head s"
  "head (s\<lparr>last_frame_id := n\<rparr>) = head s" "head (ReleaseEpisodePolicy s) = head s"
  by (simp_all add: head_def ReleaseEpisodePolicy_def)

lemma set_agent_head [simp]:
  "head (tx_session (set_agent i a tx)) = head (tx_session tx)"
  "phase (tx_session (set_agent i a tx)) = phase (tx_session tx)"
  by (simp_all add: set_agent_def)

lemma finalize_head:
  "FinalizePendingTransition env cfg i rw obs collect s = Inr s' \<Longrightarrow> head s' = head s \<and> phase s' = phase s"
  by (auto simp: FinalizePendingTransition_def and_then_Inr head_def split: option.splits if_splits sum.splits)

lemma finalize_inputs_head:
  "finalize_inputs env inputs fr collect tx rt = (Inr tx', rt') \<Longrightarrow>
     head (tx_session tx') = head (tx_session tx) \<and> phase (tx_session tx') = phase (tx_session tx)"
proof (induction inputs arbitrary: tx)
  case (Cons i inputs)
  from Cons.prems obtain s where s: "FinalizePendingTransition env (config rt) (in_agent i) (in_reward i)
      (in_observation i) collect (tx_session tx) = Inr s" by (auto split: sum.splits)
  note h = finalize_head [OF s]
  from Cons.prems s obtain tx2 where tx2: "finalize_inputs env inputs fr collect tx2 rt = (Inr tx', rt')"
    "head (tx_session tx2) = head s \<and> phase (tx_session tx2) = phase s"
    by (auto simp: Let_def split: option.splits if_splits)
  from Cons.IH [OF tx2(1)] tx2(2) h show ?case by simp
qed simp

lemma close_head:
  "PrepareAgentSegmentClose env rt i reason b ap tx = Inr tx' \<Longrightarrow>
     head (tx_session tx') = head (tx_session tx) \<and> phase (tx_session tx') = phase (tx_session tx)"
  by (auto simp: PrepareAgentSegmentClose_def Let_def and_then_Inr set_agent_def
      split: option.splits if_splits)

lemma txn_Close_head:
  "txn_Close env i reason b ap tx rt = (Inr tx', rt') \<Longrightarrow>
     head (tx_session tx') = head (tx_session tx) \<and> phase (tx_session tx') = phase (tx_session tx)"
  by (auto simp: txn_Close_def split: sum.splits dest!: close_head)

lemma close_input_head:
  "close_input env i tx rt = (Inr tx', rt') \<Longrightarrow>
     head (tx_session tx') = head (tx_session tx) \<and> phase (tx_session tx') = phase (tx_session tx)"
  by (auto simp: close_input_def Let_def split: option.splits if_splits prod.splits dest!: txn_Close_head)

lemma close_inputs_head:
  "close_inputs env inputs tx rt = (Inr tx', rt') \<Longrightarrow>
     head (tx_session tx') = head (tx_session tx) \<and> phase (tx_session tx') = phase (tx_session tx)"
proof (induction inputs arbitrary: tx rt)
  case (Cons i inputs)
  then show ?case by (auto split: prod.splits sum.splits dest!: close_input_head)
qed simp

lemma pin_head: "EnsureAgentSegmentPin rt i a tx = Inr (a', tx') \<Longrightarrow> tx_session tx' = tx_session tx"
  by (auto simp: EnsureAgentSegmentPin_def split: if_splits)

lemma action_head:
  "PrepareModelAction env i a obs fr am tx rt = (Some (act, tx'), rt') \<Longrightarrow>
     head (tx_session tx') = head (tx_session tx) \<and> phase (tx_session tx') = phase (tx_session tx)"
  by (auto simp: PrepareModelAction_def Let_def split: sum.splits if_splits dest!: pin_head)

lemma act_inputs_head:
  "act_inputs env inputs fr tx rt = (Inr (tx', acts), rt') \<Longrightarrow>
     head (tx_session tx') = head (tx_session tx) \<and> phase (tx_session tx') = phase (tx_session tx)"
proof (induction inputs arbitrary: tx rt acts)
  case (Cons i inputs)
  then show ?case
    by (auto split: if_splits option.splits prod.splits sum.splits dest!: action_head)
qed simp

lemma PrepareFrame_head:
  assumes "PrepareFrame env inputs fr collect tx rt = (Inr (tx', acts), rt')"
  shows "head (tx_session tx') = head (tx_session tx) \<and>
    phase (tx_session tx') \<in> {phase (tx_session tx), PhaseEpisodeTerminal}"
  using assms
  by (auto simp: PrepareFrame_def end_frame_def Let_def split: prod.splits sum.splits if_splits
      dest!: finalize_inputs_head close_inputs_head act_inputs_head)

lemma discard_head [simp]:
  "head (tx_session (DiscardAgentSegment i reason ex tx)) = head (tx_session tx)"
  by (auto simp: DiscardAgentSegment_def Let_def set_agent_def split: option.splits)

lemma abort_close_head:
  "abort_close env i a tx rt = (Inr tx', rt') \<Longrightarrow> head (tx_session tx') = head (tx_session tx)"
  by (auto simp: abort_close_def Let_def split: if_splits prod.splits sum.splits option.splits
      dest!: txn_Close_head)

lemma abort_agent_head:
  "abort_agent env collect i tx rt = (Inr tx', rt') \<Longrightarrow> head (tx_session tx') = head (tx_session tx)"
  by (auto simp: abort_agent_def split: option.splits prod.splits sum.splits if_splits dest!: abort_close_head)

lemma abort_agents_head:
  "abort_agents env collect ids tx rt = (Inr tx', rt') \<Longrightarrow> head (tx_session tx') = head (tx_session tx)"
proof (induction ids arbitrary: tx rt)
  case (Cons i ids)
  then show ?case by (auto split: prod.splits sum.splits dest!: abort_agent_head)
qed simp

lemma PrepareAbort_head:
  "PrepareAbort env collect tx rt = (Inr tx', rt') \<Longrightarrow>
     head (tx_session tx') = head (tx_session tx) \<and> phase (tx_session tx') = PhaseAborted"
  by (auto simp: PrepareAbort_def ReleaseEpisodePolicy_def head_def split: prod.splits sum.splits
      dest!: abort_agents_head)

lemma Admit_keeps:
  "Admit env f g lat el tx rt = (r, err, rt') \<Longrightarrow>
     session_mgr rt' = session_mgr rt \<and> config rt' = config rt \<and>
     produced_unique_transitions rt' = produced_unique_transitions rt"
  by (auto simp: Admit_def split: prod.splits if_splits seal_result.splits)

end
