(* ===== verification/Session_Invariant.thy ===== *)
theory Session_Invariant
  imports Preparation Segment_Claims
begin

text \<open>
  What holds of every stored session between two calls, and how many transitions a preparation
  completes.  In a training server a running Episode is a training Episode; outside of Episodes, and
  in an evaluation server always, no Agent holds transitions.
\<close>

section \<open>The invariant\<close>

definition in_episode :: "session_phase \<Rightarrow> bool" where
  "in_episode p \<longleftrightarrow> p = PhaseEpisodeRunning \<or> p = PhaseEpisodeTerminal"

definition segment_free :: "session \<Rightarrow> bool" where
  "segment_free s \<longleftrightarrow> (\<forall>i. no_segment_at s i)"

definition session_inv :: "training_config \<Rightarrow> session \<Rightarrow> bool" where
  "session_inv cfg s \<longleftrightarrow>
     session_good cfg s \<and>
     (in_episode (phase s) \<longrightarrow>
        current_episode_mode s = (if run_mode cfg = kTraining then ModeTraining else ModeEvaluation)) \<and>
     (\<not> in_episode (phase s) \<or> run_mode cfg \<noteq> kTraining \<longrightarrow> segment_free s)"

lemma segment_free_cong: "agents s' = agents s \<Longrightarrow> segment_free s' = segment_free s"
  by (simp add: segment_free_def no_segment_at_def)

lemma session_inv_cong:
  assumes "agents s' = agents s" "phase s' = phase s" "current_episode_mode s' = current_episode_mode s"
  shows "session_inv cfg s' = session_inv cfg s"
  using session_cong(1) [OF assms(1)] segment_free_cong [OF assms(1)] assms(2,3) by (simp add: session_inv_def)

lemma cached_keys:
  assumes "distinct (map fst (agents s))"
  shows "cached s = (\<Sum>i\<leftarrow>map fst (agents s). int (length (segment_transitions (the (map_of (agents s) i)))))"
proof -
  have "map (\<lambda>(_, a). int (length (segment_transitions a))) (agents s) =
      map (\<lambda>x. int (length (segment_transitions (the (map_of (agents s) (fst x)))))) (agents s)"
    using assms by (auto simp: map_of_is_SomeI)
  from arg_cong [OF this, of sum_list] show ?thesis unfolding cached_def by (simp only: map_map comp_def)
qed

lemma segment_free_cached:
  assumes "segment_free s" "distinct (map fst (agents s))"
  shows "cached s = 0"
proof -
  have "int (length (segment_transitions (the (map_of (agents s) i)))) = 0" if "i \<in> fst ` set (agents s)" for i
  proof -
    from that obtain a where "map_of (agents s) i = Some a"
      by (metis domD dom_map_of_conv_image_fst)
    with assms(1) show ?thesis by (simp add: segment_free_def no_segment_at_def)
  qed
  then have "map (\<lambda>i. int (length (segment_transitions (the (map_of (agents s) i))))) (map fst (agents s)) =
      map (\<lambda>i. 0) (map fst (agents s))" by simp
  then show ?thesis by (simp only: cached_keys [OF assms(2)] sum_list_0)
qed

lemma idle_agents_inv:
  assumes "distinct (map fst (agents s))" "list_all (\<lambda>(_, a). agent_idle a) (agents s)"
    and "in_episode (phase s) \<longrightarrow>
      current_episode_mode s = (if run_mode cfg = kTraining then ModeTraining else ModeEvaluation)"
  shows "session_inv cfg s \<and> cached s = 0"
proof -
  have idle: "agent_idle a" if "map_of (agents s) i = Some a" for i a
    using assms(2) map_of_SomeD [OF that] by (auto simp: list_all_iff)
  have "session_good cfg s" using assms(1) idle by (simp add: good_def agent_good_def agent_idle_def)
  moreover have f: "segment_free s" using idle by (simp add: segment_free_def no_segment_at_def agent_idle_def)
  ultimately show ?thesis using segment_free_cached [OF f] assms(1,3) by (simp add: session_inv_def)
qed

lemma outside_cached:
  assumes "session_inv cfg s" "\<not> in_episode (phase s)"
  shows "cached s = 0"
  using segment_free_cached assms by (simp add: session_inv_def good_def)

section \<open>Frames without samples\<close>

definition same_segment :: "agent \<Rightarrow> agent \<Rightarrow> bool" where
  "same_segment a b \<longleftrightarrow>
     segment_open b = segment_open a \<and> segment_id b = segment_id a \<and> pinned_model b = pinned_model a \<and>
     pinned_prepared_model b = pinned_prepared_model a \<and> segment_transitions b = segment_transitions a"

definition quiet :: "training_config \<Rightarrow> session \<Rightarrow> bool" where
  "quiet cfg s \<longleftrightarrow> session_good cfg s \<and> segment_free s"

lemma quiet_put:
  assumes "quiet cfg s" "map_of (agents s) i = Some a" "same_segment a b"
  shows "quiet cfg (s\<lparr>agents := put_at i b (agents s)\<rparr>)"
proof -
  have "agent_good cfg None a" using assms(1,2) by (metis quiet_def good_def)
  moreover have t: "segment_transitions a = []"
    using assms(1,2) by (auto simp: quiet_def segment_free_def no_segment_at_def)
  ultimately have "agent_good cfg None b" using assms(3) by (auto simp: agent_good_def same_segment_def)
  from good_put [OF _ this, of "\<lambda>_. None" s i] assms(1)
  have "session_good cfg (s\<lparr>agents := put_at i b (agents s)\<rparr>)" by (simp add: quiet_def fun_upd_def)
  moreover have "segment_free (s\<lparr>agents := put_at i b (agents s)\<rparr>)"
    using assms t by (auto simp: quiet_def segment_free_def no_segment_at_def same_segment_def)
  ultimately show ?thesis by (simp add: quiet_def)
qed

lemma quiet_cong: "agents s' = agents s \<Longrightarrow> quiet cfg s' = quiet cfg s"
  using session_cong(1) [of s' s] segment_free_cong [of s' s] by (simp add: quiet_def)

lemma finalize_quiet:
  assumes "FinalizePendingTransition env c i rw obs False s = Inr s'" "quiet cfg s"
  shows "quiet cfg s'"
proof -
  obtain a where a: "map_of (agents s) i = Some a"
    using assms(1) by (auto simp: FinalizePendingTransition_def split: option.splits)
  let ?b = "clear_pending (a\<lparr>episode_transition_count := episode_transition_count a + 1\<rparr>)"
  have "same_segment a ?b" by (simp add: same_segment_def)
  from quiet_put [OF assms(2) a this] assms a show ?thesis
    by (simp add: FinalizePendingTransition_def split: if_splits)
qed

lemma finalize_inputs_quiet:
  "finalize_inputs env inputs fr False tx rt = (Inr tx', rt') \<Longrightarrow> quiet cfg (tx_session tx) \<Longrightarrow>
     quiet cfg (tx_session tx') \<and> tx_transitions tx' = tx_transitions tx"
proof (induction inputs arbitrary: tx)
  case (Cons i inputs)
  from Cons.prems obtain s where s: "FinalizePendingTransition env (config rt) (in_agent i) (in_reward i)
      (in_observation i) False (tx_session tx) = Inr s" by (auto split: sum.splits)
  let ?tx1 = "tx\<lparr>tx_session := s\<rparr>"
  let ?tx2 = "case agent_at ?tx1 (in_agent i) of None \<Rightarrow> ?tx1
    | Some a \<Rightarrow> if in_terminal i
        then set_agent (in_agent i) (a\<lparr>done_collected := True, terminal_frame_id := fr\<rparr>) ?tx1 else ?tx1"
  have q: "quiet cfg s" using finalize_quiet [OF s Cons.prems(2)] .
  have "quiet cfg (tx_session ?tx2)"
    using q quiet_put [OF q] by (auto simp: set_agent_def agent_at_def same_segment_def split: option.splits)
  moreover have "finalize_inputs env inputs fr False ?tx2 rt = (Inr tx', rt')"
    using Cons.prems(1) s by (simp add: Let_def)
  moreover have "tx_transitions ?tx2 = tx_transitions tx" by (simp add: set_agent_def split: option.splits)
  ultimately show ?case using Cons.IH [of ?tx2] by simp
qed simp

lemma action_quiet:
  assumes "PrepareModelAction env i a obs fr am tx rt = (Some (act, tx'), rt')"
    and "current_episode_mode (tx_session tx) \<noteq> ModeTraining" "quiet cfg (tx_session tx)"
    and "map_of (agents (tx_session tx)) i = Some a"
  shows "quiet cfg (tx_session tx') \<and> tx_transitions tx' = tx_transitions tx"
proof -
  from assms(1,2) obtain lp v rng where
    tx': "tx' = set_agent i (a\<lparr>pending_obs := obs, pending_action_mask := am,
        pending_action := int act, pending_action_frame_id := fr, pending_log_prob := lp,
        pending_value := v, has_pending_action := True\<rparr>) (tx\<lparr>tx_rng := rng\<rparr>)"
    by (auto simp: PrepareModelAction_def Let_def split: sum.splits prod.splits if_splits)
  show ?thesis using quiet_put [OF assms(3,4), of "a\<lparr>pending_obs := obs, pending_action_mask := am,
        pending_action := int act, pending_action_frame_id := fr, pending_log_prob := lp,
        pending_value := v, has_pending_action := True\<rparr>"]
    by (simp add: tx' set_agent_def same_segment_def)
qed

lemma act_inputs_quiet:
  "act_inputs env inputs fr tx rt = (Inr (tx', acts), rt') \<Longrightarrow>
     current_episode_mode (tx_session tx) \<noteq> ModeTraining \<Longrightarrow> quiet cfg (tx_session tx) \<Longrightarrow>
     quiet cfg (tx_session tx') \<and> tx_transitions tx' = tx_transitions tx"
proof (induction inputs arbitrary: tx rt acts)
  case (Cons i inputs)
  show ?case
  proof (cases "in_terminal i")
    case True
    with Cons show ?thesis by simp
  next
    case False
    with Cons.prems obtain a act tx1 rt1 acts1 where a: "agent_at tx (in_agent i) = Some a"
      and p: "PrepareModelAction env (in_agent i) a (in_observation i) fr (in_mask i) tx rt = (Some (act, tx1), rt1)"
      and r: "act_inputs env inputs fr tx1 rt1 = (Inr (tx', acts1), rt')"
      by (auto split: option.splits prod.splits sum.splits)
    from action_quiet [OF p Cons.prems(2,3)] a
    have q: "quiet cfg (tx_session tx1)" "tx_transitions tx1 = tx_transitions tx" by (simp_all add: agent_at_def)
    have "current_episode_mode (tx_session tx1) \<noteq> ModeTraining"
      using action_head [OF p] Cons.prems(2) by (simp add: head_def)
    from Cons.IH [OF r this q(1)] q(2) show ?thesis by simp
  qed
qed simp

lemma frame_quiet:
  assumes "PrepareFrame env inputs fr False (new_txn rt s) rt = (Inr (tx, acts), rt')"
    and "current_episode_mode s \<noteq> ModeTraining" "quiet cfg s"
  shows "quiet cfg (tx_session tx) \<and> tx_transitions tx = produced_unique_transitions rt"
proof -
  from assms(1) obtain tx1 rt1 tx2 where f: "finalize_inputs env inputs fr False (new_txn rt s) rt = (Inr tx1, rt1)"
    and a: "act_inputs env inputs fr tx1 rt1 = (Inr (tx2, acts), rt')" and tx: "tx = end_frame fr tx2"
    by (auto simp: PrepareFrame_def split: prod.splits sum.splits)
  have n: "tx_session (new_txn rt s) = s" "tx_transitions (new_txn rt s) = produced_unique_transitions rt"
    by (simp_all add: new_txn_def)
  have q1: "quiet cfg (tx_session tx1)" "tx_transitions tx1 = produced_unique_transitions rt"
    using finalize_inputs_quiet [OF f, of cfg] assms(3) n by simp_all
  have "current_episode_mode (tx_session tx1) \<noteq> ModeTraining"
    using finalize_inputs_head [OF f] assms(2) n by (simp add: head_def)
  from act_inputs_quiet [OF a this q1(1)] q1(2) show ?thesis
    using quiet_cong [of "tx_session (end_frame fr tx2)" "tx_session tx2" cfg] by (simp add: tx)
qed

lemma abort_agents_quiet:
  "abort_agents env False ids tx rt = (Inr tx', rt') \<Longrightarrow> quiet cfg (tx_session tx) \<Longrightarrow>
     quiet cfg (tx_session tx') \<and> tx_transitions tx' = tx_transitions tx"
proof (induction ids arbitrary: tx)
  case (Cons i ids)
  show ?case
  proof (cases "agent_at tx i")
    case None
    with Cons show ?thesis by (simp add: abort_agent_def)
  next
    case (Some a)
    let ?tx = "set_agent i (clear_pending a) tx"
    have "quiet cfg (tx_session ?tx)"
      using quiet_put [OF Cons.prems(2)] Some
      by (simp add: agent_at_def set_agent_def same_segment_def)
    moreover have "abort_agents env False ids ?tx rt = (Inr tx', rt')"
      using Cons.prems(1) Some by (simp add: abort_agent_def)
    ultimately show ?thesis using Cons.IH [of ?tx] by (simp add: set_agent_def)
  qed
qed simp

lemma abort_quiet:
  assumes "PrepareAbort env False (new_txn rt s) rt = (Inr tx, rt')" "quiet cfg s"
  shows "quiet cfg (tx_session tx) \<and> tx_transitions tx = produced_unique_transitions rt"
proof -
  from assms(1) obtain tx1 where a: "abort_agents env False (map fst (agents s)) (new_txn rt s) rt = (Inr tx1, rt')"
    and tx: "tx = tx1\<lparr>tx_session := ReleaseEpisodePolicy ((tx_session tx1)\<lparr>phase := PhaseAborted\<rparr>)\<rparr>"
    by (auto simp: PrepareAbort_def new_txn_def split: prod.splits sum.splits)
  have "agents (tx_session tx) = agents (tx_session tx1)" by (simp add: tx ReleaseEpisodePolicy_def)
  note c = quiet_cong [OF this, of cfg]
  have n: "tx_session (new_txn rt s) = s" "tx_transitions (new_txn rt s) = produced_unique_transitions rt"
    by (simp_all add: new_txn_def)
  have "tx_transitions tx = tx_transitions tx1" by (simp add: tx)
  with abort_agents_quiet [OF a, unfolded n, OF assms(2)] c show ?thesis by simp
qed

section \<open>The transitions a frame completes\<close>

definition pending_count :: "session \<Rightarrow> int" where
  "pending_count s = (\<Sum>(_, a)\<leftarrow>agents s. if has_pending_action a \<and> \<not> done_collected a then 1 else 0)"

definition observed :: "agent \<Rightarrow> agent \<Rightarrow> bool" where
  "observed a a' \<longleftrightarrow>
     a' = a\<lparr>observation_done := observation_done a', last_observation_frame_id := last_observation_frame_id a'\<rparr>"

definition inputs_cover :: "task_input list \<Rightarrow> session \<Rightarrow> bool" where
  "inputs_cover inputs s \<longleftrightarrow>
     distinct (map in_agent inputs) \<and>
     (distinct (map fst (agents s)) \<longrightarrow>
        set (map in_agent inputs) = {i. \<exists>a. map_of (agents s) i = Some a \<and> \<not> done_collected a})"

text \<open>Only what the Agents observed may change.\<close>

definition only_observed :: "session \<Rightarrow> session \<Rightarrow> bool" where
  "only_observed s s' \<longleftrightarrow>
     s' = s\<lparr>agents := agents s'\<rparr> \<and> map fst (agents s') = map fst (agents s) \<and>
     (\<forall>i a. map_of (agents s) i = Some a \<longrightarrow> (\<exists>a'. map_of (agents s') i = Some a' \<and> observed a a'))"

lemma observed_fields:
  assumes "observed a a'"
  shows "agent_good cfg f a' = agent_good cfg f a" "segment_transitions a' = segment_transitions a"
    "has_pending_action a' = has_pending_action a" "done_collected a' = done_collected a"
proof -
  obtain x y where "a' = a\<lparr>observation_done := x, last_observation_frame_id := y\<rparr>"
    using assms unfolding observed_def by blast
  then show "agent_good cfg f a' = agent_good cfg f a" "segment_transitions a' = segment_transitions a"
    "has_pending_action a' = has_pending_action a" "done_collected a' = done_collected a"
    by (cases f; simp add: agent_good_def)+
qed

lemma only_observed_back:
  assumes "only_observed s s'" "map_of (agents s') i = Some a'"
  obtains a where "map_of (agents s) i = Some a" "observed a a'"
proof -
  have "i \<in> fst ` set (agents s')" using assms(2) by (metis domI dom_map_of_conv_image_fst)
  then have "i \<in> fst ` set (agents s)" using assms(1) unfolding only_observed_def by (metis list.set_map)
  then obtain a where "map_of (agents s) i = Some a" by (metis domD dom_map_of_conv_image_fst)
  with assms that show thesis unfolding only_observed_def by (metis option.inject)
qed

lemma only_observed_good:
  assumes "only_observed s s'" "session_good cfg s"
  shows "session_good cfg s'" "cached s' = cached s" "pending_at s' i = pending_at s i"
    "segment_free s' = segment_free s" "phase s' = phase s" "current_episode_mode s' = current_episode_mode s"
proof -
  have keys: "map fst (agents s') = map fst (agents s)" using assms(1) by (simp add: only_observed_def)
  have d: "distinct (map fst (agents s))" using assms(2) by (simp add: good_def)
  show "session_good cfg s'" unfolding good_def
  proof (intro conjI allI impI)
    show "distinct (map fst (agents s'))" using keys d by simp
    fix j b assume "map_of (agents s') j = Some b"
    from only_observed_back [OF assms(1) this] obtain a where "map_of (agents s) j = Some a" "observed a b" .
    with assms(2) observed_fields(1) show "agent_good cfg None b" by (auto simp: good_def)
  qed
  have tr: "segment_transitions (the (map_of (agents s') j)) = segment_transitions (the (map_of (agents s) j))"
    if "j \<in> fst ` set (agents s)" for j
  proof -
    from that obtain a where a: "map_of (agents s) j = Some a" by (metis domD dom_map_of_conv_image_fst)
    with assms(1) obtain a' where "map_of (agents s') j = Some a'" "observed a a'"
      unfolding only_observed_def by blast
    with a observed_fields(2) show ?thesis by simp
  qed
  have d': "distinct (map fst (agents s'))" using keys d by simp
  have "map (\<lambda>i. int (length (segment_transitions (the (map_of (agents s') i))))) (map fst (agents s)) =
      map (\<lambda>i. int (length (segment_transitions (the (map_of (agents s) i))))) (map fst (agents s))"
    using tr by auto
  from arg_cong [OF this, of sum_list] show "cached s' = cached s"
    unfolding cached_keys [OF d] cached_keys [OF d'] keys .
  show "pending_at s' i = pending_at s i"
  proof (cases "map_of (agents s) i")
    case None
    then have "i \<notin> fst ` set (agents s')" unfolding map_of_eq_None_iff using keys by (metis list.set_map)
    then have "map_of (agents s') i = None" by (simp add: map_of_eq_None_iff)
    with None show ?thesis by (simp add: pending_at_def)
  next
    case (Some a)
    with assms(1) obtain a' where "map_of (agents s') i = Some a'" "observed a a'"
      unfolding only_observed_def by blast
    with Some observed_fields(3) show ?thesis by (simp add: pending_at_def)
  qed
  show "segment_free s' = segment_free s"
  proof
    assume "segment_free s'"
    then show "segment_free s" using assms(1) observed_fields(2)
      unfolding segment_free_def no_segment_at_def only_observed_def by metis
  next
    assume "segment_free s"
    then show "segment_free s'" using only_observed_back [OF assms(1)] observed_fields(2)
      unfolding segment_free_def no_segment_at_def by metis
  qed
  have s': "s' = s\<lparr>agents := agents s'\<rparr>" using assms(1) by (simp add: only_observed_def)
  show "phase s' = phase s" "current_episode_mode s' = current_episode_mode s" by (subst s', simp)+
qed

lemma pending_inputs:
  assumes "inputs_cover inputs s" "distinct (map fst (agents s))"
  shows "(\<Sum>i\<leftarrow>inputs. pending_at s (in_agent i)) = pending_count s"
proof -
  let ?A = "{i. \<exists>a. map_of (agents s) i = Some a \<and> \<not> done_collected a}"
  let ?p = "\<lambda>i. case map_of (agents s) i of None \<Rightarrow> 0 | Some a \<Rightarrow> if has_pending_action a \<and> \<not> done_collected a then 1 else (0 :: int)"
  have "(\<Sum>i\<leftarrow>inputs. pending_at s (in_agent i)) = (\<Sum>i\<leftarrow>map in_agent inputs. pending_at s i)" by (simp add: comp_def)
  also have "\<dots> = (\<Sum>i\<in>?A. pending_at s i)"
    using assms by (simp add: inputs_cover_def sum_list_distinct_conv_sum_set del: map_map)
  also have "\<dots> = (\<Sum>i\<in>?A. ?p i)" by (rule sum.cong) (auto simp: pending_at_def)
  also have "\<dots> = (\<Sum>i\<in>fst ` set (agents s). ?p i)"
  proof (rule sum.mono_neutral_left)
    show "?A \<subseteq> fst ` set (agents s)" by (auto simp: dest!: map_of_SomeD intro: rev_image_eqI)
    show "\<forall>i\<in>fst ` set (agents s) - ?A. ?p i = 0" by (auto split: option.splits)
  qed simp
  also have "\<dots> = (\<Sum>i\<leftarrow>map fst (agents s). ?p i)"
    using assms(2) by (simp add: sum_list_distinct_conv_sum_set del: map_map)
  also have "\<dots> = pending_count s"
  proof -
    have "map (\<lambda>x. ?p (fst x)) (agents s) =
        map (\<lambda>(_, a). if has_pending_action a \<and> \<not> done_collected a then 1 else 0) (agents s)"
      using assms(2) by (auto simp: map_of_is_SomeI)
    from arg_cong [OF this, of sum_list] show ?thesis unfolding pending_count_def by (simp only: map_map comp_def)
  qed
  finally show ?thesis .
qed

section \<open>Prepared frames and aborts keep the invariant\<close>

lemma frame_inv:
  assumes f: "PrepareFrame env inputs fr collect (new_txn rt s1) rt = (Inr (tx, acts), rt')"
    and o: "only_observed s s1" and c: "inputs_cover inputs s" and p: "phase s = PhaseEpisodeRunning"
    and collect: "collect = (run_mode (config rt) = kTraining \<and> current_episode_mode s = ModeTraining)"
    and inv: "session_inv (config rt) s" and t: "\<And>i. 0 < transition_ms env i"
  shows "session_inv (config rt) (tx_session tx) \<and>
    tx_transitions tx + cached (tx_session tx) = produced_unique_transitions rt + cached s +
      (if current_episode_mode s = ModeTraining then pending_count s else 0)"
proof -
  have g: "session_good (config rt) s" using inv by (simp add: session_inv_def)
  then have d: "distinct (map fst (agents s))" by (simp add: good_def)
  note o1 = only_observed_good [OF o g]
  have mode: "current_episode_mode s = (if run_mode (config rt) = kTraining then ModeTraining else ModeEvaluation)"
    using inv p by (simp add: session_inv_def in_episode_def)
  have n: "tx_session (new_txn rt s1) = s1" by (simp add: new_txn_def)
  have h: "current_episode_mode (tx_session tx) = current_episode_mode s"
    "phase (tx_session tx) \<in> {PhaseEpisodeRunning, PhaseEpisodeTerminal}"
    using PrepareFrame_head [OF f] o1(5,6) p by (auto simp: head_def n)
  then have ep: "in_episode (phase (tx_session tx))" by (auto simp: in_episode_def)
  show ?thesis
  proof (cases collect)
    case True
    then have m: "current_episode_mode s = ModeTraining" "run_mode (config rt) = kTraining"
      using collect by simp_all
    have di: "distinct (map in_agent inputs)" using c by (simp add: inputs_cover_def)
    note e = frame_effect [OF f [unfolded eqTrueI [OF True]] o1(1) di t]
    then have "session_inv (config rt) (tx_session tx)"
      using h m ep by (simp add: session_inv_def)
    moreover have "tx_transitions tx + cached (tx_session tx) =
        produced_unique_transitions rt + cached s1 + (\<Sum>i\<leftarrow>inputs. pending_at s1 (in_agent i))"
      using e by linarith
    moreover have "(\<Sum>i\<leftarrow>inputs. pending_at s1 (in_agent i)) = pending_count s"
      using pending_inputs [OF c d] o1(3) by simp
    ultimately show ?thesis using o1(2) m by simp
  next
    case False
    with collect mode have m: "run_mode (config rt) \<noteq> kTraining" "current_episode_mode s \<noteq> ModeTraining"
      by (auto split: if_splits)
    then have sf: "segment_free s" using inv by (simp add: session_inv_def)
    then have q: "quiet (config rt) s1" using o1 by (simp add: quiet_def)
    have "current_episode_mode s1 \<noteq> ModeTraining" using o1(6) m(2) by simp
    from frame_quiet [OF f [unfolded Eq_FalseI [OF False]] this q]
    have r: "quiet (config rt) (tx_session tx)" "tx_transitions tx = produced_unique_transitions rt" by simp_all
    have "distinct (map fst (agents (tx_session tx)))" using r(1) by (simp add: quiet_def good_def)
    then have "cached (tx_session tx) = 0" using r(1) segment_free_cached by (simp add: quiet_def)
    moreover have "cached s = 0" using segment_free_cached [OF sf d] .
    moreover have "session_inv (config rt) (tx_session tx)"
      using r(1) m h mode ep by (simp add: session_inv_def quiet_def)
    ultimately show ?thesis using r(2) m by simp
  qed
qed

lemma abort_inv:
  assumes a: "PrepareAbort env collect (new_txn rt s) rt = (Inr tx, rt')"
    and p: "phase s = PhaseEpisodeRunning"
    and collect: "collect = (run_mode (config rt) = kTraining \<and> current_episode_mode s = ModeTraining)"
    and inv: "session_inv (config rt) s"
  shows "session_inv (config rt) (tx_session tx) \<and>
    tx_transitions tx + cached (tx_session tx) = produced_unique_transitions rt + cached s"
proof -
  have g: "session_good (config rt) s" using inv by (simp add: session_inv_def)
  then have d: "distinct (map fst (agents s))" by (simp add: good_def)
  have ph: "\<not> in_episode (phase (tx_session tx))" using PrepareAbort_head [OF a] by (simp add: in_episode_def)
  show ?thesis
  proof (cases collect)
    case True
    note e = abort_effect [OF a [unfolded eqTrueI [OF True]] g]
    then have "session_inv (config rt) (tx_session tx)" using ph by (simp add: session_inv_def segment_free_def)
    with e show ?thesis by simp
  next
    case False
    with collect inv p have sf: "segment_free s" by (auto simp: session_inv_def in_episode_def split: if_splits)
    then have "quiet (config rt) s" using g by (simp add: quiet_def)
    from abort_quiet [OF a [unfolded Eq_FalseI [OF False]] this]
    have r: "quiet (config rt) (tx_session tx)" "tx_transitions tx = produced_unique_transitions rt" by simp_all
    have "distinct (map fst (agents (tx_session tx)))" using r(1) by (simp add: quiet_def good_def)
    then have "cached (tx_session tx) = 0" using r(1) segment_free_cached by (simp add: quiet_def)
    moreover have "cached s = 0" using segment_free_cached [OF sf d] .
    moreover have "session_inv (config rt) (tx_session tx)" using r(1) ph by (simp add: session_inv_def quiet_def)
    ultimately show ?thesis using r(2) by simp
  qed
qed

end
