(* ===== verification/Command_Protocol.thy ===== *)
theory Command_Protocol
  imports Sessions
begin

text \<open>
  What the command protocol guarantees between one client and its session: a command from a client
  in step with its session is put to the handler, and a retransmission gets the original answer and
  brings the client's cursor back in step.  The server's
  handlers appear as an interface that the task service implements.
\<close>

section \<open>Session store\<close>

text \<open>The sessions ever created have the names of the numbers handed out so far.\<close>

definition manager_ok :: "session_manager \<Rightarrow> bool" where
  "manager_ok m \<longleftrightarrow>
     distinct (map fst (sessions m)) \<and>
     (\<forall>sid \<in> fst ` set (sessions m). \<exists>k. k < next_session_id m \<and> sid = session_name k)"

lemma session_name_inject [simp]: "session_name a = session_name b \<longleftrightarrow> a = b"
  by (simp add: session_name_def word_unat_eq_iff)

lemma manager_ok_empty: "manager_ok empty_manager"
  by (simp add: manager_ok_def empty_manager_def)

lemma manager_ok_fresh: "manager_ok m \<Longrightarrow> map_of (sessions m) (session_name (next_session_id m)) = None"
  by (force simp: manager_ok_def map_of_eq_None_iff)

lemma manager_ok_Create:
  assumes "manager_ok m" "next_session_id m + 1 \<noteq> 0" "CreateSession m = (sid, m')"
  shows "manager_ok m'"
proof -
  have "next_session_id m < next_session_id m + 1"
    using assms(2) unatSuc [of "next_session_id m"] by (simp add: word_less_nat_alt add.commute)
  then have up: "\<exists>j<next_session_id m + 1. x = session_name j"
    if "\<exists>j<next_session_id m. x = session_name j" for x
    using that less_trans by blast
  have fresh: "session_name (next_session_id m) \<notin> fst ` set (sessions m)"
    using manager_ok_fresh [OF assms(1)] by (simp add: map_of_eq_None_iff)
  have m': "m' = m\<lparr>next_session_id := next_session_id m + 1, sessions := sessions m @
      [(session_name (next_session_id m), new_session (session_name (next_session_id m)))]\<rparr>"
    using assms(3) manager_ok_fresh [OF assms(1)]
    by (auto simp: CreateSession_def Let_def put_session_def)
  show ?thesis
    using assms(1) fresh up \<open>next_session_id m < next_session_id m + 1\<close>
    unfolding manager_ok_def m' by (simp add: ball_Un)
qed

lemma manager_ok_Set: "manager_ok m \<Longrightarrow> manager_ok (SetSession sid s m)"
  by (simp add: manager_ok_def SetSession_def image_iff flip: set_map)

lemma manager_ok_Destroy: "manager_ok m \<Longrightarrow> manager_ok (DestroySession sid m)"
  by (auto simp: manager_ok_def DestroySession_def distinct_map_filter)

lemma GetSession_SetSession [simp]:
  "GetSession (SetSession sid s m) sid' =
     (if sid' = sid \<and> GetSession m sid \<noteq> None then Some s else GetSession m sid')"
  by (simp add: GetSession_def SetSession_def)

section \<open>The contract of a command handler\<close>

text \<open>The part of a session the protocol is about.\<close>

definition protocol_state ::
  "session \<Rightarrow> string \<times> u64 \<times> u64 \<times> replay_window \<times> session_phase" where
  "protocol_state s =
     (session_id s, session_epoch s, last_command_sequence s, command_replay s, phase s)"

text \<open>
  A handler either commits the command on a successor state of the session, or leaves the
  protocol state alone and says so: rejected with an error code, or asked to wait.
\<close>

definition committed ::
  "('q, 'p) codec \<Rightarrow> 'q request \<Rightarrow> session \<Rightarrow> 'p response \<Rightarrow> session \<Rightarrow> bool" where
  "committed w req s rsp s' \<longleftrightarrow>
     (\<exists>message rsp0 candidate. (rsp, s') = CommitCommand w message req rsp0 candidate \<and>
        session_id candidate = session_id s \<and> session_epoch candidate = session_epoch s \<and>
        phase candidate \<noteq> PhaseUnspecified)"

definition refused :: "session \<Rightarrow> 'p response \<Rightarrow> session \<Rightarrow> bool" where
  "refused s rsp s' \<longleftrightarrow>
     protocol_state s' = protocol_state s \<and>
     rpl_applied_sequence (reply rsp) = last_command_sequence s \<and>
     rpl_phase (reply rsp) = phase s \<and>
     (rpl_result (reply rsp) = ResultRejected \<and> rpl_error (reply rsp) \<noteq> ErrorUnspecified \<or>
      rpl_result (reply rsp) = ResultWait \<and> rpl_error (reply rsp) = ErrorUnspecified)"

lemma refused_Reject:
  "e \<noteq> ErrorUnspecified \<Longrightarrow> protocol_state s' = protocol_state s \<Longrightarrow>
     refused s (RejectCommand s e message rsp) s'"
  by (simp add: refused_def RejectCommand_def FillReply_def)

lemma refused_Wait:
  "protocol_state s' = protocol_state s \<Longrightarrow>
     refused s (FillReply s (last_command_sequence s) ResultWait ErrorUnspecified message rsp) s'"
  by (simp add: refused_def FillReply_def)

text \<open>The session remembers its last command: the response stored for it acknowledges it.\<close>

definition replay_ok :: "('q, 'p) codec \<Rightarrow> session \<Rightarrow> bool" where
  "replay_ok w s \<longleftrightarrow>
     (rp_present (command_replay s) \<longrightarrow>
        rp_sequence (command_replay s) = last_command_sequence s \<and>
        (\<exists>r. parse_response w (rp_response (command_replay s)) = Some r \<and>
             rpl_applied_sequence (reply r) = last_command_sequence s \<and>
             rpl_error (reply r) = ErrorUnspecified \<and> rpl_phase (reply r) \<noteq> PhaseUnspecified))"

lemma replay_ok_new [simp]: "replay_ok w (new_session sid)"
  by (simp add: replay_ok_def new_session_def new_replay_def)

lemma replay_ok_cong: "protocol_state s' = protocol_state s \<Longrightarrow> replay_ok w s' = replay_ok w s"
  by (simp add: replay_ok_def protocol_state_def)

lemma committed_effect:
  assumes "committed w req s rsp s'" "codec_ok w"
  shows "session_id s' = session_id s" "session_epoch s' = session_epoch s"
    "last_command_sequence s' = cmd_sequence (command req)" "replay_ok w s'"
    "rpl_result (reply rsp) = ResultApplied" "rpl_error (reply rsp) = ErrorUnspecified"
    "rpl_applied_sequence (reply rsp) = cmd_sequence (command req)"
    "rpl_phase (reply rsp) = phase s'" "phase s' \<noteq> PhaseUnspecified"
    "rp_present (command_replay s')" "rp_payload (command_replay s') = ser_request w req"
    "parse_response w (rp_response (command_replay s')) = Some rsp"
  using assms
  by (auto simp: committed_def CommitCommand_def Let_def FillReply_def replay_Store_def replay_ok_def
      codec_ok_def)

section \<open>The interface\<close>

datatype network = Delivered | RequestLost | ReplyLost

definition over_network ::
  "('w \<Rightarrow> 'p response \<times> 'w) \<Rightarrow> network \<Rightarrow> 'w \<Rightarrow> 'p response option \<times> 'w" where
  "over_network serve n w =
     (case n of
        RequestLost \<Rightarrow> (None, w)
      | Delivered \<Rightarrow> (Some (fst (serve w)), snd (serve w))
      | ReplyLost \<Rightarrow> (None, snd (serve w)))"

lemma over_network_simps [simp]:
  "over_network serve RequestLost w = (None, w)"
  "over_network serve Delivered w = (Some (fst (serve w)), snd (serve w))"
  "over_network serve ReplyLost w = (None, snd (serve w))"
  by (simp_all add: over_network_def)

text \<open>The client's cursor and the session agree on the last command and the phase.\<close>

definition synced :: "cursor \<Rightarrow> session \<Rightarrow> bool" where
  "synced c s \<longleftrightarrow>
     cur_session_id c = session_id s \<and> cur_session_epoch c = session_epoch s \<and>
     next_sequence c = last_command_sequence s + 1 \<and> cur_phase c = phase s \<and>
     phase s \<noteq> PhaseUnspecified"

lemma synced_cong: "protocol_state s' = protocol_state s \<Longrightarrow> synced c s' = synced c s"
  by (simp add: synced_def protocol_state_def)

locale command_server =
  fixes codec :: "('q, 'p) codec"
    and sess :: "'w \<Rightarrow> session"
    and valid :: "'w \<Rightarrow> bool"
    and serve :: "'q request \<Rightarrow> 'w \<Rightarrow> 'p response \<times> 'w"
  assumes codec: "valid w \<Longrightarrow> codec_ok codec"
    and valid_serve: "valid w \<Longrightarrow> valid (snd (serve req w))"
    and serve_proceed:
      "valid w \<Longrightarrow> fst (CheckCommand codec (sess w) req empty_response) = CheckProceed \<Longrightarrow>
         committed codec req (sess w) (fst (serve req w)) (sess (snd (serve req w))) \<or>
         refused (sess w) (fst (serve req w)) (sess (snd (serve req w)))"
    and serve_checked:
      "valid w \<Longrightarrow> CheckCommand codec (sess w) req empty_response = (c, rsp) \<Longrightarrow> c \<noteq> CheckProceed \<Longrightarrow>
         cmd_session_id (command req) = session_id (sess w) \<Longrightarrow>
         fst (serve req w) = rsp \<and> protocol_state (sess (snd (serve req w))) = protocol_state (sess w)"
begin

text \<open>A fresh command from a synced client is put to the handler.\<close>

lemma synced_proceeds:
  assumes "valid w" "synced c (sess w)" "replay_ok codec (sess w)" "command req = FillCommand c"
  shows "fst (CheckCommand codec (sess w) req empty_response) = CheckProceed"
  using assms
  by (auto simp: CheckCommand_def synced_def FillCommand_def replay_Classify_def replay_ok_def Let_def)

text \<open>After the handler committed it, the same bytes are answered from the replay window.\<close>

lemma retransmission:
  assumes v: "valid w" and c: "committed codec req s rsp (sess w)"
    and i: "cmd_session_id (command req) = session_id (sess w)"
  shows "fst (serve req w) =
      rsp\<lparr>reply := (reply rsp)\<lparr>rpl_result := ResultAlreadyApplied,
        rpl_message := ''command was already applied''\<rparr>\<rparr>"
    and "protocol_state (sess (snd (serve req w))) = protocol_state (sess w)"
proof -
  note e = committed_effect [OF c codec [OF v]]
  have "rp_sequence (command_replay (sess w)) = cmd_sequence (command req)"
    using e(3,4,10) by (simp add: replay_ok_def)
  then have chk: "CheckCommand codec (sess w) req empty_response =
      (CheckReplayed, rsp\<lparr>reply := (reply rsp)\<lparr>rpl_result := ResultAlreadyApplied,
        rpl_message := ''command was already applied''\<rparr>\<rparr>)"
    using e(10-12) by (simp add: CheckCommand_def replay_Classify_def Let_def)
  show "fst (serve req w) =
      rsp\<lparr>reply := (reply rsp)\<lparr>rpl_result := ResultAlreadyApplied,
        rpl_message := ''command was already applied''\<rparr>\<rparr>"
    and "protocol_state (sess (snd (serve req w))) = protocol_state (sess w)"
    using serve_checked [OF v chk _ i] by simp_all
qed

lemma serve_synced:
  assumes "valid w" "synced c (sess w)" "replay_ok codec (sess w)" "command req = FillCommand c"
  obtains (applied) "committed codec req (sess w) (fst (serve req w)) (sess (snd (serve req w)))"
    | (refused) "refused (sess w) (fst (serve req w)) (sess (snd (serve req w)))"
  using serve_proceed [OF assms(1) synced_proceeds [OF assms]] by blast

text \<open>
  After a lost reply the client may send the same bytes again: the command is not applied a
  second time and the answer brings the cursor back in step.
\<close>

lemma retry_after_unknown:
  assumes v: "valid w" and c: "committed codec req s rsp (sess w)" and "command req = FillCommand c"
    and "cur_session_id c = session_id s" "cur_session_epoch c = session_epoch s"
  shows "\<exists>c'. AcceptCommandReply c (reply (fst (serve req w))) = Some c' \<and>
     synced c' (sess (snd (serve req w))) \<and>
     protocol_state (sess (snd (serve req w))) = protocol_state (sess w)"
proof -
  note e = committed_effect [OF c codec [OF v]]
  have "cmd_session_id (command req) = session_id (sess w)"
    using assms(3,4) e(1) by (simp add: FillCommand_def)
  note r = retransmission [OF v c this]
  have "synced (c\<lparr>cur_phase := phase (sess w), next_sequence := next_sequence c + 1\<rparr>) (sess w)"
    using assms(3-5) e by (simp add: synced_def FillCommand_def)
  then have "synced (c\<lparr>cur_phase := phase (sess w), next_sequence := next_sequence c + 1\<rparr>)
      (sess (snd (serve req w)))"
    by (simp add: synced_cong [OF r(2)])
  then show ?thesis
    using e(6-9) r assms(3)
    by (auto simp: AcceptCommandReply_def CommandAccepted_def HasConcretePhase_def FillCommand_def)
qed

end

end
