(* ===== verification/Task_Contracts.thy ===== *)
theory Task_Contracts
  imports Session_Invariant Command_Protocol
begin

text \<open>
  What a task must provide to the service (the locale \<open>task_adapter\<close>), and what the service's
  handlers then provide to the command protocol: every command is committed on its session or
  refused, no other session is touched, the sessions stay well formed and no transition is lost.
\<close>

section \<open>Answers\<close>

datatype rpc = RpcInit | RpcBegin | RpcUpdate | RpcEnd | RpcAbort | RpcClose

text \<open>The phases a committed command may lead to.\<close>

definition phase_moves :: "rpc \<Rightarrow> session_phase \<Rightarrow> session_phase set" where
  "phase_moves k p =
     (case k of
        RpcInit \<Rightarrow> if p = PhaseOpen then {PhaseReady} else {}
      | RpcBegin \<Rightarrow> if p = PhaseReady then {PhaseEpisodeRunning} else {}
      | RpcUpdate \<Rightarrow> if p = PhaseEpisodeRunning then {PhaseEpisodeRunning, PhaseEpisodeTerminal} else {}
      | RpcEnd \<Rightarrow> if p = PhaseEpisodeTerminal then {PhaseReady} else {}
      | RpcAbort \<Rightarrow> if p = PhaseEpisodeRunning then {PhaseAborted} else {}
      | RpcClose \<Rightarrow> if p \<in> {PhaseOpen, PhaseReady, PhaseAborted, PhaseTaskComplete}
                     then {PhaseClosed} else {})"

abbreviation stored :: "('g, 't, 'c) service \<Rightarrow> string \<Rightarrow> session option" where
  "stored S sid \<equiv> GetSession (session_mgr (srv S)) sid"

definition completed :: "rpc \<Rightarrow> session \<Rightarrow> int" where
  "completed k s = (if k = RpcUpdate \<and> current_episode_mode s = ModeTraining then pending_count s else 0)"

abbreviation keys_of :: "('g, 't, 'c) service \<Rightarrow> string list" where
  "keys_of S \<equiv> map fst (sessions (session_mgr (srv S)))"

abbreviation next_of :: "('g, 't, 'c) service \<Rightarrow> u64" where
  "next_of S \<equiv> next_session_id (session_mgr (srv S))"

text \<open>What the service still holds of a session's transitions, or has handed over to the distributor.\<close>

abbreviation produced :: "('g, 't, 'c) service \<Rightarrow> int" where
  "produced S \<equiv> produced_unique_transitions (srv S)"

text \<open>A session as it was, but for the time of the client's last activity.\<close>

definition same_but_activity :: "session \<Rightarrow> session \<Rightarrow> bool" where
  "same_but_activity s s' \<longleftrightarrow>
     (\<exists>now. s' = s\<lparr>last_valid_client_activity_unix_ms := now\<rparr>)"

lemma same_but_activity_refl [simp]: "same_but_activity s s"
  unfolding same_but_activity_def
  by (rule exI [of _ "last_valid_client_activity_unix_ms s"]) simp

lemma same_but_activity_touch: "same_but_activity (touch c now s) s' \<Longrightarrow> same_but_activity s s'"
  by (auto simp: same_but_activity_def touch_def split: if_splits)

lemma touch_same [simp]: "same_but_activity s (touch c now s)"
proof (cases "c = CheckProceed \<or> c = CheckReplayed")
  case True
  then show ?thesis by (auto simp: same_but_activity_def touch_def)
next
  case False
  then show ?thesis by (simp add: touch_def)
qed

lemma same_but_activity_fields:
  assumes "same_but_activity s s'"
  shows "protocol_state s' = protocol_state s" "agents s' = agents s"
    "current_episode_mode s' = current_episode_mode s" "session_id s' = session_id s"
  using assms by (auto simp: same_but_activity_def protocol_state_def)

text \<open>
  \<open>ok\<close> stands for what the accounting needs of the environment.  A refused command leaves the
  sessions, the tasks and the controller alone.
\<close>

definition answered ::
  "bool \<Rightarrow> rpc \<Rightarrow> ('q, 'p) codec \<Rightarrow> 'q request \<Rightarrow> session \<Rightarrow> ('g, 't, 'c) service \<Rightarrow>
   'p response \<times> ('g, 't, 'c) service \<Rightarrow> bool" where
  "answered ok k w req s S r \<longleftrightarrow>
     config (srv (snd r)) = config (srv S) \<and> keys_of (snd r) = keys_of S \<and> next_of (snd r) = next_of S \<and>
     (\<forall>sid. sid \<noteq> session_id s \<longrightarrow> stored (snd r) sid = stored S sid) \<and>
     (\<exists>s'. stored (snd r) (session_id s) = Some s' \<and>
        (committed w req s (fst r) s' \<and> phase s' \<in> phase_moves k (phase s) \<or>
         refused s (fst r) s' \<and> same_but_activity s s' \<and>
         tasks (snd r) = tasks S \<and> controller (snd r) = controller S \<and>
         produced (snd r) = produced S) \<and>
        (ok \<and> session_inv (config (srv S)) s \<longrightarrow>
           session_inv (config (srv S)) s' \<and>
           produced (snd r) + cached s' = produced S + cached s +
             (if rpl_result (reply (fst r)) = ResultApplied then completed k s else 0)))"

text \<open>Nothing but error traces, counters and the distributor changes.\<close>

definition kept :: "('g, 't, 'c) service \<Rightarrow> ('g, 't, 'c) service \<Rightarrow> bool" where
  "kept S S' \<longleftrightarrow>
     session_mgr (srv S') = session_mgr (srv S) \<and> config (srv S') = config (srv S) \<and>
     produced S' = produced S \<and> tasks S' = tasks S \<and> controller S' = controller S"

lemma kept_refl [simp]: "kept S S" by (simp add: kept_def)


lemma answered_refused:
  assumes "stored S (session_id s) = Some s" "kept S S'" "refused s rsp s"
  shows "answered ok k w req s S (rsp, S')"
proof -
  have "rpl_result (reply rsp) \<noteq> ResultApplied" using assms(3) by (auto simp: refused_def)
  with assms show ?thesis by (simp add: answered_def kept_def)
qed

lemma answered_reject:
  "stored S (session_id s) = Some s \<Longrightarrow> kept S S' \<Longrightarrow> e \<noteq> ErrorUnspecified \<Longrightarrow>
     answered ok k w req s S (reject s e message, S')"
  unfolding reject_def by (rule answered_refused) (auto intro: refused_Reject)

lemma answered_reject_body:
  "stored S (session_id s) = Some s \<Longrightarrow> kept S S' \<Longrightarrow> e \<noteq> ErrorUnspecified \<Longrightarrow>
     answered ok k w req s S (with_body b (reject s e message), S')"
  by (rule answered_refused) (auto simp: with_body_def reject_def refused_def RejectCommand_def FillReply_def)

lemma answered_wait:
  "stored S (session_id s) = Some s \<Longrightarrow> kept S S' \<Longrightarrow>
     answered ok k w req s S
       (FillReply s (last_command_sequence s) ResultWait ErrorUnspecified message rsp, S')"
  by (rule answered_refused) (auto intro: refused_Wait)

lemma answered_reject_task:
  "stored S (session_id s) = Some s \<Longrightarrow> kept S S' \<Longrightarrow> te_code e \<noteq> ErrorUnspecified \<Longrightarrow>
     answered ok k w req s S (RejectTask s e S')"
  unfolding RejectTask_def
  by (rule answered_reject)
    (simp_all add: kept_def note_task_error_def rt_MarkDegraded_def rollout_failure_def Let_def)

lemma answered_commit:
  assumes "stored S (session_id s) = Some s" "CommitCommand w message req rsp0 c = (rsp, s')"
    and "session_id c = session_id s" "session_epoch c = session_epoch s"
    and "phase c \<in> phase_moves k (phase s)"
    and "session_mgr (srv S') = SetSession (session_id s) s' (session_mgr (srv S))"
    and "config (srv S') = config (srv S)"
    and acc: "ok \<Longrightarrow> session_inv (config (srv S)) s \<Longrightarrow>
      session_inv (config (srv S)) c \<and> produced S' + cached c = produced S + cached s + completed k s"
  shows "answered ok k w req s S (rsp, S')"
proof -
  have "phase c \<noteq> PhaseUnspecified" using assms(5) by (auto simp: phase_moves_def split: rpc.splits if_splits)
  then have "committed w req s rsp s'" unfolding committed_def using assms(2-4) by metis
  moreover have s': "phase s' = phase c" "agents s' = agents c" "current_episode_mode s' = current_episode_mode c"
    "rpl_result (reply rsp) = ResultApplied"
    using assms(2) by (auto simp: CommitCommand_def FillReply_def Let_def)
  moreover have "session_inv cfg s' = session_inv cfg c" for cfg using session_inv_cong s'(1-3) by blast
  moreover have "cached s' = cached c" using session_cong(2) s'(2) by blast
  moreover have "keys_of S' = keys_of S" "next_of S' = next_of S" by (simp_all add: assms(6) SetSession_def)
  ultimately show ?thesis using assms(1,5,7) acc by (simp add: answered_def assms(6))
qed

lemma answered_touch:
  assumes "answered ok k w req (touch c now s) S r"
    and "\<And>sid. sid \<noteq> session_id s \<Longrightarrow> stored S sid = stored S0 sid"
    and "config (srv S) = config (srv S0)" "keys_of S = keys_of S0" "produced S = produced S0"
    and "tasks S = tasks S0" "controller S = controller S0" "next_of S = next_of S0"
  shows "answered ok k w req s S0 r"
proof -
  let ?s = "touch c now s"
  note f = same_but_activity_fields [OF touch_same [of s c now]]
  have p: "session_id ?s = session_id s" "phase ?s = phase s" using f(1) by (auto simp: protocol_state_def)
  have "committed w req ?s rsp x = committed w req s rsp x" "refused ?s rsp x = refused s rsp x" for rsp x
    using f(1) by (auto simp: protocol_state_def committed_def refused_def)
  moreover have "session_inv cfg ?s = session_inv cfg s" for cfg using session_inv_cong f(2,3) p(2) by blast
  moreover have "cached ?s = cached s" "completed k ?s = completed k s"
    using f(2,3) by (simp_all add: cached_def completed_def pending_count_def)
  ultimately show ?thesis using assms p same_but_activity_touch [of c now s] unfolding answered_def by metis
qed

lemma answered_admit:
  assumes st: "stored S (session_id s) = Some s" and c: "CommitCommand w message req rsp0 c = (rsp, s3)"
    and "session_id c = session_id s" "session_epoch c = session_epoch s"
    and "phase c \<in> phase_moves k (phase s)"
    and m: "kept S S'" and tx: "tx_session tx = s3"
    and acc: "ok \<Longrightarrow> session_inv (config (srv S)) s \<Longrightarrow>
      session_inv (config (srv S)) c \<and> tx_transitions tx + cached c = produced S + cached s + completed k s"
  shows "answered ok k w req s S (admit_and_commit ce s lat rsp t ctl tx S')"
proof -
  obtain r err rt where a: "Admit (ce_env ce) (ce_before_seal ce) (ce_before_commit ce) lat (ce_enqueue_ms ce)
      tx (srv S') = (r, err, rt)" by (metis surj_pair)
  have rt: "session_mgr rt = session_mgr (srv S)" "config rt = config (srv S)"
    "produced_unique_transitions rt = produced S" "tasks S' = tasks S" "controller S' = controller S"
    using Admit_keeps [OF a] m by (simp_all add: kept_def)
  show ?thesis
  proof (cases "r = Reserved")
    case True
    with a have "admit_and_commit ce s lat rsp t ctl tx S' =
        (rsp, S'\<lparr>srv := txn_Commit (session_id s) tx rt, tasks := (tasks S')(session_id s := t),
              controller := ctl\<rparr>)" by (simp add: admit_and_commit_def)
    then show ?thesis using rt acc
      by (simp add: answered_commit [OF st c assms(3-5)] txn_Commit_def tx)
  next
    case False
    with a rt st show ?thesis
      by (auto simp: admit_and_commit_def admit_failed_def Let_def rt_MarkDegraded_def kept_def
          intro!: answered_wait answered_reject)
  qed
qed

lemma answered_if:
  "(b \<Longrightarrow> answered ok k w req s S r1) \<Longrightarrow> (\<not> b \<Longrightarrow> answered ok k w req s S r2) \<Longrightarrow>
     answered ok k w req s S (if b then r1 else r2)"
  by simp

section \<open>The interface of a task\<close>

definition clock_ok :: "'g call_env \<Rightarrow> bool" where
  "clock_ok ce \<longleftrightarrow> (\<forall>i. 0 < transition_ms (ce_env ce) i)"

locale task_adapter =
  fixes ops :: "('t, 'c, 'q, 'p) task_ops"
  assumes initialize:
      "op_initialize ops (s, t) c q m n = Inr ((s', t'), c') \<Longrightarrow>
         \<exists>as. s' = s\<lparr>agents := as\<rparr> \<and> distinct (map fst as) \<and> list_all (\<lambda>(_, a). agent_idle a) as"
    and assign:
      "op_assign ops (s, t) c m n episode = Inr ((s', t'), c', b) \<Longrightarrow> s' = session_ResetForEpisode episode s"
    and decode:
      "op_decode ops (s, t) q collect = Inr ((s', t'), inputs) \<Longrightarrow>
         only_observed s s' \<and> inputs_cover inputs s"
    and encode: "fst (fst (op_encode ops (s, t) acts)) = s"
    and initialize_error: "op_initialize ops st c q m n = Inl e \<Longrightarrow> te_code e \<noteq> ErrorUnspecified"
    and assign_error: "op_assign ops st c m n episode = Inl e \<Longrightarrow> te_code e \<noteq> ErrorUnspecified"
    and decode_error: "op_decode ops st q collect = Inl e \<Longrightarrow> te_code e \<noteq> ErrorUnspecified"
    and observe_error: "op_observe ops c m n = Inl e \<Longrightarrow> te_code e \<noteq> ErrorUnspecified"
    and outcome_error: "op_outcome ops st reg = OutcomeFailed e \<Longrightarrow> te_code e \<noteq> ErrorUnspecified"
begin

lemma Init_answers:
  assumes st: "stored S (session_id s) = Some s"
  shows "answered ok RpcInit w req s S (Init_proceed ops w req s S)"
proof (cases "phase s \<noteq> PhaseOpen \<or> cmd_episode_id (command req) \<noteq> [] \<or>
    \<not> IsReady (srv S) \<or> model_ack_pending (srv S)")
  case True
  then show ?thesis by (auto simp: Init_proceed_def Let_def st intro!: answered_reject)
next
  case False
  show ?thesis
  proof (cases "op_initialize ops (s, tasks S (session_id s)) (controller S) (body req)
      (active_manifest (srv S)) (produced_unique_transitions (srv S))")
    case (Inl e)
    with False show ?thesis
      by (auto simp: Init_proceed_def Let_def st initialize_error intro!: answered_reject_task)
  next
    case (Inr r)
    obtain s1 t1 ctl where r: "r = ((s1, t1), ctl)" by (metis surj_pair)
    obtain as where s1: "s1 = s\<lparr>agents := as\<rparr>" "distinct (map fst as)" "list_all (\<lambda>(_, a). agent_idle a) as"
      using initialize [OF Inr [unfolded r]] by blast
    obtain rsp s2 where c: "CommitCommand w ''task accepted and session initialized'' req empty_response
        (s1\<lparr>phase := PhaseReady\<rparr>) = (rsp, s2)" by force
    have inv: "session_inv cfg (s1\<lparr>phase := PhaseReady\<rparr>) \<and> cached (s1\<lparr>phase := PhaseReady\<rparr>) = 0" for cfg
      by (rule idle_agents_inv) (use s1 in \<open>simp_all add: in_episode_def\<close>)
    have p: "\<not> in_episode (phase s)" using False by (simp add: in_episode_def)
    show ?thesis
      using False Inr r c inv outside_cached [OF _ p]
      by (auto simp: Init_proceed_def Let_def put_session_part_def s1(1) phase_moves_def completed_def
          intro!: answered_commit [OF st c])
  qed
qed

lemma Begin_answers:
  assumes st: "stored S (session_id s) = Some s"
  shows "answered ok RpcBegin w req s S (BeginEpisode_proceed ops w ce req s S)"
proof -
  let ?rt = "srv S" and ?training = "run_mode (config (srv S)) = kTraining"
  let ?sn = "GetSnapshot (config (srv S)) (ce_steady ce) (distributor (srv S))"
  show ?thesis
  proof (cases "\<not> IsCoreInferenceReady ?rt \<or> phase s \<noteq> PhaseReady \<or> cmd_episode_id (command req) \<noteq> [] \<or>
      ?training \<and> delivery_refuses_episode ?sn")
    case True
    then show ?thesis by (auto simp: BeginEpisode_proceed_def Let_def st intro!: answered_reject)
  next
    case False
    define r where "r = op_assign ops (pin_policy ?training (active_manifest ?rt) s, tasks S (session_id s))
      (controller S) (active_manifest ?rt) (produced_unique_transitions ?rt)
      (op_episode_id ops (next_episode_id ?rt))"
    show ?thesis
    proof (cases r)
      case (Inl e)
      with False show ?thesis
        by (auto simp: BeginEpisode_proceed_def Let_def st assign_error r_def intro!: answered_reject_task)
    next
      case (Inr x)
      obtain s1 t1 ctl b where x: "x = ((s1, t1), ctl, b)" by (metis surj_pair)
      have s1: "s1 = session_ResetForEpisode (op_episode_id ops (next_episode_id ?rt))
          (pin_policy ?training (active_manifest ?rt) s)"
        using assign [OF Inr [unfolded x r_def]] .
      let ?msg = "if ?training then ''training episode assigned with per-Agent segment model pinning''
        else ''evaluation episode assigned with episode-pinned behavior policy''"
      obtain rsp s2 where c: "CommitCommand w ?msg req (empty_response\<lparr>result_body := Some b\<rparr>)
          (s1\<lparr>phase := PhaseEpisodeRunning\<rparr>) = (rsp, s2)" by force
      have "BeginEpisode_proceed ops w ce req s S =
          (rsp, (put_session_part (session_id s) (s2, t1) S)
             \<lparr>srv := (srv (put_session_part (session_id s) (s2, t1) S))
                \<lparr>next_episode_id := next_episode_id ?rt + 1\<rparr>,
              controller := (if ?training then ctl else controller S)\<rparr>)"
      proof -
        have "(?training \<and> delivery_refuses_episode ?sn) = False" "(\<not> IsCoreInferenceReady ?rt) = False"
          "(phase s \<noteq> PhaseReady \<or> cmd_episode_id (command req) \<noteq> []) = False" using False by blast+
        then show ?thesis
          using Inr [unfolded x r_def] c unfolding BeginEpisode_proceed_def Let_def by auto
      qed
      moreover have "answered ok RpcBegin w req s S
          (rsp, (put_session_part (session_id s) (s2, t1) S)
             \<lparr>srv := (srv (put_session_part (session_id s) (s2, t1) S))
                \<lparr>next_episode_id := next_episode_id ?rt + 1\<rparr>,
              controller := (if ?training then ctl else controller S)\<rparr>)"
      proof (rule answered_commit [OF st c])
        assume inv: "session_inv (config ?rt) s"
        have p: "\<not> in_episode (phase s)" using False by (auto simp: in_episode_def)
        have d: "distinct (map fst (agents s))" using inv by (simp add: session_inv_def good_def)
        have "session_inv (config ?rt) (s1\<lparr>phase := PhaseEpisodeRunning\<rparr>) \<and>
            cached (s1\<lparr>phase := PhaseEpisodeRunning\<rparr>) = 0"
          by (rule idle_agents_inv)
            (use d in \<open>auto simp: s1 session_ResetForEpisode_def pin_policy_def comp_def case_prod_unfold
               list_all_iff ResetForEpisode_idle\<close>)
        with outside_cached [OF inv p]
        show "session_inv (config ?rt) (s1\<lparr>phase := PhaseEpisodeRunning\<rparr>) \<and>
            produced ((put_session_part (session_id s) (s2, t1) S)
             \<lparr>srv := (srv (put_session_part (session_id s) (s2, t1) S))
                \<lparr>next_episode_id := next_episode_id ?rt + 1\<rparr>,
              controller := (if ?training then ctl else controller S)\<rparr>) +
              cached (s1\<lparr>phase := PhaseEpisodeRunning\<rparr>) =
            produced S + cached s + completed RpcBegin s"
          by (simp add: put_session_part_def completed_def)
      qed (use False in \<open>auto simp: put_session_part_def s1 phase_moves_def session_ResetForEpisode_def pin_policy_def\<close>)
      ultimately show ?thesis by simp
    qed
  qed
qed

lemma Update_frame_answers:
  assumes st: "stored S (session_id s) = Some s" and p: "phase s = PhaseEpisodeRunning"
    and collect: "collect = (run_mode (config (srv S)) = kTraining \<and> current_episode_mode s = ModeTraining)"
  shows "answered (clock_ok ce) RpcUpdate w req s S (Update_frame ops w ce req collect s S)"
proof (cases "op_decode ops (s, tasks S (session_id s)) (body req) collect")
  case (Inl e)
  then show ?thesis by (simp add: Update_frame_def Let_def answered_reject_task st decode_error)
next
  case (Inr x)
  obtain s1 t1 inputs where x: "x = ((s1, t1), inputs)" by (metis surj_pair)
  have o: "only_observed s s1" "inputs_cover inputs s" using decode [OF Inr [unfolded x]] by simp_all
  then have s1: "s1 = s\<lparr>agents := agents s1\<rparr>" by (simp add: only_observed_def)
  have s1_head: "session_id s1 = session_id s" "session_epoch s1 = session_epoch s" "phase s1 = phase s"
    by (subst s1, simp)+
  have tx0: "(new_txn (srv S) s)\<lparr>tx_session := s1\<rparr> = new_txn (srv S) s1" by (simp add: new_txn_def)
  obtain r rt1 where r: "PrepareFrame (ce_env ce) inputs (op_frame_id ops (body req)) collect
      (new_txn (srv S) s1) (srv S) = (r, rt1)" by force
  note m = core_fields [OF PrepareFrame_core [OF r]]
  show ?thesis
  proof (cases r)
    case e: (Inl e)
    then show ?thesis using Inr x r m
      by (simp add: Update_frame_def Let_def tx0 answered_reject st kept_def)
  next
    case y: (Inr y)
    obtain tx acts where tx: "y = (tx, acts)" by force
    have h: "session_id (tx_session tx) = session_id s" "session_epoch (tx_session tx) = session_epoch s"
      "phase (tx_session tx) \<in> phase_moves RpcUpdate (phase s)"
      using PrepareFrame_head [OF r [unfolded y tx]] p s1_head by (auto simp: head_def phase_moves_def new_txn_def)
    obtain t2 b where en: "op_encode ops (tx_session tx, t1) acts = ((tx_session tx, t2), b)"
      using encode [of "tx_session tx" t1 acts] by (metis prod.collapse)
    let ?obs = "if current_episode_mode s = ModeTraining
      then op_observe ops (controller S) (active_manifest rt1) (tx_transitions tx) else Inr (controller S)"
    show ?thesis
    proof (cases ?obs)
      case (Inl e)
      then have "te_code e \<noteq> ErrorUnspecified" by (auto dest: observe_error split: if_splits)
      with Inl Inr x r y tx en m show ?thesis
        by (simp add: Update_frame_def Let_def tx0 answered_reject_task st kept_def)
    next
      case ctl: (Inr ctl)
      obtain rsp s3 where c: "CommitCommand w
          (if acts = [] then ''terminal Agent states accepted''
           else ''Agent states accepted and actions assigned'')
          req (empty_response\<lparr>result_body := Some b\<rparr>) (tx_session tx) = (rsp, s3)" by force
      have "Update_frame ops w ce req collect s S = admit_and_commit ce s True rsp t2 ctl
          (tx\<lparr>tx_session := s3\<rparr>) (S\<lparr>srv := rt1\<lparr>distributor := ce_sender ce (distributor rt1)\<rparr>\<rparr>)"
        using ctl Inr x r y tx en c by (simp add: Update_frame_def Let_def tx0)
      moreover have "session_inv (config (srv S)) (tx_session tx) \<and>
          tx_transitions tx + cached (tx_session tx) = produced S + cached s + completed RpcUpdate s"
        if "clock_ok ce" "session_inv (config (srv S)) s"
        using frame_inv [OF r [unfolded y tx] o p collect that(2)] that(1)
        by (simp add: clock_ok_def completed_def)
      ultimately show ?thesis using m by (simp add: answered_admit [OF st c h] kept_def)
    qed
  qed
qed

lemma Update_answers:
  assumes st: "stored S (session_id s) = Some s"
  shows "answered (clock_ok ce) RpcUpdate w req s S (Update_proceed ops w ce req s S)"
proof -
  let ?gate = "delivery_gate_of (GetSnapshot (config (srv S)) (ce_steady ce) (distributor (srv S)))"
  show ?thesis
  proof (cases "phase s = PhaseEpisodeRunning")
    case False
    then show ?thesis by (simp add: Update_proceed_def Let_def answered_reject st)
  next
    case True
    show ?thesis unfolding Update_proceed_def Let_def
      by (cases ?gate; simp only: delivery_gate.case;
          (rule answered_if answered_reject [OF st kept_refl] answered_wait [OF st kept_refl]
            Update_frame_answers [OF st True refl] command_error.distinct)+)
  qed
qed

lemma End_answers:
  assumes st: "stored S (session_id s) = Some s"
  shows "answered ok RpcEnd w req s S (EndEpisode_proceed ops w ce req s S)"
proof -
  let ?rt = "srv S" and ?training = "current_episode_mode s = ModeTraining"
  show ?thesis
  proof (cases "shutdown_started ?rt \<or> phase s \<noteq> PhaseEpisodeTerminal \<or>
      cmd_episode_id (command req) \<noteq> current_episode_id s \<or>
      \<not> list_all (\<lambda>(_, a). agent_settled a) (agents s) \<or> run_mode (config ?rt) = kTraining \<and> \<not> ?training")
    case True
    then show ?thesis by (auto simp: EndEpisode_proceed_def Let_def st intro!: answered_reject)
  next
    case False
    have n: "shutdown_started ?rt = False"
      "(phase s \<noteq> PhaseEpisodeTerminal \<or> cmd_episode_id (command req) \<noteq> current_episode_id s) = False"
      "(\<not> list_all (\<lambda>(_, a). agent_settled a) (agents s)) = False"
      "(run_mode (config ?rt) = kTraining \<and> \<not> ?training) = False" using False by blast+
    show ?thesis
    proof (cases "op_outcome ops (s, tasks S (session_id s)) (metric_registry ?rt)")
      case (OutcomeFailed e)
      with st show ?thesis unfolding EndEpisode_proceed_def Let_def n if_False
        by (simp add: answered_reject_task outcome_error)
    next
      case (OutcomeThrown b err)
      with st show ?thesis unfolding EndEpisode_proceed_def Let_def n if_False
        by (simp add: answered_reject_body)
    next
      case (OutcomePrepared b facts)
      let ?m = "if ?training then append_episode_metrics ce s facts ?rt else Inr ?rt"
      show ?thesis
      proof (cases ?m)
        case (Inl err)
        with st OutcomePrepared show ?thesis unfolding EndEpisode_proceed_def Let_def n if_False
          by (simp add: answered_reject_body)
      next
        case (Inr rt1)
        have m: "session_mgr rt1 = session_mgr ?rt \<and> config rt1 = config ?rt \<and>
            produced_unique_transitions rt1 = produced_unique_transitions ?rt"
          using Inr by (auto simp: append_episode_metrics_def split: if_splits sum.splits option.splits
              prod.splits append_result.splits)
        let ?c = "(ReleaseEpisodePolicy (s\<lparr>phase := PhaseReady\<rparr>))\<lparr>reward_metrics := new_reward_window\<rparr>"
        obtain rsp s2 where c: "CommitCommand w ''Episode outcome and metrics committed'' req
            (empty_response\<lparr>result_body := Some b\<rparr>) ?c = (rsp, s2)" by force
        from False have p: "phase s = PhaseEpisodeTerminal" by blast
        have ag: "agents ?c = agents s" by (simp add: ReleaseEpisodePolicy_def)
        have settled: "agent_settled a" if "map_of (agents s) i = Some a" for i a
          using False map_of_SomeD [OF that] by (auto simp: list_all_iff)
        have "segment_free s"
          using settled by (simp add: segment_free_def no_segment_at_def agent_settled_def)
        then have acc: "session_inv cfg ?c \<and> cached ?c = cached s" if "session_inv cfg s" for cfg
          using that session_cong(1,2) [OF ag] segment_free_cong [OF ag]
          by (simp add: session_inv_def in_episode_def ReleaseEpisodePolicy_def)
        show ?thesis using Inr OutcomePrepared c m p acc unfolding EndEpisode_proceed_def Let_def n if_False
          by (simp add: answered_commit [OF st c] put_session_part_def phase_moves_def completed_def
              ReleaseEpisodePolicy_def)
      qed
    qed
  qed
qed

lemma Abort_answers:
  assumes st: "stored S (session_id s) = Some s"
  shows "answered ok RpcAbort w req s S (AbortEpisode_proceed ops w ce req s S)"
proof -
  let ?rt = "srv S"
  let ?collect = "run_mode (config ?rt) = kTraining \<and> current_episode_mode s = ModeTraining"
  show ?thesis
  proof (cases "shutdown_started ?rt \<or> \<not> op_valid_abort ops (body req) \<or> phase s \<noteq> PhaseEpisodeRunning \<or>
      cmd_episode_id (command req) \<noteq> current_episode_id s")
    case True
    then show ?thesis by (auto simp: AbortEpisode_proceed_def Let_def st intro!: answered_reject)
  next
    case False
    obtain r rt1 where r: "PrepareAbort (ce_env ce) ?collect (new_txn ?rt s) ?rt = (r, rt1)" by force
    note m = core_fields [OF PrepareAbort_core [OF r]]
    show ?thesis
    proof (cases r)
      case (Inl e)
      with False r m st show ?thesis by (simp add: AbortEpisode_proceed_def Let_def answered_reject kept_def)
    next
      case (Inr tx)
      obtain rsp s1 where c: "CommitCommand w ''Episode aborted after controlled Agent segment close'' req
          empty_response (tx_session tx) = (rsp, s1)" by force
      have h: "session_id (tx_session tx) = session_id s" "session_epoch (tx_session tx) = session_epoch s"
        "phase (tx_session tx) \<in> phase_moves RpcAbort (phase s)"
        using PrepareAbort_head [OF r [unfolded Inr]] False by (auto simp: head_def new_txn_def phase_moves_def)
      from False r Inr c have "AbortEpisode_proceed ops w ce req s S =
          admit_and_commit ce s False rsp (tasks S (session_id s)) (controller S) (tx\<lparr>tx_session := s1\<rparr>)
            (S\<lparr>srv := rt1\<lparr>distributor := ce_sender ce (distributor rt1)\<rparr>\<rparr>)"
        by (simp add: AbortEpisode_proceed_def Let_def)
      moreover have "session_inv (config ?rt) (tx_session tx) \<and>
          tx_transitions tx + cached (tx_session tx) = produced S + cached s + completed RpcAbort s"
        if "session_inv (config ?rt) s"
        using abort_inv [OF r [unfolded Inr] _ refl that] False by (simp add: completed_def)
      ultimately show ?thesis using m by (simp add: answered_admit [OF st c h] kept_def)
    qed
  qed
qed

lemma Close_answers:
  assumes st: "stored S (session_id s) = Some s"
  shows "answered ok RpcClose w req s S (CloseSession_proceed w req s S)"
proof -
  obtain rsp s1 where c: "CommitCommand w ''Session closed without live resources'' req empty_response
      (s\<lparr>phase := PhaseClosed\<rparr>) = (rsp, s1)" by force
  have ag: "agents (s\<lparr>phase := PhaseClosed\<rparr>) = agents s" by simp
  have acc: "session_inv cfg (s\<lparr>phase := PhaseClosed\<rparr>) \<and> cached (s\<lparr>phase := PhaseClosed\<rparr>) = cached s"
    if "session_inv cfg s" "\<not> in_episode (phase s)" for cfg
    using that session_cong(1,2) [OF ag] segment_free_cong [OF ag] by (simp add: session_inv_def in_episode_def)
  show ?thesis
  proof (cases "phase s \<in> {PhaseOpen, PhaseReady, PhaseAborted, PhaseTaskComplete}")
    case True
    then have "\<not> in_episode (phase s)" by (auto simp: in_episode_def)
    with True c acc show ?thesis
      by (simp add: CloseSession_proceed_def put_session_part_def phase_moves_def completed_def
          answered_commit [OF st c])
  next
    case False
    with st show ?thesis by (simp add: CloseSession_proceed_def answered_reject)
  qed
qed

end

end
