(* ===== verification/Service_Protocol.thy ===== *)
theory Service_Protocol
  imports Task_Contracts
begin

text \<open>
  The service as a command server.  A world is the service and the number of calls so far; the n-th
  call meets the n-th environment.
\<close>

section \<open>Serving a call\<close>

definition serve_rpc ::
  "('t, 'c, 'q, 'p) task_ops \<Rightarrow> ('q, 'p) codec \<Rightarrow> rpc \<Rightarrow> 'g call_env \<Rightarrow> 'q request \<Rightarrow>
   ('g, 't, 'c) service \<Rightarrow> 'p response \<times> ('g, 't, 'c) service" where
  "serve_rpc ops w k ce req S =
     (case k of
        RpcInit \<Rightarrow> Init ops w ce req S
      | RpcBegin \<Rightarrow> BeginEpisode ops w ce req S
      | RpcUpdate \<Rightarrow> Update ops w ce req S
      | RpcEnd \<Rightarrow> EndEpisode ops w ce req S
      | RpcAbort \<Rightarrow> AbortEpisode ops w ce req S
      | RpcClose \<Rightarrow> CloseSession w ce req S)"

type_synonym ('g, 't, 'c) world = "nat \<times> ('g, 't, 'c) service"

definition serve_world ::
  "('t, 'c, 'q, 'p) task_ops \<Rightarrow> ('q, 'p) codec \<Rightarrow> rpc \<Rightarrow> (nat \<Rightarrow> 'g call_env) \<Rightarrow> 'q request \<Rightarrow>
   ('g, 't, 'c) world \<Rightarrow> 'p response \<times> ('g, 't, 'c) world" where
  "serve_world ops w k ces req W =
     (case serve_rpc ops w k (ces (fst W)) req (snd W) of (rsp, S) \<Rightarrow> (rsp, (Suc (fst W), S)))"

definition world_session :: "string \<Rightarrow> ('g, 't, 'c) world \<Rightarrow> session" where
  "world_session sid W = the (stored (snd W) sid)"

text \<open>Every session is stored under its own name.\<close>

definition store_ok :: "('g, 't, 'c) service \<Rightarrow> bool" where
  "store_ok S \<longleftrightarrow> (\<forall>sid s. stored S sid = Some s \<longrightarrow> session_id s = sid)"

definition world_ok :: "('q, 'p) codec \<Rightarrow> string \<Rightarrow> ('g, 't, 'c) world \<Rightarrow> bool" where
  "world_ok w sid W \<longleftrightarrow> codec_ok w \<and> stored (snd W) sid \<noteq> None \<and> store_ok (snd W)"

section \<open>The outcome of a call\<close>

text \<open>A call on an unknown session changes nothing; otherwise the check decides.\<close>

definition served ::
  "bool \<Rightarrow> rpc \<Rightarrow> ('q, 'p) codec \<Rightarrow> 'q request \<Rightarrow> ('g, 't, 'c) service \<Rightarrow>
   'p response \<times> ('g, 't, 'c) service \<Rightarrow> bool" where
  "served ok k w req S r \<longleftrightarrow>
     config (srv (snd r)) = config (srv S) \<and> keys_of (snd r) = keys_of S \<and>
     next_of (snd r) = next_of S \<and>
     (case stored S (cmd_session_id (command req)) of
        None \<Rightarrow> (\<forall>sid. stored (snd r) sid = stored S sid) \<and> produced (snd r) = produced S \<and>
          tasks (snd r) = tasks S \<and> controller (snd r) = controller S \<and> rpl_result (reply (fst r)) = ResultRejected
      | Some s \<Rightarrow>
          (case CheckCommand w s req empty_response of
             (c, rsp) \<Rightarrow>
               if c = CheckProceed then answered ok k w req s S r
               else fst r = rsp \<and> produced (snd r) = produced S \<and>
                 tasks (snd r) = tasks S \<and> controller (snd r) = controller S \<and>
                 (\<exists>s'. stored (snd r) (session_id s) = Some s' \<and> same_but_activity s s') \<and>
                 (\<forall>sid. sid \<noteq> session_id s \<longrightarrow> stored (snd r) sid = stored S sid)))"

lemma touch_id [simp]: "session_id (touch c now s) = session_id s"
  by (simp add: touch_def)

lemma handle_served:
  assumes p: "\<And>s S. stored S (session_id s) = Some s \<Longrightarrow> answered ok k w req s S (proceed s S)"
    and st_ok: "store_ok S"
  shows "served ok k w req S (handle proceed w now req S)"
proof (cases "stored S (cmd_session_id (command req))")
  case None
  then show ?thesis by (simp add: served_def handle_def CheckedSession_def Let_def FillOpenRejected_def)
next
  case (Some s)
  let ?sid = "cmd_session_id (command req)"
  have sid: "session_id s = ?sid" using st_ok Some by (simp add: store_ok_def)
  obtain c rsp where c: "CheckCommand w s req empty_response = (c, rsp)" by force
  let ?s = "touch c now s"
  let ?S = "S\<lparr>srv := (srv S)\<lparr>session_mgr := SetSession ?sid ?s (session_mgr (srv S))\<rparr>\<rparr>"
  have h: "handle proceed w now req S = (if c = CheckProceed then proceed ?s ?S else (rsp, ?S))"
    using Some c by (simp add: handle_def CheckedSession_def Let_def)
  have st: "stored ?S (session_id ?s) = Some ?s" using Some sid by simp
  have k: "keys_of ?S = keys_of S" "next_of ?S = next_of S" using Some by (auto simp: SetSession_def GetSession_def)
  have a: "answered ok k w req s S (proceed ?s ?S)"
    by (rule answered_touch [OF p [OF st]]) (use k in \<open>simp_all add: sid\<close>)
  with a show ?thesis using Some c sid k by (auto simp: served_def h answered_def)
qed

lemma served_cong:
  assumes "session_mgr (srv S') = session_mgr (srv S1)" "config (srv S') = config (srv S1)"
    "produced S' = produced S1" "tasks S' = tasks S1" "controller S' = controller S1" "served ok k w req S (rsp, S1)"
  shows "served ok k w req S (rsp, S')"
proof -
  have "answered ok k w req s S (rsp, S') = answered ok k w req s S (rsp, S1)" for s
    by (simp add: answered_def assms(1-5))
  with assms(6) show ?thesis unfolding served_def by (simp only: fst_conv snd_conv assms(1-5))
qed

text \<open>The session a call is about, and the others.\<close>

lemma served_cases:
  assumes "served ok k w req S r" "store_ok S"
  obtains (unknown) "\<And>sid. stored (snd r) sid = stored S sid" "produced (snd r) = produced S"
      "rpl_result (reply (fst r)) = ResultRejected" "tasks (snd r) = tasks S"
      "controller (snd r) = controller S" "stored S (cmd_session_id (command req)) = None"
    | (checked) s s' c where "stored S (session_id s) = Some s" "session_id s = cmd_session_id (command req)"
      "CheckCommand w s req empty_response = (c, fst r)" "c \<noteq> CheckProceed"
      "stored (snd r) (session_id s) = Some s'" "same_but_activity s s'" "produced (snd r) = produced S"
      "tasks (snd r) = tasks S" "controller (snd r) = controller S"
      "\<And>sid. sid \<noteq> session_id s \<Longrightarrow> stored (snd r) sid = stored S sid"
    | (handled) s rsp where "stored S (session_id s) = Some s" "session_id s = cmd_session_id (command req)"
      "CheckCommand w s req empty_response = (CheckProceed, rsp)" "answered ok k w req s S r"
proof (cases "stored S (cmd_session_id (command req))")
  case None
  with assms(1) show thesis by (intro unknown) (simp_all add: served_def)
next
  case (Some s)
  have sid: "session_id s = cmd_session_id (command req)" using assms(2) Some by (simp add: store_ok_def)
  obtain c rsp where c: "CheckCommand w s req empty_response = (c, rsp)" by force
  show thesis
  proof (cases "c = CheckProceed")
    case True
    with assms(1) Some c sid show thesis by (intro handled [of s rsp]) (simp_all add: served_def)
  next
    case False
    with assms(1) Some c sid obtain s' where "fst r = rsp" "produced (snd r) = produced S"
      "tasks (snd r) = tasks S" "controller (snd r) = controller S"
      "stored (snd r) (session_id s) = Some s'" "same_but_activity s s'"
      "\<And>sid. sid \<noteq> session_id s \<Longrightarrow> stored (snd r) sid = stored S sid" by (auto simp: served_def)
    with Some c sid False show thesis by (intro checked [of s c s']) simp_all
  qed
qed

lemma answered_id:
  assumes "answered ok k w req s S r"
  obtains s' where "stored (snd r) (session_id s) = Some s'" "session_id s' = session_id s"
proof -
  obtain s' where "stored (snd r) (session_id s) = Some s'"
    "committed w req s (fst r) s' \<or> refused s (fst r) s'" using assms unfolding answered_def by blast
  moreover from this(2) have "session_id s' = session_id s"
    by (auto simp: protocol_state_def committed_def refused_def CommitCommand_def Let_def)
  ultimately show thesis using that by blast
qed

lemma served_store_ok:
  assumes "served ok k w req S r" "store_ok S"
  shows "store_ok (snd r)"
  using assms
proof (cases rule: served_cases)
  case unknown
  with assms show ?thesis by (simp add: store_ok_def)
next
  case (checked s s' c)
  then have "session_id s' = session_id s" by (simp add: same_but_activity_fields)
  with checked assms(2) show ?thesis unfolding store_ok_def by (metis option.inject)
next
  case (handled s rsp)
  then have "stored (snd r) sid = stored S sid" if "sid \<noteq> session_id s" for sid
    using that by (simp add: answered_def)
  with answered_id [OF handled(4)] assms(2) show ?thesis unfolding store_ok_def by (metis option.inject)
qed

lemma served_keeps_sessions:
  assumes "served ok k w req S r" "stored S sid \<noteq> None"
  shows "stored (snd r) sid \<noteq> None"
proof -
  have "keys_of (snd r) = keys_of S" using assms(1) by (simp add: served_def)
  then have "fst ` set (sessions (session_mgr (srv (snd r)))) = fst ` set (sessions (session_mgr (srv S)))"
    by (metis list.set_map)
  then show ?thesis using assms(2) by (simp add: GetSession_def map_of_eq_None_iff)
qed

context task_adapter
begin

lemma serve_rpc_served:
  assumes "store_ok S"
  shows "served (clock_ok ce) k w req S (serve_rpc ops w k ce req S)"
proof (cases k)
  case RpcUpdate
  obtain rsp S1 where h: "handle (Update_proceed ops w ce req) w (ce_now_ms ce) req S = (rsp, S1)" by force
  have "served (clock_ok ce) k w req S (rsp, S1)"
    unfolding RpcUpdate h [symmetric] by (rule handle_served [OF Update_answers assms])
  then show ?thesis
    by (simp add: RpcUpdate serve_rpc_def Update_def h served_cong RecordUpdateLatency_def)
qed (simp_all add: serve_rpc_def Init_def BeginEpisode_def EndEpisode_def AbortEpisode_def CloseSession_def
      handle_served assms Init_answers Begin_answers End_answers Abort_answers Close_answers)

lemma serve_world_served:
  assumes "world_ok w sid W"
  shows "served (clock_ok (ces (fst W))) k w req (snd W) (fst (serve_world ops w k ces req W), snd (snd (serve_world ops w k ces req W)))"
proof -
  obtain rsp S where r: "serve_rpc ops w k (ces (fst W)) req (snd W) = (rsp, S)" by force
  show ?thesis using serve_rpc_served [where S = "snd W" and ce = "ces (fst W)" and k = k and w = w and req = req] assms
    by (simp add: serve_world_def world_ok_def r)
qed

text \<open>The laws of the command protocol.\<close>

lemma world_stays_ok:
  assumes "world_ok w sid W"
  shows "world_ok w sid (snd (serve_world ops w k ces req W))"
  using served_store_ok [OF serve_world_served [OF assms]]
    served_keeps_sessions [OF serve_world_served [OF assms]] assms
  by (simp add: world_ok_def)

lemma world_proceeds:
  assumes ok: "world_ok w sid W"
    and c: "fst (CheckCommand w (world_session sid W) req empty_response) = CheckProceed"
  shows "committed w req (world_session sid W) (fst (serve_world ops w k ces req W))
      (world_session sid (snd (serve_world ops w k ces req W))) \<or>
    refused (world_session sid W) (fst (serve_world ops w k ces req W))
      (world_session sid (snd (serve_world ops w k ces req W)))"
proof -
  obtain s where s: "stored (snd W) sid = Some s" using ok by (auto simp: world_ok_def)
  have sid: "session_id s = sid" using ok s by (simp add: world_ok_def store_ok_def)
  have ws: "world_session sid W = s" by (simp add: world_session_def s)
  obtain rsp where chk: "CheckCommand w s req empty_response = (CheckProceed, rsp)"
    using c ws by (metis prod.collapse)
  then have "cmd_session_id (command req) = sid"
    using sid by (auto simp: CheckCommand_def Let_def split: replay_decision.splits option.splits if_splits)
  with serve_world_served [OF ok, of ces k req] s chk sid show ?thesis
    by (auto simp: served_def answered_def ws world_session_def)
qed

lemma world_checked:
  assumes ok: "world_ok w sid W"
    and c: "CheckCommand w (world_session sid W) req empty_response = (c, rsp)" "c \<noteq> CheckProceed"
    and i: "cmd_session_id (command req) = session_id (world_session sid W)"
  shows "fst (serve_world ops w k ces req W) = rsp \<and>
    protocol_state (world_session sid (snd (serve_world ops w k ces req W))) = protocol_state (world_session sid W)"
proof -
  obtain s where s: "stored (snd W) sid = Some s" using ok by (auto simp: world_ok_def)
  have sid: "session_id s = sid" using ok s by (simp add: world_ok_def store_ok_def)
  have ws: "world_session sid W = s" by (simp add: world_session_def s)
  from serve_world_served [OF ok, of ces k req] s c sid i ws show ?thesis
    by (auto simp: served_def world_session_def same_but_activity_fields)
qed

lemma is_command_server:
  "command_server w (world_session sid) (world_ok w sid) (serve_world ops w k ces)"
  by unfold_locales
    (simp add: world_ok_def, simp add: world_stays_ok, rule world_proceeds, assumption+,
     rule world_checked, assumption+)

end

end
