(* ===== verification/Lifecycle.thy ===== *)
theory Lifecycle
  imports Preparation
begin

text \<open>
  The end of the life of \<open>task/runtime/training_runtime\<close>: recovery of sessions whose client went
  silent, the periodic output of rewards, the lease of the workspace, and shutdown.  Each block that
  runs under the mutex is one definition.
\<close>

section \<open>Closing what is open\<close>

text \<open>
  Recovery and shutdown close the segment of an Agent in the same way.  The bootstrap is the value of
  the pending action, or inferred from the last observation.  After a failure the transaction is the one
  of the Agents closed before.
\<close>

datatype close_outcome = CloseDone | NoBootstrap | CloseError string

definition close_open ::
  "'g environ \<Rightarrow> close_reason \<Rightarrow> int \<Rightarrow> agent \<Rightarrow> 'g txn \<Rightarrow> 'g runtime \<Rightarrow>
   close_outcome \<times> 'g txn \<times> 'g runtime" where
  "close_open env reason agent_id a tx rt =
     (let pending = has_pending_action a;
          (bootstrap, rt1) =
            (if pending
             then (if isfinite (pending_value a) then Some (pending_value a) else None, rt)
             else InferPinnedValue env a (next_observation (last (segment_transitions a))) rt)
      in case bootstrap of
           None \<Rightarrow> (NoBootstrap, tx, rollout_failure rt1)
         | Some v \<Rightarrow>
             (case PrepareAgentSegmentClose env rt1 agent_id reason v True tx of
                Inl err \<Rightarrow> (CloseError err, tx, rollout_failure rt1)
              | Inr tx1 \<Rightarrow>
                  let tx2 = tx1\<lparr>tx_closed := tx_closed tx1 + 1\<rparr>
                  in (CloseDone, (if \<not> pending then tx2
                           else case agent_at tx2 agent_id of
                                  None \<Rightarrow> tx2
                                | Some a1 \<Rightarrow> set_agent agent_id (clear_pending a1)
                                    (tx2\<lparr>tx_excluded := tx_excluded tx2 + 1\<rparr>)), rt1)))"

definition close_or_discard ::
  "'g environ \<Rightarrow> close_reason \<Rightarrow> int \<Rightarrow> 'g txn \<Rightarrow> 'g runtime \<Rightarrow>
   close_outcome \<times> 'g txn \<times> 'g runtime" where
  "close_or_discard env reason agent_id tx rt =
     (case agent_at tx agent_id of
        None \<Rightarrow> (CloseDone, tx, rt)
      | Some a \<Rightarrow>
          if \<not> segment_open a \<and> \<not> has_pending_action a \<and> segment_transitions a = [] then (CloseDone, tx, rt)
          else if segment_open a \<and> segment_transitions a \<noteq> [] then close_open env reason agent_id a tx rt
          else (CloseDone, DiscardAgentSegment agent_id reason True tx, rt))"

fun close_all ::
  "'g environ \<Rightarrow> close_reason \<Rightarrow> int list \<Rightarrow> 'g txn \<Rightarrow> 'g runtime \<Rightarrow>
   close_outcome \<times> 'g txn \<times> 'g runtime" where
  "close_all env reason [] tx rt = (CloseDone, tx, rt)"
| "close_all env reason (i # ids) tx rt =
     (case close_or_discard env reason i tx rt of
        (CloseDone, tx1, rt1) \<Rightarrow> close_all env reason ids tx1 rt1
      | failed \<Rightarrow> failed)"

definition agent_keys :: "session \<Rightarrow> int list" where
  "agent_keys s = map fst (agents s)"

text \<open>Giving up every segment of a stored session, with the counters of the runtime.\<close>

definition discard_session :: "close_reason \<Rightarrow> string \<Rightarrow> session \<Rightarrow> 'g runtime \<Rightarrow> 'g runtime" where
  "discard_session reason sid s rt =
     (let tx = fold (\<lambda>i. DiscardAgentSegment i reason True) (agent_keys s) (new_txn rt s)
      in rt\<lparr>session_mgr := SetSession sid (tx_session tx) (session_mgr rt),
            quarantined_transition_count := tx_quarantined tx,
            pending_action_excluded_count := tx_excluded tx, closed_segment_count := tx_closed tx,
            segment_close_counts := tx_close_counts tx\<rparr>)"

text \<open>The counters a finished close leaves in the runtime.\<close>

definition store_counts :: "'g txn \<Rightarrow> 'g runtime \<Rightarrow> 'g runtime" where
  "store_counts tx rt =
     rt\<lparr>produced_unique_transitions := tx_transitions tx, produced_unique_envelopes := tx_envelopes tx,
        produced_by_model := tx_by_model tx, quarantined_transition_count := tx_quarantined tx,
        pending_action_excluded_count := tx_excluded tx, closed_segment_count := tx_closed tx,
        segment_close_counts := tx_close_counts tx\<rparr>"

section \<open>Handing envelopes over\<close>

datatype handover_stage = AtReserve | AtSeal | AtCommit

datatype handover =
  HandedOver
| HandoverWaits handover_stage string
| HandoverFailed handover_stage string

text \<open>
  Reserve, seal and commit; \<open>between1\<close> and \<open>between2\<close> are what the sender thread does in between.
\<close>

definition hand_over ::
  "training_config \<Rightarrow> (envelope \<Rightarrow> nat) \<Rightarrow> (dist \<Rightarrow> dist) \<Rightarrow> (dist \<Rightarrow> dist) \<Rightarrow> envelope list \<Rightarrow> dist \<Rightarrow>
   handover \<times> dist" where
  "hand_over cfg bsize between1 between2 es d =
     (case ReserveEnqueueEnvelopeSet cfg bsize es d of
        (RetryableUnavailable, _, err, d1) \<Rightarrow> (HandoverWaits AtReserve err, d1)
      | (TerminalFault, _, err, d1) \<Rightarrow> (HandoverFailed AtReserve err, d1)
      | (Reserved, rid, _, d1) \<Rightarrow>
          (case SealEnqueueEnvelopeSet rid (between1 d1) of
             (SealRetryable, err, d2) \<Rightarrow> (HandoverWaits AtSeal err, d2)
           | (SealTerminal, err, d2) \<Rightarrow> (HandoverFailed AtSeal err, d2)
           | (Sealed, _, d2) \<Rightarrow>
               (case CommitEnqueueEnvelopeSet rid (between2 d2) of
                  (c, err, d3) \<Rightarrow>
                    (if c = Committed then HandedOver else HandoverFailed AtCommit err, d3))))"

section \<open>Sessions whose client went silent\<close>

definition client_expired :: "training_config \<Rightarrow> int \<Rightarrow> session \<Rightarrow> bool" where
  "client_expired cfg now s \<longleftrightarrow>
     (phase s = PhaseEpisodeRunning \<or> phase s = PhaseEpisodeTerminal) \<and>
     0 < last_valid_client_activity_unix_ms s \<and> last_valid_client_activity_unix_ms s \<le> now \<and>
     recovery_timeout_ms cfg \<le> now - last_valid_client_activity_unix_ms s"

definition recovery_failure :: "handover_stage \<Rightarrow> string" where
  "recovery_failure stage =
     (case stage of
        AtReserve \<Rightarrow> ''client recovery timeout reservation failed: ''
      | AtSeal \<Rightarrow> ''client recovery timeout seal failed: ''
      | AtCommit \<Rightarrow> ''client recovery timeout envelope commit failed: '')"

text \<open>The session is given up when its segments cannot be closed; \<open>False\<close> stops the loop.\<close>

definition recovery_close_error :: "close_outcome \<Rightarrow> string" where
  "recovery_close_error r =
     (let plain = ''client recovery timeout has no finite pinned bootstrap''
      in case r of CloseError e \<Rightarrow> if_empty e plain e | _ \<Rightarrow> plain)"

definition recover_failed ::
  "string \<Rightarrow> session \<Rightarrow> close_outcome \<Rightarrow> 'g runtime \<Rightarrow> bool \<times> 'g runtime" where
  "recover_failed sid s r rt =
     (let rt1 = discard_session ClientRecoveryTimeout sid s rt;
          give_up = (\<lambda>x. x\<lparr>phase := PhaseAborted, scope := ScopeUnspecified\<rparr>);
          m = (case GetSession (session_mgr rt1) sid of
                 None \<Rightarrow> session_mgr rt1 | Some x \<Rightarrow> SetSession sid (give_up x) (session_mgr rt1))
      in (False, rt_MarkDegraded (''client recovery timeout segment close failed: '' @ recovery_close_error r)
            (rt1\<lparr>session_mgr := m\<rparr>)))"

text \<open>One turn of the loop over the sessions.\<close>

definition recover_session ::
  "'g environ \<Rightarrow> (dist \<Rightarrow> dist) \<Rightarrow> (dist \<Rightarrow> dist) \<Rightarrow> int \<Rightarrow> string \<Rightarrow> 'g runtime \<Rightarrow> bool \<times> 'g runtime" where
  "recover_session env between1 between2 now sid rt =
     (case GetSession (session_mgr rt) sid of
        None \<Rightarrow> (True, rt)
      | Some s \<Rightarrow>
          if \<not> client_expired (config rt) now s then (True, rt)
          else case close_all env ClientRecoveryTimeout (agent_keys s) (new_txn rt s) rt of
                 (CloseDone, tx, rt1) \<Rightarrow>
                   (case hand_over (config rt) (byte_size env) between1 between2 (tx_output tx)
                           (distributor rt1) of
                      (HandoverWaits _ _, d) \<Rightarrow> (True, rt1\<lparr>distributor := d\<rparr>)
                    | (HandoverFailed stage err, d) \<Rightarrow>
                        (False, rt_MarkDegraded (recovery_failure stage @ err) (rt1\<lparr>distributor := d\<rparr>))
                    | (HandedOver, d) \<Rightarrow>
                        (True, store_counts tx (rt1\<lparr>distributor := d,
                           session_mgr := SetSession sid
                             (ReleaseEpisodePolicy ((tx_session tx)\<lparr>phase := PhaseAborted\<rparr>))
                             (session_mgr rt1)\<rparr>)))
               | (r, _, rt1) \<Rightarrow> recover_failed sid s r rt1)"

text \<open>\<open>between\<close> gives, for each session, what the sender thread does during its delivery.\<close>

fun recover_sessions ::
  "'g environ \<Rightarrow> (string \<Rightarrow> (dist \<Rightarrow> dist) \<times> (dist \<Rightarrow> dist)) \<Rightarrow> int \<Rightarrow> string list \<Rightarrow> 'g runtime \<Rightarrow>
   bool \<times> 'g runtime" where
  "recover_sessions env between now [] rt = (True, rt)"
| "recover_sessions env between now (sid # ids) rt =
     (case recover_session env (fst (between sid)) (snd (between sid)) now sid rt of
        (False, rt1) \<Rightarrow> (False, rt1)
      | (True, rt1) \<Rightarrow> recover_sessions env between now ids rt1)"

definition RecoverExpiredClientSessions ::
  "'g environ \<Rightarrow> (string \<Rightarrow> (dist \<Rightarrow> dist) \<times> (dist \<Rightarrow> dist)) \<Rightarrow> int \<Rightarrow> 'g runtime \<Rightarrow> bool \<times> 'g runtime" where
  "RecoverExpiredClientSessions env between now rt =
     (if shutdown_started rt \<or> run_mode (config rt) \<noteq> kTraining then (True, rt)
      else recover_sessions env between now (GetSessionIds (session_mgr rt)) rt)"

section \<open>Periodic output of rewards\<close>

text \<open>
  The clocks, the serialisation and the size of an event are arguments.  \<open>AppendTo\<close> throws outside of
  any handler here: \<open>Inl\<close> is that exception.
\<close>

record reward_output =
  ro_now_ms :: int
  ro_steady :: int
  ro_serialize :: "metric_record \<Rightarrow> string option"
  ro_event_size :: "metric_event \<Rightarrow> nat"

definition flush_record :: "session \<Rightarrow> metric_record" where
  "flush_record s = empty_record\<lparr>rec_attributes :=
     [(''environment_instance_id'', environment_instance_id s), (''episode_id'', current_episode_id s)]\<rparr>"

definition flush_session :: "reward_output \<Rightarrow> string \<Rightarrow> 'g runtime \<Rightarrow> string + (bool \<times> 'g runtime)" where
  "flush_session ro sid rt =
     (case GetSession (session_mgr rt) sid of
        None \<Rightarrow> Inr (True, rt)
      | Some s \<Rightarrow>
          if rm_count (reward_metrics s) = 0 then Inr (True, rt)
          else and_then (reward_AppendTo (metric_registry rt) (reward_metric_prefix rt) (ro_now_ms ro)
                           (ro_steady ro) (reward_metrics s) (flush_record s))
                 (\<lambda>r. case ro_serialize ro r of
                    None \<Rightarrow> Inr (False, rt)
                  | Some payload \<Rightarrow>
                      (case AppendFact (ro_event_size ro) payload (ro_now_ms ro) (ro_steady ro)
                              (metric_events rt) of
                         (AppendSourceFinal, _) \<Rightarrow> Inr (False, rt)
                       | (AppendApplied _, j) \<Rightarrow>
                           Inr (True, rt\<lparr>metric_events := j,
                             session_mgr := SetSession sid (s\<lparr>reward_metrics := new_reward_window\<rparr>)
                               (session_mgr rt)\<rparr>))))"

fun flush_sessions :: "reward_output \<Rightarrow> string list \<Rightarrow> 'g runtime \<Rightarrow> string + (bool \<times> 'g runtime)" where
  "flush_sessions ro [] rt = Inr (True, rt)"
| "flush_sessions ro (sid # ids) rt =
     and_then (flush_session ro sid rt) (\<lambda>(ok, rt1). if ok then flush_sessions ro ids rt1 else Inr (False, rt1))"

definition FlushRewardMetricsLocked :: "reward_output \<Rightarrow> 'g runtime \<Rightarrow> string + (bool \<times> 'g runtime)" where
  "FlushRewardMetricsLocked ro rt = flush_sessions ro (GetSessionIds (session_mgr rt)) rt"

text \<open>
  \<open>task/metrics/periodic_flush.h\<close>: one entry per period that ends before the worker is stopped, with
  what others did to the runtime meanwhile.  The worker ends at the first flush that is not accepted.
\<close>

fun periodic_flush ::
  "(('g runtime \<Rightarrow> 'g runtime) \<times> reward_output) list \<Rightarrow> 'g runtime \<Rightarrow> string + 'g runtime" where
  "periodic_flush [] rt = Inr rt"
| "periodic_flush ((others, ro) # periods) rt =
     and_then (FlushRewardMetricsLocked ro (others rt))
       (\<lambda>(accepted, rt1). if accepted then periodic_flush periods rt1 else Inr rt1)"

section \<open>The lease of the workspace\<close>

text \<open>What the file system answers to the calls of the two operations.\<close>

datatype lock_made = LockCreated | LockTaken | LockFailed string

record lease_io =
  li_directories :: "string option"
  li_real_directory :: bool
  li_lock :: lock_made
  li_pid_written :: bool

definition AcquireTrainingWorkspaceLease :: "lease_io \<Rightarrow> 'g runtime \<Rightarrow> string + 'g runtime" where
  "AcquireTrainingWorkspaceLease io rt =
     (if run_mode (config rt) \<noteq> kTraining \<or> workspace_lease_held rt then Inr rt
      else case li_directories io of
             Some err \<Rightarrow> Inl (''cannot create AIServer training workspace: '' @ err)
           | None \<Rightarrow>
               if \<not> li_real_directory io then Inl ''AIServer training workspace must be a real directory''
               else (case li_lock io of
                       LockFailed err \<Rightarrow> Inl (''cannot acquire AIServer training workspace lease: '' @ err)
                     | LockTaken \<Rightarrow> Inl ''AIServer training workspace is already in use''
                     | LockCreated \<Rightarrow>
                         if \<not> li_pid_written io then Inl ''cannot publish AIServer training workspace lease''
                         else Inr (rt\<lparr>workspace_lease_held := True\<rparr>)))"

record release_io =
  ri_pid :: "string option"
  ri_lock :: "string option"
  ri_lock_removed :: bool

definition ReleaseTrainingWorkspaceLease :: "release_io \<Rightarrow> 'g runtime \<Rightarrow> (string + unit) \<times> 'g runtime" where
  "ReleaseTrainingWorkspaceLease io rt =
     (if \<not> workspace_lease_held rt then (Inr (), rt)
      else case ri_pid io of
             Some err \<Rightarrow> (Inl (''cannot remove AIServer training workspace lease PID: '' @ err), rt)
           | None \<Rightarrow>
               (case ri_lock io of
                  Some err \<Rightarrow> (Inl (''cannot release AIServer training workspace lease: '' @ err), rt)
                | None \<Rightarrow>
                    if \<not> ri_lock_removed io
                    then (Inl ''AIServer training workspace lease is not empty'', rt)
                    else (Inr (), rt\<lparr>workspace_lease_held := False\<rparr>)))"

end
