(* ===== verification/Recovery.thy ===== *)
theory Recovery
  imports Lifecycle Session_Invariant Command_Protocol
begin

text \<open>
  What recovery and shutdown do to sessions and counters: closing moves transitions into envelopes,
  giving up moves them into the count of quarantined ones, and the sum of all of them stays.
\<close>

section \<open>Closing all segments of a session\<close>

text \<open>Only the Agents of the session change.\<close>

definition agents_only :: "session \<Rightarrow> session \<Rightarrow> bool" where
  "agents_only s s' \<longleftrightarrow> s' = s\<lparr>agents := agents s'\<rparr>"

lemma agents_only_refl [simp]: "agents_only s s"
  by (simp add: agents_only_def)

lemma agents_only_put [simp]: "agents_only s (s\<lparr>agents := as\<rparr>)"
  by (simp add: agents_only_def)

lemma agents_only_fields:
  assumes "agents_only s s'"
  shows "session_id s' = session_id s" "phase s' = phase s" "command_replay s' = command_replay s"
    "last_command_sequence s' = last_command_sequence s" "current_episode_mode s' = current_episode_mode s"
    "reward_metrics s' = reward_metrics s"
proof -
  obtain as where "s' = s\<lparr>agents := as\<rparr>" using assms unfolding agents_only_def by blast
  then show "session_id s' = session_id s" "phase s' = phase s" "command_replay s' = command_replay s"
    "last_command_sequence s' = last_command_sequence s" "current_episode_mode s' = current_episode_mode s"
    "reward_metrics s' = reward_metrics s" by simp_all
qed

lemma agents_only_trans: "agents_only s s1 \<Longrightarrow> agents_only s1 s2 \<Longrightarrow> agents_only s s2"
proof -
  assume "agents_only s s1" "agents_only s1 s2"
  then obtain as bs where "s1 = s\<lparr>agents := as\<rparr>" "s2 = s1\<lparr>agents := bs\<rparr>" unfolding agents_only_def by blast
  then show ?thesis by simp
qed

lemma set_agent_only [simp]: "agents_only (tx_session tx) (tx_session (set_agent i a tx))"
  by (simp add: set_agent_def)

lemma close_agents_only:
  "PrepareAgentSegmentClose env rt i reason v b tx = Inr tx' \<Longrightarrow> agents_only (tx_session tx) (tx_session tx')"
  by (auto simp: PrepareAgentSegmentClose_def Let_def and_then_Inr set_agent_def split: option.splits if_splits)

text \<open>\<open>settles env cfg tx tx'\<close>: samples went out or into quarantine, and nothing was lost.\<close>

definition settles :: "'g environ \<Rightarrow> training_config \<Rightarrow> 'g txn \<Rightarrow> 'g txn \<Rightarrow> bool" where
  "settles env cfg tx tx' \<longleftrightarrow> abort_ok env cfg tx tx' \<and> agents_only (tx_session tx) (tx_session tx')"

lemma settles_refl: "session_good cfg (tx_session tx) \<Longrightarrow> settles env cfg tx tx"
  by (simp add: settles_def abort_ok_def closing_ok_refl)

lemma settles_trans: "settles env cfg tx tx1 \<Longrightarrow> settles env cfg tx1 tx2 \<Longrightarrow> settles env cfg tx tx2"
  unfolding settles_def using abort_ok_trans agents_only_trans by metis

lemma settles_good: "settles env cfg tx tx' \<Longrightarrow> session_good cfg (tx_session tx')"
  by (simp add: settles_def abort_ok_def closing_ok_def)

lemma settles_no_segment:
  "settles env cfg tx tx' \<Longrightarrow> no_segment_at (tx_session tx) i \<Longrightarrow> no_segment_at (tx_session tx') i"
  by (simp add: settles_def abort_ok_def closing_ok_def)

text \<open>The state an Agent's close leaves: its segment is gone, and a pending action with it.\<close>

definition after_close :: "int \<Rightarrow> bool \<Rightarrow> 'g txn \<Rightarrow> 'g txn" where
  "after_close i waiting tx1 =
     (let tx2 = tx1\<lparr>tx_closed := tx_closed tx1 + 1\<rparr>
      in if \<not> waiting then tx2
         else case agent_at tx2 i of
                None \<Rightarrow> tx2
              | Some a1 \<Rightarrow> set_agent i (clear_pending a1) (tx2\<lparr>tx_excluded := tx_excluded tx2 + 1\<rparr>))"

lemma close_open_done:
  assumes c: "close_open env reason i a tx rt = (CloseDone, tx', rt')"
  obtains v tx1 where "PrepareAgentSegmentClose env rt' i reason v True tx = Inr tx1" "core rt' = core rt"
    "tx' = after_close i (has_pending_action a) tx1"
proof -
  obtain bootstrap rt1 where b: "(if has_pending_action a
      then (if isfinite (pending_value a) then Some (pending_value a) else None, rt)
      else InferPinnedValue env a (next_observation (last (segment_transitions a))) rt) = (bootstrap, rt1)"
    by (meson surj_pair)
  have core: "core rt1 = core rt"
    using b InferPinnedValue_core' [of env a _ rt bootstrap rt1] by (auto split: if_splits)
  show thesis
  proof (cases bootstrap)
    case None
    with c b show ?thesis by (simp add: close_open_def Let_def)
  next
    case (Some v)
    show ?thesis
    proof (cases "PrepareAgentSegmentClose env rt1 i reason v True tx")
      case (Inl e)
      with c b Some show ?thesis by (simp add: close_open_def Let_def)
    next
      case (Inr tx1)
      from c b Some Inr have "rt' = rt1" "tx' = after_close i (has_pending_action a) tx1"
        by (simp_all add: close_open_def Let_def after_close_def)
      with that Inr core show ?thesis by blast
    qed
  qed
qed

lemma after_close_settles:
  assumes c: "PrepareAgentSegmentClose env rt i reason v True tx = Inr tx1"
    and g: "session_good cfg (tx_session tx)" and cf: "config rt = cfg"
  shows "settles env cfg tx (after_close i waiting tx1) \<and> no_segment_at (tx_session (after_close i waiting tx1)) i"
proof -
  let ?tx2 = "tx1\<lparr>tx_closed := tx_closed tx1 + 1\<rparr>"
  have t: "txn_Close env i reason v True tx rt = (Inr ?tx2, rt)" by (simp add: txn_Close_def c)
  have a2: "abort_ok env cfg tx ?tx2" and n2: "no_segment_at (tx_session ?tx2) i"
    using txn_Close_abort [OF t g cf] by simp_all
  have o2: "agents_only (tx_session tx) (tx_session ?tx2)" using close_agents_only [OF c] by simp
  show ?thesis
  proof (cases "waiting \<and> agent_at ?tx2 i \<noteq> None")
    case False
    then have "after_close i waiting tx1 = ?tx2" by (auto simp: after_close_def Let_def)
    with a2 n2 o2 show ?thesis by (simp add: settles_def)
  next
    case True
    then obtain a1 where a1: "agent_at ?tx2 i = Some a1" by blast
    let ?tx3 = "?tx2\<lparr>tx_excluded := tx_excluded ?tx2 + 1\<rparr>"
    have eq: "after_close i waiting tx1 = set_agent i (clear_pending a1) ?tx3"
      using True a1 by (simp add: after_close_def Let_def)
    have s3: "tx_session ?tx3 = tx_session ?tx2" by simp
    have sg: "session_good cfg (tx_session ?tx3)" using a2 by (simp add: abort_ok_def closing_ok_def)
    have m: "map_of (agents (tx_session ?tx3)) i = Some a1" using a1 by (simp add: agent_at_def)
    then have tr: "segment_transitions a1 = []" using n2 by (simp add: no_segment_at_def)
    have ag: "agent_good cfg None a1" using sg m by (metis good_def)
    have "abort_ok env cfg ?tx3 (set_agent i (clear_pending a1) ?tx3)"
      by (rule abort_ok_put [OF sg m tr, of "clear_pending a1"])
        (use ag tr in \<open>simp_all add: agent_good_clear set_agent_def\<close>)
    moreover have "abort_ok env cfg tx ?tx3"
      using a2 by (simp add: abort_ok_def closing_ok_def output_ok_def)
    ultimately have "abort_ok env cfg tx (set_agent i (clear_pending a1) ?tx3)" using abort_ok_trans by blast
    moreover have "agents_only (tx_session tx) (tx_session (set_agent i (clear_pending a1) ?tx3))"
      using o2 agents_only_trans [of _ "tx_session ?tx3"] by simp
    moreover have "no_segment_at (tx_session (set_agent i (clear_pending a1) ?tx3)) i"
      using tr by (simp add: no_segment_at_def)
    ultimately show ?thesis by (simp add: settles_def eq)
  qed
qed

lemma close_or_discard_settles:
  assumes c: "close_or_discard env reason i tx rt = (CloseDone, tx', rt')"
    and g: "session_good cfg (tx_session tx)" and cf: "config rt = cfg"
  shows "settles env cfg tx tx' \<and> core rt' = core rt \<and> no_segment_at (tx_session tx') i"
proof (cases "map_of (agents (tx_session tx)) i")
  case None
  with c g show ?thesis
    by (simp add: close_or_discard_def agent_at_def settles_refl no_segment_at_def)
next
  case (Some a)
  have ag: "agent_good cfg None a" using g Some by (metis good_def)
  consider "\<not> segment_open a \<and> \<not> has_pending_action a \<and> segment_transitions a = []"
    | "segment_open a \<and> segment_transitions a \<noteq> []"
    | "segment_transitions a = []" "segment_open a \<or> has_pending_action a"
    using ag by (auto simp: agent_good_def)
  then show ?thesis
  proof cases
    case 1
    with c Some g show ?thesis
      by (simp add: close_or_discard_def agent_at_def settles_refl no_segment_at_def)
  next
    case 2
    then have "close_open env reason i a tx rt = (CloseDone, tx', rt')"
      using c Some by (simp add: close_or_discard_def agent_at_def)
    then obtain v tx1 where p: "PrepareAgentSegmentClose env rt' i reason v True tx = Inr tx1"
      "core rt' = core rt" "tx' = after_close i (has_pending_action a) tx1" by (rule close_open_done)
    have "config rt' = cfg" using core_fields(2) [OF p(2)] cf by simp
    from after_close_settles [OF p(1) g this] p(2,3) show ?thesis by simp
  next
    case 3
    then have t: "tx' = DiscardAgentSegment i reason True tx" "rt' = rt"
      using c Some by (auto simp: close_or_discard_def agent_at_def split: if_splits)
    note d = discard_effect [OF Some 3(1), of reason True, folded t(1)]
    have "abort_ok env cfg tx tx'"
      by (rule abort_ok_put [OF g Some 3(1) _ _ d]) (simp_all add: agent_good_reset)
    then show ?thesis by (simp add: settles_def t(2) no_segment_at_def d(1))
  qed
qed

lemma close_all_settles:
  assumes "close_all env reason ids tx rt = (CloseDone, tx', rt')"
    and "session_good cfg (tx_session tx)" "config rt = cfg"
  shows "settles env cfg tx tx' \<and> core rt' = core rt \<and> (\<forall>i\<in>set ids. no_segment_at (tx_session tx') i)"
  using assms
proof (induction ids arbitrary: tx rt)
  case Nil
  then show ?case by (simp add: settles_refl)
next
  case (Cons i ids)
  from Cons.prems(1) obtain tx1 rt1 where c: "close_or_discard env reason i tx rt = (CloseDone, tx1, rt1)"
    and r: "close_all env reason ids tx1 rt1 = (CloseDone, tx', rt')"
    by (auto split: prod.splits close_outcome.splits)
  note g = close_or_discard_settles [OF c Cons.prems(2,3)]
  then have "session_good cfg (tx_session tx1)" "config rt1 = cfg"
    using settles_good core_fields(2) [of rt1 rt] Cons.prems(3) by auto
  note IH = Cons.IH [OF r this]
  then have "no_segment_at (tx_session tx') i" using g settles_no_segment by blast
  with IH g settles_trans [of env cfg tx tx1 tx'] show ?case by simp
qed

text \<open>A failed close, too, leaves the runtime alone but for its error traces.\<close>

lemma close_all_core: "close_all env reason ids tx rt = (r, tx', rt') \<Longrightarrow> core rt' = core rt"
proof (induction ids arbitrary: tx rt)
  case (Cons i ids)
  obtain r1 tx1 rt1 where c: "close_or_discard env reason i tx rt = (r1, tx1, rt1)"
    by (metis prod_cases3)
  then have "core rt1 = core rt"
    by (auto simp: close_or_discard_def close_open_def Let_def split: option.splits if_splits prod.splits
        sum.splits dest!: InferPinnedValue_core')
  with c Cons show ?case by (cases r1) (auto split: prod.splits)
qed simp

section \<open>Giving up a session\<close>

definition quarantines :: "training_config \<Rightarrow> 'g txn \<Rightarrow> 'g txn \<Rightarrow> bool" where
  "quarantines cfg tx tx' \<longleftrightarrow>
     session_good cfg (tx_session tx') \<and> agents_only (tx_session tx) (tx_session tx') \<and>
     tx_quarantined tx' + cached (tx_session tx') = tx_quarantined tx + cached (tx_session tx) \<and>
     map fst (agents (tx_session tx')) = map fst (agents (tx_session tx)) \<and>
     (\<forall>j. no_segment_at (tx_session tx) j \<longrightarrow> no_segment_at (tx_session tx') j)"

lemma discard_quarantines:
  assumes g: "session_good cfg (tx_session tx)"
  shows "quarantines cfg tx (DiscardAgentSegment i reason x tx) \<and>
    no_segment_at (tx_session (DiscardAgentSegment i reason x tx)) i"
proof (cases "map_of (agents (tx_session tx)) i")
  case None
  then have "DiscardAgentSegment i reason x tx = tx" by (simp add: DiscardAgentSegment_def)
  with g None show ?thesis by (simp add: quarantines_def no_segment_at_def)
next
  case (Some a)
  let ?tx = "DiscardAgentSegment i reason x tx" and ?b = "reset_segment (clear_pending a)"
  have s: "tx_session ?tx = (tx_session tx)\<lparr>agents := put_at i ?b (agents (tx_session tx))\<rparr>"
    and q: "tx_quarantined ?tx = tx_quarantined tx + int (length (segment_transitions a))"
    using Some by (auto simp: DiscardAgentSegment_def Let_def set_agent_def)
  have "session_good cfg (tx_session ?tx)"
    using good_put [OF g agent_good_reset, of i] by (simp add: s fun_upd_idem)
  moreover have "cached (tx_session ?tx) = cached (tx_session tx) - int (length (segment_transitions a))"
    using cached_put [OF g Some, of ?b] by (simp add: s)
  ultimately show ?thesis using q by (auto simp: quarantines_def s no_segment_at_def)
qed

lemma quarantines_trans: "quarantines cfg tx tx1 \<Longrightarrow> quarantines cfg tx1 tx2 \<Longrightarrow> quarantines cfg tx tx2"
  unfolding quarantines_def using agents_only_trans by (metis (no_types))

lemma discard_all_quarantines:
  assumes "session_good cfg (tx_session tx)"
  shows "quarantines cfg tx (fold (\<lambda>i. DiscardAgentSegment i reason x) ids tx) \<and>
    (\<forall>i\<in>set ids. no_segment_at (tx_session (fold (\<lambda>i. DiscardAgentSegment i reason x) ids tx)) i)"
  using assms
proof (induction ids arbitrary: tx)
  case Nil
  then show ?case by (simp add: quarantines_def)
next
  case (Cons i ids)
  note d = discard_quarantines [OF Cons.prems, of i reason x]
  then have "session_good cfg (tx_session (DiscardAgentSegment i reason x tx))" by (simp add: quarantines_def)
  note IH = Cons.IH [OF this]
  have "no_segment_at (tx_session (fold (\<lambda>i. DiscardAgentSegment i reason x) (i # ids) tx)) i"
    using d IH by (simp add: quarantines_def)
  with d IH quarantines_trans [of cfg tx "DiscardAgentSegment i reason x tx"] show ?case by simp
qed

lemma agent_keys_free:
  assumes "\<And>i. i \<in> set (agent_keys s) \<Longrightarrow> no_segment_at s' i" "map fst (agents s') = map fst (agents s)"
  shows "segment_free s'"
  unfolding segment_free_def
proof
  fix i
  show "no_segment_at s' i"
  proof (cases "i \<in> set (agent_keys s)")
    case False
    then have "i \<notin> fst ` set (agents s')" using assms(2) by (metis agent_keys_def list.set_map)
    then show ?thesis by (simp add: no_segment_at_def flip: map_of_eq_None_iff)
  qed (rule assms(1))
qed

section \<open>The balance of the runtime\<close>

definition balance :: "'g runtime \<Rightarrow> int" where
  "balance rt = produced_unique_transitions rt + quarantined_transition_count rt + CountCachedTransitions rt"

lemma CountCached_Set:
  assumes "manager_ok (session_mgr rt)" "GetSession (session_mgr rt) sid = Some s"
    and "session_mgr rt' = SetSession sid s' (session_mgr rt)"
  shows "CountCachedTransitions rt' = CountCachedTransitions rt - cached s + cached s'"
proof -
  have "CountCachedTransitions rt = (\<Sum>(_, x)\<leftarrow>sessions (session_mgr rt). cached x)"
    "CountCachedTransitions rt' = (\<Sum>(_, x)\<leftarrow>sessions (session_mgr rt'). cached x)"
    by (simp_all add: CountCachedTransitions_def cached_def)
  with sum_put_at [where t = "sessions (session_mgr rt)" and i = sid and a = s and b = s' and f = cached] assms
  show ?thesis by (simp add: SetSession_def manager_ok_def GetSession_def)
qed

text \<open>What holds of all stored sessions.\<close>

definition runtime_ok :: "('q, 'p) codec \<Rightarrow> 'g runtime \<Rightarrow> bool" where
  "runtime_ok w rt \<longleftrightarrow>
     manager_ok (session_mgr rt) \<and>
     (\<forall>sid s. GetSession (session_mgr rt) sid = Some s \<longrightarrow>
        session_id s = sid \<and> session_inv (config rt) s \<and> replay_ok w s)"

text \<open>Storing an ended or given up session.\<close>

lemma runtime_ok_Set:
  assumes ok: "runtime_ok w rt" and s: "GetSession (session_mgr rt) sid = Some s"
    and m: "session_mgr rt' = SetSession sid s' (session_mgr rt)" and c: "config rt' = config rt"
    and "session_id s' = session_id s" "command_replay s' = command_replay s"
      "last_command_sequence s' = last_command_sequence s" "session_inv (config rt) s'"
  shows "runtime_ok w rt'"
proof -
  have "replay_ok w s' = replay_ok w s" using assms(6,7) by (simp add: replay_ok_def)
  then show ?thesis
    using ok s assms(5,8) manager_ok_Set unfolding runtime_ok_def m c by (auto split: if_splits)
qed

section \<open>Recovery\<close>

lemma core_balance:
  assumes "core rt' = core rt"
  shows "balance rt' = balance rt" "runtime_ok w rt' = runtime_ok w rt"
    "quarantined_transition_count rt' = quarantined_transition_count rt"
proof -
  have "quarantined_transition_count (core rt') = quarantined_transition_count (core rt)" using assms by simp
  then show q: "quarantined_transition_count rt' = quarantined_transition_count rt" by (simp add: core_def)
  show "balance rt' = balance rt" "runtime_ok w rt' = runtime_ok w rt"
    using core_fields [OF assms] q by (simp_all add: balance_def CountCachedTransitions_def runtime_ok_def)
qed

text \<open>Recovery only touches sessions in a training Episode of a training server.\<close>

lemma expired_session:
  assumes "runtime_ok w rt" "GetSession (session_mgr rt) sid = Some s" "client_expired (config rt) now s"
  shows "session_good (config rt) s" "session_id s = sid" "in_episode (phase s)"
  using assms by (auto simp: runtime_ok_def session_inv_def client_expired_def in_episode_def)

lemma ended_inv:
  assumes "session_good cfg s" "segment_free s" "\<not> in_episode (phase s)"
  shows "session_inv cfg s"
  using assms by (simp add: session_inv_def)

lemma new_txn_fields [simp]:
  "tx_session (new_txn rt s) = s" "tx_output (new_txn rt s) = []"
  "tx_transitions (new_txn rt s) = produced_unique_transitions rt"
  "tx_quarantined (new_txn rt s) = quarantined_transition_count rt"
  by (simp_all add: new_txn_def)

text \<open>A session whose segments were all closed.\<close>

lemma recovered_session:
  assumes ok: "runtime_ok w rt" and s: "GetSession (session_mgr rt) sid = Some s"
    and e: "client_expired (config rt) now s"
    and c: "close_all env ClientRecoveryTimeout (agent_keys s) (new_txn rt s) rt = (CloseDone, tx, rt1)"
    and rt': "session_mgr rt' = SetSession sid (ReleaseEpisodePolicy ((tx_session tx)\<lparr>phase := PhaseAborted\<rparr>))
        (session_mgr rt)" "config rt' = config rt" "produced_unique_transitions rt' = tx_transitions tx"
      "quarantined_transition_count rt' = tx_quarantined tx"
  shows "runtime_ok w rt' \<and> balance rt' = balance rt \<and>
    quarantined_transition_count rt' = quarantined_transition_count rt"
proof -
  let ?s = "ReleaseEpisodePolicy ((tx_session tx)\<lparr>phase := PhaseAborted\<rparr>)"
  note x = expired_session [OF ok s e]
  have sg: "session_good (config rt) (tx_session (new_txn rt s))" using x(1) by simp
  note cl = close_all_settles [OF c sg refl]
  then have st: "settles env (config rt) (new_txn rt s) tx" by simp
  note ao = agents_only_fields [of s "tx_session tx"]
  have only: "agents_only s (tx_session tx)" using st by (simp add: settles_def)
  have keys: "map fst (agents (tx_session tx)) = map fst (agents s)"
    using st by (simp add: settles_def abort_ok_def closing_ok_def)
  have free: "segment_free (tx_session tx)" using agent_keys_free [OF _ keys] cl by blast
  have good: "session_good (config rt) (tx_session tx)" using settles_good [OF st] .
  have same: "agents ?s = agents (tx_session tx)" by (simp add: ReleaseEpisodePolicy_def)
  have inv: "session_inv (config rt) ?s"
    using good free session_cong(1) [OF same] segment_free_cong [OF same]
    by (intro ended_inv) (simp_all add: in_episode_def ReleaseEpisodePolicy_def)
  have "runtime_ok w rt'"
    by (rule runtime_ok_Set [OF ok s rt'(1,2) _ _ _ inv])
      (use ao [OF only] in \<open>simp_all add: ReleaseEpisodePolicy_def\<close>)
  moreover have z: "cached ?s = 0"
    using segment_free_cached free good session_cong(2) [OF same] by (simp add: good_def)
  moreover have "CountCachedTransitions rt' = CountCachedTransitions rt - cached s + cached ?s"
    using CountCached_Set [OF _ s rt'(1)] ok by (simp add: runtime_ok_def)
  moreover have "tx_transitions tx = produced_unique_transitions rt + cached s"
    "tx_quarantined tx = quarantined_transition_count rt"
    using st z session_cong(2) [OF same] by (simp_all add: settles_def abort_ok_def closing_ok_def output_ok_def)
  ultimately show ?thesis using rt' by (simp add: balance_def)
qed

lemma discarded_session:
  assumes "session_good (config rt) s"
    and t: "tx = fold (\<lambda>i. DiscardAgentSegment i reason True) (agent_keys s) (new_txn rt s)"
  shows "session_good (config rt) (tx_session tx)" "segment_free (tx_session tx)"
    "agents_only s (tx_session tx)" "cached (tx_session tx) = 0"
    "tx_quarantined tx = quarantined_transition_count rt + cached s"
proof -
  have g: "session_good (config rt) (tx_session (new_txn rt s))" using assms(1) by simp
  have q: "quarantines (config rt) (new_txn rt s) tx" "\<forall>i\<in>set (agent_keys s). no_segment_at (tx_session tx) i"
    unfolding t using discard_all_quarantines [OF g, of reason True "agent_keys s"] by simp_all
  then show good: "session_good (config rt) (tx_session tx)" and "agents_only s (tx_session tx)"
    by (simp_all add: quarantines_def)
  have "map fst (agents (tx_session tx)) = map fst (agents s)" using q(1) by (simp add: quarantines_def)
  then show free: "segment_free (tx_session tx)" using agent_keys_free q(2) by blast
  show z: "cached (tx_session tx) = 0" using segment_free_cached [OF free] good by (simp add: good_def)
  then show "tx_quarantined tx = quarantined_transition_count rt + cached s" using q(1) by (simp add: quarantines_def)
qed

text \<open>Writing sessions and counters back; the other fields do not matter here.\<close>

lemma SetSession_twice [simp]: "SetSession sid b (SetSession sid a m) = SetSession sid b m"
  by (simp add: SetSession_def put_at_def comp_def split_def if_distrib cong: if_cong)

lemma given_up_session:
  assumes ok: "runtime_ok w rt" and s: "GetSession (session_mgr rt) sid = Some s"
    and t: "tx = fold (\<lambda>i. DiscardAgentSegment i reason True) (agent_keys s) (new_txn rt s)"
    and x: "x = tx_session tx \<or> x = (tx_session tx)\<lparr>phase := PhaseAborted, scope := ScopeUnspecified\<rparr>"
    and rt': "session_mgr rt' = SetSession sid x (session_mgr rt)" "config rt' = config rt"
      "produced_unique_transitions rt' = produced_unique_transitions rt"
      "quarantined_transition_count rt' = tx_quarantined tx"
  shows "runtime_ok w rt' \<and> balance rt' = balance rt"
proof -
  have "session_good (config rt) s" using ok s by (simp add: runtime_ok_def session_inv_def)
  note d = discarded_session [OF this t]
  note only = agents_only_fields [OF d(3)]
  have same: "agents x = agents (tx_session tx)" using x by auto
  have good: "session_good (config rt) x" and free: "segment_free x" and z: "cached x = 0"
    using d session_cong [OF same] segment_free_cong [OF same] by simp_all
  have "session_inv (config rt) s" using ok s by (simp add: runtime_ok_def)
  then have inv: "session_inv (config rt) x"
    using x good free only by (auto simp: session_inv_def in_episode_def)
  have "session_id x = session_id s" "command_replay x = command_replay s"
    "last_command_sequence x = last_command_sequence s" using x only by auto
  then have "runtime_ok w rt'" by (intro runtime_ok_Set [OF ok s rt'(1,2) _ _ _ inv])
  moreover have "CountCachedTransitions rt' = CountCachedTransitions rt - cached s + cached x"
    using CountCached_Set [OF _ s rt'(1)] ok by (simp add: runtime_ok_def)
  ultimately show ?thesis using rt' d(5) z by (simp add: balance_def)
qed

lemma recover_failed_ok:
  assumes "runtime_ok w rt" "GetSession (session_mgr rt) sid = Some s" "recover_failed sid s r rt = (b, rt')"
  shows "runtime_ok w rt' \<and> balance rt' = balance rt \<and> config rt' = config rt \<and> \<not> b"
proof -
  define tx where "tx = fold (\<lambda>i. DiscardAgentSegment i ClientRecoveryTimeout True) (agent_keys s) (new_txn rt s)"
  have rt': "session_mgr rt' = SetSession sid ((tx_session tx)\<lparr>phase := PhaseAborted, scope := ScopeUnspecified\<rparr>)
      (session_mgr rt)" "config rt' = config rt"
    "produced_unique_transitions rt' = produced_unique_transitions rt"
    "quarantined_transition_count rt' = tx_quarantined tx" "\<not> b"
    using assms(2,3) by (auto simp: recover_failed_def discard_session_def Let_def tx_def rt_MarkDegraded_def)
  from given_up_session [OF assms(1,2) tx_def disjI2 [OF refl] rt'(1-4)] rt'(2,5) show ?thesis by simp
qed

lemma recover_session_ok:
  assumes ok: "runtime_ok w rt" and r: "recover_session env f g now sid rt = (b, rt')"
  shows "runtime_ok w rt' \<and> balance rt' = balance rt \<and> config rt' = config rt \<and>
    (b \<longrightarrow> quarantined_transition_count rt' = quarantined_transition_count rt)"
proof (cases "GetSession (session_mgr rt) sid")
  case None
  with ok r show ?thesis by (simp add: recover_session_def)
next
  case (Some s)
  show ?thesis
  proof (cases "client_expired (config rt) now s")
    case False
    with ok r Some show ?thesis by (simp add: recover_session_def)
  next
    case True
    obtain c tx rt1 where c: "close_all env ClientRecoveryTimeout (agent_keys s) (new_txn rt s) rt = (c, tx, rt1)"
      by (metis prod_cases3)
    have core: "core rt1 = core rt" by (rule close_all_core [OF c])
    note cf = core_fields [OF core] core_balance(1,3) [OF core]
    have ok1: "runtime_ok w rt1" using ok core_balance(2) [OF core] by blast
    show ?thesis
    proof (cases "c = CloseDone")
      case failed: False
      then have "recover_failed sid s c rt1 = (b, rt')"
        using r Some True c by (cases c) (simp_all add: recover_session_def)
      with recover_failed_ok [OF ok1 _ this] Some cf show ?thesis by simp
    next
      case closed: True
      obtain x d where x: "hand_over (config rt) (byte_size env) f g (tx_output tx) (distributor rt1) = (x, d)"
        by force
      show ?thesis
      proof (cases x)
        case HandedOver
        have rt': "session_mgr rt' = SetSession sid (ReleaseEpisodePolicy ((tx_session tx)\<lparr>phase := PhaseAborted\<rparr>))
            (session_mgr rt)" "config rt' = config rt" "produced_unique_transitions rt' = tx_transitions tx"
            "quarantined_transition_count rt' = tx_quarantined tx"
          using r Some True c closed x HandedOver cf by (auto simp: recover_session_def store_counts_def)
        from recovered_session [OF ok Some True c [unfolded closed] rt'] rt'(2) show ?thesis by simp
      next
        case (HandoverWaits stage e)
        with r Some True c closed x have "b" "rt' = rt1\<lparr>distributor := d\<rparr>" by (auto simp: recover_session_def)
        with ok1 cf show ?thesis
          by (simp add: runtime_ok_def balance_def CountCachedTransitions_def)
      next
        case (HandoverFailed stage e)
        with r Some True c closed x have "\<not> b"
          "rt' = rt_MarkDegraded (recovery_failure stage @ e) (rt1\<lparr>distributor := d\<rparr>)"
          by (auto simp: recover_session_def)
        with ok1 cf show ?thesis
          by (simp add: runtime_ok_def balance_def CountCachedTransitions_def rt_MarkDegraded_def)
      qed
    qed
  qed
qed

lemma recover_sessions_ok:
  assumes "runtime_ok w rt" "recover_sessions env between now ids rt = (b, rt')"
  shows "runtime_ok w rt' \<and> balance rt' = balance rt \<and> config rt' = config rt \<and>
    (b \<longrightarrow> quarantined_transition_count rt' = quarantined_transition_count rt)"
  using assms
proof (induction ids arbitrary: rt)
  case (Cons sid ids)
  obtain b1 rt1 where r: "recover_session env (fst (between sid)) (snd (between sid)) now sid rt = (b1, rt1)" by force
  note one = recover_session_ok [OF Cons.prems(1) r]
  show ?case
  proof (cases b1)
    case True
    with Cons.prems(2) r have "recover_sessions env between now ids rt1 = (b, rt')" by simp
    from Cons.IH [OF _ this] one True show ?thesis by simp
  next
    case False
    with Cons.prems(2) r one show ?thesis by simp
  qed
qed simp

lemma recovery_ok:
  assumes "runtime_ok w rt" "RecoverExpiredClientSessions env between now rt = (b, rt')"
  shows "runtime_ok w rt' \<and> balance rt' = balance rt \<and> config rt' = config rt \<and>
    (b \<longrightarrow> quarantined_transition_count rt' = quarantined_transition_count rt)"
  using assms recover_sessions_ok [OF assms(1)]
  by (auto simp: RecoverExpiredClientSessions_def split: if_splits)
section \<open>Which sessions recovery touches\<close>

definition recovered :: "training_config \<Rightarrow> int \<Rightarrow> session \<Rightarrow> session \<Rightarrow> bool" where
  "recovered cfg now s s' \<longleftrightarrow>
     s' = s \<or>
     client_expired cfg now s \<and> phase s' = PhaseAborted \<and> scope s' = ScopeUnspecified \<and> segment_free s' \<and>
     session_id s' = session_id s \<and> last_command_sequence s' = last_command_sequence s \<and>
     command_replay s' = command_replay s"

lemma aborted_not_expired: "phase s = PhaseAborted \<Longrightarrow> \<not> client_expired cfg now s"
  by (simp add: client_expired_def)

lemma recovered_trans: "recovered cfg now s s1 \<Longrightarrow> recovered cfg now s1 s2 \<Longrightarrow> recovered cfg now s s2"
  unfolding recovered_def using aborted_not_expired by metis

definition only_recovered :: "int \<Rightarrow> 'g runtime \<Rightarrow> 'g runtime \<Rightarrow> bool" where
  "only_recovered now rt rt' \<longleftrightarrow>
     (\<forall>x s. GetSession (session_mgr rt) x = Some s \<longrightarrow>
        (\<exists>s'. GetSession (session_mgr rt') x = Some s' \<and> recovered (config rt) now s s'))"

lemma only_recovered_same: "session_mgr rt' = session_mgr rt \<Longrightarrow> only_recovered now rt rt'"
  by (simp add: only_recovered_def recovered_def)

lemma only_recovered_Set:
  assumes "session_mgr rt' = SetSession sid s' (session_mgr rt)" "GetSession (session_mgr rt) sid = Some s"
    "recovered (config rt) now s s'"
  shows "only_recovered now rt rt'"
  using assms by (simp add: only_recovered_def) (simp add: recovered_def)

lemma only_recovered_trans:
  assumes "only_recovered now rt rt1" "only_recovered now rt1 rt2" "config rt1 = config rt"
  shows "only_recovered now rt rt2"
  using assms recovered_trans unfolding only_recovered_def by metis

text \<open>A session that was given up, and one that was closed.\<close>

lemma given_up_recovered:
  assumes ok: "runtime_ok w rt" and s: "GetSession (session_mgr rt) sid = Some s"
    and e: "client_expired (config rt) now s" and f: "recover_failed sid s r rt = (b, rt')"
  shows "only_recovered now rt rt'"
proof -
  define tx where "tx = fold (\<lambda>i. DiscardAgentSegment i ClientRecoveryTimeout True) (agent_keys s) (new_txn rt s)"
  let ?x = "(tx_session tx)\<lparr>phase := PhaseAborted, scope := ScopeUnspecified\<rparr>"
  have m: "session_mgr rt' = SetSession sid ?x (session_mgr rt)"
    using s f by (auto simp: recover_failed_def discard_session_def Let_def tx_def rt_MarkDegraded_def)
  have "session_good (config rt) s" using ok s by (simp add: runtime_ok_def session_inv_def)
  note d = discarded_session [OF this tx_def]
  have "agents ?x = agents (tx_session tx)" by simp
  from segment_free_cong [OF this] d(2) agents_only_fields [OF d(3)] e
  have "recovered (config rt) now s ?x" by (simp add: recovered_def)
  with only_recovered_Set [OF m s] show ?thesis by blast
qed

lemma closed_recovered:
  assumes ok: "runtime_ok w rt" and s: "GetSession (session_mgr rt) sid = Some s"
    and e: "client_expired (config rt) now s"
    and c: "close_all env ClientRecoveryTimeout (agent_keys s) (new_txn rt s) rt = (CloseDone, tx, rt1)"
  shows "recovered (config rt) now s (ReleaseEpisodePolicy ((tx_session tx)\<lparr>phase := PhaseAborted\<rparr>))"
proof -
  let ?s = "ReleaseEpisodePolicy ((tx_session tx)\<lparr>phase := PhaseAborted\<rparr>)"
  have sg: "session_good (config rt) (tx_session (new_txn rt s))" using expired_session(1) [OF ok s e] by simp
  note cl = close_all_settles [OF c sg refl]
  then have st: "settles env (config rt) (new_txn rt s) tx" by simp
  have only: "agents_only s (tx_session tx)" using st by (simp add: settles_def)
  have keys: "map fst (agents (tx_session tx)) = map fst (agents s)"
    using st by (simp add: settles_def abort_ok_def closing_ok_def)
  have free: "segment_free (tx_session tx)" using agent_keys_free [OF _ keys] cl by blast
  have "agents ?s = agents (tx_session tx)" by (simp add: ReleaseEpisodePolicy_def)
  from segment_free_cong [OF this] free agents_only_fields [OF only] e
  show ?thesis by (simp add: recovered_def ReleaseEpisodePolicy_def)
qed

lemma recover_session_touches:
  assumes ok: "runtime_ok w rt" and r: "recover_session env f g now sid rt = (b, rt')"
  shows "only_recovered now rt rt'"
proof (cases "GetSession (session_mgr rt) sid")
  case None
  with r show ?thesis by (simp add: recover_session_def only_recovered_same)
next
  case (Some s)
  show ?thesis
  proof (cases "client_expired (config rt) now s")
    case False
    with r Some show ?thesis by (simp add: recover_session_def only_recovered_same)
  next
    case True
    obtain c tx rt1 where c: "close_all env ClientRecoveryTimeout (agent_keys s) (new_txn rt s) rt = (c, tx, rt1)"
      by (metis prod_cases3)
    have core: "core rt1 = core rt" by (rule close_all_core [OF c])
    note cf = core_fields [OF core]
    show ?thesis
    proof (cases "c = CloseDone")
      case failed: False
      then have "recover_failed sid s c rt1 = (b, rt')"
        using r Some True c by (cases c) (simp_all add: recover_session_def)
      moreover have "runtime_ok w rt1" using ok core_balance(2) [OF core] by blast
      ultimately have "only_recovered now rt1 rt'" using given_up_recovered Some True cf by metis
      with cf show ?thesis by (simp add: only_recovered_def)
    next
      case closed: True
      obtain x d where x: "hand_over (config rt) (byte_size env) f g (tx_output tx) (distributor rt1) = (x, d)"
        by force
      show ?thesis
      proof (cases x)
        case HandedOver
        have "session_mgr rt' = SetSession sid (ReleaseEpisodePolicy ((tx_session tx)\<lparr>phase := PhaseAborted\<rparr>))
            (session_mgr rt)"
          using r Some True c closed x HandedOver cf by (auto simp: recover_session_def store_counts_def)
        from only_recovered_Set [OF this Some closed_recovered [OF ok Some True c [unfolded closed]]]
        show ?thesis .
      next
        case (HandoverWaits stage e)
        with r Some True c closed x cf show ?thesis by (auto simp: recover_session_def intro: only_recovered_same)
      next
        case (HandoverFailed stage e)
        with r Some True c closed x cf show ?thesis
          by (auto simp: recover_session_def rt_MarkDegraded_def intro: only_recovered_same)
      qed
    qed
  qed
qed

lemma recover_sessions_touches:
  assumes "runtime_ok w rt" "recover_sessions env between now ids rt = (b, rt')"
  shows "only_recovered now rt rt'"
  using assms
proof (induction ids arbitrary: rt)
  case (Cons sid ids)
  obtain b1 rt1 where r: "recover_session env (fst (between sid)) (snd (between sid)) now sid rt = (b1, rt1)" by force
  note one = recover_session_touches [OF Cons.prems(1) r] recover_session_ok [OF Cons.prems(1) r]
  show ?case
  proof (cases b1)
    case True
    with Cons.prems(2) r have "recover_sessions env between now ids rt1 = (b, rt')" by simp
    with Cons.IH one have "only_recovered now rt1 rt'" by blast
    with one only_recovered_trans show ?thesis by blast
  next
    case False
    with Cons.prems(2) r one show ?thesis by simp
  qed
qed (simp add: only_recovered_same)

lemma recovery_touches:
  assumes "runtime_ok w rt" "RecoverExpiredClientSessions env between now rt = (b, rt')"
  shows "only_recovered now rt rt'"
  using assms recover_sessions_touches [OF assms(1)]
  by (auto simp: RecoverExpiredClientSessions_def only_recovered_same split: if_splits)

end
