(* ===== verification/Service_Runs.thy ===== *)
theory Service_Runs
  imports Service_Protocol Recovery
begin

text \<open>
  Runs of the service: RPCs in any order, from any clients, with whatever the other threads do to
  the rest of the runtime in between.  Every session stays well formed, and every transition a
  committed Update completed is either cached in its session or was handed to the distributor.
\<close>

section \<open>Runs\<close>

text \<open>The transitions a call completed.\<close>

definition completed_by ::
  "rpc \<Rightarrow> 'q request \<Rightarrow> 'p response \<Rightarrow> ('g, 't, 'c) service \<Rightarrow> int" where
  "completed_by k req rsp S =
     (case stored S (cmd_session_id (command req)) of
        None \<Rightarrow> 0
      | Some s \<Rightarrow> if rpl_result (reply rsp) = ResultApplied then completed k s else 0)"

text \<open>
  \<open>n\<close> counts the transitions completed so far, less the ones given up with a session that could not be
  recovered.  The watcher may recover expired sessions at any time; what the other threads (sample
  sender, status, the rest of the watcher) do does not touch sessions, configuration or the count of
  produced transitions.
\<close>

inductive service_run ::
  "('t, 'c, 'q, 'p) task_ops \<Rightarrow> ('q, 'p) codec \<Rightarrow> ('q, 'p) open_codec \<Rightarrow> ('g, 't, 'c) service \<Rightarrow>
   int \<Rightarrow> ('g, 't, 'c) service \<Rightarrow> bool"
  for ops :: "('t, 'c, 'q, 'p) task_ops" and w :: "('q, 'p) codec" and ow :: "('q, 'p) open_codec"
    and S0 :: "('g, 't, 'c) service" where
  run_start: "service_run ops w ow S0 0 S0"
| run_open: "service_run ops w ow S0 n S \<Longrightarrow> next_of S + 1 \<noteq> 0 \<Longrightarrow>
    OpenSession ops ow ce q S = (rsp, S') \<Longrightarrow> service_run ops w ow S0 n S'"
| run_call: "service_run ops w ow S0 n S \<Longrightarrow> clock_ok ce \<Longrightarrow> serve_rpc ops w k ce req S = (rsp, S') \<Longrightarrow>
    service_run ops w ow S0 (n + completed_by k req rsp S) S'"
| run_other: "service_run ops w ow S0 n S \<Longrightarrow> session_mgr rt = session_mgr (srv S) \<Longrightarrow>
    config rt = config (srv S) \<Longrightarrow> produced_unique_transitions rt = produced S \<Longrightarrow>
    service_run ops w ow S0 n (S\<lparr>srv := rt\<rparr>)"
| run_recover: "service_run ops w ow S0 n S \<Longrightarrow>
    RecoverExpiredClientSessions env between now (srv S) = (b, rt) \<Longrightarrow>
    service_run ops w ow S0
      (n - (quarantined_transition_count rt - quarantined_transition_count (srv S))) (S\<lparr>srv := rt\<rparr>)"

inductive_cases run_stepE: "service_run ops w ow S0 n S"

section \<open>The invariant of a run\<close>

definition sessions_ok :: "('q, 'p) codec \<Rightarrow> ('g, 't, 'c) service \<Rightarrow> bool" where
  "sessions_ok w S \<longleftrightarrow>
     manager_ok (session_mgr (srv S)) \<and>
     (\<forall>sid s. stored S sid = Some s \<longrightarrow>
        session_id s = sid \<and> session_inv (config (srv S)) s \<and> replay_ok w s)"

lemma sessions_ok_store: "sessions_ok w S \<Longrightarrow> store_ok S"
  by (simp add: sessions_ok_def store_ok_def)

lemma sessions_ok_runtime: "sessions_ok w S = runtime_ok w (srv S)"
  by (simp add: sessions_ok_def runtime_ok_def)

lemma sessions_ok_cong:
  assumes "session_mgr (srv S') = session_mgr (srv S)" "config (srv S') = config (srv S)"
  shows "sessions_ok w S' = sessions_ok w S"
    "CountCachedTransitions (srv S') = CountCachedTransitions (srv S)"
  by (simp_all only: sessions_ok_def CountCachedTransitions_def assms)

lemma manager_ok_keys:
  "map fst (sessions m') = map fst (sessions m) \<Longrightarrow> next_session_id m' = next_session_id m \<Longrightarrow>
     manager_ok m' = manager_ok m"
  unfolding manager_ok_def by (metis list.set_map)

lemma CountCached_sum: "CountCachedTransitions (srv S) = (\<Sum>(_, s)\<leftarrow>sessions (session_mgr (srv S)). cached s)"
  by (simp add: CountCachedTransitions_def cached_def)

lemma CountCached_keys:
  assumes "distinct (keys_of S)"
  shows "CountCachedTransitions (srv S) = (\<Sum>sid\<in>set (keys_of S). cached (the (stored S sid)))"
proof -
  let ?m = "sessions (session_mgr (srv S))"
  have "map (\<lambda>(_, s). cached s) ?m = map (\<lambda>x. cached (the (stored S (fst x)))) ?m"
    using assms by (auto simp: GetSession_def map_of_is_SomeI)
  from arg_cong [OF this, of sum_list]
  have "CountCachedTransitions (srv S) = (\<Sum>sid\<leftarrow>keys_of S. cached (the (stored S sid)))"
    unfolding CountCached_sum by (simp only: map_map comp_def)
  then show ?thesis using assms by (simp only: sum_list_distinct_conv_sum_set)
qed

lemma CountCached_update:
  assumes "distinct (keys_of S)" "keys_of S' = keys_of S" "stored S sid = Some s" "stored S' sid = Some s'"
    and other: "\<And>x. x \<noteq> sid \<Longrightarrow> stored S' x = stored S x"
  shows "CountCachedTransitions (srv S') = CountCachedTransitions (srv S) - cached s + cached s'"
proof -
  have d': "distinct (keys_of S')" using assms(1,2) by simp
  have k: "sid \<in> set (keys_of S)" using assms(3) by (force simp: GetSession_def dest: map_of_SomeD)
  have "(\<Sum>x\<in>set (keys_of S) - {sid}. cached (the (stored S' x))) =
      (\<Sum>x\<in>set (keys_of S) - {sid}. cached (the (stored S x)))"
    by (rule sum.cong) (simp_all add: other)
  then show ?thesis
    unfolding CountCached_keys [OF assms(1)] CountCached_keys [OF d'] assms(2)
    using sum.remove [OF _ k, of "\<lambda>x. cached (the (stored S' x))"]
      sum.remove [OF _ k, of "\<lambda>x. cached (the (stored S x))"] assms(3,4) by simp
qed

lemma check_not_applied:
  assumes "CheckCommand w s req empty_response = (c, rsp)" "c \<noteq> CheckProceed"
  shows "rpl_result (reply rsp) \<noteq> ResultApplied"
  using assms
  by (auto simp: CheckCommand_def Let_def FillReply_def split: replay_decision.splits option.splits if_splits)

lemma answered_inv:
  assumes "answered True k w req s S r" "codec_ok w" "session_inv (config (srv S)) s" "replay_ok w s"
  obtains s' where "stored (snd r) (session_id s) = Some s'" "session_id s' = session_id s"
    "session_inv (config (srv S)) s'" "replay_ok w s'"
    "produced (snd r) + cached s' = produced S + cached s +
       (if rpl_result (reply (fst r)) = ResultApplied then completed k s else 0)"
proof -
  obtain s' where s': "stored (snd r) (session_id s) = Some s'"
    "committed w req s (fst r) s' \<or> same_but_activity s s'"
    "session_inv (config (srv S)) s'"
    "produced (snd r) + cached s' = produced S + cached s +
       (if rpl_result (reply (fst r)) = ResultApplied then completed k s else 0)"
    using assms(1,3) unfolding answered_def by blast
  from s'(2) have "session_id s' = session_id s \<and> replay_ok w s'"
  proof
    assume "committed w req s (fst r) s'"
    from committed_effect(1,4) [OF this assms(2)] show ?thesis by simp
  next
    assume a: "same_but_activity s s'"
    from same_but_activity_fields(1,4) [OF a] replay_ok_cong [of s' s w] assms(4) show ?thesis by simp
  qed
  with s' show thesis by (intro that [of s']) simp_all
qed

text \<open>The effect of a call on all sessions.\<close>

lemma served_sessions_ok:
  assumes v: "served True k w req S r" and c: "codec_ok w" and ok: "sessions_ok w S"
  shows "sessions_ok w (snd r) \<and>
    produced (snd r) + CountCachedTransitions (srv (snd r)) =
      produced S + CountCachedTransitions (srv S) + completed_by k req (fst r) S"
proof -
  have keys: "keys_of (snd r) = keys_of S" "config (srv (snd r)) = config (srv S)" "next_of (snd r) = next_of S"
    using v by (simp_all add: served_def)
  have m: "manager_ok (session_mgr (srv (snd r)))"
    using manager_ok_keys [OF keys(1,3)] ok by (simp add: sessions_ok_def)
  have d: "distinct (keys_of S)" using ok by (simp add: sessions_ok_def manager_ok_def)
  have one: ?thesis if st: "stored S sid = Some s" "stored (snd r) sid = Some s'"
      and o: "\<And>x. x \<noteq> sid \<Longrightarrow> stored (snd r) x = stored S x"
      and g: "session_id s' = sid" "session_inv (config (srv S)) s'" "replay_ok w s'"
      and e: "produced (snd r) + cached s' = produced S + cached s + completed_by k req (fst r) S" for sid s s'
  proof
    show "sessions_ok w (snd r)" unfolding sessions_ok_def
    proof (intro conjI allI impI)
      fix x y assume "stored (snd r) x = Some y"
      then show "session_id y = x" "session_inv (config (srv (snd r))) y" "replay_ok w y"
        using st o g ok keys(2) by (cases "x = sid"; simp add: sessions_ok_def)+
    qed (rule m)
    show "produced (snd r) + CountCachedTransitions (srv (snd r)) =
        produced S + CountCachedTransitions (srv S) + completed_by k req (fst r) S"
      using CountCached_update [OF d keys(1) st o] e by simp
  qed
  from v sessions_ok_store [OF ok] show ?thesis
  proof (cases rule: served_cases)
    case unknown
    have "CountCachedTransitions (srv (snd r)) = CountCachedTransitions (srv S)"
      unfolding CountCached_keys [OF d] CountCached_keys [OF d [folded keys(1)]] by (simp add: keys(1) unknown(1))
    then show ?thesis using unknown m ok keys(2) by (simp add: sessions_ok_def completed_by_def)
  next
    case (checked s s' c')
    note f = same_but_activity_fields [OF checked(6)]
    have i: "session_inv (config (srv S)) s" "replay_ok w s" using ok checked(1) by (simp_all add: sessions_ok_def)
    have "completed_by k req (fst r) S = 0"
      using checked(1,2) check_not_applied [OF checked(3,4)] by (simp add: completed_by_def)
    moreover have "phase s' = phase s" using f(1) by (simp add: protocol_state_def)
    ultimately show ?thesis
      using i checked f session_inv_cong [of s' s] session_cong(2) [of s' s] replay_ok_cong [of s' s w]
      by (intro one [of "session_id s" s s']) simp_all
  next
    case (handled s rsp)
    have i: "session_inv (config (srv S)) s" "replay_ok w s" using ok handled(1) by (simp_all add: sessions_ok_def)
    from answered_inv [OF handled(4) c i] obtain s' where s': "stored (snd r) (session_id s) = Some s'"
      "session_id s' = session_id s" "session_inv (config (srv S)) s'" "replay_ok w s'"
      "produced (snd r) + cached s' = produced S + cached s +
         (if rpl_result (reply (fst r)) = ResultApplied then completed k s else 0)" .
    have o: "stored (snd r) x = stored S x" if "x \<noteq> session_id s" for x
      using handled(4) that by (simp add: answered_def)
    show ?thesis
      by (rule one [OF handled(1) s'(1) o s'(2-4)]) (use s'(5) handled(1,2) in \<open>simp_all add: completed_by_def\<close>)
  qed
qed

section \<open>Opening a session\<close>

lemma activity_sessions_ok:
  assumes "sessions_ok w S"
  shows "sessions_ok w (S\<lparr>srv := note_activity sid now (srv S)\<rparr>) \<and>
    CountCachedTransitions (note_activity sid now (srv S)) = CountCachedTransitions (srv S)"
proof (cases "stored S sid")
  case None
  with assms show ?thesis by (simp add: note_activity_def)
next
  case (Some s)
  let ?s = "s\<lparr>last_valid_client_activity_unix_ms := now\<rparr>"
  let ?S = "S\<lparr>srv := note_activity sid now (srv S)\<rparr>"
  have mgr: "session_mgr (srv ?S) = SetSession sid ?s (session_mgr (srv S))" "config (srv ?S) = config (srv S)"
    using Some by (simp_all add: note_activity_def)
  have keys: "keys_of ?S = keys_of S" unfolding mgr by (simp add: SetSession_def)
  have st: "stored ?S x = (if x = sid then Some ?s else stored S x)" for x
    unfolding mgr(1) using Some by simp
  have d: "distinct (keys_of S)" using assms by (simp add: sessions_ok_def manager_ok_def)
  have s: "session_id ?s = sid" "session_inv (config (srv S)) ?s" "replay_ok w ?s"
    using assms Some session_inv_cong [of ?s s] replay_ok_cong [of ?s s w]
    by (simp_all add: sessions_ok_def protocol_state_def)
  have "manager_ok (session_mgr (srv ?S))"
    using manager_ok_Set assms by (simp only: mgr sessions_ok_def)
  then have "sessions_ok w ?S"
    using assms s unfolding sessions_ok_def mgr(2) st by (auto split: if_splits)
  moreover have "CountCachedTransitions (srv ?S) = CountCachedTransitions (srv S)"
    using CountCached_update [OF d keys Some, of ?s] session_cong(2) [of ?s s] st by simp
  ultimately show ?thesis by simp
qed

lemma fresh_sessions_ok:
  assumes f: "open_fresh ops ce q S = (rsp, S')" and ok: "sessions_ok w S" and n: "next_of S + 1 \<noteq> 0"
  shows "sessions_ok w S' \<and> config (srv S') = config (srv S) \<and> produced S' = produced S \<and>
    CountCachedTransitions (srv S') = CountCachedTransitions (srv S)"
proof -
  let ?m = "session_mgr (srv S)" and ?sid = "session_name (next_of S)"
  have m: "manager_ok ?m" using ok by (simp add: sessions_ok_def)
  have none: "map_of (sessions ?m) ?sid = None" using manager_ok_fresh [OF m] .
  obtain m1 where c: "CreateSession ?m = (?sid, m1)" by (simp add: CreateSession_def Let_def)
  then have m1: "sessions m1 = sessions ?m @ [(?sid, new_session ?sid)]"
    using none by (auto simp: CreateSession_def Let_def put_session_def)
  define s where "s = (new_session ?sid)\<lparr>client := oq_client q, environment_instance_id := oq_environment q,
    last_valid_client_activity_unix_ms := ce_now_ms ce, session_epoch := next_lifecycle_epoch (srv S),
    workload_mode := WorkloadModeForRunMode (run_mode (config (srv S))), phase := PhaseOpen\<rparr>"
  have s: "session_id s = ?sid" "agents s = []" "phase s = PhaseOpen" "command_replay s = new_replay"
    by (simp_all add: s_def new_session_def)
  from f c have S': "session_mgr (srv S') = SetSession ?sid s m1" "config (srv S') = config (srv S)"
      "produced S' = produced S"
    by (auto simp: open_fresh_def Let_def s_def split: prod.splits)
  have "manager_ok m1" using manager_ok_Create [OF m n c] .
  then have mok: "manager_ok (session_mgr (srv S'))" unfolding S'(1) by (rule manager_ok_Set)
  have st: "stored S' x = (if x = ?sid then Some s else stored S x)" for x
    using none by (simp add: S'(1) GetSession_def SetSession_def m1 map_add_def split: option.splits)
  have "session_inv (config (srv S)) s \<and> cached s = 0"
    by (rule idle_agents_inv) (simp_all add: s in_episode_def)
  moreover have "replay_ok w s" by (simp add: replay_ok_def s new_replay_def)
  ultimately have "sessions_ok w S'"
    using mok ok s(1) unfolding sessions_ok_def st S'(2) by (auto split: if_splits)
  moreover have "CountCachedTransitions (srv S') = CountCachedTransitions (srv S)"
  proof -
    have "?sid \<notin> fst ` set (sessions ?m)" using none by (simp add: map_of_eq_None_iff)
    then have "sessions (session_mgr (srv S')) = sessions ?m @ [(?sid, s)]"
      by (auto simp: S'(1) SetSession_def m1 put_at_def image_iff intro!: map_idI)
    then show ?thesis by (simp add: CountCached_sum cached_def s)
  qed
  ultimately show ?thesis using S' by simp
qed

lemma OpenSession_sessions_ok:
  assumes o: "OpenSession ops ow ce q S = (rsp, S')" and ok: "sessions_ok w S" and n: "next_of S + 1 \<noteq> 0"
  shows "sessions_ok w S' \<and> config (srv S') = config (srv S) \<and> produced S' = produced S \<and>
    CountCachedTransitions (srv S') = CountCachedTransitions (srv S)"
proof -
  obtain r S1 where f: "open_fresh ops ce q S = (r, S1)" by force
  consider "S' = S" | sid where "S' = S\<lparr>srv := note_activity sid (ce_now_ms ce) (srv S)\<rparr>"
    | pay out where "S' = S1\<lparr>srv := remember_open (oq_request_id q) pay out (srv S1)\<rparr>"
    using o f by (auto simp: OpenSession_def Let_def split: option.splits if_splits)
  then show ?thesis
  proof cases
    case 1
    with ok show ?thesis by simp
  next
    case (2 sid)
    with activity_sessions_ok [OF ok, of sid "ce_now_ms ce"] show ?thesis
      by (simp add: note_activity_def split: option.splits)
  next
    case 3
    then have "session_mgr (srv S') = session_mgr (srv S1)" "config (srv S') = config (srv S1)"
      "produced S' = produced S1" by (simp_all add: remember_open_def)
    with fresh_sessions_ok [OF f ok n] sessions_ok_cong(1) [of S' S1 w] sessions_ok_cong(2) [of S' S1] show ?thesis by simp
  qed
qed

section \<open>Every run\<close>

context task_adapter
begin

lemma run_invariant:
  assumes "service_run ops w ow S0 n S" "codec_ok w" "sessions_ok w S0"
  shows "sessions_ok w S \<and> config (srv S) = config (srv S0) \<and>
    produced S + CountCachedTransitions (srv S) = produced S0 + CountCachedTransitions (srv S0) + n"
  using assms(1)
proof induction
  case run_start
  with assms(3) show ?case by simp
next
  case (run_open n S ce q rsp S')
  with OpenSession_sessions_ok [OF run_open(3), of w] show ?case by simp
next
  case (run_call n S ce k req rsp S')
  have ok: "sessions_ok w S" using run_call.IH by simp
  have "served True k w req S (rsp, S')"
    using serve_rpc_served [OF sessions_ok_store [OF ok], of ce k w req] run_call(2,3) by simp
  with served_sessions_ok [OF this assms(2) ok] run_call.IH show ?case by (simp add: served_def)
next
  case (run_other n S rt)
  with sessions_ok_cong(1) [of "S\<lparr>srv := rt\<rparr>" S w] sessions_ok_cong(2) [of "S\<lparr>srv := rt\<rparr>" S]
  show ?case by simp
next
  case (run_recover n S env between now b rt)
  then have "runtime_ok w (srv S)" by (simp add: sessions_ok_runtime)
  from recovery_ok [OF this run_recover(2)] run_recover.IH show ?case
    by (simp add: sessions_ok_runtime balance_def)
qed

end

end
