(* ===== verification/Task_Client.thy ===== *)
theory Task_Client
  imports Task_Service
begin

text \<open>
  The client side of the SDK: \<open>rl_sdk/transport.h\<close>, \<open>rl_sdk/task_client.h\<close> and the two drivers of
  \<open>rl_sdk/session.h\<close>.  What the network does to an attempt, when the caller stops and when a budget is
  used up are arguments.
\<close>

section \<open>Transport\<close>

record transport =
  tr_connected :: bool
  tr_outcome_unknown :: bool
  tr_error :: string

definition new_transport :: transport where
  "new_transport = \<lparr>tr_connected = False, tr_outcome_unknown = False, tr_error = []\<rparr>"

definition status_number :: "grpc_status \<Rightarrow> int" where
  "status_number st =
     (case st of
        GrpcOk \<Rightarrow> 0 | GrpcCancelled \<Rightarrow> 1 | GrpcUnknown \<Rightarrow> 2 | GrpcInvalidArgument \<Rightarrow> 3
      | GrpcDeadlineExceeded \<Rightarrow> 4 | GrpcNotFound \<Rightarrow> 5 | GrpcAlreadyExists \<Rightarrow> 6
      | GrpcPermissionDenied \<Rightarrow> 7 | GrpcResourceExhausted \<Rightarrow> 8 | GrpcFailedPrecondition \<Rightarrow> 9
      | GrpcAborted \<Rightarrow> 10 | GrpcOutOfRange \<Rightarrow> 11 | GrpcUnimplemented \<Rightarrow> 12 | GrpcInternal \<Rightarrow> 13
      | GrpcUnavailable \<Rightarrow> 14 | GrpcDataLoss \<Rightarrow> 15 | GrpcUnauthenticated \<Rightarrow> 16)"

definition status_error :: "grpc_status \<Rightarrow> string \<Rightarrow> string" where
  "status_error st message = ''gRPC status '' @ int_text (status_number st) @ '': '' @ message"

definition retryable_status :: "grpc_status \<Rightarrow> bool" where
  "retryable_status st \<longleftrightarrow>
     st \<in> {GrpcAborted, GrpcCancelled, GrpcDeadlineExceeded, GrpcInternal, GrpcResourceExhausted,
           GrpcUnknown, GrpcUnavailable}"

text \<open>One attempt: the status, its message, the candidate response, and the rest of the world after it.\<close>

type_synonym ('r, 'w) attempt = "'w \<Rightarrow> (grpc_status \<times> string \<times> 'r) \<times> 'w"

definition InvokeUnary ::
  "('n \<Rightarrow> ('r, 'w) attempt) \<Rightarrow> 'n \<times> 'n \<Rightarrow> 'r \<Rightarrow> transport \<Rightarrow> 'w \<Rightarrow> bool \<times> 'r \<times> transport \<times> 'w" where
  "InvokeUnary invoke fates rsp t w =
     (let t0 = t\<lparr>tr_outcome_unknown := False, tr_error := []\<rparr>;
          failed = (\<lambda>st message. t0\<lparr>tr_outcome_unknown := True, tr_error := status_error st message\<rparr>)
      in if \<not> tr_connected t then (False, rsp, t0\<lparr>tr_error := ''transport is not connected''\<rparr>, w)
         else case invoke (fst fates) w of
                ((st, message, candidate), w1) \<Rightarrow>
                  if st = GrpcOk then (True, candidate, t0, w1)
                  else if \<not> retryable_status st then (False, rsp, failed st message, w1)
                  else (case invoke (snd fates) w1 of
                          ((st2, message2, candidate2), w2) \<Rightarrow>
                            if st2 = GrpcOk then (True, candidate2, t0, w2)
                            else (False, rsp, failed st2 message2, w2)))"

section \<open>The client\<close>

record client_options =
  co_identity :: service_identity
  co_environment :: string
  co_open_request_id :: string

record task_client =
  cl_options :: client_options
  cl_transport :: transport
  cl_stub :: bool
  cl_cursor :: cursor
  cl_error :: string

definition new_cursor :: cursor where
  "new_cursor = \<lparr>cur_session_id = [], cur_episode_id = [], cur_session_epoch = 0, next_sequence = 0,
     cur_phase = PhaseUnspecified\<rparr>"

definition new_client :: "client_options \<Rightarrow> task_client" where
  "new_client opts = \<lparr>cl_options = opts, cl_transport = new_transport, cl_stub = False,
     cl_cursor = new_cursor, cl_error = []\<rparr>"

text \<open>\<open>reached\<close>: the channel connected within its deadline.\<close>

definition transport_Connect :: "bool \<Rightarrow> transport \<Rightarrow> bool \<times> transport" where
  "transport_Connect reached t = (reached, t\<lparr>tr_connected := reached\<rparr>)"

definition client_Connect :: "bool \<Rightarrow> string \<Rightarrow> task_client \<Rightarrow> bool \<times> task_client" where
  "client_Connect reached endpoint cl =
     (case transport_Connect reached (cl_transport cl) of
        (ok, t) \<Rightarrow>
          if \<not> ok then (False, cl\<lparr>cl_transport := t, cl_error := ''transport could not connect to '' @ endpoint\<rparr>)
          else (True, cl\<lparr>cl_transport := t, cl_error := [], cl_stub := True\<rparr>))"

definition client_Disconnect :: "task_client \<Rightarrow> task_client" where
  "client_Disconnect cl = cl\<lparr>cl_stub := False, cl_transport := (cl_transport cl)\<lparr>tr_connected := False\<rparr>\<rparr>"

definition client_Active :: "task_client \<Rightarrow> bool" where
  "client_Active cl \<longleftrightarrow> cur_phase (cl_cursor cl) = PhaseEpisodeRunning"

definition client_Complete :: "task_client \<Rightarrow> bool" where
  "client_Complete cl \<longleftrightarrow> cur_phase (cl_cursor cl) = PhaseTaskComplete"

definition client_CanClose :: "task_client \<Rightarrow> bool" where
  "client_CanClose cl \<longleftrightarrow>
     cur_session_id (cl_cursor cl) \<noteq> [] \<and>
     cur_phase (cl_cursor cl) \<in> {PhaseOpen, PhaseReady, PhaseAborted, PhaseTaskComplete}"

definition client_Invoke ::
  "('n \<Rightarrow> ('r, 'w) attempt) \<Rightarrow> 'n \<times> 'n \<Rightarrow> 'r \<Rightarrow> task_client \<Rightarrow> 'w \<Rightarrow> bool \<times> 'r \<times> task_client \<times> 'w" where
  "client_Invoke invoke fates rsp cl w =
     (case InvokeUnary invoke fates rsp (cl_transport cl) w of
        (ok, rsp', t, w') \<Rightarrow>
          (ok, rsp', cl\<lparr>cl_transport := t, cl_error := (if ok then cl_error cl else tr_error t)\<rparr>, w'))"

section \<open>Commands\<close>

text \<open>
  The world the exchange loop of the session threads: the response, cleared before each turn, the client
  and the rest.
\<close>

type_synonym ('p, 'w) client_world = "('p response \<times> task_client) \<times> 'w"

definition one_call ::
  "('n \<Rightarrow> ('p response, 'w) attempt) \<Rightarrow> 'n \<times> 'n \<Rightarrow> ('p, 'w) client_world \<Rightarrow>
   'p response option \<times> ('p, 'w) client_world" where
  "one_call invoke fates W =
     (case client_Invoke invoke fates empty_response (snd (fst W)) (snd W) of
        (ok, rsp, cl, w) \<Rightarrow> (if ok then Some rsp else None, ((rsp, cl), w)))"

definition failure_text :: "command_outcome \<Rightarrow> bool \<Rightarrow> command_reply \<Rightarrow> string" where
  "failure_text r invalid_payload rpl =
     (if invalid_payload then ''task response payload or lifecycle phase is invalid''
      else if r = OutcomeWaitExpired then ''command WAIT budget expired''
      else if r = OutcomeStopped then ''command stopped by caller''
      else if r = OutcomeUnknown \<and> CommandAccepted rpl
      then ''command receipt does not match the requested lifecycle sequence''
      else if_empty (rpl_message rpl) ''command was not confirmed'' (rpl_message rpl))"

text \<open>\<open>validate\<close> is asked about the last response, when no wait was asked for.\<close>

definition client_Exchange ::
  "('q request \<Rightarrow> 'n \<Rightarrow> ('p response, 'w) attempt) \<Rightarrow> ('q request \<Rightarrow> 'p response \<Rightarrow> bool) \<Rightarrow>
   ('p response \<Rightarrow> int) \<Rightarrow> ('n \<times> 'n) turn list \<Rightarrow> 'q \<Rightarrow> 'p response \<Rightarrow> task_client \<Rightarrow> 'w \<Rightarrow>
   (command_outcome \<times> 'p response \<times> task_client \<times> 'w) option" where
  "client_Exchange wire valid delay ts q rsp cl w =
     (let req = \<lparr>command = FillCommand (cl_cursor cl), body = q\<rparr>
      in case Exchange (one_call (wire req)) (valid req) delay ts (cl_cursor cl) ((rsp, cl\<lparr>cl_error := []\<rparr>), w) of
           None \<Rightarrow> None
         | Some (r, c, (rsp', cl'), w') \<Rightarrow>
             (let invalid = (r \<in> {OutcomeRejected, OutcomeUnknown} \<and> delay rsp' = 0 \<and> \<not> valid req rsp' \<and>
                    CommandAccepted (reply rsp'));
                  e = (if r \<noteq> OutcomeApplied \<and> cl_error cl' = []
                       then failure_text r invalid (reply rsp') else cl_error cl')
              in Some (r, rsp', cl'\<lparr>cl_cursor := c, cl_error := e\<rparr>, w')))"

text \<open>A call without a stop signal, and one without a budget.\<close>

definition unstoppable :: "'n turn \<Rightarrow> 'n turn" where
  "unstoppable t = t\<lparr>turn_stopped := False\<rparr>"

definition unlimited :: "'n turn \<Rightarrow> 'n turn" where
  "unlimited t = t\<lparr>turn_expired := False\<rparr>"

definition WaitDelay :: "'p response \<Rightarrow> int" where
  "WaitDelay rsp = (case wait_ms rsp of None \<Rightarrow> 0 | Some ms \<Rightarrow> if ms > 0 then ms else -1)"

definition PreserveFailure :: "string \<Rightarrow> string \<Rightarrow> command_outcome \<Rightarrow> task_client \<Rightarrow> task_client" where
  "PreserveFailure original cleanup r cl =
     (if original = [] then cl
      else cl\<lparr>cl_error := original @
        (if r = OutcomeApplied then [] else ''; '' @ cleanup @ '' cleanup failed: '' @ cl_error cl)\<rparr>)"

definition set_episode :: "string \<Rightarrow> task_client \<Rightarrow> task_client" where
  "set_episode episode cl = cl\<lparr>cl_cursor := SetEpisode episode (cl_cursor cl)\<rparr>"

text \<open>What the generated messages of a task tell: the assigned Episode, whether the task is complete,
  and the request that has no payload.\<close>

record ('q, 'p) task_protocol =
  tp_assignment :: "'p response \<Rightarrow> string option"
  tp_complete :: "'p response \<Rightarrow> bool"
  tp_plain :: 'q

definition client_OpenSession ::
  "('q open_req \<Rightarrow> 'n \<Rightarrow> ('p open_rsp, 'w) attempt) \<Rightarrow> ('q open_req \<Rightarrow> 'p open_rsp \<Rightarrow> bool) \<Rightarrow>
   ('q, 'p) task_protocol \<Rightarrow> 'n \<times> 'n \<Rightarrow> 'p open_rsp \<Rightarrow> task_client \<Rightarrow> 'w \<Rightarrow>
   command_outcome \<times> 'p open_rsp \<times> task_client \<times> 'w" where
  "client_OpenSession wire valid tp fates rsp cl w =
     (let req = \<lparr>oq_request_id = co_open_request_id (cl_options cl), oq_client = co_identity (cl_options cl),
            oq_environment = co_environment (cl_options cl), oq_body = tp_plain tp\<rparr>
      in case client_Invoke (wire req) fates rsp (cl\<lparr>cl_error := []\<rparr>) w of
           (ok, rsp', cl', w') \<Rightarrow>
             if \<not> ok then (OutcomeUnknown, rsp', cl', w')
             else if \<not> CommandAccepted (or_reply rsp')
             then (OutcomeRejected, rsp', cl'\<lparr>cl_error := rpl_message (or_reply rsp')\<rparr>, w')
             else if rpl_applied_sequence (or_reply rsp') \<noteq> 0 \<or> rpl_phase (or_reply rsp') \<noteq> PhaseOpen \<or>
                     or_session_id rsp' = [] \<or> or_session_epoch rsp' = 0 \<or>
                     component (or_aiserver rsp') = [] \<or> instance_id (or_aiserver rsp') = [] \<or>
                     lifecycle_epoch (or_aiserver rsp') = 0 \<or> \<not> valid req rsp'
             then (OutcomeUnknown, rsp',
                   cl'\<lparr>cl_error := ''OpenSession identity or task assignment is invalid''\<rparr>, w')
             else (OutcomeApplied, rsp', cl'\<lparr>cl_cursor := cursor_Bind (or_session_id rsp')
                     (or_session_epoch rsp') (or_reply rsp') (cl_cursor cl')\<rparr>, w'))"

definition client_Init where
  "client_Init wire valid ts q rsp cl w =
     client_Exchange wire (\<lambda>req rsp. rpl_phase (reply rsp) = PhaseReady \<and> valid req rsp) (\<lambda>_. 0)
       (map (unstoppable \<circ> unlimited) ts) q rsp cl w"

definition begin_valid ::
  "('q, 'p) task_protocol \<Rightarrow> ('q request \<Rightarrow> 'p response \<Rightarrow> bool) \<Rightarrow> 'q request \<Rightarrow> 'p response \<Rightarrow> bool" where
  "begin_valid tp valid req rsp \<longleftrightarrow>
     (rpl_phase (reply rsp) = PhaseEpisodeRunning \<and> tp_assignment tp rsp \<noteq> None \<and> tp_assignment tp rsp \<noteq> Some [] \<or>
      rpl_phase (reply rsp) = PhaseTaskComplete \<and> tp_complete tp rsp) \<and> valid req rsp"

definition client_BeginEpisode where
  "client_BeginEpisode wire valid tp ts rsp cl w =
     (case client_Exchange wire (begin_valid tp valid)
             (\<lambda>rsp. if rpl_result (reply rsp) = ResultWait then 100 else 0) (map unlimited ts)
             (tp_plain tp) rsp cl w of
        None \<Rightarrow> None
      | Some (r, rsp', cl', w') \<Rightarrow>
          Some (r, rsp',
            (if r = OutcomeApplied \<and> client_Active cl'
             then set_episode (case tp_assignment tp rsp' of None \<Rightarrow> [] | Some e \<Rightarrow> e) cl' else cl'), w'))"

definition client_Update where
  "client_Update wire valid ts q rsp cl w =
     client_Exchange wire
       (\<lambda>req rsp. rpl_phase (reply rsp) \<in> {PhaseEpisodeRunning, PhaseEpisodeTerminal} \<and> valid req rsp)
       WaitDelay (map unlimited ts) q rsp cl w"

definition client_EndEpisode where
  "client_EndEpisode wire valid tp ts rsp cl w =
     (case client_Exchange wire (\<lambda>req rsp. rpl_phase (reply rsp) = PhaseReady \<and> valid req rsp) (\<lambda>_. 0)
             (map (unstoppable \<circ> unlimited) ts) (tp_plain tp) rsp cl w of
        None \<Rightarrow> None
      | Some (r, rsp', cl', w') \<Rightarrow>
          Some (r, rsp', (if r = OutcomeApplied then set_episode [] cl' else cl'), w'))"

definition client_AbortEpisode where
  "client_AbortEpisode wire ts q rsp cl w =
     (case client_Exchange wire (\<lambda>req rsp. rpl_phase (reply rsp) = PhaseAborted) WaitDelay
             (map unstoppable ts) q rsp cl w of
        None \<Rightarrow> None
      | Some (r, rsp', cl', w') \<Rightarrow>
          Some (r, rsp', PreserveFailure (cl_error cl) ''AbortEpisode'' r
            (if r = OutcomeApplied then set_episode [] cl' else cl'), w'))"

definition client_CloseSession where
  "client_CloseSession wire tp ts rsp cl w =
     (case client_Exchange wire (\<lambda>req rsp. rpl_phase (reply rsp) = PhaseClosed) (\<lambda>_. 0)
             (map (unstoppable \<circ> unlimited) ts) (tp_plain tp) rsp cl w of
        None \<Rightarrow> None
      | Some (r, rsp', cl', w') \<Rightarrow>
          Some (r, rsp', PreserveFailure (cl_error cl) ''CloseSession'' r cl', w'))"

section \<open>The drivers\<close>

text \<open>\<open>RunEpisode\<close>: one element per turn, whether the caller stops.\<close>

fun RunEpisode ::
  "('s \<Rightarrow> bool) \<Rightarrow> ('s \<Rightarrow> 'q \<times> 's) \<Rightarrow> ('q \<Rightarrow> 's \<Rightarrow> command_outcome \<times> 's) \<Rightarrow> ('s \<Rightarrow> bool \<times> 's) \<Rightarrow>
   bool list \<Rightarrow> 's \<Rightarrow> (command_outcome \<times> 's) option" where
  "RunEpisode terminal observe exchange act [] s = None"
| "RunEpisode terminal observe exchange act (stop # stops) s =
     (if stop then Some (OutcomeStopped, s)
      else case observe s of
             (q, s1) \<Rightarrow>
               (case exchange q s1 of
                  (r, s2) \<Rightarrow>
                    if r \<noteq> OutcomeApplied then Some (r, s2)
                    else if terminal s then Some (OutcomeApplied, s2)
                    else (case act s2 of
                            (False, s3) \<Rightarrow> Some (OutcomeRejected, s3)
                          | (True, s3) \<Rightarrow> RunEpisode terminal observe exchange act stops s3)))"

text \<open>\<open>RunSession\<close> over the operations of a binding.\<close>

record 's binding =
  b_open :: "'s \<Rightarrow> command_outcome \<times> 's"
  b_init :: "'s \<Rightarrow> command_outcome \<times> 's"
  b_begin :: "'s \<Rightarrow> command_outcome \<times> 's"
  b_episode :: "'s \<Rightarrow> command_outcome \<times> 's"
  b_end :: "'s \<Rightarrow> command_outcome \<times> 's"
  b_abort :: "'s \<Rightarrow> command_outcome \<times> 's"
  b_close :: "'s \<Rightarrow> command_outcome \<times> 's"
  b_active :: "'s \<Rightarrow> bool"
  b_can_close :: "'s \<Rightarrow> bool"
  b_complete :: "'s \<Rightarrow> bool"

definition finish_close :: "'s binding \<Rightarrow> command_outcome \<Rightarrow> 's \<Rightarrow> command_outcome \<times> 's" where
  "finish_close b outcome s =
     (let failed = (outcome = OutcomeRejected \<or> outcome = OutcomeWaitExpired)
      in if \<not> b_can_close b s then (outcome, s)
         else case b_close b s of
                (r, s1) \<Rightarrow> (if r \<noteq> OutcomeApplied then if failed then outcome else r else outcome, s1))"

definition session_finish :: "'s binding \<Rightarrow> command_outcome \<Rightarrow> 's \<Rightarrow> command_outcome \<times> 's" where
  "session_finish b outcome s =
     (let failed = (outcome = OutcomeRejected \<or> outcome = OutcomeWaitExpired)
      in if outcome = OutcomeUnknown then (outcome, s)
         else if \<not> b_active b s then finish_close b outcome s
         else case b_abort b s of
                (r, s1) \<Rightarrow>
                  if r \<noteq> OutcomeApplied then (if failed then outcome else r, s1)
                  else finish_close b outcome s1)"

fun session_loop :: "'s binding \<Rightarrow> bool list \<Rightarrow> 's \<Rightarrow> (command_outcome \<times> 's) option" where
  "session_loop b [] s = None"
| "session_loop b (stop # stops) s =
     (if stop then Some (session_finish b OutcomeStopped s)
      else case b_begin b s of
             (r1, s1) \<Rightarrow>
               if r1 \<noteq> OutcomeApplied then Some (session_finish b r1 s1)
               else if b_complete b s1 then Some (session_finish b OutcomeApplied s1)
               else (case b_episode b s1 of
                       (r2, s2) \<Rightarrow>
                         if r2 \<noteq> OutcomeApplied then Some (session_finish b r2 s2)
                         else (case b_end b s2 of
                                 (r3, s3) \<Rightarrow>
                                   if r3 \<noteq> OutcomeApplied then Some (session_finish b r3 s3)
                                   else session_loop b stops s3)))"

definition RunSession :: "'s binding \<Rightarrow> bool list \<Rightarrow> 's \<Rightarrow> (command_outcome \<times> 's) option" where
  "RunSession b stops s =
     (case b_open b s of
        (r, s1) \<Rightarrow>
          if r \<noteq> OutcomeApplied then Some (r, s1)
          else (case b_init b s1 of
                  (r2, s2) \<Rightarrow>
                    if r2 \<noteq> OutcomeApplied then Some (session_finish b r2 s2) else session_loop b stops s2))"

end
