(* ===== verification/Task_Client_Protocol.thy ===== *)
theory Task_Client_Protocol
  imports Task_Client Command_Protocol
begin

text \<open>
  The client SDK on top of an unreliable network: the transport may send a command twice, and the caller
  still learns what happened on the server.
\<close>

section \<open>What one call tells\<close>

text \<open>The command was applied, once.\<close>

definition once :: "('q, 'p) codec \<Rightarrow> 'q request \<Rightarrow> session \<Rightarrow> session \<Rightarrow> bool" where
  "once codec req s s' \<longleftrightarrow>
     (\<exists>rsp s0. committed codec req s0 rsp s' \<and> session_id s0 = session_id s \<and>
        session_epoch s0 = session_epoch s \<and> last_command_sequence s' = last_command_sequence s + 1)"

definition told ::
  "('q, 'p) codec \<Rightarrow> cursor \<Rightarrow> 'q request \<Rightarrow> session \<Rightarrow> 'p response option \<Rightarrow> session \<Rightarrow> bool" where
  "told codec c req s answered s' \<longleftrightarrow>
     (case answered of
        None \<Rightarrow> protocol_state s' = protocol_state s \<or> once codec req s s'
      | Some rsp \<Rightarrow>
          refused s rsp s' \<or>
          once codec req s s' \<and> (\<exists>c'. AcceptCommandReply c (reply rsp) = Some c' \<and> synced c' s'))"

lemma accepted_not_wait:
  "AcceptCommandReply c r = Some c' \<Longrightarrow> \<not> IsCommandWait c r \<and> \<not> IsConclusiveRejected c r"
  by (auto simp: AcceptCommandReply_def CommandAccepted_def IsCommandWait_def IsConclusiveRejected_def split: if_splits)

lemma refused_not_accepted: "refused s rsp s' \<Longrightarrow> AcceptCommandReply c (reply rsp) = None"
  by (auto simp: AcceptCommandReply_def CommandAccepted_def refused_def)

text \<open>Being applied only concerns the protocol state.\<close>

lemma FillReply_phase: "phase s2 = phase s \<Longrightarrow> FillReply s2 n r e m rsp = FillReply s n r e m rsp"
  by (simp add: FillReply_def)

lemma replay_Store_twice [simp]: "replay_Store n p r (replay_Store n p r y) = replay_Store n p r y"
  by (simp add: replay_Store_def)

lemma committed_again:
  assumes c: "committed w req s rsp s1" and p: "protocol_state s2 = protocol_state s1"
  shows "committed w req s rsp s2"
proof -
  let ?n = "cmd_sequence (command req)"
  obtain m rsp0 x where x: "(rsp, s1) = CommitCommand w m req rsp0 x" "session_id x = session_id s"
    "session_epoch x = session_epoch s" "phase x \<noteq> PhaseUnspecified" using c by (auto simp: committed_def)
  note y = x(1) [unfolded CommitCommand_def Let_def prod.inject]
  have rsp: "rsp = FillReply x ?n ResultApplied ErrorUnspecified m rsp0"
    unfolding conjunct1 [OF y] by (rule FillReply_phase) simp
  have s1: "s1 = x\<lparr>last_command_sequence := ?n, command_replay :=
      replay_Store ?n (ser_request w req) (ser_response w rsp) (command_replay x)\<rparr>"
    unfolding conjunct2 [OF y] conjunct1 [OF y] by simp
  have n: "last_command_sequence s2 = ?n" and ph: "phase s2 = phase x"
    and cr: "command_replay s2 = replay_Store ?n (ser_request w req) (ser_response w rsp) (command_replay x)"
    and i: "session_id s2 = session_id s" "session_epoch s2 = session_epoch s"
    using p x(2,3) by (simp_all add: s1 protocol_state_def)
  have f: "FillReply (s2\<lparr>last_command_sequence := ?n\<rparr>) ?n ResultApplied ErrorUnspecified m rsp0 = rsp"
    unfolding rsp by (rule FillReply_phase) (simp add: ph)
  have "s2\<lparr>last_command_sequence := last_command_sequence s2, command_replay := command_replay s2\<rparr> = s2" by simp
  then have "s2\<lparr>last_command_sequence := ?n, command_replay := command_replay s2\<rparr> = s2" unfolding n .
  moreover have "replay_Store ?n (ser_request w req) (ser_response w rsp) (command_replay s2) = command_replay s2"
    unfolding cr by simp
  ultimately have "CommitCommand w m req rsp0 s2 = (rsp, s2)"
    unfolding CommitCommand_def Let_def f by simp
  with i ph x(4) show ?thesis unfolding committed_def by (metis (no_types))
qed

lemma once_cong: "protocol_state s2 = protocol_state s1 \<Longrightarrow> once w req s s1 \<Longrightarrow> once w req s s2"
  unfolding once_def using committed_again by (fastforce simp: protocol_state_def)

lemma once_from: "protocol_state s0 = protocol_state s \<Longrightarrow> once w req s0 s' \<Longrightarrow> once w req s s'"
  unfolding once_def protocol_state_def by auto

lemma told_from:
  assumes "protocol_state s0 = protocol_state s" "told codec c req s0 a s'"
  shows "told codec c req s a s'"
proof (cases a)
  case None
  with assms once_from [OF assms(1)] show ?thesis by (auto simp: told_def)
next
  case (Some rsp)
  have "refused s0 rsp s' \<Longrightarrow> refused s rsp s'" using assms(1) by (simp add: refused_def protocol_state_def)
  with Some assms(2) once_from [OF assms(1)] show ?thesis by (auto simp: told_def)
qed

section \<open>The exchange loop over calls that tell\<close>

text \<open>\<open>sess\<close> and \<open>valid\<close> look at whatever world the loop threads.\<close>

definition outcome_ok ::
  "('q, 'p) codec \<Rightarrow> 'q request \<Rightarrow> cursor \<Rightarrow> session \<Rightarrow> command_outcome \<Rightarrow> cursor \<Rightarrow> session \<Rightarrow> bool" where
  "outcome_ok codec req c s r c' s' \<longleftrightarrow>
     (case r of
        OutcomeApplied \<Rightarrow> once codec req s s' \<and> synced c' s'
      | OutcomeUnknown \<Rightarrow> c' = c \<and> (protocol_state s' = protocol_state s \<or> once codec req s s')
      | _ \<Rightarrow> c' = c \<and> protocol_state s' = protocol_state s)"

lemma outcome_ok_from:
  assumes "protocol_state s0 = protocol_state s" "outcome_ok codec req c s0 r c' s'"
  shows "outcome_ok codec req c s r c' s'"
  using assms(2) once_from [OF assms(1)] by (auto simp: outcome_ok_def assms(1) split: command_outcome.splits)

lemma exchange_told:
  fixes sess :: "'v \<Rightarrow> session" and valid :: "'v \<Rightarrow> bool"
  assumes step: "\<And>n V. valid V \<Longrightarrow> synced c (sess V) \<Longrightarrow> replay_ok codec (sess V) \<Longrightarrow>
      valid (snd (invoke n V)) \<and> replay_ok codec (sess (snd (invoke n V))) \<and>
      told codec c req (sess V) (fst (invoke n V)) (sess (snd (invoke n V)))"
    and "Exchange invoke acceptable delay ts c V = Some (r, c', V')"
    and "valid V" "synced c (sess V)" "replay_ok codec (sess V)"
  shows "valid V' \<and> replay_ok codec (sess V') \<and> outcome_ok codec req c (sess V) r c' (sess V')"
  using assms(2-5)
proof (induction ts arbitrary: V)
  case (Cons t ts)
  show ?case
  proof (cases "turn_stopped t \<or> turn_expired t")
    case True
    with Cons.prems show ?thesis by (auto simp: outcome_ok_def split: if_splits)
  next
    case False
    obtain a W where i: "invoke (turn_net t) V = (a, W)" by force
    have st: "valid W" "replay_ok codec (sess W)" "told codec c req (sess V) a (sess W)"
      using step [OF Cons.prems(2-4), of "turn_net t"] by (simp_all add: i)
    show ?thesis
    proof (cases a)
      case None
      with Cons.prems(1) False i st show ?thesis by (auto simp: outcome_ok_def told_def)
    next
      case (Some rsp)
      show ?thesis
      proof (cases "refused (sess V) rsp (sess W)")
        case ref: True
        then have p: "protocol_state (sess W) = protocol_state (sess V)" by (simp add: refused_def)
        note na = refused_not_accepted [OF ref]
        show ?thesis
        proof (cases "0 < delay rsp \<and> IsCommandWait c (reply rsp)")
          case True
          with Cons.prems(1) False i Some
          have e: "Exchange invoke acceptable delay ts c W = Some (r, c', V')" by simp
          have "synced c (sess W)" using synced_cong [OF p] Cons.prems(3) by simp
          note ih = Cons.IH [OF e st(1) this st(2)]
          from ih outcome_ok_from [OF p] show ?thesis by blast
        next
          case stop: False
          have "answer acceptable (delay rsp) c rsp =
              (if IsConclusiveRejected c (reply rsp) then OutcomeRejected else OutcomeUnknown, c)"
            by (simp add: answer_def na)
          with Cons.prems(1) False i Some stop st p show ?thesis
            by (auto simp: outcome_ok_def split: if_splits)
        qed
      next
        case False': False
        then obtain c2 where c2: "once codec req (sess V) (sess W)" "AcceptCommandReply c (reply rsp) = Some c2"
          "synced c2 (sess W)" using st(3) Some by (auto simp: told_def)
        note nw = accepted_not_wait [OF c2(2)]
        have "Some (r, c', V') = Some (case answer acceptable (delay rsp) c rsp of (r, c') \<Rightarrow> (r, c', W))"
          using Cons.prems(1) False i Some nw by (auto split: prod.splits)
        then have "V' = W" "(r, c') = answer acceptable (delay rsp) c rsp" by (auto split: prod.splits)
        with c2 nw st show ?thesis by (auto simp: answer_def outcome_ok_def split: if_splits)
      qed
    qed
  qed
qed simp
section \<open>The transport over a network that loses messages\<close>

datatype fate = Answered | NoRequest grpc_status string | NoReply grpc_status string

definition failed_status :: "grpc_status \<Rightarrow> grpc_status" where
  "failed_status st = (if st = GrpcOk then GrpcUnavailable else st)"

definition over_wire ::
  "('q request \<Rightarrow> 'w \<Rightarrow> 'p response \<times> 'w) \<Rightarrow> 'q request \<Rightarrow> fate \<Rightarrow> ('p response, 'w) attempt" where
  "over_wire serve req f w =
     (case f of
        Answered \<Rightarrow> ((GrpcOk, [], fst (serve req w)), snd (serve req w))
      | NoRequest st m \<Rightarrow> ((failed_status st, m, empty_response), w)
      | NoReply st m \<Rightarrow> ((failed_status st, m, empty_response), snd (serve req w)))"

lemma failed_status_not_ok [simp]: "failed_status st \<noteq> GrpcOk" "GrpcOk \<noteq> failed_status st"
  by (simp_all add: failed_status_def)

text \<open>What an attempt hands up: its response, when the status is OK.\<close>

definition handed_up :: "(grpc_status \<times> string \<times> 'r) \<Rightarrow> 'r option" where
  "handed_up x = (case x of (st, _, rsp) \<Rightarrow> if st = GrpcOk then Some rsp else None)"

text \<open>A call of the transport is one attempt, or two of which the first handed up nothing.\<close>

lemma one_call_attempts:
  obtains (unsent) "fst (one_call invoke fates W) = None" "snd (snd (one_call invoke fates W)) = snd W"
    | (sent) x w where "invoke (fst fates) (snd W) = (x, w)"
      "fst (one_call invoke fates W) = handed_up x" "snd (snd (one_call invoke fates W)) = w"
    | (sent_again) x1 w1 x w where "invoke (fst fates) (snd W) = (x1, w1)" "handed_up x1 = None"
      "invoke (snd fates) w1 = (x, w)"
      "fst (one_call invoke fates W) = handed_up x" "snd (snd (one_call invoke fates W)) = w"
proof -
  obtain rsp cl w0 where W: "W = ((rsp, cl), w0)" by (metis prod_cases3 prod.collapse)
  obtain st1 m1 r1 w1 where i1: "invoke (fst fates) w0 = ((st1, m1, r1), w1)" by (metis surj_pair)
  obtain st2 m2 r2 w2 where i2: "invoke (snd fates) w1 = ((st2, m2, r2), w2)" by (metis surj_pair)
  note d = one_call_def client_Invoke_def InvokeUnary_def Let_def handed_up_def
  show thesis
  proof (cases "tr_connected (cl_transport cl)")
    case False
    then show thesis by (intro unsent) (simp_all add: W d)
  next
    case True
    show thesis
    proof (cases "st1 = GrpcOk \<or> \<not> retryable_status st1")
      case c: True
      then show thesis using True by (intro sent [of "(st1, m1, r1)" w1]) (auto simp: W d i1)
    next
      case False
      then show thesis using True
        by (intro sent_again [of "(st1, m1, r1)" w1 "(st2, m2, r2)" w2]) (auto simp: W d i1 i2)
    qed
  qed
qed

context command_server
begin

lemma attempt_told:
  assumes "valid w" "synced c (sess w)" "replay_ok codec (sess w)" "command req = FillCommand c"
    and "over_wire serve req f w = (x, w')"
  shows "valid w' \<and> replay_ok codec (sess w') \<and> told codec c req (sess w) (handed_up x) (sess w')"
proof -
  let ?w = "snd (serve req w)" and ?r = "fst (serve req w)"
  have v: "valid ?w" using assms(1) by (rule valid_serve)
  have n: "cmd_sequence (command req) = last_command_sequence (sess w) + 1"
    using assms(2,4) by (simp add: synced_def FillCommand_def)
  have served: "replay_ok codec (sess ?w) \<and> told codec c req (sess w) (Some ?r) (sess ?w) \<and>
      told codec c req (sess w) None (sess ?w)"
  proof (cases rule: serve_synced [OF assms(1-4), case_names applied refused])
    case applied
    note e = committed_effect [OF applied codec [OF assms(1)]]
    have o: "once codec req (sess w) (sess ?w)" using applied e(3) n unfolding once_def by auto
    have "synced (c\<lparr>cur_phase := phase (sess ?w), next_sequence := next_sequence c + 1\<rparr>) (sess ?w)"
      using assms(2) e n by (simp add: synced_def)
    moreover have "AcceptCommandReply c (reply ?r) =
        Some (c\<lparr>cur_phase := phase (sess ?w), next_sequence := next_sequence c + 1\<rparr>)"
      using assms(2,4) e by (simp add: AcceptCommandReply_def CommandAccepted_def HasConcretePhase_def FillCommand_def)
    ultimately show ?thesis using o e(4) by (simp add: told_def)
  next
    case refused
    then have "protocol_state (sess ?w) = protocol_state (sess w)" by (simp add: refused_def)
    with refused assms(3) replay_ok_cong show ?thesis by (auto simp: told_def)
  qed
  with v assms show ?thesis
    by (cases f) (auto simp: over_wire_def handed_up_def told_def)
qed

text \<open>After the command was applied and its reply lost, a second attempt applies nothing more.\<close>

lemma resent_told:
  assumes v: "valid w1" and o: "once codec req s (sess w1)" and c: "command req = FillCommand c"
    and s: "synced c s" and r: "replay_ok codec (sess w1)" and x: "over_wire serve req f w1 = (x, w')"
  shows "valid w' \<and> replay_ok codec (sess w') \<and> told codec c req s (handed_up x) (sess w')"
proof -
  let ?w = "snd (serve req w1)" and ?r = "fst (serve req w1)"
  obtain rsp s0 where s0: "committed codec req s0 rsp (sess w1)" "session_id s0 = session_id s"
    "session_epoch s0 = session_epoch s" using o by (auto simp: once_def)
  obtain c' where c': "AcceptCommandReply c (reply ?r) = Some c'" "synced c' (sess ?w)"
    "protocol_state (sess ?w) = protocol_state (sess w1)"
    using retry_after_unknown [OF v s0(1) c] s0(2,3) s by (auto simp: synced_def)
  have "once codec req s (sess ?w)" using once_cong [OF c'(3) o] .
  with c' replay_ok_cong [OF c'(3), of codec] v o r valid_serve [OF v] x show ?thesis
    by (cases f) (auto simp: over_wire_def handed_up_def told_def)
qed

lemma call_told:
  assumes "valid (snd W)" "synced c (sess (snd W))" "replay_ok codec (sess (snd W))" "command req = FillCommand c"
  shows "valid (snd (snd (one_call (over_wire serve req) fates W))) \<and>
    replay_ok codec (sess (snd (snd (one_call (over_wire serve req) fates W)))) \<and>
    told codec c req (sess (snd W)) (fst (one_call (over_wire serve req) fates W))
      (sess (snd (snd (one_call (over_wire serve req) fates W))))"
proof (cases rule: one_call_attempts [of "over_wire serve req" fates W, case_names unsent sent again])
  case unsent
  with assms show ?thesis by (simp add: told_def)
next
  case (sent x w)
  from attempt_told [OF assms sent(1)] sent(2,3) show ?thesis by simp
next
  case (again x1 w1 x w)
  from attempt_told [OF assms again(1)] again(2)
  have 1: "valid w1" "replay_ok codec (sess w1)" and
    "protocol_state (sess w1) = protocol_state (sess (snd W)) \<or> once codec req (sess (snd W)) (sess w1)"
    by (simp_all add: told_def)
  from this(3) show ?thesis
  proof
    assume p: "protocol_state (sess w1) = protocol_state (sess (snd W))"
    then have "synced c (sess w1)" using assms(2) synced_cong by blast
    note t = attempt_told [OF 1(1) this 1(2) assms(4) again(3)]
    show ?thesis using t told_from [OF p conjunct2 [OF conjunct2 [OF t]]] again(4,5) by simp
  next
    assume "once codec req (sess (snd W)) (sess w1)"
    from resent_told [OF 1(1) this assms(4,2) 1(2) again(3)] again(4,5) show ?thesis by simp
  qed
qed

text \<open>A whole command of the client.\<close>

lemma client_outcome:
  assumes "client_Exchange (over_wire serve) acceptable delay ts q rsp cl w = Some (r, rsp', cl', w')"
    and "valid w" "synced (cl_cursor cl) (sess w)" "replay_ok codec (sess w)"
  shows "valid w' \<and> replay_ok codec (sess w') \<and>
    outcome_ok codec \<lparr>command = FillCommand (cl_cursor cl), body = q\<rparr> (cl_cursor cl) (sess w) r (cl_cursor cl') (sess w')"
proof -
  let ?req = "\<lparr>command = FillCommand (cl_cursor cl), body = q\<rparr>"
  let ?W = "((rsp, cl\<lparr>cl_error := []\<rparr>), w)"
  obtain c' cl1 where e: "Exchange (one_call (over_wire serve ?req)) (acceptable ?req) delay ts (cl_cursor cl) ?W =
      Some (r, c', (rsp', cl1), w')" and c: "cl_cursor cl' = c'"
    using assms(1) by (auto simp: client_Exchange_def Let_def split: option.splits)
  have "valid (snd ((rsp', cl1), w')) \<and> replay_ok codec (sess (snd ((rsp', cl1), w'))) \<and>
    outcome_ok codec ?req (cl_cursor cl) (sess (snd ?W)) r c' (sess (snd ((rsp', cl1), w')))"
    by (rule exchange_told [where sess = "\<lambda>W. sess (snd W)" and valid = "\<lambda>W. valid (snd W)", OF call_told e])
      (use assms in simp_all)
  then show ?thesis by (simp add: c)
qed

end

end
