(* ===== verification/Call_Log.thy ===== *)
theory Call_Log
  imports Task_Client_Protocol
begin

text \<open>
  A server that logs the calls that reach it.  The log is not part of the program: it lets a statement
  count how often a command was carried out, where the session only remembers its last sequence.
\<close>

section \<open>Logging\<close>

text \<open>An entry is the world the call met, the response it was given and the world it left.\<close>

type_synonym ('p, 'w) call_log = "('w \<times> 'p response \<times> 'w) list"

definition logged ::
  "('q request \<Rightarrow> 'w \<Rightarrow> 'p response \<times> 'w) \<Rightarrow> 'q request \<Rightarrow> ('p, 'w) call_log \<times> 'w \<Rightarrow>
   'p response \<times> ('p, 'w) call_log \<times> 'w" where
  "logged serve req V =
     (case serve req (snd V) of (rsp, w') \<Rightarrow> (rsp, fst V @ [(snd V, rsp, w')], w'))"

lemma logged_simps [simp]:
  "fst (logged serve req V) = fst (serve req (snd V))"
  "snd (snd (logged serve req V)) = snd (serve req (snd V))"
  "fst (snd (logged serve req V)) = fst V @ [(snd V, serve req (snd V))]"
  by (simp_all add: logged_def split: prod.split)

definition applied_entry :: "'w \<times> 'p response \<times> 'w \<Rightarrow> bool" where
  "applied_entry e \<longleftrightarrow> rpl_result (reply (fst (snd e))) = ResultApplied"

text \<open>The response a replayed command is given.\<close>

definition as_replayed :: "'p response \<Rightarrow> 'p response" where
  "as_replayed rsp = rsp\<lparr>reply := (reply rsp)\<lparr>rpl_result := ResultAlreadyApplied,
     rpl_message := ''command was already applied''\<rparr>\<rparr>"

lemma as_replayed_not_applied [simp]: "rpl_result (reply (as_replayed rsp)) \<noteq> ResultApplied"
  by (simp add: as_replayed_def)

lemma Exchange_keeps:
  assumes "\<And>n V. J V \<Longrightarrow> J (snd (invoke n V))"
    and "Exchange invoke acceptable delay ts c V = Some (r, c', V')" "J V"
  shows "J V'"
  using assms(2,3)
proof (induction ts arbitrary: V)
  case (Cons t ts)
  obtain a W where i: "invoke (turn_net t) V = (a, W)" by force
  then have "J W" using assms(1) Cons.prems(2) by (metis snd_conv)
  with Cons i show ?case by (auto split: if_splits option.splits prod.splits)
qed simp

text \<open>The command is sent any number of times, and each time its outcome stays unknown.\<close>

fun unknown_calls ::
  "('n \<Rightarrow> 'w \<Rightarrow> 'p response option \<times> 'w) \<Rightarrow> ('p response \<Rightarrow> bool) \<Rightarrow> ('p response \<Rightarrow> int) \<Rightarrow>
   'n turn list list \<Rightarrow> cursor \<Rightarrow> 'w \<Rightarrow> 'w option" where
  "unknown_calls invoke acceptable delay [] c w = Some w"
| "unknown_calls invoke acceptable delay (ts # tss) c w =
     (case Exchange invoke acceptable delay ts c w of
        Some (OutcomeUnknown, c', w') \<Rightarrow> unknown_calls invoke acceptable delay tss c w'
      | _ \<Rightarrow> None)"

lemma unknown_calls_keep:
  assumes "\<And>n V. J V \<Longrightarrow> J (snd (invoke n V))"
    and "unknown_calls invoke acceptable delay tss c V = Some V'" "J V"
  shows "J V'"
  using assms(2,3)
proof (induction tss arbitrary: V)
  case (Cons ts tss)
  from Cons.prems(1) obtain c' W where e: "Exchange invoke acceptable delay ts c V = Some (OutcomeUnknown, c', W)"
    "unknown_calls invoke acceptable delay tss c W = Some V'"
    by (auto split: option.splits prod.splits command_outcome.splits)
  have "J W" by (rule Exchange_keeps [OF assms(1) e(1) Cons.prems(2)])
  with Cons.IH [OF e(2)] show ?case by blast
qed simp

lemma over_network_keeps: "J V \<Longrightarrow> J (snd (serve V)) \<Longrightarrow> J (snd (over_network serve n V))"
  by (cases n) simp_all

lemma over_wire_keeps: "J V \<Longrightarrow> J (snd (serve req V)) \<Longrightarrow> J (snd (over_wire serve req f V))"
  by (cases f) (simp_all add: over_wire_def)

lemma one_call_keeps:
  assumes "\<And>f V. J V \<Longrightarrow> J (snd (invoke f V))" "J (snd V)"
  shows "J (snd (snd (one_call invoke fates V)))"
proof (cases rule: one_call_attempts [of invoke fates V, case_names unsent sent again])
  case unsent
  with assms show ?thesis by simp
next
  case (sent x w)
  with assms show ?thesis by (metis snd_conv)
next
  case (again x1 w1 x w)
  with assms show ?thesis by (metis snd_conv)
qed

section \<open>How often a command is carried out\<close>

context command_server
begin

text \<open>
  However often the same command arrives: it was carried out at most once, and exactly once when the
  session moved.
\<close>

definition at_most_once :: "'q request \<Rightarrow> session \<Rightarrow> ('p, 'w) call_log \<times> 'w \<Rightarrow> bool" where
  "at_most_once req s V \<longleftrightarrow>
     valid (snd V) \<and> replay_ok codec (sess (snd V)) \<and>
     (\<forall>(w, r) \<in> set (fst V). valid w \<and> r = serve req w) \<and>
     (filter applied_entry (fst V) = [] \<and> protocol_state (sess (snd V)) = protocol_state s \<or>
      (\<exists>w rsp w' s0. filter applied_entry (fst V) = [(w, rsp, w')] \<and>
         committed codec req s0 rsp (sess (snd V)) \<and> session_id s0 = session_id s \<and>
         session_epoch s0 = session_epoch s \<and>
         last_command_sequence (sess (snd V)) = last_command_sequence s + 1))"

lemma at_most_once_start:
  "valid w \<Longrightarrow> replay_ok codec (sess w) \<Longrightarrow> at_most_once req (sess w) ([], w)"
  by (simp add: at_most_once_def)

lemma logged_at_most_once:
  assumes J: "at_most_once req s V" and c: "synced c s" "command req = FillCommand c"
  shows "at_most_once req s (snd (logged serve req V))"
proof -
  let ?w = "snd (serve req (snd V))" and ?r = "fst (serve req (snd V))"
  have v: "valid (snd V)" "valid ?w" "replay_ok codec (sess (snd V))"
    and g: "\<forall>(w, r) \<in> set (fst V). valid w \<and> r = serve req w"
    using J valid_serve by (auto simp: at_most_once_def)
  consider (fresh) "filter applied_entry (fst V) = []" "protocol_state (sess (snd V)) = protocol_state s"
    | (ran) w rsp w' s0 where "filter applied_entry (fst V) = [(w, rsp, w')]"
      "committed codec req s0 rsp (sess (snd V))" "session_id s0 = session_id s"
      "session_epoch s0 = session_epoch s" "last_command_sequence (sess (snd V)) = last_command_sequence s + 1"
    using J by (auto simp: at_most_once_def)
  then show ?thesis
  proof cases
    case fresh
    have sy: "synced c (sess (snd V))" using fresh(2) c(1) synced_cong by blast
    show ?thesis
    proof (cases rule: serve_synced [OF v(1) sy v(3) c(2), case_names applied refused])
      case applied
      note e = committed_effect [OF applied codec [OF v(1)]]
      have "session_id (sess (snd V)) = session_id s" "session_epoch (sess (snd V)) = session_epoch s"
        using fresh(2) by (simp_all add: protocol_state_def)
      moreover have "last_command_sequence (sess ?w) = last_command_sequence s + 1"
        using e(3) c by (simp add: synced_def FillCommand_def)
      moreover have "filter applied_entry (fst (snd (logged serve req V))) = [(snd V, ?r, ?w)]"
        using fresh(1) e(5) by (simp add: applied_entry_def)
      ultimately have "\<exists>w rsp w' s0. filter applied_entry (fst (snd (logged serve req V))) = [(w, rsp, w')] \<and>
          committed codec req s0 rsp (sess ?w) \<and> session_id s0 = session_id s \<and>
          session_epoch s0 = session_epoch s \<and> last_command_sequence (sess ?w) = last_command_sequence s + 1"
        using applied by (metis prod.collapse)
      then show ?thesis using e(4) v g unfolding at_most_once_def
        by (simp del: filter_append add: ball_Un)
    next
      case refused
      then have p: "protocol_state (sess ?w) = protocol_state s" using fresh(2) by (simp add: refused_def)
      have "rpl_result (reply ?r) \<noteq> ResultApplied" using refused by (auto simp: refused_def)
      moreover have "replay_ok codec (sess ?w)" using replay_ok_cong v(3) p fresh(2) by metis
      ultimately show ?thesis using fresh(1) p v g by (auto simp: at_most_once_def applied_entry_def)
    qed
  next
    case ran
    have "cmd_session_id (command req) = session_id (sess (snd V))"
      using committed_effect(1) [OF ran(2) codec [OF v(1)]] ran(3) c by (simp add: synced_def FillCommand_def)
    note r = retransmission [OF v(1) ran(2) this]
    have "rpl_result (reply ?r) \<noteq> ResultApplied" using r(1) by simp
    moreover have "committed codec req s0 rsp (sess ?w)" by (rule committed_again [OF ran(2) r(2)])
    moreover have "replay_ok codec (sess ?w)" "last_command_sequence (sess ?w) = last_command_sequence s + 1"
      using replay_ok_cong [OF r(2), of codec] v(3) r(2) ran(5) by (simp_all add: protocol_state_def)
    ultimately show ?thesis using ran(1,3,4) v g unfolding at_most_once_def by (auto simp: applied_entry_def)
  qed
qed

lemma at_most_once_moved:
  assumes "at_most_once req s V"
  shows "(filter applied_entry (fst V) = []) = (last_command_sequence (sess (snd V)) = last_command_sequence s)"
    and "length (filter applied_entry (fst V)) \<le> 1"
  using assms by (auto simp: at_most_once_def protocol_state_def)

lemma logged_server: "command_server codec (\<lambda>V. sess (snd V)) (\<lambda>V. valid (snd V)) (logged serve)"
proof unfold_locales
  fix V :: "('p, 'w) call_log \<times> 'w" and c rsp req
  assume "valid (snd V)" "CheckCommand codec (sess (snd V)) req empty_response = (c, rsp)" "c \<noteq> CheckProceed"
    "cmd_session_id (command req) = session_id (sess (snd V))"
  from serve_checked [OF this] show "fst (logged serve req V) = rsp \<and>
      protocol_state (sess (snd (snd (logged serve req V)))) = protocol_state (sess (snd V))" by simp
qed (simp_all add: codec valid_serve serve_proceed)

lemma network_at_most_once:
  assumes "synced c s" "command req = FillCommand c" "at_most_once req s V"
  shows "at_most_once req s (snd (over_network (logged serve req) n V))"
  by (rule over_network_keeps [where J = "at_most_once req s" and serve = "logged serve req",
        OF assms(3) logged_at_most_once [OF assms(3,1,2)]])

text \<open>After it was carried out the command is answered with the response of that time.\<close>

lemma logged_again:
  assumes J: "at_most_once req s (entries, w)" and c: "synced c s" "command req = FillCommand c"
    and ran: "filter applied_entry entries \<noteq> []"
  obtains w0 rsp w1 where "filter applied_entry entries = [(w0, rsp, w1)]"
    "fst (serve req w) = as_replayed rsp"
    "AcceptCommandReply c (reply (as_replayed rsp)) =
       Some (c\<lparr>cur_phase := phase (sess (snd (serve req w))), next_sequence := next_sequence c + 1\<rparr>)"
    "synced (c\<lparr>cur_phase := phase (sess (snd (serve req w))), next_sequence := next_sequence c + 1\<rparr>)
       (sess (snd (serve req w)))"
    "protocol_state (sess (snd (serve req w))) = protocol_state (sess w)"
proof -
  obtain w0 rsp w1 s0 where d: "filter applied_entry entries = [(w0, rsp, w1)]" "committed codec req s0 rsp (sess w)"
    "session_id s0 = session_id s" "session_epoch s0 = session_epoch s"
    and v: "valid w" using J ran by (auto simp: at_most_once_def)
  note e = committed_effect [OF d(2) codec [OF v]]
  have i: "cmd_session_id (command req) = session_id (sess w)"
    using e(1) d(3) c by (simp add: synced_def FillCommand_def)
  note r = retransmission [OF v d(2) i]
  have p: "phase (sess (snd (serve req w))) = phase (sess w)" using r(2) by (simp add: protocol_state_def)
  have "AcceptCommandReply c (reply (as_replayed rsp)) =
      Some (c\<lparr>cur_phase := phase (sess w), next_sequence := next_sequence c + 1\<rparr>)"
    using e(6-9) c by (simp add: as_replayed_def AcceptCommandReply_def CommandAccepted_def HasConcretePhase_def
        FillCommand_def)
  moreover have "synced (c\<lparr>cur_phase := phase (sess w), next_sequence := next_sequence c + 1\<rparr>)
      (sess (snd (serve req w)))"
    using d(3,4) e c r(2) by (auto simp: synced_def FillCommand_def protocol_state_def)
  ultimately show thesis using d(1) r by (intro that) (simp_all add: as_replayed_def p)
qed

text \<open>An answer of a server that carried the command out, now or earlier, is accepted by the client.\<close>

lemma logged_accepted:
  assumes J: "at_most_once req s V" and c: "synced c s" "command req = FillCommand c"
    and d: "filter applied_entry (fst (snd (logged serve req V))) \<noteq> []"
  shows "\<exists>c'. AcceptCommandReply c (reply (fst (serve req (snd V)))) = Some c' \<and>
    synced c' (sess (snd (serve req (snd V))))"
proof (cases "filter applied_entry (fst V) = []")
  case True
  let ?w = "snd (serve req (snd V))" and ?r = "fst (serve req (snd V))"
  have v: "valid (snd V)" "replay_ok codec (sess (snd V))" and p: "protocol_state (sess (snd V)) = protocol_state s"
    using J True by (auto simp: at_most_once_def)
  have sy: "synced c (sess (snd V))" using synced_cong [OF p] c(1) by simp
  have "rpl_result (reply ?r) = ResultApplied" using True d by (auto simp: applied_entry_def split: if_splits)
  then have "committed codec req (sess (snd V)) ?r (sess ?w)"
    by (cases rule: serve_synced [OF v(1) sy v(2) c(2)]) (simp_all add: refused_def)
  note e = committed_effect [OF this codec [OF v(1)]]
  have "AcceptCommandReply c (reply ?r) = Some (c\<lparr>cur_phase := phase (sess ?w), next_sequence := next_sequence c + 1\<rparr>)"
    using c(2) sy e by (simp add: AcceptCommandReply_def CommandAccepted_def HasConcretePhase_def FillCommand_def synced_def)
  moreover have "synced (c\<lparr>cur_phase := phase (sess ?w), next_sequence := next_sequence c + 1\<rparr>) (sess ?w)"
    using sy c(2) e by (simp add: synced_def FillCommand_def)
  ultimately show ?thesis by blast
next
  case False
  obtain entries w where V: "V = (entries, w)" by (cases V)
  with False logged_again [OF J [unfolded V] c] show ?thesis by (metis fst_conv snd_conv)
qed

lemma logged_refused:
  assumes J: "at_most_once req s V" and c: "synced c s" "command req = FillCommand c"
    and d: "filter applied_entry (fst (snd (logged serve req V))) = []"
  shows "AcceptCommandReply c (reply (fst (serve req (snd V)))) = None"
proof -
  have v: "valid (snd V)" "replay_ok codec (sess (snd V))" and p: "protocol_state (sess (snd V)) = protocol_state s"
    using J d by (auto simp: at_most_once_def)
  have "rpl_result (reply (fst (serve req (snd V)))) \<noteq> ResultApplied"
    using d by (auto simp: applied_entry_def split: if_splits)
  moreover have "synced c (sess (snd V))" using synced_cong [OF p] c(1) by simp
  ultimately have "refused (sess (snd V)) (fst (serve req (snd V))) (sess (snd (serve req (snd V))))"
    using serve_synced [OF v(1) _ v(2) c(2)] committed_effect(5) [OF _ codec [OF v(1)]] by metis
  then show ?thesis by (rule refused_not_accepted)
qed

text \<open>The outcome of the last call, after any number of calls with an unknown outcome.\<close>

lemma exchange_counts:
  assumes e: "Exchange (over_network (logged serve req)) acceptable delay ts c V = Some (r, c', V')"
    and J: "at_most_once req s V" and c: "synced c s" "command req = FillCommand c"
  shows "at_most_once req s V' \<and>
    (r = OutcomeApplied \<longrightarrow> filter applied_entry (fst V') \<noteq> [] \<and> synced c' (sess (snd V'))) \<and>
    (r = OutcomeRejected \<longrightarrow> filter applied_entry (fst V') = []) \<and> (r \<noteq> OutcomeApplied \<longrightarrow> c' = c)"
  using e J
proof (induction ts arbitrary: V)
  case (Cons t ts)
  let ?V = "snd (logged serve req V)" and ?r = "fst (serve req (snd V))"
  have J': "at_most_once req s ?V" by (rule logged_at_most_once [OF Cons.prems(2) c])
  consider (quiet) "turn_stopped t \<or> turn_expired t \<or> turn_net t \<noteq> Delivered"
    | (heard) "\<not> turn_stopped t" "\<not> turn_expired t" "turn_net t = Delivered" by blast
  then show ?case
  proof cases
    case quiet
    then have "(V' = V \<or> V' = ?V) \<and> r \<in> {OutcomeStopped, OutcomeWaitExpired, OutcomeUnknown} \<and> c' = c"
      using Cons.prems(1) by (cases "turn_net t") (auto split: if_splits)
    with Cons.prems(2) J' show ?thesis by auto
  next
    case heard
    show ?thesis
    proof (cases "delay ?r > 0 \<and> IsCommandWait c (reply ?r)")
      case True
      with heard Cons.prems(1) have "Exchange (over_network (logged serve req)) acceptable delay ts c ?V =
          Some (r, c', V')" by simp
      from Cons.IH [OF this J'] show ?thesis .
    next
      case False
      with heard Cons.prems(1) have a: "answer acceptable (delay ?r) c ?r = (r, c')" "V' = ?V"
        by (auto split: prod.splits)
      show ?thesis
      proof (cases "filter applied_entry (fst ?V) = []")
        case True
        from logged_refused [OF Cons.prems(2) c True] a J' True show ?thesis
          by (auto simp: answer_def split: if_splits)
      next
        case ran: False
        from logged_accepted [OF Cons.prems(2) c ran] obtain c2
          where c2: "AcceptCommandReply c (reply ?r) = Some c2" "synced c2 (sess (snd (serve req (snd V))))" by blast
        with accepted_not_wait [OF c2(1)] a J' ran show ?thesis
          by (auto simp: answer_def split: if_splits)
      qed
    qed
  qed
qed simp

text \<open>A call of the client library, whose transport may send the command twice.\<close>

lemma call_counts:
  assumes "at_most_once req s (snd V)" "synced c s" "command req = FillCommand c"
  shows "at_most_once req s (snd (snd (one_call (over_wire (logged serve) req) fates V)))"
proof (rule one_call_keeps [of "at_most_once req s"])
  fix f U
  assume J: "at_most_once req s U"
  from over_wire_keeps [where J = "at_most_once req s" and serve = "logged serve" and req = req,
      OF J logged_at_most_once [OF J assms(2,3)]]
  show "at_most_once req s (snd (over_wire (logged serve) req f U))" .
qed (rule assms(1))

lemma client_counts:
  assumes e: "client_Exchange (over_wire (logged serve)) acceptable delay ts q rsp cl ([], w) = Some (r, rsp', cl', V)"
    and w: "valid w" "synced (cl_cursor cl) (sess w)" "replay_ok codec (sess w)"
  defines "req \<equiv> \<lparr>command = FillCommand (cl_cursor cl), body = q\<rparr>"
  shows "at_most_once req (sess w) V \<and>
    outcome_ok codec req (cl_cursor cl) (sess w) r (cl_cursor cl') (sess (snd V))"
proof -
  let ?W = "((rsp, cl\<lparr>cl_error := []\<rparr>), [], w)"
  have o: "outcome_ok codec req (cl_cursor cl) (sess w) r (cl_cursor cl') (sess (snd V))"
    using command_server.client_outcome [OF logged_server e] w unfolding req_def by simp
  obtain c' cl1 where x: "Exchange (one_call (over_wire (logged serve) req)) (acceptable req) delay ts
      (cl_cursor cl) ?W = Some (r, c', (rsp', cl1), V)"
    using e by (auto simp: client_Exchange_def Let_def req_def split: option.splits)
  have "at_most_once req (sess w) (snd ((rsp', cl1), V))"
    by (rule Exchange_keeps [of "\<lambda>W. at_most_once req (sess w) (snd W)", OF _ x])
      (use w in \<open>auto intro!: call_counts at_most_once_start simp: req_def\<close>)
  with o show ?thesis by simp
qed

end

end
