(* ===== verification/Maze_Task.thy ===== *)
theory Maze_Task
  imports Maze_Adapter Service_Runs Call_Log
begin

text \<open>The Maze adapter provides what the service asks of a task, and so serves commands.\<close>

section \<open>The laws\<close>

lemma observed_refl [simp]: "observed a a"
  by (simp add: observed_def)

lemma observed_trans:
  assumes "observed a b" "observed b c"
  shows "observed a c"
proof -
  obtain x y where b: "b = a\<lparr>observation_done := x, last_observation_frame_id := y\<rparr>"
    using assms(1) unfolding observed_def by blast
  obtain x' y' where "c = b\<lparr>observation_done := x', last_observation_frame_id := y'\<rparr>"
    using assms(2) unfolding observed_def by blast
  then show ?thesis by (simp add: b observed_def)
qed

lemma ApplyState_observed:
  "ApplyState m (a, t) gx gy fr dn bl = Inr (a', t') \<Longrightarrow> observed a a'"
  by (auto simp: ApplyState_def Let_def observed_def split: if_splits)

lemma decode_input_agent:
  "decode_input cfg me m collect fr r a t gx gy = Inr (t', i) \<Longrightarrow> in_agent i = sint (rp_agent_id r)"
  by (auto simp: decode_input_def Let_def split: if_splits sum.splits)

lemma decode_report_effect:
  assumes "decode_report cfg me collect fr seen r (s, m) = Inr ((s', m'), i)"
  obtains a a' where "map_of (agents s) (in_agent i) = Some a" "\<not> done_collected a"
    "s' = s\<lparr>agents := put_at (in_agent i) a' (agents s)\<rparr>" "observed a a'"
    "in_agent i = sint (rp_agent_id r)" "in_agent i \<notin> set seen"
proof -
  let ?i = "sint (rp_agent_id r)" and ?gx = "the (coordinate (rp_x r))" and ?gy = "the (coordinate (rp_y r))"
  let ?a = "the (map_of (agents s) ?i)"
  let ?t = "case map_of (ms_agents m) ?i of None \<Rightarrow> new_maze_agent | Some t \<Rightarrow> t"
  have valid: "\<not> identity_invalid s seen r" using assms by (auto simp: decode_report_def Let_def)
  then obtain a where a: "map_of (agents s) ?i = Some a" "?i \<notin> set seen"
    by (auto simp: identity_invalid_def)
  from assms valid a have act: "\<not> done_collected a"
    by (auto simp: decode_report_def Let_def split: if_splits)
  from assms valid a obtain a1 t1 t2 where
    ap: "ApplyState m (a, ?t) ?gx ?gy fr (rp_done r) (rp_blocked r) = Inr (a1, t1)"
    and di: "decode_input cfg me m collect fr r a1 t1 ?gx ?gy = Inr (t2, i)"
    and s': "s' = s\<lparr>agents := put_at ?i a1 (agents s)\<rparr>"
    by (auto simp: decode_report_def Let_def and_then_Inr split: if_splits sum.splits)
  from ApplyState_observed [OF ap] decode_input_agent [OF di] a act s' show ?thesis by (auto intro: that)
qed

lemma decode_reports_effect:
  assumes "decode_reports cfg me collect fr seen rs (s, m) = Inr ((s', m'), inputs)"
  shows "\<exists>as. s' = s\<lparr>agents := as\<rparr> \<and> map fst as = map fst (agents s) \<and>
    (\<forall>i a. map_of (agents s) i = Some a \<longrightarrow> (\<exists>a'. map_of as i = Some a' \<and> observed a a')) \<and>
    distinct (map in_agent inputs) \<and> set seen \<inter> in_agent ` set inputs = {} \<and>
    in_agent ` set inputs \<subseteq> {i. \<exists>a. map_of (agents s) i = Some a \<and> \<not> done_collected a} \<and>
    length inputs = length rs"
  using assms
proof (induction rs arbitrary: s m seen inputs)
  case Nil
  then show ?case by (auto intro: exI [of _ "agents s"])
next
  case (Cons r rs)
  then obtain s1 m1 i "is" where d: "decode_report cfg me collect fr seen r (s, m) = Inr ((s1, m1), i)"
    and rest: "decode_reports cfg me collect fr (sint (rp_agent_id r) # seen) rs (s1, m1) = Inr ((s', m'), is)"
    and inputs: "inputs = i # is" by (auto simp: and_then_Inr)
  from d obtain a a1 where i: "map_of (agents s) (in_agent i) = Some a" "\<not> done_collected a"
    "s1 = s\<lparr>agents := put_at (in_agent i) a1 (agents s)\<rparr>" "observed a a1"
    "in_agent i = sint (rp_agent_id r)" "in_agent i \<notin> set seen" by (rule decode_report_effect)
  from Cons.IH [OF rest] obtain as where as: "s' = s1\<lparr>agents := as\<rparr>" "map fst as = map fst (agents s1)"
    "\<forall>j b. map_of (agents s1) j = Some b \<longrightarrow> (\<exists>b'. map_of as j = Some b' \<and> observed b b')"
    "distinct (map in_agent is)" "set (sint (rp_agent_id r) # seen) \<inter> in_agent ` set is = {}"
    "in_agent ` set is \<subseteq> {j. \<exists>b. map_of (agents s1) j = Some b \<and> \<not> done_collected b}"
    "length is = length rs" by blast
  have obs: "\<exists>b'. map_of as j = Some b' \<and> observed b b'" if "map_of (agents s) j = Some b" for j b
  proof (cases "j = in_agent i")
    case True
    then have "map_of (agents s1) j = Some a1" using i(1,3) by simp
    with as(3) obtain b' where "map_of as j = Some b'" "observed a1 b'" by blast
    moreover have "b = a" using that True i(1) by simp
    ultimately show ?thesis using observed_trans [OF i(4)] by blast
  next
    case False
    then have "map_of (agents s1) j = Some b" using that i(3) by simp
    with as(3) show ?thesis by blast
  qed
  have dc: "done_collected a1 = done_collected a"
  proof -
    obtain x y where "a1 = a\<lparr>observation_done := x, last_observation_frame_id := y\<rparr>"
      using i(4) unfolding observed_def by blast
    then show ?thesis by simp
  qed
  have "in_agent ` set is \<subseteq> {j. \<exists>b. map_of (agents s) j = Some b \<and> \<not> done_collected b}"
    using as(6) i(1-3) dc by (fastforce split: if_splits)
  then show ?case using as i obs by (auto simp: inputs)
qed

lemma active_count:
  assumes "distinct (map fst (agents s))"
  shows "card {i. \<exists>a. map_of (agents s) i = Some a \<and> \<not> done_collected a} = active_agent_count s"
    "finite {i. \<exists>a. map_of (agents s) i = Some a \<and> \<not> done_collected a}"
proof -
  let ?xs = "filter (\<lambda>(_, a). \<not> done_collected a) (agents s)"
  have d: "distinct (map fst ?xs)" using assms by (simp add: distinct_map_filter)
  have "{i. \<exists>a. map_of (agents s) i = Some a \<and> \<not> done_collected a} = fst ` set ?xs"
    using assms by (force simp: map_of_eq_Some_iff)
  then show "card {i. \<exists>a. map_of (agents s) i = Some a \<and> \<not> done_collected a} = active_agent_count s"
    "finite {i. \<exists>a. map_of (agents s) i = Some a \<and> \<not> done_collected a}"
    using distinct_card [OF d] by (simp_all add: active_agent_count_def)
qed

lemma DecodeFrame_effect:
  assumes "DecodeFrame cfg me (s, m) q collect = Inr ((s', m'), inputs)"
  shows "only_observed s s' \<and> inputs_cover inputs s"
proof -
  let ?A = "{i. \<exists>a. map_of (agents s) i = Some a \<and> \<not> done_collected a}"
  from assms have n: "length (mq_agents q) = active_agent_count s"
    and d: "decode_reports cfg me collect (int (unat (mq_frame_id q))) [] (mq_agents q) (s, m)
      = Inr ((s', m'), inputs)" by (auto simp: DecodeFrame_def split: if_splits)
  from decode_reports_effect [OF d] obtain as where as: "s' = s\<lparr>agents := as\<rparr>"
    "map fst as = map fst (agents s)"
    "\<forall>i a. map_of (agents s) i = Some a \<longrightarrow> (\<exists>a'. map_of as i = Some a' \<and> observed a a')"
    "distinct (map in_agent inputs)" "in_agent ` set inputs \<subseteq> ?A" "length inputs = length (mq_agents q)"
    by blast
  have "in_agent ` set inputs = ?A" if ds: "distinct (map fst (agents s))"
  proof (rule card_subset_eq [OF active_count(2) [OF ds] as(5)])
    show "card (in_agent ` set inputs) = card ?A"
      using distinct_card [OF as(4)] as(6) n active_count(1) [OF ds] by simp
  qed
  then show ?thesis using as(1-4) by (auto simp: inputs_cover_def only_observed_def)
qed

lemma decode_report_code:
  "decode_report cfg me collect fr seen r sm = Inl e \<Longrightarrow> te_code e \<noteq> ErrorUnspecified"
  by (auto simp: decode_report_def decode_input_def Let_def and_then_Inl fail_input_def fail_state_def
      split: prod.splits if_splits sum.splits)

lemma decode_reports_code:
  "decode_reports cfg me collect fr seen rs sm = Inl e \<Longrightarrow> te_code e \<noteq> ErrorUnspecified"
proof (induction rs arbitrary: seen sm e)
  case (Cons r rs)
  then show ?case by (auto simp: and_then_Inl dest: decode_report_code)
qed simp

lemma DecodeFrame_code: "DecodeFrame cfg me sm q collect = Inl e \<Longrightarrow> te_code e \<noteq> ErrorUnspecified"
  by (auto simp: DecodeFrame_def fail_input_def dest: decode_reports_code split: if_splits)

lemma agent_facts_code: "agent_facts me training m ias = Inl e \<Longrightarrow> te_code e \<noteq> ErrorUnspecified"
proof (induction ias arbitrary: e)
  case (Cons ia ias)
  then show ?case
    by (auto simp: and_then_Inl agent_fact_def Let_def fail_state_def split: prod.splits if_splits)
qed simp

lemma PrepareOutcome_code: "PrepareOutcome me sm reg = OutcomeFailed e \<Longrightarrow> te_code e \<noteq> ErrorUnspecified"
  by (auto simp: PrepareOutcome_def Let_def dest: agent_facts_code
      split: prod.splits sum.splits if_splits)

section \<open>The interpretations\<close>

interpretation maze_task: task_adapter "maze_ops cfg me" for cfg me
proof unfold_locales
  fix s t c q m n s' t' c'
  assume "op_initialize (maze_ops cfg me) (s, t) c q m n = Inr ((s', t'), c')"
  then have "s' = s\<lparr>agents := map (\<lambda>i. (i, new_agent)) (agent_ids cfg)\<rparr>"
    by (auto simp: maze_ops_def InitializeTask_def Let_def split: sum.splits if_splits option.splits)
  moreover have "distinct (map fst (map (\<lambda>i. (i, new_agent)) (agent_ids cfg)))"
    by (simp add: agent_ids_def comp_def distinct_map inj_on_def)
  moreover have "agent_idle new_agent" using ResetForEpisode_idle [of new_agent] by simp
  ultimately show "\<exists>as. s' = s\<lparr>agents := as\<rparr> \<and> distinct (map fst as) \<and> list_all (\<lambda>(_, a). agent_idle a) as"
    by (intro exI [of _ "map (\<lambda>i. (i, new_agent)) (agent_ids cfg)"]) (simp add: list_all_iff)
next
  fix s t c m n episode s' t' c' b
  assume "op_assign (maze_ops cfg me) (s, t) c m n episode = Inr ((s', t'), c', b)"
  then show "s' = session_ResetForEpisode episode s"
    by (auto simp: maze_ops_def AssignEpisode_def ResetEpisodeState_def Let_def
        split: sum.splits if_splits prod.splits)
next
  fix s t q collect s' t' inputs
  assume "op_decode (maze_ops cfg me) (s, t) q collect = Inr ((s', t'), inputs)"
  then show "only_observed s s' \<and> inputs_cover inputs s"
    by (intro DecodeFrame_effect) (simp add: maze_ops_def)
next
  fix s t acts
  show "fst (fst (op_encode (maze_ops cfg me) (s, t) acts)) = s"
    by (simp add: maze_ops_def EncodeActions_def)
next
  fix st c q m n e
  assume "op_initialize (maze_ops cfg me) st c q m n = Inl e"
  then show "te_code e \<noteq> ErrorUnspecified"
    by (auto simp: maze_ops_def InitializeTask_def fail_input_def Let_def
        split: sum.splits if_splits option.splits)
next
  fix st c m n episode e
  assume "op_assign (maze_ops cfg me) st c m n episode = Inl e"
  then show "te_code e \<noteq> ErrorUnspecified"
    by (auto simp: maze_ops_def AssignEpisode_def fail_input_def fail_state_def Let_def
        split: sum.splits if_splits prod.splits)
next
  fix st q collect e
  assume "op_decode (maze_ops cfg me) st q collect = Inl e"
  then show "te_code e \<noteq> ErrorUnspecified" by (simp add: maze_ops_def DecodeFrame_code)
next
  fix c m n e
  assume "op_observe (maze_ops cfg me) c m n = Inl e"
  then show "te_code e \<noteq> ErrorUnspecified"
    by (auto simp: maze_ops_def ObserveProgress_def fail_state_def split: sum.splits)
next
  fix st reg e
  assume "op_outcome (maze_ops cfg me) st reg = OutcomeFailed e"
  then show "te_code e \<noteq> ErrorUnspecified" by (simp add: maze_ops_def PrepareOutcome_code)
qed

interpretation maze_server: command_server w "world_session sid" "world_ok w sid"
    "serve_world (maze_ops cfg me) w k ces" for w sid cfg me k ces
  by (rule maze_task.is_command_server)

end
