(* ===== verification/Lossless_Codec.thy ===== *)
theory Lossless_Codec
  imports Maze_Adapter "HOL-Library.Countable"
begin

text \<open>
  A lossless wire format for the messages of the Maze service, to instantiate the codec parameter
  with: every response is written as its number in unary.
\<close>

instance fp :: countable by countable_datatype

instance command_result :: countable by countable_datatype

instance command_error :: countable by countable_datatype

instance session_phase :: countable by countable_datatype

instance termination_reason :: countable by countable_datatype

instance command_reply_ext :: (countable) countable
  by (rule countable_classI [of "\<lambda>r. to_nat (rpl_result r, rpl_error r, rpl_message r, rpl_applied_sequence r, rpl_phase r,
    command_reply.more r)"]) simp

instance response_ext :: (countable, countable) countable
  by (rule countable_classI [of "\<lambda>r. to_nat (reply r, wait_ms r, result_body r,
    response.more r)"]) simp

instance environment_spec_ext :: (countable) countable
  by (rule countable_classI [of "\<lambda>r. to_nat (es_agent_count r, es_map_id r, es_max_steps r, es_mask_required r,
    environment_spec.more r)"]) simp

instance assignment_ext :: (countable) countable
  by (rule countable_classI [of "\<lambda>r. to_nat (as_episode_id r, as_training r, as_max_steps r,
    assignment.more r)"]) simp

instance agent_outcome_ext :: (countable) countable
  by (rule countable_classI [of "\<lambda>r. to_nat (ao_agent_id r, ao_reason r, ao_terminal_frame r, ao_x r, ao_y r, ao_goal_rank r,
    agent_outcome.more r)"]) simp

instance maze_result :: countable by countable_datatype

instance service_identity_ext :: (countable) countable
  by (rule countable_classI [of "\<lambda>r. to_nat (component r, instance_id r, lifecycle_epoch r,
    service_identity.more r)"]) simp

instance open_rsp_ext :: (countable, countable) countable
  by (rule countable_classI [of "\<lambda>r. to_nat (or_reply r, or_session_id r, or_session_epoch r, or_aiserver r, or_body r,
    open_rsp.more r)"]) simp

definition unary :: "'a::countable \<Rightarrow> string" where
  "unary x = replicate (to_nat x) (CHR ''1'')"

lemma from_unary [simp]: "from_nat (length (unary x)) = x"
  by (simp add: unary_def)

definition unary_codec :: "(maze_request, maze_result) codec" where
  "unary_codec =
     \<lparr>ser_request = (\<lambda>q. ''command '' @ dec (unat (cmd_sequence (command q)))),
      ser_response = unary, parse_response = (\<lambda>x. Some (from_nat (length x)))\<rparr>"

definition unary_open_codec :: "(maze_request, maze_result) open_codec" where
  "unary_open_codec =
     \<lparr>ser_open_req = oq_request_id, ser_open_rsp = unary,
      parse_open_rsp = (\<lambda>x. Some (from_nat (length x)))\<rparr>"

lemma unary_codec_ok: "codec_ok unary_codec"
  by (simp add: codec_ok_def unary_codec_def)

end
