(* ===== verification/Service_Claims.thy ===== *)
theory Service_Claims
  imports Maze_Task Lossless_Codec
begin

text \<open>
  What the lifecycle service guarantees its clients: commands are carried out exactly once, sessions
  follow their lifecycle and stay well formed, refused calls leave no trace and no collected
  transition is lost.
\<close>

section \<open>A concrete service\<close>

definition demo_maze_cfg :: maze_config where
  "demo_maze_cfg = \<lparr>mz_training = demo_cfg, mz_ray_max_range = 4, mz_agent_count = 1,
     mz_fixed_map_id = ''m'', mz_episode_max_steps = 10\<rparr>"

definition demo_maze_env :: maze_env where
  "demo_maze_env = \<lparr>me_sqrt = id, me_receipt = (\<lambda>c. None), me_order = id\<rparr>"

definition demo_call :: "unit call_env" where
  "demo_call = \<lparr>ce_env = demo_env, ce_now_ms = 9, ce_steady = 9, ce_latency = Fin 1,
     ce_enqueue_ms = Fin 1, ce_sender = id, ce_before_seal = id, ce_before_commit = id,
     ce_ser_metric = (\<lambda>r. None), ce_event_size = (\<lambda>e. 1)\<rparr>"

definition demo_service :: "(unit, maze_state, episode_controller) service" where
  "demo_service = \<lparr>srv = demo_runtime, tasks = (\<lambda>_. new_maze_state), controller = new_controller\<rparr>"

definition demo_open :: "(unit, maze_state, episode_controller) service" where
  "demo_open = demo_service\<lparr>srv := demo_runtime\<lparr>session_mgr :=
     \<lparr>sessions = [(''s'', new_session ''s'')], next_session_id = 2\<rparr>\<rparr>\<rparr>"

definition demo_cursor :: cursor where
  "demo_cursor = \<lparr>cur_session_id = ''s'', cur_episode_id = [], cur_session_epoch = 0,
     next_sequence = 1, cur_phase = PhaseOpen\<rparr>"

definition demo_request :: "maze_request request" where
  "demo_request = \<lparr>command = FillCommand demo_cursor,
     body = \<lparr>mq_map = demo_map, mq_frame_id = 0, mq_agents = [], mq_reason = ReasonUnspecified\<rparr>\<rparr>"

definition demo_turn :: "network \<Rightarrow> network turn" where
  "demo_turn n = \<lparr>turn_stopped = False, turn_expired = False, turn_net = n\<rparr>"

text \<open>Closing the session, over a network that may lose a reply.\<close>

abbreviation demo_serve where
  "demo_serve \<equiv> serve_world (maze_ops demo_maze_cfg demo_maze_env) unary_codec RpcClose
     (\<lambda>n. demo_call) demo_request"

lemma demo_ready:
  "world_ok unary_codec ''s'' (0, demo_open)" "synced demo_cursor (world_session ''s'' (0, demo_open))"
  "replay_ok unary_codec (world_session ''s'' (0, demo_open))" "command demo_request = FillCommand demo_cursor"
  using unary_codec_ok
  by (auto simp: world_ok_def demo_open_def demo_service_def GetSession_def store_ok_def new_session_def
      synced_def demo_cursor_def world_session_def demo_request_def replay_ok_def new_replay_def split: if_splits)

lemma demo_proceeds:
  "fst (CheckCommand unary_codec (new_session ''s'') demo_request empty_response) = CheckProceed"
  by (simp add: CheckCommand_def replay_Classify_def new_session_def new_replay_def demo_request_def
      FillCommand_def demo_cursor_def Let_def)

lemma demo_closed:
  obtains rsp W where "demo_serve (0, demo_open) = (rsp, W)"
    "committed unary_codec demo_request (world_session ''s'' (0, demo_open)) rsp (world_session ''s'' W)"
proof -
  let ?W = "snd (demo_serve (0, demo_open))" and ?rsp = "fst (demo_serve (0, demo_open))"
  have ws: "world_session ''s'' (0, demo_open) = new_session ''s''"
    by (simp add: world_session_def demo_open_def demo_service_def GetSession_def)
  from demo_proceeds obtain r where chk: "CheckCommand unary_codec (new_session ''s'') demo_request empty_response
      = (CheckProceed, r)" by (metis prod.collapse)
  have id: "cmd_session_id (command demo_request) = ''s''"
    by (simp add: demo_request_def FillCommand_def demo_cursor_def)
  have st: "stored demo_open ''s'' = Some (new_session ''s'')"
    by (simp add: demo_open_def demo_service_def GetSession_def)
  have "rpl_result (reply ?rsp) = ResultApplied"
    using chk st by (simp add: serve_world_def serve_rpc_def CloseSession_def handle_def CheckedSession_def id
        Let_def CloseSession_proceed_def touch_def new_session_def CommitCommand_def FillReply_def)
  moreover have "committed unary_codec demo_request (new_session ''s'') ?rsp (world_session ''s'' ?W) \<or>
      refused (new_session ''s'') ?rsp (world_session ''s'' ?W)"
    using maze_server.serve_proceed [OF demo_ready(1), of demo_request] demo_proceeds ws by metis
  ultimately have "committed unary_codec demo_request (new_session ''s'') ?rsp (world_session ''s'' ?W)"
    by (auto simp: refused_def)
  then show thesis using that [of ?rsp ?W] ws by simp
qed

section \<open>Single calls\<close>

lemma answered_refused_cases:
  assumes "answered ok k w req s S r" "rpl_result (reply (fst r)) \<noteq> ResultApplied"
  obtains s' where "stored (snd r) (session_id s) = Some s'" "same_but_activity s s'"
    "tasks (snd r) = tasks S" "controller (snd r) = controller S" "produced (snd r) = produced S"
proof -
  obtain s' where "stored (snd r) (session_id s) = Some s'"
    "committed w req s (fst r) s' \<or> same_but_activity s s' \<and> tasks (snd r) = tasks S \<and>
       controller (snd r) = controller S \<and> produced (snd r) = produced S"
    using assms(1) unfolding answered_def by blast
  moreover from assms(2) have "\<not> committed w req s (fst r) s'"
    by (auto simp: committed_def CommitCommand_def FillReply_def Let_def)
  ultimately show thesis using that by blast
qed

lemma served_refused:
  assumes v: "served ok k w req S r" and st: "store_ok S" and a: "rpl_result (reply (fst r)) \<noteq> ResultApplied"
  shows "tasks (snd r) = tasks S \<and> controller (snd r) = controller S \<and> produced (snd r) = produced S \<and>
    rel_option same_but_activity (stored S sid) (stored (snd r) sid)"
  using v st
proof (cases rule: served_cases)
  case unknown
  then show ?thesis by (cases "stored S sid") simp_all
next
  case (checked s s' c)
  then show ?thesis by (cases "sid = session_id s"; cases "stored S sid") simp_all
next
  case (handled s rsp)
  from answered_refused_cases [OF handled(4) a] obtain s' where s': "stored (snd r) (session_id s) = Some s'"
    "same_but_activity s s'" "tasks (snd r) = tasks S" "controller (snd r) = controller S"
    "produced (snd r) = produced S" .
  moreover have "stored (snd r) sid = stored S sid" if "sid \<noteq> session_id s"
    using handled(4) that by (simp add: answered_def)
  ultimately show ?thesis using handled(1) by (cases "sid = session_id s"; cases "stored S sid") simp_all
qed

lemma proceeds_next:
  "CheckCommand w s req empty_response = (CheckProceed, rsp) \<Longrightarrow>
     cmd_sequence (command req) = last_command_sequence s + 1"
  by (auto simp: CheckCommand_def replay_Classify_def Let_def split: if_splits option.splits)

lemma answered_moves:
  assumes "answered ok k w req s S r" "CheckCommand w s req empty_response = (CheckProceed, rsp)"
  obtains s' where "stored (snd r) (session_id s) = Some s'"
    "protocol_state s' = protocol_state s \<or>
     phase s' \<in> phase_moves k (phase s) \<and> last_command_sequence s' = last_command_sequence s + 1 \<and>
       rpl_result (reply (fst r)) = ResultApplied"
proof -
  obtain s' where "stored (snd r) (session_id s) = Some s'"
    "committed w req s (fst r) s' \<and> phase s' \<in> phase_moves k (phase s) \<or> same_but_activity s s'"
    using assms(1) unfolding answered_def by blast
  moreover have "last_command_sequence s' = last_command_sequence s + 1 \<and> rpl_result (reply (fst r)) = ResultApplied"
    if "committed w req s (fst r) s'"
    using that proceeds_next [OF assms(2)] by (auto simp: committed_def CommitCommand_def FillReply_def Let_def)
  ultimately show thesis using that same_but_activity_fields(1) by blast
qed

lemma served_moves:
  assumes v: "served ok k w req S r" and st: "store_ok S" and s: "stored S sid = Some s"
  shows "\<exists>s'. stored (snd r) sid = Some s' \<and>
    (protocol_state s' = protocol_state s \<or>
     phase s' \<in> phase_moves k (phase s) \<and> last_command_sequence s' = last_command_sequence s + 1 \<and>
       rpl_result (reply (fst r)) = ResultApplied)"
  using v st
proof (cases rule: served_cases)
  case unknown
  with s show ?thesis by simp
next
  case (checked s1 s' c)
  show ?thesis
  proof (cases "sid = session_id s1")
    case True
    with checked s same_but_activity_fields(1) [OF checked(6)] show ?thesis by simp
  next
    case False
    with checked s show ?thesis by simp
  qed
next
  case (handled s1 rsp)
  show ?thesis
  proof (cases "sid = session_id s1")
    case True
    with answered_moves [OF handled(4,3)] handled(1) s show ?thesis by (metis option.inject)
  next
    case False
    with handled s show ?thesis by (simp add: answered_def)
  qed
qed

lemma maze_served:
  "serve_rpc (maze_ops cfg me) w k ce req S = r \<Longrightarrow> store_ok S \<Longrightarrow> served (clock_ok ce) k w req S r"
  using maze_task.serve_rpc_served by metis

section \<open>Commands over an unreliable network\<close>

text \<open>A logged call had an effect when it was answered as applied, or when it changed anything but the
  time of a client's last activity: a task, the training ledger, the count of produced transitions or a
  session.\<close>

definition has_effect ::
  "('g, 't, 'c) world \<times> 'p response \<times> ('g, 't, 'c) world \<Rightarrow> bool" where
  "has_effect e =
     (case e of ((_, S), rsp, (_, S')) \<Rightarrow>
        rpl_result (reply rsp) = ResultApplied \<or> tasks S' \<noteq> tasks S \<or> controller S' \<noteq> controller S \<or>
        produced S' \<noteq> produced S \<or>
        (\<exists>sid. \<not> rel_option same_but_activity (stored S sid) (stored S' sid)))"

lemma logged_effects:
  assumes "maze_server.at_most_once w sid cfg me k ces req s V"
  shows "filter has_effect (fst V) = filter applied_entry (fst V)"
proof (rule filter_cong [OF refl])
  fix e
  assume "e \<in> set (fst V)"
  moreover obtain W r where e: "e = (W, r)" by (cases e)
  ultimately have ok: "world_ok w sid W" and r: "r = serve_world (maze_ops cfg me) w k ces req W"
    using assms by (auto simp: maze_server.at_most_once_def)
  obtain rsp n S where r': "r = (rsp, n, S)" by (metis prod.collapse)
  have v: "served (clock_ok (ces (fst W))) k w req (snd W) (rsp, S)"
    using maze_task.serve_world_served [where cfg = cfg and me = me and ces = ces and k = k and req = req, OF ok] r r'
    by (metis fst_conv snd_conv)
  obtain m S0 where W: "W = (m, S0)" by (cases W)
  show "has_effect e = applied_entry e"
  proof (cases "rpl_result (reply rsp) = ResultApplied")
    case True
    then show ?thesis by (simp add: e r' W has_effect_def applied_entry_def)
  next
    case False
    with served_refused [OF v] ok show ?thesis
      by (simp add: e r' W has_effect_def applied_entry_def world_ok_def)
  qed
qed

lemma logged_sequence:
  assumes "maze_server.at_most_once w sid cfg me k ces req s V"
  shows "last_command_sequence (world_session sid (snd V)) =
      last_command_sequence s + of_nat (length (filter has_effect (fst V))) \<and>
    length (filter has_effect (fst V)) \<le> 1"
  unfolding logged_effects [OF assms] using assms
  by (auto simp: maze_server.at_most_once_def protocol_state_def)

lemma single_entry: "length xs \<le> 1 \<Longrightarrow> xs \<noteq> [] \<Longrightarrow> \<exists>x. xs = [x]"
  by (cases xs) auto

lemma unknown_at_most_once:
  assumes "world_ok w sid W" "synced c (world_session sid W)" "replay_ok w (world_session sid W)"
    and "command req = FillCommand c"
    and "unknown_calls (over_network (logged (serve_world (maze_ops cfg me) w k ces) req)) acceptable delay
      tss c ([], W) = Some V"
  shows "maze_server.at_most_once w sid cfg me k ces req (world_session sid W) V"
  by (rule unknown_calls_keep [where J = "maze_server.at_most_once w sid cfg me k ces req (world_session sid W)",
        OF maze_server.network_at_most_once [OF assms(2,4)] assms(5) maze_server.at_most_once_start [OF assms(1,3)]])

text \<open>C5: A command is carried out exactly once.  It is sent any number of times while its outcome stays
  unknown and then once more, over a network that loses requests and replies.  Of all the calls that
  reached the server exactly one had an effect when the last outcome is applied, and the client is then
  in step with its session; none had when it is rejected; at most one had in any case, and the session's
  sequence moved by that number.\<close>
theorem command_applied_exactly_once:
  assumes "world_ok w sid W" "synced c (world_session sid W)" "replay_ok w (world_session sid W)"
    and "command req = FillCommand c"
    and "unknown_calls (over_network (logged (serve_world (maze_ops cfg me) w k ces) req)) acceptable delay
      tss c ([], W) = Some V"
    and "Exchange (over_network (logged (serve_world (maze_ops cfg me) w k ces) req)) acceptable delay
      ts c V = Some (r, c', calls, W')"
  shows "(case r of
        OutcomeApplied \<Rightarrow> (\<exists>call. filter has_effect calls = [call]) \<and> synced c' (world_session sid W')
      | OutcomeRejected \<Rightarrow> filter has_effect calls = [] \<and> c' = c
      | _ \<Rightarrow> length (filter has_effect calls) \<le> 1 \<and> c' = c) \<and>
    last_command_sequence (world_session sid W') =
      last_command_sequence (world_session sid W) + of_nat (length (filter has_effect calls))"
proof -
  note x = maze_server.exchange_counts [OF assms(6) unknown_at_most_once [OF assms(1-5)] assms(2,4)]
  from x have J: "maze_server.at_most_once w sid cfg me k ces req (world_session sid W) (calls, W')" by blast
  note n = logged_sequence [OF J] and e = logged_effects [OF J]
  from x n e single_entry [of "filter has_effect calls"] show ?thesis by (cases r) simp_all
qed

text \<open>Two replies are lost, and then the command is sent a third time.\<close>

abbreviation demo_logged where
  "demo_logged \<equiv> over_network (logged (serve_world (maze_ops demo_maze_cfg demo_maze_env) unary_codec RpcClose
     (\<lambda>n. demo_call)) demo_request)"

lemma demo_closed_effect:
  obtains V where "demo_logged ReplyLost ([], (0, demo_open)) = (None, V)"
    "filter has_effect (fst V) \<noteq> []"
    "maze_server.at_most_once unary_codec ''s'' demo_maze_cfg demo_maze_env RpcClose (\<lambda>n. demo_call) demo_request
       (world_session ''s'' (0, demo_open)) V"
proof -
  let ?V = "snd (logged (serve_world (maze_ops demo_maze_cfg demo_maze_env) unary_codec RpcClose
     (\<lambda>n. demo_call)) demo_request ([], (0, demo_open)))"
  obtain rsp W where W: "demo_serve (0, demo_open) = (rsp, W)"
    "committed unary_codec demo_request (world_session ''s'' (0, demo_open)) rsp (world_session ''s'' W)"
    by (rule demo_closed)
  have J: "maze_server.at_most_once unary_codec ''s'' demo_maze_cfg demo_maze_env RpcClose (\<lambda>n. demo_call) demo_request
      (world_session ''s'' (0, demo_open)) ?V"
    using maze_server.logged_at_most_once [OF maze_server.at_most_once_start [OF demo_ready(1,3)] demo_ready(2,4)] .
  have "fst ?V = [((0, demo_open), rsp, W)]" "applied_entry ((0 :: nat, demo_open), rsp, W)"
    using W(1) committed_effect(5) [OF W(2) unary_codec_ok] by (simp_all add: applied_entry_def)
  then have "filter has_effect (fst ?V) \<noteq> []" unfolding logged_effects [OF J] by simp
  with J show thesis by (intro that [of ?V]) simp_all
qed

lemma demo_retry:
  obtains V calls W c' where
    "unknown_calls demo_logged (\<lambda>_. True) (\<lambda>_. 0) [[demo_turn ReplyLost], [demo_turn ReplyLost]] demo_cursor
       ([], (0, demo_open)) = Some V"
    "Exchange demo_logged (\<lambda>_. True) (\<lambda>_. 0) [demo_turn Delivered] demo_cursor V =
       Some (OutcomeApplied, c', calls, W)"
    "filter has_effect (fst V) \<noteq> []" "length calls = 3"
proof -
  let ?serve = "logged (serve_world (maze_ops demo_maze_cfg demo_maze_env) unary_codec RpcClose
     (\<lambda>n. demo_call)) demo_request"
  obtain V1 where V1: "demo_logged ReplyLost ([], (0, demo_open)) = (None, V1)" "filter has_effect (fst V1) \<noteq> []"
    and J1: "maze_server.at_most_once unary_codec ''s'' demo_maze_cfg demo_maze_env RpcClose (\<lambda>n. demo_call) demo_request
       (world_session ''s'' (0, demo_open)) V1" by (rule demo_closed_effect)
  let ?V2 = "snd (?serve V1)" and ?V3 = "snd (?serve (snd (?serve V1)))"
  have J2: "maze_server.at_most_once unary_codec ''s'' demo_maze_cfg demo_maze_env RpcClose (\<lambda>n. demo_call) demo_request
       (world_session ''s'' (0, demo_open)) ?V2" by (rule maze_server.logged_at_most_once [OF J1 demo_ready(2,4)])
  have ne: "filter applied_entry (fst (snd (?serve ?V2))) \<noteq> []"
    using V1(2) unfolding logged_effects [OF J1] by simp
  have "filter has_effect (fst ?V2) \<noteq> []" using V1(2) by simp
  moreover from maze_server.logged_accepted [OF J2 demo_ready(2,4) ne] obtain c' where
    "AcceptCommandReply demo_cursor (reply (fst (?serve ?V2))) = Some c'" by auto
  then have "Exchange demo_logged (\<lambda>_. True) (\<lambda>_. 0) [demo_turn Delivered] demo_cursor ?V2 =
      Some (OutcomeApplied, c', ?V3)"
    by (simp add: demo_turn_def answer_def del: logged_simps)
  moreover have "unknown_calls demo_logged (\<lambda>_. True) (\<lambda>_. 0) [[demo_turn ReplyLost], [demo_turn ReplyLost]] demo_cursor
       ([], (0, demo_open)) = Some ?V2" using V1(1) by (simp add: demo_turn_def)
  moreover have "length (fst ?V3) = 3" using V1(1) by auto
  ultimately show thesis by (metis prod.collapse that)
qed

theorem command_applied_exactly_once_witness:
  "\<exists>V c' calls W.
     unknown_calls demo_logged (\<lambda>_. True) (\<lambda>_. 0) [[demo_turn ReplyLost], [demo_turn ReplyLost]] demo_cursor
       ([], (0, demo_open)) = Some V \<and>
     Exchange demo_logged (\<lambda>_. True) (\<lambda>_. 0) [demo_turn Delivered] demo_cursor V =
       Some (OutcomeApplied, c', calls, W) \<and>
     length calls = 3 \<and> length (filter has_effect calls) = 1"
proof -
  obtain V calls W c' where r:
    "unknown_calls demo_logged (\<lambda>_. True) (\<lambda>_. 0) [[demo_turn ReplyLost], [demo_turn ReplyLost]] demo_cursor
       ([], (0, demo_open)) = Some V"
    "Exchange demo_logged (\<lambda>_. True) (\<lambda>_. 0) [demo_turn Delivered] demo_cursor V =
       Some (OutcomeApplied, c', calls, W)" and n: "length calls = 3" by (rule demo_retry)
  from command_applied_exactly_once [OF demo_ready r] have "\<exists>call. filter has_effect calls = [call]" by simp
  with r n show ?thesis by (metis One_nat_def length_Cons list.size(3))
qed

text \<open>C31: An unknown outcome does not last.  When the server did carry the command out, then however
  many calls were lost since, the next answer that gets through is the response of that one execution,
  marked as already applied: the outcome is applied and the client in step exactly when the client's own
  check accepts that response, and nothing is carried out again.\<close>
theorem unknown_outcome_is_settled:
  assumes "world_ok w sid W" "synced c (world_session sid W)" "replay_ok w (world_session sid W)"
    and "command req = FillCommand c"
    and "unknown_calls (over_network (logged (serve_world (maze_ops cfg me) w k ces) req)) acceptable delay
      tss c ([], W) = Some (calls, W')"
    and "filter has_effect calls \<noteq> []"
    and "\<not> turn_stopped t" "\<not> turn_expired t" "turn_net t = Delivered"
  shows "\<exists>W0 rsp W1 c' calls' W''. filter has_effect calls = [(W0, rsp, W1)] \<and>
    Exchange (over_network (logged (serve_world (maze_ops cfg me) w k ces) req)) acceptable delay
      (t # ts) c (calls, W') =
      Some (if delay (as_replayed rsp) = 0 \<and> acceptable (as_replayed rsp) then (OutcomeApplied, c', calls', W'')
        else (OutcomeUnknown, c, calls', W'')) \<and>
    synced c' (world_session sid W'') \<and> filter has_effect calls' = [(W0, rsp, W1)]"
proof -
  let ?serve = "serve_world (maze_ops cfg me) w k ces" and ?V = "(calls, W')"
  have J: "maze_server.at_most_once w sid cfg me k ces req (world_session sid W) ?V"
    by (rule unknown_at_most_once [OF assms(1-5)])
  have J': "maze_server.at_most_once w sid cfg me k ces req (world_session sid W) (snd (logged ?serve req ?V))"
    by (rule maze_server.logged_at_most_once [OF J assms(2,4)])
  have ne: "filter applied_entry calls \<noteq> []" using assms(6) logged_effects [OF J] by simp
  obtain W0 rsp W1 where a: "filter applied_entry calls = [(W0, rsp, W1)]" "fst (?serve req W') = as_replayed rsp"
    and c': "AcceptCommandReply c (reply (as_replayed rsp)) = Some (c\<lparr>cur_phase := phase (world_session sid
        (snd (?serve req W'))), next_sequence := next_sequence c + 1\<rparr>)"
      "synced (c\<lparr>cur_phase := phase (world_session sid (snd (?serve req W'))), next_sequence := next_sequence c + 1\<rparr>)
        (world_session sid (snd (?serve req W')))"
    by (rule maze_server.logged_again [OF J assms(2,4) ne])
  have nw: "\<not> IsCommandWait c (reply (as_replayed rsp))" "\<not> IsConclusiveRejected c (reply (as_replayed rsp))"
    using accepted_not_wait [OF c'(1)] by simp_all
  have "filter has_effect (fst (snd (logged ?serve req ?V))) = [(W0, rsp, W1)]"
    unfolding logged_effects [OF J'] using a by (simp add: applied_entry_def)
  then have f: "filter has_effect (calls @ [(W', ?serve req W')]) = [(W0, rsp, W1)]" by simp
  have "Exchange (over_network (logged ?serve req)) acceptable delay (t # ts) c ?V =
      Some (if delay (as_replayed rsp) = 0 \<and> acceptable (as_replayed rsp)
        then (OutcomeApplied, c\<lparr>cur_phase := phase (world_session sid (snd (?serve req W'))),
          next_sequence := next_sequence c + 1\<rparr>, calls @ [(W', ?serve req W')], snd (?serve req W'))
        else (OutcomeUnknown, c, calls @ [(W', ?serve req W')], snd (?serve req W')))"
    using assms(7-9) a(2) c'(1) nw by (simp add: answer_def prod_eq_iff)
  with f c'(2) logged_effects [OF J] a(1) show ?thesis by (metis fst_conv)
qed

theorem unknown_outcome_is_settled_witness:
  "\<exists>V c' V'.
     unknown_calls demo_logged (\<lambda>_. True) (\<lambda>_. 0) [[demo_turn ReplyLost], [demo_turn ReplyLost]] demo_cursor
       ([], (0, demo_open)) = Some V \<and>
     Exchange demo_logged (\<lambda>_. True) (\<lambda>_. 0) [demo_turn Delivered] demo_cursor V = Some (OutcomeApplied, c', V')"
proof -
  obtain V where r: "unknown_calls demo_logged (\<lambda>_. True) (\<lambda>_. 0) [[demo_turn ReplyLost], [demo_turn ReplyLost]]
      demo_cursor ([], (0, demo_open)) = Some V" "filter has_effect (fst V) \<noteq> []" by (rule demo_retry)
  obtain calls W' where V: "V = (calls, W')" by (cases V)
  have "\<exists>c' V'. Exchange demo_logged (\<lambda>_. True) (\<lambda>_. 0) [demo_turn Delivered] demo_cursor (calls, W') =
      Some (OutcomeApplied, c', V')"
    using unknown_outcome_is_settled [OF demo_ready r(1) [unfolded V], of "demo_turn Delivered" "[]"] r(2) V
    by (auto simp: demo_turn_def)
  with r(1) V show ?thesis by blast
qed

text \<open>C17: Whatever a call does, every session follows its lifecycle: it keeps its place in the
  protocol, or the call moved it by one command along an edge of the phase machine and said so.\<close>
theorem sessions_follow_their_lifecycle:
  assumes "serve_rpc (maze_ops cfg me) w k ce req S = (rsp, S')" "store_ok S" "stored S sid = Some s"
  shows "\<exists>s'. stored S' sid = Some s' \<and>
    (protocol_state s' = protocol_state s \<or>
     phase s' \<in> phase_moves k (phase s) \<and> last_command_sequence s' = last_command_sequence s + 1 \<and>
       rpl_result (reply rsp) = ResultApplied)"
  using served_moves [OF maze_served [OF assms(1,2)] assms(2,3)] by simp

theorem sessions_follow_their_lifecycle_witness:
  "\<exists>rsp S' s'. serve_rpc (maze_ops demo_maze_cfg demo_maze_env) unary_codec RpcClose demo_call demo_request
      demo_open = (rsp, S') \<and> stored S' ''s'' = Some s' \<and> phase s' \<in> {PhaseOpen, PhaseClosed}"
proof -
  obtain rsp S' where r: "serve_rpc (maze_ops demo_maze_cfg demo_maze_env) unary_codec RpcClose demo_call
      demo_request demo_open = (rsp, S')" by force
  have st: "store_ok demo_open" "stored demo_open ''s'' = Some (new_session ''s'')"
    using demo_ready(1) by (simp_all add: world_ok_def demo_open_def demo_service_def GetSession_def)
  from sessions_follow_their_lifecycle [OF r st] obtain s' where s': "stored S' ''s'' = Some s'"
    "protocol_state s' = protocol_state (new_session ''s'') \<or> phase s' \<in> phase_moves RpcClose (phase (new_session ''s''))"
    by blast
  then have "phase s' \<in> {PhaseOpen, PhaseClosed}"
    by (auto simp: protocol_state_def phase_moves_def new_session_def split: if_splits)
  with r s' show ?thesis by blast
qed

text \<open>C16: A call that is not applied (rejected, asked to wait, or a retransmission) leaves no trace in
  any session but the time of the client's last activity, and none in the tasks, the training ledger
  or the count of produced transitions.\<close>
theorem refused_calls_leave_no_trace:
  assumes "serve_rpc (maze_ops cfg me) w k ce req S = (rsp, S')" "store_ok S"
    and "rpl_result (reply rsp) \<noteq> ResultApplied"
  shows "tasks S' = tasks S \<and> controller S' = controller S \<and> produced S' = produced S \<and>
    rel_option same_but_activity (stored S sid) (stored S' sid)"
  using served_refused [OF maze_served [OF assms(1,2)] assms(2)] assms(3) by simp

theorem refused_calls_leave_no_trace_witness:
  "\<exists>rsp S'. serve_rpc (maze_ops demo_maze_cfg demo_maze_env) unary_codec RpcInit demo_call demo_request
      demo_open = (rsp, S') \<and> rpl_result (reply rsp) = ResultRejected \<and> tasks S' = tasks demo_open \<and>
    rel_option same_but_activity (stored demo_open ''s'') (stored S' ''s'')"
proof -
  obtain rsp S' where r: "serve_rpc (maze_ops demo_maze_cfg demo_maze_env) unary_codec RpcInit demo_call
      demo_request demo_open = (rsp, S')" by force
  obtain rsp0 where chk: "CheckCommand unary_codec (new_session ''s'') demo_request empty_response = (CheckProceed, rsp0)"
    using demo_proceeds by (metis prod.collapse)
  have id: "cmd_session_id (command demo_request) = ''s''"
    by (simp add: demo_request_def FillCommand_def demo_cursor_def)
  have st: "store_ok demo_open" "stored demo_open ''s'' = Some (new_session ''s'')"
    using demo_ready(1) by (simp_all add: world_ok_def demo_open_def demo_service_def GetSession_def)
  have n: "\<not> IsReady (srv demo_open)"
    by (simp add: demo_open_def demo_service_def IsReady_def IsCoreInferenceReady_def demo_runtime_def init_runtime_def)
  have "rpl_result (reply rsp) = ResultRejected"
    using r st(2) chk n by (auto simp: serve_rpc_def Init_def handle_def CheckedSession_def id Let_def
        Init_proceed_def reject_def RejectCommand_def FillReply_def IsReady_def IsCoreInferenceReady_def split: if_splits)
  with refused_calls_leave_no_trace [OF r st(1), of "''s''"] r show ?thesis by auto
qed

section \<open>Whole runs\<close>

definition demo_evaluation :: "(unit, maze_state, episode_controller) service" where
  "demo_evaluation = demo_service\<lparr>srv := demo_runtime\<lparr>config := demo_cfg\<lparr>run_mode := kEvaluation\<rparr>,
     server_state := AiReady, model_load_state := ModelReady\<rparr>\<rparr>"

definition demo_open_req :: "maze_request open_req" where
  "demo_open_req = \<lparr>oq_request_id = ''req'',
     oq_client = \<lparr>component = ''client'', instance_id = ''c-0'', lifecycle_epoch = 1\<rparr>,
     oq_environment = ''env'', oq_body = body demo_request\<rparr>"

lemma fresh_sessions:
  "session_mgr (srv S0) = empty_manager \<Longrightarrow> sessions_ok w S0 \<and> CountCachedTransitions (srv S0) = 0"
  by (simp add: sessions_ok_def manager_ok_empty GetSession_def CountCachedTransitions_def empty_manager_def)
    (simp add: manager_ok_def)

lemma demo_opened:
  obtains rsp S where "OpenSession (maze_ops demo_maze_cfg demo_maze_env) unary_open_codec demo_call demo_open_req
      demo_evaluation = (rsp, S)" "rpl_result (or_reply rsp) = ResultApplied"
    "stored S (session_name 1) \<noteq> None" "open_payloads (srv S) ''req'' = Some ''req''"
proof -
  let ?o = "OpenSession (maze_ops demo_maze_cfg demo_maze_env) unary_open_codec demo_call demo_open_req demo_evaluation"
  have d: "open_payloads (srv demo_evaluation) = Map.empty" "IsReady (srv demo_evaluation)"
    "session_mgr (srv demo_evaluation) = empty_manager"
    by (simp_all add: demo_evaluation_def demo_service_def demo_runtime_def init_runtime_def IsReady_def
        IsCoreInferenceReady_def kTraining_def kEvaluation_def)
  have q: "oq_request_id demo_open_req = ''req''" "oq_environment demo_open_req = ''env''"
    "oq_client demo_open_req = \<lparr>component = ''client'', instance_id = ''c-0'', lifecycle_epoch = 1\<rparr>"
    "ser_open_req unary_open_codec demo_open_req = ''req''"
    by (simp_all add: demo_open_req_def unary_open_codec_def)
  have "rpl_result (or_reply (fst ?o)) = ResultApplied \<and> stored (snd ?o) (session_name 1) \<noteq> None \<and>
      open_payloads (srv (snd ?o)) ''req'' = Some ''req''"
    by (simp add: OpenSession_def Let_def d q open_fresh_def CreateSession_def remember_open_def
        empty_manager_def put_session_def GetSession_def SetSession_def put_at_def split: prod.split)
  then show thesis using that [of "fst ?o" "snd ?o"] by simp
qed

text \<open>C23: In every run of a server that started without sessions, every session is stored under its own
  name, is well formed (its Agents' segments and pending actions are consistent, its mode fits the
  server's, no transition is cached outside of training Episodes) and remembers its last command.\<close>
theorem sessions_stay_well_formed:
  assumes "service_run (maze_ops cfg me) w ow S0 n S" "codec_ok w" "session_mgr (srv S0) = empty_manager"
    and "stored S sid = Some s"
  shows "session_id s = sid \<and> session_inv (config (srv S0)) s \<and> replay_ok w s"
proof -
  have "sessions_ok w S" "config (srv S) = config (srv S0)"
    using maze_task.run_invariant [OF assms(1,2)] fresh_sessions [OF assms(3), of w] by blast+
  with assms(4) show ?thesis unfolding sessions_ok_def by metis
qed

lemma demo_run:
  obtains S where "service_run (maze_ops demo_maze_cfg demo_maze_env) unary_codec unary_open_codec demo_evaluation 0 S"
    "stored S (session_name 1) \<noteq> None"
proof -
  obtain rsp S where S: "OpenSession (maze_ops demo_maze_cfg demo_maze_env) unary_open_codec demo_call demo_open_req
      demo_evaluation = (rsp, S)" "stored S (session_name 1) \<noteq> None" by (rule demo_opened)
  have "next_of demo_evaluation + 1 \<noteq> 0"
    by (simp add: demo_evaluation_def demo_service_def demo_runtime_def init_runtime_def empty_manager_def)
  from run_open [OF run_start this S(1)] S(2) show thesis by (rule that)
qed

lemma demo_evaluation_empty: "session_mgr (srv demo_evaluation) = empty_manager" "produced demo_evaluation = 0"
  by (simp_all add: demo_evaluation_def demo_service_def demo_runtime_def init_runtime_def)

theorem sessions_stay_well_formed_witness:
  "\<exists>S s. service_run (maze_ops demo_maze_cfg demo_maze_env) unary_codec unary_open_codec demo_evaluation 0 S \<and>
     stored S (session_name 1) = Some s \<and> session_id s = session_name 1 \<and>
     session_inv (config (srv demo_evaluation)) s"
proof -
  obtain S where S: "service_run (maze_ops demo_maze_cfg demo_maze_env) unary_codec unary_open_codec demo_evaluation 0 S"
    "stored S (session_name 1) \<noteq> None" by (rule demo_run)
  then obtain s where "stored S (session_name 1) = Some s" by blast
  with sessions_stay_well_formed [OF S(1) unary_codec_ok demo_evaluation_empty(1) this] S(1) show ?thesis by blast
qed

text \<open>C1: No collected transition is lost or counted twice: in every run, the transitions handed to the
  distributor and those cached in the sessions are together exactly the ones that applied Updates
  completed, less those that were given up, and counted as quarantined, with a silent client's session
  that could not be closed.\<close>
theorem no_transition_is_lost:
  assumes "service_run (maze_ops cfg me) w ow S0 n S" "codec_ok w" "session_mgr (srv S0) = empty_manager"
  shows "produced S + CountCachedTransitions (srv S) = produced S0 + n"
  using maze_task.run_invariant [OF assms(1,2)] fresh_sessions [OF assms(3), of w] by simp

theorem no_transition_is_lost_witness:
  "\<exists>S. stored S (session_name 1) \<noteq> None \<and> produced S + CountCachedTransitions (srv S) = 0 \<and>
     service_run (maze_ops demo_maze_cfg demo_maze_env) unary_codec unary_open_codec demo_evaluation 0 S"
proof -
  obtain S where S: "service_run (maze_ops demo_maze_cfg demo_maze_env) unary_codec unary_open_codec demo_evaluation 0 S"
    "stored S (session_name 1) \<noteq> None" by (rule demo_run)
  with no_transition_is_lost [OF S(1) unary_codec_ok demo_evaluation_empty(1)] demo_evaluation_empty(2)
  have "produced S + CountCachedTransitions (srv S) = 0" by simp
  with S show ?thesis by blast
qed

section \<open>Opening a session again\<close>

definition open_codec_ok :: "('q, 'p) open_codec \<Rightarrow> bool" where
  "open_codec_ok w \<longleftrightarrow> (\<forall>r. parse_open_rsp w (ser_open_rsp w r) = Some r)"

text \<open>C36: An OpenSession that was applied can be sent again: as long as it is remembered, the same
  bytes get the original response back, marked as already applied, and create no second session;
  other bytes under the same request id are refused.\<close>
theorem reopening_returns_the_session:
  assumes "open_codec_ok ow" "OpenSession ops ow ce q S = (rsp, S1)"
    and "rpl_result (or_reply rsp) = ResultApplied"
    and "open_payloads (srv S2) = open_payloads (srv S1)" "open_responses (srv S2) = open_responses (srv S1)"
    and "oq_request_id q' = oq_request_id q"
  shows "OpenSession ops ow ce' q' S2 =
    (if ser_open_req ow q' = ser_open_req ow q
     then (rsp\<lparr>or_reply := (or_reply rsp)\<lparr>rpl_result := ResultAlreadyApplied,
             rpl_message := ''session was already opened''\<rparr>\<rparr>,
           S2\<lparr>srv := note_activity (or_session_id rsp) (ce_now_ms ce') (srv S2)\<rparr>)
     else (open_rejected PayloadConflict ''OpenSession request_id conflicts'', S2))"
proof -
  from assms(2,3) obtain S' where "open_fresh ops ce q S = (rsp, S')"
    "S1 = S'\<lparr>srv := remember_open (oq_request_id q) (ser_open_req ow q) (ser_open_rsp ow rsp) (srv S')\<rparr>"
    by (auto simp: OpenSession_def Let_def open_rejected_def FillOpenRejected_def split: option.splits if_splits prod.splits)
  then have "open_payloads (srv S2) (oq_request_id q) = Some (ser_open_req ow q)"
    "open_responses (srv S2) (oq_request_id q) = Some (ser_open_rsp ow rsp)"
    using assms(4,5) by (simp_all add: remember_open_def)
  then show ?thesis using assms(1,6) by (simp add: OpenSession_def Let_def open_codec_ok_def)
qed

theorem reopening_returns_the_session_witness:
  "\<exists>rsp S1 S2. OpenSession (maze_ops demo_maze_cfg demo_maze_env) unary_open_codec demo_call demo_open_req
      demo_evaluation = (rsp, S1) \<and>
    OpenSession (maze_ops demo_maze_cfg demo_maze_env) unary_open_codec demo_call demo_open_req S1 =
      (rsp\<lparr>or_reply := (or_reply rsp)\<lparr>rpl_result := ResultAlreadyApplied,
         rpl_message := ''session was already opened''\<rparr>\<rparr>, S2)"
proof -
  obtain rsp S where S: "OpenSession (maze_ops demo_maze_cfg demo_maze_env) unary_open_codec demo_call demo_open_req
      demo_evaluation = (rsp, S)" "rpl_result (or_reply rsp) = ResultApplied" by (rule demo_opened)
  have "open_codec_ok unary_open_codec" by (simp add: open_codec_ok_def unary_open_codec_def)
  from reopening_returns_the_session [OF this S refl refl refl, of demo_call] S(1) show ?thesis by auto
qed

end
