(* ===== verification/Maze_Claims.thy ===== *)
theory Maze_Claims
  imports Maze_Task
begin

text \<open>
  What the Maze task guarantees at the edges of an Episode: which Agents a frame reports, how the
  goals are ranked, and that a metric record can be read on its own.
\<close>

section \<open>Frames\<close>

text \<open>C34: A frame the adapter accepts reports every active Agent exactly once and no other Agent, and
  changes nothing of the session but what these Agents observed.\<close>
theorem frame_covers_active_agents:
  assumes "DecodeFrame cfg me (s, m) q collect = Inr ((s', m'), inputs)" "distinct (map fst (agents s))"
  shows "distinct (map in_agent inputs) \<and>
    set (map in_agent inputs) = {i. \<exists>a. map_of (agents s) i = Some a \<and> \<not> done_collected a} \<and>
    only_observed s s'"
  using DecodeFrame_effect [OF assms(1)] assms(2) by (simp add: inputs_cover_def)

definition covered_session :: session where
  "covered_session = (new_session ''s'')\<lparr>last_frame_id := 4,
     agents := [(0, new_agent\<lparr>done_collected := True\<rparr>)]\<rparr>"

definition covered_request :: maze_request where
  "covered_request = \<lparr>mq_map = demo_map, mq_frame_id = 5, mq_agents = [], mq_reason = ReasonUnspecified\<rparr>"

theorem frame_covers_active_agents_witness:
  "\<exists>m. DecodeFrame \<lparr>mz_training = demo_cfg, mz_ray_max_range = 4, mz_agent_count = 1,
       mz_fixed_map_id = ''m'', mz_episode_max_steps = 10\<rparr>
     \<lparr>me_sqrt = id, me_receipt = (\<lambda>c. None), me_order = id\<rparr>
     (covered_session, new_maze_state\<lparr>ms_current_max_steps := 10\<rparr>) covered_request False =
       Inr ((covered_session, m), []) \<and>
     {i. \<exists>a. map_of (agents covered_session) i = Some a \<and> \<not> done_collected a} = {}"
proof -
  have d: "DecodeFrame \<lparr>mz_training = demo_cfg, mz_ray_max_range = 4, mz_agent_count = 1,
       mz_fixed_map_id = ''m'', mz_episode_max_steps = 10\<rparr>
     \<lparr>me_sqrt = id, me_receipt = (\<lambda>c. None), me_order = id\<rparr>
     (covered_session, new_maze_state\<lparr>ms_current_max_steps := 10\<rparr>) covered_request False =
       Inr ((covered_session, new_maze_state\<lparr>ms_current_max_steps := 10\<rparr>), [])"
    by (simp add: DecodeFrame_def covered_session_def covered_request_def active_agent_count_def)
  have "distinct (map fst (agents covered_session))" by (simp add: covered_session_def)
  from frame_covers_active_agents [OF d this] d show ?thesis by auto
qed

section \<open>Goal ranks\<close>

lemma takeWhile_smaller:
  fixes xs :: "'a::linorder list"
  assumes "sorted xs" "distinct xs"
  shows "length (takeWhile (\<lambda>x. x < y) xs) = card {x \<in> set xs. x < y}"
  using assms
proof (induction xs)
  case (Cons x xs)
  show ?case
  proof (cases "x < y")
    case True
    then have "{z \<in> set (x # xs). z < y} = insert x {z \<in> set xs. z < y}" by auto
    moreover have "x \<notin> {z \<in> set xs. z < y}" using Cons.prems by simp
    ultimately show ?thesis using Cons True by simp
  next
    case False
    then have "{z \<in> set (x # xs). z < y} = {}" using Cons.prems by fastforce
    then show ?thesis using False by (simp only: takeWhile.simps if_False list.size card.empty)
  qed
qed simp

lemma distinct_remdups_adj: "sorted xs \<Longrightarrow> distinct (remdups_adj (xs :: 'a::linorder list))"
  by (induction xs rule: remdups_adj.induct) (auto simp: less_le)

lemma goal_frames_props:
  "sorted (goal_frames rs)" "distinct (goal_frames rs)"
  "set (goal_frames rs) = {sum_terminal_frame r | r. r \<in> set rs \<and> ar_success r}"
  by (auto simp: goal_frames_def distinct_remdups_adj sorted_remdups_adj)

lemma length_goal_frames: "length (goal_frames rs) \<le> length rs"
proof -
  have "length (goal_frames rs) \<le> length (sort (map sum_terminal_frame (filter ar_success rs)))"
    unfolding goal_frames_def by (rule remdups_adj_length)
  also have "\<dots> \<le> length rs" by simp
  finally show ?thesis .
qed

definition earlier_goals :: "agent_result list \<Rightarrow> agent_result \<Rightarrow> nat" where
  "earlier_goals rs r =
     card {f \<in> {sum_terminal_frame q | q. q \<in> set rs \<and> ar_success q}. f < sum_terminal_frame r}"

lemma ranked_member:
  assumes "r \<in> set (ranked rs)"
  obtains q where "q \<in> set rs" "r = (if ar_success q
    then q\<lparr>ar_goal_rank := Some (word_of_nat (Suc (earlier_goals rs q)))\<rparr> else q)"
proof -
  let ?rs = "sort_key sum_agent_id rs"
  obtain q where q: "q \<in> set rs" "r = rank_agent (goal_frames ?rs) q"
    using assms by (auto simp: ranked_def Let_def)
  have "length (takeWhile (\<lambda>f. f < sum_terminal_frame q) (goal_frames ?rs)) = earlier_goals rs q"
    using takeWhile_smaller [OF goal_frames_props(1,2)] goal_frames_props(3) [of ?rs]
    by (simp add: earlier_goals_def)
  with q show thesis by (intro that [of q]) (simp_all add: rank_agent_def)
qed

lemma earlier_goals_less:
  assumes "a \<in> set rs" "ar_success a"
  shows "sum_terminal_frame a < sum_terminal_frame b \<Longrightarrow> earlier_goals rs a < earlier_goals rs b"
    "sum_terminal_frame b \<le> sum_terminal_frame a \<Longrightarrow> earlier_goals rs b \<le> earlier_goals rs a"
    "earlier_goals rs a < length rs"
proof -
  let ?F = "{sum_terminal_frame q | q. q \<in> set rs \<and> ar_success q}"
  have f: "finite {f \<in> ?F. f < x}" for x by simp
  show "earlier_goals rs a < earlier_goals rs b" if "sum_terminal_frame a < sum_terminal_frame b"
    unfolding earlier_goals_def by (rule psubset_card_mono [OF f]) (use that assms in auto)
  show "earlier_goals rs b \<le> earlier_goals rs a" if "sum_terminal_frame b \<le> sum_terminal_frame a"
    unfolding earlier_goals_def by (rule card_mono [OF f]) (use that in auto)
  have "earlier_goals rs a < card ?F"
    unfolding earlier_goals_def by (rule psubset_card_mono) (use assms in auto)
  also have "\<dots> = length (goal_frames rs)"
    using distinct_card [OF goal_frames_props(2), of rs] by (simp only: goal_frames_props(3))
  finally show "earlier_goals rs a < length rs" using length_goal_frames [of rs] by simp
qed

text \<open>C21: Agents that reach the goal are ranked densely by the frame they reach it in: the rank is one
  more than the number of earlier frames with a goal, so Agents of the same frame share a rank and an
  earlier Agent has the smaller one.\<close>
theorem goal_ranks_order_arrivals:
  assumes "a \<in> set (ranked rs)" "b \<in> set (ranked rs)" "ar_success a" "ar_success b"
    and "length rs < 2 ^ 32"
  shows "\<exists>i j. ar_goal_rank a = Some i \<and> ar_goal_rank b = Some j \<and> unat i = Suc (earlier_goals rs a) \<and>
    (i < j \<longleftrightarrow> sum_terminal_frame a < sum_terminal_frame b)"
proof -
  obtain p where p: "p \<in> set rs" "a = p\<lparr>ar_goal_rank := Some (word_of_nat (Suc (earlier_goals rs p)))\<rparr>" "ar_success p"
    using ranked_member [OF assms(1)] assms(3) by (metis (full_types))
  obtain q where q: "q \<in> set rs" "b = q\<lparr>ar_goal_rank := Some (word_of_nat (Suc (earlier_goals rs q)))\<rparr>" "ar_success q"
    using ranked_member [OF assms(2)] assms(4) by (metis (full_types))
  have small: "Suc (earlier_goals rs r) < 2 ^ 32" if "r \<in> set rs" "ar_success r" for r
    using earlier_goals_less(3) [OF that] assms(5) by simp
  have u: "unat (word_of_nat (Suc (earlier_goals rs r)) :: u32) = Suc (earlier_goals rs r)"
    if "r \<in> set rs" "ar_success r" for r
    using small [OF that] by (simp only: unat_word_ariths unat_of_nat) simp
  have "earlier_goals rs p < earlier_goals rs q \<longleftrightarrow> sum_terminal_frame p < sum_terminal_frame q"
    using earlier_goals_less(1) [OF p(1,3), of q] earlier_goals_less(2) [OF p(1,3), of q]
    by (meson leD le_less_linear)
  then have "(word_of_nat (Suc (earlier_goals rs p)) :: u32) < word_of_nat (Suc (earlier_goals rs q)) \<longleftrightarrow>
      sum_terminal_frame p < sum_terminal_frame q"
    unfolding word_less_nat_alt [of "word_of_nat _"] u [OF p(1,3)] u [OF q(1,3)] by simp
  moreover have "earlier_goals rs a = earlier_goals rs p" by (simp add: earlier_goals_def p(2))
  ultimately show ?thesis using p q u [OF p(1,3)] by simp
qed

definition ranked_example :: "u32 \<Rightarrow> u64 \<Rightarrow> agent_result" where
  "ranked_example i f = (result_of new_maze_state 0 new_agent (new_maze_agent\<lparr>reached_goal := True\<rparr>))
     \<lparr>sum_agent_id := i, sum_terminal_frame := f\<rparr>"


theorem goal_ranks_order_arrivals_witness:
  "\<exists>a b i j. set (ranked [ranked_example 0 9, ranked_example 1 4]) = {a, b} \<and>
     sum_agent_id a = 1 \<and> ar_goal_rank a = Some i \<and> ar_goal_rank b = Some j \<and> i < j \<and> unat j = 2"
proof -
  let ?rs = "[ranked_example 0 9, ranked_example 1 4]"
  define a where "a = rank_agent (goal_frames (sort_key sum_agent_id ?rs)) (ranked_example 1 4)"
  define b where "b = rank_agent (goal_frames (sort_key sum_agent_id ?rs)) (ranked_example 0 9)"
  have m: "set (ranked ?rs) = {b, a}" by (simp only: ranked_def Let_def set_map set_sort) (simp add: a_def b_def)
  have e: "sum_agent_id a = 1" "sum_terminal_frame a = 4" "sum_terminal_frame b = 9" "ar_success a" "ar_success b"
    by (simp_all add: a_def b_def rank_agent_def ranked_example_def result_of_def)
  have "{sum_terminal_frame q | q. q \<in> set ?rs \<and> ar_success q} = {9, 4}"
    by (auto simp: ranked_example_def result_of_def intro: exI [of _ "ranked_example 0 9"] exI [of _ "ranked_example 1 4"])
  then have g: "earlier_goals ?rs b = card {f \<in> {9, 4 :: u64}. f < 9}" by (simp only: earlier_goals_def e)
  have "{f \<in> {9, 4 :: u64}. f < 9} = {4}" by auto
  then have g: "earlier_goals ?rs b = 1" using g by simp
  have l: "length ?rs < 2 ^ 32" by simp
  from m have "a \<in> set (ranked ?rs)" "b \<in> set (ranked ?rs)" by simp_all
  from goal_ranks_order_arrivals [OF this e(4,5) l] goal_ranks_order_arrivals [OF this(2,1) e(5,4) l] e g
  obtain i j where "ar_goal_rank a = Some i" "ar_goal_rank b = Some j" "i < j" "unat j = 2" by auto
  moreover have "set (ranked ?rs) = {a, b}" using m by auto
  ultimately show ?thesis using e(1) by blast
qed

section \<open>Metric records\<close>

text \<open>A value of the type its definition gives; sums are finite and have a count.\<close>

fun has_kind :: "value_type \<Rightarrow> point_value \<Rightarrow> bool" where
  "has_kind ValueScalar (PointScalar v) = isfinite v"
| "has_kind ValueUnsigned (PointUnsigned n) = True"
| "has_kind ValueSumCount (PointSumCount v n) = (isfinite v \<and> n \<noteq> 0)"
| "has_kind _ _ = False"

definition point_ok :: "metric_definition list \<Rightarrow> metric_point \<Rightarrow> bool" where
  "point_ok ds p \<longleftrightarrow>
     list_ex (\<lambda>d. metric_id d = point_id p \<and> has_kind (value_kind d) (point_value p)) ds"

definition record_typed :: "metric_record \<Rightarrow> bool" where
  "record_typed r \<longleftrightarrow>
     distinct (map metric_id (rec_definitions r)) \<and> list_all definition_valid (rec_definitions r) \<and>
     list_all (point_ok (rec_definitions r)) (rec_points r)"

definition registry_ok :: "registry \<Rightarrow> bool" where
  "registry_ok reg \<longleftrightarrow>
     sorted_table reg \<and>
     (\<forall>k d. map_of reg k = Some d \<longrightarrow> metric_id d = k \<and> definition_valid d)"

text \<open>The definitions of a record are the registry's.\<close>

definition typed_in :: "registry \<Rightarrow> metric_record \<Rightarrow> bool" where
  "typed_in reg r \<longleftrightarrow>
     record_typed r \<and> list_all (\<lambda>d. map_of reg (metric_id d) = Some d) (rec_definitions r)"

lemma registry_ok_Register:
  assumes "registry_ok reg" "registry_Register d reg = Inr reg'"
  shows "registry_ok reg'"
proof -
  have "reg' = reg \<or> definition_valid d \<and> reg' = put_sorted (metric_id d) d reg"
    using assms(2) by (auto simp: registry_Register_def split: option.splits if_splits)
  then show ?thesis
  proof
    assume "definition_valid d \<and> reg' = put_sorted (metric_id d) d reg"
    with assms(1) show ?thesis by (simp add: registry_ok_def)
  qed (use assms(1) in simp)
qed

lemma registry_ok_all: "register_all ds reg = Inr reg' \<Longrightarrow> registry_ok reg \<Longrightarrow> registry_ok reg'"
  by (induction ds arbitrary: reg) (auto simp: and_then_Inr dest: registry_ok_Register)

lemma registry_ok_built: "register_all ds [] = Inr reg \<Longrightarrow> registry_ok reg"
  by (erule registry_ok_all) (simp add: registry_ok_def sorted_table_def)

lemma typed_empty [simp]: "rec_definitions r = [] \<Longrightarrow> rec_points r = [] \<Longrightarrow> typed_in reg r"
  by (simp add: typed_in_def record_typed_def)

lemma typed_Add:
  assumes "registry_ok reg" "typed_in reg r" "registry_Add reg r mid type v = Inr r'" "has_kind type v"
  shows "typed_in reg r'"
proof -
  from assms(3) obtain d where d: "map_of reg mid = Some d" "value_kind d = type"
    by (auto simp: registry_Add_def split: option.splits if_splits)
  have v: "metric_id d = mid" "definition_valid d" using assms(1) d(1) by (auto simp: registry_ok_def)
  let ?p = "\<lparr>point_id = mid, point_value = v, point_attributes = [], interval_start = None,
    interval_end = None\<rparr>"
  have t: "distinct (map metric_id (rec_definitions r))" "list_all definition_valid (rec_definitions r)"
    "list_all (point_ok (rec_definitions r)) (rec_points r)"
    "list_all (\<lambda>d. map_of reg (metric_id d) = Some d) (rec_definitions r)"
    using assms(2) by (simp_all add: typed_in_def record_typed_def)
  show ?thesis
  proof (cases "list_ex (\<lambda>e. metric_id e = mid) (rec_definitions r)")
    case True
    then obtain e where "e \<in> set (rec_definitions r)" "metric_id e = mid" by (auto simp: list_ex_iff)
    with t(4) d(1) have "d \<in> set (rec_definitions r)" by (auto simp: list_all_iff)
    then have "point_ok (rec_definitions r) ?p"
      using assms(4) d(2) v(1) by (auto simp: point_ok_def list_ex_iff)
    moreover have "r' = r\<lparr>rec_points := rec_points r @ [?p]\<rparr>"
      using assms(3) d True by (simp add: registry_Add_def)
    ultimately show ?thesis using t by (simp add: typed_in_def record_typed_def)
  next
    case False
    let ?ds = "rec_definitions r @ [d]"
    have "point_ok ?ds ?p" using assms(4) d(2) v(1) by (simp add: point_ok_def)
    moreover have "list_all (point_ok ?ds) (rec_points r)"
      using t(3) by (rule list.pred_mono_strong) (simp add: point_ok_def)
    moreover have "distinct (map metric_id ?ds)" using t(1) False v(1) by (auto simp: list_ex_iff)
    moreover have "r' = r\<lparr>rec_definitions := ?ds, rec_points := rec_points r @ [?p]\<rparr>"
      using assms(3) d False by (simp add: registry_Add_def)
    ultimately show ?thesis using t(2,4) v d(1) by (simp add: typed_in_def record_typed_def)
  qed
qed

lemma typed_Mean:
  "registry_ok reg \<Longrightarrow> typed_in reg r \<Longrightarrow> registry_Mean reg r mid amount n = Inr r' \<Longrightarrow> typed_in reg r'"
  by (auto simp: registry_Mean_def dest: typed_Add split: if_splits)

lemma typed_Scalar:
  "registry_ok reg \<Longrightarrow> typed_in reg r \<Longrightarrow> registry_Scalar reg r mid v = Inr r' \<Longrightarrow> typed_in reg r'"
  by (auto simp: registry_Scalar_def dest: typed_Add split: if_splits)

lemma typed_Unsigned:
  "registry_ok reg \<Longrightarrow> typed_in reg r \<Longrightarrow> registry_Unsigned reg r mid n = Inr r' \<Longrightarrow> typed_in reg r'"
  by (auto simp: registry_Unsigned_def dest: typed_Add)

lemmas typed_adds = typed_Mean typed_Scalar typed_Unsigned

text \<open>Attributes and intervals do not matter.\<close>

lemma typed_points:
  assumes "typed_in reg r" "map (\<lambda>p. (point_id p, point_value p)) ps = map (\<lambda>p. (point_id p, point_value p)) (rec_points r)"
  shows "typed_in reg (r\<lparr>rec_points := ps\<rparr>)"
proof -
  have ok: "point_ok ds p = (\<lambda>(i, v). list_ex (\<lambda>d. metric_id d = i \<and> has_kind (value_kind d) v) ds) (point_id p, point_value p)"
    for ds p by (simp add: point_ok_def)
  have "list_all (point_ok (rec_definitions r)) ps = list_all (point_ok (rec_definitions r)) (rec_points r)"
    using arg_cong [OF assms(2), of "list_all (\<lambda>(i, v). list_ex (\<lambda>d. metric_id d = i \<and> has_kind (value_kind d) v) (rec_definitions r))"]
    by (simp add: ok list_all_iff)
  with assms(1) show ?thesis by (simp add: typed_in_def record_typed_def)
qed

lemma typed_annotate: "typed_in reg r \<Longrightarrow> typed_in reg (AnnotateAgentEpisodeMetricPoints a n r)"
proof -
  have m: "map (\<lambda>p. (point_id p, point_value p)) (take n ps @ map (annotate_point a) (drop n ps)) =
      map (\<lambda>p. (point_id p, point_value p)) ps" for ps
  proof -
    have "map (\<lambda>p. (point_id p, point_value p)) (take n ps @ map (annotate_point a) (drop n ps)) =
        map (\<lambda>p. (point_id p, point_value p)) (take n ps @ drop n ps)"
      by (simp only: map_append map_map comp_def) (simp add: annotate_point_def)
    then show ?thesis by (simp only: append_take_drop_id)
  qed
  show "typed_in reg r \<Longrightarrow> ?thesis"
    unfolding AnnotateAgentEpisodeMetricPoints_def by (rule typed_points [OF _ m])
qed

lemma typed_window_point:
  assumes "registry_ok reg" "typed_in reg r" "window_point reg n t1 t2 mid amount r = Inr r'"
  shows "typed_in reg r'"
proof -
  from assms(3) obtain r1 where m: "registry_Mean reg r mid amount n = Inr r1"
    and r': "r' = r1\<lparr>rec_points := butlast (rec_points r1) @
      [(last (rec_points r1))\<lparr>interval_start := Some t1, interval_end := Some t2\<rparr>]\<rparr>"
    by (auto simp: window_point_def and_then_Inr)
  have "rec_points r1 \<noteq> []"
    using m by (auto simp: registry_Mean_def registry_Add_def split: if_splits option.splits)
  then have "map (\<lambda>p. (point_id p, point_value p)) (rec_points r1) = map (\<lambda>p. (point_id p, point_value p))
      (butlast (rec_points r1) @ [last (rec_points r1)])" by simp
  then show ?thesis unfolding r'
    by (intro typed_points [OF typed_Mean [OF assms(1,2) m]]) (simp only: map_append, simp)
qed

lemma typed_window_points:
  "window_points reg n t1 t2 prefix cs r = Inr r' \<Longrightarrow> registry_ok reg \<Longrightarrow> typed_in reg r \<Longrightarrow> typed_in reg r'"
proof (induction cs arbitrary: r)
  case (Cons c cs)
  then obtain r1 where "window_point reg n t1 t2 (prefix @ fst c @ ''.per_transition'') (snd c) r = Inr r1"
    "window_points reg n t1 t2 prefix cs r1 = Inr r'" by (cases c) (auto simp: and_then_Inr)
  with Cons typed_window_point [OF Cons.prems(2,3)] show ?case by blast
qed simp

lemma typed_AppendTo:
  assumes "reward_AppendTo reg prefix t1 t2 win r = Inr r'" "registry_ok reg" "typed_in reg r"
  shows "typed_in reg r'"
  using assms
  by (auto simp: reward_AppendTo_def Let_def and_then_Inr split: if_splits
      dest!: typed_window_points dest: typed_window_point)

lemma typed_component_means:
  "component_means reg prefix cs r = Inr r' \<Longrightarrow> registry_ok reg \<Longrightarrow> typed_in reg r \<Longrightarrow> typed_in reg r'"
proof (induction cs arbitrary: r)
  case (Cons c cs)
  then obtain r1 where "registry_Mean reg r (prefix @ fst c @ ''.per_episode'') (snd c) 1 = Inr r1"
    "component_means reg prefix cs r1 = Inr r'" by (cases c) (auto simp: and_then_Inr)
  with Cons typed_Mean [OF Cons.prems(2,3)] show ?case by blast
qed simp

lemma typed_agent_summary:
  assumes "AppendAgentEpisodeMetrics order reg ids a r = Inr r'" "registry_ok reg" "typed_in reg r"
  shows "typed_in reg r'"
proof -
  from assms(1) obtain r1 r2 r3 r4 r5 r6 where
    s: "registry_Unsigned reg r (ids_agent_episodes ids) 1 = Inr r1"
      "registry_Mean reg r1 (ids_return ids) (sum_return a) 1 = Inr r2"
      "registry_Mean reg r2 (ids_length ids) (f64_of_int (agent_summary.sum_transitions a)) 1 = Inr r3"
      "registry_Scalar reg r3 (ids_min_return ids) (sum_return a) = Inr r4"
      "registry_Scalar reg r4 (ids_max_return ids) (sum_return a) = Inr r5"
      "component_means reg (ids_component_prefix ids) (sum_components a) r5 = Inr r6"
    and r': "r' = AnnotateAgentEpisodeMetricPoints a (length (rec_points r)) r6"
    by (auto simp: AppendAgentEpisodeMetrics_def and_then_Inr split: if_splits)
  note 1 = typed_Unsigned [OF assms(2,3) s(1)]
  note 2 = typed_Mean [OF assms(2) 1 s(2)]
  note 3 = typed_Mean [OF assms(2) 2 s(3)]
  note 4 = typed_Scalar [OF assms(2) 3 s(4)]
  note 5 = typed_Scalar [OF assms(2) 4 s(5)]
  show ?thesis unfolding r' by (rule typed_annotate [OF typed_component_means [OF s(6) assms(2) 5]])
qed

lemma typed_agent_points:
  assumes "agent_points order reg a r = Inr r'" "registry_ok reg" "typed_in reg r"
  shows "typed_in reg r'"
proof -
  have g: "\<not> (ar_blocked a < 0 \<or> ar_blocked a > ar_attempted a \<or> ar_reason a = ReasonUnspecified)"
    using assms(1) unfolding agent_points_def by (metis Inl_Inr_False)
  from assms(1) [unfolded agent_points_def if_not_P [OF g] and_then_Inr] obtain r1 r2 r3 r4 r5 r6 where
    s: "AppendAgentEpisodeMetrics order reg MazeAgentEpisodeMetricIds (agent_summary.truncate a) r = Inr r1"
      "registry_Mean reg r1 ''task.maze.success'' (ratio_of (ar_success a)) 1 = Inr r2"
      "registry_Mean reg r2 ''task.maze.unique_cells'' (f64_of_int (ar_unique_cells a)) 1 = Inr r3"
      "(if ar_attempted a > 0 then registry_Mean reg r3 ''task.maze.blocked_move_rate''
          (f64_of_int (ar_blocked a)) (word_of_int (ar_attempted a)) else Inr r3) = Inr r4"
      "(if ar_success a \<and> ar_shortest a > 0 then registry_Mean reg r4 ''task.maze.path_ratio''
          (f64_div (f64_of_int (agent_summary.sum_transitions a)) (f64_of_int (ar_shortest a))) 1 else Inr r4) = Inr r5"
      "registry_Unsigned reg r5 (''task.maze.termination.'' @ MazeTerminationReason_Name (ar_reason a)) 1 = Inr r6"
    and r': "AnnotateAgentEpisodeMetricPoints (agent_summary.truncate a) (length (rec_points r1)) r6 = r'"
    unfolding sum.inject by blast
  note 1 = typed_agent_summary [OF s(1) assms(2,3)]
  note 2 = typed_Mean [OF assms(2) 1 s(2)]
  note 3 = typed_Mean [OF assms(2) 2 s(3)]
  have 4: "typed_in reg r4" using s(4) 3 typed_Mean [OF assms(2) 3] by (metis sum.inject(2))
  have 5: "typed_in reg r5" using s(5) 4 typed_Mean [OF assms(2) 4] by (metis sum.inject(2))
  show ?thesis unfolding r' [symmetric] by (rule typed_annotate [OF typed_Unsigned [OF assms(2) 5 s(6)]])
qed

lemma typed_all_agents:
  "fold_res (agent_points order reg) as r = Inr r' \<Longrightarrow> registry_ok reg \<Longrightarrow> typed_in reg r \<Longrightarrow> typed_in reg r'"
  by (induction as arbitrary: r) (auto simp: and_then_Inr dest: typed_agent_points)

lemma typed_Build:
  assumes "BuildMazeEpisodeMetrics order reg env episode rs = Inr r'" "registry_ok reg"
  shows "typed_in reg r'"
proof -
  let ?r0 = "empty_record\<lparr>rec_attributes :=
    put_sorted ''episode_id'' episode (put_sorted ''environment_instance_id'' env [])\<rparr>"
  from assms(1) obtain r1 r2 r3 where
    s: "registry_Unsigned reg ?r0 ''task.maze.environment_episodes'' 1 = Inr r1"
      "registry_Mean reg r1 ''task.maze.any_success'' (ratio_of (list_ex ar_success rs)) 1 = Inr r2"
      "registry_Mean reg r2 ''task.maze.all_success'' (ratio_of (list_all ar_success rs)) 1 = Inr r3"
      "fold_res (agent_points order reg) rs r3 = Inr r'"
    by (auto simp: BuildMazeEpisodeMetrics_def and_then_Inr split: if_splits)
  have 0: "typed_in reg ?r0" by (simp add: empty_record_def)
  note 1 = typed_Unsigned [OF assms(2) 0 s(1)]
  note 2 = typed_Mean [OF assms(2) 1 s(2)]
  note 3 = typed_Mean [OF assms(2) 2 s(3)]
  show ?thesis by (rule typed_all_agents [OF s(4) assms(2) 3])
qed

lemma typed_PrepareOutcome:
  assumes "PrepareOutcome me sm reg = OutcomePrepared b facts" "registry_ok reg"
  shows "typed_in reg facts"
proof -
  have "facts = empty_record \<or> (\<exists>s rs. BuildEpisodeMetricFact me reg s rs = Inr facts)"
    using assms(1) by (auto simp: PrepareOutcome_def Let_def split: prod.splits sum.splits if_splits)
  then show ?thesis using typed_Build assms(2) by (auto simp: BuildEpisodeMetricFact_def empty_record_def)
qed

text \<open>C35: The metric record of a finished Episode can be read on its own, whatever metrics are
  registered: it carries one valid definition
  for every metric it has points of, and every point has the type of its definition, with finite
  numbers and no empty mean, whatever the Agents did and whatever the reward window holds.\<close>
theorem episode_record_is_typed:
  assumes "register_all ds [] = Inr reg" "PrepareOutcome me sm reg = OutcomePrepared b facts"
    and "reward_AppendTo reg prefix t1 t2 win facts = Inr full"
  shows "record_typed full"
  using typed_AppendTo [OF assms(3)] typed_PrepareOutcome [OF assms(2)] registry_ok_built [OF assms(1)]
  by (simp add: typed_in_def)


definition demo_total :: metric_definition where
  "demo_total = plain_definition ''task.maze.reward.total.per_transition'' ''Total Reward / Transition''
     ''reward'' ''agent_episode'' ValueSumCount AggMean ''transition'' ''reward''"

theorem episode_record_is_typed_witness:
  "\<exists>reg b full. register_all [demo_total] [] = Inr reg \<and>
     PrepareOutcome \<lparr>me_sqrt = id, me_receipt = (\<lambda>c. None), me_order = id\<rparr>
       (new_session ''s'', new_maze_state) reg = OutcomePrepared b empty_record \<and>
     reward_AppendTo reg ''task.maze.reward.'' 20 10
       (new_reward_window\<lparr>rm_count := 1, rm_total := Fin 1\<rparr>) empty_record = Inr full \<and>
     rec_points full \<noteq> [] \<and> record_typed full"
proof -
  let ?reg = "[(metric_id demo_total, demo_total)]"
  have reg: "register_all [demo_total] [] = Inr ?reg"
    by (simp add: registry_Register_def demo_total_def plain_definition_def definition_valid_def and_then_def)
  have o: "PrepareOutcome \<lparr>me_sqrt = id, me_receipt = (\<lambda>c. None), me_order = id\<rparr>
      (new_session ''s'', new_maze_state) ?reg = OutcomePrepared (OutcomeResult [] []) empty_record"
    by (simp add: PrepareOutcome_def Let_def new_session_def ranked_def BuildEpisodeOutcome_def)
  obtain full where full: "reward_AppendTo ?reg ''task.maze.reward.'' 20 10
      (new_reward_window\<lparr>rm_count := 1, rm_total := Fin 1\<rparr>) empty_record = Inr full" "rec_points full \<noteq> []"
    by (auto simp: reward_AppendTo_def new_reward_window_def window_point_def registry_Mean_def
        registry_Add_def empty_record_def and_then_def demo_total_def plain_definition_def)
  from episode_record_is_typed [OF reg o full(1)] reg o full show ?thesis by blast
qed

end
