(* ===== verification/Model_Updates.thy ===== *)
theory Model_Updates
  imports Runtime
begin

text \<open>
  \<open>task/runtime/training_runtime.tpp\<close>, the models: the initial model, the watcher that fetches and
  stages newer ones, the acknowledgement that must be settled before a staged model becomes the
  active one, and the feedback on all of this.  What \<open>ModelDistributorClient\<close> and the ONNX runtime
  answer is an argument of each operation.
\<close>

section \<open>Answers from outside\<close>

datatype ack_disposition = AckedApplied | AckedRejected | AckedNotApplied | AckedUncertain

datatype probe_result = ProbeReady service_identity | ProbeRetryable string | ProbeRejected string

text \<open>
  One use of the client: the available range (latest step and lineage), a fetch, the preparation of
  the ONNX session, the text of a failed discard, the path after publication in the cache, the probe
  of the acknowledging authority, and an acknowledgement with its error text.
\<close>

record model_calls =
  mc_range :: "string + (u64 \<times> string)"
  mc_fetch :: "string + model_manifest"
  mc_prepare :: "string + nat"
  mc_discard :: string
  mc_publish :: "string + string"
  mc_probe :: probe_result
  mc_ack :: "ack_disposition \<times> string"
  mc_now :: int

section \<open>Feedback and preparation\<close>

definition RecordModelFeedback :: "model_identity \<Rightarrow> string \<Rightarrow> string \<Rightarrow> 'g runtime \<Rightarrow> 'g runtime" where
  "RecordModelFeedback candidate stage err rt =
     rt\<lparr>model_feedback := \<lparr>fb_candidate = candidate, fb_stage = stage, fb_error = err\<rparr>\<rparr>"

definition ValidateStagedModelProgress :: "model_manifest \<Rightarrow> model_manifest \<Rightarrow> string + unit" where
  "ValidateStagedModelProgress active candidate =
     (if \<not> HasModelIdentity active \<or> \<not> HasModelIdentity candidate \<or>
         model_step candidate \<le> model_step active \<or> trained_samples candidate < trained_samples active
      then Inl ''staged publication must advance without training-counter rollback''
      else Inr ())"

definition ShouldFetchModelCandidate :: "u64 \<Rightarrow> u64 option \<Rightarrow> u64 \<Rightarrow> bool" where
  "ShouldFetchModelCandidate latest_prepared staged latest \<longleftrightarrow>
     latest > latest_prepared \<and> (case staged of None \<Rightarrow> True | Some s \<Rightarrow> latest > s)"

definition staged_step :: "'g runtime \<Rightarrow> u64 option" where
  "staged_step rt =
     (if HasModelIdentity (staged_manifest rt) then Some (model_step (staged_manifest rt)) else None)"

definition target_manifest :: "u64 \<Rightarrow> string \<Rightarrow> model_manifest" where
  "target_manifest step lineage =
     empty_manifest\<lparr>wire_identity := Some \<lparr>id_lineage = lineage, id_step = Some step\<rparr>\<rparr>"

definition with_discard :: "model_calls \<Rightarrow> string \<Rightarrow> string" where
  "with_discard mc err = (if mc_discard mc = [] then err else err @ ''; '' @ mc_discard mc)"

definition FetchPrepareAndPublishModel ::
  "model_calls \<Rightarrow> u64 \<Rightarrow> string \<Rightarrow> 'g runtime \<Rightarrow>
   (string + model_manifest \<times> prepared_model) \<times> 'g runtime" where
  "FetchPrepareAndPublishModel mc step lineage rt =
     (let target = manifest_identity (target_manifest step lineage)
      in case mc_fetch mc of
           Inl err \<Rightarrow> (Inl (''download: '' @ err), RecordModelFeedback target ''download'' err rt)
         | Inr downloaded \<Rightarrow>
             (case mc_prepare mc of
                Inl err \<Rightarrow>
                  (Inl (''prepare: '' @ with_discard mc err),
                   RecordModelFeedback target ''prepare'' (with_discard mc err) rt)
              | Inr handle \<Rightarrow>
                  (case mc_publish mc of
                     Inl err \<Rightarrow>
                       (Inl (''cache_publish: '' @ with_discard mc err),
                        RecordModelFeedback target ''cache_publish'' (with_discard mc err) rt)
                   | Inr path \<Rightarrow>
                       (Inr (downloaded\<lparr>model_path := path\<rparr>,
                             \<lparr>prep_session = Some handle, prep_path = path\<rparr>),
                        RecordModelFeedback target ''prepared'' [] rt))))"

section \<open>Activation\<close>

text \<open>\<open>ActivatePreparedModel\<close> of the inferencer; it terminates the process on an invalid model.\<close>

definition ActivatePreparedModel :: "prepared_model \<Rightarrow> 'g runtime \<Rightarrow> 'g runtime" where
  "ActivatePreparedModel p rt =
     rt\<lparr>loaded_session := prep_session p, current_model_path := prep_path p\<rparr>"

text \<open>The staged model becomes the active one.\<close>

definition promote_staged :: "'g runtime \<Rightarrow> 'g runtime" where
  "promote_staged rt =
     (ActivatePreparedModel ((staged_prepared rt)\<lparr>prep_path := model_path (staged_manifest rt)\<rparr>) rt)
       \<lparr>superseded_without_activation_count := superseded_without_activation_count rt +
          (if HasModelIdentity (active_manifest rt) \<and> \<not> latest_prepared_used rt then 1 else 0),
        active_manifest := staged_manifest rt, staged_manifest := empty_manifest,
        staged_prepared := no_prepared, model_switch_count := model_switch_count rt + 1,
        latest_prepared_used := False, model_load_state := ModelReady\<rparr>"

definition RecordPendingModelAck ::
  "model_manifest \<Rightarrow> service_identity \<Rightarrow> int \<Rightarrow> string \<Rightarrow> 'g runtime \<Rightarrow> 'g runtime" where
  "RecordPendingModelAck m authority deadline err rt =
     (let cause = ''model ACK remains outcome-uncertain before latest-prepared publish: '' @ err
      in RecordModelFeedback (manifest_identity m) ''ack_pending'' cause
           (rt\<lparr>model_ack_pending := True, pending_ack_manifest := m,
               pending_ack_authority := authority, pending_ack_deadline := deadline,
               pending_ack_error := err, pending_ack_cause := cause\<rparr>))"

definition model_failed :: "string \<Rightarrow> 'g runtime \<Rightarrow> 'g runtime" where
  "model_failed err rt =
     rt\<lparr>model_load_state := ModelFailed, server_state := AiDegraded, rt_last_error := err\<rparr>"

definition ActivateStagedModel :: "model_calls \<Rightarrow> 'g runtime \<Rightarrow> bool \<times> 'g runtime" where
  "ActivateStagedModel mc rt =
     (let m = staged_manifest rt
      in if \<not> HasModelIdentity m \<or> \<not> prepared_valid (staged_prepared rt) then (True, rt)
         else case ValidateStagedModelProgress (active_manifest rt) m of
           Inl err \<Rightarrow> (False, rt_MarkDegraded (''staged model progress is invalid: '' @ err) rt)
         | Inr _ \<Rightarrow>
             (case mc_probe mc of
                ProbeRetryable err \<Rightarrow> (False, rt)
              | ProbeRejected err \<Rightarrow>
                  (let cause = ''model ACK authority probe was rejected: '' @ err
                   in (False, RecordModelFeedback (manifest_identity m) ''ack_rejected'' cause
                                (model_failed cause rt)))
              | ProbeReady authority \<Rightarrow>
                  (case mc_ack mc of
                     (d, err) \<Rightarrow>
                       if d = AckedRejected \<or> d = AckedNotApplied
                       then (let cause = ''model ACK was rejected: '' @ err
                             in (False, RecordModelFeedback (manifest_identity m) ''ack_rejected'' cause
                                          (model_failed cause rt)))
                       else if d = AckedUncertain
                       then (False, RecordPendingModelAck m authority
                               (mc_now mc + startup_timeout_ms (config rt)) err rt)
                       else (True, promote_staged rt))))"

definition TryPromoteStagedModelForWatcher :: "model_calls \<Rightarrow> 'g runtime \<Rightarrow> bool \<times> 'g runtime" where
  "TryPromoteStagedModelForWatcher mc rt =
     (if shutdown_started rt \<or> model_ack_pending rt \<or> \<not> HasModelIdentity (staged_manifest rt) \<or>
         \<not> prepared_valid (staged_prepared rt)
      then (False, rt) else ActivateStagedModel mc rt)"

text \<open>
  \<open>RetryPendingModelAck\<close> reads the pending acknowledgement, calls the distributor with the lock
  released and then settles the outcome.
\<close>

record pending_ack =
  pa_manifest :: model_manifest
  pa_authority :: service_identity
  pa_deadline :: int

definition read_pending :: "'g runtime \<Rightarrow> pending_ack" where
  "read_pending rt = \<lparr>pa_manifest = pending_ack_manifest rt, pa_authority = pending_ack_authority rt,
     pa_deadline = pending_ack_deadline rt\<rparr>"

definition same_model :: "model_manifest \<Rightarrow> model_manifest \<Rightarrow> bool" where
  "same_model a b \<longleftrightarrow> model_step a = model_step b \<and> model_lineage_id a = model_lineage_id b"

definition clear_pending_ack :: "'g runtime \<Rightarrow> 'g runtime" where
  "clear_pending_ack rt =
     rt\<lparr>model_ack_pending := False, pending_ack_manifest := empty_manifest,
        pending_ack_authority := no_service, pending_ack_error := [], pending_ack_cause := []\<rparr>"

definition settle_pending :: "model_calls \<Rightarrow> pending_ack \<Rightarrow> 'g runtime \<Rightarrow> bool \<times> 'g runtime" where
  "settle_pending mc p rt =
     (let m = pa_manifest p; (d, err) = mc_ack mc
      in if \<not> model_ack_pending rt \<or> \<not> same_model (pending_ack_manifest rt) m
         then (\<not> model_ack_pending rt, rt)
         else if d = AckedApplied
         then (if \<not> HasModelIdentity (staged_manifest rt) \<or> \<not> same_model (staged_manifest rt) m \<or>
                  \<not> prepared_valid (staged_prepared rt)
               then (False, model_failed ''acknowledged staged model is no longer available locally'' rt)
               else (let rt1 = clear_pending_ack (promote_staged rt)
                     in (True, RecordModelFeedback (manifest_identity (active_manifest rt1)) ''loaded'' [] rt1)))
         else if d = AckedRejected \<or> d = AckedNotApplied
         then (let cause = ''pending model ACK was explicitly rejected: '' @ err
               in (False, RecordModelFeedback (manifest_identity m) ''ack_rejected'' cause
                     (model_failed cause (rt\<lparr>model_ack_pending := False, pending_ack_error := err\<rparr>))))
         else (let rt1 = (if err = [] then rt else rt\<lparr>pending_ack_error := err\<rparr>)
               in if mc_now mc \<ge> pa_deadline p
                  then (let cause = ''model ACK recovery deadline elapsed with outcome unknown: lineage='' @
                              model_lineage_id m @ '' model_step='' @ dec (unat (model_step m)) @
                              '' authority='' @ instance_id (pa_authority p) @ '': '' @ pending_ack_error rt1
                        in (False, RecordModelFeedback (manifest_identity m) ''ack_unconfirmed'' cause
                              (model_failed cause (rt1\<lparr>pending_ack_cause := cause\<rparr>))))
                  else (let cause = ''pending model ACK remains outcome-uncertain: '' @ pending_ack_error rt1
                        in (False, RecordModelFeedback (manifest_identity m) ''ack_pending'' cause
                              (rt1\<lparr>pending_ack_cause := cause\<rparr>)))))"

section \<open>Cache protection\<close>

definition pinned_steps :: "session \<Rightarrow> u64 list" where
  "pinned_steps s =
     map (\<lambda>(_, a). model_step (pinned_model a))
       (filter (\<lambda>(_, a). segment_open a \<and> HasModelIdentity (pinned_model a)) (agents s))"

definition ProtectedCachedModelStepsLocked :: "'g runtime \<Rightarrow> u64 set" where
  "ProtectedCachedModelStepsLocked rt =
     set ((if HasModelIdentity (active_manifest rt) then [model_step (active_manifest rt)] else []) @
       (if HasModelIdentity (staged_manifest rt) then [model_step (staged_manifest rt)] else []) @
       (if model_ack_pending rt \<and> HasModelIdentity (pending_ack_manifest rt)
        then [model_step (pending_ack_manifest rt)] else []) @
       concat (map (\<lambda>(_, s). pinned_steps s) (sessions (session_mgr rt))))"

section \<open>The watcher\<close>

text \<open>
  \<open>ModelWatchLoop\<close> as a state machine: between two of its critical sections other threads run.  A
  cycle either settles a pending acknowledgement or looks for a newer model and tries to promote the
  staged one.
\<close>

datatype watcher =
    WatchIdle
  | WatchSettle pending_ack
  | WatchDiscover u64 "u64 option"
  | WatchStage model_manifest prepared_model
  | WatchPromote

definition note_range :: "u64 \<Rightarrow> string \<Rightarrow> 'g runtime \<Rightarrow> 'g runtime" where
  "note_range latest lineage rt =
     (if fb_stage (model_feedback rt) = ''discover''
      then RecordModelFeedback \<lparr>id_lineage = lineage, id_step = Some latest\<rparr> ''available'' [] rt
      else rt)"

definition discover :: "model_calls \<Rightarrow> u64 \<Rightarrow> u64 option \<Rightarrow> 'g runtime \<Rightarrow> watcher \<times> 'g runtime" where
  "discover mc active staged rt =
     (case mc_range mc of
        Inl err \<Rightarrow> (WatchPromote, RecordModelFeedback no_identity ''discover'' err rt)
      | Inr (latest, lineage) \<Rightarrow>
          let rt1 = note_range latest lineage rt
          in if \<not> ShouldFetchModelCandidate active staged latest then (WatchPromote, rt1)
             else case FetchPrepareAndPublishModel mc latest lineage rt1 of
               (Inl _, rt2) \<Rightarrow> (WatchPromote, rt2)
             | (Inr (m, p), rt2) \<Rightarrow>
                 if model_lineage_id m \<noteq> lineage
                 then (WatchPromote, RecordModelFeedback (manifest_identity m) ''range_identity''
                         ''staged model range identity changed during fetch'' rt2)
                 else (WatchStage m p, rt2))"

definition stage_candidate :: "model_manifest \<Rightarrow> prepared_model \<Rightarrow> 'g runtime \<Rightarrow> 'g runtime" where
  "stage_candidate m p rt =
     (if ShouldFetchModelCandidate (model_step (active_manifest rt)) (staged_step rt) (model_step m)
      then rt\<lparr>staged_manifest := m, staged_prepared := p\<rparr> else rt)"

definition watch_next :: "model_calls \<Rightarrow> watcher \<Rightarrow> 'g runtime \<Rightarrow> watcher \<times> 'g runtime" where
  "watch_next mc wt rt =
     (case wt of
        WatchIdle \<Rightarrow>
          if model_load_state rt = ModelFailed then (WatchIdle, rt)
          else if model_ack_pending rt then (WatchSettle (read_pending rt), rt)
          else (WatchDiscover (model_step (active_manifest rt)) (staged_step rt), rt)
      | WatchSettle p \<Rightarrow> (WatchIdle, snd (settle_pending mc p rt))
      | WatchDiscover active staged \<Rightarrow> discover mc active staged rt
      | WatchStage m p \<Rightarrow> (WatchPromote, stage_candidate m p rt)
      | WatchPromote \<Rightarrow> (WatchIdle, snd (TryPromoteStagedModelForWatcher mc rt)))"

section \<open>The initial model\<close>

text \<open>
  One turn of the start-up loop: the calls, the authority found by the probes before the deadline,
  and the answers to the repeated acknowledgement (the last one counts).
\<close>

record startup_turn =
  st_calls :: model_calls
  st_authority :: service_identity
  st_probe_error :: string
  st_acks :: "ack_disposition list"
  st_ack_error :: string
  st_failed_ack :: "ack_disposition \<times> string"

text \<open>The answers of \<open>AckIdempotently\<close> until one is not uncertain or the deadline has passed.\<close>

fun settled_ack :: "ack_disposition list \<Rightarrow> ack_disposition" where
  "settled_ack [] = AckedUncertain"
| "settled_ack (d # ds) = (if d = AckedUncertain then settled_ack ds else d)"

definition load_failed :: "string \<Rightarrow> 'g runtime \<Rightarrow> bool \<times> 'g runtime" where
  "load_failed err rt = (False, rt\<lparr>model_load_state := ModelFailed, rt_last_error := err\<rparr>)"

definition load_turn ::
  "startup_turn \<Rightarrow> u64 \<Rightarrow> string \<Rightarrow> 'g runtime \<Rightarrow> (bool \<times> 'g runtime) option \<times> string \<times> 'g runtime" where
  "load_turn t latest lineage rt =
     (case FetchPrepareAndPublishModel (st_calls t) latest lineage rt of
        (Inl err, rt1) \<Rightarrow>
          (Some (load_failed (''initial model load failed: lineage='' @ lineage @ '' model_step='' @
             dec (unat latest) @ '': '' @ err @
             (case st_failed_ack t of (d, e) \<Rightarrow>
                if d \<noteq> AckedApplied then ''; FAILED acknowledgement was not confirmed: '' @ e else [])) rt1),
           [], rt1)
      | (Inr (m, p), rt1) \<Rightarrow>
          if model_lineage_id m \<noteq> lineage \<or> \<not> prepared_valid p
          then (Some (load_failed ''initial model range identity mismatch'' rt1), [], rt1)
          else if instance_id (st_authority t) = [] then (None, st_probe_error t, rt1)
          else (case settled_ack (st_acks t) of
                  AckedApplied \<Rightarrow>
                    (Some (True, (ActivatePreparedModel (p\<lparr>prep_path := model_path m\<rparr>) rt1)
                       \<lparr>active_manifest := m, latest_prepared_used := False,
                        model_load_state := ModelReady, rt_last_error := []\<rparr>), [], rt1)
                | AckedUncertain \<Rightarrow>
                    (Some (load_failed (''initial model ACK remained outcome-unknown before '' @
                       ''the startup deadline: '' @ st_ack_error t) rt1), [], rt1)
                | _ \<Rightarrow>
                    (Some (load_failed (''initial model ACK was rejected: '' @ st_ack_error t) rt1), [], rt1)))"

text \<open>The turns before the deadline; \<open>err\<close> is the last error.\<close>

fun load_initial :: "startup_turn list \<Rightarrow> string \<Rightarrow> 'g runtime \<Rightarrow> bool \<times> 'g runtime" where
  "load_initial [] err rt = load_failed (if_empty err ''initial model startup timeout'' err) rt"
| "load_initial (t # ts) err rt =
     (case mc_range (st_calls t) of
        Inl e \<Rightarrow> load_initial ts e rt
      | Inr (latest, lineage) \<Rightarrow>
          (case load_turn t latest lineage rt of
             (Some r, _, _) \<Rightarrow> r
           | (None, e, rt1) \<Rightarrow> load_initial ts e rt1))"

record evaluation_model =
  ev_path :: string
  ev_size :: "int option"
  ev_prepare :: "string + nat"
  ev_now :: int

definition LoadInitialModel ::
  "evaluation_model \<Rightarrow> startup_turn list \<Rightarrow> 'g runtime \<Rightarrow> bool \<times> 'g runtime" where
  "LoadInitialModel ev ts rt0 =
     (let rt = rt0\<lparr>model_load_state := ModelWaiting\<rparr>
      in if run_mode (config rt) = kEvaluation
         then (case ev_size ev of
                 None \<Rightarrow> load_failed ''evaluation model file size is invalid'' rt
               | Some n \<Rightarrow>
                   if n \<le> 0 \<or> n > int64_max then load_failed ''evaluation model file size is invalid'' rt
                   else case ev_prepare ev of
                     Inl err \<Rightarrow> load_failed (''evaluation model load failed: '' @ err) rt
                   | Inr handle \<Rightarrow>
                       (True, (ActivatePreparedModel \<lparr>prep_session = Some handle, prep_path = ev_path ev\<rparr> rt)
                          \<lparr>active_manifest :=
                             \<lparr>wire_identity = Some \<lparr>id_lineage = ''evaluation-local'', id_step = Some 0\<rparr>,
                              size_bytes = n, published_at_unix_ms = ev_now ev, trained_samples = 0,
                              model_path = ev_path ev\<rparr>,
                           model_load_state := ModelReady, rt_last_error := []\<rparr>))
         else load_initial ts [] rt)"

section \<open>Start\<close>

text \<open>
  \<open>lease\<close> and \<open>release\<close> are the outcomes of taking and giving back the workspace, \<open>start\<close> that of
  the distributor's start, and \<open>stop\<close> what \<open>StopAndDrain\<close> does to it.
\<close>

definition give_back_lease :: "string + unit \<Rightarrow> 'g runtime \<Rightarrow> 'g runtime" where
  "give_back_lease release rt =
     (if \<not> workspace_lease_held rt then rt
      else case release of
             Inl err \<Rightarrow> rt\<lparr>rt_last_error := rt_last_error rt @ ''; '' @ err\<rparr>
           | Inr _ \<Rightarrow> rt\<lparr>workspace_lease_held := False\<rparr>)"

definition rt_Start ::
  "string + unit \<Rightarrow> string + unit \<Rightarrow> (dist \<Rightarrow> bool \<times> dist) \<Rightarrow> (dist \<Rightarrow> dist) \<Rightarrow> evaluation_model \<Rightarrow>
   startup_turn list \<Rightarrow> 'g runtime \<Rightarrow> bool \<times> 'g runtime" where
  "rt_Start lease release start stop ev ts rt0 =
     (let training = (run_mode (config rt0) = kTraining); rt = rt0\<lparr>server_state := AiStarting\<rparr>;
          ready = (\<lambda>r. (True, r\<lparr>started := True,
            server_state := (if model_ack_pending r then server_state r else AiReady)\<rparr>))
      in if started rt0 then (server_state rt0 = AiReady, rt0)
         else if training
         then (case (if workspace_lease_held rt then Inr () else lease) of
                 Inl err \<Rightarrow> (False, rt\<lparr>rt_last_error := err, server_state := AiDegraded\<rparr>)
               | Inr _ \<Rightarrow>
                   (case start (distributor rt) of
                      (ok, d) \<Rightarrow>
                        let rt1 = rt\<lparr>workspace_lease_held := True, distributor := d\<rparr>
                        in if \<not> ok
                           then (False, (give_back_lease release (rt1\<lparr>rt_last_error := dist_last_error d\<rparr>))
                                   \<lparr>server_state := AiDegraded\<rparr>)
                           else (case LoadInitialModel ev ts rt1 of
                                   (False, rt2) \<Rightarrow>
                                     (False, (give_back_lease release (rt2\<lparr>distributor := stop (distributor rt2)\<rparr>))
                                        \<lparr>server_state := AiDegraded\<rparr>)
                                 | (True, rt2) \<Rightarrow> ready rt2)))
         else if run_mode (config rt) = kEvaluation
         then (case LoadInitialModel ev ts rt of
                 (False, rt2) \<Rightarrow> (False, rt2\<lparr>server_state := AiDegraded\<rparr>)
               | (True, rt2) \<Rightarrow> ready rt2)
         else ready rt)"

end
