(* ===== verification/Model_Claims.thy ===== *)
theory Model_Claims
  imports Model_Updates Transaction
begin

text \<open>
  The active model across the life of the server: whatever the distributor answers and whatever other
  threads do in between, it only moves forward, it is the one the inferencer has loaded, and it
  changes only after its acknowledgement.
\<close>

section \<open>Runs of the watcher\<close>

text \<open>The part of the runtime that only the watcher changes once the server has started.\<close>

definition model_part ::
  "'g runtime \<Rightarrow> model_manifest \<times> model_manifest \<times> prepared_model \<times> bool \<times> model_manifest \<times> nat option \<times> string" where
  "model_part rt =
     (active_manifest rt, staged_manifest rt, staged_prepared rt, model_ack_pending rt,
      pending_ack_manifest rt, loaded_session rt, current_model_path rt)"

inductive watch_run :: "watcher \<Rightarrow> 'g runtime \<Rightarrow> watcher \<Rightarrow> 'g runtime \<Rightarrow> bool" for wt0 rt0 where
  watch_start: "watch_run wt0 rt0 wt0 rt0"
| watch_step: "watch_run wt0 rt0 wt rt \<Longrightarrow> watch_next mc wt rt = (wt', rt') \<Longrightarrow> watch_run wt0 rt0 wt' rt'"
| watch_other: "watch_run wt0 rt0 wt rt \<Longrightarrow> model_part rt' = model_part rt \<Longrightarrow> watch_run wt0 rt0 wt rt'"

definition progresses :: "model_manifest \<Rightarrow> model_manifest \<Rightarrow> bool" where
  "progresses a b \<longleftrightarrow>
     HasModelIdentity b \<and> model_step a < model_step b \<and> trained_samples a \<le> trained_samples b"

definition watch_inv :: "watcher \<Rightarrow> 'g runtime \<Rightarrow> bool" where
  "watch_inv wt rt \<longleftrightarrow>
     HasModelIdentity (active_manifest rt) \<and> loaded_session rt \<noteq> None \<and>
     current_model_path rt = model_path (active_manifest rt) \<and>
     (model_ack_pending rt \<longrightarrow>
        pending_ack_manifest rt = staged_manifest rt \<and>
        progresses (active_manifest rt) (staged_manifest rt) \<and> prepared_valid (staged_prepared rt)) \<and>
     (case wt of
        WatchIdle \<Rightarrow> True
      | WatchSettle p \<Rightarrow> model_ack_pending rt \<and> pa_manifest p = staged_manifest rt
      | WatchStage m p \<Rightarrow> \<not> model_ack_pending rt \<and> prepared_valid p
      | _ \<Rightarrow> \<not> model_ack_pending rt)"

lemma watch_inv_cong: "model_part rt' = model_part rt \<Longrightarrow> watch_inv wt rt' = watch_inv wt rt"
  by (cases wt) (simp_all add: watch_inv_def model_part_def)

lemma pending_text_part [simp]:
  "model_part (rt\<lparr>pending_ack_error := e\<rparr>) = model_part rt"
  "model_part (rt\<lparr>pending_ack_cause := c\<rparr>) = model_part rt"
  by (simp_all add: model_part_def)

lemma feedback_part [simp]: "model_part (RecordModelFeedback c st err rt) = model_part rt"
  by (simp add: model_part_def RecordModelFeedback_def)

lemma failed_part [simp]: "model_part (model_failed err rt) = model_part rt"
  by (simp add: model_part_def model_failed_def)

lemma degraded_part [simp]: "model_part (rt_MarkDegraded err rt) = model_part rt"
  by (simp add: model_part_def rt_MarkDegraded_def)

lemma fetch_part:
  "FetchPrepareAndPublishModel mc st lin rt = (r, rt') \<Longrightarrow>
     model_part rt' = model_part rt \<and> (\<forall>m p. r = Inr (m, p) \<longrightarrow> prepared_valid p)"
  by (auto simp: FetchPrepareAndPublishModel_def Let_def prepared_valid_def split: sum.splits)

lemma discover_part:
  assumes "discover mc a s rt = (wt', rt')"
  shows "model_part rt' = model_part rt \<and> (wt' = WatchPromote \<or> (\<exists>m p. wt' = WatchStage m p \<and> prepared_valid p))"
proof (cases "mc_range mc")
  case (Inl err)
  with assms show ?thesis by (auto simp: discover_def)
next
  case (Inr x)
  obtain latest lineage where x: "x = (latest, lineage)" by force
  have n: "model_part (note_range latest lineage rt) = model_part rt" by (simp add: note_range_def)
  obtain r rt1 where f: "FetchPrepareAndPublishModel mc latest lineage (note_range latest lineage rt) = (r, rt1)"
    by force
  from fetch_part [OF f] n assms Inr x f show ?thesis
    by (auto simp: discover_def Let_def split: if_splits sum.splits)
qed

definition advances :: "model_manifest \<Rightarrow> model_manifest \<Rightarrow> bool" where
  "advances a b \<longleftrightarrow> b = a \<or> progresses a b"

lemma progress_trans: "advances a b \<Longrightarrow> advances b c \<Longrightarrow> advances a c"
  by (auto simp: advances_def progresses_def)

lemma promote_part:
  assumes "watch_inv wt rt" "progresses (active_manifest rt) (staged_manifest rt)"
    "prepared_valid (staged_prepared rt)"
  shows "HasModelIdentity (active_manifest (promote_staged rt))" "loaded_session (promote_staged rt) \<noteq> None"
    "current_model_path (promote_staged rt) = model_path (active_manifest (promote_staged rt))"
    "active_manifest (promote_staged rt) = staged_manifest rt"
    "model_ack_pending (promote_staged rt) = model_ack_pending rt"
  using assms by (auto simp: promote_staged_def ActivatePreparedModel_def progresses_def prepared_valid_def)

lemma validated_progress:
  "ValidateStagedModelProgress a b = Inr u \<Longrightarrow> progresses a b"
  by (auto simp: ValidateStagedModelProgress_def progresses_def split: if_splits)

lemma activate_step:
  assumes inv: "watch_inv WatchPromote rt" and a: "TryPromoteStagedModelForWatcher mc rt = (ok, rt')"
  shows "watch_inv WatchIdle rt' \<and> advances (active_manifest rt) (active_manifest rt') \<and>
    (active_manifest rt' \<noteq> active_manifest rt \<longrightarrow> fst (mc_ack mc) = AckedApplied)"
proof -
  let ?m = "staged_manifest rt"
  consider "model_part rt' = model_part rt"
    | auth dl err where "progresses (active_manifest rt) ?m" "prepared_valid (staged_prepared rt)"
      "rt' = RecordPendingModelAck ?m auth dl err rt"
    | "progresses (active_manifest rt) ?m" "prepared_valid (staged_prepared rt)" "rt' = promote_staged rt"
      "fst (mc_ack mc) = AckedApplied"
  proof (cases "shutdown_started rt \<or> model_ack_pending rt \<or> \<not> HasModelIdentity ?m \<or>
      \<not> prepared_valid (staged_prepared rt)")
    case True
    with a have "rt' = rt" by (simp add: TryPromoteStagedModelForWatcher_def)
    then show thesis by (intro that(1)) simp
  next
    case False
    with a have act: "ActivateStagedModel mc rt = (ok, rt')" and v: "prepared_valid (staged_prepared rt)"
      "HasModelIdentity ?m" by (simp_all add: TryPromoteStagedModelForWatcher_def)
    show thesis
    proof (cases "ValidateStagedModelProgress (active_manifest rt) ?m")
      case (Inl err)
      with act v have "rt' = rt_MarkDegraded (''staged model progress is invalid: '' @ err) rt"
        by (simp add: ActivateStagedModel_def Let_def)
      then show thesis by (intro that(1)) simp
    next
      case (Inr u)
      note g = validated_progress [OF Inr]
      show thesis
      proof (cases "mc_probe mc")
        case (ProbeReady auth)
        obtain d err where d: "mc_ack mc = (d, err)" by force
        show thesis
          using act v Inr ProbeReady d g that
          by (cases d) (auto simp: ActivateStagedModel_def Let_def)
      qed (use act v Inr that(1) in \<open>auto simp: ActivateStagedModel_def Let_def\<close>)
    qed
  qed
  then show ?thesis
  proof cases
    case 1
    then have "active_manifest rt' = active_manifest rt" by (simp add: model_part_def)
    with inv watch_inv_cong [OF 1, of WatchIdle] show ?thesis by (simp add: advances_def watch_inv_def)
  next
    case 2
    with inv show ?thesis
      by (simp add: RecordPendingModelAck_def RecordModelFeedback_def Let_def watch_inv_def advances_def)
  next
    case 3
    note p = promote_part [OF inv 3(1,2)]
    have "\<not> model_ack_pending rt" using inv by (simp add: watch_inv_def)
    with 3 p show ?thesis by (simp add: watch_inv_def advances_def)
  qed
qed

lemma settle_step:
  assumes inv: "watch_inv (WatchSettle p) rt" and s: "settle_pending mc p rt = (ok, rt')"
  shows "watch_inv WatchIdle rt' \<and> advances (active_manifest rt) (active_manifest rt') \<and>
    (active_manifest rt' \<noteq> active_manifest rt \<longrightarrow> fst (mc_ack mc) = AckedApplied) \<and>
    (fst (mc_ack mc) = AckedApplied \<longrightarrow> ok \<and> active_manifest rt' = pending_ack_manifest rt)"
proof -
  let ?m = "staged_manifest rt"
  have i: "model_ack_pending rt" "pending_ack_manifest rt = ?m" "progresses (active_manifest rt) ?m"
    "prepared_valid (staged_prepared rt)" "pa_manifest p = ?m"
    using inv by (simp_all add: watch_inv_def)
  have id: "HasModelIdentity ?m" using i(3) by (simp add: progresses_def)
  obtain d err where d: "mc_ack mc = (d, err)" by force
  show ?thesis
  proof (cases d)
    case AckedApplied
    note q = promote_part [OF inv i(3,4)]
    let ?rt = "clear_pending_ack (promote_staged rt)"
    have rt': "ok" "rt' = RecordModelFeedback (manifest_identity (active_manifest ?rt)) ''loaded'' [] ?rt"
      using s d AckedApplied i id by (simp_all add: settle_pending_def Let_def same_model_def)
    have "watch_inv WatchIdle ?rt" using q by (simp add: watch_inv_def clear_pending_ack_def)
    then have "watch_inv WatchIdle rt'" unfolding rt'(2) using watch_inv_cong [OF feedback_part] by blast
    moreover have "active_manifest rt' = ?m"
      unfolding rt'(2) by (simp add: RecordModelFeedback_def clear_pending_ack_def q(4))
    ultimately show ?thesis using rt'(1) i d AckedApplied by (simp add: advances_def)
  next
    case AckedRejected
    then have rt': "rt' = RecordModelFeedback (manifest_identity ?m) ''ack_rejected''
        (''pending model ACK was explicitly rejected: '' @ err)
        (model_failed (''pending model ACK was explicitly rejected: '' @ err)
          (rt\<lparr>model_ack_pending := False, pending_ack_error := err\<rparr>))"
      using s d i by (simp add: settle_pending_def Let_def same_model_def)
    show ?thesis using inv d AckedRejected unfolding rt'
      by (simp add: watch_inv_def RecordModelFeedback_def model_failed_def advances_def)
  next
    case AckedNotApplied
    then have rt': "rt' = RecordModelFeedback (manifest_identity ?m) ''ack_rejected''
        (''pending model ACK was explicitly rejected: '' @ err)
        (model_failed (''pending model ACK was explicitly rejected: '' @ err)
          (rt\<lparr>model_ack_pending := False, pending_ack_error := err\<rparr>))"
      using s d i by (simp add: settle_pending_def Let_def same_model_def)
    show ?thesis using inv d AckedNotApplied unfolding rt'
      by (simp add: watch_inv_def RecordModelFeedback_def model_failed_def advances_def)
  next
    case AckedUncertain
    then have "model_part (snd (settle_pending mc p rt)) = model_part rt"
      using d i by (simp add: settle_pending_def Let_def same_model_def)
    then have "model_part rt' = model_part rt" using s by simp
    moreover from this have "active_manifest rt' = active_manifest rt" by (simp add: model_part_def)
    ultimately show ?thesis using inv watch_inv_cong [of rt' rt WatchIdle] d AckedUncertain
      by (simp add: advances_def watch_inv_def)
  qed
qed

lemma watch_next_inv:
  assumes inv: "watch_inv wt rt" and n: "watch_next mc wt rt = (wt', rt')"
  shows "watch_inv wt' rt' \<and> advances (active_manifest rt) (active_manifest rt') \<and>
    (active_manifest rt' \<noteq> active_manifest rt \<longrightarrow> fst (mc_ack mc) = AckedApplied)"
proof (cases wt)
  case WatchIdle
  with n have "rt' = rt" by (auto simp: watch_next_def split: if_splits)
  moreover have "watch_inv wt' rt"
  proof (cases "model_load_state rt = ModelFailed")
    case True
    with n WatchIdle inv show ?thesis by (simp add: watch_next_def)
  next
    case failed: False
    show ?thesis
    proof (cases "model_ack_pending rt")
      case True
      with failed n WatchIdle have "wt' = WatchSettle (read_pending rt)"
        by (auto simp: watch_next_def)
      with True inv [unfolded WatchIdle] show ?thesis by (simp add: watch_inv_def read_pending_def)
    next
      case False
      with failed n WatchIdle
      have "wt' = WatchDiscover (model_step (active_manifest rt)) (staged_step rt)"
        by (auto simp: watch_next_def)
      with False inv [unfolded WatchIdle] show ?thesis by (simp add: watch_inv_def)
    qed
  qed
  ultimately show ?thesis by (simp add: advances_def)
next
  case (WatchSettle p)
  obtain ok rt1 where s: "settle_pending mc p rt = (ok, rt1)" by force
  with n WatchSettle have "wt' = WatchIdle" "rt' = rt1" by (simp_all add: watch_next_def)
  with settle_step [OF inv [unfolded WatchSettle] s] show ?thesis by blast
next
  case (WatchDiscover a s)
  from n WatchDiscover have d: "discover mc a s rt = (wt', rt')" by (simp add: watch_next_def)
  from discover_part [OF d] have p: "model_part rt' = model_part rt"
    and w: "wt' = WatchPromote \<or> (\<exists>m p. wt' = WatchStage m p \<and> prepared_valid p)" by blast+
  have "active_manifest rt' = active_manifest rt" using p by (simp add: model_part_def)
  moreover have "watch_inv wt' rt'"
    using inv w watch_inv_cong [OF p, of wt'] WatchDiscover by (auto simp: watch_inv_def)
  ultimately show ?thesis by (simp add: advances_def)
next
  case (WatchStage m p)
  then have w: "wt' = WatchPromote" "rt' = stage_candidate m p rt"
    using n by (simp_all add: watch_next_def)
  have "active_manifest rt' = active_manifest rt" "watch_inv wt' rt'"
    using inv [unfolded WatchStage] unfolding w by (simp_all add: stage_candidate_def watch_inv_def)
  then show ?thesis by (simp add: advances_def)
next
  case WatchPromote
  obtain ok rt1 where t: "TryPromoteStagedModelForWatcher mc rt = (ok, rt1)" by force
  with n WatchPromote have "wt' = WatchIdle" "rt' = rt1" by (simp_all add: watch_next_def)
  with activate_step [OF inv [unfolded WatchPromote] t] show ?thesis by blast
qed

lemma watch_run_inv:
  assumes "watch_run wt0 rt0 wt rt" "watch_inv wt0 rt0"
  shows "watch_inv wt rt \<and> advances (active_manifest rt0) (active_manifest rt)"
  using assms(1)
proof induction
  case watch_start
  with assms(2) show ?case by (simp add: advances_def)
next
  case (watch_step wt rt mc wt' rt')
  with watch_next_inv [OF _ watch_step(2)] progress_trans show ?case by blast
next
  case (watch_other wt rt rt')
  then have "active_manifest rt' = active_manifest rt" by (simp add: model_part_def)
  with watch_other watch_inv_cong [OF watch_other(2)] show ?case by simp
qed

section \<open>From the start\<close>

definition manifests_identified :: "startup_turn list \<Rightarrow> bool" where
  "manifests_identified ts \<longleftrightarrow>
     list_all (\<lambda>t. case mc_fetch (st_calls t) of Inl _ \<Rightarrow> True | Inr m \<Rightarrow> HasModelIdentity m) ts"

definition loaded_model :: "'g runtime \<Rightarrow> bool" where
  "loaded_model rt \<longleftrightarrow> HasModelIdentity (active_manifest rt) \<and> loaded_session rt \<noteq> None \<and>
     current_model_path rt = model_path (active_manifest rt)"

lemma watch_inv_loaded: "watch_inv wt rt \<Longrightarrow> loaded_model rt"
  by (simp add: watch_inv_def loaded_model_def)

lemma watch_inv_idle: "loaded_model rt \<Longrightarrow> \<not> model_ack_pending rt \<Longrightarrow> watch_inv WatchIdle rt"
  by (simp add: watch_inv_def loaded_model_def)

lemma feedback_pending [simp]: "model_ack_pending (RecordModelFeedback c st err rt) = model_ack_pending rt"
  by (simp add: RecordModelFeedback_def)

lemma fetch_pending:
  "FetchPrepareAndPublishModel mc st lin rt = (r, rt') \<Longrightarrow> model_ack_pending rt' = model_ack_pending rt"
  by (auto simp: FetchPrepareAndPublishModel_def Let_def split: sum.splits)

lemma HasModelIdentity_path [simp]: "HasModelIdentity (m\<lparr>model_path := p\<rparr>) = HasModelIdentity m"
  by (simp add: HasModelIdentity_def)

lemma fetch_manifest:
  assumes "FetchPrepareAndPublishModel mc st lin rt = (Inr (m, p), rt')"
    "case mc_fetch mc of Inl _ \<Rightarrow> True | Inr m \<Rightarrow> HasModelIdentity m"
  shows "HasModelIdentity m"
  using assms by (auto simp: FetchPrepareAndPublishModel_def Let_def split: sum.splits)

lemma load_turn_ok:
  assumes r: "load_turn t latest lineage rt = (r, e, rt1)"
    and id: "case mc_fetch (st_calls t) of Inl _ \<Rightarrow> True | Inr m \<Rightarrow> HasModelIdentity m"
  shows "(case r of None \<Rightarrow> model_ack_pending rt1 = model_ack_pending rt
          | Some (ok, rt2) \<Rightarrow> ok \<longrightarrow> loaded_model rt2 \<and> model_ack_pending rt2 = model_ack_pending rt)"
proof -
  obtain f rt3 where f: "FetchPrepareAndPublishModel (st_calls t) latest lineage rt = (f, rt3)" by force
  note pend = fetch_pending [OF f]
  show ?thesis
  proof (cases f)
    case (Inl err)
    with r f show ?thesis by (auto simp: load_turn_def load_failed_def)
  next
    case (Inr x)
    obtain m p where x: "x = (m, p)" by force
    note m = fetch_manifest [OF f [unfolded Inr x] id]
    show ?thesis
    proof (cases "model_lineage_id m \<noteq> lineage \<or> \<not> prepared_valid p")
      case True
      with r f Inr x show ?thesis by (auto simp: load_turn_def load_failed_def)
    next
      case ok: False
      show ?thesis
      proof (cases "instance_id (st_authority t) = []")
        case True
        with ok r f Inr x pend show ?thesis by (auto simp: load_turn_def)
      next
        case False
        with ok r f Inr x pend m show ?thesis
          by (cases "settled_ack (st_acks t)")
            (auto simp: load_turn_def load_failed_def loaded_model_def ActivatePreparedModel_def
              prepared_valid_def)
      qed
    qed
  qed
qed

lemma load_initial_ok:
  assumes "load_initial ts e rt = (True, rt')" "manifests_identified ts"
  shows "loaded_model rt' \<and> model_ack_pending rt' = model_ack_pending rt"
  using assms
proof (induction ts arbitrary: e rt)
  case Nil
  then show ?case by (simp add: load_failed_def)
next
  case (Cons t ts)
  have id: "case mc_fetch (st_calls t) of Inl _ \<Rightarrow> True | Inr m \<Rightarrow> HasModelIdentity m"
    and ids: "manifests_identified ts" using Cons.prems(2) by (simp_all add: manifests_identified_def)
  show ?case
  proof (cases "mc_range (st_calls t)")
    case (Inl err)
    with Cons.prems(1) Cons.IH [OF _ ids] show ?thesis by simp
  next
    case (Inr x)
    obtain latest lineage where x: "x = (latest, lineage)" by force
    obtain r e1 rt1 where t: "load_turn t latest lineage rt = (r, e1, rt1)" using prod_cases3 by blast
    note k = load_turn_ok [OF t id]
    show ?thesis
    proof (cases r)
      case None
      with Cons.prems(1) Inr x t have "load_initial ts e1 rt1 = (True, rt')" by simp
      from Cons.IH [OF this ids] k None show ?thesis by simp
    next
      case (Some y)
      with Cons.prems(1) Inr x t have "y = (True, rt')" by simp
      with k Some show ?thesis by simp
    qed
  qed
qed

lemma Start_ok:
  assumes s: "rt_Start lease release start stop ev ts rt0 = (True, rt1)"
    and "\<not> started rt0" "run_mode (config rt0) = kTraining" "manifests_identified ts"
  shows "loaded_model rt1 \<and> model_ack_pending rt1 = model_ack_pending rt0"
proof -
  let ?rt = "rt0\<lparr>server_state := AiStarting\<rparr>"
  obtain ok d where d: "start (distributor ?rt) = (ok, d)" by force
  let ?rt1 = "?rt\<lparr>workspace_lease_held := True, distributor := d\<rparr>"
  obtain ok2 rt2 where l: "LoadInitialModel ev ts ?rt1 = (ok2, rt2)" by force
  have ok: "ok" "ok2" and rt1: "rt1 = rt2\<lparr>started := True,
      server_state := (if model_ack_pending rt2 then server_state rt2 else AiReady)\<rparr>"
    using s assms(2,3) d l
    by (auto simp: rt_Start_def Let_def split: sum.splits if_splits bool.splits)
  have "load_initial ts [] (?rt1\<lparr>model_load_state := ModelWaiting\<rparr>) = (True, rt2)"
    using l ok assms(3) by (simp add: LoadInitialModel_def kTraining_def kEvaluation_def)
  from load_initial_ok [OF this assms(4)] rt1 show ?thesis by (simp add: loaded_model_def)
qed

section \<open>Properties\<close>

definition demo_model :: "u64 \<Rightarrow> model_manifest" where
  "demo_model n = empty_manifest\<lparr>wire_identity := Some \<lparr>id_lineage = ''run'', id_step = Some n\<rparr>,
     size_bytes := 5, trained_samples := 10 * n, model_path := ''tmp''\<rparr>"

definition demo_calls :: "u64 \<Rightarrow> nat \<Rightarrow> model_calls" where
  "demo_calls n handle = \<lparr>mc_range = Inr (n, ''run''), mc_fetch = Inr (demo_model n), mc_prepare = Inr handle,
     mc_discard = [], mc_publish = Inr ''cache'',
     mc_probe = ProbeReady \<lparr>component = ''md'', instance_id = ''md-0'', lifecycle_epoch = 1\<rparr>,
     mc_ack = (AckedApplied, []), mc_now = 0\<rparr>"

definition demo_turn :: startup_turn where
  "demo_turn = \<lparr>st_calls = demo_calls 7 1,
     st_authority = \<lparr>component = ''md'', instance_id = ''md-0'', lifecycle_epoch = 1\<rparr>,
     st_probe_error = [], st_acks = [AckedUncertain, AckedApplied], st_ack_error = [],
     st_failed_ack = (AckedApplied, [])\<rparr>"

definition demo_fresh :: "unit runtime" where
  "demo_fresh = init_runtime (default_config\<lparr>run_mode := kTraining, tmax := 4\<rparr>) ''r.'' ''ai-0'' 5 ()
     (new_journal no_service 10 1000 5 0)"

definition demo_evaluation_file :: evaluation_model where
  "demo_evaluation_file = \<lparr>ev_path = [], ev_size = None, ev_prepare = Inl [], ev_now = 0\<rparr>"

definition demo_started :: "bool \<times> unit runtime" where
  "demo_started = rt_Start (Inr ()) (Inr ()) (\<lambda>d. (True, d)) (\<lambda>d. d) demo_evaluation_file [demo_turn] demo_fresh"

lemmas demo_models = demo_started_def demo_evaluation_file_def demo_fresh_def demo_turn_def demo_calls_def
  demo_model_def

lemmas manifest_views = HasModelIdentity_def model_step_def model_lineage_id_def manifest_identity_def

lemma demo_started_eval:
  "fst demo_started" "loaded_session (snd demo_started) = Some 1"
  "active_manifest (snd demo_started) = (demo_model 7)\<lparr>model_path := ''cache''\<rparr>"
  "\<not> model_ack_pending (snd demo_started)" "staged_manifest (snd demo_started) = empty_manifest"
  "model_load_state (snd demo_started) = ModelReady" "\<not> shutdown_started (snd demo_started)"
  by (simp_all add: demo_models rt_Start_def LoadInitialModel_def load_turn_def Let_def
      FetchPrepareAndPublishModel_def RecordModelFeedback_def manifest_views prepared_valid_def
      ActivatePreparedModel_def init_runtime_def kTraining_def kEvaluation_def target_manifest_def)

lemma demo_watch:
  "\<exists>rt. watch_run WatchIdle (snd demo_started) WatchIdle rt \<and> model_step (active_manifest rt) = 9"
proof -
  let ?mc = "demo_calls 9 2" and ?r = "snd demo_started"
  define m where "m = (demo_model 9)\<lparr>model_path := ''cache''\<rparr>"
  define p where "p = \<lparr>prep_session = Some (2::nat), prep_path = ''cache''\<rparr>"
  note e = demo_started_eval
  have 1: "watch_next ?mc WatchIdle ?r = (WatchDiscover 7 None, ?r)"
    using e by (simp add: watch_next_def staged_step_def demo_model_def manifest_views empty_manifest_def)
  obtain r2 where 2: "watch_next ?mc (WatchDiscover 7 None) ?r = (WatchStage m p, r2)"
      and r2: "model_part r2 = model_part ?r" "\<not> shutdown_started r2"
    using e(7) by (auto simp: watch_next_def discover_def demo_calls_def ShouldFetchModelCandidate_def Let_def
      FetchPrepareAndPublishModel_def manifest_views demo_model_def m_def p_def note_range_def
      RecordModelFeedback_def model_part_def)
  let ?r3 = "r2\<lparr>staged_manifest := m, staged_prepared := p\<rparr>"
  have f: "active_manifest r2 = (demo_model 7)\<lparr>model_path := ''cache''\<rparr>"
      "staged_manifest r2 = empty_manifest" "\<not> model_ack_pending r2"
    using r2(1) e by (simp_all add: model_part_def)
  have 3: "watch_next ?mc (WatchStage m p) r2 = (WatchPromote, ?r3)"
    by (simp add: watch_next_def stage_candidate_def ShouldFetchModelCandidate_def staged_step_def f empty_manifest_def
        demo_model_def manifest_views m_def)
  have v: "ValidateStagedModelProgress (active_manifest r2) m = Inr ()" "HasModelIdentity m" "prepared_valid p"
    by (simp_all add: ValidateStagedModelProgress_def f m_def p_def demo_model_def manifest_views
      prepared_valid_def)
  have 4: "watch_next ?mc WatchPromote ?r3 = (WatchIdle, promote_staged ?r3)"
    using f(3) r2(2) v
    by (simp add: watch_next_def TryPromoteStagedModelForWatcher_def ActivateStagedModel_def Let_def
        demo_calls_def)
  have "watch_run WatchIdle ?r WatchIdle (promote_staged ?r3)"
    using watch_step [OF watch_step [OF watch_step [OF watch_step [OF watch_start 1] 2] 3] 4] .
  moreover have "model_step (active_manifest (promote_staged ?r3)) = 9"
    by (simp add: promote_staged_def m_def demo_model_def manifest_views)
  ultimately show ?thesis by blast
qed

text \<open>C8: after a successful start in training mode, whatever the model distributor answers and
  whatever the other threads do between the watcher's critical sections, the active model keeps an
  identity, is the one the inferencer has loaded, and is either the initial model or one with a
  larger step and at least as many trained samples.  The one assumption on the client is that a
  fetched manifest has an identity, which \<open>Fetch\<close> validates.\<close>

theorem active_model_only_advances:
  assumes "rt_Start lease release start stop ev ts rt0 = (True, rt1)" "\<not> started rt0"
    "run_mode (config rt0) = kTraining" "\<not> model_ack_pending rt0" "manifests_identified ts"
    "watch_run WatchIdle rt1 wt rt"
  shows "loaded_model rt \<and> advances (active_manifest rt1) (active_manifest rt)"
proof -
  have "watch_inv WatchIdle rt1" using Start_ok [OF assms(1-3,5)] assms(4) by (simp add: watch_inv_idle)
  from watch_run_inv [OF assms(6) this] watch_inv_loaded show ?thesis by blast
qed

theorem active_model_only_advances_witness:
  "\<exists>rt :: unit runtime. loaded_model rt \<and> advances ((demo_model 7)\<lparr>model_path := ''cache''\<rparr>) (active_manifest rt) \<and>
     model_step (active_manifest rt) = 9"
proof -
  obtain rt where r: "watch_run WatchIdle (snd demo_started) WatchIdle rt" "model_step (active_manifest rt) = 9"
    using demo_watch by blast
  have s: "rt_Start (Inr ()) (Inr ()) (\<lambda>d. (True, d)) (\<lambda>d. d) demo_evaluation_file [demo_turn] demo_fresh
      = (True, snd demo_started)"
    using demo_started_eval(1) by (simp add: demo_started_def prod_eq_iff)
  have i: "\<not> started demo_fresh" "run_mode (config demo_fresh) = kTraining" "\<not> model_ack_pending demo_fresh"
    "manifests_identified [demo_turn]"
    by (simp_all add: demo_models init_runtime_def manifests_identified_def manifest_views)
  show ?thesis using active_model_only_advances [OF s i r(1)] r(2) unfolding demo_started_eval(3) by blast
qed

text \<open>settling a pending acknowledgement does exactly one of three things: an applied answer
  activates the pending model and clears the entry, a rejected one leaves the active model and fails
  model loading, an uncertain one keeps both models and the entry and fails model loading only when
  the recovery deadline has passed.\<close>

theorem pending_acknowledgement_settled:
  assumes "watch_inv (WatchSettle p) rt" "settle_pending mc p rt = (ok, rt')"
  shows "case fst (mc_ack mc) of
      AckedApplied \<Rightarrow> ok \<and> active_manifest rt' = pending_ack_manifest rt \<and> \<not> model_ack_pending rt' \<and>
        model_load_state rt' = ModelReady
    | AckedUncertain \<Rightarrow> \<not> ok \<and> model_part rt' = model_part rt \<and> model_load_state rt' =
        (if pa_deadline p \<le> mc_now mc then ModelFailed else model_load_state rt)
    | _ \<Rightarrow> \<not> ok \<and> active_manifest rt' = active_manifest rt \<and> \<not> model_ack_pending rt' \<and>
        model_load_state rt' = ModelFailed \<and> server_state rt' = AiDegraded"
proof -
  have i: "model_ack_pending rt" "pending_ack_manifest rt = staged_manifest rt"
    "progresses (active_manifest rt) (staged_manifest rt)"
    "prepared_valid (staged_prepared rt)" "pa_manifest p = staged_manifest rt"
    using assms(1) by (simp_all add: watch_inv_def)
  have id: "HasModelIdentity (staged_manifest rt)" using i(3) by (simp add: progresses_def)
  obtain d err where d: "mc_ack mc = (d, err)" by force
  show ?thesis
  proof (cases d)
    case AckedUncertain
    have "model_part (snd (settle_pending mc p rt)) = model_part rt"
      using d i AckedUncertain by (simp add: settle_pending_def Let_def same_model_def)
    moreover have "fst (settle_pending mc p rt) = False \<and> model_load_state (snd (settle_pending mc p rt)) =
        (if pa_deadline p \<le> mc_now mc then ModelFailed else model_load_state rt)"
      using d i AckedUncertain
      by (simp add: settle_pending_def Let_def same_model_def model_failed_def RecordModelFeedback_def)
    ultimately show ?thesis using assms(2) d AckedUncertain by simp
  qed (use assms(2) d i id in \<open>auto simp: settle_pending_def Let_def same_model_def model_failed_def
      RecordModelFeedback_def clear_pending_ack_def promote_staged_def\<close>)
qed

definition demo_pending :: "unit runtime" where
  "demo_pending = RecordPendingModelAck (demo_model 9) no_service 100 ''lost''
     ((snd demo_started)\<lparr>staged_manifest := demo_model 9,
        staged_prepared := \<lparr>prep_session = Some 2, prep_path = ''tmp''\<rparr>\<rparr>)"

lemma demo_pending_inv: "watch_inv (WatchSettle (read_pending demo_pending)) demo_pending"
  by (simp add: watch_inv_def demo_pending_def RecordPendingModelAck_def RecordModelFeedback_def Let_def
      demo_started_eval progresses_def demo_model_def manifest_views prepared_valid_def read_pending_def)
    (simp add: demo_started_def demo_models rt_Start_def LoadInitialModel_def load_turn_def Let_def
      FetchPrepareAndPublishModel_def RecordModelFeedback_def manifest_views prepared_valid_def
      ActivatePreparedModel_def init_runtime_def kTraining_def kEvaluation_def target_manifest_def)

theorem pending_acknowledgement_settled_witness:
  "active_manifest (snd (settle_pending (demo_calls 9 2) (read_pending demo_pending) demo_pending)) = demo_model 9"
proof -
  have "pending_ack_manifest demo_pending = demo_model 9"
    by (simp add: demo_pending_def RecordPendingModelAck_def RecordModelFeedback_def Let_def)
  with pending_acknowledgement_settled [OF demo_pending_inv surjective_pairing, of "demo_calls 9 2"]
  show ?thesis by (simp add: demo_calls_def)
qed

end
