(* ===== verification/Configuration.thy ===== *)
theory Configuration
  imports Maze_Types
begin

text \<open>
  \<open>maze/config/config.cpp\<close>: the reader of the configuration file, the environment and command line
  overrides, and the checks on the result.  The file system, the environment and \<open>std::stod\<close> (which
  depends on the locale) are a record of functions; log output is left out, so a failure that only
  logs is the empty error text the caller then sees.
\<close>

section \<open>Text\<close>

definition is_blank :: "char \<Rightarrow> bool" where
  "is_blank c \<longleftrightarrow> c = CHR '' '' \<or> c = CHR 0x09 \<or> c = CHR 0x0D \<or> c = CHR 0x0A"

definition Trim :: "string \<Rightarrow> string" where
  "Trim s = rev (dropWhile is_blank (rev (dropWhile is_blank s)))"

abbreviation dquote :: char where "dquote \<equiv> CHR 0x22"
abbreviation squote :: char where "squote \<equiv> CHR 0x27"

definition StripQuotes :: "string \<Rightarrow> string" where
  "StripQuotes s =
     (if 2 \<le> length s \<and> (hd s = dquote \<and> last s = dquote \<or> hd s = squote \<and> last s = squote)
      then take (length s - 2) (tl s) else s)"

section \<open>Numbers\<close>

text \<open>
  \<open>std::stoi\<close>, \<open>std::stoll\<close> and \<open>std::stoull\<close> in base 10: leading white space, an optional sign, the
  longest run of digits; the number of characters consumed is reported, no digits and a value outside
  the type are exceptions.  \<open>stoull\<close> negates modulo \<open>2 ^ 64\<close>.
\<close>

definition is_space :: "char \<Rightarrow> bool" where
  "is_space c \<longleftrightarrow> is_blank c \<or> c = CHR 0x0B \<or> c = CHR 0x0C"

definition is_digit :: "char \<Rightarrow> bool" where
  "is_digit c \<longleftrightarrow> (48::nat) \<le> of_char c \<and> of_char c \<le> (57::nat)"

fun skip_sign :: "string \<Rightarrow> bool \<times> string" where
  "skip_sign [] = (False, [])"
| "skip_sign (c # cs) =
     (if c = CHR ''-'' then (True, cs) else if c = CHR ''+'' then (False, cs) else (False, c # cs))"

definition scan_number :: "string \<Rightarrow> (bool \<times> nat \<times> nat) option" where
  "scan_number s =
     (case skip_sign (dropWhile is_space s) of
        (neg, rest) \<Rightarrow>
          let digits = takeWhile is_digit rest
          in if digits = [] then None
             else Some (neg, undec digits, length s - length (dropWhile is_digit rest)))"

definition signed_value :: "bool \<Rightarrow> nat \<Rightarrow> int" where
  "signed_value neg n = (if neg then - int n else int n)"

definition stoi :: "string \<Rightarrow> (int \<times> nat) option" where
  "stoi s = (case scan_number s of
     None \<Rightarrow> None
   | Some (neg, n, k) \<Rightarrow>
       if - (2 ^ 31) \<le> signed_value neg n \<and> signed_value neg n < 2 ^ 31
       then Some (signed_value neg n, k) else None)"

definition stoll :: "string \<Rightarrow> (int \<times> nat) option" where
  "stoll s = (case scan_number s of
     None \<Rightarrow> None
   | Some (neg, n, k) \<Rightarrow>
       if - (2 ^ 63) \<le> signed_value neg n \<and> signed_value neg n < 2 ^ 63
       then Some (signed_value neg n, k) else None)"

definition stoull :: "string \<Rightarrow> (u64 \<times> nat) option" where
  "stoull s = (case scan_number s of
     None \<Rightarrow> None
   | Some (neg, n, k) \<Rightarrow>
       if n < 2 ^ 64 then Some (if neg then - of_nat n else of_nat n, k) else None)"

definition int32_min :: int where "int32_min = - (2 ^ 31)"
definition int64_min :: int where "int64_min = - (2 ^ 63)"
definition size_max :: nat where "size_max = 2 ^ 64 - 1"

definition SafeInt :: "string \<Rightarrow> int \<Rightarrow> int" where
  "SafeInt val def =
     (if val = [] then def
      else case stoi val of None \<Rightarrow> int32_min | Some (v, k) \<Rightarrow> if k = length val then v else int32_min)"

definition SafeInt64 :: "string \<Rightarrow> int \<Rightarrow> int" where
  "SafeInt64 val def =
     (if val = [] then def
      else case stoll val of None \<Rightarrow> int64_min | Some (v, k) \<Rightarrow> if k = length val then v else int64_min)"

definition SafeSize :: "string \<Rightarrow> nat \<Rightarrow> nat" where
  "SafeSize val def =
     (if val = [] then def
      else case stoull val of None \<Rightarrow> size_max | Some (v, k) \<Rightarrow> if k = length val then unat v else size_max)"

definition SafeDouble :: "(string \<Rightarrow> (f64 \<times> nat) option) \<Rightarrow> string \<Rightarrow> f64 \<Rightarrow> f64" where
  "SafeDouble stod val def =
     (if val = [] then def
      else case stod val of None \<Rightarrow> def | Some (v, k) \<Rightarrow> if k = length val then v else def)"

definition to_lower :: "char \<Rightarrow> char" where
  "to_lower c = (if (65::nat) \<le> of_char c \<and> of_char c \<le> (90::nat) then char_of (of_char c + (32::nat)) else c)"

definition SafeBool :: "string \<Rightarrow> bool \<Rightarrow> bool" where
  "SafeBool val def =
     (let v = map to_lower val
      in if val = [] then def
         else if v \<in> {''true'', ''1'', ''yes'', ''on''} then True
         else if v \<in> {''false'', ''0'', ''no'', ''off''} then False else def)"

definition IsStrictBool :: "string \<Rightarrow> bool" where
  "IsStrictBool val \<longleftrightarrow>
     val \<noteq> [] \<and> map to_lower val \<in>
       {''true'', ''false'', ''1'', ''0'', ''yes'', ''no'', ''on'', ''off''}"

section \<open>Digits\<close>

lemma digit_is_digit: "d < 10 \<Longrightarrow> is_digit (digit_char d)"
  by (simp add: is_digit_def)

lemma dec_digits: "list_all is_digit (dec n)"
proof (induction n rule: dec.induct)
  case (1 n)
  then show ?case by (cases "n < 10") (simp_all add: dec.simps [of n] digit_is_digit)
qed

lemma digit_no_sign: "is_digit c \<Longrightarrow> c \<noteq> CHR ''-'' \<and> c \<noteq> CHR ''+'' \<and> \<not> is_space c \<and> c \<noteq> CHR '':''"
  by (auto simp: is_digit_def is_space_def is_blank_def)

lemma scan_digits:
  assumes "ds \<noteq> []" "list_all is_digit ds"
  shows "scan_number ds = Some (False, undec ds, length ds)"
proof -
  obtain c cs where c: "ds = c # cs" using assms(1) by (cases ds) auto
  have "is_digit c" using assms(2) c by simp
  from digit_no_sign [OF this] have "dropWhile is_space ds = ds" "skip_sign ds = (False, ds)"
    by (simp_all add: c)
  moreover have "takeWhile is_digit ds = ds" "dropWhile is_digit ds = []"
    using assms(2) by (simp_all add: list_all_iff takeWhile_eq_all_conv)
  ultimately have "scan_number ds =
      (if ds = [] then None else Some (False, undec ds, length ds - length ([] :: string)))"
    by (simp only: scan_number_def Let_def prod.case)
  then show ?thesis using assms(1) by simp
qed

lemma stoull_digits:
  "ds \<noteq> [] \<Longrightarrow> list_all is_digit ds \<Longrightarrow> undec ds < 2 ^ 64 \<Longrightarrow>
     stoull ds = Some (of_nat (undec ds), length ds)"
  by (simp add: stoull_def scan_digits)

section \<open>The file\<close>

record yaml_entry =
  y_section :: string
  y_key :: string
  y_value :: string

text \<open>\<open>std::getline\<close> until the stream ends: no line after a final newline.\<close>

abbreviation newline :: char where "newline \<equiv> CHR 0x0A"

function getlines :: "string \<Rightarrow> string list" where
  "getlines text =
     (if text = [] then []
      else takeWhile (\<lambda>c. c \<noteq> newline) text # getlines (tl (dropWhile (\<lambda>c. c \<noteq> newline) text)))"
  by pat_completeness auto

termination getlines
proof (relation "measure length")
  fix s :: string
  assume "s \<noteq> []"
  then show "(tl (dropWhile (\<lambda>c. c \<noteq> newline) s), s) \<in> measure length"
    using length_dropWhile_le [of "\<lambda>c. c \<noteq> newline" s] by (cases s) (auto simp: less_Suc_eq_le)
qed simp

declare getlines.simps [simp del]

fun uncomment :: "bool \<Rightarrow> string \<Rightarrow> string" where
  "uncomment in_quotes [] = []"
| "uncomment in_quotes (c # cs) =
     (if c = dquote \<or> c = squote then c # uncomment (\<not> in_quotes) cs
      else if c = CHR ''#'' \<and> \<not> in_quotes then [] else c # uncomment in_quotes cs)"

definition has_indent :: "string \<Rightarrow> bool" where
  "has_indent line \<longleftrightarrow> line \<noteq> [] \<and> (hd line = CHR '' '' \<or> hd line = CHR 0x09)"

definition parse_line :: "string \<Rightarrow> yaml_entry list \<times> string \<Rightarrow> yaml_entry list \<times> string" where
  "parse_line raw acc =
     (case acc of (entries, section) \<Rightarrow>
        let line = uncomment False raw; trimmed = Trim line
        in if CHR '':'' \<notin> set trimmed then acc
           else let key = Trim (takeWhile (\<lambda>c. c \<noteq> CHR '':'') trimmed);
                    val = Trim (tl (dropWhile (\<lambda>c. c \<noteq> CHR '':'') trimmed))
                in if \<not> has_indent line \<and> val = [] then (entries, key)
                   else if has_indent line \<and> key \<noteq> []
                   then (entries @ [\<lparr>y_section = section, y_key = key, y_value = StripQuotes val\<rparr>], section)
                   else acc)"

definition ParseYaml :: "string \<Rightarrow> yaml_entry list" where
  "ParseYaml text = fst (fold parse_line (getlines text) ([], []))"

fun FindValue :: "yaml_entry list \<Rightarrow> string \<Rightarrow> string \<Rightarrow> string" where
  "FindValue [] section key = []"
| "FindValue (e # es) section key =
     (if y_section e = section \<and> y_key e = key then y_value e else FindValue es section key)"

section \<open>Settings\<close>

record settings =
  sv_maze :: maze_config
  sv_listen_port :: int
  sv_evaluation_model_path :: string
  sv_local_train_dir :: string
  sv_model_host :: string
  sv_model_port :: int
  sv_sample_host :: string
  sv_sample_port :: int
  sv_health_timeout_ms :: int
  sv_status_poll_interval_ms :: int
  sv_env_id :: string

definition sv_training :: "settings \<Rightarrow> training_config" where
  "sv_training st = mz_training (sv_maze st)"

definition with_training :: "(training_config \<Rightarrow> training_config) \<Rightarrow> settings \<Rightarrow> settings" where
  "with_training f st = st\<lparr>sv_maze := (sv_maze st)\<lparr>mz_training := f (sv_training st)\<rparr>\<rparr>"

record overrides =
  ov_workload :: "int option"
  ov_listen_port :: "int option"
  ov_evaluation_model_path :: "string option"
  ov_sample_host :: "string option"
  ov_sample_port :: "int option"
  ov_model_host :: "string option"
  ov_model_port :: "int option"

definition no_overrides :: overrides where
  "no_overrides = \<lparr>ov_workload = None, ov_listen_port = None, ov_evaluation_model_path = None,
     ov_sample_host = None, ov_sample_port = None, ov_model_host = None, ov_model_port = None\<rparr>"

record load_report =
  lr_config_path :: string
  lr_environment_fields :: "string list"
  lr_cli_fields :: "string list"

text \<open>
  \<open>cw_absolute\<close> and \<open>cw_canonical\<close> are \<open>fs::absolute\<close> and \<open>fs::weakly_canonical\<close> with their failures,
  \<open>cw_text\<close> the contents of a file that can be opened, \<open>cw_parent\<close> and \<open>cw_normal\<close> the parent path and
  the lexically normal absolute path, \<open>cw_regular\<close> whether a path is a regular file and no link.
\<close>

record config_world =
  cw_absolute :: "string \<Rightarrow> string option"
  cw_canonical :: "string \<Rightarrow> string option"
  cw_text :: "string \<Rightarrow> string option"
  cw_parent :: "string \<Rightarrow> string"
  cw_normal :: "string \<Rightarrow> string"
  cw_regular :: "string \<Rightarrow> bool"
  cw_getenv :: "string \<Rightarrow> string option"
  cw_stod :: "string \<Rightarrow> (f64 \<times> nat) option"

section \<open>Checks on the entries\<close>

definition allowed_entries :: "(string \<times> string) list" where
  "allowed_entries =
     [(''server'', ''run_mode''), (''server'', ''listen_port''), (''server'', ''max_agents''),
      (''policy'', ''training_temperature''), (''policy'', ''sampling_seed''),
      (''policy'', ''action_mask_mode''), (''rollout'', ''gamma''), (''rollout'', ''gae_lambda''),
      (''rollout'', ''tmax''), (''metrics'', ''reward_interval_ms''),
      (''observation'', ''ray_max_range''), (''model'', ''evaluation_model_path''),
      (''model'', ''local_train_dir''), (''model'', ''startup_timeout_ms''),
      (''model'', ''expected_obs_dim''), (''model'', ''expected_action_dim''),
      (''environment'', ''agent_count''), (''task'', ''fixed_map_id''),
      (''task'', ''episode_max_steps''), (''model_distribution'', ''host''),
      (''model_distribution'', ''port''), (''model_distribution'', ''poll_interval_ms''),
      (''model_distribution'', ''rpc_timeout_ms''), (''sample_distributor'', ''enabled''),
      (''sample_distributor'', ''host''), (''sample_distributor'', ''port''),
      (''sample_distributor'', ''envelope_max_transitions''),
      (''sample_distributor'', ''envelope_max_bytes''), (''sample_distributor'', ''rpc_timeout_ms''),
      (''sample_distributor'', ''max_attempts''), (''sample_distributor'', ''enqueue_timeout_ms''),
      (''sample_distributor'', ''drain_timeout_ms''), (''sample_distributor'', ''health_timeout_ms''),
      (''sample_distributor'', ''status_poll_interval_ms''),
      (''sample_distributor'', ''recovery_timeout_ms''),
      (''sample_distributor'', ''outbound_max_envelopes''),
      (''sample_distributor'', ''outbound_max_estimated_bytes''),
      (''sample_distributor'', ''aiserver_id''), (''sample_distributor'', ''env_id'')]"

definition field_name :: "string \<Rightarrow> string \<Rightarrow> string" where
  "field_name section key = section @ ''.'' @ key"

definition check_known :: "yaml_entry list \<Rightarrow> string + unit" where
  "check_known entries =
     (case filter (\<lambda>e. field_name (y_section e) (y_key e) \<notin>
              set (map (\<lambda>(s, k). field_name s k) allowed_entries)) entries of
        [] \<Rightarrow> Inr ()
      | e # _ \<Rightarrow> Inl (''unknown AIServer config field: '' @ field_name (y_section e) (y_key e)))"

definition required_fields :: "(string \<times> string) list" where
  "required_fields =
     [(''policy'', ''training_temperature''), (''policy'', ''sampling_seed''),
      (''policy'', ''action_mask_mode''), (''rollout'', ''gamma''), (''rollout'', ''gae_lambda''),
      (''rollout'', ''tmax''), (''observation'', ''ray_max_range''), (''server'', ''run_mode''),
      (''server'', ''listen_port''), (''server'', ''max_agents''), (''environment'', ''agent_count''),
      (''task'', ''fixed_map_id''), (''task'', ''episode_max_steps''),
      (''model'', ''evaluation_model_path''), (''model'', ''local_train_dir''),
      (''model'', ''expected_obs_dim''), (''model'', ''expected_action_dim''),
      (''model_distribution'', ''host''), (''model_distribution'', ''port''),
      (''sample_distributor'', ''host''), (''sample_distributor'', ''port''),
      (''sample_distributor'', ''recovery_timeout_ms'')]"

definition integer_fields :: "(string \<times> string) list" where
  "integer_fields =
     [(''metrics'', ''reward_interval_ms''), (''policy'', ''sampling_seed''), (''rollout'', ''tmax''),
      (''observation'', ''ray_max_range''), (''server'', ''listen_port''), (''server'', ''max_agents''),
      (''environment'', ''agent_count''), (''model'', ''startup_timeout_ms''),
      (''model'', ''expected_obs_dim''), (''model'', ''expected_action_dim''),
      (''task'', ''episode_max_steps''), (''model_distribution'', ''port''),
      (''model_distribution'', ''poll_interval_ms''), (''model_distribution'', ''rpc_timeout_ms''),
      (''sample_distributor'', ''port''), (''sample_distributor'', ''envelope_max_transitions''),
      (''sample_distributor'', ''envelope_max_bytes''), (''sample_distributor'', ''rpc_timeout_ms''),
      (''sample_distributor'', ''max_attempts''), (''sample_distributor'', ''enqueue_timeout_ms''),
      (''sample_distributor'', ''drain_timeout_ms''), (''sample_distributor'', ''health_timeout_ms''),
      (''sample_distributor'', ''status_poll_interval_ms''),
      (''sample_distributor'', ''recovery_timeout_ms''),
      (''sample_distributor'', ''outbound_max_envelopes''),
      (''sample_distributor'', ''outbound_max_estimated_bytes'')]"

definition integer_value_ok :: "string \<Rightarrow> bool" where
  "integer_value_ok val \<longleftrightarrow> val = [] \<or> \<not> (SafeInt64 val 0 = int64_min \<or> hd val = CHR ''-'')"

definition check_fields :: "yaml_entry list \<Rightarrow> string + unit" where
  "check_fields entries =
     (if \<not> list_all (\<lambda>(s, k). FindValue entries s k \<noteq> []) required_fields then Inl []
      else if \<not> list_all (\<lambda>(s, k). integer_value_ok (FindValue entries s k)) integer_fields then Inl []
      else if FindValue entries ''sample_distributor'' ''enabled'' \<noteq> [] \<and>
              \<not> IsStrictBool (FindValue entries ''sample_distributor'' ''enabled'') then Inl []
      else Inr ())"

section \<open>Reading the settings\<close>

definition int_at :: "yaml_entry list \<Rightarrow> string \<Rightarrow> string \<Rightarrow> int \<Rightarrow> int" where
  "int_at es s k def = SafeInt (FindValue es s k) def"

definition size_at :: "yaml_entry list \<Rightarrow> string \<Rightarrow> string \<Rightarrow> nat \<Rightarrow> nat" where
  "size_at es s k def = SafeSize (FindValue es s k) def"

text \<open>A value that is present replaces the default.\<close>

definition text_at :: "yaml_entry list \<Rightarrow> string \<Rightarrow> string \<Rightarrow> string \<Rightarrow> string" where
  "text_at es s k def = if_empty (FindValue es s k) def (FindValue es s k)"

definition read_training ::
  "(string \<Rightarrow> (f64 \<times> nat) option) \<Rightarrow> yaml_entry list \<Rightarrow> training_config" where
  "read_training stod es =
     \<lparr>reward_metric_interval_ms = int_at es ''metrics'' ''reward_interval_ms'' 5000,
      run_mode = parse_mode (FindValue es ''server'' ''run_mode''),
      max_agents = int_at es ''server'' ''max_agents'' 10,
      startup_timeout_ms = int_at es ''model'' ''startup_timeout_ms'' 30000,
      expected_obs_dim = int_at es ''model'' ''expected_obs_dim'' 0,
      expected_action_dim = int_at es ''model'' ''expected_action_dim'' 0,
      training_temperature = SafeDouble stod (FindValue es ''policy'' ''training_temperature'') (Fin (-1)),
      sampling_seed = of_nat (size_at es ''policy'' ''sampling_seed'' 0),
      action_mask_mode = FindValue es ''policy'' ''action_mask_mode'',
      gamma = SafeDouble stod (FindValue es ''rollout'' ''gamma'') (Fin (-1)),
      gae_lambda = SafeDouble stod (FindValue es ''rollout'' ''gae_lambda'') (Fin (-1)),
      tmax = of_nat (size_at es ''rollout'' ''tmax'' 0),
      poll_interval_ms = int_at es ''model_distribution'' ''poll_interval_ms'' 200,
      model_rpc_timeout_ms = int_at es ''model_distribution'' ''rpc_timeout_ms'' 5000,
      distributor_enabled = SafeBool (FindValue es ''sample_distributor'' ''enabled'') True,
      envelope_max_transitions = int_at es ''sample_distributor'' ''envelope_max_transitions'' 128,
      envelope_max_bytes = size_at es ''sample_distributor'' ''envelope_max_bytes'' (8 * 1024 * 1024),
      rpc_timeout_ms = int_at es ''sample_distributor'' ''rpc_timeout_ms'' 2000,
      max_attempts = int_at es ''sample_distributor'' ''max_attempts'' 4,
      enqueue_timeout_ms = int_at es ''sample_distributor'' ''enqueue_timeout_ms'' 100,
      drain_timeout_ms = int_at es ''sample_distributor'' ''drain_timeout_ms'' 10000,
      recovery_timeout_ms = int_at es ''sample_distributor'' ''recovery_timeout_ms'' 30000,
      outbound_max_envelopes = size_at es ''sample_distributor'' ''outbound_max_envelopes'' 64,
      outbound_max_estimated_bytes =
        size_at es ''sample_distributor'' ''outbound_max_estimated_bytes'' (64 * 1024 * 1024),
      aiserver_id = text_at es ''sample_distributor'' ''aiserver_id'' ''aiserver-0''\<rparr>"

definition read_settings ::
  "(string \<Rightarrow> (f64 \<times> nat) option) \<Rightarrow> yaml_entry list \<Rightarrow> string + settings" where
  "read_settings stod es =
     (if int_at es ''metrics'' ''reward_interval_ms'' 5000 \<le> 0
      then Inl ''metrics.reward_interval_ms must be positive''
      else if \<not> is_valid_mode (parse_mode (FindValue es ''server'' ''run_mode'')) then Inl []
      else Inr
        \<lparr>sv_maze = \<lparr>mz_training = read_training stod es,
           mz_ray_max_range = int_at es ''observation'' ''ray_max_range'' 0,
           mz_agent_count = int_at es ''environment'' ''agent_count'' 4,
           mz_fixed_map_id = text_at es ''task'' ''fixed_map_id'' ''maze_117436372'',
           mz_episode_max_steps = int_at es ''task'' ''episode_max_steps'' 0\<rparr>,
         sv_listen_port = int_at es ''server'' ''listen_port'' 9002,
         sv_evaluation_model_path = FindValue es ''model'' ''evaluation_model_path'',
         sv_local_train_dir = text_at es ''model'' ''local_train_dir'' ''../models/train'',
         sv_model_host = text_at es ''model_distribution'' ''host'' ''maze-learner'',
         sv_model_port = int_at es ''model_distribution'' ''port'' 9200,
         sv_sample_host = text_at es ''sample_distributor'' ''host'' ''maze-learner'',
         sv_sample_port = int_at es ''sample_distributor'' ''port'' 9100,
         sv_health_timeout_ms = int_at es ''sample_distributor'' ''health_timeout_ms'' 5000,
         sv_status_poll_interval_ms = int_at es ''sample_distributor'' ''status_poll_interval_ms'' 200,
         sv_env_id = text_at es ''sample_distributor'' ''env_id'' ''env-0''\<rparr>)"

section \<open>The environment\<close>

definition ReadEnvironment :: "config_world \<Rightarrow> string \<Rightarrow> string + string option" where
  "ReadEnvironment w name =
     (case cw_getenv w name of
        None \<Rightarrow> Inr None
      | Some raw \<Rightarrow>
          if raw = [] then Inl (name @ '' must not be empty'')
          else if raw \<noteq> Trim raw then Inl (name @ '' must not contain surrounding whitespace'')
          else Inr (Some raw))"

definition ReadEnvironmentInt :: "config_world \<Rightarrow> string \<Rightarrow> string + int option" where
  "ReadEnvironmentInt w name =
     and_then (ReadEnvironment w name) (\<lambda>raw.
       case raw of
         None \<Rightarrow> Inr None
       | Some r \<Rightarrow>
           if SafeInt r int32_min = int32_min then Inl (name @ '' must be an integer'')
           else Inr (Some (SafeInt r int32_min)))"

text \<open>A value that was read is stored and its field recorded.\<close>

definition note_environment ::
  "string list \<Rightarrow> ('a \<Rightarrow> settings \<Rightarrow> settings) \<Rightarrow> 'a option \<Rightarrow> settings \<times> load_report \<Rightarrow> settings \<times> load_report" where
  "note_environment names store v acc =
     (case v of
        None \<Rightarrow> acc
      | Some x \<Rightarrow>
          (store x (fst acc),
           (snd acc)\<lparr>lr_environment_fields := lr_environment_fields (snd acc) @ names\<rparr>))"

definition note_cli ::
  "string list \<Rightarrow> ('a \<Rightarrow> settings \<Rightarrow> settings) \<Rightarrow> 'a option \<Rightarrow> settings \<times> load_report \<Rightarrow> settings \<times> load_report" where
  "note_cli names store v acc =
     (case v of
        None \<Rightarrow> acc
      | Some x \<Rightarrow>
          (store x (fst acc), (snd acc)\<lparr>lr_cli_fields := lr_cli_fields (snd acc) @ names\<rparr>))"

definition set_max_agents :: "int \<Rightarrow> settings \<Rightarrow> settings" where
  "set_max_agents n = with_training (\<lambda>c. c\<lparr>max_agents := n\<rparr>)"

definition set_run_mode :: "int \<Rightarrow> settings \<Rightarrow> settings" where
  "set_run_mode m = with_training (\<lambda>c. c\<lparr>run_mode := m\<rparr>)"

definition set_agent_count :: "int \<Rightarrow> settings \<Rightarrow> settings" where
  "set_agent_count n st = st\<lparr>sv_maze := (sv_maze st)\<lparr>mz_agent_count := n\<rparr>\<rparr>"

definition set_map_id :: "string \<Rightarrow> settings \<Rightarrow> settings" where
  "set_map_id m st = st\<lparr>sv_maze := (sv_maze st)\<lparr>mz_fixed_map_id := m\<rparr>\<rparr>"

definition set_episode_max_steps :: "int \<Rightarrow> settings \<Rightarrow> settings" where
  "set_episode_max_steps n st = st\<lparr>sv_maze := (sv_maze st)\<lparr>mz_episode_max_steps := n\<rparr>\<rparr>"

definition set_pod :: "string \<Rightarrow> settings \<Rightarrow> settings" where
  "set_pod pod st =
     (with_training (\<lambda>c. c\<lparr>aiserver_id := pod @ ''-aiserver''\<rparr>) st)\<lparr>sv_env_id := pod @ ''-env''\<rparr>"

definition is_absolute :: "string \<Rightarrow> bool" where
  "is_absolute p \<longleftrightarrow> p \<noteq> [] \<and> hd p = CHR ''/''"

text \<open>\<open>path / component\<close> for POSIX paths.\<close>

definition path_join :: "string \<Rightarrow> string \<Rightarrow> string" where
  "path_join p x =
     (if is_absolute x then x
      else if p = [] \<or> last p = CHR ''/'' then p @ x else p @ ''/'' @ x)"

definition read_data_root :: "config_world \<Rightarrow> string + string option" where
  "read_data_root w =
     and_then (ReadEnvironment w ''RL_INFRA_DATA_ROOT'') (\<lambda>v.
       case v of
         Some dir \<Rightarrow> if \<not> is_absolute dir then Inl ''RL_INFRA_DATA_ROOT must be absolute'' else Inr (Some dir)
       | None \<Rightarrow> Inr None)"

definition apply_environment ::
  "config_world \<Rightarrow> settings \<times> load_report \<Rightarrow> string + (settings \<times> load_report)" where
  "apply_environment w a0 =
     and_then (ReadEnvironmentInt w ''RL_AISERVER_MAX_AGENTS'') (\<lambda>agents.
     and_then (ReadEnvironmentInt w ''RL_AISERVER_AGENT_COUNT'') (\<lambda>count.
     and_then (read_data_root w) (\<lambda>dir.
     and_then (ReadEnvironment w ''RL_INFRA_POD_ID'') (\<lambda>pod.
     and_then (ReadEnvironment w ''RL_TASK_MAP_ID'') (\<lambda>map_id.
     and_then (ReadEnvironmentInt w ''RL_TASK_EPISODE_MAX_STEPS'') (\<lambda>steps.
       Inr (note_environment [''task.episode_max_steps''] set_episode_max_steps steps
           (note_environment [''task.fixed_map_id''] set_map_id map_id
           (note_environment [''sample_distributor.aiserver_id'', ''sample_distributor.env_id''] set_pod pod
           (note_environment [''model.local_train_dir'']
              (\<lambda>r st. st\<lparr>sv_local_train_dir := cw_normal w (path_join r ''aiserver'')\<rparr>) dir
           (note_environment [''environment.agent_count''] set_agent_count count
           (note_environment [''server.max_agents''] set_max_agents agents a0))))))))))))"

section \<open>The command line\<close>

definition apply_overrides ::
  "overrides \<Rightarrow> settings \<times> load_report \<Rightarrow> string + (settings \<times> load_report)" where
  "apply_overrides ov a0 =
     (if (ov_sample_host ov = None) \<noteq> (ov_sample_port ov = None) \<or>
         (ov_model_host ov = None) \<noteq> (ov_model_port ov = None)
      then Inl ''distributor CLI overrides require a complete host:port''
      else Inr
        (note_cli [''model_distribution.address'']
           (\<lambda>h st. st\<lparr>sv_model_host := h, sv_model_port := the (ov_model_port ov)\<rparr>) (ov_model_host ov)
        (note_cli [''sample_distributor.address'']
           (\<lambda>h st. st\<lparr>sv_sample_host := h, sv_sample_port := the (ov_sample_port ov)\<rparr>) (ov_sample_host ov)
        (note_cli [''model.evaluation_model_path'']
           (\<lambda>p st. st\<lparr>sv_evaluation_model_path := p\<rparr>) (ov_evaluation_model_path ov)
        (note_cli [''server.listen_port''] (\<lambda>p st. st\<lparr>sv_listen_port := p\<rparr>) (ov_listen_port ov)
        (note_cli [''server.run_mode''] set_run_mode (ov_workload ov) a0))))))"

definition resolve_path :: "config_world \<Rightarrow> string \<Rightarrow> string \<Rightarrow> string" where
  "resolve_path w config_path value =
     cw_normal w (if is_absolute value then value else path_join (cw_parent w config_path) value)"

definition resolve_paths :: "config_world \<Rightarrow> string \<Rightarrow> settings \<Rightarrow> settings" where
  "resolve_paths w config_path st =
     st\<lparr>sv_evaluation_model_path := resolve_path w config_path (sv_evaluation_model_path st),
        sv_local_train_dir := resolve_path w config_path (sv_local_train_dir st)\<rparr>"

section \<open>Checks on the settings\<close>

definition check_workload :: "config_world \<Rightarrow> overrides \<Rightarrow> settings \<Rightarrow> string + unit" where
  "check_workload w ov st =
     (if ov_evaluation_model_path ov \<noteq> None \<and> run_mode (sv_training st) = kTraining
      then Inl ''--evaluation-model is invalid for the training workload''
      else if run_mode (sv_training st) = kEvaluation \<and>
              (sv_evaluation_model_path st = [] \<or> \<not> cw_regular w (sv_evaluation_model_path st))
      then Inl ''evaluation requires an explicit regular, non-symlink model file''
      else Inr ())"

text \<open>The regular expression \<open>[A-Za-z0-9_-]+\<close>.\<close>

definition is_map_id_char :: "char \<Rightarrow> bool" where
  "is_map_id_char c \<longleftrightarrow>
     is_digit c \<or> (65::nat) \<le> of_char c \<and> of_char c \<le> (90::nat) \<or>
     (97::nat) \<le> of_char c \<and> of_char c \<le> (122::nat) \<or> c = CHR ''_'' \<or> c = CHR ''-''"

definition map_id_matches :: "string \<Rightarrow> bool" where
  "map_id_matches s \<longleftrightarrow> s \<noteq> [] \<and> list_all is_map_id_char s"

definition task_values_valid :: "settings \<Rightarrow> bool" where
  "task_values_valid st \<longleftrightarrow>
     map_id_matches (mz_fixed_map_id (sv_maze st)) \<and> 0 < mz_episode_max_steps (sv_maze st)"

definition model_values_valid :: "settings \<Rightarrow> bool" where
  "model_values_valid st \<longleftrightarrow>
     0 < expected_obs_dim (sv_training st) \<and> 0 < expected_action_dim (sv_training st) \<and>
     isfinite (training_temperature (sv_training st)) \<and>
     fp_lt (Fin 0) (training_temperature (sv_training st)) \<and>
     action_mask_mode (sv_training st) \<in> {''disabled'', ''required''} \<and>
     0 < mz_ray_max_range (sv_maze st)"

definition valid_port :: "int \<Rightarrow> bool" where
  "valid_port p \<longleftrightarrow> 0 < p \<and> p \<le> 65535"

definition unit_interval :: "f64 \<Rightarrow> bool" where
  "unit_interval x \<longleftrightarrow> isfinite x \<and> fp_le (Fin 0) x \<and> fp_le x (Fin 1)"

definition runtime_values_valid :: "settings \<Rightarrow> bool" where
  "runtime_values_valid st \<longleftrightarrow>
     (let c = sv_training st
      in valid_port (sv_listen_port st) \<and> 0 < max_agents c \<and> 0 < mz_agent_count (sv_maze st) \<and>
         mz_agent_count (sv_maze st) \<le> max_agents c \<and> is_valid_mode (run_mode c) \<and>
         unit_interval (gamma c) \<and> unit_interval (gae_lambda c) \<and> 0 < tmax c \<and>
         0 < startup_timeout_ms c \<and> valid_port (sv_model_port st) \<and> 0 < poll_interval_ms c \<and>
         0 < model_rpc_timeout_ms c \<and> valid_port (sv_sample_port st) \<and>
         0 < envelope_max_transitions c \<and> 0 < envelope_max_bytes c \<and> 0 < rpc_timeout_ms c \<and>
         0 < max_attempts c \<and> 0 < enqueue_timeout_ms c \<and> 0 < drain_timeout_ms c \<and>
         0 < sv_health_timeout_ms st \<and> 0 < sv_status_poll_interval_ms st \<and>
         0 < recovery_timeout_ms c \<and> 0 < outbound_max_envelopes c \<and>
         0 < outbound_max_estimated_bytes c)"

definition check_settings :: "settings \<Rightarrow> string + unit" where
  "check_settings st =
     (if task_values_valid st \<and> model_values_valid st \<and> runtime_values_valid st then Inr () else Inl [])"

section \<open>Loading\<close>

definition open_config :: "config_world \<Rightarrow> string \<Rightarrow> string + (string \<times> string)" where
  "open_config w yaml_path =
     (case cw_absolute w yaml_path of
        None \<Rightarrow> Inl (''cannot resolve config path: '' @ yaml_path)
      | Some absolute \<Rightarrow>
          (case cw_canonical w absolute of
             None \<Rightarrow> Inl (''cannot canonicalize config path: '' @ yaml_path)
           | Some config_path \<Rightarrow>
               (case cw_text w config_path of
                  None \<Rightarrow> Inl (''cannot open config file: '' @ config_path)
                | Some contents \<Rightarrow> Inr (config_path, contents))))"

definition LoadMazeConfig ::
  "config_world \<Rightarrow> string \<Rightarrow> overrides \<Rightarrow> string + (settings \<times> load_report)" where
  "LoadMazeConfig w yaml_path ov =
     and_then (open_config w yaml_path) (\<lambda>(config_path, contents).
     let entries = ParseYaml contents;
         report = \<lparr>lr_config_path = config_path, lr_environment_fields = [], lr_cli_fields = []\<rparr>
     in and_then (check_known entries) (\<lambda>_.
        and_then (check_fields entries) (\<lambda>_.
        and_then (read_settings (cw_stod w) entries) (\<lambda>st0.
        and_then (apply_environment w (st0, report)) (\<lambda>a1.
        and_then (apply_overrides ov a1) (\<lambda>(st2, report2).
        let st = resolve_paths w config_path st2
        in and_then (check_workload w ov st) (\<lambda>_.
           and_then (check_settings st) (\<lambda>_. Inr (st, report2)))))))))"

end
