(* ===== verification/Model_Client.thy ===== *)
theory Model_Client
  imports Model_Updates Configuration
begin

text \<open>
  \<open>task/model/model_distributor_client\<close> and \<open>task/model/model_manifest.cpp\<close>: the lineage the process is
  bound to, discovery and download of a model, the local cache of published models, and the
  acknowledgement protocol.  The cache is a map from the names in the directory of the lineage to
  their contents; answers of gRPC and outcomes of system calls are arguments, the protobuf codec is a
  pair of functions.
\<close>

section \<open>Names\<close>

definition hex_char :: "nat \<Rightarrow> char" where
  "hex_char d = (if d < 10 then char_of (48 + d) else char_of (87 + d))"

definition hex_byte :: "char \<Rightarrow> string" where
  "hex_byte c = [hex_char (of_char c div 16), hex_char (of_char c mod 16)]"

definition EncodeLineageKey :: "string \<Rightarrow> string" where
  "EncodeLineageKey lineage = concat (map hex_byte lineage)"

text \<open>\<open>setfill('0') << setw(7)\<close>\<close>

definition CacheStepDirectoryName :: "u64 \<Rightarrow> string" where
  "CacheStepDirectoryName step =
     (let d = dec (unat step) in replicate (7 - length d) (CHR ''0'') @ d)"

definition ParseCanonicalStepDirectory :: "string \<Rightarrow> u64 option" where
  "ParseCanonicalStepDirectory name =
     (if length name < 7 \<or> \<not> list_all is_digit name then None
      else case stoull name of
             None \<Rightarrow> None
           | Some (step, _) \<Rightarrow> if CacheStepDirectoryName step = name then Some step else None)"

definition IsUnsignedDecimal :: "string \<Rightarrow> bool" where
  "IsUnsignedDecimal s \<longleftrightarrow> s \<noteq> [] \<and> list_all is_digit s"

definition starts_with :: "string \<Rightarrow> string \<Rightarrow> bool" where
  "starts_with p s \<longleftrightarrow> take (length p) s = p"

text \<open>The text before and after the last separator.\<close>

definition split_last :: "char \<Rightarrow> string \<Rightarrow> (string \<times> string) option" where
  "split_last c s =
     (if c \<notin> set s then None
      else let b = rev (takeWhile (\<lambda>x. x \<noteq> c) (rev s)) in Some (take (length s - length b - 1) s, b))"

definition ParsePrivateCacheDirectory :: "string \<Rightarrow> string \<Rightarrow> u64 option" where
  "ParsePrivateCacheDirectory name prefix =
     (if \<not> starts_with prefix name then None
      else case split_last (CHR ''-'') (drop (length prefix) name) of
             None \<Rightarrow> None
           | Some (rest, number) \<Rightarrow>
               if rest = [] \<or> number = [] then None
               else case split_last (CHR ''-'') rest of
                      None \<Rightarrow> None
                    | Some (step, process) \<Rightarrow>
                        if step = [] \<or> process = [] then None
                        else if IsUnsignedDecimal process \<and> IsUnsignedDecimal number
                        then ParseCanonicalStepDirectory step else None)"

definition filename :: "string \<Rightarrow> string" where
  "filename p = rev (takeWhile (\<lambda>c. c \<noteq> CHR ''/'') (rev p))"

definition parent_path :: "string \<Rightarrow> string" where
  "parent_path p =
     (if CHR ''/'' \<in> set p then take (length p - length (filename p) - 1) p else [])"

definition IsPrivateTemporaryDirectory :: "string \<Rightarrow> bool" where
  "IsPrivateTemporaryDirectory directory \<longleftrightarrow> starts_with ''.tmp-'' (filename directory)"

definition kCachedModelFile :: string where "kCachedModelFile = ''SaveModel.onnx''"
definition kModelManifestFile :: string where "kModelManifestFile = ''manifest.pb''"

section \<open>Manifests\<close>

definition ValidateModelManifest :: "model_manifest \<Rightarrow> u64 option \<Rightarrow> string + unit" where
  "ValidateModelManifest source expected_step =
     (let i = manifest_identity source
      in if id_lineage i = [] \<or> id_step i = None \<or>
            (case expected_step of None \<Rightarrow> False | Some s \<Rightarrow> model_step source \<noteq> s) \<or>
            size_bytes source \<le> 0 \<or> published_at_unix_ms source \<le> 0
         then Inl ''model manifest identity or artifact metadata is invalid'' else Inr ())"

definition AssignModelManifest :: "model_manifest \<Rightarrow> string \<Rightarrow> model_manifest" where
  "AssignModelManifest source path = source\<lparr>model_path := path\<rparr>"

definition SameWireManifest :: "model_manifest \<Rightarrow> model_manifest \<Rightarrow> bool" where
  "SameWireManifest a b \<longleftrightarrow> a\<lparr>model_path := []\<rparr> = b\<lparr>model_path := []\<rparr>"

text \<open>A directory: its regular files and whether it holds anything else.\<close>

record artifact =
  ar_files :: "(string \<times> string) list"
  ar_irregular :: bool

definition empty_artifact :: artifact where
  "empty_artifact = \<lparr>ar_files = [], ar_irregular = False\<rparr>"

definition put_file :: "string \<Rightarrow> string \<Rightarrow> artifact \<Rightarrow> artifact" where
  "put_file name contents a = a\<lparr>ar_files := (name, contents) # filter (\<lambda>(n, _). n \<noteq> name) (ar_files a)\<rparr>"

record manifest_codec =
  mk_serialize :: "model_manifest \<Rightarrow> string"
  mk_parse :: "string \<Rightarrow> model_manifest option"

definition LoadModelManifestFile ::
  "manifest_codec \<Rightarrow> string \<Rightarrow> artifact option \<Rightarrow> string + model_manifest" where
  "LoadModelManifestFile k manifest_path directory =
     (if filename manifest_path \<noteq> kModelManifestFile
      then Inl ''model manifest must use the canonical protobuf file name''
      else case Option.bind directory (\<lambda>a. map_of (ar_files a) kModelManifestFile) of
             None \<Rightarrow> Inl (''manifest not found: '' @ manifest_path)
           | Some bytes \<Rightarrow>
               (case mk_parse k bytes of
                  None \<Rightarrow> Inl ''invalid protobuf model manifest''
                | Some wire \<Rightarrow>
                    and_then (ValidateModelManifest wire None) (\<lambda>_.
                      case Option.bind directory (\<lambda>a. map_of (ar_files a) kCachedModelFile) of
                        None \<Rightarrow> Inl ''model size does not match manifest''
                      | Some model \<Rightarrow>
                          if int (length model) \<noteq> size_bytes wire
                          then Inl ''model size does not match manifest''
                          else Inr (AssignModelManifest wire
                            (path_join (parent_path manifest_path) kCachedModelFile)))))"

text \<open>
  The manifest is written under a temporary name and renamed; \<open>created\<close> and \<open>durable\<close> are the outcomes
  of the opening and of the rest.
\<close>

definition WriteModelManifestFile ::
  "manifest_codec \<Rightarrow> bool \<Rightarrow> bool \<Rightarrow> model_manifest \<Rightarrow> string \<Rightarrow> artifact \<Rightarrow> string + artifact" where
  "WriteModelManifestFile k created durable m manifest_path a =
     (if filename manifest_path \<noteq> kModelManifestFile
      then Inl ''model manifest must use the canonical protobuf file name''
      else if mk_serialize k (m\<lparr>model_path := []\<rparr>) = []
      then Inl ''cannot serialize protobuf model manifest''
      else if \<not> created then Inl ''cannot open temporary model manifest for writing''
      else if \<not> durable then Inl ''cannot durably publish protobuf model manifest''
      else Inr (put_file kModelManifestFile (mk_serialize k (m\<lparr>model_path := []\<rparr>)) a))"

section \<open>The client\<close>

record model_client =
  cl_local_train_dir :: string
  cl_instance_id :: string
  pinned_lineage_id :: "string option"
  pinned_lineage_key :: "string option"
  cached_steps :: "u64 list"
  process_id :: nat
  next_private_id :: u64
  cache_dirs :: "string \<Rightarrow> artifact option"

text \<open>\<open>cached_steps_\<close> is a \<open>std::set\<close>: the list is kept sorted and without duplicates.\<close>

definition note_cached :: "u64 \<Rightarrow> model_client \<Rightarrow> model_client" where
  "note_cached step c = c\<lparr>cached_steps := insort_insert step (cached_steps c)\<rparr>"

definition put_dir :: "string \<Rightarrow> artifact option \<Rightarrow> model_client \<Rightarrow> model_client" where
  "put_dir name a c = c\<lparr>cache_dirs := (cache_dirs c)(name := a)\<rparr>"

definition ValidModelDistributorAuthority :: "service_identity \<Rightarrow> bool" where
  "ValidModelDistributorAuthority i \<longleftrightarrow> component i \<noteq> [] \<and> instance_id i \<noteq> [] \<and> 0 < lifecycle_epoch i"

definition SameAuthority :: "service_identity \<Rightarrow> service_identity \<Rightarrow> bool" where
  "SameAuthority a b \<longleftrightarrow>
     component a = component b \<and> instance_id a = instance_id b \<and> lifecycle_epoch a = lifecycle_epoch b"

definition client_ValidateManifest ::
  "model_client \<Rightarrow> model_manifest \<Rightarrow> u64 option \<Rightarrow> string + unit" where
  "client_ValidateManifest c source expected_step =
     and_then (ValidateModelManifest source expected_step) (\<lambda>_.
       if pinned_lineage_id c \<noteq> Some (model_lineage_id source)
       then Inl ''model manifest does not match the discovered training lineage'' else Inr ())"

definition PinModelLineage :: "string \<Rightarrow> model_client \<Rightarrow> string + model_client" where
  "PinModelLineage lineage c =
     (if lineage = [] then Inl ''Model Distributor latest model lineage is missing''
      else if EncodeLineageKey lineage = [] then Inl ''cannot derive model lineage cache key''
      else if pinned_lineage_id c \<notin> {None, Some lineage}
      then Inl ''model lineage changed within the isolated training workspace''
      else if pinned_lineage_key c \<notin> {None, Some (EncodeLineageKey lineage)}
      then Inl ''model lineage cache key changed within the process lifecycle''
      else Inr (c\<lparr>pinned_lineage_id := Some lineage, pinned_lineage_key := Some (EncodeLineageKey lineage)\<rparr>))"

definition GetPinnedModelLineage :: "model_client \<Rightarrow> string + (string \<times> string)" where
  "GetPinnedModelLineage c =
     (case (pinned_lineage_id c, pinned_lineage_key c) of
        (Some lineage, Some key) \<Rightarrow>
          if lineage = [] \<or> EncodeLineageKey lineage \<noteq> key
          then Inl ''pinned model lineage identity is invalid'' else Inr (lineage, key)
      | _ \<Rightarrow> Inl ''model lineage must be discovered before cache access'')"

section \<open>Discovery\<close>

datatype grpc_code =
    GrpcAborted | GrpcCancelled | GrpcDeadlineExceeded | GrpcInternal | GrpcResourceExhausted
  | GrpcUnknown | GrpcUnavailable | GrpcOther

datatype 'a rpc = RpcOk 'a | RpcFailed grpc_code string

definition IsRetryableAuthorityTransport :: "'a rpc \<Rightarrow> bool" where
  "IsRetryableAuthorityTransport r = (case r of RpcOk _ \<Rightarrow> False | RpcFailed c _ \<Rightarrow> c \<noteq> GrpcOther)"

record distributor_status =
  ds_ready :: bool
  ds_distributor :: service_identity
  ds_latest :: "model_identity option"
  ds_floor :: "u64 option"
  ds_latest_available :: "u64 option"

record available_range =
  ra_floor :: u64
  ra_latest :: u64
  ra_lineage :: string

definition GetAvailableRange ::
  "distributor_status rpc \<Rightarrow> model_client \<Rightarrow> (string + available_range) \<times> model_client" where
  "GetAvailableRange rsp c =
     (case rsp of
        RpcFailed _ msg \<Rightarrow> (Inl (''model distributor status RPC failed: '' @ msg), c)
      | RpcOk r \<Rightarrow>
          if \<not> ds_ready r then (Inl ''Model Distributor status is not ready'', c)
          else if \<not> ValidModelDistributorAuthority (ds_distributor r)
          then (Inl ''Model Distributor status authority is invalid'', c)
          else (case ds_latest r of
                  None \<Rightarrow> (Inl ''Model Distributor latest model identity is missing or invalid'', c)
                | Some latest \<Rightarrow>
                    if id_lineage latest = [] \<or> id_step latest = None
                    then (Inl ''Model Distributor latest model identity is missing or invalid'', c)
                    else (case PinModelLineage (id_lineage latest) c of
                            Inl e \<Rightarrow> (Inl e, c)
                          | Inr c1 \<Rightarrow>
                              (case (ds_floor r, ds_latest_available r) of
                                 (Some lo, Some hi) \<Rightarrow>
                                   if hi < lo \<or> Some hi \<noteq> id_step latest
                                   then (Inl ''Model Distributor available range is invalid'', c1)
                                   else (Inr \<lparr>ra_floor = lo, ra_latest = hi, ra_lineage = id_lineage latest\<rparr>, c1)
                               | _ \<Rightarrow> (Inl ''Model Distributor available range is missing'', c1)))))"

definition ProbeAckAuthorityDisposition :: "distributor_status rpc \<Rightarrow> probe_result" where
  "ProbeAckAuthorityDisposition rsp =
     (case rsp of
        RpcFailed _ msg \<Rightarrow>
          (if IsRetryableAuthorityTransport rsp then ProbeRetryable (''model ACK authority probe failed: '' @ msg)
           else ProbeRejected (''model ACK authority probe failed: '' @ msg))
      | RpcOk r \<Rightarrow>
          if \<not> ds_ready r then ProbeRetryable ''model ACK authority is not ready''
          else if \<not> ValidModelDistributorAuthority (ds_distributor r)
          then ProbeRejected ''model ACK authority identity is invalid''
          else ProbeReady (ds_distributor r))"

section \<open>The directory of the lineage\<close>

datatype creation = CreatedNew | ExistedBefore | CreateFailed string

text \<open>Outcomes of the calls that create and check the directories of the cache.\<close>

record directory_io =
  di_create_root :: "string option"
  di_root_real :: bool
  di_lineages :: creation
  di_lineages_real :: bool
  di_active :: creation
  di_active_real :: bool
  di_sync_lineages :: bool
  di_sync_root :: bool

definition cache_root_path :: "model_client \<Rightarrow> string" where
  "cache_root_path c = path_join (cl_local_train_dir c) ''cache''"

definition EnsureCacheRoot :: "directory_io \<Rightarrow> model_client \<Rightarrow> string + string" where
  "EnsureCacheRoot io c =
     (case di_create_root io of
        Some msg \<Rightarrow> Inl (''cannot create model cache directory: '' @ msg)
      | None \<Rightarrow> if \<not> di_root_real io then Inl ''model cache root must be a real directory''
                else Inr (cache_root_path c))"

definition OpenOrCreateLineageCache ::
  "directory_io \<Rightarrow> string \<Rightarrow> string \<Rightarrow> model_client \<Rightarrow> string + string" where
  "OpenOrCreateLineageCache io lineage key c =
     (if lineage = [] \<or> EncodeLineageKey lineage \<noteq> key
      then Inl ''selected model lineage identity is invalid''
      else and_then (EnsureCacheRoot io c) (\<lambda>base.
        let lineages = path_join base ''lineages''; active = path_join lineages key
        in case di_lineages io of
             CreateFailed msg \<Rightarrow> Inl (''cannot create model cache lineages directory: '' @ msg)
           | made_lineages \<Rightarrow>
               if \<not> di_lineages_real io then Inl ''model cache lineages root must be a real directory''
               else (case di_active io of
                       CreateFailed msg \<Rightarrow> Inl (''cannot create active model lineage cache: '' @ msg)
                     | made_active \<Rightarrow>
                         if \<not> di_active_real io
                         then Inl ''active model lineage cache must be a real directory''
                         else if made_active = CreatedNew \<and> \<not> di_sync_lineages io
                         then Inl (''cannot fsync model cache directory: '' @ lineages)
                         else if made_lineages = CreatedNew \<and> \<not> di_sync_root io
                         then Inl (''cannot fsync model cache directory: '' @ base)
                         else Inr active)))"

text \<open>The pinned lineage and its directory, for a manifest of that lineage.\<close>

definition open_lineage :: "directory_io \<Rightarrow> model_client \<Rightarrow> string + (string \<times> string)" where
  "open_lineage io c =
     and_then (GetPinnedModelLineage c) (\<lambda>(lineage, key).
       and_then (OpenOrCreateLineageCache io lineage key c) (\<lambda>base. Inr (lineage, base)))"

definition open_lineage_of ::
  "directory_io \<Rightarrow> model_manifest \<Rightarrow> string \<Rightarrow> model_client \<Rightarrow> string + string" where
  "open_lineage_of io m mismatch c =
     and_then (GetPinnedModelLineage c) (\<lambda>(lineage, key).
       if model_lineage_id m \<noteq> lineage then Inl mismatch
       else OpenOrCreateLineageCache io lineage key c)"

section \<open>Private directories\<close>

definition private_name :: "string \<Rightarrow> u64 \<Rightarrow> model_client \<Rightarrow> string" where
  "private_name prefix step c =
     prefix @ CacheStepDirectoryName step @ ''-'' @ dec (process_id c) @ ''-'' @ dec (unat (next_private_id c))"

text \<open>
  \<open>fails\<close> is the error of \<open>create_directory\<close> in each attempt, counted from the last; an existing entry
  is no error and takes the next number.
\<close>

fun allocate_loop ::
  "nat \<Rightarrow> (nat \<Rightarrow> string option) \<Rightarrow> string \<Rightarrow> u64 \<Rightarrow> model_client \<Rightarrow> (string + string) \<times> model_client" where
  "allocate_loop 0 fails prefix step c = (Inl ''cannot allocate private model cache directory'', c)"
| "allocate_loop (Suc n) fails prefix step c =
     (let name = private_name prefix step c; c1 = c\<lparr>next_private_id := next_private_id c + 1\<rparr>
      in if cache_dirs c name \<noteq> None then allocate_loop n fails prefix step c1
         else case fails n of
                Some msg \<Rightarrow> (Inl (''cannot create private model cache directory: '' @ msg), c1)
              | None \<Rightarrow> (Inr name, put_dir name (Some empty_artifact) c1))"

definition AllocatePrivateCacheDirectory ::
  "(nat \<Rightarrow> string option) \<Rightarrow> string \<Rightarrow> u64 \<Rightarrow> model_client \<Rightarrow> (string + string) \<times> model_client" where
  "AllocatePrivateCacheDirectory fails prefix step c = allocate_loop 100 fails prefix step c"

definition RemoveValidatedPrivateDirectory ::
  "bool \<Rightarrow> string \<Rightarrow> string \<Rightarrow> string \<Rightarrow> model_client \<Rightarrow> (string + unit) \<times> model_client" where
  "RemoveValidatedPrivateDirectory removed base directory prefix c =
     (if cache_dirs c (filename directory) = None \<or> parent_path directory \<noteq> base \<or>
         ParsePrivateCacheDirectory (filename directory) prefix = None
      then (Inl (''refusing to remove an invalid private model directory: '' @ directory), c)
      else if \<not> removed then (Inl ''cannot remove private model directory: '', c)
      else (Inr (), put_dir (filename directory) None c))"

section \<open>Download\<close>

record chunk =
  ck_model :: model_identity
  ck_offset :: int
  ck_data :: string
  ck_written :: bool

text \<open>Chunks in the order of the stream: the bytes written and whether every chunk fitted.\<close>

fun read_chunks :: "model_identity \<Rightarrow> chunk list \<Rightarrow> string \<Rightarrow> string \<times> bool" where
  "read_chunks i [] got = (got, True)"
| "read_chunks i (k # ks) got =
     (if ck_model k \<noteq> i \<or> ck_offset k \<noteq> int (length got) \<or> \<not> ck_written k then (got, False)
      else read_chunks i ks (got @ ck_data k))"

record download_io =
  dl_dirs :: directory_io
  dl_create_fails :: "nat \<Rightarrow> string option"
  dl_open :: bool
  dl_chunks :: "chunk list"
  dl_status :: "string option"
  dl_sync_file :: bool
  dl_manifest_created :: bool
  dl_manifest_durable :: bool
  dl_sync_dir :: bool
  dl_cleanup :: bool

text \<open>\<open>fs::remove_all\<close> of the temporary directory, whose failure is ignored.\<close>

definition cleaned :: "download_io \<Rightarrow> string \<Rightarrow> model_client \<Rightarrow> model_client" where
  "cleaned io name c = (if dl_cleanup io then put_dir name None c else c)"

definition DownloadToTemporary ::
  "manifest_codec \<Rightarrow> download_io \<Rightarrow> model_manifest \<Rightarrow> model_client \<Rightarrow> (string + string) \<times> model_client" where
  "DownloadToTemporary k io source c =
     (case open_lineage_of (dl_dirs io) source
             ''distributed model does not match the active lineage cache'' c of
        Inl e \<Rightarrow> (Inl e, c)
      | Inr base \<Rightarrow>
          (case AllocatePrivateCacheDirectory (dl_create_fails io) ''.tmp-'' (model_step source) c of
             (Inl e, c1) \<Rightarrow> (Inl e, c1)
           | (Inr name, c1) \<Rightarrow>
               let dir = path_join base name
               in if \<not> dl_open io then (Inl ''cannot open model download temporary file'', cleaned io name c1)
                  else case read_chunks (manifest_identity source) (dl_chunks io) [] of (bytes, fitted) \<Rightarrow>
                    let a = put_file kCachedModelFile bytes empty_artifact; c2 = put_dir name (Some a) c1
                    in case dl_status io of
                         Some msg \<Rightarrow> (Inl (''model download failed: '' @ msg), cleaned io name c2)
                       | None \<Rightarrow>
                           if \<not> fitted \<or> \<not> dl_sync_file io \<or> int (length bytes) \<noteq> size_bytes source
                           then (Inl ''model stream offset or size mismatch'', cleaned io name c2)
                           else (case WriteModelManifestFile k (dl_manifest_created io) (dl_manifest_durable io)
                                        source (path_join dir kModelManifestFile) a of
                                   Inl e \<Rightarrow> (Inl e, cleaned io name c2)
                                 | Inr a1 \<Rightarrow>
                                     let c3 = put_dir name (Some a1) c2
                                     in if \<not> dl_sync_dir io
                                        then (Inl (''cannot fsync model cache directory: '' @ dir), cleaned io name c3)
                                        else (Inr (path_join dir kCachedModelFile), c3))))"

record manifest_reply =
  mr_found :: bool
  mr_manifest :: "model_manifest option"
  mr_message :: string

text \<open>\<open>FetchLatest\<close> and \<open>FetchStep\<close>: \<open>latest\<close> takes the step from the range.\<close>

definition client_Fetch ::
  "manifest_codec \<Rightarrow> distributor_status rpc \<Rightarrow> manifest_reply rpc \<Rightarrow> download_io \<Rightarrow> u64 \<Rightarrow> bool \<Rightarrow>
   model_client \<Rightarrow> (string + model_manifest) \<times> model_client" where
  "client_Fetch k status found io step latest c =
     (let (range, c1) =
        (if latest \<or> pinned_lineage_id c = None
         then (case GetAvailableRange status c of
                 (Inl e, c1) \<Rightarrow> (Inl e, c1)
               | (Inr r, c1) \<Rightarrow> (Inr (if latest then ra_latest r else step), c1))
         else (Inr step, c))
      in case range of
           Inl e \<Rightarrow> (Inl e, c1)
         | Inr wanted \<Rightarrow>
             if pinned_lineage_id c1 = None
             then (Inl ''model lineage discovery did not produce an identity'', c1)
             else (case found of
                     RpcFailed _ msg \<Rightarrow> (Inl (''model manifest RPC failed: '' @ msg), c1)
                   | RpcOk r \<Rightarrow>
                       (case mr_manifest r of
                          None \<Rightarrow> (Inl (mr_message r), c1)
                        | Some source \<Rightarrow>
                            if \<not> mr_found r then (Inl (mr_message r), c1)
                            else (case client_ValidateManifest c1 source (Some wanted) of
                                    Inl e \<Rightarrow> (Inl e, c1)
                                  | Inr _ \<Rightarrow>
                                      (case DownloadToTemporary k io source c1 of
                                         (Inl e, c2) \<Rightarrow> (Inl e, c2)
                                       | (Inr path, c2) \<Rightarrow> (Inr (AssignModelManifest source path), c2))))))"

definition FetchStep ::
  "manifest_codec \<Rightarrow> distributor_status rpc \<Rightarrow> manifest_reply rpc \<Rightarrow> download_io \<Rightarrow> u64 \<Rightarrow>
   model_client \<Rightarrow> (string + model_manifest) \<times> model_client" where
  "FetchStep k status found io step c = client_Fetch k status found io step False c"

definition FetchLatest ::
  "manifest_codec \<Rightarrow> distributor_status rpc \<Rightarrow> manifest_reply rpc \<Rightarrow> download_io \<Rightarrow>
   model_client \<Rightarrow> (string + model_manifest) \<times> model_client" where
  "FetchLatest k status found io c = client_Fetch k status found io 0 True c"

section \<open>The cache\<close>

definition step_directory :: "string \<Rightarrow> u64 \<Rightarrow> string" where
  "step_directory base step = path_join base (CacheStepDirectoryName step)"

text \<open>\<open>listed\<close>: the directory could be read to its end.\<close>

definition LoadCachedStep ::
  "manifest_codec \<Rightarrow> directory_io \<Rightarrow> bool \<Rightarrow> u64 \<Rightarrow> model_client \<Rightarrow> string + model_manifest" where
  "LoadCachedStep k io listed step c =
     and_then (open_lineage io c) (\<lambda>(lineage, base).
       case cache_dirs c (CacheStepDirectoryName step) of
         None \<Rightarrow> Inl ''cached model step directory is invalid''
       | Some a \<Rightarrow>
           if ar_irregular a then Inl ''cached model step contains an invalid entry''
           else if \<not> listed \<or> set (map fst (ar_files a)) \<noteq> {kCachedModelFile, kModelManifestFile}
           then Inl ''cached model step is not a complete two-file artifact''
           else and_then (LoadModelManifestFile k (path_join (step_directory base step) kModelManifestFile) (Some a))
             (\<lambda>m. if model_lineage_id m \<noteq> lineage
                  then Inl ''cached model does not match the discovered training lineage''
                  else if model_step m \<noteq> step \<or> filename (model_path m) \<noteq> kCachedModelFile
                  then Inl ''cached model directory identity mismatch'' else Inr m))"

record cache_io =
  ci_dirs :: directory_io
  ci_elsewhere :: bool
  ci_listed :: bool
  ci_removed :: bool
  ci_renamed :: bool
  ci_synced :: bool

text \<open>\<open>ci_elsewhere\<close>: whether a directory outside the cache of the lineage exists.\<close>

definition DiscardTemporary ::
  "cache_io \<Rightarrow> model_manifest \<Rightarrow> model_client \<Rightarrow> (string + unit) \<times> model_client" where
  "DiscardTemporary io m c =
     (case open_lineage_of (ci_dirs io) m ''temporary model does not match the active lineage cache'' c of
        Inl e \<Rightarrow> (Inl e, c)
      | Inr base \<Rightarrow>
          let directory = parent_path (model_path m)
          in if parent_path directory \<noteq> base
             then (if ci_elsewhere io then (Inl ''refusing to remove a non-temporary model directory'', c)
                   else (Inr (), c))
             else if cache_dirs c (filename directory) = None then (Inr (), c)
             else RemoveValidatedPrivateDirectory (ci_removed io) base directory ''.tmp-'' c)"

definition publish_known ::
  "manifest_codec \<Rightarrow> cache_io \<Rightarrow> model_manifest \<Rightarrow> model_manifest \<Rightarrow> model_client \<Rightarrow>
   (string + model_manifest) \<times> model_client" where
  "publish_known k io m validated c =
     (case LoadCachedStep k (ci_dirs io) (ci_listed io) (model_step m) c of
        Inl e \<Rightarrow> (Inl e, c)
      | Inr published \<Rightarrow>
          if \<not> SameWireManifest published validated
          then (Inl ''published model step has a different identity'', c)
          else (case DiscardTemporary io m c of
                  (Inl e, c1) \<Rightarrow> (Inl e, c1)
                | (Inr _, c1) \<Rightarrow> (Inr published, note_cached (model_step published) c1)))"

definition PublishPrepared ::
  "manifest_codec \<Rightarrow> cache_io \<Rightarrow> model_manifest \<Rightarrow> model_client \<Rightarrow> (string + model_manifest) \<times> model_client" where
  "PublishPrepared k io m c =
     (if filename (model_path m) \<noteq> kCachedModelFile then (Inl ''prepared model identity is invalid'', c)
      else case open_lineage_of (ci_dirs io) m ''prepared model does not match the active lineage cache'' c of
             Inl e \<Rightarrow> (Inl e, c)
           | Inr base \<Rightarrow>
               let temporary = parent_path (model_path m); name = filename temporary;
                   final = CacheStepDirectoryName (model_step m)
               in if \<not> IsPrivateTemporaryDirectory temporary \<or> parent_path temporary \<noteq> base
                  then (Inl ''prepared model is not in a private cache directory'', c)
                  else (case LoadModelManifestFile k (path_join temporary kModelManifestFile) (cache_dirs c name) of
                          Inl e \<Rightarrow> (Inl e, c)
                        | Inr validated \<Rightarrow>
                            if \<not> SameWireManifest validated m \<or> model_step validated \<noteq> model_step m
                            then (Inl ''prepared model identity changed'', c)
                            else if cache_dirs c final \<noteq> None then publish_known k io m validated c
                            else if \<not> ci_renamed io
                            then (Inl ''cannot atomically publish prepared model: '', c)
                            else (let c1 = put_dir final (cache_dirs c name) (put_dir name None c)
                                  in if \<not> ci_synced io
                                     then (Inl (''cannot fsync model cache directory: '' @ base), c1)
                                     else (Inr (validated\<lparr>model_path :=
                                             path_join (step_directory base (model_step m)) kCachedModelFile\<rparr>),
                                           note_cached (model_step validated) c1))))"

section \<open>Pruning\<close>

record prune_io =
  pr_dirs :: directory_io
  pr_listed :: bool
  pr_create_fails :: "nat \<Rightarrow> string option"
  pr_emptied :: bool
  pr_renamed :: bool
  pr_synced :: bool
  pr_removed :: bool
  pr_synced_again :: bool

definition prune_step ::
  "manifest_codec \<Rightarrow> prune_io \<Rightarrow> string \<Rightarrow> u64 \<Rightarrow> model_client \<Rightarrow> (string + unit) \<times> model_client" where
  "prune_step k io base step c =
     (case LoadCachedStep k (pr_dirs io) (pr_listed io) step c of
        Inl e \<Rightarrow> (Inl e, c)
      | Inr _ \<Rightarrow>
          (case AllocatePrivateCacheDirectory (pr_create_fails io) ''.prune-'' step c of
             (Inl e, c1) \<Rightarrow> (Inl e, c1)
           | (Inr name, c1) \<Rightarrow>
               if \<not> pr_emptied io then (Inl ''cannot prepare model prune quarantine: '', c1)
               else let c2 = put_dir name None c1
                    in if \<not> pr_renamed io then (Inl ''cannot atomically quarantine cached model: '', c2)
                       else let c3 = put_dir name (cache_dirs c2 (CacheStepDirectoryName step))
                                       (put_dir (CacheStepDirectoryName step) None c2)
                            in if \<not> pr_synced io
                               then (Inl (''cannot fsync model cache directory: '' @ base), c3)
                               else (case RemoveValidatedPrivateDirectory (pr_removed io) base
                                            (path_join base name) ''.prune-'' c3 of
                                       (Inl e, c4) \<Rightarrow> (Inl e, c4)
                                     | (Inr _, c4) \<Rightarrow>
                                         if \<not> pr_synced_again io
                                         then (Inl (''cannot fsync model cache directory: '' @ base), c4)
                                         else (Inr (), c4\<lparr>cached_steps := remove1 step (cached_steps c4)\<rparr>))))"

fun prune_steps ::
  "manifest_codec \<Rightarrow> (u64 \<Rightarrow> prune_io) \<Rightarrow> string \<Rightarrow> u64 set \<Rightarrow> u64 list \<Rightarrow> model_client \<Rightarrow>
   (string + unit) \<times> model_client" where
  "prune_steps k io base protected [] c = (Inr (), c)"
| "prune_steps k io base protected (step # steps) c =
     (if step \<in> protected then prune_steps k io base protected steps c
      else case prune_step k (io step) base step c of
             (Inl e, c1) \<Rightarrow> (Inl e, c1)
           | (Inr _, c1) \<Rightarrow> prune_steps k io base protected steps c1)"

definition PruneCache ::
  "manifest_codec \<Rightarrow> directory_io \<Rightarrow> (u64 \<Rightarrow> prune_io) \<Rightarrow> u64 set \<Rightarrow> model_client \<Rightarrow>
   (string + unit) \<times> model_client" where
  "PruneCache k dirs io protected c =
     (case open_lineage dirs c of
        Inl e \<Rightarrow> (Inl e, c)
      | Inr (_, base) \<Rightarrow> prune_steps k io base protected (cached_steps c) c)"

section \<open>Acknowledgement\<close>

datatype ack_result = AckResultApplied | AckResultAlreadyApplied | AckResultNotFound | AckResultRejected | AckResultOther

record ack_reply =
  ak_result :: ack_result
  ak_message :: string
  ak_distributor :: service_identity

text \<open>An attempt: the time left before a deadline, when there is one, and the outcome of the call.\<close>

record ack_attempt =
  at_remaining :: "int option"
  at_rpc :: "ack_reply rpc"

definition settle_reply :: "service_identity \<Rightarrow> ack_reply \<Rightarrow> ack_disposition \<times> string" where
  "settle_reply authority r =
     (if \<not> ValidModelDistributorAuthority (ak_distributor r)
      then (AckedUncertain, ''model ACK response authority is invalid'')
      else if ak_result r = AckResultApplied \<or> ak_result r = AckResultAlreadyApplied then (AckedApplied, [])
      else let err = if_empty (ak_message r) ''model ACK was explicitly rejected'' (ak_message r)
           in if (ak_result r = AckResultNotFound \<or> ak_result r = AckResultRejected) \<and>
                 SameAuthority (ak_distributor r) authority
              then (AckedRejected, err) else (AckedUncertain, err))"

text \<open>At most \<open>kMaxAttempts\<close> attempts; \<open>err\<close> is the last error.\<close>

fun ack_attempts :: "nat \<Rightarrow> service_identity \<Rightarrow> ack_attempt list \<Rightarrow> string \<Rightarrow> ack_disposition \<times> string" where
  "ack_attempts 0 authority ats err = (AckedUncertain, err)"
| "ack_attempts (Suc n) authority [] err = (AckedUncertain, err)"
| "ack_attempts (Suc n) authority (a # ats) err =
     (if (case at_remaining a of None \<Rightarrow> False | Some ms \<Rightarrow> ms \<le> 0)
      then (AckedUncertain, if_empty err ''model ACK deadline elapsed'' err)
      else case at_rpc a of
             RpcOk r \<Rightarrow> settle_reply authority r
           | RpcFailed _ msg \<Rightarrow> ack_attempts n authority ats (''model ACK RPC outcome is uncertain: '' @ msg))"

definition kMaxAttempts :: nat where "kMaxAttempts = 3"

definition AckIdempotently ::
  "service_identity \<Rightarrow> distributor_status rpc \<Rightarrow> ack_attempt list \<Rightarrow> string \<Rightarrow>
   (ack_disposition \<times> string) \<times> service_identity" where
  "AckIdempotently authority status ats err =
     (if ValidModelDistributorAuthority authority
      then (ack_attempts kMaxAttempts authority ats err, authority)
      else case ProbeAckAuthorityDisposition status of
             ProbeReady found \<Rightarrow> (ack_attempts kMaxAttempts found ats [], found)
           | ProbeRetryable e \<Rightarrow> ((AckedNotApplied, e), no_service)
           | ProbeRejected e \<Rightarrow> ((AckedNotApplied, e), no_service))"

end
