(* ===== verification/Client_Claims.thy ===== *)
theory Client_Claims
  imports Model_Client "HOL-Library.Countable"
begin

text \<open>
  What the client of the model distributor guarantees: names are read back, a fetched model is the
  requested one, a published one is complete in the cache, pruning spares what is protected, and an
  acknowledgement counts as applied only when it was confirmed.
\<close>

section \<open>Names\<close>

lemma undec_foldl: "foldl (\<lambda>a c. 10 * a + (of_char c - 48)) a (dec n) = a * 10 ^ length (dec n) + n"
proof (induction n arbitrary: a rule: dec.induct)
  case (1 n)
  show ?case
  proof (cases "n < 10")
    case True
    then show ?thesis by (simp add: dec.simps [of n])
  next
    case False
    with 1 have "foldl (\<lambda>a c. 10 * a + (of_char c - 48)) a (dec (n div 10)) =
        a * 10 ^ length (dec (n div 10)) + n div 10" by blast
    with False show ?thesis by (simp add: dec.simps [of n])
  qed
qed

lemma undec_zeros: "undec (replicate k (CHR ''0'') @ dec n) = n"
proof -
  have "foldl (\<lambda>a c. 10 * a + (of_char c - 48)) 0 (replicate k (CHR ''0'')) = (0 :: nat)"
    by (induction k) simp_all
  then show ?thesis using undec_foldl [of 0 n] by (simp add: undec_def)
qed

lemma step_name_digits: "list_all is_digit (CacheStepDirectoryName s)"
  using dec_digits [of "unat s"] by (auto simp: CacheStepDirectoryName_def Let_def is_digit_def list_all_iff)

lemma step_name_length: "7 \<le> length (CacheStepDirectoryName s)"
  by (simp add: CacheStepDirectoryName_def Let_def)

lemma undec_step_name: "undec (CacheStepDirectoryName s) = unat s"
  by (simp add: CacheStepDirectoryName_def Let_def undec_zeros)

lemma step_name_inject [simp]: "CacheStepDirectoryName s = CacheStepDirectoryName t \<longleftrightarrow> s = t"
  by (metis undec_step_name unsigned_word_eqI)

lemma canonical_name: "ParseCanonicalStepDirectory (CacheStepDirectoryName step) = Some step"
proof -
  have ne: "CacheStepDirectoryName step \<noteq> []" using step_name_length [of step] by auto
  have "undec (CacheStepDirectoryName step) < 2 ^ 64"
    unfolding undec_step_name using unsigned_less [of step] by simp
  from stoull_digits [OF ne step_name_digits this] show ?thesis
    using step_name_length [of step] by (simp add: ParseCanonicalStepDirectory_def step_name_digits undec_step_name)
qed

lemma split_last_append: "c \<notin> set b \<Longrightarrow> split_last c (a @ c # b) = Some (a, b)"
proof -
  assume "c \<notin> set b"
  then have "takeWhile (\<lambda>x. x \<noteq> c) (rev b @ c # rev a) = rev b"
    by (auto simp: takeWhile_tail)
  then show ?thesis by (simp add: split_last_def)
qed

lemma digits_no_dash: "list_all is_digit ds \<Longrightarrow> CHR ''-'' \<notin> set ds"
  by (auto simp: list_all_iff is_digit_def)

lemma private_name_parse:
  "ParsePrivateCacheDirectory (private_name prefix step c) prefix = Some step"
proof -
  let ?n = "CacheStepDirectoryName step" and ?p = "dec (process_id c)" and ?i = "dec (unat (next_private_id c))"
  have "split_last (CHR ''-'') (?n @ CHR ''-'' # ?p @ CHR ''-'' # ?i) = Some (?n @ CHR ''-'' # ?p, ?i)"
    using split_last_append [OF digits_no_dash [OF dec_digits], of "?n @ CHR ''-'' # ?p" "unat (next_private_id c)"]
    by simp
  moreover have "split_last (CHR ''-'') (?n @ CHR ''-'' # ?p) = Some (?n, ?p)"
    by (rule split_last_append [OF digits_no_dash [OF dec_digits]])
  moreover have "?n \<noteq> []" using step_name_length [of step] by auto
  ultimately show ?thesis
    by (simp add: canonical_name ParsePrivateCacheDirectory_def private_name_def starts_with_def
        IsUnsignedDecimal_def dec_digits)
qed

lemma hex_char_inject: "a < 16 \<Longrightarrow> b < 16 \<Longrightarrow> hex_char a = hex_char b \<Longrightarrow> a = b"
proof -
  assume "a < 16" "b < 16" "hex_char a = hex_char b"
  then have "(of_char (hex_char a) :: nat) = of_char (hex_char b)" by simp
  with \<open>a < 16\<close> \<open>b < 16\<close> show ?thesis by (simp add: hex_char_def split: if_splits)
qed

lemma hex_byte_inject: "hex_byte a = hex_byte b \<Longrightarrow> a = b"
proof -
  assume "hex_byte a = hex_byte b"
  moreover have "of_char x div 16 < (16 :: nat)" for x :: char
    by (rule less_mult_imp_div_less) simp
  ultimately have "(of_char a div 16 :: nat) = of_char b div 16" "(of_char a mod 16 :: nat) = of_char b mod 16"
    using hex_char_inject [of "of_char a div 16" "of_char b div 16"]
      hex_char_inject [of "of_char a mod 16" "of_char b mod 16"]
      nat_of_char_less_256 [of a] nat_of_char_less_256 [of b]
    by (simp_all add: hex_byte_def)
  then have "(of_char a :: nat) = of_char b" by (metis div_mult_mod_eq)
  then show ?thesis by simp
qed

lemma lineage_key_inject: "EncodeLineageKey a = EncodeLineageKey b \<Longrightarrow> a = b"
proof (induction a arbitrary: b)
  case Nil
  then show ?case by (cases b) (simp_all add: EncodeLineageKey_def hex_byte_def)
next
  case (Cons x a)
  then obtain y b' where b: "b = y # b'" by (cases b) (auto simp: EncodeLineageKey_def hex_byte_def)
  have "hex_byte x = hex_byte y \<and> EncodeLineageKey a = EncodeLineageKey b'"
    using Cons.prems by (simp add: EncodeLineageKey_def b hex_byte_def)
  with Cons.IH hex_byte_inject b show ?case by blast
qed

text \<open>the directory name of a step is read back as this step, for every 64 bit step, and so is the
  name of every private directory made for it; different lineages never share a cache key.\<close>

theorem cache_names_read_back:
  "ParseCanonicalStepDirectory (CacheStepDirectoryName step) = Some step \<and>
   ParsePrivateCacheDirectory (private_name prefix step c) prefix = Some step \<and>
   (EncodeLineageKey a = EncodeLineageKey b) = (a = b)"
  using lineage_key_inject [of a b] by (auto simp: canonical_name private_name_parse)

section \<open>Paths\<close>

definition no_slash :: "string \<Rightarrow> bool" where
  "no_slash s \<longleftrightarrow> CHR ''/'' \<notin> set s"

lemma filename_join:
  assumes "no_slash x" "x \<noteq> []" "p \<noteq> []" "last p \<noteq> CHR ''/''"
  shows "filename (path_join p x) = x" "parent_path (path_join p x) = p"
proof -
  have "hd x \<noteq> CHR ''/''" using assms(1,2) by (cases x) (auto simp: no_slash_def)
  then have j: "path_join p x = p @ CHR ''/'' # x" using assms(3,4) by (simp add: path_join_def is_absolute_def)
  have "takeWhile (\<lambda>c. c \<noteq> CHR ''/'') (rev x @ CHR ''/'' # rev p) = rev x"
    using assms(1) by (auto simp: no_slash_def takeWhile_tail)
  then show f: "filename (path_join p x) = x" by (simp add: filename_def j)
  show "parent_path (path_join p x) = p" by (simp add: parent_path_def f) (simp add: j)
qed

definition lineage_base :: "string \<Rightarrow> model_client \<Rightarrow> string" where
  "lineage_base lineage c = path_join (path_join (cache_root_path c) ''lineages'') (EncodeLineageKey lineage)"

lemma opened_base:
  "OpenOrCreateLineageCache io lineage key c = Inr base \<Longrightarrow>
     base = lineage_base lineage c \<and> lineage \<noteq> [] \<and> key = EncodeLineageKey lineage"
  by (auto simp: OpenOrCreateLineageCache_def EnsureCacheRoot_def lineage_base_def and_then_Inr Let_def
      split: if_splits option.splits creation.splits)

lemma key_no_slash: "no_slash (EncodeLineageKey l)"
proof -
  have "hex_char d \<noteq> CHR ''/''" if "d < 16" for d
  proof
    assume "hex_char d = CHR ''/''"
    then have "(of_char (hex_char d) :: nat) = 47" by simp
    with that show False by (simp add: hex_char_def split: if_splits)
  qed
  moreover have "of_char x div 16 < (16 :: nat)" for x :: char
    by (rule less_mult_imp_div_less) simp
  ultimately have "CHR ''/'' \<noteq> hex_char (of_char x div 16)" "CHR ''/'' \<noteq> hex_char (of_char x mod 16)" for x :: char
    by (metis, metis mod_less_divisor zero_less_numeral)
  then show ?thesis by (auto simp: no_slash_def EncodeLineageKey_def hex_byte_def)
qed

lemma lineage_base_end: "l \<noteq> [] \<Longrightarrow> lineage_base l c \<noteq> [] \<and> last (lineage_base l c) \<noteq> CHR ''/''"
proof -
  assume "l \<noteq> []"
  then have k: "EncodeLineageKey l \<noteq> []" by (cases l) (simp_all add: EncodeLineageKey_def hex_byte_def)
  with key_no_slash [of l] have "last (EncodeLineageKey l) \<noteq> CHR ''/''"
    by (metis last_in_set no_slash_def)
  with k show ?thesis by (auto simp: lineage_base_def path_join_def)
qed

section \<open>Private directories\<close>

lemma put_dir_twice [simp]: "put_dir n a (put_dir n b c) = put_dir n a c"
  by (simp add: put_dir_def)

lemma put_dir_fields [simp]:
  "cache_dirs (put_dir n a c) = (cache_dirs c)(n := a)" "pinned_lineage_id (put_dir n a c) = pinned_lineage_id c"
  "pinned_lineage_key (put_dir n a c) = pinned_lineage_key c" "cached_steps (put_dir n a c) = cached_steps c"
  by (simp_all add: put_dir_def)

text \<open>A name made for a step under a prefix.\<close>

definition private_of :: "string \<Rightarrow> u64 \<Rightarrow> string \<Rightarrow> bool" where
  "private_of prefix step name \<longleftrightarrow>
     (\<exists>c. name = private_name prefix step c)"

lemma private_of_parse: "private_of prefix step name \<Longrightarrow> ParsePrivateCacheDirectory name prefix = Some step"
  by (auto simp: private_of_def private_name_parse)

lemma digits_no_slash: "list_all is_digit ds \<Longrightarrow> no_slash ds"
  by (auto simp: list_all_iff is_digit_def no_slash_def)

lemma private_of_no_slash: "no_slash prefix \<Longrightarrow> private_of prefix step name \<Longrightarrow> no_slash name \<and> name \<noteq> []"
  using digits_no_slash [OF dec_digits] digits_no_slash [OF step_name_digits]
  by (auto simp: private_of_def private_name_def no_slash_def)

lemma private_of_starts: "private_of prefix step name \<Longrightarrow> starts_with prefix name"
  by (auto simp: private_of_def private_name_def starts_with_def)

lemma dotted_not_canonical: "starts_with (CHR ''.'' # p) name \<Longrightarrow> name \<noteq> CacheStepDirectoryName s"
proof
  assume d: "starts_with (CHR ''.'' # p) name" and e: "name = CacheStepDirectoryName s"
  have "name \<noteq> [] \<and> hd name = CHR ''.''" using d by (cases name) (simp_all add: starts_with_def)
  moreover have "list_all is_digit name" using e step_name_digits by simp
  ultimately show False by (cases name) (simp_all add: is_digit_def)
qed

lemma allocated:
  assumes "allocate_loop n fails prefix step c = (r, c1)"
  shows "case r of
      Inl e \<Rightarrow> \<exists>i. c1 = c\<lparr>next_private_id := i\<rparr>
    | Inr name \<Rightarrow> private_of prefix step name \<and> cache_dirs c name = None \<and>
        (\<exists>i. c1 = put_dir name (Some empty_artifact) (c\<lparr>next_private_id := i\<rparr>))"
  using assms
proof (induction n arbitrary: c)
  case 0
  then have "r = Inl ''cannot allocate private model cache directory''" "c1 = c\<lparr>next_private_id := next_private_id c\<rparr>"
    by simp_all
  then show ?case by (simp only: sum.case) (rule exI, rule refl)
next
  case (Suc n)
  let ?name = "private_name prefix step c" and ?c = "c\<lparr>next_private_id := next_private_id c + 1\<rparr>"
  show ?case
  proof (cases "cache_dirs c ?name")
    case (Some a)
    with Suc.prems have "allocate_loop n fails prefix step ?c = (r, c1)" by (simp add: Let_def)
    from Suc.IH [OF this] show ?thesis by (cases r) auto
  next
    case None
    show ?thesis
    proof (cases "fails n")
      case None
      with \<open>cache_dirs c ?name = None\<close> Suc.prems
      have "r = Inr ?name" "c1 = put_dir ?name (Some empty_artifact) ?c" by (simp_all add: Let_def)
      with \<open>cache_dirs c ?name = None\<close> show ?thesis by (simp only: sum.case private_of_def) blast
    next
      case (Some msg)
      with \<open>cache_dirs c ?name = None\<close> Suc.prems
      have "r = Inl (''cannot create private model cache directory: '' @ msg)" "c1 = ?c" by (auto simp: Let_def)
      then show ?thesis by (simp only: sum.case) (rule exI, rule refl)
    qed
  qed
qed

section \<open>Fetching\<close>

lemma pinned_open:
  assumes "open_lineage_of io m e c = Inr base"
  shows "base = lineage_base (model_lineage_id m) c" "pinned_lineage_id c = Some (model_lineage_id m)"
    "pinned_lineage_key c = Some (EncodeLineageKey (model_lineage_id m))" "model_lineage_id m \<noteq> []"
proof -
  from assms obtain lin key where g: "GetPinnedModelLineage c = Inr (lin, key)" "model_lineage_id m = lin"
      and o: "OpenOrCreateLineageCache io lin key c = Inr base"
    by (auto simp: open_lineage_of_def and_then_Inr split: if_splits)
  have "pinned_lineage_id c = Some lin" "pinned_lineage_key c = Some key"
    using g(1) by (auto simp: GetPinnedModelLineage_def split: option.splits if_splits)
  with opened_base [OF o] g(2) show "base = lineage_base (model_lineage_id m) c"
    "pinned_lineage_id c = Some (model_lineage_id m)"
    "pinned_lineage_key c = Some (EncodeLineageKey (model_lineage_id m))" "model_lineage_id m \<noteq> []" by simp_all
qed

definition fetched_artifact :: "manifest_codec \<Rightarrow> model_manifest \<Rightarrow> string \<Rightarrow> artifact" where
  "fetched_artifact k m bytes =
     \<lparr>ar_files = [(kModelManifestFile, mk_serialize k (m\<lparr>model_path := []\<rparr>)), (kCachedModelFile, bytes)],
      ar_irregular = False\<rparr>"

lemma file_names [simp]: "kModelManifestFile \<noteq> kCachedModelFile" "kCachedModelFile \<noteq> kModelManifestFile"
  "no_slash kModelManifestFile" "no_slash kCachedModelFile" "kModelManifestFile \<noteq> []" "kCachedModelFile \<noteq> []"
  by (simp_all add: kModelManifestFile_def kCachedModelFile_def no_slash_def)

lemma downloaded:
  assumes "DownloadToTemporary k io source c = (Inr path, c')"
  obtains name i bytes where
    "private_of ''.tmp-'' (model_step source) name" "cache_dirs c name = None"
    "c' = put_dir name (Some (fetched_artifact k source bytes)) (c\<lparr>next_private_id := i\<rparr>)"
    "int (length bytes) = size_bytes source"
    "path = path_join (path_join (lineage_base (model_lineage_id source) c) name) kCachedModelFile"
    "pinned_lineage_id c = Some (model_lineage_id source)" "model_lineage_id source \<noteq> []"
    "pinned_lineage_key c = Some (EncodeLineageKey (model_lineage_id source))"
proof -
  obtain base where base: "open_lineage_of (dl_dirs io) source
      ''distributed model does not match the active lineage cache'' c = Inr base"
    using assms by (auto simp: DownloadToTemporary_def split: sum.splits)
  note o = pinned_open [OF base]
  obtain r c1 where al: "AllocatePrivateCacheDirectory (dl_create_fails io) ''.tmp-'' (model_step source) c = (r, c1)"
    by force
  then obtain name where r: "r = Inr name"
    using assms base by (cases r) (auto simp: DownloadToTemporary_def)
  obtain i where n: "private_of ''.tmp-'' (model_step source) name" "cache_dirs c name = None"
    "c1 = put_dir name (Some empty_artifact) (c\<lparr>next_private_id := i\<rparr>)"
    using allocated [OF al [unfolded AllocatePrivateCacheDirectory_def]] r by auto
  obtain bytes fitted where ch: "read_chunks (manifest_identity source) (dl_chunks io) [] = (bytes, fitted)" by force
  let ?dir = "path_join base name" let ?a = "put_file kCachedModelFile bytes empty_artifact"
  have ok: "dl_open io" "dl_status io = None" "fitted" "dl_sync_file io" "int (length bytes) = size_bytes source"
    "dl_sync_dir io" and
    w: "\<exists>a1. WriteModelManifestFile k (dl_manifest_created io) (dl_manifest_durable io) source
       (path_join ?dir kModelManifestFile) ?a = Inr a1 \<and> path = path_join ?dir kCachedModelFile \<and>
       c' = put_dir name (Some a1) c1"
    using assms base al r ch
    by (auto simp: DownloadToTemporary_def Let_def split: if_splits sum.splits option.splits)
  obtain a1 where a1: "WriteModelManifestFile k (dl_manifest_created io) (dl_manifest_durable io) source
       (path_join ?dir kModelManifestFile) ?a = Inr a1" "path = path_join ?dir kCachedModelFile"
       "c' = put_dir name (Some a1) c1" using w by blast
  have "a1 = fetched_artifact k source bytes"
    using a1(1)
    by (auto simp: WriteModelManifestFile_def fetched_artifact_def put_file_def empty_artifact_def split: if_splits)
  with that [OF n(1,2) _ ok(5), of i] a1(2,3) n(3) o show ?thesis by simp
qed

text \<open>What discovery changes: the lineage, and only from unset.\<close>

definition repinned :: "model_client \<Rightarrow> model_client \<Rightarrow> bool" where
  "repinned c c' \<longleftrightarrow> cache_dirs c' = cache_dirs c \<and> cached_steps c' = cached_steps c \<and>
     cl_local_train_dir c' = cl_local_train_dir c \<and>
     pinned_lineage_id c \<in> {None, pinned_lineage_id c'}"

lemma repinned_refl [simp]: "repinned c c"
  by (simp add: repinned_def)

lemma lineage_pinned: "PinModelLineage l c = Inr c' \<Longrightarrow> repinned c c'"
  by (auto simp: PinModelLineage_def repinned_def split: if_splits)

lemma range_effect:
  assumes "GetAvailableRange rsp c = (r, c')"
  shows "repinned c c'"
  using assms unfolding GetAvailableRange_def
  by (auto split: rpc.splits if_splits option.splits sum.splits dest: lineage_pinned)

lemma validated_manifest:
  assumes "client_ValidateManifest c m (Some step) = Inr u"
  shows "HasModelIdentity m" "model_step m = step" "pinned_lineage_id c = Some (model_lineage_id m)"
    "0 < size_bytes m" "ValidateModelManifest m None = Inr ()"
  using assms
  by (auto simp: client_ValidateManifest_def ValidateModelManifest_def and_then_Inr Let_def
      HasModelIdentity_def manifest_identity_def no_identity_def split: if_splits option.splits)

lemma fetched:
  assumes "FetchStep k status rsp io step c = (Inr m, c')"
  obtains c1 source bytes name i where
    "repinned c c1"
    "client_ValidateManifest c1 source (Some step) = Inr ()"
    "private_of ''.tmp-'' step name" "cache_dirs c name = None"
    "c' = put_dir name (Some (fetched_artifact k source bytes)) (c1\<lparr>next_private_id := i\<rparr>)"
    "int (length bytes) = size_bytes source"
    "m = source\<lparr>model_path := path_join (path_join (lineage_base (model_lineage_id source) c1) name) kCachedModelFile\<rparr>"
    "pinned_lineage_id c1 = Some (model_lineage_id source)" "model_lineage_id source \<noteq> []"
    "pinned_lineage_key c1 = Some (EncodeLineageKey (model_lineage_id source))"
proof -
  obtain c1 source path where
    c1: "repinned c c1" and
    v: "client_ValidateManifest c1 source (Some step) = Inr ()" and
    d: "DownloadToTemporary k io source c1 = (Inr path, c')" and m: "m = AssignModelManifest source path"
  proof (cases "pinned_lineage_id c = None")
    case True
    obtain r c1 where g: "GetAvailableRange status c = (r, c1)" by force
    show thesis
      using assms True g range_effect [OF g] that
      by (cases r) (auto simp: FetchStep_def client_Fetch_def Let_def split: if_splits rpc.splits option.splits
          sum.splits prod.splits)
  next
    case False
    show thesis
      using assms False that [of c]
      by (auto simp: FetchStep_def client_Fetch_def Let_def split: if_splits rpc.splits option.splits
          sum.splits prod.splits)
  qed
  from validated_manifest [OF v] have step: "model_step source = step" by blast
  have cd: "cache_dirs c1 = cache_dirs c" using c1 by (simp add: repinned_def)
  from downloaded [OF d] obtain name i bytes where n:
    "private_of ''.tmp-'' (model_step source) name" "cache_dirs c1 name = None"
    "c' = put_dir name (Some (fetched_artifact k source bytes)) (c1\<lparr>next_private_id := i\<rparr>)"
    "int (length bytes) = size_bytes source"
    "path = path_join (path_join (lineage_base (model_lineage_id source) c1) name) kCachedModelFile"
    "pinned_lineage_id c1 = Some (model_lineage_id source)" "model_lineage_id source \<noteq> []"
    "pinned_lineage_key c1 = Some (EncodeLineageKey (model_lineage_id source))" .
  show thesis
    by (rule that [OF c1 v _ _ n(3,4) _ n(6,7,8)]) (use n step cd m in \<open>simp_all add: AssignModelManifest_def\<close>)
qed

section \<open>Loading and publishing\<close>

text \<open>The law of the protobuf codec: a serialised manifest is parsed back.\<close>

definition codec_lossless :: "manifest_codec \<Rightarrow> bool" where
  "codec_lossless k \<longleftrightarrow> (\<forall>m. mk_parse k (mk_serialize k (m\<lparr>model_path := []\<rparr>)) = Some (m\<lparr>model_path := []\<rparr>))"

lemma path_irrelevant [simp]:
  "manifest_identity (m\<lparr>model_path := p\<rparr>) = manifest_identity m" "model_step (m\<lparr>model_path := p\<rparr>) = model_step m"
  "model_lineage_id (m\<lparr>model_path := p\<rparr>) = model_lineage_id m"
  "HasModelIdentity (m\<lparr>model_path := p\<rparr>) = HasModelIdentity m"
  by (simp_all add: manifest_identity_def model_step_def model_lineage_id_def HasModelIdentity_def)

lemma path_irrelevant_checks [simp]:
  "ValidateModelManifest (m\<lparr>model_path := p\<rparr>) e = ValidateModelManifest m e"
  "SameWireManifest (m\<lparr>model_path := p\<rparr>) n = SameWireManifest m n"
  "SameWireManifest m (n\<lparr>model_path := p\<rparr>) = SameWireManifest m n" "SameWireManifest m m"
  by (simp_all add: ValidateModelManifest_def SameWireManifest_def Let_def split: option.split)

lemma SameWire_fields:
  assumes "SameWireManifest a b"
  shows "model_step a = model_step b" "HasModelIdentity a = HasModelIdentity b"
  using assms path_irrelevant(2,4) unfolding SameWireManifest_def by metis+

lemma load_fetched_file:
  assumes "codec_lossless k" "ValidateModelManifest source None = Inr ()" "int (length bytes) = size_bytes source"
    "filename p = kModelManifestFile"
  shows "LoadModelManifestFile k p (Some (fetched_artifact k source bytes)) =
    Inr (source\<lparr>model_path := path_join (parent_path p) kCachedModelFile\<rparr>)"
  using assms by (simp add: LoadModelManifestFile_def fetched_artifact_def codec_lossless_def AssignModelManifest_def)

lemma opened_lineage:
  assumes "open_lineage io c = Inr (l, base)"
  shows "base = lineage_base l c \<and> l \<noteq> [] \<and> pinned_lineage_id c = Some l"
proof -
  from assms obtain key where g: "GetPinnedModelLineage c = Inr (l, key)"
      and o: "OpenOrCreateLineageCache io l key c = Inr base"
    by (auto simp: open_lineage_def and_then_Inr)
  have "pinned_lineage_id c = Some l"
    using g by (auto simp: GetPinnedModelLineage_def split: option.splits if_splits)
  with opened_base [OF o] show ?thesis by simp
qed

lemma step_name_no_slash [simp]: "no_slash (CacheStepDirectoryName s)" "CacheStepDirectoryName s \<noteq> []"
  using digits_no_slash [OF step_name_digits] step_name_length [of s] by auto

lemma step_directory_end:
  "l \<noteq> [] \<Longrightarrow> step_directory (lineage_base l c) s \<noteq> [] \<and> last (step_directory (lineage_base l c) s) \<noteq> CHR ''/''"
proof -
  assume "l \<noteq> []"
  have "last (CacheStepDirectoryName s) \<noteq> CHR ''/''"
    using step_name_no_slash [of s] by (metis last_in_set no_slash_def)
  with lineage_base_end [OF \<open>l \<noteq> []\<close>, of c] step_name_no_slash(2) [of s] show ?thesis
    by (auto simp: step_directory_def path_join_def)
qed

text \<open>Loading a step looks only at its directory and at the lineage.\<close>

lemma LoadCachedStep_cong:
  assumes "LoadCachedStep k io listed step c = Inr m" "open_lineage io' c' = Inr (l, base)"
    "cache_dirs c' (CacheStepDirectoryName step) = cache_dirs c (CacheStepDirectoryName step)"
    "pinned_lineage_id c' = pinned_lineage_id c" "cl_local_train_dir c' = cl_local_train_dir c"
  shows "LoadCachedStep k io' True step c' = Inr m"
proof -
  from assms(1) obtain l0 base0 where o: "open_lineage io c = Inr (l0, base0)"
    by (auto simp: LoadCachedStep_def and_then_Inr)
  have "l0 = l" "base0 = base"
    using opened_lineage [OF o] opened_lineage [OF assms(2)] assms(4,5)
    by (simp_all add: lineage_base_def cache_root_path_def)
  with o assms show ?thesis
    by (cases "cache_dirs c (CacheStepDirectoryName step)") (simp_all add: LoadCachedStep_def split: if_splits)
qed

lemma loaded_step: "LoadCachedStep k io listed step c = Inr m \<Longrightarrow> model_step m = step"
  by (auto simp: LoadCachedStep_def and_then_Inr split: option.splits if_splits)

lemma discarded:
  assumes "DiscardTemporary io m c = (r, c')"
  shows "c' = c \<or> c' = put_dir (filename (parent_path (model_path m))) None c \<and>
    ParsePrivateCacheDirectory (filename (parent_path (model_path m))) ''.tmp-'' \<noteq> None"
  using assms
  by (auto simp: DiscardTemporary_def RemoveValidatedPrivateDirectory_def Let_def split: sum.splits if_splits)

text \<open>A discard that succeeds inside the lineage's directory leaves nothing of the private directory.\<close>

lemma discarded_all:
  assumes "DiscardTemporary io m c = (Inr (), c')" "pinned_lineage_id c = Some (model_lineage_id m)"
    and "parent_path (parent_path (model_path m)) = lineage_base (model_lineage_id m) c"
  shows "c' = put_dir (filename (parent_path (model_path m))) None c \<or>
    c' = c \<and> cache_dirs c (filename (parent_path (model_path m))) = None"
proof -
  obtain base where o: "open_lineage_of (ci_dirs io) m ''temporary model does not match the active lineage cache'' c
      = Inr base" using assms(1) by (auto simp: DiscardTemporary_def split: sum.splits)
  have "base = lineage_base (model_lineage_id m) c" using pinned_open(1) [OF o] by simp
  with assms o show ?thesis
    by (auto simp: DiscardTemporary_def RemoveValidatedPrivateDirectory_def Let_def split: if_splits)
qed

lemma note_cached_fields [simp]:
  "cache_dirs (note_cached s c) = cache_dirs c" "pinned_lineage_id (note_cached s c) = pinned_lineage_id c"
  "pinned_lineage_key (note_cached s c) = pinned_lineage_key c"
  "cl_local_train_dir (note_cached s c) = cl_local_train_dir c" "s \<in> set (cached_steps (note_cached s c))"
  by (simp_all add: note_cached_def set_insort_insert)

lemma put_dir_local [simp]: "cl_local_train_dir (put_dir n a c) = cl_local_train_dir c"
  by (simp add: put_dir_def)

lemma load_fetched_step:
  assumes "codec_lossless k" "ValidateModelManifest source None = Inr ()" "int (length bytes) = size_bytes source"
    "open_lineage io c = Inr (model_lineage_id source, base)" "model_step source = step"
    "cache_dirs c (CacheStepDirectoryName step) = Some (fetched_artifact k source bytes)"
  shows "LoadCachedStep k io True step c =
    Inr (source\<lparr>model_path := path_join (step_directory base step) kCachedModelFile\<rparr>)"
proof -
  note o = opened_lineage [OF assms(4)]
  have e: "step_directory base step \<noteq> []" "last (step_directory base step) \<noteq> CHR ''/''"
    using step_directory_end [of "model_lineage_id source" c step] o by auto
  note f = filename_join [OF file_names(3) file_names(5) e] filename_join [OF file_names(4) file_names(6) e]
  have "set (map fst (ar_files (fetched_artifact k source bytes))) = {kCachedModelFile, kModelManifestFile}"
    "\<not> ar_irregular (fetched_artifact k source bytes)"
    by (auto simp: fetched_artifact_def)
  with assms f load_fetched_file [OF assms(1-3) f(1)] show ?thesis
    by (simp add: LoadCachedStep_def)
qed

lemma published:
  assumes k: "codec_lossless k" and f: "FetchStep k status rsp fio step c = (Inr m, c1)"
    and p: "PublishPrepared k io m c1 = (Inr m', c2)"
  shows "model_step m' = step \<and> HasModelIdentity m' \<and> SameWireManifest m' m \<and> step \<in> set (cached_steps c2) \<and>
    cl_local_train_dir c2 = cl_local_train_dir c1 \<and>
    cache_dirs c1 (filename (parent_path (model_path m))) \<noteq> None \<and>
    cache_dirs c2 (filename (parent_path (model_path m))) = None \<and>
    (\<forall>d. d \<noteq> CacheStepDirectoryName step \<longrightarrow> cache_dirs c2 d = cache_dirs c d) \<and>
    (\<forall>dirs l base. open_lineage dirs c2 = Inr (l, base) \<longrightarrow> LoadCachedStep k dirs True step c2 = Inr m')"
proof -
  obtain cA source bytes name i where
    r: "repinned c cA" and v: "client_ValidateManifest cA source (Some step) = Inr ()" and
    n: "private_of ''.tmp-'' step name" "cache_dirs c name = None" and
    c1: "c1 = put_dir name (Some (fetched_artifact k source bytes)) (cA\<lparr>next_private_id := i\<rparr>)" and
    sz: "int (length bytes) = size_bytes source" and
    m: "m = source\<lparr>model_path := path_join (path_join (lineage_base (model_lineage_id source) cA) name) kCachedModelFile\<rparr>"
    and pin: "pinned_lineage_id cA = Some (model_lineage_id source)" "model_lineage_id source \<noteq> []"
    using fetched [OF f] by metis
  note v = validated_manifest [OF v]
  let ?a = "fetched_artifact k source bytes" and ?lin = "model_lineage_id source" and
    ?final = "CacheStepDirectoryName step"
  define base where "base = lineage_base ?lin cA"
  have nm: "no_slash name" "name \<noteq> []" "starts_with ''.tmp-'' name"
    using private_of_no_slash [OF _ n(1)] private_of_starts [OF n(1)] by (auto simp: no_slash_def)
  have fin: "name \<noteq> CacheStepDirectoryName s" for s using dotted_not_canonical [OF nm(3)] .
  have be: "base \<noteq> []" "last base \<noteq> CHR ''/''" using lineage_base_end [OF pin(2), of cA] by (simp_all add: base_def)
  note t = filename_join [OF nm(1,2) be]
  have te: "path_join base name \<noteq> []" "last (path_join base name) \<noteq> CHR ''/''"
    using nm be by (auto simp: path_join_def no_slash_def dest: last_in_set)
  note tf = filename_join [OF file_names(4) file_names(6) te] filename_join [OF file_names(3) file_names(5) te]
  have mp: "model_path m = path_join (path_join base name) kCachedModelFile" by (simp add: m base_def)
  have b1: "lineage_base ?lin c' = base" if "cl_local_train_dir c' = cl_local_train_dir c1" for c'
    using that by (simp add: base_def lineage_base_def cache_root_path_def c1)
  obtain base' where ol: "open_lineage_of (ci_dirs io) m ''prepared model does not match the active lineage cache'' c1 = Inr base'"
    using p tf mp by (auto simp: PublishPrepared_def split: sum.splits)
  have "base' = base" using pinned_open(1) [OF ol] b1 [of c1] by (simp add: m)
  define w where "w = source\<lparr>model_path := path_join (path_join base name) kCachedModelFile\<rparr>"
  have ld: "LoadModelManifestFile k (path_join (path_join base name) kModelManifestFile) (cache_dirs c1 name) = Inr w"
    using load_fetched_file [OF k v(5) sz tf(3)] tf(4) by (simp add: c1 w_def)
  have sw: "SameWireManifest w m" "model_step w = model_step m" "model_step m = step" "HasModelIdentity m"
    using v by (simp_all add: w_def m)
  have had: "cache_dirs c1 (filename (parent_path (model_path m))) \<noteq> None"
    by (simp add: mp tf t c1 put_dir_def)
  have priv: "IsPrivateTemporaryDirectory (path_join base name)"
    using nm(3) t by (simp add: IsPrivateTemporaryDirectory_def)
  show ?thesis
  proof (cases "cache_dirs c1 ?final")
    case None
    with p ol \<open>base' = base\<close> mp tf t priv ld sw fin
    have q: "m' = w\<lparr>model_path := path_join (step_directory base step) kCachedModelFile\<rparr>"
      "c2 = note_cached step (put_dir ?final (Some ?a) (put_dir name None c1))"
      by (auto simp: PublishPrepared_def Let_def c1 split: if_splits)
    have "LoadCachedStep k dirs True step c2 = Inr m'" if o: "open_lineage dirs c2 = Inr (l, bs)" for dirs l bs
    proof -
      note oo = opened_lineage [OF o]
      have "l = ?lin" using oo pin(1) by (simp add: q(2) c1)
      moreover from this have "bs = base" using oo b1 [of c2] by (simp add: q(2))
      ultimately show ?thesis
        using load_fetched_step [OF k v(5) sz, of dirs c2 base step] o v(2) by (simp add: q w_def)
    qed
    moreover have "cache_dirs c2 d = cache_dirs c d" if "d \<noteq> ?final" for d
      using that r n(2) by (simp add: q(2) c1 repinned_def put_dir_def)
    moreover have "cache_dirs c2 (filename (parent_path (model_path m))) = None"
      using fin [of step] by (simp add: mp tf t q(2) put_dir_def)
    ultimately show ?thesis using sw had by (simp add: q w_def v m)
  next
    case (Some a)
    with p ol \<open>base' = base\<close> mp tf t priv ld sw
    have "publish_known k io m w c1 = (Inr m', c2)" by (simp add: PublishPrepared_def Let_def)
    then obtain cx where
      l: "LoadCachedStep k (ci_dirs io) (ci_listed io) step c1 = Inr m'" "SameWireManifest m' w" and
      d: "DiscardTemporary io m c1 = (Inr (), cx)" and c2: "c2 = note_cached (model_step m') cx"
      using sw(3) by (auto simp: publish_known_def split: sum.splits if_splits prod.splits)
    have pl: "pinned_lineage_id c1 = Some (model_lineage_id m)" "lineage_base (model_lineage_id m) c1 = base"
      using pin(1) b1 [of c1] by (simp_all add: c1 m)
    have cx: "cx = put_dir name None c1"
      using discarded_all [OF d pl(1)] mp tf t pl(2) by (auto simp: c1 put_dir_def)
    have keep: "cache_dirs cx (CacheStepDirectoryName s) = cache_dirs c1 (CacheStepDirectoryName s)" for s
      using cx fin [of s] by auto
    have fl: "pinned_lineage_id cx = pinned_lineage_id c1" "cl_local_train_dir cx = cl_local_train_dir c1"
      using cx by auto
    have "LoadCachedStep k dirs True step c2 = Inr m'" if "open_lineage dirs c2 = Inr (l, bs)" for dirs l bs
      by (rule LoadCachedStep_cong [OF l(1) that]) (simp_all add: c2 keep fl)
    moreover have "cache_dirs c2 e = cache_dirs c e" if "e \<noteq> ?final" for e
      using that r n(2) by (simp add: c2 cx c1 repinned_def put_dir_def)
    moreover have "cache_dirs c2 (filename (parent_path (model_path m))) = None"
      by (simp add: mp tf t c2 cx put_dir_def)
    ultimately show ?thesis
      using loaded_step [OF l(1)] l(2) SameWire_fields [OF l(2)] sw fl had by (simp add: c2 w_def m)
  qed
qed

section \<open>Pruning\<close>

lemma removed:
  assumes "RemoveValidatedPrivateDirectory ok base d prefix c = (r, c')"
  shows "c' = c \<or> c' = put_dir (filename d) None c"
  using assms by (auto simp: RemoveValidatedPrivateDirectory_def split: if_splits)

lemma next_id_fields [simp]:
  "cache_dirs (c\<lparr>next_private_id := i\<rparr>) = cache_dirs c" "cached_steps (c\<lparr>next_private_id := i\<rparr>) = cached_steps c"
  by simp_all

text \<open>One step: only its own directory and the private one are touched.\<close>

lemma pruned_step:
  assumes b: "base \<noteq> []" "last base \<noteq> CHR ''/''" and p: "prune_step k io base step c = (r, c')"
  shows "(\<forall>s. s \<noteq> step \<longrightarrow> cache_dirs c' (CacheStepDirectoryName s) = cache_dirs c (CacheStepDirectoryName s)) \<and>
    (case r of
       Inl e \<Rightarrow> cached_steps c' = cached_steps c
     | Inr _ \<Rightarrow> cached_steps c' = remove1 step (cached_steps c) \<and> cache_dirs c' (CacheStepDirectoryName step) = None)"
proof (cases "LoadCachedStep k (pr_dirs io) (pr_listed io) step c")
  case (Inl e)
  with p show ?thesis by (auto simp: prune_step_def)
next
  case (Inr m)
  obtain ra c1 where al: "AllocatePrivateCacheDirectory (pr_create_fails io) ''.prune-'' step c = (ra, c1)" by force
  note a = allocated [OF al [unfolded AllocatePrivateCacheDirectory_def]]
  show ?thesis
  proof (cases ra)
    case (Inl e)
    with p Inr al a show ?thesis by (auto simp: prune_step_def)
  next
    case (Inr name)
    then obtain i where n: "private_of ''.prune-'' step name" and
        c1: "c1 = put_dir name (Some empty_artifact) (c\<lparr>next_private_id := i\<rparr>)"
      using a by auto
    have nm: "no_slash name" "name \<noteq> []" "starts_with ''.prune-'' name"
      using private_of_no_slash [OF _ n] private_of_starts [OF n] by (auto simp: no_slash_def)
    have fin: "name \<noteq> CacheStepDirectoryName s" for s using dotted_not_canonical [OF nm(3)] .
    note f = filename_join [OF nm(1,2) b]
    let ?c2 = "put_dir name None c1"
    let ?c3 = "put_dir name (cache_dirs ?c2 (CacheStepDirectoryName step)) (put_dir (CacheStepDirectoryName step) None ?c2)"
    obtain rr c4 where rem: "RemoveValidatedPrivateDirectory (pr_removed io) base (path_join base name) ''.prune-'' ?c3 = (rr, c4)"
      by force
    note c4 = removed [OF rem, unfolded f]
    from p \<open>LoadCachedStep k (pr_dirs io) (pr_listed io) step c = Inr m\<close> al Inr rem
    consider "c' = c1" "\<exists>e. r = Inl e" | "c' = ?c2" "\<exists>e. r = Inl e" | "c' = ?c3" "\<exists>e. r = Inl e"
      | "c' = c4" "\<exists>e. r = Inl e" | "c' = c4\<lparr>cached_steps := remove1 step (cached_steps c4)\<rparr>" "r = Inr ()"
      by (auto simp: prune_step_def Let_def split: if_splits sum.splits)
    then show ?thesis
    proof cases
      case 5
      from c4 show ?thesis using 5 by (elim disjE) (simp_all add: c1 fin fin [symmetric])
    qed (use c4 in \<open>auto simp: c1 fin fin [symmetric]\<close>)
  qed
qed

lemma pruned_steps:
  assumes "base \<noteq> []" "last base \<noteq> CHR ''/''" "prune_steps k io base protected steps c = (r, c')"
  shows "(\<forall>s. s \<in> protected \<or> s \<notin> set steps \<longrightarrow>
      cache_dirs c' (CacheStepDirectoryName s) = cache_dirs c (CacheStepDirectoryName s)) \<and>
    set (cached_steps c') \<subseteq> set (cached_steps c) \<and>
    (r = Inr () \<and> distinct (cached_steps c) \<longrightarrow> set (cached_steps c') = set (cached_steps c) - (set steps - protected))"
  using assms(3)
proof (induction steps arbitrary: c)
  case Nil
  then show ?case by auto
next
  case (Cons step steps)
  show ?case
  proof (cases "step \<in> protected")
    case True
    with Cons.prems have "prune_steps k io base protected steps c = (r, c')" by simp
    from Cons.IH [OF this] True show ?thesis by auto
  next
    case False
    obtain r1 c1 where one: "prune_step k (io step) base step c = (r1, c1)" by force
    note o = pruned_step [OF assms(1,2) one]
    show ?thesis
    proof (cases r1)
      case (Inl e)
      with Cons.prems False one have "c' = c1" "r = Inl e" by simp_all
      with o Inl False show ?thesis by (simp; metis)
    next
      case (Inr u)
      with Cons.prems False one have rest: "prune_steps k io base protected steps c1 = (r, c')" by simp
      have c1: "cached_steps c1 = remove1 step (cached_steps c)"
        "\<And>s. s \<noteq> step \<Longrightarrow> cache_dirs c1 (CacheStepDirectoryName s) = cache_dirs c (CacheStepDirectoryName s)"
        using o Inr by simp_all
      note ih = Cons.IH [OF rest, unfolded c1(1)]
      have keep: "cache_dirs c' (CacheStepDirectoryName s) = cache_dirs c (CacheStepDirectoryName s)"
        if "s \<in> protected \<or> s \<notin> set (step # steps)" for s
      proof -
        have "s \<noteq> step" using that False by auto
        with ih c1(2) [of s] that show ?thesis by auto
      qed
      have "set (cached_steps c') \<subseteq> set (cached_steps c)"
        using ih notin_set_remove1 [of _ "cached_steps c" step] by (meson set_remove1_subset subset_trans)
      moreover have "set (cached_steps c') = set (cached_steps c) - (set (step # steps) - protected)"
        if "r = Inr ()" "distinct (cached_steps c)"
        using ih that False by (auto simp: distinct_remove1)
      ultimately show ?thesis using keep by blast
    qed
  qed
qed

lemma prune_keeps_protected:
  assumes "PruneCache k dirs io protected c = (r, c')"
  shows "(\<forall>s\<in>protected. cache_dirs c' (CacheStepDirectoryName s) = cache_dirs c (CacheStepDirectoryName s)) \<and>
    (\<forall>s. s \<notin> set (cached_steps c) \<longrightarrow>
       cache_dirs c' (CacheStepDirectoryName s) = cache_dirs c (CacheStepDirectoryName s)) \<and>
    (r = Inr () \<and> distinct (cached_steps c) \<longrightarrow> set (cached_steps c') = set (cached_steps c) \<inter> protected)"
proof (cases "open_lineage dirs c")
  case (Inl e)
  with assms show ?thesis by (auto simp: PruneCache_def)
next
  case (Inr x)
  obtain l base where x: "x = (l, base)" by force
  note o = opened_lineage [OF Inr [unfolded x]]
  have b: "base \<noteq> []" "last base \<noteq> CHR ''/''" using lineage_base_end [of l c] o by auto
  have "prune_steps k io base protected (cached_steps c) c = (r, c')" using assms Inr x by (simp add: PruneCache_def)
  from pruned_steps [OF b this] show ?thesis by auto
qed

text \<open>C26: pruning the cache never touches the directory of a protected step, whatever fails on the way,
  removes only steps this process published, and when it succeeds exactly the protected ones of them
  remain.\<close>

theorem pruning_spares_protected:
  assumes "PruneCache k dirs io protected c = (r, c')"
  shows "(\<forall>s\<in>protected. cache_dirs c' (CacheStepDirectoryName s) = cache_dirs c (CacheStepDirectoryName s)) \<and>
    (\<forall>s. s \<notin> set (cached_steps c) \<longrightarrow>
       cache_dirs c' (CacheStepDirectoryName s) = cache_dirs c (CacheStepDirectoryName s)) \<and>
    (r = Inr () \<and> distinct (cached_steps c) \<longrightarrow> set (cached_steps c') = set (cached_steps c) \<inter> protected)"
  by (rule prune_keeps_protected [OF assms])

text \<open>After a prune that failed between the rename and the removal, the step stays recorded while its
  directory is gone: every later prune that does not protect it fails there, before any other step.\<close>

lemma prune_stuck:
  assumes "cache_dirs c (CacheStepDirectoryName step) = None" "step \<notin> protected"
  shows "\<exists>e. prune_steps k io base protected (step # steps) c = (Inl e, c)"
proof -
  have "\<exists>e. LoadCachedStep k (pr_dirs (io step)) (pr_listed (io step)) step c = Inl e"
    using assms(1) by (cases "open_lineage (pr_dirs (io step)) c") (auto simp: LoadCachedStep_def)
  with assms(2) show ?thesis by (auto simp: prune_step_def)
qed

section \<open>Acknowledgement\<close>

definition in_time :: "ack_attempt \<Rightarrow> bool" where
  "in_time a \<longleftrightarrow> (case at_remaining a of None \<Rightarrow> True | Some ms \<Rightarrow> 0 < ms)"

definition lost :: "ack_attempt \<Rightarrow> bool" where
  "lost a \<longleftrightarrow> in_time a \<and> (case at_rpc a of RpcOk _ \<Rightarrow> False | RpcFailed _ _ \<Rightarrow> True)"

text \<open>The reference: the first attempt that was not lost decides.\<close>

definition decided :: "service_identity \<Rightarrow> ack_attempt list \<Rightarrow> ack_disposition" where
  "decided authority ats =
     (case dropWhile lost ats of
        [] \<Rightarrow> AckedUncertain
      | a # _ \<Rightarrow> (case at_rpc a of
                   RpcOk r \<Rightarrow> if in_time a then fst (settle_reply authority r) else AckedUncertain
                 | RpcFailed _ _ \<Rightarrow> AckedUncertain))"

definition confirmed :: "ack_attempt \<Rightarrow> bool" where
  "confirmed a \<longleftrightarrow> (case at_rpc a of
     RpcOk r \<Rightarrow> ValidModelDistributorAuthority (ak_distributor r) \<and>
       ak_result r \<in> {AckResultApplied, AckResultAlreadyApplied}
   | RpcFailed _ _ \<Rightarrow> False)"

lemma ack_attempts_decided: "fst (ack_attempts n authority ats err) = decided authority (take n ats)"
proof (induction n authority ats err rule: ack_attempts.induct)
  case (3 n authority a ats err)
  show ?case
  proof (cases "in_time a")
    case True
    then have t: "\<not> (case at_remaining a of None \<Rightarrow> False | Some ms \<Rightarrow> ms \<le> 0)"
      by (auto simp: in_time_def split: option.splits)
    show ?thesis
    proof (cases "at_rpc a")
      case (RpcOk r)
      with t True show ?thesis by (simp add: decided_def lost_def)
    next
      case (RpcFailed code msg)
      from "3.IH" [OF t RpcFailed] t True RpcFailed show ?thesis by (simp add: decided_def lost_def)
    qed
  next
    case False
    then have "(case at_remaining a of None \<Rightarrow> False | Some ms \<Rightarrow> ms \<le> 0)"
      by (auto simp: in_time_def split: option.splits)
    with False show ?thesis by (simp add: decided_def lost_def split: rpc.split)
  qed
qed (simp_all add: decided_def)

lemma decided_applied: "decided authority ats = AckedApplied \<Longrightarrow> list_ex confirmed ats"
proof -
  assume d: "decided authority ats = AckedApplied"
  then obtain a as where a: "dropWhile lost ats = a # as" by (auto simp: decided_def split: list.splits)
  then have "a \<in> set ats" by (metis list.set_intros(1) set_dropWhileD)
  moreover have "confirmed a"
    using d a by (auto simp: decided_def confirmed_def settle_reply_def Let_def split: rpc.splits if_splits)
  ultimately show ?thesis by (auto simp: list_ex_iff)
qed

text \<open>C29: of at most three attempts the first whose call came back in time decides the acknowledgement;
  it counts as applied only when such an answer of a valid authority said applied or already applied,
  and as not applied only when the authority could not be established and nothing was sent.\<close>

definition ack_reference ::
  "service_identity \<Rightarrow> distributor_status rpc \<Rightarrow> ack_attempt list \<Rightarrow> ack_disposition" where
  "ack_reference authority status ats =
     (if ValidModelDistributorAuthority authority then decided authority (take 3 ats)
      else case ProbeAckAuthorityDisposition status of
             ProbeReady found \<Rightarrow> decided found (take 3 ats)
           | _ \<Rightarrow> AckedNotApplied)"

theorem acknowledgement_decided_by_first_answer:
  "fst (fst (AckIdempotently authority status ats err)) = ack_reference authority status ats \<and>
   (fst (fst (AckIdempotently authority status ats err)) \<noteq> AckedApplied \<or> list_ex confirmed (take 3 ats))"
proof -
  have e: "fst (fst (AckIdempotently authority status ats err)) = ack_reference authority status ats"
    by (simp add: AckIdempotently_def ack_reference_def ack_attempts_decided kMaxAttempts_def split: probe_result.split)
  moreover have "list_ex confirmed (take 3 ats)" if "ack_reference authority status ats = AckedApplied"
    using that decided_applied by (auto simp: ack_reference_def split: if_splits probe_result.splits)
  ultimately show ?thesis by auto
qed

section \<open>The lineage\<close>

inductive client_step :: "manifest_codec \<Rightarrow> model_client \<Rightarrow> model_client \<Rightarrow> bool" for k where
  step_range: "GetAvailableRange rsp c = (r, c') \<Longrightarrow> client_step k c c'"
| step_fetch: "client_Fetch k status rsp io step latest c = (r, c') \<Longrightarrow> client_step k c c'"
| step_publish: "PublishPrepared k io m c = (r, c') \<Longrightarrow> client_step k c c'"
| step_discard: "DiscardTemporary io m c = (r, c') \<Longrightarrow> client_step k c c'"
| step_prune: "PruneCache k dirs pio protected c = (r, c') \<Longrightarrow> client_step k c c'"

inductive client_run :: "manifest_codec \<Rightarrow> model_client \<Rightarrow> model_client \<Rightarrow> bool" for k where
  run_none: "client_run k c c"
| run_step: "client_run k c c' \<Longrightarrow> client_step k c' c'' \<Longrightarrow> client_run k c c''"

text \<open>The pinned lineage is a real one, its key is its encoding, and the published steps form a sorted set.\<close>

definition client_ok :: "model_client \<Rightarrow> bool" where
  "client_ok c \<longleftrightarrow> pinned_lineage_key c = map_option EncodeLineageKey (pinned_lineage_id c) \<and>
     pinned_lineage_id c \<noteq> Some [] \<and> sorted (cached_steps c) \<and> distinct (cached_steps c)"

definition keeps_lineage :: "model_client \<Rightarrow> model_client \<Rightarrow> bool" where
  "keeps_lineage c c' \<longleftrightarrow> pinned_lineage_id c' = pinned_lineage_id c \<and> pinned_lineage_key c' = pinned_lineage_key c"

lemma keeps_lineage_refl [simp]: "keeps_lineage c c"
  by (simp add: keeps_lineage_def)

lemma keeps_lineage_put [simp]: "keeps_lineage c (put_dir n a c') = keeps_lineage c c'"
  "keeps_lineage c (c'\<lparr>next_private_id := i\<rparr>) = keeps_lineage c c'"
  "keeps_lineage c (c'\<lparr>cached_steps := st\<rparr>) = keeps_lineage c c'"
  "keeps_lineage c (note_cached s c') = keeps_lineage c c'"
  by (simp_all add: keeps_lineage_def)

lemma keeps_lineage_trans: "keeps_lineage a b \<Longrightarrow> keeps_lineage b c \<Longrightarrow> keeps_lineage a c"
  by (simp add: keeps_lineage_def)

lemma allocated_keeps:
  assumes "AllocatePrivateCacheDirectory fails prefix step c = (r, c1)"
  shows "keeps_lineage c c1 \<and> cached_steps c1 = cached_steps c"
  using allocated [OF assms [unfolded AllocatePrivateCacheDirectory_def]] by (cases r) auto

lemma downloaded_keeps:
  assumes "DownloadToTemporary k io source c = (r, c')"
  shows "keeps_lineage c c' \<and> cached_steps c' = cached_steps c"
proof (cases "open_lineage_of (dl_dirs io) source ''distributed model does not match the active lineage cache'' c")
  case (Inl e)
  with assms show ?thesis by (auto simp: DownloadToTemporary_def)
next
  case (Inr base)
  obtain ra c1 where al: "AllocatePrivateCacheDirectory (dl_create_fails io) ''.tmp-'' (model_step source) c = (ra, c1)"
    by force
  note a = allocated_keeps [OF al]
  have cl: "keeps_lineage c (cleaned io n x) = keeps_lineage c x" "cached_steps (cleaned io n x) = cached_steps x" for n x
    by (simp_all add: cleaned_def)
  from assms Inr al a show ?thesis
    by (auto simp: DownloadToTemporary_def Let_def cl split: sum.splits if_splits option.splits prod.splits)
qed

lemma publish_keeps:
  assumes "PublishPrepared k io m c = (r, c')"
  shows "keeps_lineage c c' \<and> (cached_steps c' = cached_steps c \<or> (\<exists>s. cached_steps c' = insort_insert s (cached_steps c)))"
proof -
  have d: "keeps_lineage c cx \<and> cached_steps cx = cached_steps c" if "DiscardTemporary io m c = (rr, cx)" for rr cx
    using discarded [OF that] by auto
  have "keeps_lineage c c' \<and> (cached_steps c' = cached_steps c \<or> (\<exists>s. cached_steps c' = insort_insert s (cached_steps c)))"
    if "publish_known k io m w c = (r, c')" for w
    using that by (auto simp: publish_known_def note_cached_def split: sum.splits if_splits prod.splits dest!: d)
  with assms show ?thesis
    by (auto simp: PublishPrepared_def Let_def note_cached_def split: sum.splits if_splits)
qed

lemma prune_step_keeps:
  assumes "prune_step k io base step c = (r, c')"
  shows "keeps_lineage c c' \<and> (cached_steps c' = cached_steps c \<or> cached_steps c' = remove1 step (cached_steps c))"
proof (cases "LoadCachedStep k (pr_dirs io) (pr_listed io) step c")
  case (Inl e)
  with assms show ?thesis by (auto simp: prune_step_def)
next
  case (Inr m)
  obtain ra c1 where al: "AllocatePrivateCacheDirectory (pr_create_fails io) ''.prune-'' step c = (ra, c1)" by force
  note a = allocated_keeps [OF al]
  have rem: "keeps_lineage x cx = keeps_lineage x y \<and> cached_steps cx = cached_steps y"
    if "RemoveValidatedPrivateDirectory ok base d prefix y = (rr, cx)" for ok d prefix y rr cx x
    using removed [OF that] by auto
  from assms Inr al a show ?thesis
    by (auto simp: prune_step_def Let_def split: sum.splits if_splits prod.splits dest!: rem [where x = c])
qed

lemma prune_steps_keep:
  "prune_steps k io base protected steps c = (r, c') \<Longrightarrow>
     keeps_lineage c c' \<and> (sorted (cached_steps c) \<and> distinct (cached_steps c) \<longrightarrow>
       sorted (cached_steps c') \<and> distinct (cached_steps c'))"
proof (induction steps arbitrary: c)
  case (Cons step steps)
  show ?case
  proof (cases "step \<in> protected")
    case True
    with Cons show ?thesis by simp
  next
    case False
    obtain r1 c1 where one: "prune_step k (io step) base step c = (r1, c1)" by force
    have o: "keeps_lineage c c1" "sorted (cached_steps c) \<and> distinct (cached_steps c) \<longrightarrow>
        sorted (cached_steps c1) \<and> distinct (cached_steps c1)"
      using prune_step_keeps [OF one] by (auto simp: sorted_remove1 distinct_remove1)
    show ?thesis
    proof (cases r1)
      case (Inl e)
      with Cons.prems False one o show ?thesis by simp
    next
      case (Inr u)
      with Cons.prems False one have "prune_steps k io base protected steps c1 = (r, c')" by simp
      from Cons.IH [OF this] o keeps_lineage_trans show ?thesis by blast
    qed
  qed
qed simp

lemma pinned_ok:
  assumes "PinModelLineage l c = Inr c'" "client_ok c"
  shows "client_ok c' \<and> pinned_lineage_id c \<in> {None, pinned_lineage_id c'}"
  using assms by (auto simp: PinModelLineage_def client_ok_def split: if_splits)

lemma range_ok:
  assumes "GetAvailableRange rsp c = (r, c')" "client_ok c"
  shows "client_ok c' \<and> pinned_lineage_id c \<in> {None, pinned_lineage_id c'}"
  using assms unfolding GetAvailableRange_def
  by (auto split: rpc.splits if_splits option.splits sum.splits dest: pinned_ok)

lemma kept_ok:
  "keeps_lineage c c' \<Longrightarrow> client_ok c \<Longrightarrow> sorted (cached_steps c') \<Longrightarrow> distinct (cached_steps c') \<Longrightarrow>
     client_ok c' \<and> pinned_lineage_id c \<in> {None, pinned_lineage_id c'}"
  by (simp add: keeps_lineage_def client_ok_def)

lemma fetch_ok:
  assumes "client_Fetch k status rsp io step latest c = (r, c')" "client_ok c"
  shows "client_ok c' \<and> pinned_lineage_id c \<in> {None, pinned_lineage_id c'}"
proof -
  have "\<exists>c1. (client_ok c1 \<and> pinned_lineage_id c \<in> {None, pinned_lineage_id c1}) \<and>
      (c' = c1 \<or> (\<exists>source rd. DownloadToTemporary k io source c1 = (rd, c')))"
  proof (cases "latest \<or> pinned_lineage_id c = None")
    case True
    obtain rg c1 where g: "GetAvailableRange status c = (rg, c1)" by force
    have "c' = c1 \<or> (\<exists>source rd. DownloadToTemporary k io source c1 = (rd, c'))"
      using assms(1) True g
      by (cases rg) (auto simp: client_Fetch_def Let_def split: if_splits rpc.splits option.splits sum.splits prod.splits)
    with range_ok [OF g assms(2)] show ?thesis by blast
  next
    case False
    have "c' = c \<or> (\<exists>source rd. DownloadToTemporary k io source c = (rd, c'))"
      using assms(1) False
      by (auto simp: client_Fetch_def Let_def split: if_splits rpc.splits option.splits sum.splits prod.splits)
    with assms(2) show ?thesis by blast
  qed
  then obtain c1 where c1: "client_ok c1" "pinned_lineage_id c \<in> {None, pinned_lineage_id c1}"
    and "c' = c1 \<or> (\<exists>source rd. DownloadToTemporary k io source c1 = (rd, c'))" by blast
  then have "keeps_lineage c1 c' \<and> cached_steps c' = cached_steps c1" using downloaded_keeps by auto
  with c1 kept_ok [of c1 c'] show ?thesis by (auto simp: client_ok_def)
qed

lemma client_step_ok:
  assumes "client_step k c c'" "client_ok c"
  shows "client_ok c' \<and> pinned_lineage_id c \<in> {None, pinned_lineage_id c'}"
  using assms
proof cases
  case (step_range rsp r)
  with range_ok assms(2) show ?thesis by blast
next
  case (step_fetch status rsp io step latest r)
  with fetch_ok assms(2) show ?thesis by blast
next
  case (step_publish io m r)
  have "sorted (cached_steps c')" "distinct (cached_steps c')"
    using publish_keeps [OF step_publish] assms(2)
    by (auto simp: client_ok_def sorted_insort_insert distinct_insort_insert)
  with kept_ok publish_keeps [OF step_publish] assms(2) show ?thesis by blast
next
  case (step_discard io m r)
  with discarded [OF step_discard] assms(2) show ?thesis by (auto simp: client_ok_def)
next
  case (step_prune dirs pio protected r)
  show ?thesis
  proof (cases "open_lineage dirs c")
    case (Inl e)
    with step_prune assms(2) show ?thesis by (auto simp: PruneCache_def)
  next
    case (Inr x)
    obtain l base where x: "x = (l, base)" by force
    have "prune_steps k pio base protected (cached_steps c) c = (r, c')"
      using step_prune Inr x by (simp add: PruneCache_def)
    from prune_steps_keep [OF this] assms(2) kept_ok show ?thesis by (metis client_ok_def)
  qed
qed

text \<open>C25: once discovered, the training lineage never changes in the life of the process, whatever the
  distributor and the file system answer; its cache key is its encoding, so two lineages never share a
  directory, and the recorded steps stay a sorted set.\<close>

theorem lineage_never_changes:
  assumes "client_run k c c'" "client_ok c"
  shows "client_ok c' \<and> pinned_lineage_id c \<in> {None, pinned_lineage_id c'}"
  using assms
proof (induction)
  case run_none
  then show ?case by simp
next
  case (run_step c' c'')
  with client_step_ok [OF run_step(2)] show ?case by auto
qed

section \<open>From the distributor to the cache\<close>

text \<open>C12: a step that is fetched and then published is in the cache afterwards: loading it gives the
  published manifest, which is the one the distributor sent for exactly the requested step.  The private
  directory of the download is gone, and no directory of the lineage other than the step's own has
  changed, private or published.\<close>

theorem fetched_model_published:
  assumes "codec_lossless k" "FetchStep k status rsp fio step c = (Inr m, c1)"
    "PublishPrepared k io m c1 = (Inr m', c2)"
  shows "model_step m' = step \<and> HasModelIdentity m' \<and> SameWireManifest m' m \<and> step \<in> set (cached_steps c2) \<and>
    cache_dirs c1 (filename (parent_path (model_path m))) \<noteq> None \<and>
    cache_dirs c2 (filename (parent_path (model_path m))) = None \<and>
    (\<forall>d. d \<noteq> CacheStepDirectoryName step \<longrightarrow> cache_dirs c2 d = cache_dirs c d) \<and>
    (\<forall>dirs l base. open_lineage dirs c2 = Inr (l, base) \<longrightarrow> LoadCachedStep k dirs True step c2 = Inr m')"
  using published [OF assms] by blast

text \<open>A codec and a run in which everything succeeds.\<close>

definition wire_key :: "model_manifest \<Rightarrow> (string \<times> u64 option) option \<times> int \<times> int \<times> u64" where
  "wire_key m = (map_option (\<lambda>i. (id_lineage i, id_step i)) (wire_identity m), size_bytes m,
     published_at_unix_ms m, trained_samples m)"

definition wire_unkey :: "(string \<times> u64 option) option \<times> int \<times> int \<times> u64 \<Rightarrow> model_manifest" where
  "wire_unkey = (\<lambda>(i, n, p, t). \<lparr>wire_identity = map_option (\<lambda>(l, st). \<lparr>id_lineage = l, id_step = st\<rparr>) i,
     size_bytes = n, published_at_unix_ms = p, trained_samples = t, model_path = []\<rparr>)"

definition unary_manifests :: manifest_codec where
  "unary_manifests = \<lparr>mk_serialize = \<lambda>m. replicate (Suc (to_nat (wire_key m))) (CHR ''1''),
     mk_parse = \<lambda>s. Some (wire_unkey (from_nat (length s - 1)))\<rparr>"

lemma unary_manifests_lossless: "codec_lossless unary_manifests"
proof -
  have i: "(\<lambda>i :: model_identity. \<lparr>id_lineage = id_lineage i, id_step = id_step i\<rparr>) = (\<lambda>i. i)"
    by (rule ext) simp
  have "wire_unkey (wire_key (m\<lparr>model_path := []\<rparr>)) = m\<lparr>model_path := []\<rparr>" for m :: model_manifest
    by (cases m) (simp add: i wire_key_def wire_unkey_def option.map_comp comp_def option.map_ident)
  then show ?thesis by (simp add: codec_lossless_def unary_manifests_def)
qed

lemma unary_nonempty: "mk_serialize unary_manifests m \<noteq> []"
  by (simp add: unary_manifests_def)

definition good_dirs :: directory_io where
  "good_dirs = \<lparr>di_create_root = None, di_root_real = True, di_lineages = CreatedNew, di_lineages_real = True,
     di_active = CreatedNew, di_active_real = True, di_sync_lineages = True, di_sync_root = True\<rparr>"

definition wire_demo :: model_manifest where
  "wire_demo = \<lparr>wire_identity = Some \<lparr>id_lineage = ''run'', id_step = Some 7\<rparr>, size_bytes = 2,
     published_at_unix_ms = 1, trained_samples = 5, model_path = []\<rparr>"

definition status_demo :: "distributor_status rpc" where
  "status_demo = RpcOk \<lparr>ds_ready = True,
     ds_distributor = \<lparr>component = ''md'', instance_id = ''md-0'', lifecycle_epoch = 1\<rparr>,
     ds_latest = Some \<lparr>id_lineage = ''run'', id_step = Some 7\<rparr>, ds_floor = Some 0, ds_latest_available = Some 7\<rparr>"

definition fetch_demo :: download_io where
  "fetch_demo = \<lparr>dl_dirs = good_dirs, dl_create_fails = \<lambda>_. None, dl_open = True,
     dl_chunks = [\<lparr>ck_model = \<lparr>id_lineage = ''run'', id_step = Some 7\<rparr>, ck_offset = 0, ck_data = ''o'', ck_written = True\<rparr>,
       \<lparr>ck_model = \<lparr>id_lineage = ''run'', id_step = Some 7\<rparr>, ck_offset = 1, ck_data = ''x'', ck_written = True\<rparr>],
     dl_status = None, dl_sync_file = True, dl_manifest_created = True, dl_manifest_durable = True,
     dl_sync_dir = True, dl_cleanup = True\<rparr>"

definition cache_demo :: cache_io where
  "cache_demo = \<lparr>ci_dirs = good_dirs, ci_elsewhere = False, ci_listed = True, ci_removed = True,
     ci_renamed = True, ci_synced = True\<rparr>"

definition client_demo :: model_client where
  "client_demo = \<lparr>cl_local_train_dir = ''d'', cl_instance_id = ''ai'', pinned_lineage_id = None,
     pinned_lineage_key = None, cached_steps = [], process_id = 1, next_private_id = 1,
     cache_dirs = Map.empty\<rparr>"

definition pinned_demo :: model_client where
  "pinned_demo = client_demo\<lparr>pinned_lineage_id := Some ''run'', pinned_lineage_key := Some (EncodeLineageKey ''run'')\<rparr>"

lemma key_nonempty: "EncodeLineageKey ''run'' \<noteq> []"
  by (simp add: EncodeLineageKey_def hex_byte_def)

lemma range_demo: "GetAvailableRange status_demo client_demo =
    (Inr \<lparr>ra_floor = 0, ra_latest = 7, ra_lineage = ''run''\<rparr>, pinned_demo)"
  using key_nonempty
  by (simp add: GetAvailableRange_def status_demo_def ValidModelDistributorAuthority_def PinModelLineage_def
      pinned_demo_def client_demo_def)

lemma good_dirs_open: "l \<noteq> [] \<Longrightarrow> OpenOrCreateLineageCache good_dirs l (EncodeLineageKey l) c = Inr (lineage_base l c)"
  by (simp add: OpenOrCreateLineageCache_def good_dirs_def EnsureCacheRoot_def lineage_base_def Let_def)

lemma pinned_demo_open: "GetPinnedModelLineage pinned_demo = Inr (''run'', EncodeLineageKey ''run'')"
  by (simp add: GetPinnedModelLineage_def pinned_demo_def)

lemma allocate_first:
  assumes "cache_dirs c (private_name prefix step c) = None" "\<And>n. fails n = None"
  shows "AllocatePrivateCacheDirectory fails prefix step c =
    (Inr (private_name prefix step c), put_dir (private_name prefix step c) (Some empty_artifact)
       (c\<lparr>next_private_id := next_private_id c + 1\<rparr>))"
  using assms allocate_loop.simps(2) [of 99 fails prefix step c] by (simp add: AllocatePrivateCacheDirectory_def Let_def)

definition name_demo :: string where
  "name_demo = private_name ''.tmp-'' 7 pinned_demo"

definition base_demo :: string where
  "base_demo = lineage_base ''run'' client_demo"

definition fetched_demo :: model_manifest where
  "fetched_demo = wire_demo\<lparr>model_path := path_join (path_join base_demo name_demo) kCachedModelFile\<rparr>"

definition client_fetched :: model_client where
  "client_fetched = put_dir name_demo (Some (fetched_artifact unary_manifests wire_demo ''ox''))
     (pinned_demo\<lparr>next_private_id := 2\<rparr>)"

lemma name_demo_private: "private_of ''.tmp-'' 7 name_demo"
  by (auto simp: private_of_def name_demo_def)

lemma name_demo_end: "no_slash name_demo" "name_demo \<noteq> []" "starts_with ''.tmp-'' name_demo"
  using private_of_no_slash [OF _ name_demo_private] private_of_starts [OF name_demo_private]
  by (auto simp: no_slash_def)

lemma base_demo_end: "base_demo \<noteq> []" "last base_demo \<noteq> CHR ''/''"
  using lineage_base_end [of "''run''" client_demo] by (simp_all add: base_demo_def)

lemma dir_demo_end: "path_join base_demo name_demo \<noteq> []" "last (path_join base_demo name_demo) \<noteq> CHR ''/''"
  using name_demo_end base_demo_end by (auto simp: path_join_def no_slash_def dest: last_in_set)

lemmas paths_demo = filename_join [OF name_demo_end(1,2) base_demo_end]
  filename_join [OF file_names(4) file_names(6) dir_demo_end]
  filename_join [OF file_names(3) file_names(5) dir_demo_end]

lemma wire_demo_views: "manifest_identity wire_demo = \<lparr>id_lineage = ''run'', id_step = Some 7\<rparr>"
  "model_lineage_id wire_demo = ''run''" "model_step wire_demo = 7"
  "ValidateModelManifest wire_demo None = Inr ()" "ValidateModelManifest wire_demo (Some 7) = Inr ()"
  "size_bytes wire_demo = 2"
  by (simp_all add: wire_demo_def manifest_identity_def model_lineage_id_def model_step_def ValidateModelManifest_def)

lemma base_demo_same: "lineage_base ''run'' pinned_demo = base_demo" "lineage_base ''run'' client_fetched = base_demo"
  by (simp_all add: base_demo_def lineage_base_def cache_root_path_def pinned_demo_def client_demo_def client_fetched_def)

lemma download_demo:
  "DownloadToTemporary unary_manifests fetch_demo wire_demo pinned_demo =
     (Inr (path_join (path_join base_demo name_demo) kCachedModelFile), client_fetched)"
proof -
  have o: "open_lineage_of (dl_dirs fetch_demo) wire_demo
      ''distributed model does not match the active lineage cache'' pinned_demo = Inr base_demo"
    using good_dirs_open [of "''run''" pinned_demo]
    by (simp add: open_lineage_of_def pinned_demo_open wire_demo_views fetch_demo_def base_demo_same)
  have al: "AllocatePrivateCacheDirectory (dl_create_fails fetch_demo) ''.tmp-'' 7 pinned_demo =
      (Inr name_demo, put_dir name_demo (Some empty_artifact) (pinned_demo\<lparr>next_private_id := 2\<rparr>))"
    using allocate_first [of pinned_demo "''.tmp-''" 7 "dl_create_fails fetch_demo"]
    by (simp add: name_demo_def pinned_demo_def client_demo_def fetch_demo_def)
  have ch: "read_chunks (manifest_identity wire_demo) (dl_chunks fetch_demo) [] = (''ox'', True)"
    by (simp add: wire_demo_views fetch_demo_def)
  have w: "WriteModelManifestFile unary_manifests True True wire_demo
      (path_join (path_join base_demo name_demo) kModelManifestFile) (put_file kCachedModelFile ''ox'' empty_artifact) =
      Inr (fetched_artifact unary_manifests wire_demo ''ox'')"
    by (simp add: WriteModelManifestFile_def paths_demo unary_nonempty put_file_def empty_artifact_def fetched_artifact_def)
  show ?thesis
    unfolding DownloadToTemporary_def o wire_demo_views(3) al
    by (simp add: Let_def ch) (simp add: fetch_demo_def w wire_demo_views client_fetched_def)
qed

lemma fetch_demo_run:
  "FetchStep unary_manifests status_demo (RpcOk \<lparr>mr_found = True, mr_manifest = Some wire_demo, mr_message = []\<rparr>)
     fetch_demo 7 client_demo = (Inr fetched_demo, client_fetched)"
proof -
  have "pinned_lineage_id client_demo = None" "pinned_lineage_id pinned_demo = Some ''run''"
    by (simp_all add: client_demo_def pinned_demo_def)
  moreover have "client_ValidateManifest pinned_demo wire_demo (Some 7) = Inr ()"
    by (simp add: client_ValidateManifest_def wire_demo_views pinned_demo_def)
  ultimately show ?thesis
    by (simp add: FetchStep_def client_Fetch_def range_demo download_demo AssignModelManifest_def fetched_demo_def)
qed

lemma publish_demo_run:
  "\<exists>m' c2. PublishPrepared unary_manifests cache_demo fetched_demo client_fetched = (Inr m', c2)"
proof -
  have f: "model_path fetched_demo = path_join (path_join base_demo name_demo) kCachedModelFile"
    "model_step fetched_demo = 7" "model_lineage_id fetched_demo = ''run''"
    by (simp_all add: fetched_demo_def wire_demo_views)
  have g: "GetPinnedModelLineage client_fetched = Inr (''run'', EncodeLineageKey ''run'')"
    by (simp add: GetPinnedModelLineage_def client_fetched_def pinned_demo_def)
  have o: "open_lineage_of (ci_dirs cache_demo) fetched_demo
      ''prepared model does not match the active lineage cache'' client_fetched = Inr base_demo"
    using good_dirs_open [of "''run''" client_fetched]
    by (simp add: open_lineage_of_def g f cache_demo_def base_demo_same)
  have c: "cache_dirs client_fetched name_demo = Some (fetched_artifact unary_manifests wire_demo ''ox'')"
    by (simp add: client_fetched_def)
  have fin: "cache_dirs client_fetched (CacheStepDirectoryName 7) = None"
    using dotted_not_canonical [OF name_demo_end(3), of 7]
    by (simp add: client_fetched_def pinned_demo_def client_demo_def)
  have ld: "LoadModelManifestFile unary_manifests (path_join (path_join base_demo name_demo) kModelManifestFile)
      (Some (fetched_artifact unary_manifests wire_demo ''ox'')) =
      Inr (wire_demo\<lparr>model_path := path_join (path_join base_demo name_demo) kCachedModelFile\<rparr>)"
    using load_fetched_file [OF unary_manifests_lossless wire_demo_views(4), of "''ox''"] paths_demo
    by (simp add: wire_demo_views)
  have s: "SameWireManifest wire_demo fetched_demo" by (simp add: fetched_demo_def)
  have i: "IsPrivateTemporaryDirectory (path_join base_demo name_demo)"
    using name_demo_end(3) by (simp add: IsPrivateTemporaryDirectory_def paths_demo)
  show ?thesis
    by (simp add: PublishPrepared_def f o paths_demo Let_def i c ld s fin wire_demo_views) (simp add: cache_demo_def)
qed

theorem fetched_model_published_witness:
  "\<exists>m' c2. PublishPrepared unary_manifests cache_demo fetched_demo client_fetched = (Inr m', c2) \<and>
     model_step m' = 7 \<and> 7 \<in> set (cached_steps c2)"
proof -
  obtain m' c2 where p: "PublishPrepared unary_manifests cache_demo fetched_demo client_fetched = (Inr m', c2)"
    using publish_demo_run by blast
  from fetched_model_published [OF unary_manifests_lossless fetch_demo_run p] p show ?thesis by blast
qed

theorem lineage_never_changes_witness:
  "client_ok pinned_demo \<and> pinned_lineage_id pinned_demo = Some ''run''"
proof -
  have r: "client_run unary_manifests client_demo pinned_demo"
    by (rule run_step [OF run_none step_range [OF range_demo]])
  have "client_ok client_demo" by (simp add: client_ok_def client_demo_def)
  from lineage_never_changes [OF r this] show ?thesis by (simp add: pinned_demo_def)
qed

definition prune_demo :: prune_io where
  "prune_demo = \<lparr>pr_dirs = good_dirs, pr_listed = True, pr_create_fails = \<lambda>_. None, pr_emptied = True,
     pr_renamed = True, pr_synced = True, pr_removed = True, pr_synced_again = True\<rparr>"

theorem pruning_spares_protected_witness:
  "cached_steps (snd (PruneCache unary_manifests good_dirs (\<lambda>_. prune_demo) {7}
     (pinned_demo\<lparr>cached_steps := [7]\<rparr>))) = [7]"
proof -
  let ?c = "pinned_demo\<lparr>cached_steps := [7]\<rparr>"
  have "open_lineage good_dirs ?c = Inr (''run'', lineage_base ''run'' ?c)"
    using good_dirs_open [of "''run''" ?c]
    by (simp add: open_lineage_def GetPinnedModelLineage_def pinned_demo_def)
  then have p: "PruneCache unary_manifests good_dirs (\<lambda>_. prune_demo) {7} ?c = (Inr (), ?c)"
    by (simp add: PruneCache_def)
  from pruning_spares_protected [OF p] p show ?thesis by simp
qed

definition ack_demo :: "ack_attempt list" where
  "ack_demo =
     [\<lparr>at_remaining = Some 40, at_rpc = RpcFailed GrpcUnavailable ''down''\<rparr>,
      \<lparr>at_remaining = Some 20, at_rpc = RpcOk \<lparr>ak_result = AckResultAlreadyApplied, ak_message = [],
        ak_distributor = \<lparr>component = ''distributor'', instance_id = ''d1'', lifecycle_epoch = 1\<rparr>\<rparr>\<rparr>]"

theorem acknowledgement_decided_by_first_answer_witness:
  "fst (fst (AckIdempotently \<lparr>component = ''distributor'', instance_id = ''d1'', lifecycle_epoch = 1\<rparr>
      status_demo ack_demo [])) = AckedApplied \<and> list_ex confirmed ack_demo"
  using acknowledgement_decided_by_first_answer
    [of "\<lparr>component = ''distributor'', instance_id = ''d1'', lifecycle_epoch = 1\<rparr>" status_demo ack_demo "[]"]
  by (simp add: ack_reference_def ValidModelDistributorAuthority_def decided_def ack_demo_def lost_def
      in_time_def settle_reply_def confirmed_def)

end
