(* ===== verification/Process_Entry.thy ===== *)
theory Process_Entry
  imports Configuration
begin

text \<open>
  \<open>main/main.cpp\<close>: the arguments of the process, the inspection of a model file, the managed
  readiness marker, and the order in which the server is started and stopped.  What the operating
  system, gRPC and the service answer is an argument.
\<close>

section \<open>Arguments\<close>

definition ParsePort :: "string \<Rightarrow> int option" where
  "ParsePort val =
     (case stoi val of
        None \<Rightarrow> None
      | Some (c, k) \<Rightarrow> if k \<noteq> length val \<or> c \<le> 0 \<or> 65535 < c then None else Some c)"

text \<open>The text before and after the last colon.\<close>

definition split_last_colon :: "string \<Rightarrow> (string \<times> string) option" where
  "split_last_colon val =
     (if CHR '':'' \<notin> set val then None
      else let port = rev (takeWhile (\<lambda>c. c \<noteq> CHR '':'') (rev val))
           in Some (take (length val - length port - 1) val, port))"

definition ParseAddress :: "string \<Rightarrow> (string \<times> int) option" where
  "ParseAddress val =
     (case split_last_colon val of
        None \<Rightarrow> None
      | Some (host, port) \<Rightarrow>
          if host = [] \<or> port = [] then None
          else (case ParsePort port of None \<Rightarrow> None | Some p \<Rightarrow> Some (host, p)))"

definition ParsePositiveDimension :: "string \<Rightarrow> int option" where
  "ParsePositiveDimension val =
     (case stoll val of
        None \<Rightarrow> None
      | Some (c, k) \<Rightarrow> if k \<noteq> length val \<or> c \<le> 0 \<or> 2 ^ 31 - 1 < c then None else Some c)"

definition ParseNonNegativeInt64 :: "string \<Rightarrow> int option" where
  "ParseNonNegativeInt64 val =
     (case stoll val of
        None \<Rightarrow> None
      | Some (c, k) \<Rightarrow> if k \<noteq> length val \<or> c < 0 then None else Some c)"

record command_line =
  cl_config_path :: string
  cl_config_seen :: bool
  cl_overrides :: overrides

definition kDefaultConfigPath :: string where
  "kDefaultConfigPath = ''configs/server_config.yaml''"

definition new_command_line :: command_line where
  "new_command_line =
     \<lparr>cl_config_path = kDefaultConfigPath, cl_config_seen = False, cl_overrides = no_overrides\<rparr>"

definition put_overrides :: "(overrides \<Rightarrow> overrides) \<Rightarrow> command_line \<Rightarrow> command_line" where
  "put_overrides f p = p\<lparr>cl_overrides := f (cl_overrides p)\<rparr>"

definition take_workload :: "string \<Rightarrow> command_line \<Rightarrow> string + command_line" where
  "take_workload v p =
     (if ov_workload (cl_overrides p) \<noteq> None then Inl ''--workload may be specified only once''
      else if \<not> is_valid_mode (parse_mode v) then Inl (''unknown workload: '' @ v)
      else Inr (put_overrides (\<lambda>ov. ov\<lparr>ov_workload := Some (parse_mode v)\<rparr>) p))"

definition take_config :: "string \<Rightarrow> command_line \<Rightarrow> string + command_line" where
  "take_config v p =
     (if cl_config_seen p then Inl ''--config may be specified only once''
      else Inr (p\<lparr>cl_config_seen := True, cl_config_path := v\<rparr>))"

definition take_port :: "string \<Rightarrow> command_line \<Rightarrow> string + command_line" where
  "take_port v p =
     (case ParsePort v of
        Some n \<Rightarrow>
          if ov_listen_port (cl_overrides p) \<noteq> None then Inl ''--listen-port must be a valid TCP port''
          else Inr (put_overrides (\<lambda>ov. ov\<lparr>ov_listen_port := Some n\<rparr>) p)
      | None \<Rightarrow> Inl ''--listen-port must be a valid TCP port'')"

definition take_model_address :: "string \<Rightarrow> command_line \<Rightarrow> string + command_line" where
  "take_model_address v p =
     (case ParseAddress v of
        Some (h, n) \<Rightarrow>
          if ov_model_host (cl_overrides p) \<noteq> None then Inl ''--model-distributor must use host:port''
          else Inr (put_overrides (\<lambda>ov. ov\<lparr>ov_model_host := Some h, ov_model_port := Some n\<rparr>) p)
      | None \<Rightarrow> Inl ''--model-distributor must use host:port'')"

definition take_sample_address :: "string \<Rightarrow> command_line \<Rightarrow> string + command_line" where
  "take_sample_address v p =
     (case ParseAddress v of
        Some (h, n) \<Rightarrow>
          if ov_sample_host (cl_overrides p) \<noteq> None then Inl ''--sample-distributor must use host:port''
          else Inr (put_overrides (\<lambda>ov. ov\<lparr>ov_sample_host := Some h, ov_sample_port := Some n\<rparr>) p)
      | None \<Rightarrow> Inl ''--sample-distributor must use host:port'')"

definition take_evaluation_model :: "string \<Rightarrow> command_line \<Rightarrow> string + command_line" where
  "take_evaluation_model v p =
     (if ov_evaluation_model_path (cl_overrides p) \<noteq> None
      then Inl ''--evaluation-model may be specified only once''
      else Inr (put_overrides (\<lambda>ov. ov\<lparr>ov_evaluation_model_path := Some v\<rparr>) p))"

text \<open>The handler of an option and its error when the value is missing.\<close>

definition option_handler :: "string \<Rightarrow> ((string \<Rightarrow> command_line \<Rightarrow> string + command_line) \<times> string) option" where
  "option_handler a =
     (if a = ''--config'' then Some (take_config, ''--config requires a value'')
      else if a = ''--workload'' then Some (take_workload, ''--workload requires a value'')
      else if a = ''--listen-port'' then Some (take_port, ''--listen-port must be a valid TCP port'')
      else if a = ''--model-distributor''
      then Some (take_model_address, ''--model-distributor must use host:port'')
      else if a = ''--sample-distributor''
      then Some (take_sample_address, ''--sample-distributor must use host:port'')
      else if a = ''--evaluation-model''
      then Some (take_evaluation_model, ''--evaluation-model may be specified only once'')
      else None)"

text \<open>The arguments after the program name.\<close>

fun ParseCommandLine :: "string list \<Rightarrow> command_line \<Rightarrow> string + command_line" where
  "ParseCommandLine [] p = Inr p"
| "ParseCommandLine [a] p =
     (case option_handler a of
        Some (_, missing) \<Rightarrow> Inl missing
      | None \<Rightarrow> if take 2 a = ''--'' then Inl (''unknown argument: '' @ a)
                else Inl (''positional arguments are not supported: '' @ a))"
| "ParseCommandLine (a # v # rest) p =
     (case option_handler a of
        Some (h, _) \<Rightarrow> and_then (h v p) (ParseCommandLine rest)
      | None \<Rightarrow> if take 2 a = ''--'' then Inl (''unknown argument: '' @ a)
                else Inl (''positional arguments are not supported: '' @ a))"

section \<open>Inspection of a model\<close>

text \<open>The options after the path come in pairs; each dimension may be given once.\<close>

fun inspect_options :: "string list \<Rightarrow> int \<times> int \<Rightarrow> string + (int \<times> int)" where
  "inspect_options (opt # val # rest) (obs, act) =
     (case (opt = ''--observation-dim'' \<and> obs = 0, ParsePositiveDimension val) of
        (True, Some n) \<Rightarrow> inspect_options rest (n, act)
      | _ \<Rightarrow>
          (case (opt = ''--action-count'' \<and> act = 0, ParsePositiveDimension val) of
             (True, Some n) \<Rightarrow> inspect_options rest (obs, n)
           | _ \<Rightarrow> Inl (''invalid model inspection option: '' @ opt)))"
| "inspect_options _ acc = Inr acc"

definition inspect_arguments :: "string list \<Rightarrow> string + (string \<times> int \<times> int)" where
  "inspect_arguments args =
     (case args of
        [] \<Rightarrow> Inl ''--inspect-model requires PATH, --observation-dim N, and --action-count N''
      | path # opts \<Rightarrow>
          if length opts mod 2 \<noteq> 0
          then Inl ''--inspect-model requires PATH, --observation-dim N, and --action-count N''
          else and_then (inspect_options opts (0, 0)) (\<lambda>(obs, act).
            if obs \<le> 0 \<or> act \<le> 0
            then Inl ''--inspect-model requires --observation-dim N and --action-count N''
            else Inr (path, obs, act)))"

section \<open>The readiness marker\<close>

text \<open>Which of the file operations succeed.\<close>

record marker_io =
  mi_directory :: bool
  mi_open :: bool
  mi_flush :: bool
  mi_rename :: bool

definition newline_text :: string where "newline_text = [newline]"

definition marker_text :: "service_identity \<Rightarrow> int \<Rightarrow> string" where
  "marker_text source port =
     ''component='' @ component source @ newline_text @
     ''instance_id='' @ instance_id source @ newline_text @
     ''lifecycle_epoch='' @ dec (unat (lifecycle_epoch source)) @ newline_text @
     ''container_port='' @ dec (nat port) @ newline_text"

text \<open>The marker file afterwards, \<open>None\<close> when it is absent.\<close>

definition PublishManagedReadyMarker ::
  "string option \<Rightarrow> marker_io \<Rightarrow> service_identity \<Rightarrow> int \<Rightarrow> string option \<Rightarrow>
   (string + unit) \<times> string option" where
  "PublishManagedReadyMarker managed io source port marker =
     (if managed \<noteq> Some ''true'' then (Inr (), marker)
      else if \<not> mi_directory io then (Inl ''cannot create managed readiness directory: '', marker)
      else if \<not> mi_open io then (Inl ''cannot open managed readiness marker'', marker)
      else if \<not> mi_flush io then (Inl ''cannot flush managed readiness marker'', marker)
      else if \<not> mi_rename io then (Inl ''cannot publish managed readiness marker: '', marker)
      else (Inr (), Some (marker_text source port)))"

definition RemoveManagedReadyMarker :: "string option \<Rightarrow> string option \<Rightarrow> string option" where
  "RemoveManagedReadyMarker managed marker = (if managed \<noteq> Some ''true'' then marker else None)"

section \<open>The process\<close>

text \<open>\<open>pw_server\<close>: gRPC could bind the port; \<open>pw_drained\<close>: what \<open>BeginShutdown\<close> returns.\<close>

record process_world =
  pw_config :: config_world
  pw_inspect :: "string \<Rightarrow> int \<Rightarrow> int \<Rightarrow> bool"
  pw_started :: bool
  pw_server :: bool
  pw_managed :: "string option"
  pw_marker_io :: marker_io
  pw_source :: service_identity
  pw_drained :: bool

datatype process_event =
    Helped | Inspected string int int | Started settings | Serving | Announced | ShutDown | Withdrawn | Stopped

definition serve :: "process_world \<Rightarrow> settings \<Rightarrow> string option \<Rightarrow> int \<times> process_event list \<times> string option" where
  "serve w st marker =
     (if \<not> pw_started w then (1, [Started st], marker)
      else if \<not> pw_server w then (1, [Started st], marker)
      else case PublishManagedReadyMarker (pw_managed w) (pw_marker_io w) (pw_source w) (sv_listen_port st) marker of
             (Inl _, marker1) \<Rightarrow> (1, [Started st, Serving, ShutDown, Stopped], marker1)
           | (Inr _, marker1) \<Rightarrow>
               (if pw_drained w then 0 else 1,
                [Started st, Serving, Announced, ShutDown, Withdrawn, Stopped],
                RemoveManagedReadyMarker (pw_managed w) marker1))"

definition main_run :: "process_world \<Rightarrow> string list \<Rightarrow> string option \<Rightarrow> int \<times> process_event list \<times> string option" where
  "main_run w args marker =
     (if args = [''--help''] \<or> args = [''-h''] then (0, [Helped], marker)
      else if args \<noteq> [] \<and> hd args = ''--inspect-model''
      then (case inspect_arguments (tl args) of
              Inl _ \<Rightarrow> (2, [], marker)
            | Inr (path, obs, act) \<Rightarrow>
                (if pw_inspect w path obs act then 0 else 2, [Inspected path obs act], marker))
      else case ParseCommandLine args new_command_line of
             Inl _ \<Rightarrow> (2, [], marker)
           | Inr p \<Rightarrow>
               (case LoadMazeConfig (pw_config w) (cl_config_path p) (cl_overrides p) of
                  Inl _ \<Rightarrow> (2, [], marker)
                | Inr (st, _) \<Rightarrow> serve w st marker))"

end
