(* ===== verification/Configuration_Claims.thy ===== *)
theory Configuration_Claims
  imports Process_Entry
begin

text \<open>
  What the reader of the configuration and of the command line computes: files and arguments written
  in the documented form are read back, command line wins over environment over file, and the service
  is only started with settings that pass every check.
\<close>

section \<open>Trimming\<close>

lemma dropWhile_all: "list_all P xs \<Longrightarrow> dropWhile P (xs @ ys) = dropWhile P ys"
  by (induction xs) auto

lemma dropWhile_hd: "xs \<noteq> [] \<Longrightarrow> \<not> P (hd xs) \<Longrightarrow> dropWhile P (xs @ ys) = xs @ ys"
  by (cases xs) auto

lemma Trim_core:
  assumes "s \<noteq> []" "\<not> is_blank (hd s)" "\<not> is_blank (last s)" "list_all is_blank a" "list_all is_blank b"
  shows "Trim (a @ s @ b) = s"
proof -
  have 1: "dropWhile is_blank (a @ s @ b) = s @ b"
    using assms(1,2,4) by (simp add: dropWhile_all dropWhile_hd)
  have "dropWhile is_blank (rev b @ rev s) = rev s"
    using assms(1,3,5) dropWhile_hd [of "rev s" is_blank "[]"] dropWhile_all [of is_blank "rev b" "rev s"]
    by (simp add: hd_rev list_all_iff)
  with 1 show ?thesis by (simp add: Trim_def)
qed

text \<open>A name: not empty, no blank at either end, none of the characters the reader looks for.\<close>

definition plain_char :: "char \<Rightarrow> bool" where
  "plain_char c \<longleftrightarrow> c \<notin> {dquote, squote, CHR ''#'', CHR '':'', newline}"

definition plain_name :: "string \<Rightarrow> bool" where
  "plain_name s \<longleftrightarrow> s \<noteq> [] \<and> \<not> is_blank (hd s) \<and> \<not> is_blank (last s) \<and> list_all plain_char s"

definition quotable :: "string \<Rightarrow> bool" where
  "quotable s \<longleftrightarrow> list_all (\<lambda>c. c \<notin> {dquote, squote, newline}) s"

lemma Trim_name [simp]: "plain_name s \<Longrightarrow> Trim s = s"
  using Trim_core [of s "[]" "[]"] by (simp add: plain_name_def)

lemma Trim_blank_name [simp]: "plain_name s \<Longrightarrow> Trim (CHR '' '' # s) = s"
  using Trim_core [of s "'' ''" "[]"] by (simp add: plain_name_def is_blank_def)

section \<open>Lines\<close>

lemma getlines_Nil [simp]: "getlines [] = []"
  by (simp add: getlines.simps)

lemma getlines_line: "newline \<notin> set l \<Longrightarrow> getlines (l @ newline # rest) = l # getlines rest"
proof -
  assume "newline \<notin> set l"
  then have "takeWhile (\<lambda>c. c \<noteq> newline) (l @ newline # rest) = l"
    "dropWhile (\<lambda>c. c \<noteq> newline) (l @ newline # rest) = newline # rest"
    by (induction l) auto
  then show ?thesis by (subst getlines.simps) simp
qed

lemma uncomment_plain: "list_all plain_char x \<Longrightarrow> uncomment False (x @ y) = x @ uncomment False y"
  by (induction x) (auto simp: plain_char_def)

lemma uncomment_quoted:
  "quotable v \<Longrightarrow> uncomment True (v @ dquote # y) = v @ dquote # uncomment False y"
  by (induction v) (auto simp: quotable_def)

definition entry_line :: "string \<Rightarrow> string \<Rightarrow> string" where
  "entry_line k v = ''  '' @ k @ '': '' @ [dquote] @ v @ [dquote]"

definition section_line :: "string \<Rightarrow> string" where
  "section_line s = s @ '':''"

lemma blank_plain [simp]: "plain_char (CHR '' '')"
  by (simp add: plain_char_def)

lemma name_takeWhile:
  "plain_name k \<Longrightarrow> takeWhile (\<lambda>c. c \<noteq> CHR '':'') (k @ CHR '':'' # r) = k"
  "plain_name k \<Longrightarrow> dropWhile (\<lambda>c. c \<noteq> CHR '':'') (k @ CHR '':'' # r) = CHR '':'' # r"
  by (auto simp: plain_name_def plain_char_def list_all_iff takeWhile_append2 takeWhile_tail dropWhile_append2)

lemma strip_quoted [simp]: "StripQuotes (dquote # v @ [dquote]) = v"
  by (simp add: StripQuotes_def)

lemma uncomment_colon: "uncomment False (CHR '':'' # y) = CHR '':'' # uncomment False y"
  by simp

lemma uncomment_blank: "uncomment q (CHR '' '' # y) = CHR '' '' # uncomment q y"
  by simp

lemma uncomment_entry:
  assumes "plain_name k" "quotable v"
  shows "uncomment False (entry_line k v) = entry_line k v"
proof -
  have "uncomment False (k @ CHR '':'' # CHR '' '' # dquote # v @ [dquote]) =
      k @ uncomment False (CHR '':'' # CHR '' '' # dquote # v @ [dquote])"
    using assms(1) by (simp only: plain_name_def uncomment_plain)
  also have "\<dots> = k @ CHR '':'' # CHR '' '' # dquote # uncomment True (v @ dquote # [])"
    by (simp add: uncomment_colon uncomment_blank)
  also have "\<dots> = k @ CHR '':'' # CHR '' '' # dquote # v @ [dquote]"
    using uncomment_quoted [OF assms(2), of "[]"] by simp
  finally show ?thesis by (simp add: entry_line_def uncomment_blank)
qed

lemma parse_entry_line:
  assumes "plain_name k" "quotable v"
  shows "parse_line (entry_line k v) (es, sec) =
    (es @ [\<lparr>y_section = sec, y_key = k, y_value = v\<rparr>], sec)"
proof -
  let ?s = "k @ CHR '':'' # CHR '' '' # dquote # v @ [dquote]"
  have t: "Trim (entry_line k v) = ?s"
  proof -
    have "Trim (''  '' @ ?s @ []) = ?s"
      by (rule Trim_core) (use assms(1) in \<open>auto simp: plain_name_def hd_append is_blank_def\<close>)
    then show ?thesis by (simp add: entry_line_def)
  qed
  have v: "Trim (CHR '' '' # dquote # v @ [dquote]) = dquote # v @ [dquote]"
  proof -
    have "Trim ('' '' @ (dquote # v @ [dquote]) @ []) = dquote # v @ [dquote]"
      by (rule Trim_core) (auto simp: is_blank_def)
    then show ?thesis by simp
  qed
  have ind: "has_indent (entry_line k v)" by (simp add: has_indent_def entry_line_def)
  have "k \<noteq> []" using assms(1) by (simp add: plain_name_def)
  with assms show ?thesis
    by (simp add: parse_line_def uncomment_entry t v name_takeWhile ind Let_def)
qed

lemma parse_section_line:
  assumes "plain_name s"
  shows "parse_line (section_line s) (es, sec) = (es, s)"
proof -
  have u: "uncomment False (section_line s) = section_line s"
    using uncomment_plain [of s "'':''"] assms by (simp add: section_line_def plain_name_def uncomment_colon)
  have t: "Trim (section_line s) = section_line s"
  proof -
    have "Trim ([] @ section_line s @ []) = section_line s"
      by (rule Trim_core) (use assms in \<open>auto simp: plain_name_def section_line_def hd_append is_blank_def\<close>)
    then show ?thesis by simp
  qed
  have i: "\<not> has_indent (section_line s)"
    using assms by (auto simp: has_indent_def section_line_def hd_append plain_name_def is_blank_def)
  have "Trim [] = []" by (simp add: Trim_def)
  with assms u t i show ?thesis
    by (simp add: parse_line_def Let_def section_line_def name_takeWhile)
qed

section \<open>Documents\<close>

type_synonym yaml_document = "(string \<times> (string \<times> string) list) list"

definition entry_text :: "string \<times> string \<Rightarrow> string" where
  "entry_text kv = entry_line (fst kv) (snd kv) @ [newline]"

definition section_text :: "string \<times> (string \<times> string) list \<Rightarrow> string" where
  "section_text s = section_line (fst s) @ newline # concat (map entry_text (snd s))"

definition document_text :: "yaml_document \<Rightarrow> string" where
  "document_text d = concat (map section_text d)"

definition section_entries :: "string \<times> (string \<times> string) list \<Rightarrow> yaml_entry list" where
  "section_entries s = map (\<lambda>(k, v). \<lparr>y_section = fst s, y_key = k, y_value = v\<rparr>) (snd s)"

definition document_ok :: "yaml_document \<Rightarrow> bool" where
  "document_ok d \<longleftrightarrow> list_all (\<lambda>(s, kvs). plain_name s \<and> list_all (\<lambda>(k, v). plain_name k \<and> quotable v) kvs) d"

lemma entry_no_newline: "plain_name k \<Longrightarrow> quotable v \<Longrightarrow> newline \<notin> set (entry_line k v)"
  by (auto simp: entry_line_def plain_name_def quotable_def plain_char_def list_all_iff)

lemma section_no_newline: "plain_name s \<Longrightarrow> newline \<notin> set (section_line s)"
  by (auto simp: section_line_def plain_name_def plain_char_def list_all_iff)

lemma fold_entries:
  assumes "list_all (\<lambda>(k, v). plain_name k \<and> quotable v) kvs"
  shows "fold parse_line (getlines (concat (map entry_text kvs) @ rest)) (es, sec) =
    fold parse_line (getlines rest) (es @ section_entries (sec, kvs), sec)"
  using assms
  by (induction kvs arbitrary: es)
    (auto simp: entry_text_def section_entries_def getlines_line entry_no_newline parse_entry_line)

lemma fold_document:
  assumes "document_ok d"
  shows "\<exists>sec'. fold parse_line (getlines (document_text d)) (es, sec) = (es @ concat (map section_entries d), sec')"
  using assms
proof (induction d arbitrary: es sec)
  case Nil
  then show ?case by (simp add: document_text_def)
next
  case (Cons s d)
  obtain n kvs where s: "s = (n, kvs)" by force
  have ok: "plain_name n" "list_all (\<lambda>(k, v). plain_name k \<and> quotable v) kvs" "document_ok d"
    using Cons.prems by (simp_all add: document_ok_def s)
  have "fold parse_line (getlines (document_text (s # d))) (es, sec) =
      fold parse_line (getlines (document_text d)) (es @ section_entries s, n)"
    using fold_entries [OF ok(2)] ok(1)
    by (simp add: document_text_def section_text_def s getlines_line section_no_newline parse_section_line)
  with Cons.IH [OF ok(3), of "es @ section_entries s" n] show ?case by simp
qed

section \<open>Numbers\<close>

lemma scan_dec: "scan_number (dec n) = Some (False, n, length (dec n))"
  using scan_digits [of "dec n"] by (simp add: dec_digits)

lemma SafeInt_dec [simp]: "n < 2 ^ 31 \<Longrightarrow> SafeInt (dec n) d = int n"
  by (simp add: SafeInt_def stoi_def scan_dec signed_value_def)

lemma SafeSize_dec [simp]: "n < 2 ^ 64 \<Longrightarrow> SafeSize (dec n) d = n"
  by (simp add: SafeSize_def stoull_def scan_dec unat_of_nat)

lemma ParsePort_dec [simp]: "0 < n \<Longrightarrow> n \<le> 65535 \<Longrightarrow> ParsePort (dec n) = Some (int n)"
  by (simp add: ParsePort_def stoi_def scan_dec signed_value_def)

lemma dec_no_colon: "CHR '':'' \<notin> set (dec n)"
  using dec_digits [of n] digit_no_sign by (auto simp: list_all_iff)

lemma split_address: "split_last_colon (host @ CHR '':'' # dec n) = Some (host, dec n)"
proof -
  have "takeWhile (\<lambda>c. c \<noteq> CHR '':'') (rev (dec n) @ CHR '':'' # rev host) = rev (dec n)"
    using dec_no_colon [of n] by (auto simp: takeWhile_tail)
  then show ?thesis by (simp add: split_last_colon_def)
qed

lemma ParseAddress_render:
  "host \<noteq> [] \<Longrightarrow> 0 < n \<Longrightarrow> n \<le> 65535 \<Longrightarrow> ParseAddress (host @ CHR '':'' # dec n) = Some (host, int n)"
  by (simp add: ParseAddress_def split_address)

lemma ParsePort_range: "ParsePort v = Some p \<Longrightarrow> 0 < p \<and> p \<le> 65535"
  by (auto simp: ParsePort_def split: option.splits if_splits)

section \<open>The command line\<close>

text \<open>Overrides as the options that set them.\<close>

definition option_args :: "string \<Rightarrow> ('a \<Rightarrow> string) \<Rightarrow> 'a option \<Rightarrow> string list" where
  "option_args name f v = (case v of None \<Rightarrow> [] | Some x \<Rightarrow> [name, f x])"

definition address_text :: "string \<Rightarrow> int \<Rightarrow> string" where
  "address_text host p = host @ CHR '':'' # dec (nat p)"

definition override_args :: "overrides \<Rightarrow> string list" where
  "override_args ov =
     option_args ''--workload'' workload_name (ov_workload ov) @
     option_args ''--listen-port'' (\<lambda>p. dec (nat p)) (ov_listen_port ov) @
     option_args ''--evaluation-model'' (\<lambda>p. p) (ov_evaluation_model_path ov) @
     option_args ''--sample-distributor'' (\<lambda>h. address_text h (the (ov_sample_port ov))) (ov_sample_host ov) @
     option_args ''--model-distributor'' (\<lambda>h. address_text h (the (ov_model_port ov))) (ov_model_host ov)"

definition address_ok :: "string option \<Rightarrow> int option \<Rightarrow> bool" where
  "address_ok h p \<longleftrightarrow> h = None \<and> p = None \<or>
     (\<exists>host port. h = Some host \<and> p = Some port \<and> host \<noteq> [] \<and> valid_port port)"

definition overrides_ok :: "overrides \<Rightarrow> bool" where
  "overrides_ok ov \<longleftrightarrow>
     (case ov_workload ov of None \<Rightarrow> True | Some m \<Rightarrow> is_valid_mode m) \<and>
     (case ov_listen_port ov of None \<Rightarrow> True | Some p \<Rightarrow> valid_port p) \<and>
     address_ok (ov_sample_host ov) (ov_sample_port ov) \<and>
     address_ok (ov_model_host ov) (ov_model_port ov)"

lemma parse_option:
  assumes "option_handler a = Some (h, e)" "v \<noteq> None \<Longrightarrow> h (f (the v)) p = Inr p'" "v = None \<Longrightarrow> p = p'"
  shows "ParseCommandLine (option_args a f v @ rest) p = ParseCommandLine rest p'"
  using assms by (cases v) (simp_all add: option_args_def)

lemma handlers:
  "option_handler ''--workload'' = Some (take_workload, ''--workload requires a value'')"
  "option_handler ''--listen-port'' = Some (take_port, ''--listen-port must be a valid TCP port'')"
  "option_handler ''--evaluation-model'' =
     Some (take_evaluation_model, ''--evaluation-model may be specified only once'')"
  "option_handler ''--sample-distributor'' =
     Some (take_sample_address, ''--sample-distributor must use host:port'')"
  "option_handler ''--model-distributor'' =
     Some (take_model_address, ''--model-distributor must use host:port'')"
  by (simp_all add: option_handler_def)

lemma valid_port_nat: "valid_port p \<Longrightarrow> 0 < nat p \<and> nat p \<le> 65535 \<and> int (nat p) = p"
  by (auto simp: valid_port_def)

lemma take_address_render:
  assumes "address_ok (Some h) port"
  shows "ParseAddress (address_text h (the port)) = Some (h, the port)"
proof -
  from assms obtain p where p: "port = Some p" "h \<noteq> []" "valid_port p" by (auto simp: address_ok_def)
  from ParseAddress_render [of h "nat p"] p valid_port_nat [OF p(3)] show ?thesis
    by (simp add: address_text_def)
qed

text \<open>The overrides after the first options of a command line.\<close>

definition given :: "nat \<Rightarrow> overrides \<Rightarrow> overrides" where
  "given n ov =
     \<lparr>ov_workload = if 1 \<le> n then ov_workload ov else None,
      ov_listen_port = if 2 \<le> n then ov_listen_port ov else None,
      ov_evaluation_model_path = if 3 \<le> n then ov_evaluation_model_path ov else None,
      ov_sample_host = if 4 \<le> n then ov_sample_host ov else None,
      ov_sample_port = if 4 \<le> n then ov_sample_port ov else None,
      ov_model_host = if 5 \<le> n then ov_model_host ov else None,
      ov_model_port = if 5 \<le> n then ov_model_port ov else None\<rparr>"

lemma given_ends: "given 0 ov = no_overrides" "given 5 ov = ov"
  by (simp_all add: given_def no_overrides_def)

abbreviation after_options :: "nat \<Rightarrow> overrides \<Rightarrow> command_line" where
  "after_options n ov \<equiv> new_command_line\<lparr>cl_overrides := given n ov\<rparr>"

lemma options_taken:
  assumes "overrides_ok ov"
  shows "ov_workload ov \<noteq> None \<Longrightarrow>
      take_workload (workload_name (the (ov_workload ov))) (after_options 0 ov) = Inr (after_options 1 ov)"
    "ov_listen_port ov \<noteq> None \<Longrightarrow>
      take_port (dec (nat (the (ov_listen_port ov)))) (after_options 1 ov) = Inr (after_options 2 ov)"
    "ov_evaluation_model_path ov \<noteq> None \<Longrightarrow>
      take_evaluation_model (the (ov_evaluation_model_path ov)) (after_options 2 ov) = Inr (after_options 3 ov)"
    "ov_sample_host ov \<noteq> None \<Longrightarrow>
      take_sample_address (address_text (the (ov_sample_host ov)) (the (ov_sample_port ov))) (after_options 3 ov)
        = Inr (after_options 4 ov)"
    "ov_model_host ov \<noteq> None \<Longrightarrow>
      take_model_address (address_text (the (ov_model_host ov)) (the (ov_model_port ov))) (after_options 4 ov)
        = Inr (after_options 5 ov)"
  using assms valid_port_nat take_address_render [of "the (ov_sample_host ov)" "ov_sample_port ov"]
    take_address_render [of "the (ov_model_host ov)" "ov_model_port ov"]
  by (auto simp: take_workload_def take_port_def take_evaluation_model_def take_sample_address_def
      take_model_address_def new_command_line_def given_def put_overrides_def overrides_ok_def address_ok_def)

lemma options_absent:
  assumes "overrides_ok ov"
  shows "ov_workload ov = None \<Longrightarrow> after_options 0 ov = after_options 1 ov"
    "ov_listen_port ov = None \<Longrightarrow> after_options 1 ov = after_options 2 ov"
    "ov_evaluation_model_path ov = None \<Longrightarrow> after_options 2 ov = after_options 3 ov"
    "ov_sample_host ov = None \<Longrightarrow> after_options 3 ov = after_options 4 ov"
    "ov_model_host ov = None \<Longrightarrow> after_options 4 ov = after_options 5 ov"
  using assms by (simp_all add: given_def overrides_ok_def address_ok_def)

text \<open>the command line written for any valid set of overrides is parsed back to exactly these
  overrides, in the documented option syntax.\<close>

theorem command_line_roundtrip:
  assumes "overrides_ok ov"
  shows "ParseCommandLine (override_args ov) new_command_line = Inr (new_command_line\<lparr>cl_overrides := ov\<rparr>)"
proof -
  note taken = options_taken [OF assms] and absent = options_absent [OF assms]
  have p1: "ParseCommandLine (option_args ''--workload'' workload_name (ov_workload ov) @ rest) (after_options 0 ov) =
      ParseCommandLine rest (after_options 1 ov)" for rest
    by (rule parse_option [OF handlers(1)]) (erule taken(1), erule absent(1))
  have p2: "ParseCommandLine (option_args ''--listen-port'' (\<lambda>p. dec (nat p)) (ov_listen_port ov) @ rest) (after_options 1 ov) =
      ParseCommandLine rest (after_options 2 ov)" for rest
    by (rule parse_option [OF handlers(2)]) (erule taken(2), erule absent(2))
  have p3: "ParseCommandLine (option_args ''--evaluation-model'' (\<lambda>p. p) (ov_evaluation_model_path ov) @ rest) (after_options 2 ov) =
      ParseCommandLine rest (after_options 3 ov)" for rest
    by (rule parse_option [OF handlers(3)]) (erule taken(3), erule absent(3))
  have p4: "ParseCommandLine (option_args ''--sample-distributor'' (\<lambda>h. address_text h (the (ov_sample_port ov))) (ov_sample_host ov) @ rest) (after_options 3 ov) =
      ParseCommandLine rest (after_options 4 ov)" for rest
    by (rule parse_option [OF handlers(4)]) (erule taken(4), erule absent(4))
  have p5: "ParseCommandLine (option_args ''--model-distributor'' (\<lambda>h. address_text h (the (ov_model_port ov))) (ov_model_host ov) @ rest) (after_options 4 ov) =
      ParseCommandLine rest (after_options 5 ov)" for rest
    by (rule parse_option [OF handlers(5)]) (erule taken(5), erule absent(5))
  have "ParseCommandLine (override_args ov) (after_options 0 ov) = Inr (after_options 5 ov)"
    unfolding override_args_def using p5 [of "[]"]
    by (simp only: p1 p2 p3 p4 append_Nil2 ParseCommandLine.simps)
  moreover have "new_command_line\<lparr>cl_overrides := no_overrides\<rparr> = new_command_line"
    by (simp add: new_command_line_def)
  ultimately show ?thesis by (simp only: given_ends)
qed

definition demo_overrides :: overrides where
  "demo_overrides = no_overrides\<lparr>ov_workload := Some kTraining, ov_sample_host := Some ''pool:a'',
     ov_sample_port := Some 9100\<rparr>"

theorem command_line_roundtrip_witness:
  "ParseCommandLine (override_args demo_overrides) new_command_line =
     Inr (new_command_line\<lparr>cl_overrides := demo_overrides\<rparr>)"
proof (rule command_line_roundtrip)
  show "overrides_ok demo_overrides"
    by (simp add: overrides_ok_def demo_overrides_def no_overrides_def address_ok_def is_valid_mode_def
        valid_port_def)
qed

text \<open>What an accepted command line can contain.\<close>

lemma ParseAddress_valid: "ParseAddress v = Some (h, p) \<Longrightarrow> h \<noteq> [] \<and> valid_port p"
  using ParsePort_range
  by (fastforce simp: ParseAddress_def valid_port_def split: option.splits if_splits prod.splits)

lemma handler_keeps_ok:
  assumes "option_handler a = Some (h, e)" "h v p = Inr p'" "overrides_ok (cl_overrides p)"
  shows "overrides_ok (cl_overrides p')"
proof -
  consider "h = take_config" | "h = take_workload" | "h = take_port" | "h = take_model_address"
    | "h = take_sample_address" | "h = take_evaluation_model"
    using assms(1) by (auto simp: option_handler_def split: if_splits)
  then show ?thesis
  proof cases
    case 1
    with assms(2,3) show ?thesis by (auto simp: take_config_def split: if_splits)
  next
    case 2
    with assms(2,3) show ?thesis by (auto simp: take_workload_def put_overrides_def overrides_ok_def split: if_splits)
  next
    case 3
    show ?thesis
    proof (cases "ParsePort v")
      case None
      with 3 assms(2) show ?thesis by (simp add: take_port_def)
    next
      case (Some n)
      from 3 assms(2) Some have "p' = put_overrides (\<lambda>ov. ov\<lparr>ov_listen_port := Some n\<rparr>) p"
        by (simp add: take_port_def split: if_splits)
      with assms(3) ParsePort_range [OF Some] show ?thesis
        by (simp add: put_overrides_def overrides_ok_def valid_port_def)
    qed
  next
    case 4
    show ?thesis
    proof (cases "ParseAddress v")
      case None
      with 4 assms(2) show ?thesis by (simp add: take_model_address_def)
    next
      case (Some x)
      obtain ho n where x: "x = (ho, n)" by force
      from 4 assms(2) Some x have "p' = put_overrides (\<lambda>ov. ov\<lparr>ov_model_host := Some ho, ov_model_port := Some n\<rparr>) p"
        by (simp add: take_model_address_def split: if_splits)
      with assms(3) ParseAddress_valid [OF Some [unfolded x]] show ?thesis
        by (simp add: put_overrides_def overrides_ok_def address_ok_def)
    qed
  next
    case 5
    show ?thesis
    proof (cases "ParseAddress v")
      case None
      with 5 assms(2) show ?thesis by (simp add: take_sample_address_def)
    next
      case (Some x)
      obtain ho n where x: "x = (ho, n)" by force
      from 5 assms(2) Some x have "p' = put_overrides (\<lambda>ov. ov\<lparr>ov_sample_host := Some ho, ov_sample_port := Some n\<rparr>) p"
        by (simp add: take_sample_address_def split: if_splits)
      with assms(3) ParseAddress_valid [OF Some [unfolded x]] show ?thesis
        by (simp add: put_overrides_def overrides_ok_def address_ok_def)
    qed
  next
    case 6
    with assms(2,3) show ?thesis
      by (auto simp: take_evaluation_model_def put_overrides_def overrides_ok_def split: if_splits)
  qed
qed

lemma parsed_overrides_ok:
  "ParseCommandLine args p = Inr p' \<Longrightarrow> overrides_ok (cl_overrides p) \<Longrightarrow> overrides_ok (cl_overrides p')"
proof (induction args p rule: ParseCommandLine.induct)
  case (3 a v rest p)
  show ?case
  proof (cases "option_handler a")
    case None
    with "3.prems" show ?thesis by (simp split: if_splits)
  next
    case (Some he)
    obtain h e where he: "he = (h, e)" by force
    with "3.prems" Some obtain p1 where p1: "h v p = Inr p1" "ParseCommandLine rest p1 = Inr p'"
      by (auto simp: and_then_Inr)
    have "overrides_ok (cl_overrides p1)" using handler_keeps_ok Some he p1(1) "3.prems"(2) by blast
    from "3.IH" [OF Some he [symmetric] p1(2) this] show ?thesis .
  qed
qed (auto split: option.splits if_splits prod.splits)

lemma new_overrides_ok: "overrides_ok (cl_overrides new_command_line)"
  by (simp add: new_command_line_def no_overrides_def overrides_ok_def address_ok_def)

section \<open>Documents read back\<close>

text \<open>C39: a configuration document written section by section, with quoted values, is read back as
  exactly its entries, in order; names may be any text without the characters the reader looks for,
  and quoted values may contain colons, blanks and comment signs.\<close>

theorem yaml_document_roundtrip:
  assumes "document_ok d"
  shows "ParseYaml (document_text d) = concat (map section_entries d)"
  using fold_document [OF assms, of "[]" "[]"] by (auto simp: ParseYaml_def)

theorem yaml_document_roundtrip_witness:
  "ParseYaml (document_text [(''server'', [(''port'', ''90 # 2'')]), (''task'', [])]) =
     [\<lparr>y_section = ''server'', y_key = ''port'', y_value = ''90 # 2''\<rparr>]"
proof -
  have "document_ok [(''server'', [(''port'', ''90 # 2'')]), (''task'', [])]"
    by (simp add: document_ok_def plain_name_def plain_char_def quotable_def is_blank_def)
  from yaml_document_roundtrip [OF this] show ?thesis by (simp add: section_entries_def)
qed

section \<open>Layers\<close>

definition layer :: "'a option \<Rightarrow> 'a \<Rightarrow> 'a" where
  "layer upper lower = (case upper of Some x \<Rightarrow> x | None \<Rightarrow> lower)"

definition environment_int :: "config_world \<Rightarrow> string \<Rightarrow> int option" where
  "environment_int w name = map_option (\<lambda>r. SafeInt r int32_min) (cw_getenv w name)"

lemma ReadEnvironment_value: "ReadEnvironment w n = Inr v \<Longrightarrow> v = cw_getenv w n"
  by (auto simp: ReadEnvironment_def split: option.splits if_splits)

lemma ReadEnvironmentInt_value:
  assumes "ReadEnvironmentInt w n = Inr v"
  shows "v = environment_int w n"
proof -
  obtain a where a: "ReadEnvironment w n = Inr a"
    using assms by (auto simp: ReadEnvironmentInt_def and_then_Inr)
  with assms ReadEnvironment_value [OF a] show ?thesis
    by (cases "cw_getenv w n") (auto simp: ReadEnvironmentInt_def environment_int_def split: if_splits)
qed

lemma read_data_root_value:
  assumes "read_data_root w = Inr v"
  shows "v = cw_getenv w ''RL_INFRA_DATA_ROOT''"
proof -
  obtain a where a: "ReadEnvironment w ''RL_INFRA_DATA_ROOT'' = Inr a"
    using assms by (auto simp: read_data_root_def and_then_Inr)
  with assms ReadEnvironment_value [OF a] show ?thesis
    by (cases "cw_getenv w ''RL_INFRA_DATA_ROOT''") (auto simp: read_data_root_def split: if_splits)
qed

definition stored :: "('a \<Rightarrow> settings \<Rightarrow> settings) \<Rightarrow> 'a option \<Rightarrow> settings \<Rightarrow> settings" where
  "stored f v st = (case v of None \<Rightarrow> st | Some x \<Rightarrow> f x st)"

lemma note_fst [simp]:
  "fst (note_environment names store v acc) = stored store v (fst acc)"
  "fst (note_cli names store v acc) = stored store v (fst acc)"
  by (simp_all add: note_environment_def note_cli_def stored_def split: option.split)

text \<open>A selector skips an update that does not write its field.\<close>

lemma stored_keeps: "(\<And>x s. g (f x s) = g s) \<Longrightarrow> g (stored f v st) = g st"
  by (cases v) (simp_all add: stored_def)

lemmas stored_selectors =
  stored_keeps [of sv_listen_port] stored_keeps [of sv_evaluation_model_path]
  stored_keeps [of sv_sample_host] stored_keeps [of sv_sample_port] stored_keeps [of sv_model_host]
  stored_keeps [of sv_model_port] stored_keeps [of sv_env_id] stored_keeps [of sv_local_train_dir]
  stored_keeps [of "\<lambda>st. run_mode (mz_training (sv_maze st))"]
  stored_keeps [of "\<lambda>st. max_agents (mz_training (sv_maze st))"]
  stored_keeps [of "\<lambda>st. aiserver_id (mz_training (sv_maze st))"]
  stored_keeps [of "\<lambda>st. mz_agent_count (sv_maze st)"]
  stored_keeps [of "\<lambda>st. mz_fixed_map_id (sv_maze st)"]
  stored_keeps [of "\<lambda>st. mz_episode_max_steps (sv_maze st)"]

lemmas setters = set_max_agents_def set_run_mode_def set_agent_count_def set_map_id_def
  set_episode_max_steps_def set_pod_def with_training_def sv_training_def

lemma stored_writers [simp]:
  "run_mode (mz_training (sv_maze (stored set_run_mode v st))) = layer v (run_mode (mz_training (sv_maze st)))"
  "sv_listen_port (stored (\<lambda>p st. st\<lparr>sv_listen_port := p\<rparr>) v st) = layer v (sv_listen_port st)"
  "sv_evaluation_model_path (stored (\<lambda>p st. st\<lparr>sv_evaluation_model_path := p\<rparr>) t st) =
     layer t (sv_evaluation_model_path st)"
  "sv_sample_host (stored (\<lambda>h st. st\<lparr>sv_sample_host := h, sv_sample_port := n\<rparr>) t st) =
     layer t (sv_sample_host st)"
  "sv_model_host (stored (\<lambda>h st. st\<lparr>sv_model_host := h, sv_model_port := n\<rparr>) t st) =
     layer t (sv_model_host st)"
  "(t = None) = (q = None) \<Longrightarrow>
     sv_sample_port (stored (\<lambda>h st. st\<lparr>sv_sample_host := h, sv_sample_port := the q\<rparr>) t st) =
     layer q (sv_sample_port st)"
  "(t = None) = (q = None) \<Longrightarrow>
     sv_model_port (stored (\<lambda>h st. st\<lparr>sv_model_host := h, sv_model_port := the q\<rparr>) t st) =
     layer q (sv_model_port st)"
  "max_agents (mz_training (sv_maze (stored set_max_agents w st))) = layer w (max_agents (mz_training (sv_maze st)))"
  "mz_agent_count (sv_maze (stored set_agent_count w st)) = layer w (mz_agent_count (sv_maze st))"
  "mz_fixed_map_id (sv_maze (stored set_map_id t st)) = layer t (mz_fixed_map_id (sv_maze st))"
  "mz_episode_max_steps (sv_maze (stored set_episode_max_steps w st)) = layer w (mz_episode_max_steps (sv_maze st))"
  "aiserver_id (mz_training (sv_maze (stored set_pod t st))) =
     layer (map_option (\<lambda>pod. pod @ ''-aiserver'') t) (aiserver_id (mz_training (sv_maze st)))"
  "sv_env_id (stored set_pod t st) = layer (map_option (\<lambda>pod. pod @ ''-env'') t) (sv_env_id st)"
  "sv_local_train_dir (stored (\<lambda>r st. st\<lparr>sv_local_train_dir := f r\<rparr>) t st) =
     layer (map_option f t) (sv_local_train_dir st)"
  by (auto simp: stored_def layer_def setters split: option.split)

text \<open>The sources of every overridable setting, in the order of precedence.\<close>

definition layered_settings :: "config_world \<Rightarrow> overrides \<Rightarrow> string \<Rightarrow> yaml_entry list \<Rightarrow> settings \<Rightarrow> bool" where
  "layered_settings w ov config_path es st \<longleftrightarrow>
     run_mode (sv_training st) = layer (ov_workload ov) (parse_mode (FindValue es ''server'' ''run_mode'')) \<and>
     sv_listen_port st = layer (ov_listen_port ov) (int_at es ''server'' ''listen_port'' 9002) \<and>
     sv_evaluation_model_path st = resolve_path w config_path
       (layer (ov_evaluation_model_path ov) (FindValue es ''model'' ''evaluation_model_path'')) \<and>
     sv_sample_host st = layer (ov_sample_host ov) (text_at es ''sample_distributor'' ''host'' ''maze-learner'') \<and>
     sv_sample_port st = layer (ov_sample_port ov) (int_at es ''sample_distributor'' ''port'' 9100) \<and>
     sv_model_host st = layer (ov_model_host ov) (text_at es ''model_distribution'' ''host'' ''maze-learner'') \<and>
     sv_model_port st = layer (ov_model_port ov) (int_at es ''model_distribution'' ''port'' 9200) \<and>
     max_agents (sv_training st) =
       layer (environment_int w ''RL_AISERVER_MAX_AGENTS'') (int_at es ''server'' ''max_agents'' 10) \<and>
     mz_agent_count (sv_maze st) =
       layer (environment_int w ''RL_AISERVER_AGENT_COUNT'') (int_at es ''environment'' ''agent_count'' 4) \<and>
     mz_fixed_map_id (sv_maze st) =
       layer (cw_getenv w ''RL_TASK_MAP_ID'') (text_at es ''task'' ''fixed_map_id'' ''maze_117436372'') \<and>
     mz_episode_max_steps (sv_maze st) =
       layer (environment_int w ''RL_TASK_EPISODE_MAX_STEPS'') (int_at es ''task'' ''episode_max_steps'' 0) \<and>
     aiserver_id (sv_training st) =
       layer (map_option (\<lambda>pod. pod @ ''-aiserver'') (cw_getenv w ''RL_INFRA_POD_ID''))
         (text_at es ''sample_distributor'' ''aiserver_id'' ''aiserver-0'') \<and>
     sv_env_id st =
       layer (map_option (\<lambda>pod. pod @ ''-env'') (cw_getenv w ''RL_INFRA_POD_ID''))
         (text_at es ''sample_distributor'' ''env_id'' ''env-0'') \<and>
     sv_local_train_dir st = resolve_path w config_path
       (layer (map_option (\<lambda>dir. cw_normal w (path_join dir ''aiserver'')) (cw_getenv w ''RL_INFRA_DATA_ROOT''))
         (text_at es ''model'' ''local_train_dir'' ''../models/train''))"

lemma apply_environment_value:
  assumes "apply_environment w a0 = Inr a1"
  shows "fst a1 = fst (note_environment [] set_episode_max_steps (environment_int w ''RL_TASK_EPISODE_MAX_STEPS'')
     (note_environment [] set_map_id (cw_getenv w ''RL_TASK_MAP_ID'')
     (note_environment [] set_pod (cw_getenv w ''RL_INFRA_POD_ID'')
     (note_environment [] (\<lambda>r st. st\<lparr>sv_local_train_dir := cw_normal w (path_join r ''aiserver'')\<rparr>)
        (cw_getenv w ''RL_INFRA_DATA_ROOT'')
     (note_environment [] set_agent_count (environment_int w ''RL_AISERVER_AGENT_COUNT'')
     (note_environment [] set_max_agents (environment_int w ''RL_AISERVER_MAX_AGENTS'') a0))))))"
proof -
  obtain agents count dir pod map_id steps where
      r: "ReadEnvironmentInt w ''RL_AISERVER_MAX_AGENTS'' = Inr agents"
      "ReadEnvironmentInt w ''RL_AISERVER_AGENT_COUNT'' = Inr count" "read_data_root w = Inr dir"
      "ReadEnvironment w ''RL_INFRA_POD_ID'' = Inr pod" "ReadEnvironment w ''RL_TASK_MAP_ID'' = Inr map_id"
      "ReadEnvironmentInt w ''RL_TASK_EPISODE_MAX_STEPS'' = Inr steps"
    using assms unfolding apply_environment_def and_then_Inr by blast
  note v = ReadEnvironmentInt_value [OF r(1)] ReadEnvironmentInt_value [OF r(2)] read_data_root_value [OF r(3)]
    ReadEnvironment_value [OF r(4)] ReadEnvironment_value [OF r(5)] ReadEnvironmentInt_value [OF r(6)]
  have "Inr a1 = (Inr (note_environment [''task.episode_max_steps''] set_episode_max_steps steps
      (note_environment [''task.fixed_map_id''] set_map_id map_id
      (note_environment [''sample_distributor.aiserver_id'', ''sample_distributor.env_id''] set_pod pod
      (note_environment [''model.local_train_dir'']
         (\<lambda>r st. st\<lparr>sv_local_train_dir := cw_normal w (path_join r ''aiserver'')\<rparr>) dir
      (note_environment [''environment.agent_count''] set_agent_count count
      (note_environment [''server.max_agents''] set_max_agents agents a0)))))) :: string + _)"
    using assms unfolding apply_environment_def r and_then_simps by (rule sym)
  then show ?thesis by (simp only: sum.inject note_fst v)
qed

lemma loaded_layers:
  assumes l: "LoadMazeConfig w path ov = Inr (st, rep)" and "open_config w path = Inr (config_path, contents)"
  shows "layered_settings w ov config_path (ParseYaml contents) st"
proof -
  let ?es = "ParseYaml contents"
  obtain st0 a1 a2 where s: "read_settings (cw_stod w) ?es = Inr st0" "fst a1 = st0"
      "apply_environment w a1 = Inr a2" and
    o: "\<exists>st2. apply_overrides ov a2 = Inr (st2, rep) \<and> st = resolve_paths w config_path st2"
    using assms
    by (auto simp: LoadMazeConfig_def and_then_Inr Let_def)
  obtain st2 where st2: "apply_overrides ov a2 = Inr (st2, rep)" "st = resolve_paths w config_path st2"
    using o by blast
  have ports: "(ov_sample_host ov = None) = (ov_sample_port ov = None)"
    "(ov_model_host ov = None) = (ov_model_port ov = None)"
    using st2(1) by (auto simp: apply_overrides_def split: if_splits)
  have "(st2, rep) =
        note_cli [''model_distribution.address'']
          (\<lambda>h st. st\<lparr>sv_model_host := h, sv_model_port := the (ov_model_port ov)\<rparr>) (ov_model_host ov)
        (note_cli [''sample_distributor.address'']
          (\<lambda>h st. st\<lparr>sv_sample_host := h, sv_sample_port := the (ov_sample_port ov)\<rparr>) (ov_sample_host ov)
        (note_cli [''model.evaluation_model_path'']
          (\<lambda>p st. st\<lparr>sv_evaluation_model_path := p\<rparr>) (ov_evaluation_model_path ov)
        (note_cli [''server.listen_port''] (\<lambda>p st. st\<lparr>sv_listen_port := p\<rparr>) (ov_listen_port ov)
        (note_cli [''server.run_mode''] set_run_mode (ov_workload ov) a2))))"
    using st2(1) ports by (simp add: apply_overrides_def)
  from arg_cong [where f = fst, OF this]
  have st: "st2 = fst (note_cli [] (\<lambda>h st. st\<lparr>sv_model_host := h, sv_model_port := the (ov_model_port ov)\<rparr>) (ov_model_host ov)
        (note_cli [] (\<lambda>h st. st\<lparr>sv_sample_host := h, sv_sample_port := the (ov_sample_port ov)\<rparr>) (ov_sample_host ov)
        (note_cli [] (\<lambda>p st. st\<lparr>sv_evaluation_model_path := p\<rparr>) (ov_evaluation_model_path ov)
        (note_cli [] (\<lambda>p st. st\<lparr>sv_listen_port := p\<rparr>) (ov_listen_port ov)
        (note_cli [] set_run_mode (ov_workload ov) a2)))))"
    by (simp only: fst_conv note_fst)
  note st = st [unfolded note_fst apply_environment_value [OF s(3)] s(2)]
  have f0: "run_mode (mz_training (sv_maze st0)) = parse_mode (FindValue ?es ''server'' ''run_mode'')"
    "sv_listen_port st0 = int_at ?es ''server'' ''listen_port'' 9002"
    "sv_evaluation_model_path st0 = FindValue ?es ''model'' ''evaluation_model_path''"
    "sv_sample_host st0 = text_at ?es ''sample_distributor'' ''host'' ''maze-learner''"
    "sv_sample_port st0 = int_at ?es ''sample_distributor'' ''port'' 9100"
    "sv_model_host st0 = text_at ?es ''model_distribution'' ''host'' ''maze-learner''"
    "sv_model_port st0 = int_at ?es ''model_distribution'' ''port'' 9200"
    "max_agents (mz_training (sv_maze st0)) = int_at ?es ''server'' ''max_agents'' 10"
    "mz_agent_count (sv_maze st0) = int_at ?es ''environment'' ''agent_count'' 4"
    "mz_fixed_map_id (sv_maze st0) = text_at ?es ''task'' ''fixed_map_id'' ''maze_117436372''"
    "mz_episode_max_steps (sv_maze st0) = int_at ?es ''task'' ''episode_max_steps'' 0"
    "aiserver_id (mz_training (sv_maze st0)) = text_at ?es ''sample_distributor'' ''aiserver_id'' ''aiserver-0''"
    "sv_env_id st0 = text_at ?es ''sample_distributor'' ''env_id'' ''env-0''"
    "sv_local_train_dir st0 = text_at ?es ''model'' ''local_train_dir'' ''../models/train''"
    using s(1) by (auto simp: read_settings_def read_training_def split: if_splits)
  have setters_at: "sv_training st = mz_training (sv_maze st2)" by (simp add: sv_training_def st2(2) resolve_paths_def)
  show ?thesis
    unfolding layered_settings_def setters_at st2(2) resolve_paths_def st
    by (intro conjI; simp add: stored_selectors setters f0 ports)
qed

section \<open>A concrete configuration\<close>

definition demo_document :: yaml_document where
  "demo_document =
     [(''policy'', [(''training_temperature'', ''1.0''), (''sampling_seed'', ''0''), (''action_mask_mode'', ''disabled'')]),
      (''rollout'', [(''gamma'', ''0.5''), (''gae_lambda'', ''0.5''), (''tmax'', ''128'')]),
      (''observation'', [(''ray_max_range'', ''10'')]),
      (''server'', [(''run_mode'', ''training''), (''listen_port'', ''9002''), (''max_agents'', ''10'')]),
      (''environment'', [(''agent_count'', ''4'')]),
      (''task'', [(''fixed_map_id'', ''maze_1''), (''episode_max_steps'', ''1504'')]),
      (''model'', [(''evaluation_model_path'', ''e.onnx''), (''local_train_dir'', ''train''),
         (''expected_obs_dim'', ''17''), (''expected_action_dim'', ''9'')]),
      (''model_distribution'', [(''host'', ''learner''), (''port'', ''9200'')]),
      (''sample_distributor'', [(''host'', ''learner''), (''port'', ''9100''), (''recovery_timeout_ms'', ''30000'')])]"

definition demo_config_world :: config_world where
  "demo_config_world = \<lparr>cw_absolute = Some, cw_canonical = Some,
     cw_text = \<lambda>_. Some (document_text demo_document), cw_parent = \<lambda>_. ''/etc'', cw_normal = \<lambda>p. p,
     cw_regular = \<lambda>_. True,
     cw_getenv = (\<lambda>_. None)(''RL_TASK_MAP_ID'' \<mapsto> ''maze_7'', ''RL_AISERVER_MAX_AGENTS'' \<mapsto> ''12''),
     cw_stod = \<lambda>v. Some (Fin (1 / 2), length v)\<rparr>"

lemma demo_document_ok: "document_ok demo_document"
  by (simp add: demo_document_def document_ok_def plain_name_def plain_char_def quotable_def is_blank_def)

definition demo_entries :: "yaml_entry list" where
  "demo_entries = concat (map section_entries demo_document)"

lemma demo_parse: "ParseYaml (document_text demo_document) = demo_entries"
  using fold_document [OF demo_document_ok, of "[]" "[]"] by (auto simp: ParseYaml_def demo_entries_def)

lemmas demo_entries_eval = demo_entries_def demo_document_def section_entries_def

lemma demo_known: "check_known demo_entries = Inr ()"
  by (simp add: check_known_def demo_entries_eval field_name_def allowed_entries_def)


lemma digits_value:
  assumes "ds \<noteq> []" "list_all is_digit ds"
  shows "undec ds < 2 ^ 63 \<Longrightarrow> integer_value_ok ds"
    "undec ds < 2 ^ 31 \<Longrightarrow> SafeInt ds d = int (undec ds)"
    "undec ds < 2 ^ 64 \<Longrightarrow> SafeSize ds n = undec ds"
  using assms digit_no_sign [of "hd ds"]
  by (cases ds; simp add: integer_value_ok_def SafeInt_def SafeInt64_def SafeSize_def stoi_def stoll_def stoull_def
      scan_digits signed_value_def int64_min_def unat_of_nat)+

lemma empty_values [simp]: "integer_value_ok []" "SafeInt [] d = d" "SafeSize [] n = n"
  by (simp_all add: integer_value_ok_def SafeInt_def SafeSize_def)

lemma demo_fields: "check_fields demo_entries = Inr ()"
proof -
  have "list_all (\<lambda>(s, k). FindValue demo_entries s k \<noteq> []) required_fields"
    by (simp add: demo_entries_eval required_fields_def)
  moreover have "list_all (\<lambda>(s, k). integer_value_ok (FindValue demo_entries s k)) integer_fields"
    by (simp add: demo_entries_eval integer_fields_def digits_value(1) is_digit_def undec_def)
  moreover have "FindValue demo_entries ''sample_distributor'' ''enabled'' = []"
    by (simp add: demo_entries_eval)
  ultimately show ?thesis by (simp add: check_fields_def)
qed

lemma demo_values:
  "FindValue demo_entries ''server'' ''run_mode'' = ''training''"
  "FindValue demo_entries ''server'' ''listen_port'' = ''9002''"
  "FindValue demo_entries ''server'' ''max_agents'' = ''10''"
  "FindValue demo_entries ''policy'' ''training_temperature'' = ''1.0''"
  "FindValue demo_entries ''policy'' ''sampling_seed'' = ''0''"
  "FindValue demo_entries ''policy'' ''action_mask_mode'' = ''disabled''"
  "FindValue demo_entries ''rollout'' ''gamma'' = ''0.5''"
  "FindValue demo_entries ''rollout'' ''gae_lambda'' = ''0.5''"
  "FindValue demo_entries ''rollout'' ''tmax'' = ''128''"
  "FindValue demo_entries ''metrics'' ''reward_interval_ms'' = []"
  "FindValue demo_entries ''observation'' ''ray_max_range'' = ''10''"
  "FindValue demo_entries ''model'' ''evaluation_model_path'' = ''e.onnx''"
  "FindValue demo_entries ''model'' ''local_train_dir'' = ''train''"
  "FindValue demo_entries ''model'' ''startup_timeout_ms'' = []"
  "FindValue demo_entries ''model'' ''expected_obs_dim'' = ''17''"
  "FindValue demo_entries ''model'' ''expected_action_dim'' = ''9''"
  "FindValue demo_entries ''environment'' ''agent_count'' = ''4''"
  "FindValue demo_entries ''task'' ''fixed_map_id'' = ''maze_1''"
  "FindValue demo_entries ''task'' ''episode_max_steps'' = ''1504''"
  "FindValue demo_entries ''model_distribution'' ''host'' = ''learner''"
  "FindValue demo_entries ''model_distribution'' ''port'' = ''9200''"
  "FindValue demo_entries ''model_distribution'' ''poll_interval_ms'' = []"
  "FindValue demo_entries ''model_distribution'' ''rpc_timeout_ms'' = []"
  "FindValue demo_entries ''sample_distributor'' ''enabled'' = []"
  "FindValue demo_entries ''sample_distributor'' ''host'' = ''learner''"
  "FindValue demo_entries ''sample_distributor'' ''port'' = ''9100''"
  "FindValue demo_entries ''sample_distributor'' ''envelope_max_transitions'' = []"
  "FindValue demo_entries ''sample_distributor'' ''envelope_max_bytes'' = []"
  "FindValue demo_entries ''sample_distributor'' ''rpc_timeout_ms'' = []"
  "FindValue demo_entries ''sample_distributor'' ''max_attempts'' = []"
  "FindValue demo_entries ''sample_distributor'' ''enqueue_timeout_ms'' = []"
  "FindValue demo_entries ''sample_distributor'' ''drain_timeout_ms'' = []"
  "FindValue demo_entries ''sample_distributor'' ''health_timeout_ms'' = []"
  "FindValue demo_entries ''sample_distributor'' ''status_poll_interval_ms'' = []"
  "FindValue demo_entries ''sample_distributor'' ''recovery_timeout_ms'' = ''30000''"
  "FindValue demo_entries ''sample_distributor'' ''outbound_max_envelopes'' = []"
  "FindValue demo_entries ''sample_distributor'' ''outbound_max_estimated_bytes'' = []"
  "FindValue demo_entries ''sample_distributor'' ''aiserver_id'' = []"
  "FindValue demo_entries ''sample_distributor'' ''env_id'' = []"
  by (simp_all add: demo_entries_eval)

lemmas demo_numbers = digits_value is_digit_def undec_def

lemma demo_integers:
  "SafeInt ''9002'' d = 9002"
  "SafeInt ''9100'' d = 9100"
  "SafeInt ''9200'' d = 9200"
  "SafeInt ''10'' d = 10"
  "SafeInt ''12'' d = 12"
  "SafeInt ''4'' d = 4"
  "SafeInt ''9'' d = 9"
  "SafeInt ''17'' d = 17"
  "SafeInt ''1504'' d = 1504"
  "SafeInt ''30000'' d = 30000"
  "SafeSize ''0'' n = 0"
  "SafeSize ''128'' n = 128"
  by (simp_all add: demo_numbers)

lemma demo_environment:
  "apply_environment demo_config_world a0 =
     Inr (note_environment [''task.fixed_map_id''] set_map_id (Some ''maze_7'')
       (note_environment [''server.max_agents''] set_max_agents (Some 12) a0))"
proof -
  have "SafeInt ''12'' int32_min = 12" by (simp add: demo_integers)
  then show ?thesis
    by (simp add: apply_environment_def ReadEnvironmentInt_def ReadEnvironment_def read_data_root_def
        demo_config_world_def Trim_def is_blank_def int32_min_def note_environment_def)
qed

definition demo_training :: training_config where
  "demo_training =
     \<lparr>reward_metric_interval_ms = 5000, run_mode = kTraining, max_agents = 10, startup_timeout_ms = 30000,
      expected_obs_dim = 17, expected_action_dim = 9, training_temperature = Fin (1 / 2), sampling_seed = 0,
      action_mask_mode = ''disabled'', gamma = Fin (1 / 2), gae_lambda = Fin (1 / 2), tmax = 128,
      poll_interval_ms = 200, model_rpc_timeout_ms = 5000, distributor_enabled = True,
      envelope_max_transitions = 128, envelope_max_bytes = 8 * 1024 * 1024, rpc_timeout_ms = 2000,
      max_attempts = 4, enqueue_timeout_ms = 100, drain_timeout_ms = 10000, recovery_timeout_ms = 30000,
      outbound_max_envelopes = 64, outbound_max_estimated_bytes = 64 * 1024 * 1024,
      aiserver_id = ''aiserver-0''\<rparr>"

definition demo_settings :: settings where
  "demo_settings =
     \<lparr>sv_maze = \<lparr>mz_training = demo_training, mz_ray_max_range = 10, mz_agent_count = 4,
        mz_fixed_map_id = ''maze_1'', mz_episode_max_steps = 1504\<rparr>,
      sv_listen_port = 9002, sv_evaluation_model_path = ''e.onnx'', sv_local_train_dir = ''train'',
      sv_model_host = ''learner'', sv_model_port = 9200, sv_sample_host = ''learner'', sv_sample_port = 9100,
      sv_health_timeout_ms = 5000, sv_status_poll_interval_ms = 200, sv_env_id = ''env-0''\<rparr>"

lemma demo_read_training: "read_training (\<lambda>v. Some (Fin (1 / 2), length v)) demo_entries = demo_training"
  by (simp only: read_training_def int_at_def size_at_def text_at_def demo_values demo_integers)
    (simp add: demo_training_def if_empty_def parse_mode_def SafeDouble_def SafeBool_def)

lemma demo_read: "read_settings (cw_stod demo_config_world) demo_entries = Inr demo_settings"
proof -
  have "cw_stod demo_config_world = (\<lambda>v. Some (Fin (1 / 2), length v))" by (simp add: demo_config_world_def)
  then show ?thesis
    by (simp only: read_settings_def int_at_def size_at_def text_at_def demo_values demo_integers demo_read_training)
      (simp add: demo_settings_def if_empty_def parse_mode_def is_valid_mode_def)
qed

lemma demo_checks:
  "check_settings (resolve_paths w p (set_map_id ''maze_7'' (set_max_agents 12 demo_settings))) = Inr ()"
  "run_mode (sv_training (resolve_paths w p (set_map_id ''maze_7'' (set_max_agents 12 demo_settings)))) = kTraining"
proof -
  let ?st = "resolve_paths w p (set_map_id ''maze_7'' (set_max_agents 12 demo_settings))"
  have m: "sv_maze ?st = \<lparr>mz_training = demo_training\<lparr>max_agents := 12\<rparr>, mz_ray_max_range = 10,
      mz_agent_count = 4, mz_fixed_map_id = ''maze_7'', mz_episode_max_steps = 1504\<rparr>"
    by (simp add: resolve_paths_def setters demo_settings_def)
  have f: "sv_listen_port ?st = 9002" "sv_model_port ?st = 9200" "sv_sample_port ?st = 9100"
    "sv_health_timeout_ms ?st = 5000" "sv_status_poll_interval_ms ?st = 200"
    by (simp_all add: resolve_paths_def setters demo_settings_def)
  have c: "sv_training ?st = demo_training\<lparr>max_agents := 12\<rparr>" by (simp only: sv_training_def m) simp
  have "map_id_matches ''maze_7''" by (simp add: map_id_matches_def is_map_id_char_def is_digit_def)
  then have "task_values_valid ?st" unfolding task_values_valid_def m by simp
  moreover have "model_values_valid ?st" unfolding model_values_valid_def c m by (simp add: demo_training_def)
  moreover have "runtime_values_valid ?st"
    unfolding runtime_values_valid_def c m f Let_def
    by (simp add: demo_training_def valid_port_def unit_interval_def is_valid_mode_def)
  ultimately show "check_settings ?st = Inr ()" by (simp only: check_settings_def simp_thms if_True)
  show "run_mode (sv_training ?st) = kTraining" unfolding c by (simp add: demo_training_def)
qed

lemma demo_load: "\<exists>st rep. LoadMazeConfig demo_config_world ''c.yaml'' no_overrides = Inr (st, rep)"
proof -
  let ?w = demo_config_world
  let ?st = "\<lambda>p. resolve_paths ?w p (set_map_id ''maze_7'' (set_max_agents 12 demo_settings))"
  have o: "open_config ?w ''c.yaml'' = Inr (''c.yaml'', document_text demo_document)"
    by (simp add: open_config_def demo_config_world_def)
  have "check_workload ?w no_overrides (?st p) = Inr ()" for p
    by (simp add: check_workload_def demo_checks(2) no_overrides_def kTraining_def kEvaluation_def)
  then show ?thesis
    by (simp add: LoadMazeConfig_def o demo_parse demo_known demo_fields demo_read demo_environment Let_def
        apply_overrides_def note_cli_def note_environment_def no_overrides_def demo_checks(1))
qed

section \<open>Precedence and checks\<close>

text \<open>C18: every setting that can be overridden has exactly one source: the command line when it gives
  the option, otherwise the environment variable when it is set, otherwise the file, otherwise the
  default.\<close>

theorem configuration_precedence:
  assumes "LoadMazeConfig w path ov = Inr (st, rep)" "open_config w path = Inr (config_path, contents)"
  shows "layered_settings w ov config_path (ParseYaml contents) st"
  by (rule loaded_layers [OF assms])

theorem configuration_precedence_witness:
  "\<exists>st rep. LoadMazeConfig demo_config_world ''c.yaml'' no_overrides = Inr (st, rep) \<and>
     mz_fixed_map_id (sv_maze st) = ''maze_7'' \<and> sv_listen_port st = 9002"
proof -
  obtain st rep where l: "LoadMazeConfig demo_config_world ''c.yaml'' no_overrides = Inr (st, rep)"
    using demo_load by blast
  have o: "open_config demo_config_world ''c.yaml'' = Inr (''c.yaml'', document_text demo_document)"
    by (simp add: open_config_def demo_config_world_def)
  from configuration_precedence [OF l o] have y: "layered_settings demo_config_world no_overrides ''c.yaml'' demo_entries st"
    by (simp only: demo_parse)
  have m: "mz_fixed_map_id (sv_maze st) = ''maze_7''"
    using y by (simp add: layered_settings_def layer_def demo_config_world_def)
  have "SafeInt ''9002'' 9002 = 9002" by (simp add: demo_integers)
  then have "sv_listen_port st = 9002"
    using y by (simp add: layered_settings_def layer_def no_overrides_def int_at_def demo_values)
  with l m show ?thesis by blast
qed

lemma loaded_checks:
  assumes "LoadMazeConfig w path ov = Inr (st, rep)"
  shows "check_settings st = Inr () \<and> check_workload w ov st = Inr ()"
  using assms by (auto simp: LoadMazeConfig_def and_then_Inr Let_def)

lemma serve_events:
  "\<exists>rest. fst (snd (serve w st marker)) = Started st # rest \<and>
     rest \<in> {[], [Serving, ShutDown, Stopped], [Serving, Announced, ShutDown, Withdrawn, Stopped]} \<and>
     (fst (serve w st marker) = 0) =
       (rest = [Serving, Announced, ShutDown, Withdrawn, Stopped] \<and> pw_drained w) \<and>
     fst (serve w st marker) \<noteq> 2"
  by (auto simp: serve_def split: sum.splits prod.splits)

lemma started_loaded:
  assumes "Started st \<in> set (fst (snd (main_run w args marker)))"
  obtains p rep where "ParseCommandLine args new_command_line = Inr p"
    "LoadMazeConfig (pw_config w) (cl_config_path p) (cl_overrides p) = Inr (st, rep)"
    "main_run w args marker = serve w st marker"
proof -
  have only: "st' = st" if "Started st \<in> set (fst (snd (serve w st' marker)))" for st'
    using that serve_events [of w st' marker] by auto
  obtain p where p: "ParseCommandLine args new_command_line = Inr p"
    and m: "main_run w args marker =
      (case LoadMazeConfig (pw_config w) (cl_config_path p) (cl_overrides p) of
         Inl _ \<Rightarrow> (2, [], marker) | Inr (st, _) \<Rightarrow> serve w st marker)"
    using assms by (auto simp: main_run_def split: if_splits sum.splits)
  obtain st' rep where l: "LoadMazeConfig (pw_config w) (cl_config_path p) (cl_overrides p) = Inr (st', rep)"
    using assms m by (auto split: sum.splits)
  with m have m': "main_run w args marker = serve w st' marker" by simp
  with assms only [of st'] have "st' = st" by simp
  with p l m' show thesis by (intro that) simp_all
qed

text \<open>The characters a map name is made of.\<close>

definition map_name_characters :: string where
  "map_name_characters = ''ABCDEFGHIJKLMNOPQRSTUVWXYZabcdefghijklmnopqrstuvwxyz0123456789_-''"

lemma is_map_id_char_listed: "is_map_id_char c \<Longrightarrow> c \<in> set map_name_characters"
proof -
  have "\<forall>c. is_map_id_char c \<longrightarrow> c \<in> set map_name_characters"
    by code_simp
  then show "is_map_id_char c \<Longrightarrow> c \<in> set map_name_characters" by blast
qed

lemma unit_interval_value: "unit_interval x \<Longrightarrow> \<exists>r. x = Fin r \<and> 0 \<le> r \<and> r \<le> 1"
  by (cases x) (auto simp: unit_interval_def)

lemma positive_value: "isfinite x \<Longrightarrow> fp_lt (Fin 0) x \<Longrightarrow> \<exists>r. x = Fin r \<and> 0 < r"
  by (cases x) auto

text \<open>C30: whatever the command line, the environment and the file say, the server is started only with
  these ranges: TCP ports from 1 to 65535, between one Agent and the allowed number of them, discount
  factors that are numbers from 0 to 1, a positive temperature, a nonempty map name of letters, digits,
  underscores and hyphens, one of the two modes, positive dimensions, limits and time-outs, and a regular
  model file in evaluation mode.\<close>

theorem service_started_with_valid_settings:
  assumes "Started st \<in> set (fst (snd (main_run w args marker)))"
  shows "{sv_listen_port st, sv_model_port st, sv_sample_port st} \<subseteq> {1..65535} \<and>
    mz_agent_count (sv_maze st) \<in> {1..max_agents (sv_training st)} \<and>
    (\<exists>g l t. gamma (sv_training st) = Fin g \<and> gae_lambda (sv_training st) = Fin l \<and>
       training_temperature (sv_training st) = Fin t \<and> 0 \<le> g \<and> g \<le> 1 \<and> 0 \<le> l \<and> l \<le> 1 \<and> 0 < t) \<and>
    mz_fixed_map_id (sv_maze st) \<noteq> [] \<and> set (mz_fixed_map_id (sv_maze st)) \<subseteq> set map_name_characters \<and>
    run_mode (sv_training st) \<in> {kTraining, kEvaluation} \<and>
    action_mask_mode (sv_training st) \<in> {''disabled'', ''required''} \<and>
    (\<forall>n \<in> {mz_episode_max_steps (sv_maze st), mz_ray_max_range (sv_maze st),
        expected_obs_dim (sv_training st), expected_action_dim (sv_training st),
        startup_timeout_ms (sv_training st), poll_interval_ms (sv_training st),
        model_rpc_timeout_ms (sv_training st), envelope_max_transitions (sv_training st),
        rpc_timeout_ms (sv_training st), max_attempts (sv_training st), enqueue_timeout_ms (sv_training st),
        drain_timeout_ms (sv_training st), recovery_timeout_ms (sv_training st),
        sv_health_timeout_ms st, sv_status_poll_interval_ms st}. 1 \<le> n) \<and>
    1 \<le> unat (tmax (sv_training st)) \<and> 1 \<le> envelope_max_bytes (sv_training st) \<and>
    1 \<le> outbound_max_envelopes (sv_training st) \<and> 1 \<le> outbound_max_estimated_bytes (sv_training st) \<and>
    (run_mode (sv_training st) = kEvaluation \<longrightarrow> cw_regular (pw_config w) (sv_evaluation_model_path st))"
proof -
  obtain p rep where "ParseCommandLine args new_command_line = Inr p"
    and l: "LoadMazeConfig (pw_config w) (cl_config_path p) (cl_overrides p) = Inr (st, rep)"
    and "main_run w args marker = serve w st marker" by (rule started_loaded [OF assms])
  from loaded_checks [OF l] have c: "task_values_valid st" "model_values_valid st" "runtime_values_valid st"
    and wl: "check_workload (pw_config w) (cl_overrides p) st = Inr ()"
    by (auto simp: check_settings_def split: if_splits)
  have f: "\<exists>g l t. gamma (sv_training st) = Fin g \<and> gae_lambda (sv_training st) = Fin l \<and>
       training_temperature (sv_training st) = Fin t \<and> 0 \<le> g \<and> g \<le> 1 \<and> 0 \<le> l \<and> l \<le> 1 \<and> 0 < t"
    using c(2,3) unit_interval_value [of "gamma (sv_training st)"] unit_interval_value [of "gae_lambda (sv_training st)"]
      positive_value [of "training_temperature (sv_training st)"]
    by (auto simp: model_values_valid_def runtime_values_valid_def Let_def)
  have m: "mz_fixed_map_id (sv_maze st) \<noteq> [] \<and> set (mz_fixed_map_id (sv_maze st)) \<subseteq> set map_name_characters"
    using c(1) is_map_id_char_listed by (auto simp: task_values_valid_def map_id_matches_def list_all_iff)
  have t: "1 \<le> unat (tmax (sv_training st))"
    using c(3) by (auto simp: runtime_values_valid_def Let_def word_less_nat_alt)
  have e: "run_mode (sv_training st) = kEvaluation \<longrightarrow> cw_regular (pw_config w) (sv_evaluation_model_path st)"
    using wl by (auto simp: check_workload_def split: if_splits)
  have n: "{sv_listen_port st, sv_model_port st, sv_sample_port st} \<subseteq> {1..65535} \<and>
      mz_agent_count (sv_maze st) \<in> {1..max_agents (sv_training st)} \<and>
      run_mode (sv_training st) \<in> {kTraining, kEvaluation} \<and>
      1 \<le> envelope_max_bytes (sv_training st) \<and> 1 \<le> outbound_max_envelopes (sv_training st) \<and>
      1 \<le> outbound_max_estimated_bytes (sv_training st)"
    using c(3) by (auto simp: runtime_values_valid_def valid_port_def is_valid_mode_def Let_def)
  show ?thesis using c f m t e n
    by (simp add: task_values_valid_def model_values_valid_def runtime_values_valid_def Let_def)
qed

text \<open>A process that starts.\<close>

definition demo_process :: process_world where
  "demo_process = \<lparr>pw_config = demo_config_world, pw_inspect = (\<lambda>_ _ _. False), pw_started = True,
     pw_server = True, pw_managed = None, pw_marker_io = \<lparr>mi_directory = True, mi_open = True, mi_flush = True,
     mi_rename = True\<rparr>, pw_source = \<lparr>component = ''ai'', instance_id = ''ai-0'', lifecycle_epoch = 1\<rparr>,
     pw_drained = True\<rparr>"

theorem service_started_with_valid_settings_witness:
  "\<exists>st. Started st \<in> set (fst (snd (main_run demo_process [''--config'', ''c.yaml''] None))) \<and>
     sv_listen_port st \<in> {1..65535}"
proof -
  obtain st rep where l: "LoadMazeConfig demo_config_world ''c.yaml'' no_overrides = Inr (st, rep)"
    using demo_load by blast
  have "main_run demo_process [''--config'', ''c.yaml''] None = serve demo_process st None"
    using l by (simp add: main_run_def option_handler_def take_config_def new_command_line_def and_then_def
        demo_process_def)
  then have s: "Started st \<in> set (fst (snd (main_run demo_process [''--config'', ''c.yaml''] None)))"
    using serve_events [of demo_process st None] by auto
  from service_started_with_valid_settings [OF s] s show ?thesis by blast
qed

text \<open>a run of the process that got as far as serving shuts the service down exactly once and as
  its last act but one or two, never leaves a managed readiness marker behind, and reports success
  only when it served and its samples were drained.\<close>

definition clean_run :: "process_world \<Rightarrow> int \<Rightarrow> process_event list \<Rightarrow> string option \<Rightarrow> bool" where
  "clean_run w code events marker \<longleftrightarrow>
     count_list events ShutDown = count_list events Serving \<and>
     count_list events Withdrawn = count_list events Announced \<and>
     count_list events Stopped = count_list events Serving \<and>
     (Announced \<notin> set events \<or> pw_managed w \<noteq> Some ''true'' \<or> marker = None) \<and>
     (code \<noteq> 0 \<or> Serving \<notin> set events \<or> pw_drained w)"

theorem process_run_shuts_down:
  "clean_run w (fst (main_run w args marker)) (fst (snd (main_run w args marker)))
     (snd (snd (main_run w args marker)))"
proof -
  have "clean_run w (fst (serve w st marker)) (fst (snd (serve w st marker))) (snd (snd (serve w st marker)))"
    for st
    by (auto simp: clean_run_def serve_def RemoveManagedReadyMarker_def split: sum.splits prod.splits)
  then show ?thesis
    by (auto simp: main_run_def clean_run_def split: sum.splits prod.splits)
qed

text \<open>Blanks inside quotes hide a sign from the check for negative numbers: the value then wraps.\<close>

lemma quoted_negative_size:
  "integer_value_ok '' -5'' \<and> SafeSize '' -5'' d = 2 ^ 64 - 5"
  by (simp add: integer_value_ok_def SafeInt64_def stoll_def SafeSize_def stoull_def scan_number_def is_space_def
      is_blank_def is_digit_def undec_def signed_value_def int64_min_def Let_def)

text \<open>A value of more than 32 bits is truncated: this \<open>rollout.tmax\<close> is 1.\<close>

lemma truncated_tmax:
  "integer_value_ok ''4294967297'' \<and> (of_nat (SafeSize ''4294967297'' d) :: u32) = 1"
  by (simp add: digits_value is_digit_def undec_def)

end
