(* ===== verification/Model_Session.thy ===== *)
theory Model_Session
  imports Model_Updates
begin

text \<open>
  \<open>task/inference/onnx_inferencer\<close>: what a model file must look like before it can become the session
  of the server, what is read of its outputs, and the inspection of such a file by \<open>main/main.cpp\<close>.  What
  the ONNX runtime reports of a file and answers to a run is an argument.
\<close>

record onnx_model =
  om_handle :: nat
  om_inputs :: nat
  om_outputs :: nat
  om_input_name :: string
  om_action_name :: string
  om_value_name :: string
  om_input_type :: int
  om_action_type :: int
  om_value_type :: int
  om_input_shape :: "int list"
  om_action_shape :: "int list"
  om_value_shape :: "int list"

text \<open>\<open>ONNX_TENSOR_ELEMENT_DATA_TYPE_FLOAT\<close>\<close>

definition onnx_float :: int where "onnx_float = 1"

definition CompatibleBatchShape :: "int list \<Rightarrow> int \<Rightarrow> bool" where
  "CompatibleBatchShape shape feature_dim \<longleftrightarrow>
     length shape = 2 \<and> (shape ! 0 = 1 \<or> shape ! 0 = -1) \<and> shape ! 1 = feature_dim"

fun comma_separated :: "string list \<Rightarrow> string" where
  "comma_separated [] = []"
| "comma_separated [x] = x"
| "comma_separated (x # xs) = x @ '','' @ comma_separated xs"

definition ShapeText :: "int list \<Rightarrow> string" where
  "ShapeText shape = ''['' @ comma_separated (map int_text shape) @ '']''"

definition shape_error :: "onnx_model \<Rightarrow> string" where
  "shape_error m =
     ''ONNX tensor type/shape does not match configured model dimensions: input(type='' @
     int_text (om_input_type m) @ '',shape='' @ ShapeText (om_input_shape m) @ ''), action(type='' @
     int_text (om_action_type m) @ '',shape='' @ ShapeText (om_action_shape m) @ ''), value(type='' @
     int_text (om_value_type m) @ '',shape='' @ ShapeText (om_value_shape m) @ '')''"

text \<open>\<open>load\<close>: the exception text of the ONNX runtime, or the session it made.\<close>

definition PrepareModel :: "string + onnx_model \<Rightarrow> string \<Rightarrow> int \<Rightarrow> int \<Rightarrow> string + prepared_model" where
  "PrepareModel load path obs_dim action_dim =
     and_then load (\<lambda>m.
       if om_inputs m \<noteq> 1 \<or> om_outputs m \<noteq> 2 then Inl ''expected one input and two outputs''
       else if om_input_name m \<noteq> ''observation'' \<or> om_action_name m \<noteq> ''action_logits'' \<or>
               om_value_name m \<noteq> ''value''
       then Inl ''ONNX tensor names do not match configured model I/O''
       else if om_input_type m \<noteq> onnx_float \<or> om_action_type m \<noteq> onnx_float \<or>
               om_value_type m \<noteq> onnx_float \<or> \<not> CompatibleBatchShape (om_input_shape m) obs_dim \<or>
               \<not> CompatibleBatchShape (om_action_shape m) action_dim \<or>
               \<not> CompatibleBatchShape (om_value_shape m) 1
       then Inl (shape_error m)
       else Inr \<lparr>prep_session = Some (om_handle m), prep_path = path\<rparr>)"

definition LoadModel ::
  "string + onnx_model \<Rightarrow> string \<Rightarrow> int \<Rightarrow> int \<Rightarrow> 'g runtime \<Rightarrow> string + 'g runtime" where
  "LoadModel load path obs_dim action_dim rt =
     and_then (PrepareModel load path obs_dim action_dim) (\<lambda>p. Inr (ActivatePreparedModel p rt))"

section \<open>Inference\<close>

record tensor =
  t_shape :: "int list"
  t_data :: "f32 list"

text \<open>
  The outputs as the code reads them: as many logits as the second dimension, narrowed to 32 bits, says,
  and the first value.  \<open>None\<close>: the code would read outside of a buffer.
\<close>

definition narrowed :: "int \<Rightarrow> int" where
  "narrowed d = sint (word_of_int d :: 32 word)"

definition read_outputs :: "tensor \<Rightarrow> tensor \<Rightarrow> (f32 list \<times> f32) option" where
  "read_outputs lg v =
     (let n = narrowed (t_shape lg ! 1)
      in if length (t_shape lg) < 2 \<or> n < 0 \<or> length (t_data lg) < nat n \<or> t_data v = [] then None
         else Some (take (nat n) (t_data lg), hd (t_data v)))"

text \<open>
  \<open>create\<close> is \<open>CreateTensor\<close> and \<open>run\<close> the session's \<open>Run\<close>; both may throw.  \<open>InferSession\<close> of Runtime is
  this function with the ONNX runtime as its parameter \<open>run_session\<close>.
\<close>

definition infer_tensors ::
  "(f32 list \<Rightarrow> int list \<Rightarrow> string + tensor) \<Rightarrow> (nat \<Rightarrow> tensor \<Rightarrow> string + (tensor \<times> tensor)) \<Rightarrow>
   nat option \<Rightarrow> f32 list \<Rightarrow> int \<Rightarrow> (string + (f32 list \<times> f32)) option" where
  "infer_tensors create run sess obs obs_dim =
     (case sess of
        None \<Rightarrow> Some (Inl ''ONNX session is not loaded'')
      | Some h \<Rightarrow>
          (case and_then (create obs [1, obs_dim]) (run h) of
             Inl err \<Rightarrow> Some (Inl err)
           | Inr (lg, v) \<Rightarrow> map_option Inr (read_outputs lg v)))"

definition InferPrepared where
  "InferPrepared create run p obs obs_dim = infer_tensors create run (prep_session p) obs obs_dim"

section \<open>Inspection of a model file\<close>

definition inspection_report :: "int \<Rightarrow> int \<Rightarrow> onnx_model \<Rightarrow> string" where
  "inspection_report obs_dim action_count m =
     (let q = [CHR 0x22];
          field = (\<lambda>name. q @ name @ q @ '':'');
          part = (\<lambda>name tensor shape. field name @ ''{'' @ field ''name'' @ q @ tensor @ q @ '','' @
            field ''dtype'' @ q @ ''float32'' @ q @ '','' @ field ''shape'' @ ShapeText shape @ ''}'')
      in ''{'' @ field ''observation_dimension'' @ int_text obs_dim @ '','' @
         field ''action_count'' @ int_text action_count @ '','' @
         part ''input'' ''observation'' (om_input_shape m) @ '','' @
         part ''action_output'' ''action_logits'' (om_action_shape m) @ '','' @
         part ''value_output'' ''value'' (om_value_shape m) @ ''}'' @ [CHR 0x0A])"

text \<open>
  The exit code, with what goes to the standard output and to the standard error.  \<open>regular\<close>: the path
  names a regular file that is no link, and the file system said so without an error.
\<close>

definition InspectModel ::
  "bool \<Rightarrow> string + onnx_model \<Rightarrow> string \<Rightarrow> int \<Rightarrow> int \<Rightarrow> int \<times> string \<times> string" where
  "InspectModel regular load path obs_dim action_count =
     (if \<not> regular
      then (2, [], ''--inspect-model must name an explicit regular ONNX file'' @ [CHR 0x0A])
      else case load of
             Inl e \<Rightarrow> (2, [], ''model inspection failed: '' @ e @ [CHR 0x0A])
           | Inr m \<Rightarrow>
               (case PrepareModel load path obs_dim action_count of
                  Inl e \<Rightarrow> (2, [], ''model inspection failed: '' @ e @ [CHR 0x0A])
                | Inr _ \<Rightarrow> (0, inspection_report obs_dim action_count m, [])))"

section \<open>What a prepared model promises\<close>

text \<open>A prepared session is valid, bound to the file, and has the tensors the server feeds and reads.\<close>

lemma prepared_model_valid:
  "PrepareModel load path obs_dim action_dim = Inr p \<Longrightarrow>
     prepared_valid p \<and> prep_path p = path \<and>
     (\<exists>m b c. load = Inr m \<and> om_input_shape m = [b, obs_dim] \<and> om_action_shape m = [c, action_dim])"
  by (auto simp: PrepareModel_def and_then_Inr prepared_valid_def CompatibleBatchShape_def
      length_Suc_conv numeral_2_eq_2 split: if_splits)

lemma LoadModel_loaded:
  "LoadModel load path obs_dim action_dim rt = Inr rt' \<Longrightarrow>
     loaded_session rt' \<noteq> None \<and> current_model_path rt' = path"
  using prepared_model_valid
  by (fastforce simp: LoadModel_def and_then_Inr ActivatePreparedModel_def prepared_valid_def)

text \<open>
  A session whose outputs have the shapes and sizes it declared never makes the code read outside of a
  buffer, and yields one logit per configured action.
\<close>

definition honours :: "onnx_model \<Rightarrow> tensor \<Rightarrow> tensor \<Rightarrow> bool" where
  "honours m lg v \<longleftrightarrow>
     list_all2 (\<lambda>d e. d = e \<or> d = -1 \<and> e = 1) (om_action_shape m) (t_shape lg) \<and>
     int (length (t_data lg)) = prod_list (t_shape lg) \<and> t_data v \<noteq> []"

lemma prepared_model_infers:
  assumes "PrepareModel (Inr m) path obs_dim action_dim = Inr p" "0 < action_dim" "action_dim < 2 ^ 31"
    and "create obs [1, obs_dim] = Inr t" "run (om_handle m) t = Inr (lg, v)" "honours m lg v"
  shows "\<exists>logits value. InferPrepared create run p obs obs_dim = Some (Inr (logits, value)) \<and>
    int (length logits) = action_dim"
proof -
  obtain b where sh: "om_action_shape m = [b, action_dim]" "b = 1 \<or> b = -1" and h: "prep_session p = Some (om_handle m)"
    using assms(1) by (auto simp: PrepareModel_def CompatibleBatchShape_def length_Suc_conv numeral_2_eq_2 split: if_splits)
  from assms(6) sh assms(2) have t: "t_shape lg = [1, action_dim]" "int (length (t_data lg)) = action_dim" "t_data v \<noteq> []"
    by (auto simp: honours_def list_all2_Cons1)
  then have "length (t_data lg) = nat action_dim" by linarith
  moreover have "narrowed action_dim = action_dim"
    using assms(2,3) by (simp add: narrowed_def sint_sbintrunc' signed_take_bit_int_eq_self)
  ultimately show ?thesis using assms(2,4,5) t
    by (simp add: InferPrepared_def infer_tensors_def h read_outputs_def Let_def)
qed

text \<open>An inspection succeeds exactly on a file that the server would accept as a model.\<close>

lemma inspection_accepts_iff:
  "fst (InspectModel regular load path obs_dim action_count) = 0 \<longleftrightarrow>
     regular \<and> (\<exists>p. PrepareModel load path obs_dim action_count = Inr p)"
  by (auto simp: InspectModel_def split: sum.splits)
    (auto simp: PrepareModel_def)

end
