(* ===== verification/Fragment_Boundary.thy ===== *)
theory Fragment_Boundary
  imports Prelude
begin

text \<open>
  \<open>task/model/model_boundary.h\<close> and \<open>task/model/fragment_boundary.h\<close>: helpers for fragments of samples
  that end at a model boundary.  Nothing in the server includes them.
\<close>

definition boundary_ShouldFetchModelCandidate :: "u64 \<Rightarrow> u64 option \<Rightarrow> u64 \<Rightarrow> bool" where
  "boundary_ShouldFetchModelCandidate active staged latest \<longleftrightarrow> staged = None \<and> latest > active"

definition ShouldFlushAgentFragment :: "nat \<Rightarrow> int \<Rightarrow> bool \<Rightarrow> bool" where
  "ShouldFlushAgentFragment cached configured waiting \<longleftrightarrow>
     \<not> (cached = 0 \<or> configured \<le> 0) \<and> (cached \<ge> nat configured \<or> waiting)"

definition SelectPerAgentFragmentSamples :: "int \<Rightarrow> int \<Rightarrow> int \<Rightarrow> int \<Rightarrow> bool \<Rightarrow> int" where
  "SelectPerAgentFragmentSamples active_samples quantum agent_num configured all_active =
     (if \<not> all_active \<or> active_samples < 0 \<or> quantum \<le> 0 \<or> agent_num \<le> 0 \<or> configured \<le> 0 then configured
      else let remainder = active_samples mod quantum;
               boundary = (if remainder = 0 then quantum else quantum - remainder)
           in if boundary mod agent_num \<noteq> 0 then configured
              else let candidate = boundary div agent_num
                   in if candidate \<le> 0 \<or> configured < candidate then configured else candidate)"

record fragment_state =
  fr_pending_action :: bool
  fr_cached_samples :: bool
  fr_pending_batch :: bool

definition AllLocalAgentsAtFragmentBoundary :: "fragment_state list \<Rightarrow> bool" where
  "AllLocalAgentsAtFragmentBoundary agents \<longleftrightarrow>
     list_all (\<lambda>a. \<not> (fr_pending_action a \<or> fr_cached_samples a \<or> fr_pending_batch a)) agents"

text \<open>A shortened fragment of every Agent ends exactly at the next multiple of the quantum.\<close>

lemma shortened_fragment_reaches_boundary:
  assumes "SelectPerAgentFragmentSamples active_samples quantum agent_num configured all_active \<noteq> configured"
  shows "0 < SelectPerAgentFragmentSamples active_samples quantum agent_num configured all_active \<and>
    SelectPerAgentFragmentSamples active_samples quantum agent_num configured all_active < configured \<and>
    (active_samples + agent_num * SelectPerAgentFragmentSamples active_samples quantum agent_num configured all_active)
      mod quantum = 0"
proof -
  define r where "r = active_samples mod quantum"
  define b where "b = (if r = 0 then quantum else quantum - r)"
  have c: "SelectPerAgentFragmentSamples active_samples quantum agent_num configured all_active = b div agent_num"
    "b mod agent_num = 0" "0 < b div agent_num" "b div agent_num < configured"
    using assms by (auto simp: SelectPerAgentFragmentSamples_def Let_def r_def b_def split: if_splits)
  have "(active_samples + b) mod quantum = (r + b) mod quantum" by (simp add: r_def mod_add_left_eq)
  also have "\<dots> = 0" by (simp add: b_def)
  finally show ?thesis using c by (simp add: mult.commute mod_0_imp_dvd)
qed

end
