(* ===== verification/Runtime_Status.thy ===== *)
theory Runtime_Status
  imports Task_Service
begin

text \<open>
  What the runtime reports of itself: the status RPC and the metric catalog of
  \<open>task/runtime/training_runtime.tpp\<close>, with \<open>proto/rl_sdk/metric_catalog.h\<close>.
\<close>

section \<open>Status\<close>

record status_rsp =
  st_aiserver :: service_identity
  st_state :: aiserver_state
  st_ready :: bool
  st_distributor_ready :: bool
  st_model_state :: model_state
  st_model_feedback :: feedback
  st_loaded_model :: "model_identity option"
  st_staged_model :: "model_identity option"
  st_queue_envelopes :: int
  st_queue_transitions :: int
  st_queue_estimated_bytes :: int
  st_queue_high_watermark :: int
  st_produced_transitions :: int
  st_produced_envelopes :: int
  st_push_attempts :: int
  st_accepted_transitions :: int
  st_duplicate_attempts :: int
  st_rejected_attempts :: int
  st_retry_attempts :: int
  st_final_drop_transitions :: int
  st_active_sessions :: int
  st_active_segments :: int
  st_update_rpcs :: int
  st_update_sum_ms :: f64
  st_update_max_ms :: f64
  st_inferences :: int
  st_inference_sum_ms :: f64
  st_inference_max_ms :: f64
  st_push_rpcs :: int
  st_push_sum_ms :: f64
  st_push_max_ms :: f64
  st_model_switches :: int
  st_quarantined_transitions :: int
  st_quarantined_envelopes :: int
  st_closed_segments :: int
  st_pending_excluded :: int
  st_estimator_failures :: int
  st_model_activations :: int
  st_superseded :: int
  st_close_counts :: "(close_reason \<times> int) list"
  st_last_error :: string
  st_timestamp_ms :: int

text \<open>The reasons in the order of their numbers.\<close>

definition close_reasons :: "close_reason list" where
  "close_reasons = [CloseUnspecified, EnvironmentTerminated, CloseTmax, ClientControlledClose,
     ClientRecoveryTimeout, AiserverControlledShutdown]"

definition sorted_counts :: "(close_reason \<Rightarrow> int option) \<Rightarrow> (close_reason \<times> int) list" where
  "sorted_counts m = concat (map (\<lambda>r. case m r of None \<Rightarrow> [] | Some n \<Rightarrow> [(r, n)]) close_reasons)"

text \<open>
  \<open>sn\<close> is the snapshot of the distributor taken first; \<open>later\<close> is the distributor when readiness is
  asked for.
\<close>

definition GetAIServerStatus :: "dist_snapshot \<Rightarrow> dist \<Rightarrow> int \<Rightarrow> 'g runtime \<Rightarrow> status_rsp" where
  "GetAIServerStatus sn later now rt =
     (let st = sn_stats sn;
          identity = (\<lambda>m. if HasModelIdentity m then Some (manifest_identity m) else None)
      in \<lparr>st_aiserver = \<lparr>component = ''rl-aiserver'', instance_id = producer_instance_id rt,
            lifecycle_epoch = producer_lifecycle_epoch rt\<rparr>,
          st_state = server_state rt, st_ready = IsReady (rt\<lparr>distributor := later\<rparr>),
          st_distributor_ready = (run_mode (config rt) \<noteq> kTraining \<or>
            (sn_ready sn \<and> \<not> sn_transient_retry sn \<and> \<not> sn_terminal_fault sn)),
          st_model_state = model_load_state rt, st_model_feedback = model_feedback rt,
          st_loaded_model = identity (active_manifest rt),
          st_staged_model = identity (staged_manifest rt),
          st_queue_envelopes = int (sn_queue_envelopes sn),
          st_queue_transitions = sn_queue_transitions sn,
          st_queue_estimated_bytes = sn_queue_estimated_bytes sn,
          st_queue_high_watermark = queue_high_watermark st,
          st_produced_transitions = produced_unique_transitions rt,
          st_produced_envelopes = produced_unique_envelopes rt,
          st_push_attempts = push_attempt_count st,
          st_accepted_transitions = accepted_unique_transitions st,
          st_duplicate_attempts = duplicate_push_attempt_count st,
          st_rejected_attempts = rejected_push_attempt_count st,
          st_retry_attempts = retry_attempt_count st,
          st_final_drop_transitions = final_drop_unique_transitions st,
          st_active_sessions = active_session_count
            (GetClientActivitySnapshot (session_mgr rt) now (recovery_timeout_ms (config rt))),
          st_active_segments = CountCachedSegments rt,
          st_update_rpcs = update_rpc_count rt, st_update_sum_ms = update_rpc_latency_sum_ms rt,
          st_update_max_ms = update_rpc_latency_max_ms rt,
          st_inferences = inference_count rt, st_inference_sum_ms = inference_latency_sum_ms rt,
          st_inference_max_ms = inference_latency_max_ms rt,
          st_push_rpcs = push_rpc_count st, st_push_sum_ms = push_rpc_latency_sum_ms st,
          st_push_max_ms = push_rpc_latency_max_ms st,
          st_model_switches = model_switch_count rt,
          st_quarantined_transitions = quarantined_transition_count rt,
          st_quarantined_envelopes = quarantined_envelope_count rt,
          st_closed_segments = closed_segment_count rt,
          st_pending_excluded = pending_action_excluded_count rt,
          st_estimator_failures = rollout_estimator_failure_count rt,
          st_model_activations = model_activation_count rt,
          st_superseded = superseded_without_activation_count rt,
          st_close_counts = sorted_counts (segment_close_counts rt),
          st_last_error = if_empty (rt_last_error rt) (sn_last_error sn) (rt_last_error rt),
          st_timestamp_ms = now\<rparr>)"

section \<open>Metric catalog\<close>

record catalog_entry =
  ce_definition :: metric_definition
  ce_status_method :: string
  ce_status_field :: string
  ce_status_count_field :: string

record catalog =
  cat_source :: service_identity
  cat_entries :: "catalog_entry list"

definition MetricSourceIdentity :: "'g runtime \<Rightarrow> service_identity" where
  "MetricSourceIdentity rt =
     \<lparr>component = ''rl-aiserver'', instance_id = producer_instance_id rt,
      lifecycle_epoch = producer_lifecycle_epoch rt\<rparr>"

definition registry_catalog :: "service_identity \<Rightarrow> registry \<Rightarrow> catalog" where
  "registry_catalog source reg =
     \<lparr>cat_source = source,
      cat_entries = map (\<lambda>d. \<lparr>ce_definition = d, ce_status_method = [], ce_status_field = [],
        ce_status_count_field = []\<rparr>) (registry_Catalog reg)\<rparr>"

definition AddStatusMetric ::
  "string \<Rightarrow> string \<Rightarrow> string \<Rightarrow> string \<Rightarrow> string \<Rightarrow> string \<Rightarrow> string \<Rightarrow> value_type \<Rightarrow> string \<Rightarrow>
   catalog \<Rightarrow> catalog" where
  "AddStatusMetric mid label cat unit scp method field type count_field c =
     c\<lparr>cat_entries := cat_entries c @
        [\<lparr>ce_definition =
            \<lparr>metric_id = mid, display_name = label, unit_name = unit, metric_scope = scp,
             value_kind = type,
             aggregation_kind = (if type = ValueSumCount then AggMean else AggLatest),
             denominator = (if type = ValueSumCount then scp else []), category = cat,
             description = []\<rparr>,
          ce_status_method = method, ce_status_field = field, ce_status_count_field = count_field\<rparr>]\<rparr>"

definition status_method :: string where
  "status_method = ''rl.training.v1.AIServerTrainingStatusService/GetAIServerStatus''"

definition MetricCatalog :: "'g runtime \<Rightarrow> catalog" where
  "MetricCatalog rt =
     AddStatusMetric ''server.latency.update_rpc.max_ms'' ''Update RPC Latency Max'' ''latency'' ''ms''
       ''update_rpc'' status_method ''update_rpc_latency_max_ms'' ValueScalar ''update_rpc_count''
     (AddStatusMetric ''server.latency.update_rpc.mean_ms'' ''Update RPC Latency Mean'' ''latency'' ''ms''
       ''update_rpc'' status_method ''update_rpc_latency_sum_ms'' ValueSumCount ''update_rpc_count''
     (AddStatusMetric ''server.latency.inference.max_ms'' ''Inference Latency Max'' ''latency'' ''ms''
       ''inference'' status_method ''inference_latency_max_ms'' ValueScalar ''inference_count''
     (AddStatusMetric ''server.latency.inference.mean_ms'' ''Inference Latency Mean'' ''latency'' ''ms''
       ''inference'' status_method ''inference_latency_sum_ms'' ValueSumCount ''inference_count''
     (AddStatusMetric ''server.latency.sample_send.mean_ms'' ''Sample Send Latency'' ''latency'' ''ms''
       ''push_rpc'' status_method ''push_rpc_latency_sum_ms'' ValueSumCount ''push_rpc_count''
     (AddStatusMetric ''sample.flow.final_drop.total'' ''Final Drop'' ''sample_flow'' ''count''
       ''aiserver'' status_method ''final_drop_unique_transitions'' ValueUnsigned []
     (AddStatusMetric ''sample.flow.outbound_pending.total'' ''Outbound Pending'' ''sample_flow'' ''count''
       ''aiserver'' status_method ''outbound_queue_transitions'' ValueUnsigned []
     (AddStatusMetric ''sample.flow.produced.total'' ''Produced Samples'' ''sample_flow'' ''count''
       ''aiserver'' status_method ''produced_unique_transitions'' ValueUnsigned []
     (registry_catalog (MetricSourceIdentity rt) (metric_registry rt)))))))))"

end
