(* ===== verification/Shutdown.thy ===== *)
theory Shutdown
  imports Lifecycle
begin

text \<open>
  \<open>BeginShutdown\<close> of \<open>task/runtime/training_runtime.tpp\<close>: three critical sections, with the delivery
  of the last envelopes and the drain of the sender between them.  Other calls may run while the mutex
  is free.
\<close>

section \<open>First section: preparing to close everything\<close>

record 'g shutdown_plan =
  sp_fault :: bool
  sp_fault_error :: string
  sp_ok :: bool
  sp_error :: string
  sp_sessions :: "(string, session) table"
  sp_txn :: "'g txn"

definition clear_all_pending :: "session \<Rightarrow> session" where
  "clear_all_pending s = s\<lparr>agents := map (\<lambda>(i, a). (i, clear_pending a)) (agents s)\<rparr>"

definition shutdown_close_error :: "close_outcome \<Rightarrow> string" where
  "shutdown_close_error r =
     (case r of
        CloseError e \<Rightarrow> ''shutdown Agent segment close failed: '' @ e
      | _ \<Rightarrow> ''shutdown Agent segment has no finite pinned bootstrap'')"

definition end_session :: "session \<Rightarrow> session" where
  "end_session s =
     (if phase s = PhaseEpisodeRunning \<or> phase s = PhaseEpisodeTerminal
      then ReleaseEpisodePolicy (s\<lparr>phase := PhaseAborted\<rparr>) else s)"

text \<open>One turn of the loop over the sessions; the transaction carries the candidate counters.\<close>

definition plan_session ::
  "'g environ \<Rightarrow> session \<Rightarrow> 'g txn \<Rightarrow> 'g runtime \<Rightarrow> close_outcome \<times> 'g txn \<times> 'g runtime" where
  "plan_session env s tx rt =
     (if run_mode (config rt) = kTraining \<and> current_episode_mode s = ModeTraining
      then close_all env AiserverControlledShutdown (agent_keys s) (tx\<lparr>tx_session := s\<rparr>) rt
      else (CloseDone, tx\<lparr>tx_session := clear_all_pending s\<rparr>, rt))"

fun plan_sessions ::
  "'g environ \<Rightarrow> (string, session) table \<Rightarrow> 'g shutdown_plan \<Rightarrow> 'g runtime \<Rightarrow>
   'g shutdown_plan \<times> 'g runtime" where
  "plan_sessions env [] sp rt = (sp, rt)"
| "plan_sessions env ((sid, s) # rest) sp rt =
     (case plan_session env s (sp_txn sp) rt of
        (CloseDone, tx, rt1) \<Rightarrow>
          plan_sessions env rest
            (sp\<lparr>sp_txn := tx, sp_sessions := sp_sessions sp @ [(sid, end_session (tx_session tx))]\<rparr>) rt1
      | (r, tx, rt1) \<Rightarrow>
          (sp\<lparr>sp_ok := False, sp_error := shutdown_close_error r, sp_txn := tx\<rparr>, rt1))"

definition start_shutdown :: "'g runtime \<Rightarrow> 'g runtime" where
  "start_shutdown rt =
     rt\<lparr>shutdown_started := True, shutdown_completed := False, shutdown_succeeded := False,
        server_state := AiDraining\<rparr>"

definition new_plan :: "'g runtime \<Rightarrow> 'g shutdown_plan" where
  "new_plan rt =
     \<lparr>sp_fault = (server_state rt = AiDegraded), sp_fault_error = rt_last_error rt, sp_ok = True,
      sp_error = [], sp_sessions = [], sp_txn = new_txn rt (new_session [])\<rparr>"

definition shutdown_plan :: "'g environ \<Rightarrow> 'g runtime \<Rightarrow> 'g shutdown_plan \<times> 'g runtime" where
  "shutdown_plan env rt =
     plan_sessions env (sessions (session_mgr rt)) (new_plan rt) (start_shutdown rt)"

section \<open>Delivering the last envelopes\<close>

definition shutdown_failure :: "handover_stage \<Rightarrow> string" where
  "shutdown_failure stage =
     (case stage of
        AtReserve \<Rightarrow> ''shutdown envelope reservation failed: ''
      | AtSeal \<Rightarrow> ''shutdown envelope seal failed: ''
      | AtCommit \<Rightarrow> ''shutdown sealed envelope commit failed: '')"

definition shutdown_wait :: "handover_stage \<Rightarrow> string" where
  "shutdown_wait stage =
     (case stage of
        AtSeal \<Rightarrow> ''shutdown envelope seal is temporarily unavailable''
      | _ \<Rightarrow> ''shutdown envelope reservation is temporarily unavailable'')"

text \<open>
  One entry per turn that begins before the deadline: what the sender does before the reservation,
  before the seal and before the commit.  The result: committed, and the last error.
\<close>

fun shutdown_deliver ::
  "training_config \<Rightarrow> (envelope \<Rightarrow> nat) \<Rightarrow> envelope list \<Rightarrow>
   ((dist \<Rightarrow> dist) \<times> (dist \<Rightarrow> dist) \<times> (dist \<Rightarrow> dist)) list \<Rightarrow> string \<Rightarrow> dist \<Rightarrow> bool \<times> string \<times> dist" where
  "shutdown_deliver cfg bsize es [] err d =
     (False, if_empty err ''shutdown envelope recovery deadline expired'' err, d)"
| "shutdown_deliver cfg bsize es ((f, g, h) # turns) err d =
     (case hand_over cfg bsize g h es (f d) of
        (HandedOver, d1) \<Rightarrow> (True, [], d1)
      | (HandoverFailed stage e, d1) \<Rightarrow> (False, shutdown_failure stage @ e, d1)
      | (HandoverWaits stage e, d1) \<Rightarrow>
          shutdown_deliver cfg bsize es turns (if_empty e (shutdown_wait stage) e) d1)"

definition shutdown_commit ::
  "'g environ \<Rightarrow> ((dist \<Rightarrow> dist) \<times> (dist \<Rightarrow> dist) \<times> (dist \<Rightarrow> dist)) list \<Rightarrow> 'g shutdown_plan \<Rightarrow>
   'g runtime \<Rightarrow> bool \<times> string \<times> 'g runtime" where
  "shutdown_commit env turns sp rt =
     (let es = tx_output (sp_txn sp)
      in if run_mode (config rt) = kTraining \<and> sp_ok sp \<and> es \<noteq> []
         then (case shutdown_deliver (config rt) (byte_size env) es turns [] (distributor rt) of
                 (ok, err, d) \<Rightarrow> (ok, err, rt\<lparr>distributor := d\<rparr>))
         else (run_mode (config rt) \<noteq> kTraining \<or> es = [], sp_error sp, rt))"

section \<open>Second section: storing the outcome\<close>

definition store_plan :: "(string, session) table \<Rightarrow> session_manager \<Rightarrow> session_manager" where
  "store_plan t m = fold (\<lambda>(sid, s). SetSession sid s) t m"

definition discard_everything :: "'g runtime \<Rightarrow> 'g runtime" where
  "discard_everything rt =
     fold (\<lambda>sid r. case GetSession (session_mgr r) sid of
             None \<Rightarrow> r | Some s \<Rightarrow> discard_session AiserverControlledShutdown sid s r)
       (GetSessionIds (session_mgr rt)) rt"

definition settle_sessions :: "'g shutdown_plan \<Rightarrow> bool \<Rightarrow> string \<Rightarrow> 'g runtime \<Rightarrow> 'g runtime" where
  "settle_sessions sp committed err rt =
     (if sp_ok sp \<and> committed
      then store_counts (sp_txn sp) (rt\<lparr>session_mgr := store_plan (sp_sessions sp) (session_mgr rt)\<rparr>)
      else (let rt1 = discard_everything (rt\<lparr>quarantined_envelope_count :=
                  quarantined_envelope_count rt + int (length (tx_output (sp_txn sp)))\<rparr>)
            in if err = [] then rt1 else rt1\<lparr>rt_last_error := err\<rparr>))"

text \<open>Also yields whether the close counts as prepared from here on.\<close>

definition shutdown_settle ::
  "reward_output \<Rightarrow> 'g shutdown_plan \<Rightarrow> bool \<Rightarrow> string \<Rightarrow> 'g runtime \<Rightarrow> string + (bool \<times> 'g runtime)" where
  "shutdown_settle ro sp committed err rt =
     and_then (FlushRewardMetricsLocked ro (settle_sessions sp committed err rt))
       (\<lambda>(flushed, rt1).
          let rt2 = (if flushed then rt1
                     else rt1\<lparr>rt_last_error := ''reward tail was not accepted by the local journal''\<rparr>)
          in Inr (sp_ok sp \<and> flushed, rt2\<lparr>metric_events := journal_Finalize (metric_events rt2)\<rparr>))"

section \<open>Third section: the verdict\<close>

definition bit :: "bool \<Rightarrow> string" where
  "bit b = (if b then ''1'' else ''0'')"

definition model_state_number :: "model_state \<Rightarrow> int" where
  "model_state_number m =
     (case m of ModelUnspecified \<Rightarrow> 0 | ModelWaiting \<Rightarrow> 1 | ModelReady \<Rightarrow> 2 | ModelFailed \<Rightarrow> 3)"

definition shutdown_report ::
  "bool \<Rightarrow> bool \<Rightarrow> bool \<Rightarrow> dist_snapshot \<Rightarrow> string \<Rightarrow> string \<Rightarrow> 'g runtime \<Rightarrow> string" where
  "shutdown_report drained metrics_settled released sn fault_error release_error rt =
     (let st = sn_stats sn; cause = if_empty (rt_last_error rt) fault_error (rt_last_error rt)
      in ''AIServer shutdown did not settle: drained='' @ bit drained @
         '' outbound_transitions='' @ int_text (sn_queue_transitions sn) @
         '' outbound_envelopes='' @ int_text (int (sn_queue_envelopes sn)) @
         '' cached_transitions='' @ int_text (CountCachedTransitions rt) @
         '' cached_segments='' @ int_text (CountCachedSegments rt) @
         '' unresolved_push_transitions='' @ int_text (unresolved_push_outcome_unknown_transitions st) @
         '' unresolved_push_envelopes='' @ int_text (unresolved_push_outcome_unknown_envelopes st) @
         '' final_drop_transitions='' @ int_text (final_drop_unique_transitions st) @
         '' final_drop_envelopes='' @ int_text (final_drop_unique_envelopes st) @
         '' model_ack_pending='' @ bit (model_ack_pending rt) @
         '' model_state='' @ int_text (model_state_number (model_load_state rt)) @
         '' metric_final_ack='' @ bit metrics_settled @
         '' workspace_released='' @ bit released @
         (if cause = [] then [] else '' cause='' @ cause) @
         (if release_error = [] then [] else '' workspace_error='' @ release_error))"

definition model_state_settled :: "'g runtime \<Rightarrow> bool" where
  "model_state_settled rt \<longleftrightarrow>
     \<not> model_ack_pending rt \<and> model_load_state rt \<noteq> ModelFailed \<and>
     (\<not> started rt \<or> model_load_state rt = ModelReady)"

definition sender_settled :: "dist_snapshot \<Rightarrow> bool" where
  "sender_settled sn \<longleftrightarrow>
     \<not> sn_degraded sn \<and> \<not> sn_terminal_fault sn \<and> sn_queue_envelopes sn = 0 \<and>
     sn_queue_transitions sn = 0 \<and>
     unresolved_push_outcome_unknown_transitions (sn_stats sn) = 0 \<and>
     unresolved_push_outcome_unknown_envelopes (sn_stats sn) = 0 \<and>
     final_drop_unique_transitions (sn_stats sn) = 0 \<and> final_drop_unique_envelopes (sn_stats sn) = 0"

text \<open>\<open>settled\<close>: the close was prepared, committed and its rewards accepted.\<close>

definition shutdown_verdict ::
  "'g shutdown_plan \<Rightarrow> bool \<Rightarrow> bool \<Rightarrow> bool \<Rightarrow> string + unit \<Rightarrow> dist_snapshot \<Rightarrow> 'g runtime \<Rightarrow>
   bool \<times> 'g runtime" where
  "shutdown_verdict sp settled drained metrics_settled release sn rt =
     (let released = (case release of Inl _ \<Rightarrow> False | Inr _ \<Rightarrow> True);
          good = (\<not> sp_fault sp \<and> settled \<and> server_state rt \<noteq> AiDegraded \<and> model_state_settled rt \<and>
            drained \<and> metrics_settled \<and> released \<and> sender_settled sn \<and>
            CountCachedTransitions rt = 0 \<and> CountCachedSegments rt = 0);
          rt1 = rt\<lparr>shutdown_succeeded := good, shutdown_completed := True\<rparr>
      in if good then (True, rt1\<lparr>server_state := AiStopped\<rparr>)
         else (False, rt1\<lparr>server_state := AiDegraded,
                rt_last_error := shutdown_report drained metrics_settled released sn (sp_fault_error sp)
                  (case release of Inl e \<Rightarrow> e | Inr _ \<Rightarrow> []) rt\<rparr>))"

section \<open>The whole operation\<close>

text \<open>
  \<open>se_window\<close> and \<open>se_later\<close> are what other calls do to the runtime while the mutex is free, before
  the second and before the third section; \<open>se_drain\<close> is \<open>StopAndDrain\<close>, \<open>se_metrics\<close> the answer of
  \<open>WaitForFinalAcknowledgement\<close>.  A second call answers with the outcome of the first.
\<close>

record 'g shutdown_env =
  se_env :: "'g environ"
  se_turns :: "((dist \<Rightarrow> dist) \<times> (dist \<Rightarrow> dist) \<times> (dist \<Rightarrow> dist)) list"
  se_window :: "'g runtime \<Rightarrow> 'g runtime"
  se_reward :: reward_output
  se_drain :: "dist \<Rightarrow> bool \<times> dist"
  se_metrics :: bool
  se_release :: release_io
  se_later :: "'g runtime \<Rightarrow> 'g runtime"
  se_steady :: int

definition shutdown_finish ::
  "'g shutdown_env \<Rightarrow> 'g shutdown_plan \<Rightarrow> bool \<Rightarrow> 'g runtime \<Rightarrow> bool \<times> 'g runtime" where
  "shutdown_finish se sp settled rt =
     (let training = (run_mode (config rt) = kTraining);
          (drained, d) = (if training then se_drain se (distributor rt) else (True, distributor rt));
          (release, rt1) = ReleaseTrainingWorkspaceLease (se_release se) (rt\<lparr>distributor := d\<rparr>);
          rt2 = se_later se rt1
      in shutdown_verdict sp settled drained (\<not> training \<or> se_metrics se) release
           (GetSnapshot (config rt2) (se_steady se) (distributor rt2)) rt2)"

definition BeginShutdown :: "'g shutdown_env \<Rightarrow> 'g runtime \<Rightarrow> string + (bool \<times> 'g runtime)" where
  "BeginShutdown se rt =
     (if shutdown_started rt then Inr (shutdown_completed rt \<and> shutdown_succeeded rt, rt)
      else case shutdown_plan (se_env se) rt of
             (sp, rt1) \<Rightarrow>
               (case shutdown_commit (se_env se) (se_turns se) sp rt1 of
                  (committed, err, rt2) \<Rightarrow>
                    and_then (shutdown_settle (se_reward se) sp committed err (se_window se rt2))
                      (\<lambda>(prepared, rt3).
                         Inr (shutdown_finish se sp (prepared \<and> committed) rt3))))"

end
