(* ===== verification/Shutdown_Runs.thy ===== *)
theory Shutdown_Runs
  imports Shutdown Service_Runs
begin

text \<open>
  A draining server refuses every command but the closing of sessions, and shutdown accounts for every
  transition that was cached when it began.
\<close>

section \<open>Freezing\<close>

text \<open>Nothing that matters for transitions changes between two states of the runtime.\<close>

definition stored_agents :: "'g runtime \<Rightarrow> (string \<times> string \<times> (int, agent) table) list" where
  "stored_agents rt = map (\<lambda>(sid, s). (sid, session_id s, agents s)) (sessions (session_mgr rt))"

lemma stored_agents_keys: "map fst (stored_agents rt) = map fst (sessions (session_mgr rt))"
  by (simp add: stored_agents_def comp_def split_def)

definition frozen :: "'g runtime \<Rightarrow> 'g runtime \<Rightarrow> bool" where
  "frozen rt rt' \<longleftrightarrow>
     config rt' = config rt \<and> produced_unique_transitions rt' = produced_unique_transitions rt \<and>
     quarantined_transition_count rt' = quarantined_transition_count rt \<and>
     stored_agents rt' = stored_agents rt"

lemma frozen_refl [simp]: "frozen rt rt"
  by (simp add: frozen_def)

lemma frozen_trans: "frozen rt rt1 \<Longrightarrow> frozen rt1 rt2 \<Longrightarrow> frozen rt rt2"
  by (simp add: frozen_def)

lemma frozen_same:
  assumes "session_mgr rt' = session_mgr rt" "config rt' = config rt"
    "produced_unique_transitions rt' = produced_unique_transitions rt"
    "quarantined_transition_count rt' = quarantined_transition_count rt"
  shows "frozen rt rt'"
  using assms by (simp add: frozen_def stored_agents_def)

lemma frozen_core: "core rt' = core rt \<Longrightarrow> frozen rt rt'"
  by (rule frozen_same [OF core_fields(1,2,4) core_balance(3)])

lemma stored_agents_put_at:
  assumes "map_of t sid = Some s" "session_id s' = session_id s" "agents s' = agents s" "distinct (map fst t)"
  shows "map (\<lambda>(sid, s). (sid, session_id s, agents s)) (put_at sid s' t) =
    map (\<lambda>(sid, s). (sid, session_id s, agents s)) t"
proof -
  have "b = s" if "(sid, b) \<in> set t" for b using map_of_is_SomeI [OF assms(4) that] assms(1) by simp
  with assms(2,3) show ?thesis by (auto simp: put_at_def)
qed

text \<open>Writing a session back with its Agents as they were.\<close>

lemma frozen_Set:
  assumes "session_mgr rt' = SetSession sid s' (session_mgr rt)" "GetSession (session_mgr rt) sid = Some s"
    "session_id s' = session_id s" "agents s' = agents s" "distinct (map fst (sessions (session_mgr rt)))"
    "config rt' = config rt" "produced_unique_transitions rt' = produced_unique_transitions rt"
    "quarantined_transition_count rt' = quarantined_transition_count rt"
  shows "frozen rt rt'"
  using assms stored_agents_put_at [of "sessions (session_mgr rt)" sid s s']
  by (simp add: frozen_def stored_agents_def SetSession_def GetSession_def)

text \<open>What makes a store of sessions a good one here only depends on what is frozen.\<close>

definition store_good :: "'g runtime \<Rightarrow> bool" where
  "store_good rt \<longleftrightarrow>
     distinct (map fst (sessions (session_mgr rt))) \<and>
     (\<forall>(sid, s)\<in>set (sessions (session_mgr rt)). session_id s = sid \<and> session_good (config rt) s)"

definition bare :: "(int, agent) table \<Rightarrow> session" where
  "bare t = (new_session [])\<lparr>agents := t\<rparr>"

lemma bare_session: "session_good cfg (bare (agents s)) = session_good cfg s" "cached (bare (agents s)) = cached s"
  by (rule session_cong; simp add: bare_def)+

lemma store_good_agents:
  "store_good rt \<longleftrightarrow>
     distinct (map fst (stored_agents rt)) \<and>
     (\<forall>(sid, i, t)\<in>set (stored_agents rt). i = sid \<and> session_good (config rt) (bare t))"
  by (auto simp: store_good_def stored_agents_def bare_session comp_def split_def)

lemma cached_agents: "CountCachedTransitions rt = (\<Sum>(_, _, t)\<leftarrow>stored_agents rt. cached (bare t))"
  unfolding CountCachedTransitions_def cached_def [symmetric] stored_agents_def
  by (simp add: bare_session comp_def split_def)

lemma frozen_effect:
  assumes "frozen rt rt'"
  shows "store_good rt' = store_good rt" "CountCachedTransitions rt' = CountCachedTransitions rt"
    "balance rt' = balance rt"
  using assms by (simp_all add: frozen_def store_good_agents cached_agents balance_def)

lemma runtime_ok_good: "runtime_ok w rt \<Longrightarrow> store_good rt"
  by (auto simp: runtime_ok_def store_good_def manager_ok_def session_inv_def GetSession_def)

lemma store_good_Get:
  assumes "store_good rt" "GetSession (session_mgr rt) sid = Some s"
  shows "session_id s = sid" "session_good (config rt) s" "distinct (map fst (sessions (session_mgr rt)))"
  using assms by (auto simp: store_good_def GetSession_def dest!: map_of_SomeD)

section \<open>A server that drains\<close>

text \<open>From its first critical section on, shutdown keeps the server from becoming ready again.\<close>

definition draining :: "'g runtime \<Rightarrow> bool" where
  "draining rt \<longleftrightarrow> shutdown_started rt \<and> server_state rt \<noteq> AiReady"

definition drains :: "'g runtime \<Rightarrow> 'g runtime \<Rightarrow> bool" where
  "drains rt rt' \<longleftrightarrow> draining rt' \<and> frozen rt rt'"

lemma not_ready: "draining rt \<Longrightarrow> \<not> IsReady rt \<and> \<not> IsCoreInferenceReady rt"
  by (simp add: draining_def IsReady_def IsCoreInferenceReady_def)

lemma drains_same:
  assumes "draining rt" "frozen rt rt'" "shutdown_started rt' = shutdown_started rt"
    "server_state rt' = server_state rt"
  shows "drains rt rt'"
  using assms by (simp add: drains_def draining_def)

lemma drains_Set:
  assumes "draining rt" "store_good rt" "GetSession (session_mgr rt) sid = Some s"
    "session_id s' = session_id s" "agents s' = agents s"
  shows "drains rt (rt\<lparr>session_mgr := SetSession sid s' (session_mgr rt)\<rparr>)"
  using assms(1) by (rule drains_same) (simp_all add: frozen_Set [OF _ assms(3-5) store_good_Get(3) [OF assms(2,3)]])

lemma activity_drains:
  assumes "draining rt" "store_good rt"
  shows "drains rt (note_activity sid now rt)"
proof (cases "GetSession (session_mgr rt) sid")
  case None
  with assms(1) show ?thesis by (simp add: note_activity_def drains_same)
next
  case (Some s)
  from drains_Set [OF assms this, of "s\<lparr>last_valid_client_activity_unix_ms := now\<rparr>"] Some show ?thesis
    by (simp add: note_activity_def)
qed

text \<open>A handler that keeps a draining server, once the command has been checked.\<close>

lemma handle_drains:
  assumes d: "draining (srv S)" and g: "store_good (srv S)"
    and p: "\<And>s S1. stored S1 (session_id s) = Some s \<Longrightarrow> draining (srv S1) \<Longrightarrow> store_good (srv S1) \<Longrightarrow>
      drains (srv S1) (srv (snd (proceed s S1)))"
  shows "drains (srv S) (srv (snd (handle proceed w now req S)))"
proof (cases "stored S (cmd_session_id (command req))")
  case None
  with d show ?thesis by (simp add: handle_def CheckedSession_def Let_def drains_same)
next
  case (Some s)
  let ?sid = "cmd_session_id (command req)"
  obtain c rsp where c: "CheckCommand w s req empty_response = (c, rsp)" by force
  define s' where "s' = touch c now s"
  define S1 where "S1 = S\<lparr>srv := (srv S)\<lparr>session_mgr := SetSession ?sid s' (session_mgr (srv S))\<rparr>\<rparr>"
  have s': "session_id s' = session_id s" "agents s' = agents s" by (simp_all add: s'_def touch_def)
  have 1: "drains (srv S) (srv S1)" using drains_Set [OF d g Some s'] by (simp add: S1_def)
  then have g1: "draining (srv S1)" "store_good (srv S1)"
    using g frozen_effect(1) by (auto simp: drains_def)
  have st: "stored S1 (session_id s') = Some s'"
    using Some s'(1) store_good_Get(1) [OF g Some] by (simp add: S1_def)
  have h: "handle proceed w now req S = (if c = CheckProceed then proceed s' S1 else (rsp, S1))"
    using Some c by (simp add: handle_def CheckedSession_def Let_def s'_def S1_def)
  show ?thesis
    using 1 p [OF st g1] frozen_trans unfolding h drains_def by auto
qed

section \<open>Commands during a shutdown\<close>

lemma IsReady_not: "draining rt \<Longrightarrow> IsReady rt = False" "draining rt \<Longrightarrow> IsCoreInferenceReady rt = False"
  by (simp_all add: not_ready)

lemma drains_refl: "draining rt \<Longrightarrow> drains rt rt"
  by (simp add: drains_same)

lemma Close_drains:
  assumes st: "stored S (session_id s) = Some s" and d: "draining (srv S)" "store_good (srv S)"
  shows "drains (srv S) (srv (snd (CloseSession_proceed w req s S)))"
proof -
  obtain rsp s1 where c: "CommitCommand w ''Session closed without live resources'' req empty_response
      (s\<lparr>phase := PhaseClosed\<rparr>) = (rsp, s1)" by force
  then have "session_id s1 = session_id s" "agents s1 = agents s" by (auto simp: CommitCommand_def Let_def)
  from drains_Set [OF d st this] c drains_refl [OF d(1)] show ?thesis
    by (simp add: CloseSession_proceed_def put_session_part_def)
qed

lemma serve_rpc_drains:
  fixes w :: "('q, 'p) codec" and S :: "('g, 't, 'c) service"
  assumes "draining (srv S)" "store_good (srv S)" "serve_rpc ops w k ce req S = (rsp, S')"
  shows "drains (srv S) (srv S')"
proof -
  note h = handle_drains [OF assms(1,2)]
  have "drains (srv S) (srv (snd (serve_rpc ops w k ce req S)))"
  proof (cases k)
    case RpcInit
    show ?thesis unfolding serve_rpc_def RpcInit rpc.case Init_def
      by (rule h) (simp add: Init_proceed_def Let_def IsReady_not drains_refl)
  next
    case RpcBegin
    show ?thesis unfolding serve_rpc_def RpcBegin rpc.case BeginEpisode_def
      by (rule h) (simp add: BeginEpisode_proceed_def Let_def IsReady_not drains_refl)
  next
    case RpcUpdate
    obtain r S1 where u: "handle (Update_proceed ops w ce req) w (ce_now_ms ce) req S = (r, S1)" by force
    have "drains (srv S) (srv (snd (handle (Update_proceed ops w ce req) w (ce_now_ms ce) req S)))"
      by (rule h) (simp add: Update_proceed_def Let_def IsReady_not drains_refl)
    then have 1: "drains (srv S) (srv S1)" using u by simp
    then have "drains (srv S1) (RecordUpdateLatency (ce_latency ce) (srv S1))"
      by (intro drains_same frozen_same) (simp_all add: drains_def RecordUpdateLatency_def Let_def)
    with 1 frozen_trans show ?thesis
      unfolding serve_rpc_def RpcUpdate rpc.case Update_def by (auto simp: u drains_def)
  next
    case RpcEnd
    show ?thesis unfolding serve_rpc_def RpcEnd rpc.case EndEpisode_def
      by (rule h) (simp add: EndEpisode_proceed_def Let_def draining_def drains_refl)
  next
    case RpcAbort
    show ?thesis unfolding serve_rpc_def RpcAbort rpc.case AbortEpisode_def
      by (rule h) (simp add: AbortEpisode_proceed_def Let_def draining_def drains_refl)
  next
    case RpcClose
    show ?thesis unfolding serve_rpc_def RpcClose rpc.case CloseSession_def
      by (rule h) (rule Close_drains)
  qed
  with assms(3) show ?thesis by simp
qed

lemma OpenSession_drains:
  assumes "draining (srv S)" "store_good (srv S)" "OpenSession ops ow ce q S = (rsp, S')"
  shows "drains (srv S) (srv S')"
proof -
  consider "S' = S" | sid where "S' = S\<lparr>srv := note_activity sid (ce_now_ms ce) (srv S)\<rparr>"
    using assms(3) not_ready [OF assms(1)] by (auto simp: OpenSession_def Let_def split: option.splits if_splits)
  then show ?thesis by cases (simp_all add: drains_refl assms activity_drains)
qed

text \<open>
  What happens while shutdown has released the mutex: any calls, and the other threads, which neither
  touch what is frozen nor make the server ready.
\<close>

inductive drain_run ::
  "('t, 'c, 'q, 'p) task_ops \<Rightarrow> ('q, 'p) codec \<Rightarrow> ('q, 'p) open_codec \<Rightarrow> ('g, 't, 'c) service \<Rightarrow>
   ('g, 't, 'c) service \<Rightarrow> bool"
  for ops :: "('t, 'c, 'q, 'p) task_ops" and w :: "('q, 'p) codec" and ow :: "('q, 'p) open_codec"
    and S0 :: "('g, 't, 'c) service" where
  drain_start: "drain_run ops w ow S0 S0"
| drain_open: "drain_run ops w ow S0 S \<Longrightarrow> OpenSession ops ow ce q S = (rsp, S') \<Longrightarrow> drain_run ops w ow S0 S'"
| drain_call: "drain_run ops w ow S0 S \<Longrightarrow> serve_rpc ops w k ce req S = (rsp, S') \<Longrightarrow> drain_run ops w ow S0 S'"
| drain_recover: "drain_run ops w ow S0 S \<Longrightarrow>
    RecoverExpiredClientSessions env between now (srv S) = (b, rt) \<Longrightarrow> drain_run ops w ow S0 (S\<lparr>srv := rt\<rparr>)"
| drain_other: "drain_run ops w ow S0 S \<Longrightarrow> session_mgr rt = session_mgr (srv S) \<Longrightarrow>
    config rt = config (srv S) \<Longrightarrow> produced_unique_transitions rt = produced S \<Longrightarrow>
    quarantined_transition_count rt = quarantined_transition_count (srv S) \<Longrightarrow>
    shutdown_started rt = shutdown_started (srv S) \<Longrightarrow> server_state rt \<noteq> AiReady \<Longrightarrow>
    drain_run ops w ow S0 (S\<lparr>srv := rt\<rparr>)"

lemma drain_run_drains:
  assumes "drain_run ops w ow S0 S" "draining (srv S0)" "store_good (srv S0)"
  shows "drains (srv S0) (srv S)"
  using assms(1)
proof induction
  case drain_start
  show ?case by (rule drains_refl [OF assms(2)])
next
  case (drain_open S ce q rsp S')
  then have "draining (srv S)" "store_good (srv S)"
    using assms(3) frozen_effect(1) by (auto simp: drains_def)
  from OpenSession_drains [OF this drain_open(2)] drain_open.IH frozen_trans show ?case by (auto simp: drains_def)
next
  case (drain_call S k ce req rsp S')
  then have "draining (srv S)" "store_good (srv S)"
    using assms(3) frozen_effect(1) by (auto simp: drains_def)
  from serve_rpc_drains [OF this drain_call(2)] drain_call.IH frozen_trans show ?case by (auto simp: drains_def)
next
  case (drain_recover S env between now b rt)
  then have "rt = srv S" by (auto simp: RecoverExpiredClientSessions_def drains_def draining_def)
  with drain_recover show ?case by simp
next
  case (drain_other S rt)
  then have "frozen (srv S) rt" by (intro frozen_same)
  with drain_other frozen_trans show ?case by (auto simp: drains_def draining_def)
qed

end
