(* ===== verification/Shutdown_Balance.thy ===== *)
theory Shutdown_Balance
  imports Shutdown_Runs
begin

text \<open>
  What shutdown does to the transitions that are cached when it begins: each one is handed over or
  counted as quarantined, whatever other calls do while the mutex is free.
\<close>

section \<open>Preparing to close one session\<close>

lemma pendings_cleared:
  assumes "session_good cfg s" "segment_free s"
  shows "session_good cfg (clear_all_pending s)" "segment_free (clear_all_pending s)"
proof -
  have m: "map_of (agents (clear_all_pending s)) i = map_option clear_pending (map_of (agents s) i)" for i
    by (simp add: clear_all_pending_def map_of_map)
  have tr: "segment_transitions (clear_pending a) = segment_transitions a" for a
    by (simp add: clear_pending_def)
  show f: "segment_free (clear_all_pending s)"
    using assms(2) tr by (auto simp: segment_free_def no_segment_at_def m)
  have "agent_good cfg None (clear_pending a)" if "map_of (agents s) i = Some a" for i a
    using assms that by (auto simp: good_def segment_free_def no_segment_at_def intro: agent_good_clear)
  moreover have "distinct (map fst (agents (clear_all_pending s)))"
    using assms(1) by (simp add: clear_all_pending_def good_def comp_def split_def)
  ultimately show "session_good cfg (clear_all_pending s)" by (auto simp: good_def m)
qed

text \<open>A session that was prepared: nothing is cached any more, and its transitions are produced.\<close>

definition closed_up :: "training_config \<Rightarrow> session \<Rightarrow> session \<Rightarrow> bool" where
  "closed_up cfg s s' \<longleftrightarrow> session_id s' = session_id s \<and> session_good cfg s' \<and> segment_free s'"

lemma closed_up_cached: "closed_up cfg s s' \<Longrightarrow> cached s' = 0"
  using segment_free_cached by (auto simp: closed_up_def good_def)

lemma segment_free_zero: "session_good cfg s \<Longrightarrow> segment_free s \<Longrightarrow> cached s = 0"
  using segment_free_cached by (simp add: good_def)

lemma end_session_same: "agents (end_session s) = agents s" "session_id (end_session s) = session_id s"
  by (simp_all add: end_session_def ReleaseEpisodePolicy_def)

lemma plan_session_core: "plan_session env s tx rt = (r, tx', rt') \<Longrightarrow> core rt' = core rt"
  using close_all_core by (auto simp: plan_session_def split: if_splits)

lemma plan_session_ok:
  assumes p: "plan_session env s tx rt = (CloseDone, tx', rt')" and i: "session_inv (config rt) s"
  shows "closed_up (config rt) s (end_session (tx_session tx'))"
    "tx_transitions tx' = tx_transitions tx + cached s" "tx_quarantined tx' = tx_quarantined tx"
proof -
  have g: "session_good (config rt) s" using i by (simp add: session_inv_def)
  have "closed_up (config rt) s (tx_session tx') \<and> tx_transitions tx' = tx_transitions tx + cached s \<and>
    tx_quarantined tx' = tx_quarantined tx"
  proof (cases "run_mode (config rt) = kTraining \<and> current_episode_mode s = ModeTraining")
    case True
    let ?tx = "tx\<lparr>tx_session := s\<rparr>"
    have c: "close_all env AiserverControlledShutdown (agent_keys s) ?tx rt = (CloseDone, tx', rt')"
      using p True by (simp add: plan_session_def)
    have "session_good (config rt) (tx_session ?tx)" using g by simp
    note cl = close_all_settles [OF c this refl]
    have st: "settles env (config rt) ?tx tx'" using cl by simp
    have only: "agents_only s (tx_session tx')" using st by (simp add: settles_def)
    have keys: "map fst (agents (tx_session tx')) = map fst (agents s)"
      using st by (simp add: settles_def abort_ok_def closing_ok_def)
    have free: "segment_free (tx_session tx')" using agent_keys_free [OF _ keys] cl by blast
    have up: "closed_up (config rt) s (tx_session tx')"
      using agents_only_fields(1) [OF only] settles_good [OF st] free by (simp add: closed_up_def)
    show ?thesis
      using st up closed_up_cached [OF up] by (simp add: settles_def abort_ok_def closing_ok_def output_ok_def)
  next
    case False
    have free: "segment_free s" using i False by (auto simp: session_inv_def split: if_splits)
    have "tx' = tx\<lparr>tx_session := clear_all_pending s\<rparr>" using p False by (auto simp: plan_session_def)
    with pendings_cleared [OF g free] segment_free_zero [OF g free] show ?thesis
      by (simp add: closed_up_def clear_all_pending_def)
  qed
  moreover have "agents (end_session (tx_session tx')) = agents (tx_session tx')" by (rule end_session_same)
  ultimately show "closed_up (config rt) s (end_session (tx_session tx'))"
    "tx_transitions tx' = tx_transitions tx + cached s" "tx_quarantined tx' = tx_quarantined tx"
    using session_cong(1) segment_free_cong end_session_same(2) unfolding closed_up_def by metis+
qed

section \<open>Preparing to close all sessions\<close>

definition plan_closes ::
  "training_config \<Rightarrow> (string, session) table \<Rightarrow> (string, session) table \<Rightarrow> bool" where
  "plan_closes cfg = list_all2 (\<lambda>(sid, s) (sid', s'). sid' = sid \<and> closed_up cfg s s')"

lemma plan_sessions_core: "plan_sessions env t sp rt = (sp', rt') \<Longrightarrow> core rt' = core rt"
proof (induction t arbitrary: sp rt)
  case (Cons x t)
  obtain sid s where x: "x = (sid, s)" by force
  obtain r tx rt1 where p: "plan_session env s (sp_txn sp) rt = (r, tx, rt1)" by (metis prod_cases3)
  from plan_session_core [OF p] Cons.IH Cons.prems show ?case by (cases r) (auto simp: x p)
qed simp

lemma plan_sessions_ok:
  assumes "plan_sessions env t sp rt = (sp', rt')" "sp_ok sp'" "config rt = cfg"
    "\<forall>(sid, s)\<in>set t. session_inv cfg s"
  shows "\<exists>t'. sp_sessions sp' = sp_sessions sp @ t' \<and> plan_closes cfg t t' \<and>
    tx_transitions (sp_txn sp') = tx_transitions (sp_txn sp) + (\<Sum>(_, s)\<leftarrow>t. cached s) \<and>
    tx_quarantined (sp_txn sp') = tx_quarantined (sp_txn sp)"
  using assms
proof (induction t arbitrary: sp rt)
  case Nil
  then show ?case by (simp add: plan_closes_def)
next
  case (Cons x t)
  obtain sid s where x: "x = (sid, s)" by force
  obtain r tx rt1 where p: "plan_session env s (sp_txn sp) rt = (r, tx, rt1)" by (metis prod_cases3)
  have r: "r = CloseDone" using Cons.prems(1,2) by (cases r) (auto simp: x p)
  have i: "session_inv (config rt) s" using Cons.prems(3,4) by (auto simp: x)
  note one = plan_session_ok [OF p [unfolded r] i]
  let ?sp = "sp\<lparr>sp_txn := tx, sp_sessions := sp_sessions sp @ [(sid, end_session (tx_session tx))]\<rparr>"
  have "plan_sessions env t ?sp rt1 = (sp', rt')" "config rt1 = cfg"
    using Cons.prems(1,3) core_fields(2) [OF plan_session_core [OF p]] by (simp_all add: x p r)
  moreover have "\<forall>(sid, s)\<in>set t. session_inv cfg s" using Cons.prems(4) by simp
  ultimately obtain t' where t': "sp_sessions sp' = sp_sessions ?sp @ t'" "plan_closes cfg t t'"
    "tx_transitions (sp_txn sp') = tx_transitions (sp_txn ?sp) + (\<Sum>(_, s)\<leftarrow>t. cached s)"
    "tx_quarantined (sp_txn sp') = tx_quarantined (sp_txn ?sp)" using Cons.IH Cons.prems(2) by blast
  show ?case
  proof (intro exI conjI)
    show "sp_sessions sp' = sp_sessions sp @ ((sid, end_session (tx_session tx)) # t')" using t'(1) by simp
    show "plan_closes cfg (x # t) ((sid, end_session (tx_session tx)) # t')"
      using t'(2) one(1) Cons.prems(3) by (simp add: plan_closes_def x)
  qed (use t'(3,4) one(2,3) in \<open>simp_all add: x\<close>)
qed
section \<open>Storing the prepared sessions\<close>

lemma put_at_middle: "k \<notin> fst ` set p \<Longrightarrow> put_at k v (p @ (k, a) # t) = p @ (k, v) # put_at k v t"
  by (induction p) (auto simp: put_at_def)

lemma fold_put_at:
  assumes "map fst t' = map fst t" "distinct (map fst (p @ t))"
  shows "fold (\<lambda>(k, v). put_at k v) t' (p @ t) = p @ t'"
  using assms
proof (induction t' arbitrary: p t)
  case (Cons x t')
  obtain k v a u where x: "x = (k, v)" and t: "t = (k, a) # u" "map fst u = map fst t'"
    using Cons.prems(1) by (cases x, cases t) auto
  have "k \<notin> fst ` set p" "k \<notin> fst ` set u" using Cons.prems(2) by (auto simp: t(1))
  then have "put_at k v (p @ t) = (p @ [x]) @ u" by (simp add: t put_at_middle put_at_notin x)
  with Cons.IH [of u "p @ [x]"] Cons.prems(2) t x show ?case by simp
qed simp

lemma store_plan_sessions: "sessions (store_plan t m) = fold (\<lambda>(k, v). put_at k v) t (sessions m)"
  unfolding store_plan_def
  by (induction t arbitrary: m) (auto simp: SetSession_def)

text \<open>With the keys unchanged, the store holds exactly the prepared sessions.\<close>

lemma store_plan_all:
  assumes "map fst t = map fst (sessions m)" "distinct (map fst (sessions m))"
  shows "sessions (store_plan t m) = t"
  using fold_put_at [of t "sessions m" "[]"] assms by (simp add: store_plan_sessions)

lemma plan_closes_keys: "plan_closes cfg t t' \<Longrightarrow> map fst t' = map fst t"
  unfolding plan_closes_def by (induction rule: list_all2_induct) auto

lemma plan_closes_set:
  "plan_closes cfg t t' \<Longrightarrow> (sid, s') \<in> set t' \<Longrightarrow> \<exists>s. (sid, s) \<in> set t \<and> closed_up cfg s s'"
  unfolding plan_closes_def by (induction rule: list_all2_induct) auto

section \<open>Giving everything up\<close>

lemma discard_session_ok:
  assumes g: "store_good rt" and s: "GetSession (session_mgr rt) sid = Some s"
  shows "\<exists>s'. sessions (session_mgr (discard_session reason sid s rt)) = put_at sid s' (sessions (session_mgr rt)) \<and>
      segment_free s' \<and> session_good (config rt) s' \<and> session_id s' = sid"
    "balance (discard_session reason sid s rt) = balance rt"
    "config (discard_session reason sid s rt) = config rt"
proof -
  let ?rt = "discard_session reason sid s rt"
  define tx where "tx = fold (\<lambda>i. DiscardAgentSegment i reason True) (agent_keys s) (new_txn rt s)"
  note sg = store_good_Get [OF g s]
  note d = discarded_session [OF sg(2) tx_def]
  have m: "session_mgr ?rt = SetSession sid (tx_session tx) (session_mgr rt)"
    "produced_unique_transitions ?rt = produced_unique_transitions rt"
    "quarantined_transition_count ?rt = tx_quarantined tx" and c: "config ?rt = config rt"
    by (simp_all add: discard_session_def Let_def tx_def)
  show "config ?rt = config rt" by (rule c)
  show "\<exists>s'. sessions (session_mgr ?rt) = put_at sid s' (sessions (session_mgr rt)) \<and>
      segment_free s' \<and> session_good (config rt) s' \<and> session_id s' = sid"
    using d sg(1) agents_only_fields(1) [OF d(3)] by (intro exI [of _ "tx_session tx"]) (simp add: m SetSession_def)
  have "(\<Sum>(_, x)\<leftarrow>put_at sid (tx_session tx) (sessions (session_mgr rt)). cached x) =
      (\<Sum>(_, x)\<leftarrow>sessions (session_mgr rt). cached x) - cached s + cached (tx_session tx)"
    by (rule sum_put_at) (use sg(3) s in \<open>simp_all add: GetSession_def\<close>)
  with d(4,5) m show "balance ?rt = balance rt"
    by (simp add: balance_def CountCachedTransitions_def SetSession_def cached_def [symmetric])
qed

definition discard_one :: "string \<Rightarrow> 'g runtime \<Rightarrow> 'g runtime" where
  "discard_one sid r =
     (case GetSession (session_mgr r) sid of
        None \<Rightarrow> r | Some s \<Rightarrow> discard_session AiserverControlledShutdown sid s r)"

lemma discard_everything_fold:
  "discard_everything rt = fold discard_one (GetSessionIds (session_mgr rt)) rt"
  unfolding discard_everything_def discard_one_def ..

definition free_at :: "'g runtime \<Rightarrow> string \<Rightarrow> bool" where
  "free_at rt sid \<longleftrightarrow> (\<forall>s. GetSession (session_mgr rt) sid = Some s \<longrightarrow> segment_free s)"

lemma discard_one_ok:
  assumes g: "store_good rt"
  shows "store_good (discard_one sid rt) \<and> balance (discard_one sid rt) = balance rt \<and>
    free_at (discard_one sid rt) sid \<and> (\<forall>x. free_at rt x \<longrightarrow> free_at (discard_one sid rt) x) \<and>
    map fst (sessions (session_mgr (discard_one sid rt))) = map fst (sessions (session_mgr rt))"
proof (cases "GetSession (session_mgr rt) sid")
  case None
  with g show ?thesis by (simp add: discard_one_def free_at_def)
next
  case (Some s)
  let ?rt = "discard_session AiserverControlledShutdown sid s rt"
  note d = discard_session_ok [OF g Some, of AiserverControlledShutdown]
  obtain s' where s': "sessions (session_mgr ?rt) = put_at sid s' (sessions (session_mgr rt))"
    "segment_free s'" "session_good (config rt) s'" "session_id s' = sid" using d(1) by blast
  have "set (sessions (session_mgr ?rt)) \<subseteq> insert (sid, s') (set (sessions (session_mgr rt)))"
    by (auto simp: s'(1) put_at_def split: if_splits)
  then have "store_good ?rt" using g s' d(3) unfolding store_good_def by auto
  with s' Some d(2) show ?thesis by (simp add: discard_one_def free_at_def GetSession_def)
qed

lemma discard_all_ok:
  assumes "store_good rt"
  shows "store_good (fold discard_one ids rt) \<and> balance (fold discard_one ids rt) = balance rt \<and>
    (\<forall>x\<in>set ids. free_at (fold discard_one ids rt) x) \<and>
    (\<forall>x. free_at rt x \<longrightarrow> free_at (fold discard_one ids rt) x) \<and>
    map fst (sessions (session_mgr (fold discard_one ids rt))) = map fst (sessions (session_mgr rt))"
  using assms
proof (induction ids arbitrary: rt)
  case (Cons i ids)
  note one = discard_one_ok [OF Cons.prems, of i]
  with Cons.IH [of "discard_one i rt"] show ?case by simp
qed simp

text \<open>A store in which no session has a segment caches nothing.\<close>

lemma free_store_empty:
  assumes "store_good rt" "\<forall>(sid, s)\<in>set (sessions (session_mgr rt)). segment_free s"
  shows "CountCachedTransitions rt = 0"
proof -
  have z: "cached s = 0" if "(sid, s) \<in> set (sessions (session_mgr rt))" for sid s
    using assms that segment_free_zero unfolding store_good_def by fastforce
  have "map (\<lambda>(_, s). cached s) (sessions (session_mgr rt)) = map (\<lambda>_. 0) (sessions (session_mgr rt))"
    using z by auto
  then show ?thesis unfolding CountCachedTransitions_def cached_def [symmetric] by (simp add: map_replicate_const sum_list_replicate)
qed

lemma discard_everything_ok:
  assumes "store_good rt"
  shows "balance (discard_everything rt) = balance rt" "CountCachedTransitions (discard_everything rt) = 0"
    "store_good (discard_everything rt)"
proof -
  note d = discard_all_ok [OF assms, of "GetSessionIds (session_mgr rt)"]
  let ?rt = "discard_everything rt"
  have g: "store_good ?rt" and k: "map fst (sessions (session_mgr ?rt)) = map fst (sessions (session_mgr rt))"
    and b: "balance ?rt = balance rt" and f: "\<forall>x\<in>set (GetSessionIds (session_mgr rt)). free_at ?rt x"
    using d by (simp_all add: discard_everything_fold)
  have "segment_free s" if "(sid, s) \<in> set (sessions (session_mgr ?rt))" for sid s
  proof -
    have "sid \<in> set (map fst (sessions (session_mgr ?rt)))" using that by force
    then have "free_at ?rt sid" using f unfolding k GetSessionIds_def by blast
    moreover have "GetSession (session_mgr ?rt) sid = Some s"
      using that g by (simp add: GetSession_def store_good_def)
    ultimately show ?thesis by (simp add: free_at_def)
  qed
  then show "CountCachedTransitions ?rt = 0" using free_store_empty [OF g] by blast
  show "balance ?rt = balance rt" "store_good ?rt" by (rule b, rule g)
qed
section \<open>Reports that change nothing\<close>

lemma flush_session_cases:
  assumes "flush_session ro sid rt = Inr (ok, rt')"
  obtains (same) "rt' = rt"
    | (written) s j where "GetSession (session_mgr rt) sid = Some s" "rt' = rt\<lparr>metric_events := j,
        session_mgr := SetSession sid (s\<lparr>reward_metrics := new_reward_window\<rparr>) (session_mgr rt)\<rparr>"
proof (cases "GetSession (session_mgr rt) sid")
  case None
  with assms same show thesis by (simp add: flush_session_def)
next
  case st: (Some s)
  show thesis
  proof (cases "rm_count (reward_metrics s) = 0")
    case True
    with assms st same show thesis by (simp add: flush_session_def)
  next
    case False
    obtain r where r: "reward_AppendTo (metric_registry rt) (reward_metric_prefix rt) (ro_now_ms ro)
        (ro_steady ro) (reward_metrics s) (flush_record s) = Inr r"
      using assms st False by (auto simp: flush_session_def and_then_Inr)
    note f = assms [unfolded flush_session_def st option.case if_not_P [OF False] r and_then_simps]
    show thesis
    proof (cases "ro_serialize ro r")
      case None
      with f same show thesis by simp
    next
      case (Some payload)
      obtain a j where aj: "AppendFact (ro_event_size ro) payload (ro_now_ms ro) (ro_steady ro)
        (metric_events rt) = (a, j)" by force
      show thesis
      proof (cases a)
        case AppendSourceFinal
        with f Some aj same show thesis by simp
      next
        case (AppendApplied x)
        with f Some aj have "rt' = rt\<lparr>metric_events := j,
            session_mgr := SetSession sid (s\<lparr>reward_metrics := new_reward_window\<rparr>) (session_mgr rt)\<rparr>" by simp
        then show thesis by (rule written [OF st])
      qed
    qed
  qed
qed

lemma flush_session_frozen:
  assumes "flush_session ro sid rt = Inr (ok, rt')" "store_good rt"
  shows "frozen rt rt'"
  using assms(1)
proof (cases rule: flush_session_cases)
  case (written s j)
  then show ?thesis using store_good_Get(3) [OF assms(2) written(1)]
    by (intro frozen_Set [OF _ written(1), where s' = "s\<lparr>reward_metrics := new_reward_window\<rparr>"]) simp_all
qed simp

lemma flush_sessions_frozen:
  assumes "flush_sessions ro ids rt = Inr (ok, rt')" "store_good rt"
  shows "frozen rt rt'"
  using assms
proof (induction ids arbitrary: rt)
  case (Cons sid ids)
  then obtain b rt1 where f: "flush_session ro sid rt = Inr (b, rt1)"
    "(if b then flush_sessions ro ids rt1 else Inr (False, rt1)) = Inr (ok, rt')"
    by (auto simp: and_then_Inr)
  have one: "frozen rt rt1" by (rule flush_session_frozen [OF f(1) Cons.prems(2)])
  with Cons.prems(2) frozen_effect(1) have "store_good rt1" by blast
  with f(2) Cons.IH one show ?case by (cases b) (auto intro: frozen_trans)
qed simp

lemma release_frozen: "ReleaseTrainingWorkspaceLease io rt = (r, rt') \<Longrightarrow> frozen rt rt'"
  by (auto simp: ReleaseTrainingWorkspaceLease_def intro!: frozen_same split: if_splits option.splits)

section \<open>The whole shutdown\<close>

definition drains_only :: "('g runtime \<Rightarrow> 'g runtime) \<Rightarrow> bool" where
  "drains_only f \<longleftrightarrow> (\<forall>rt. draining rt \<and> store_good rt \<longrightarrow> drains rt (f rt))"

lemma verdict_frozen: "shutdown_verdict sp ok dr ms rel sn rt = (b, rt') \<Longrightarrow> frozen rt rt'"
  by (auto simp: shutdown_verdict_def Let_def intro!: frozen_same split: if_splits)

text \<open>A positive verdict.\<close>

lemma verdict_good:
  assumes "shutdown_verdict sp ok dr ms rel sn rt = (True, rt')"
  shows "server_state rt' = AiStopped" "ok" "sender_settled sn" "distributor rt' = distributor rt"
    "CountCachedSegments rt' = 0" "dr" "ms"
  using assms by (auto simp: shutdown_verdict_def Let_def CountCachedSegments_def split: if_splits)

lemma commit_core:
  assumes "shutdown_commit env turns sp rt = (ok, err, rt')"
  shows "\<exists>d. rt' = rt\<lparr>distributor := d\<rparr>"
proof (cases "rt' = rt")
  case True
  then have "rt' = rt\<lparr>distributor := distributor rt\<rparr>" by simp
  then show ?thesis by blast
next
  case False
  with assms show ?thesis by (auto simp: shutdown_commit_def Let_def split: if_splits prod.splits)
qed
section \<open>Preparation keeps the server draining\<close>

lemma infer_draining:
  "InferPinnedValue env a obs rt = (v, rt') \<Longrightarrow> draining rt \<Longrightarrow> draining rt'"
  by (auto simp: InferPinnedValue_def Let_def draining_def rt_MarkDegraded_def count_inference_def split: sum.splits if_splits)

lemma failure_draining [simp]: "draining (rollout_failure rt) = draining rt"
  by (simp add: draining_def rollout_failure_def)

lemma close_draining:
  "close_or_discard env reason i tx rt = (r, tx', rt') \<Longrightarrow> draining rt \<Longrightarrow> draining rt'"
  by (auto simp: close_or_discard_def close_open_def Let_def split: option.splits if_splits prod.splits sum.splits
      dest: infer_draining)

lemma close_all_draining:
  "close_all env reason ids tx rt = (r, tx', rt') \<Longrightarrow> draining rt \<Longrightarrow> draining rt'"
proof (induction ids arbitrary: tx rt)
  case (Cons i ids)
  obtain r1 tx1 rt1 where c: "close_or_discard env reason i tx rt = (r1, tx1, rt1)" by (metis prod_cases3)
  from close_draining [OF c] c Cons show ?case by (cases r1) auto
qed simp

lemma plan_draining:
  "plan_sessions env t sp rt = (sp', rt') \<Longrightarrow> draining rt \<Longrightarrow> draining rt'"
proof (induction t arbitrary: sp rt)
  case (Cons x t)
  obtain sid s where x: "x = (sid, s)" by force
  obtain r tx rt1 where p: "plan_session env s (sp_txn sp) rt = (r, tx, rt1)" by (metis prod_cases3)
  then have "draining rt1" using Cons.prems(2) close_all_draining by (auto simp: plan_session_def split: if_splits)
  with Cons p show ?case by (cases r) (auto simp: x)
qed simp

section \<open>The balance of a shutdown\<close>

text \<open>After the first section: what the runtime and the plan hold.\<close>

lemma plan_effect:
  fixes w :: "('q, 'p) codec"
  assumes p: "shutdown_plan env rt = (sp, rt1)" and ok: "runtime_ok w rt"
  shows "frozen rt rt1" "draining rt1" "store_good rt1"
    "sp_ok sp \<Longrightarrow> plan_closes (config rt) (sessions (session_mgr rt)) (sp_sessions sp) \<and>
      tx_transitions (sp_txn sp) = produced_unique_transitions rt + CountCachedTransitions rt \<and>
      tx_quarantined (sp_txn sp) = quarantined_transition_count rt"
proof -
  have q: "plan_sessions env (sessions (session_mgr rt)) (new_plan rt) (start_shutdown rt) = (sp, rt1)"
    using p by (simp add: shutdown_plan_def)
  have "frozen rt (start_shutdown rt)" by (rule frozen_same) (simp_all add: start_shutdown_def)
  with frozen_core [OF plan_sessions_core [OF q]] show f: "frozen rt rt1" by (blast intro: frozen_trans)
  have "draining (start_shutdown rt)" by (simp add: draining_def start_shutdown_def)
  then show "draining rt1" by (rule plan_draining [OF q])
  show "store_good rt1" using runtime_ok_good [OF ok] frozen_effect(1) [OF f] by simp
  have inv: "\<forall>(sid, s)\<in>set (sessions (session_mgr rt)). session_inv (config rt) s"
    using ok by (auto simp: runtime_ok_def manager_ok_def GetSession_def)
  have cf: "config (start_shutdown rt) = config rt" by (simp add: start_shutdown_def)
  show "plan_closes (config rt) (sessions (session_mgr rt)) (sp_sessions sp) \<and>
      tx_transitions (sp_txn sp) = produced_unique_transitions rt + CountCachedTransitions rt \<and>
      tx_quarantined (sp_txn sp) = quarantined_transition_count rt" if "sp_ok sp"
    using plan_sessions_ok [OF q that cf inv]
    by (simp add: new_plan_def CountCachedTransitions_def cached_def [symmetric])
qed

text \<open>After the second section nothing is cached, and the balance is the one from before.\<close>

lemma settle_effect:
  fixes w :: "('q, 'p) codec"
  assumes p: "shutdown_plan env rt = (sp, rt1)" and ok: "runtime_ok w rt"
    and f: "frozen rt1 rt2"
  shows "balance (settle_sessions sp done_it err rt2) = balance rt"
    "CountCachedTransitions (settle_sessions sp done_it err rt2) = 0"
    "store_good (settle_sessions sp done_it err rt2)"
    "sp_ok sp \<and> done_it \<Longrightarrow>
      quarantined_transition_count (settle_sessions sp done_it err rt2) = quarantined_transition_count rt"
proof -
  note pl = plan_effect [OF p ok]
  have fr: "frozen rt rt2" using pl(1) f by (rule frozen_trans)
  have g: "store_good rt2" using frozen_effect(1) [OF f] pl(3) by simp
  let ?rt = "settle_sessions sp done_it err rt2"
  have "balance ?rt = balance rt \<and> CountCachedTransitions ?rt = 0 \<and> store_good ?rt \<and>
    (sp_ok sp \<and> done_it \<longrightarrow> quarantined_transition_count ?rt = quarantined_transition_count rt)"
  proof (cases "sp_ok sp \<and> done_it")
    case True
    note pc = pl(4) [OF conjunct1 [OF True]]
    have keys: "map fst (sp_sessions sp) = map fst (sessions (session_mgr rt2))"
    proof -
      have "map fst (sessions (session_mgr rt2)) = map fst (sessions (session_mgr rt))"
        using fr unfolding stored_agents_keys [symmetric] by (simp add: frozen_def)
      then show ?thesis using plan_closes_keys pc by metis
    qed
    have d: "distinct (map fst (sessions (session_mgr rt2)))" using g by (simp add: store_good_def)
    have st: "sessions (session_mgr ?rt) = sp_sessions sp"
      using store_plan_all [OF keys d] True by (simp add: settle_sessions_def store_counts_def)
    have cnt: "produced_unique_transitions ?rt = tx_transitions (sp_txn sp)"
      "quarantined_transition_count ?rt = tx_quarantined (sp_txn sp)" "config ?rt = config rt"
      using True fr by (simp_all add: settle_sessions_def store_counts_def frozen_def)
    have "session_id s' = sid \<and> session_good (config rt) s' \<and> segment_free s'"
      if m: "(sid, s') \<in> set (sp_sessions sp)" for sid s'
    proof -
      obtain s where "(sid, s) \<in> set (sessions (session_mgr rt))" "closed_up (config rt) s s'"
        using plan_closes_set [OF conjunct1 [OF pc] m] by blast
      with runtime_ok_good [OF ok] show ?thesis by (auto simp: store_good_def closed_up_def)
    qed
    then have good: "store_good ?rt" "\<forall>(sid, s)\<in>set (sessions (session_mgr ?rt)). segment_free s"
      unfolding store_good_def st cnt(3) using keys d by auto
    from free_store_empty [OF good] pc cnt good(1) True show ?thesis by (simp add: balance_def)
  next
    case False
    let ?r = "rt2\<lparr>quarantined_envelope_count :=
                  quarantined_envelope_count rt2 + int (length (tx_output (sp_txn sp)))\<rparr>"
    have r: "frozen rt2 ?r" by (rule frozen_same) simp_all
    have gr: "store_good ?r" using frozen_effect(1) [OF r] g by simp
    note d = discard_everything_ok [OF gr]
    have "frozen (discard_everything ?r) ?rt" using False
      by (auto simp: settle_sessions_def Let_def intro: frozen_same)
    note e = frozen_effect [OF this]
    show ?thesis using d e frozen_effect(3) [OF r] frozen_effect(3) [OF fr] False by auto
  qed
  then show "balance ?rt = balance rt" "CountCachedTransitions ?rt = 0" "store_good ?rt"
    "sp_ok sp \<and> done_it \<Longrightarrow> quarantined_transition_count ?rt = quarantined_transition_count rt"
    by simp_all
qed
text \<open>What other calls may do in the two windows, seen from the first state of the window.\<close>

lemma drains_only_frozen:
  assumes "drains_only f" "draining rt" "store_good rt"
  shows "frozen rt (f rt)" "draining (f rt)" "store_good (f rt)"
  using assms frozen_effect(1) by (auto simp: drains_only_def drains_def)

lemma settle_draining:
  assumes "draining rt"
  shows "draining (settle_sessions sp b err rt)"
proof -
  have "draining (fold discard_one ids rt)" if "draining rt" for ids and rt :: "'a runtime"
    using that
    by (induction ids arbitrary: rt)
      (auto simp: discard_one_def discard_session_def Let_def draining_def split: option.splits)
  then show ?thesis
    using assms by (simp add: settle_sessions_def store_counts_def discard_everything_fold draining_def Let_def)
qed

lemma flush_draining: "flush_sessions ro ids rt = Inr (ok, rt') \<Longrightarrow> draining rt \<Longrightarrow> draining rt'"
proof (induction ids arbitrary: rt)
  case (Cons sid ids)
  then obtain b rt1 where f: "flush_session ro sid rt = Inr (b, rt1)"
    "(if b then flush_sessions ro ids rt1 else Inr (False, rt1)) = Inr (ok, rt')"
    by (auto simp: and_then_Inr)
  have "draining rt1" using f(1) Cons.prems(2) by (cases rule: flush_session_cases) (auto simp: draining_def)
  with f(2) Cons.IH show ?case by (cases b) auto
qed simp
text \<open>The second and the third section.\<close>

lemma settle_section:
  assumes st: "shutdown_settle ro sp done_it err rt = Inr (prepared, rt')"
    and g: "store_good (settle_sessions sp done_it err rt)"
  shows "frozen (settle_sessions sp done_it err rt) rt'" "prepared \<Longrightarrow> sp_ok sp" "draining rt \<Longrightarrow> draining rt'"
proof -
  obtain flushed rt1 where f: "FlushRewardMetricsLocked ro (settle_sessions sp done_it err rt) = Inr (flushed, rt1)"
    and rt': "prepared = (sp_ok sp \<and> flushed)" "rt' = (if flushed then rt1
        else rt1\<lparr>rt_last_error := ''reward tail was not accepted by the local journal''\<rparr>)
      \<lparr>metric_events := journal_Finalize (metric_events (if flushed then rt1
        else rt1\<lparr>rt_last_error := ''reward tail was not accepted by the local journal''\<rparr>))\<rparr>"
    using st by (auto simp: shutdown_settle_def and_then_Inr Let_def)
  note fl = f [unfolded FlushRewardMetricsLocked_def]
  have "frozen rt1 rt'" unfolding rt'(2) by (rule frozen_same) simp_all
  with flush_sessions_frozen [OF fl g] show "frozen (settle_sessions sp done_it err rt) rt'" by (rule frozen_trans)
  show "prepared \<Longrightarrow> sp_ok sp" by (simp add: rt'(1))
  show "draining rt'" if "draining rt"
  proof -
    have "draining rt1" by (rule flush_draining [OF fl settle_draining [OF that]])
    then show ?thesis unfolding rt'(2) by (simp add: draining_def)
  qed
qed

lemma release_draining: "ReleaseTrainingWorkspaceLease io rt = (r, rt') \<Longrightarrow> draining rt \<Longrightarrow> draining rt'"
  by (auto simp: ReleaseTrainingWorkspaceLease_def draining_def split: if_splits option.splits)

lemma finish_section:
  assumes fin: "shutdown_finish se sp ok rt = (b, rt')" and w: "drains_only (se_later se)"
    and d: "draining rt" "store_good rt"
  shows "frozen rt rt'"
    "b \<Longrightarrow> ok \<and> server_state rt' = AiStopped \<and> CountCachedSegments rt' = 0 \<and>
      sender_settled (GetSnapshot (config rt') (se_steady se) (distributor rt'))"
proof -
  obtain drained d1 where x: "(if run_mode (config rt) = kTraining then se_drain se (distributor rt)
      else (True, distributor rt)) = (drained, d1)" by force
  obtain release rt1 where r: "ReleaseTrainingWorkspaceLease (se_release se) (rt\<lparr>distributor := d1\<rparr>) = (release, rt1)"
    by force
  have f0: "frozen rt (rt\<lparr>distributor := d1\<rparr>)" by (rule frozen_same) simp_all
  have f1: "frozen rt rt1" by (rule frozen_trans [OF f0 release_frozen [OF r]])
  have "draining (rt\<lparr>distributor := d1\<rparr>)" using d(1) by (simp add: draining_def)
  then have d1: "draining rt1" by (rule release_draining [OF r])
  have g1: "store_good rt1" using frozen_effect(1) [OF f1] d(2) by simp
  have f2: "frozen rt (se_later se rt1)" using drains_only_frozen(1) [OF w d1 g1] f1 by (blast intro: frozen_trans)
  have v: "shutdown_verdict sp ok drained (run_mode (config rt) \<noteq> kTraining \<or> se_metrics se) release
      (GetSnapshot (config (se_later se rt1)) (se_steady se) (distributor (se_later se rt1))) (se_later se rt1) = (b, rt')"
    using fin unfolding shutdown_finish_def Let_def x by (simp add: r)
  show f: "frozen rt rt'" by (rule frozen_trans [OF f2 verdict_frozen [OF v]])
  show "ok \<and> server_state rt' = AiStopped \<and> CountCachedSegments rt' = 0 \<and>
      sender_settled (GetSnapshot (config rt') (se_steady se) (distributor rt'))" if "b"
    using verdict_good [OF v [unfolded that [THEN eqTrueI]]] f f2 by (simp add: frozen_def)
qed

text \<open>The whole operation.\<close>

lemma shutdown_ok:
  fixes w :: "('q, 'p) codec"
  assumes s: "BeginShutdown se rt = Inr (b, rt')" "\<not> shutdown_started rt" and ok: "runtime_ok w rt"
    and w: "drains_only (se_window se)" "drains_only (se_later se)"
  shows "balance rt' = balance rt" "CountCachedTransitions rt' = 0"
    "b \<Longrightarrow> quarantined_transition_count rt' = quarantined_transition_count rt \<and>
      server_state rt' = AiStopped \<and> CountCachedSegments rt' = 0 \<and>
      sender_settled (GetSnapshot (config rt') (se_steady se) (distributor rt'))"
proof -
  obtain sp rt1 where p: "shutdown_plan (se_env se) rt = (sp, rt1)" by force
  obtain c err rt2 where cm: "shutdown_commit (se_env se) (se_turns se) sp rt1 = (c, err, rt2)"
    by (metis prod_cases3)
  obtain prepared rt3 where st: "shutdown_settle (se_reward se) sp c err (se_window se rt2) = Inr (prepared, rt3)"
    and fin: "shutdown_finish se sp (prepared \<and> c) rt3 = (b, rt')"
    using s by (auto simp: BeginShutdown_def p cm and_then_Inr)
  note pl = plan_effect [OF p ok]
  obtain d where rt2: "rt2 = rt1\<lparr>distributor := d\<rparr>" using commit_core [OF cm] by blast
  have f2: "frozen rt1 rt2" unfolding rt2 by (rule frozen_same) simp_all
  have d2: "draining rt2" using pl(2) by (simp add: rt2 draining_def)
  have g2: "store_good rt2" using frozen_effect(1) [OF f2] pl(3) by simp
  note win = drains_only_frozen [OF w(1) d2 g2]
  note se = settle_effect [OF p ok frozen_trans [OF f2 win(1)], of c err]
  note sec = settle_section [OF st se(3)]
  note e3 = frozen_effect [OF sec(1)]
  have g3: "store_good rt3" using e3(1) se(3) by simp
  note fs = finish_section [OF fin w(2) sec(3) [OF win(2)] g3]
  note e4 = frozen_effect [OF fs(1)]
  show "balance rt' = balance rt" using e4(3) e3(3) se(1) by simp
  show "CountCachedTransitions rt' = 0" using e4(2) e3(2) se(2) by simp
  show "quarantined_transition_count rt' = quarantined_transition_count rt \<and>
      server_state rt' = AiStopped \<and> CountCachedSegments rt' = 0 \<and>
      sender_settled (GetSnapshot (config rt') (se_steady se) (distributor rt'))" if b
    using fs(2) [OF that] sec(2) se(4) fs(1) sec(1) by (simp add: frozen_def)
qed

end
