(* ===== verification/Shutdown_Claims.thy ===== *)
theory Shutdown_Claims
  imports Shutdown_Balance Service_Claims
begin

text \<open>
  What the end of the server guarantees: silent clients lose nothing that could be delivered, a draining
  server takes no more work, and shutdown accounts for every transition collected in the whole run.
\<close>

section \<open>Calls during a shutdown\<close>

text \<open>C10: Once shutdown has begun, no call and no other thread changes what was collected: no session is
  opened or dropped, no Agent of any session changes, and nothing is produced or quarantined.\<close>
theorem draining_server_takes_no_work:
  assumes "drain_run (maze_ops cfg me) w ow S0 S" "shutdown_started (srv S0)" "server_state (srv S0) \<noteq> AiReady"
    and "sessions_ok w S0"
  shows "stored_agents (srv S) = stored_agents (srv S0) \<and> produced S = produced S0 \<and>
    quarantined_transition_count (srv S) = quarantined_transition_count (srv S0)"
proof -
  have "store_good (srv S0)" using assms(4) runtime_ok_good by (simp add: sessions_ok_runtime)
  with drain_run_drains [OF assms(1)] assms(2,3) show ?thesis by (simp add: draining_def drains_def frozen_def)
qed

definition demo_drain :: "(unit, maze_state, episode_controller) service" where
  "demo_drain = demo_service\<lparr>srv := start_shutdown demo_runtime\<lparr>session_mgr :=
     \<lparr>sessions = [(session_name 1, new_session (session_name 1))], next_session_id = 2\<rparr>\<rparr>\<rparr>"

definition demo_drain_request :: "maze_request request" where
  "demo_drain_request = demo_request\<lparr>command := FillCommand (demo_cursor\<lparr>cur_session_id := session_name 1\<rparr>)\<rparr>"

lemma demo_drain_ok: "sessions_ok unary_codec demo_drain"
proof -
  have "session_inv demo_cfg (new_session (session_name 1)) \<and> cached (new_session (session_name 1)) = 0"
    by (rule idle_agents_inv) (simp_all add: new_session_def in_episode_def)
  then show ?thesis
    by (auto simp: sessions_ok_def demo_drain_def demo_service_def GetSession_def manager_ok_def start_shutdown_def
        replay_ok_def new_replay_def demo_runtime_fields new_session_def split: if_splits intro: exI [of _ 1])
qed

theorem draining_server_takes_no_work_witness:
  "\<exists>S. drain_run (maze_ops demo_maze_cfg demo_maze_env) unary_codec unary_open_codec demo_drain S \<and>
     map_option phase (stored S (session_name 1)) = Some PhaseClosed \<and>
     stored_agents (srv S) = [(session_name 1, session_name 1, [])]"
proof -
  let ?r = "serve_rpc (maze_ops demo_maze_cfg demo_maze_env) unary_codec RpcClose demo_call demo_drain_request demo_drain"
  have st: "GetSession (session_mgr (srv demo_drain)) (session_name 1) = Some (new_session (session_name 1))"
    by (simp add: demo_drain_def GetSession_def)
  have id: "cmd_session_id (command demo_drain_request) = session_name 1"
    by (simp add: demo_drain_request_def FillCommand_def)
  have "fst (CheckCommand unary_codec (new_session (session_name 1)) demo_drain_request empty_response) = CheckProceed"
    by (simp add: CheckCommand_def replay_Classify_def new_session_def new_replay_def demo_drain_request_def
        FillCommand_def demo_cursor_def Let_def)
  then obtain rsp where chk: "CheckCommand unary_codec (new_session (session_name 1)) demo_drain_request
      empty_response = (CheckProceed, rsp)" by (metis prod.collapse)
  have ph: "map_option phase (stored (snd ?r) (session_name 1)) = Some PhaseClosed"
    using st chk by (simp add: serve_rpc_def CloseSession_def handle_def CheckedSession_def id Let_def
        CloseSession_proceed_def touch_def new_session_def CommitCommand_def put_session_part_def
        FillReply_def split: prod.splits)
  have run: "drain_run (maze_ops demo_maze_cfg demo_maze_env) unary_codec unary_open_codec demo_drain (snd ?r)"
    by (rule drain_call [OF drain_start prod.collapse [symmetric]])
  have "shutdown_started (srv demo_drain)" "server_state (srv demo_drain) \<noteq> AiReady"
    "stored_agents (srv demo_drain) = [(session_name 1, session_name 1, [])]"
    by (simp_all add: demo_drain_def demo_service_def start_shutdown_def stored_agents_def new_session_def)
  with draining_server_takes_no_work [OF run _ _ demo_drain_ok] run ph show ?thesis by auto
qed
section \<open>Silent clients\<close>

text \<open>C14: Recovery touches no session but those in an Episode whose client has been silent for the
  recovery timeout; such a session is left as it was, or aborted with all its segments closed or given
  up, and still remembers the commands it applied.\<close>
theorem recovery_spares_active_sessions:
  assumes "runtime_ok w rt" "RecoverExpiredClientSessions env between now rt = (b, rt')"
    and "GetSession (session_mgr rt) sid = Some s"
  shows "\<exists>s'. GetSession (session_mgr rt') sid = Some s' \<and> recovered (config rt) now s s'"
  using recovery_touches [OF assms(1,2)] assms(3) by (simp add: only_recovered_def)

definition silent_session :: session where
  "silent_session = (new_session (session_name 1))\<lparr>current_episode_id := ''ep'',
     current_episode_mode := ModeTraining, phase := PhaseEpisodeRunning, scope := TrainingAgentSegment,
     agents := [(0, demo_agent\<lparr>pending_value := PInf\<rparr>)], last_valid_client_activity_unix_ms := 1\<rparr>"

definition silent_runtime :: "unit runtime" where
  "silent_runtime = demo_runtime\<lparr>session_mgr :=
     \<lparr>sessions = [(session_name 1, silent_session)], next_session_id = 2\<rparr>\<rparr>"

lemma silent_ok: "runtime_ok unary_codec silent_runtime"
proof -
  have "session_good demo_cfg silent_session"
    by (simp add: good_def silent_session_def agent_good_def demo_agent_def HasModelIdentity_def
        demo_manifest_def prepared_valid_def segment_ok_def transition_ok_def demo_cfg_def
        default_config_def sample_transition_def mask_valid_def)
  then have "session_inv demo_cfg silent_session"
    by (simp add: session_inv_def silent_session_def in_episode_def demo_cfg_def)
  then show ?thesis
    by (auto simp: runtime_ok_def silent_runtime_def manager_ok_def GetSession_def demo_runtime_fields
        silent_session_def replay_ok_def new_replay_def new_session_def split: if_splits intro: exI [of _ 1])
qed

text \<open>The value of its pending action is not finite: the session is given up.\<close>

theorem recovery_spares_active_sessions_witness:
  "\<exists>rt'. RecoverExpiredClientSessions demo_env (\<lambda>_. (id, id)) 100000000 silent_runtime = (False, rt') \<and>
     quarantined_transition_count rt' = 1 \<and>
     map_option phase (GetSession (session_mgr rt') (session_name 1)) = Some PhaseAborted \<and>
     map_option last_command_sequence (GetSession (session_mgr rt') (session_name 1)) = Some 0"
proof -
  let ?r = "RecoverExpiredClientSessions demo_env (\<lambda>_. (id, id)) 100000000 silent_runtime"
  have s: "GetSession (session_mgr silent_runtime) (session_name 1) = Some silent_session"
    by (simp add: silent_runtime_def GetSession_def)
  have e: "client_expired demo_cfg 100000000 silent_session"
    by (simp add: client_expired_def silent_session_def demo_cfg_def default_config_def)
  have r: "\<not> shutdown_started silent_runtime" "config silent_runtime = demo_cfg" "run_mode demo_cfg = kTraining"
    "GetSessionIds (session_mgr silent_runtime) = [session_name 1]" "quarantined_transition_count silent_runtime = 0"
    by (simp_all add: silent_runtime_def demo_runtime_def init_runtime_def demo_cfg_def GetSessionIds_def)
  have c: "close_all demo_env ClientRecoveryTimeout (agent_keys silent_session)
      (new_txn silent_runtime silent_session) silent_runtime =
      (NoBootstrap, new_txn silent_runtime silent_session, rollout_failure silent_runtime)"
    by (simp add: agent_keys_def silent_session_def close_or_discard_def agent_at_def demo_agent_def
        close_open_def Let_def)
  define rt' where "rt' = snd (recover_failed (session_name 1) silent_session NoBootstrap (rollout_failure silent_runtime))"
  have f: "?r = (False, rt')"
    by (simp add: RecoverExpiredClientSessions_def r s e recover_session_def c rt'_def recover_failed_def Let_def)
  have q: "quarantined_transition_count rt' = 1"
    using r(5) by (simp add: rt'_def recover_failed_def discard_session_def Let_def agent_keys_def silent_session_def
        DiscardAgentSegment_def new_txn_def demo_agent_def set_agent_def rt_MarkDegraded_def rollout_failure_def
        split: option.splits)
  obtain s' where s': "GetSession (session_mgr rt') (session_name 1) = Some s'"
    "recovered demo_cfg 100000000 silent_session s'"
    using recovery_spares_active_sessions [OF silent_ok f s] r(2) by auto
  have p: "map_option phase (GetSession (session_mgr rt') (session_name 1)) = Some PhaseAborted"
    using s by (simp add: rt'_def recover_failed_def discard_session_def Let_def rt_MarkDegraded_def rollout_failure_def)
  have "last_command_sequence silent_session = 0" by (simp add: silent_session_def new_session_def)
  then have "last_command_sequence s' = 0" using s'(2) by (auto simp: recovered_def)
  with f q p s'(1) show ?thesis by simp
qed

section \<open>Shutdown\<close>

text \<open>Other calls, and nothing else, run while shutdown has released the mutex.\<close>

definition calls_only ::
  "('t, 'c, 'q, 'p) task_ops \<Rightarrow> ('q, 'p) codec \<Rightarrow> ('q, 'p) open_codec \<Rightarrow> ('g runtime \<Rightarrow> 'g runtime) \<Rightarrow> bool" where
  "calls_only ops w ow f \<longleftrightarrow>
     (\<forall>T :: ('g, 't, 'c) service. \<exists>T'. drain_run ops w ow T T' \<and> srv T' = f (srv T))"

lemma calls_only_id: "calls_only ops w ow id"
  unfolding calls_only_def using drain_start by (metis id_apply)

lemma calls_only_drains:
  fixes ops :: "('t, 'c, 'q, 'p) task_ops" and f :: "'g runtime \<Rightarrow> 'g runtime"
  assumes "calls_only ops w ow f"
  shows "drains_only f"
  unfolding drains_only_def
proof (intro allI impI)
  fix rt :: "'g runtime" assume rt: "draining rt \<and> store_good rt"
  define T :: "('g, 't, 'c) service" where "T = \<lparr>srv = rt, tasks = \<lambda>_. undefined, controller = undefined\<rparr>"
  obtain T' where T': "drain_run ops w ow T T'" "srv T' = f (srv T)" using assms unfolding calls_only_def by blast
  have "srv T = rt" by (simp add: T_def)
  with drain_run_drains [OF T'(1)] T'(2) rt show "drains rt (f rt)" by simp
qed

text \<open>C4: Shutdown accounts for every transition collected in the whole run, whatever calls arrive while
  it waits for the sample delivery: nothing stays cached, and what Updates completed was produced, or
  given up and counted as quarantined; when shutdown reports success nothing was given up, the outbound
  queue is empty, no push is unresolved and nothing was dropped.\<close>
theorem shutdown_loses_no_transition:
  assumes "service_run (maze_ops cfg me) w ow S0 n S" "codec_ok w" "session_mgr (srv S0) = empty_manager"
    and "\<not> shutdown_started (srv S)" "BeginShutdown se (srv S) = Inr (b, rt)"
    and "calls_only (maze_ops cfg me) w ow (se_window se)" "calls_only (maze_ops cfg me) w ow (se_later se)"
  shows "produced_unique_transitions rt =
      produced S0 + n - (quarantined_transition_count rt - quarantined_transition_count (srv S)) \<and>
    CountCachedTransitions rt = 0 \<and>
    (b \<longrightarrow> quarantined_transition_count rt = quarantined_transition_count (srv S) \<and>
       sender_settled (GetSnapshot (config rt) (se_steady se) (distributor rt)))"
proof -
  have inv: "sessions_ok w S" "produced S + CountCachedTransitions (srv S) = produced S0 + n"
    using maze_task.run_invariant [OF assms(1,2)] fresh_sessions [OF assms(3), of w] by simp_all
  have "runtime_ok w (srv S)" using inv(1) by (simp add: sessions_ok_runtime)
  from shutdown_ok [OF assms(5,4) this calls_only_drains [OF assms(6)] calls_only_drains [OF assms(7)]] inv(2)
  show ?thesis by (simp add: balance_def)
qed
text \<open>An evaluation server with one session that was just opened.\<close>

definition demo_shutdown :: "unit shutdown_env" where
  "demo_shutdown = \<lparr>se_env = demo_env, se_turns = [], se_window = id,
     se_reward = \<lparr>ro_now_ms = 9, ro_steady = 9, ro_serialize = (\<lambda>_. None), ro_event_size = (\<lambda>_. 1)\<rparr>,
     se_drain = (\<lambda>d. (True, d)), se_metrics = True,
     se_release = \<lparr>ri_pid = None, ri_lock = None, ri_lock_removed = True\<rparr>, se_later = id, se_steady = 9\<rparr>"

text \<open>Opening a session on a server that has none.\<close>

definition idle_with :: "('g, 't, 'c) service \<Rightarrow> ('g, 't, 'c) service \<Rightarrow> bool" where
  "idle_with T S \<longleftrightarrow>
     (\<exists>s. sessions (session_mgr (srv S)) = [(session_name 1, s)] \<and> agents s = [] \<and>
        rm_count (reward_metrics s) = 0 \<and> current_episode_mode s \<noteq> ModeTraining) \<and>
     config (srv S) = config (srv T) \<and> shutdown_started (srv S) = shutdown_started (srv T) \<and>
     workspace_lease_held (srv S) = workspace_lease_held (srv T) \<and>
     model_load_state (srv S) = model_load_state (srv T) \<and>
     model_ack_pending (srv S) = model_ack_pending (srv T) \<and> started (srv S) = started (srv T) \<and>
     distributor (srv S) = distributor (srv T) \<and> server_state (srv S) = server_state (srv T)"

lemma demo_open_idle:
  assumes "session_mgr (srv T) = empty_manager" "IsReady (srv T)" "open_payloads (srv T) = Map.empty"
  shows "idle_with T (snd (OpenSession (maze_ops demo_maze_cfg demo_maze_env) unary_open_codec demo_call demo_open_req T))"
proof -
  let ?o = "OpenSession (maze_ops demo_maze_cfg demo_maze_env) unary_open_codec demo_call demo_open_req T"
  let ?s = "(new_session (session_name 1))\<lparr>client := oq_client demo_open_req,
      environment_instance_id := oq_environment demo_open_req,
      last_valid_client_activity_unix_ms := ce_now_ms demo_call,
      session_epoch := next_lifecycle_epoch (srv T),
      workload_mode := WorkloadModeForRunMode (run_mode (config (srv T))), phase := PhaseOpen\<rparr>"
  have q: "oq_request_id demo_open_req = ''req''" "oq_environment demo_open_req = ''env''"
    "oq_client demo_open_req = \<lparr>component = ''client'', instance_id = ''c-0'', lifecycle_epoch = 1\<rparr>"
    "ser_open_req unary_open_codec demo_open_req = ''req''"
    by (simp_all add: demo_open_req_def unary_open_codec_def)
  have "sessions (session_mgr (srv (snd ?o))) = [(session_name 1, ?s)]"
    by (simp add: OpenSession_def Let_def assms q open_fresh_def CreateSession_def remember_open_def
        empty_manager_def put_session_def SetSession_def put_at_def split: prod.split)
  then have "\<exists>s. sessions (session_mgr (srv (snd ?o))) = [(session_name 1, s)] \<and> agents s = [] \<and>
      rm_count (reward_metrics s) = 0 \<and> current_episode_mode s \<noteq> ModeTraining"
    by (simp add: new_session_def new_reward_window_def)
  moreover have "config (srv (snd ?o)) = config (srv T)" "shutdown_started (srv (snd ?o)) = shutdown_started (srv T)"
    "workspace_lease_held (srv (snd ?o)) = workspace_lease_held (srv T)"
    "model_load_state (srv (snd ?o)) = model_load_state (srv T)"
    "model_ack_pending (srv (snd ?o)) = model_ack_pending (srv T)"
    "started (srv (snd ?o)) = started (srv T)" "distributor (srv (snd ?o)) = distributor (srv T)"
    "server_state (srv (snd ?o)) = server_state (srv T)"
    by (simp_all add: OpenSession_def Let_def assms q open_fresh_def CreateSession_def remember_open_def split: prod.split)
  ultimately show ?thesis unfolding idle_with_def by blast
qed

text \<open>Such a server shuts down successfully, in any run mode.\<close>

lemma demo_shutdown_succeeds:
  assumes i: "idle_with T S" and T: "\<not> shutdown_started (srv T)" "\<not> workspace_lease_held (srv T)"
      "model_load_state (srv T) = ModelReady" "\<not> model_ack_pending (srv T)" "\<not> started (srv T)" "server_state (srv T) = AiReady"
    and d: "\<And>cfg. sender_settled (GetSnapshot cfg 9 (distributor (srv T)))"
  obtains rt where "BeginShutdown demo_shutdown (srv S) = Inr (True, rt)" "server_state rt = AiStopped"
proof -
  obtain s where s: "sessions (session_mgr (srv S)) = [(session_name 1, s)]" "agents s = []"
    "rm_count (reward_metrics s) = 0" "current_episode_mode s \<noteq> ModeTraining" using i unfolding idle_with_def by blast
  have S: "\<not> shutdown_started (srv S)" "\<not> workspace_lease_held (srv S)" "model_load_state (srv S) = ModelReady"
    "\<not> model_ack_pending (srv S)" "\<not> started (srv S)" "server_state (srv S) = AiReady"
    "distributor (srv S) = distributor (srv T)" using i T by (simp_all add: idle_with_def)
  let ?s = "end_session (clear_all_pending s)"
  have e: "agents ?s = []" "rm_count (reward_metrics ?s) = 0"
    using s(2,3) by (simp_all add: end_session_def clear_all_pending_def ReleaseEpisodePolicy_def)
  define sp where "sp = fst (shutdown_plan demo_env (srv S))"
  have sp: "shutdown_plan demo_env (srv S) = (sp, start_shutdown (srv S))"
    "sp_ok sp" "sp_sessions sp = [(session_name 1, ?s)]" "\<not> sp_fault sp" "tx_output (sp_txn sp) = []"
    using s(4) S(6)
    by (simp_all add: sp_def shutdown_plan_def s(1) plan_session_def start_shutdown_def new_plan_def new_txn_def)
  let ?rt1 = "start_shutdown (srv S)"
  have cm: "shutdown_commit demo_env [] sp ?rt1 = (True, sp_error sp, ?rt1)"
    by (simp add: shutdown_commit_def sp(5))
  let ?rt2 = "settle_sessions sp True (sp_error sp) ?rt1"
  have rt2: "sessions (session_mgr ?rt2) = [(session_name 1, ?s)]"
    by (simp add: settle_sessions_def sp store_counts_def store_plan_def SetSession_def start_shutdown_def s(1) put_at_def)
  have fl: "FlushRewardMetricsLocked (se_reward demo_shutdown) ?rt2 = Inr (True, ?rt2)"
    by (simp add: FlushRewardMetricsLocked_def GetSessionIds_def rt2 flush_session_def GetSession_def e)
  let ?rt3 = "?rt2\<lparr>metric_events := journal_Finalize (metric_events ?rt2)\<rparr>"
  have st: "shutdown_settle (se_reward demo_shutdown) sp True (sp_error sp) ?rt1 = Inr (True, ?rt3)"
    by (simp add: shutdown_settle_def fl sp)
  have rt3: "\<not> workspace_lease_held ?rt3" "server_state ?rt3 = AiDraining" "model_load_state ?rt3 = ModelReady"
    "\<not> model_ack_pending ?rt3" "\<not> started ?rt3" "distributor ?rt3 = distributor (srv T)"
    using S by (simp_all add: settle_sessions_def sp store_counts_def start_shutdown_def)
  have "fst (shutdown_finish demo_shutdown sp True ?rt3) \<and>
      server_state (snd (shutdown_finish demo_shutdown sp True ?rt3)) = AiStopped"
    using rt3 d sp(4)
    by (simp add: CountCachedTransitions_def CountCachedSegments_def rt2 e shutdown_finish_def ReleaseTrainingWorkspaceLease_def shutdown_verdict_def Let_def
        demo_shutdown_def model_state_settled_def)
  then obtain rt where rt: "shutdown_finish demo_shutdown sp True ?rt3 = (True, rt)" "server_state rt = AiStopped"
    by (metis prod.collapse)
  have se: "se_env demo_shutdown = demo_env" "se_turns demo_shutdown = []" "se_window demo_shutdown = id"
    by (simp_all add: demo_shutdown_def)
  have "BeginShutdown demo_shutdown (srv S) = Inr (True, rt)"
    using S(1) by (simp add: BeginShutdown_def se sp(1) cm st rt(1))
  then show thesis using rt(2) by (rule that)
qed

lemma demo_evaluation_idle:
  "IsReady (srv demo_evaluation)" "open_payloads (srv demo_evaluation) = Map.empty"
  "next_of demo_evaluation + 1 \<noteq> 0" "\<not> shutdown_started (srv demo_evaluation)"
  "\<not> workspace_lease_held (srv demo_evaluation)" "model_load_state (srv demo_evaluation) = ModelReady"
  "\<not> model_ack_pending (srv demo_evaluation)" "\<not> started (srv demo_evaluation)"
  "server_state (srv demo_evaluation) = AiReady"
  "sender_settled (GetSnapshot cfg 9 (distributor (srv demo_evaluation)))"
  by (simp_all add: demo_evaluation_def demo_service_def demo_runtime_def init_runtime_def IsReady_def empty_manager_def
      IsCoreInferenceReady_def kTraining_def kEvaluation_def sender_settled_def GetSnapshot_def init_dist_def)

theorem shutdown_loses_no_transition_witness:
  "\<exists>S rt. service_run (maze_ops demo_maze_cfg demo_maze_env) unary_codec unary_open_codec demo_evaluation 0 S \<and>
     BeginShutdown demo_shutdown (srv S) = Inr (True, rt) \<and> server_state rt = AiStopped \<and>
     produced_unique_transitions rt = 0 \<and> queue (distributor rt) = []"
proof -
  let ?o = "OpenSession (maze_ops demo_maze_cfg demo_maze_env) unary_open_codec demo_call demo_open_req demo_evaluation"
  note ev = demo_evaluation_idle
  have run: "service_run (maze_ops demo_maze_cfg demo_maze_env) unary_codec unary_open_codec demo_evaluation 0 (snd ?o)"
    by (rule run_open [OF run_start ev(3) prod.collapse [symmetric]])
  have i: "idle_with demo_evaluation (snd ?o)" by (rule demo_open_idle [OF demo_evaluation_empty(1) ev(1,2)])
  obtain rt where rt: "BeginShutdown demo_shutdown (srv (snd ?o)) = Inr (True, rt)" "server_state rt = AiStopped"
    by (rule demo_shutdown_succeeds [OF i ev(4-10)])
  have "\<not> shutdown_started (srv (snd ?o))" using i ev(4) by (simp add: idle_with_def)
  from shutdown_loses_no_transition [OF run unary_codec_ok demo_evaluation_empty(1) this rt(1)]
  have "produced_unique_transitions rt = 0" "queue (distributor rt) = []"
    by (simp_all add: demo_shutdown_def calls_only_id demo_evaluation_empty(2) sender_settled_def GetSnapshot_def)
  with run rt show ?thesis by blast
qed
section \<open>A close that shutdown undoes\<close>

text \<open>
  \<open>CloseSession\<close> is the one command a draining server applies.  When it arrives between the first and
  the second critical section, the copy of the session made in the first one is stored over it: the
  client was told that the command was applied, but the session neither is closed nor remembers it.
\<close>

definition close_in_window :: "unit runtime \<Rightarrow> maze_result response \<times> unit runtime" where
  "close_in_window rt =
     (case serve_rpc (maze_ops demo_maze_cfg demo_maze_env) unary_codec RpcClose demo_call demo_drain_request
             (demo_drain\<lparr>srv := rt\<rparr>) of
        (rsp, S) \<Rightarrow> (rsp, srv S))"

lemma plan_session_overwrites:
  assumes "sp_ok sp" "sessions m = [(sid, x)]" "sp_sessions sp = [(sid, s)]" "session_mgr rt = m"
  shows "sessions (session_mgr (settle_sessions sp True err rt)) = [(sid, s)]"
  using assms by (simp add: settle_sessions_def store_counts_def store_plan_def SetSession_def put_at_def)

lemma close_in_window_undone:
  assumes rt: "rt = demo_runtime\<lparr>session_mgr :=
      \<lparr>sessions = [(session_name 1, new_session (session_name 1))], next_session_id = 2\<rparr>\<rparr>"
    and p: "shutdown_plan demo_env rt = (sp, rt1)" and c: "close_in_window rt1 = (rsp, rt2)"
  shows "rpl_result (reply rsp) = ResultApplied"
    "map_option phase (GetSession (session_mgr rt2) (session_name 1)) = Some PhaseClosed"
    "map_option last_command_sequence (GetSession (session_mgr rt2) (session_name 1)) = Some 1"
    "shutdown_commit demo_env turns sp rt1 = (True, [], rt1)"
    "map_option phase (GetSession (session_mgr (settle_sessions sp True err rt2)) (session_name 1)) = Some PhaseOpen"
    "map_option last_command_sequence
       (GetSession (session_mgr (settle_sessions sp True err rt2)) (session_name 1)) = Some 0"
proof -
  let ?s = "new_session (session_name 1)"
  have as: "agents ?s = []" "phase ?s = PhaseOpen" "last_command_sequence ?s = 0" "current_episode_mode ?s \<noteq> ModeTraining \<or> True"
    by (simp_all add: new_session_def)
  have sp: "sp_ok sp" "sp_error sp = []" "tx_output (sp_txn sp) = []" "rt1 = start_shutdown rt"
    "\<exists>s. sp_sessions sp = [(session_name 1, s)] \<and> phase s = PhaseOpen \<and> last_command_sequence s = 0"
    using p by (auto simp: shutdown_plan_def rt plan_session_def agent_keys_def as end_session_def new_plan_def
        new_txn_def clear_all_pending_def split: if_splits)
  show "shutdown_commit demo_env turns sp rt1 = (True, [], rt1)" by (simp add: shutdown_commit_def sp)
  have st: "GetSession (session_mgr rt1) (session_name 1) = Some ?s" "session_mgr rt1 =
      \<lparr>sessions = [(session_name 1, ?s)], next_session_id = 2\<rparr>"
    by (simp_all add: sp(4) rt start_shutdown_def GetSession_def)
  have id: "cmd_session_id (command demo_drain_request) = session_name 1" "cmd_sequence (command demo_drain_request) = 1"
    by (simp_all add: demo_drain_request_def FillCommand_def demo_cursor_def)
  have "fst (CheckCommand unary_codec ?s demo_drain_request empty_response) = CheckProceed"
    by (simp add: CheckCommand_def replay_Classify_def new_session_def new_replay_def demo_drain_request_def
        FillCommand_def demo_cursor_def Let_def)
  then obtain r where chk: "CheckCommand unary_codec ?s demo_drain_request empty_response = (CheckProceed, r)"
    by (metis prod.collapse)
  have x: "\<exists>x. sessions (session_mgr rt2) = [(session_name 1, x)] \<and> phase x = PhaseClosed \<and>
      last_command_sequence x = 1 \<and> rpl_result (reply rsp) = ResultApplied"
    using c st chk by (auto simp: close_in_window_def serve_rpc_def CloseSession_def handle_def CheckedSession_def id
        Let_def CloseSession_proceed_def touch_def new_session_def CommitCommand_def put_session_part_def
        FillReply_def SetSession_def put_at_def)
  then show "rpl_result (reply rsp) = ResultApplied"
    "map_option phase (GetSession (session_mgr rt2) (session_name 1)) = Some PhaseClosed"
    "map_option last_command_sequence (GetSession (session_mgr rt2) (session_name 1)) = Some 1"
    by (auto simp: GetSession_def)
  from x sp(5) plan_session_overwrites [OF sp(1) _ _ refl]
  obtain s where "sessions (session_mgr (settle_sessions sp True err rt2)) = [(session_name 1, s)]"
    "phase s = PhaseOpen" "last_command_sequence s = 0" by blast
  then show "map_option phase (GetSession (session_mgr (settle_sessions sp True err rt2)) (session_name 1)) = Some PhaseOpen"
    "map_option last_command_sequence
       (GetSession (session_mgr (settle_sessions sp True err rt2)) (session_name 1)) = Some 0"
    by (simp_all add: GetSession_def)
qed

end
