(* ===== verification/Task_Client_Claims.thy ===== *)
theory Task_Client_Claims
  imports Service_Claims
begin

text \<open>What the client SDK guarantees the environment that uses it.\<close>

section \<open>Commands\<close>

text \<open>C6: A command of the client library tells what happened on the server although the transport may
  have sent it twice in each turn and lost what it liked.  Of all the calls that reached the server exactly
  one had an effect when the outcome is applied, and the client is in step with its session; none had when
  it is rejected, stopped or expired; at most one had when it is unknown, and the cursor has not moved.
  The session's sequence moved by that number.\<close>
theorem client_command_outcome:
  assumes "client_Exchange (over_wire (logged (serve_world (maze_ops cfg me) w k ces))) acceptable delay ts q rsp
      cl ([], W) = Some (r, rsp', cl', calls, W')"
    and "world_ok w sid W" "synced (cl_cursor cl) (world_session sid W)" "replay_ok w (world_session sid W)"
  shows "(case r of
      OutcomeApplied \<Rightarrow> (\<exists>call. filter has_effect calls = [call]) \<and>
          synced (cl_cursor cl') (world_session sid W')
    | OutcomeUnknown \<Rightarrow> length (filter has_effect calls) \<le> 1 \<and> cl_cursor cl' = cl_cursor cl
    | _ \<Rightarrow> filter has_effect calls = [] \<and> cl_cursor cl' = cl_cursor cl) \<and>
    last_command_sequence (world_session sid W') =
      last_command_sequence (world_session sid W) + of_nat (length (filter has_effect calls))"
proof -
  let ?req = "\<lparr>command = FillCommand (cl_cursor cl), body = q\<rparr>"
  note x = maze_server.client_counts [OF assms]
  from x have J: "maze_server.at_most_once w sid cfg me k ces ?req (world_session sid W) (calls, W')" by blast
  from x have o: "outcome_ok w ?req (cl_cursor cl) (world_session sid W) r (cl_cursor cl') (world_session sid W')"
    by simp
  note n = logged_sequence [OF J] and m = maze_server.at_most_once_moved(1) [OF J]
  have "(filter has_effect calls = []) =
      (last_command_sequence (world_session sid W') = last_command_sequence (world_session sid W))"
    using m logged_effects [OF J] by simp
  with o n single_entry [of "filter has_effect calls"] show ?thesis
    by (cases r) (auto simp: outcome_ok_def once_def protocol_state_def)
qed

definition demo_client :: task_client where
  "demo_client = (new_client \<lparr>co_identity = \<lparr>component = ''client'', instance_id = ''c-0'', lifecycle_epoch = 1\<rparr>,
     co_environment = ''env'', co_open_request_id = ''req''\<rparr>)
     \<lparr>cl_transport := new_transport\<lparr>tr_connected := True\<rparr>, cl_stub := True, cl_cursor := demo_cursor\<rparr>"

text \<open>The first reply is lost, and the transport sends the command again.\<close>

definition demo_resend :: "(fate \<times> fate) turn" where
  "demo_resend = \<lparr>turn_stopped = False, turn_expired = False, turn_net = (NoReply GrpcUnavailable [], Answered)\<rparr>"

theorem client_command_outcome_witness:
  "\<exists>rsp cl calls W. client_Exchange (over_wire (logged (serve_world (maze_ops demo_maze_cfg demo_maze_env)
       unary_codec RpcClose (\<lambda>n. demo_call)))) (\<lambda>_ _. True) (\<lambda>_. 0) [demo_resend] (body demo_request)
       empty_response demo_client ([], (0, demo_open)) = Some (OutcomeApplied, rsp, cl, calls, W) \<and>
     length calls = 2 \<and> length (filter has_effect calls) = 1"
proof -
  let ?serve = "logged (serve_world (maze_ops demo_maze_cfg demo_maze_env) unary_codec RpcClose (\<lambda>n. demo_call))"
  let ?V0 = "([], (0, demo_open))" and ?s = "world_session ''s'' (0, demo_open)"
  obtain V where V: "demo_logged ReplyLost ?V0 = (None, V)" "filter has_effect (fst V) \<noteq> []"
    and J: "maze_server.at_most_once unary_codec ''s'' demo_maze_cfg demo_maze_env RpcClose (\<lambda>n. demo_call)
       demo_request ?s V" by (rule demo_closed_effect)
  have ne: "filter applied_entry (fst (snd (?serve demo_request V))) \<noteq> []"
    using V(2) unfolding logged_effects [OF J] by simp
  have V1: "V = snd (?serve demo_request ?V0)" using V(1) by simp
  obtain rsp calls W where r: "?serve demo_request V = (rsp, calls, W)" by (metis prod.collapse)
  from maze_server.logged_accepted [OF J demo_ready(2,4) ne] r obtain c' where
    c': "AcceptCommandReply demo_cursor (reply rsp) = Some c'" by (metis fst_conv logged_simps(1))
  have req: "\<lparr>command = FillCommand demo_cursor, body = body demo_request\<rparr> = demo_request"
    by (simp add: demo_request_def)
  note nw = accepted_not_wait [OF c']
  let ?e = "client_Exchange (over_wire ?serve) (\<lambda>_ _. True) (\<lambda>_. 0) [demo_resend] (body demo_request) empty_response
      demo_client ?V0"
  have "\<exists>cl. ?e = Some (OutcomeApplied, rsp, cl, calls, W)"
    using c' r nw by (simp add: client_Exchange_def Let_def demo_client_def new_client_def demo_resend_def req
        one_call_def client_Invoke_def InvokeUnary_def new_transport_def over_wire_def failed_status_def
        retryable_status_def answer_def V1 del: logged_simps)
  then obtain cl where e: "?e = Some (OutcomeApplied, rsp, cl, calls, W)" by blast
  have cur: "cl_cursor demo_client = demo_cursor" by (simp add: demo_client_def)
  from client_command_outcome [OF e demo_ready(1)] demo_ready(2,3)
  have "\<exists>call. filter has_effect calls = [call]" by (simp add: cur)
  then have "length (filter has_effect calls) = 1" by auto
  moreover have "calls = fst (snd (?serve demo_request V))" using r by simp
  then have "length calls = 2" by (simp add: V1)
  ultimately show ?thesis using e by blast
qed

section \<open>Cleaning up\<close>

text \<open>A failure is not overwritten by the abort or the close that follows it.\<close>

lemma PreserveFailure_prefix:
  "original \<noteq> [] \<Longrightarrow> \<exists>more. cl_error (PreserveFailure original cleanup r cl) = original @ more \<and>
     (more = [] \<longleftrightarrow> r = OutcomeApplied)"
  by (simp add: PreserveFailure_def)

lemma cleanup_keeps_the_failure:
  assumes "client_AbortEpisode wire ts q rsp cl w = Some (r, rsp', cl', w') \<or>
      client_CloseSession wire2 tp ts2 rsp2 cl w2 = Some (r, rsp', cl', w')"
    and "cl_error cl \<noteq> []"
  shows "\<exists>more. cl_error cl' = cl_error cl @ more \<and> (more = [] \<longleftrightarrow> r = OutcomeApplied)"
  using assms PreserveFailure_prefix
  by (auto simp: client_AbortEpisode_def client_CloseSession_def split: option.splits)

section \<open>The drivers\<close>

text \<open>A binding that notes when an operation had an unknown outcome, and whether another one came after it.\<close>

definition watched ::
  "('s \<Rightarrow> command_outcome \<times> 's) \<Rightarrow> 's \<times> bool \<times> bool \<Rightarrow> command_outcome \<times> 's \<times> bool \<times> bool" where
  "watched act = (\<lambda>(s, unknown, late). case act s of
     (r, s') \<Rightarrow> (r, s', unknown \<or> r = OutcomeUnknown, late \<or> unknown))"

definition watch :: "'s binding \<Rightarrow> ('s \<times> bool \<times> bool) binding" where
  "watch b = \<lparr>b_open = watched (b_open b), b_init = watched (b_init b), b_begin = watched (b_begin b),
     b_episode = watched (b_episode b), b_end = watched (b_end b), b_abort = watched (b_abort b),
     b_close = watched (b_close b), b_active = (\<lambda>s. b_active b (fst s)),
     b_can_close = (\<lambda>s. b_can_close b (fst s)), b_complete = (\<lambda>s. b_complete b (fst s))\<rparr>"

lemma finish_close_watch:
  assumes "finish_close (watch b) outcome (s, False, False) = (r, s', u, late)"
  shows "\<not> late \<and> (r = OutcomeUnknown \<and> outcome \<noteq> OutcomeUnknown \<longrightarrow> u)"
  using assms by (auto simp: finish_close_def watch_def watched_def Let_def split: prod.splits if_splits)

lemma finish_watch:
  assumes "session_finish (watch b) outcome (s, u, False) = (r, s', u', late)" "u \<longleftrightarrow> outcome = OutcomeUnknown"
  shows "\<not> late \<and> (r = OutcomeUnknown \<longrightarrow> u')"
proof (cases "outcome = OutcomeUnknown")
  case True
  with assms show ?thesis by (simp add: session_finish_def)
next
  case False
  obtain r1 s1 where a: "b_abort b s = (r1, s1)" by force
  have f: "finish_close (watch b) outcome (x, False, False) = (r, s', u', late) \<Longrightarrow> ?thesis" for x
    using finish_close_watch [of b outcome x r s' u' late] False by blast
  show ?thesis
  proof (cases "b_active b s \<and> r1 \<noteq> OutcomeApplied")
    case True
    with assms False a show ?thesis
      by (auto simp: session_finish_def watch_def watched_def Let_def split: if_splits)
  next
    case stay: False
    with assms False a have "finish_close (watch b) outcome (if b_active b s then s1 else s, False, False) = (r, s', u', late)"
      by (auto simp: session_finish_def watch_def watched_def Let_def split: if_splits)
    then show ?thesis by (rule f)
  qed
qed

lemma loop_watch:
  assumes "session_loop (watch b) stops (s, False, False) = Some (r, s', u, late)"
  shows "\<not> late \<and> (r = OutcomeUnknown \<longrightarrow> u)"
  using assms
proof (induction stops arbitrary: s)
  case (Cons stop stops)
  obtain r1 s1 where 1: "b_begin b s = (r1, s1)" by force
  obtain r2 s2 where 2: "b_episode b s1 = (r2, s2)" by force
  obtain r3 s3 where 3: "b_end b s2 = (r3, s3)" by force
  consider "stop" | "\<not> stop" "r1 \<noteq> OutcomeApplied" | "\<not> stop" "r1 = OutcomeApplied" "b_complete b s1"
    | "\<not> stop" "r1 = OutcomeApplied" "\<not> b_complete b s1" "r2 \<noteq> OutcomeApplied"
    | "\<not> stop" "r1 = OutcomeApplied" "\<not> b_complete b s1" "r2 = OutcomeApplied" "r3 \<noteq> OutcomeApplied"
    | "\<not> stop" "r1 = OutcomeApplied" "\<not> b_complete b s1" "r2 = OutcomeApplied" "r3 = OutcomeApplied" by blast
  then show ?case
  proof cases
    case 1
    then have "session_finish (watch b) OutcomeStopped (s, False, False) = (r, s', u, late)" using Cons.prems by simp
    from finish_watch [OF this] show ?thesis by simp
  next
    case 2
    then have "session_finish (watch b) r1 (s1, r1 = OutcomeUnknown, False) = (r, s', u, late)"
      using Cons.prems 1 by (simp add: watch_def watched_def)
    from finish_watch [OF this] show ?thesis by simp
  next
    case 3
    then have "session_finish (watch b) OutcomeApplied (s1, False, False) = (r, s', u, late)"
      using Cons.prems 1 by (simp add: watch_def watched_def)
    from finish_watch [OF this] show ?thesis by simp
  next
    case 4
    then have "session_finish (watch b) r2 (s2, r2 = OutcomeUnknown, False) = (r, s', u, late)"
      using Cons.prems 1 2 by (simp add: watch_def watched_def)
    from finish_watch [OF this] show ?thesis by simp
  next
    case 5
    then have "session_finish (watch b) r3 (s3, r3 = OutcomeUnknown, False) = (r, s', u, late)"
      using Cons.prems 1 2 3 by (simp add: watch_def watched_def)
    from finish_watch [OF this] show ?thesis by simp
  next
    case 6
    then have "session_loop (watch b) stops (s3, False, False) = Some (r, s', u, late)"
      using Cons.prems 1 2 3 by (simp add: watch_def watched_def)
    then show ?thesis by (rule Cons.IH)
  qed
qed simp
text \<open>C15: The session driver never substitutes a command for one whose outcome it does not know: after an
  unknown outcome it starts no further operation, neither an abort nor a close, and it reports unknown
  only when an operation did.\<close>
theorem nothing_follows_an_unknown_outcome:
  assumes "RunSession (watch b) stops (s, False, False) = Some (r, s', unknown, late)"
  shows "\<not> late \<and> (r = OutcomeUnknown \<longrightarrow> unknown)"
proof -
  obtain r1 s1 where 1: "b_open b s = (r1, s1)" by force
  obtain r2 s2 where 2: "b_init b s1 = (r2, s2)" by force
  consider "r1 \<noteq> OutcomeApplied" | "r1 = OutcomeApplied" "r2 \<noteq> OutcomeApplied"
    | "r1 = OutcomeApplied" "r2 = OutcomeApplied" by blast
  then show ?thesis
  proof cases
    case 1
    with assms \<open>b_open b s = (r1, s1)\<close> show ?thesis by (auto simp: RunSession_def watch_def watched_def)
  next
    case 2
    with assms 1 \<open>b_init b s1 = (r2, s2)\<close>
    have "session_finish (watch b) r2 (s2, r2 = OutcomeUnknown, False) = (r, s', unknown, late)"
      by (simp add: RunSession_def watch_def watched_def)
    from finish_watch [OF this] show ?thesis by simp
  next
    case 3
    with assms 1 2 have "session_loop (watch b) stops (s2, False, False) = Some (r, s', unknown, late)"
      by (simp add: RunSession_def watch_def watched_def)
    then show ?thesis by (rule loop_watch)
  qed
qed

text \<open>A session whose first Episode has an unknown outcome; the state counts the operations.\<close>

definition lost_binding :: "nat binding" where
  "lost_binding = \<lparr>b_open = (\<lambda>n. (OutcomeApplied, n + 1)), b_init = (\<lambda>n. (OutcomeApplied, n + 1)),
     b_begin = (\<lambda>n. (OutcomeApplied, n + 1)), b_episode = (\<lambda>n. (OutcomeUnknown, n + 1)),
     b_end = (\<lambda>n. (OutcomeApplied, n + 1)), b_abort = (\<lambda>n. (OutcomeApplied, n + 1)),
     b_close = (\<lambda>n. (OutcomeApplied, n + 1)), b_active = (\<lambda>n. True), b_can_close = (\<lambda>n. True),
     b_complete = (\<lambda>n. False)\<rparr>"

theorem nothing_follows_an_unknown_outcome_witness:
  "\<exists>unknown late. RunSession (watch lost_binding) [False, False] (0, False, False) =
     Some (OutcomeUnknown, 4, unknown, late) \<and> unknown \<and> \<not> late"
proof -
  have e: "RunSession (watch lost_binding) [False, False] (0, False, False) = Some (OutcomeUnknown, 4, True, False)"
    by (simp add: RunSession_def watch_def watched_def lost_binding_def session_finish_def)
  from nothing_follows_an_unknown_outcome [OF e] e show ?thesis by blast
qed

text \<open>Counting the applied Updates and the actions carried out in the environment.\<close>

definition count_updates ::
  "('q \<Rightarrow> 's \<Rightarrow> command_outcome \<times> 's) \<Rightarrow> 'q \<Rightarrow> 's \<times> nat \<times> nat \<Rightarrow> command_outcome \<times> 's \<times> nat \<times> nat" where
  "count_updates exchange q = (\<lambda>(s, u, a). case exchange q s of
     (r, s') \<Rightarrow> (r, s', if r = OutcomeApplied then u + 1 else u, a))"

definition count_actions :: "('s \<Rightarrow> bool \<times> 's) \<Rightarrow> 's \<times> nat \<times> nat \<Rightarrow> bool \<times> 's \<times> nat \<times> nat" where
  "count_actions act = (\<lambda>(s, u, a). case act s of (ok, s') \<Rightarrow> (ok, s', u, if ok then a + 1 else a))"

lemma count_simps [simp]:
  "count_updates exchange q (s, u, a) = (case exchange q s of
     (r, s') \<Rightarrow> (r, s', if r = OutcomeApplied then u + 1 else u, a))"
  "count_actions act (s, u, a) = (case act s of (ok, s') \<Rightarrow> (ok, s', u, if ok then a + 1 else a))"
  by (simp_all add: count_updates_def count_actions_def)

lemma episode_counts:
  assumes "RunEpisode (\<lambda>s. terminal (fst s)) (\<lambda>(s, n). case observe s of (q, s') \<Rightarrow> (q, s', n))
      (count_updates exchange) (count_actions act) stops (s, u, a) = Some (r, s', u', a')"
  shows "if r = OutcomeApplied then u' + a = u + a' + 1
     else u + a' \<le> u' + a \<and> u' + a \<le> u + a' + (if r = OutcomeRejected then 1 else 0)"
  using assms
proof (induction stops arbitrary: s u a)
  case (Cons stop stops)
  obtain q s1 where 1: "observe s = (q, s1)" by force
  obtain r2 s2 where 2: "exchange q s1 = (r2, s2)" by force
  obtain ok s3 where 3: "act s2 = (ok, s3)" by force
  consider "stop \<or> r2 \<noteq> OutcomeApplied \<or> terminal s \<or> \<not> ok"
    | "\<not> stop" "r2 = OutcomeApplied" "\<not> terminal s" "ok" by blast
  then show ?case
  proof cases
    case 1
    then show ?thesis using Cons.prems \<open>observe s = (q, s1)\<close> 2 3
      by (auto split: if_splits)
  next
    case 2
    then have "RunEpisode (\<lambda>s. terminal (fst s)) (\<lambda>(s, n). case observe s of (q, s') \<Rightarrow> (q, s', n))
      (count_updates exchange) (count_actions act) stops (s3, u + 1, a + 1) = Some (r, s', u', a')"
      using Cons.prems 1 \<open>exchange q s1 = (r2, s2)\<close> 3 by simp
    from Cons.IH [OF this] show ?thesis by (auto split: if_splits)
  qed
qed simp

text \<open>C28: The Episode driver reports the result of every action: an Episode that ends has one applied
  Update more than actions, the first for the initial state and the last for the final one, after which
  nothing is carried out; when it ends early no action was carried out without the Update before it.\<close>
theorem episode_reports_every_action:
  assumes "RunEpisode (\<lambda>s. terminal (fst s)) (\<lambda>(s, n). case observe s of (q, s') \<Rightarrow> (q, s', n))
      (count_updates exchange) (count_actions act) stops (s, 0, 0) = Some (r, s', updates, actions)"
  shows "if r = OutcomeApplied then updates = actions + 1
     else actions \<le> updates \<and> updates \<le> actions + (if r = OutcomeRejected then 1 else 0)"
  using episode_counts [OF assms] by (auto split: if_splits)

theorem episode_reports_every_action_witness:
  "\<exists>updates actions. RunEpisode (\<lambda>s. 2 \<le> fst s) (\<lambda>(s :: nat, n). case (s, s) of (q, s') \<Rightarrow> (q, s', n))
      (count_updates (\<lambda>q s. (OutcomeApplied, s))) (count_actions (\<lambda>s. (True, s + 1))) [False, False, False, False] (0, 0, 0)
      = Some (OutcomeApplied, 2, updates, actions) \<and> updates = actions + 1 \<and> actions = 2"
proof -
  have e: "RunEpisode (\<lambda>s. 2 \<le> fst s) (\<lambda>(s :: nat, n). case (s, s) of (q, s') \<Rightarrow> (q, s', n))
      (count_updates (\<lambda>q s. (OutcomeApplied, s))) (count_actions (\<lambda>s. (True, s + 1))) [False, False, False, False] (0, 0, 0)
      = Some (OutcomeApplied, 2, 3, 2)"
    by simp
  from episode_reports_every_action [OF e] e show ?thesis by auto
qed

end
