(* ===== verification/Sample_Flow.thy ===== *)
theory Sample_Flow
  imports Service_Runs Distributor_Properties
begin

text \<open>
  From the sessions to the SamplePool: what the service counts as produced is what it admitted to the
  distributor, and the distributor accounts for each admitted transition.  Here the distributor moves
  by the steps of \<open>Distributor_Protocol\<close> only.
\<close>

section \<open>Distributors that account for what they admitted\<close>

definition dist_good :: "training_config \<Rightarrow> (envelope \<Rightarrow> nat) \<Rightarrow> dist \<Rightarrow> bool" where
  "dist_good cfg bs d \<longleftrightarrow> (\<exists>s. inv cfg bs s \<and> dst s = d)"

text \<open>The transitions the distributor has a place for.\<close>

definition classified :: "dist \<Rightarrow> int" where
  "classified d = accepted_unique_transitions (stats d) + queue_transitions d +
     final_drop_unique_transitions (stats d) + unresolved_push_outcome_unknown_transitions (stats d)"

abbreviation duplicate_pushes :: "dist \<Rightarrow> int" where
  "duplicate_pushes d \<equiv> duplicate_push_attempt_count (stats d)"

text \<open>
  \<open>k\<close> transitions went in.  An envelope that the SamplePool calls a duplicate is not counted as accepted
  again: without one, exactly \<open>k\<close> more are accounted for.
\<close>

definition flow :: "int \<Rightarrow> dist \<Rightarrow> dist \<Rightarrow> bool" where
  "flow k d d' \<longleftrightarrow>
     duplicate_pushes d \<le> duplicate_pushes d' \<and> classified d' \<le> classified d + k \<and>
     (duplicate_pushes d' = duplicate_pushes d \<longrightarrow> classified d' = classified d + k)"

lemma flow_refl [simp]: "flow 0 d d"
  by (simp add: flow_def)

lemma flow_trans: "flow j d d1 \<Longrightarrow> flow k d1 d2 \<Longrightarrow> flow (j + k) d d2"
  by (auto simp: flow_def)

lemma samples_of_nonneg: "0 \<le> samples_of es"
  by (induction es) simp_all

lemma duplicates_append: "duplicates (ds @ es) = duplicates ds @ duplicates es"
  by (simp add: duplicates_def)

lemma inv_classified:
  assumes "inv cfg bs s"
  shows "samples_of (admitted s) + sum_list (map fst (dropped_unqueued s)) =
      classified (dst s) + samples_of (duplicates (delivered s))"
    "duplicate_pushes (dst s) = int (length (duplicates (delivered s)))"
proof -
  have "samples_of (map q_envelope (queue (dst s))) = queue_transitions (dst s)"
    using assms samples_of_queue [of bs "queue (dst s)"] by (simp add: inv_def acct_def)
  moreover have "admitted s = map fst (delivered s) @ map q_envelope (queue (dst s)) @ abandoned s"
    using assms by (simp add: inv_def ledger_def)
  ultimately show "samples_of (admitted s) + sum_list (map fst (dropped_unqueued s)) =
      classified (dst s) + samples_of (duplicates (delivered s))"
    "duplicate_pushes (dst s) = int (length (duplicates (delivered s)))"
    using assms by (simp_all add: inv_def tally_ok_def Let_def classified_def samples_of_delivered)
qed

text \<open>Any steps that only append to what was delivered.\<close>

lemma flow_inv:
  assumes "inv cfg bs s" "inv cfg bs s'" "dropped_unqueued s' = dropped_unqueued s"
    and d: "delivered s' = delivered s @ ds" and a: "admitted s' = admitted s @ es"
  shows "flow (samples_of es) (dst s) (dst s')"
proof -
  note e = inv_classified [OF assms(1)] inv_classified [OF assms(2)]
  have "duplicates ds = [] \<longrightarrow> samples_of (duplicates ds) = 0" by simp
  moreover have "0 \<le> samples_of (duplicates ds)" by (rule samples_of_nonneg)
  ultimately show ?thesis
    using e assms(3) by (auto simp: flow_def d a duplicates_append)
qed

section \<open>What the sender does\<close>

definition sends :: "training_config \<Rightarrow> (envelope \<Rightarrow> nat) \<Rightarrow> dist \<Rightarrow> dist \<Rightarrow> bool" where
  "sends cfg bs d d' \<longleftrightarrow> (\<exists>s s'. inv cfg bs s \<and> dst s = d \<and> (sender_step cfg)\<^sup>*\<^sup>* s s' \<and> dst s' = d')"

lemma sends_refl: "dist_good cfg bs d \<Longrightarrow> sends cfg bs d d"
  unfolding dist_good_def sends_def by blast

lemma sender_run:
  assumes "(sender_step cfg)\<^sup>*\<^sup>* s s'" "inv cfg bs s"
  shows "inv cfg bs s' \<and> admitted s' = admitted s \<and> dropped_unqueued s' = dropped_unqueued s \<and>
    (\<exists>ds. delivered s' = delivered s @ ds)"
  using assms
proof (induction rule: rtranclp_induct)
  case (step s1 s2)
  have "dropped_unqueued s2 = dropped_unqueued s1" using step.hyps(2) by cases simp_all
  moreover have "\<exists>ds. delivered s2 = delivered s1 @ ds" using sender_step_effect(1) [OF step.hyps(2)] by auto
  ultimately show ?case
    using step inv_sender_step [OF step.hyps(2)] sender_step_effect(2) [OF step.hyps(2)] by auto
qed auto

lemma sends_flow:
  assumes "sends cfg bs d d'"
  shows "flow 0 d d'" "dist_good cfg bs d'" "reserved_items d' = reserved_items d"
    "active_reservation_id d' = active_reservation_id d"
proof -
  obtain s s' where s: "inv cfg bs s" "dst s = d" "(sender_step cfg)\<^sup>*\<^sup>* s s'" "dst s' = d'"
    using assms unfolding sends_def by blast
  note r = sender_run [OF s(3,1)]
  then obtain ds where "delivered s' = delivered s @ ds" by blast
  from flow_inv [OF s(1) _ _ this, of "[]"] r s(2,4) show "flow 0 d d'" by simp
  show "dist_good cfg bs d'" using r s(4) unfolding dist_good_def by blast
  show "reserved_items d' = reserved_items d" "active_reservation_id d' = active_reservation_id d"
    using sender_keeps_reservation [OF s(3)] s(2,4) by simp_all
qed

text \<open>A client's step, on any system that has the distributor.\<close>

lemma client_flow:
  assumes "dist_good cfg bs d" "\<And>s. dst s = d \<Longrightarrow> client_step cfg bs s (s\<lparr>dst := d', admitted := admitted s @ es\<rparr>)"
  shows "flow (samples_of es) d d' \<and> dist_good cfg bs d'"
proof -
  obtain s where s: "inv cfg bs s" "dst s = d" using assms(1) unfolding dist_good_def by blast
  note i = inv_client_step [OF assms(2) [OF s(2)] s(1)]
  with flow_inv [OF s(1) i, of "[]" es] s(2) show ?thesis unfolding dist_good_def by auto
qed

lemma Reserve_flow:
  assumes "dist_good cfg bs d" "ReserveEnqueueEnvelopeSet cfg bs es d = (r, rid, err, d')"
  shows "flow 0 d d' \<and> dist_good cfg bs d'"
  using client_flow [OF assms(1), where d' = d' and es = "[]"] client_step.reserve [of cfg bs es] assms(2) by simp

lemma Seal_flow:
  assumes "dist_good cfg bs d" "SealEnqueueEnvelopeSet rid d = (r, err, d')"
  shows "flow 0 d d' \<and> dist_good cfg bs d'"
  using client_flow [OF assms(1), where d' = d' and es = "[]"] client_step.seal [of rid] assms(2) by simp

lemma Commit_flow:
  assumes "dist_good cfg bs d" "CommitEnqueueEnvelopeSet rid d = (r, err, d')"
  shows "flow (if r = Committed \<and> rid \<noteq> 0 then samples_of (map q_envelope (reserved_items d)) else 0) d d' \<and>
    dist_good cfg bs d'"
proof -
  let ?es = "if r = Committed \<and> rid \<noteq> 0 then map q_envelope (reserved_items d) else []"
  have "flow (samples_of ?es) d d' \<and> dist_good cfg bs d'"
  proof (rule client_flow [OF assms(1)])
    fix s :: sys assume s: "dst s = d"
    show "client_step cfg bs s (s\<lparr>dst := d', admitted := admitted s @ ?es\<rparr>)"
      using client_step.commit [of rid s r err d' cfg bs] assms(2) unfolding s by blast
  qed
  then show ?thesis by (cases "r = Committed \<and> rid \<noteq> 0") auto
qed

section \<open>Handing envelopes over\<close>

text \<open>What happens between two calls of the runtime is the sender's work.\<close>

definition sender_only :: "training_config \<Rightarrow> (envelope \<Rightarrow> nat) \<Rightarrow> (dist \<Rightarrow> dist) \<Rightarrow> bool" where
  "sender_only cfg bs f \<longleftrightarrow> (\<forall>d. dist_good cfg bs d \<longrightarrow> sends cfg bs d (f d))"

lemma sender_only_id [simp]: "sender_only cfg bs id"
  by (simp add: sender_only_def sends_refl)

lemma sender_only_flow:
  assumes "sender_only cfg bs f" "dist_good cfg bs d"
  shows "flow 0 d (f d)" "dist_good cfg bs (f d)" "reserved_items (f d) = reserved_items d"
  using assms sends_flow [of cfg bs d "f d"] by (simp_all add: sender_only_def)

lemma hand_over_flow:
  assumes h: "hand_over cfg bs f g es d = (r, d')" and good: "dist_good cfg bs d"
    and f: "sender_only cfg bs f" and g: "sender_only cfg bs g"
  shows "flow (if r = HandedOver then samples_of es else 0) d d' \<and> dist_good cfg bs d'"
proof -
  obtain q rid err d1 where a: "ReserveEnqueueEnvelopeSet cfg bs es d = (q, rid, err, d1)" by (metis prod_cases4)
  note fl = Reserve_flow [OF good a]
  show ?thesis
  proof (cases "q = Reserved")
    case False
    with h a fl show ?thesis by (cases q) (auto simp: hand_over_def)
  next
    case True
    note e = Reserve_effect [OF a, unfolded True]
    note f1 = sender_only_flow [OF f conjunct2 [OF fl]]
    obtain sr err2 d2 where s: "SealEnqueueEnvelopeSet rid (f d1) = (sr, err2, d2)" by (metis prod_cases3)
    note f2 = Seal_flow [OF f1(2) s]
    have flow2: "flow 0 d d2" using fl f1(1) f2 flow_trans [of 0 d d1 0] flow_trans [of 0 d "f d1" 0] by simp
    show ?thesis
    proof (cases "sr = Sealed")
      case False
      with h a True s f2 flow2 show ?thesis by (cases sr) (auto simp: hand_over_def)
    next
      case sealed: True
      note f3 = sender_only_flow [OF g conjunct2 [OF f2]]
      obtain c err3 d3 where co: "CommitEnqueueEnvelopeSet rid (g d2) = (c, err3, d3)" by (metis prod_cases3)
      note f4 = Commit_flow [OF f3(2) co]
      have r: "d' = d3" "r = (if c = Committed then HandedOver else HandoverFailed AtCommit err3)"
        using h by (simp_all add: hand_over_def a True s sealed co)
      have "reserved_items d2 = reserved_items (f d1)"
        using s sealed by (auto simp: SealEnqueueEnvelopeSet_def Let_def split: if_splits)
      then have "map q_envelope (reserved_items (g d2)) = es" if "es \<noteq> []"
        using f3(3) f1(3) e that by simp
      then have "(if c = Committed \<and> rid \<noteq> 0 then samples_of (map q_envelope (reserved_items (g d2))) else 0) =
          (if r = HandedOver then samples_of es else 0)"
        using e r(2) by (cases "es = []") auto
      with f4 flow2 f3(1) flow_trans [of 0 d d2 0] flow_trans [of 0 d "g d2"] show ?thesis
        unfolding r(1) by simp
    qed
  qed
qed

text \<open>\<open>Admit\<close> is a hand-over.\<close>

lemma Admit_hands_over:
  assumes "Admit env f g lat el tx rt = (r, err, rt')"
  shows "\<exists>h. hand_over (config rt) (byte_size env) f g (tx_output tx) (distributor rt) = (h, distributor rt') \<and>
    (r = Reserved \<longleftrightarrow> h = HandedOver)"
  using assms
  by (auto simp: Admit_def hand_over_def split: prod.splits if_splits reservation_result.splits seal_result.splits)

end
