(* ===== verification/Sample_Runs.thy ===== *)
theory Sample_Runs
  imports Sample_Flow Maze_Task
begin

text \<open>
  Every call, and the recovery of silent clients, admits to the distributor exactly the transitions it
  adds to the count of produced ones.
\<close>

section \<open>The output of a prepared command\<close>

lemma action_output:
  "PrepareModelAction env i a obs fr am tx rt = (Some (act, tx'), rt') \<Longrightarrow> tx_output tx' = tx_output tx"
  by (auto simp: PrepareModelAction_def EnsureAgentSegmentPin_def Let_def set_agent_def
      split: sum.splits prod.splits if_splits)

lemma act_inputs_output:
  "act_inputs env inputs fr tx rt = (Inr (tx', acts), rt') \<Longrightarrow> tx_output tx' = tx_output tx"
  by (induction inputs arbitrary: tx rt acts)
    (fastforce split: if_splits option.splits prod.splits sum.splits dest: action_output)+

lemma finalize_inputs_output:
  "finalize_inputs env inputs fr collect tx rt = (Inr tx', rt') \<Longrightarrow> tx_output tx' = tx_output tx"
  by (induction inputs arbitrary: tx) (fastforce simp: Let_def set_agent_def split: sum.splits option.splits if_splits)+

text \<open>In both modes the counter advances by what goes into the envelopes.\<close>

lemma frame_output:
  assumes f: "PrepareFrame env inputs fr collect (new_txn rt s1) rt = (Inr (tx, acts), rt')"
    and o: "only_observed s s1" and c: "inputs_cover inputs s" and p: "phase s = PhaseEpisodeRunning"
    and collect: "collect = (run_mode (config rt) = kTraining \<and> current_episode_mode s = ModeTraining)"
    and inv: "session_inv (config rt) s" and t: "\<And>i. 0 < transition_ms env i"
  shows "tx_transitions tx = produced_unique_transitions rt + samples_of (tx_output tx)"
proof -
  have g: "session_good (config rt) s" using inv by (simp add: session_inv_def)
  then have d: "distinct (map fst (agents s))" by (simp add: good_def)
  note o1 = only_observed_good [OF o g]
  show ?thesis
  proof (cases collect)
    case True
    have "distinct (map in_agent inputs)" using c by (simp add: inputs_cover_def)
    from frame_effect [OF f [unfolded eqTrueI [OF True]] o1(1) this t] show ?thesis by simp
  next
    case False
    have m: "current_episode_mode s \<noteq> ModeTraining"
      using collect False inv p by (auto simp: session_inv_def in_episode_def split: if_splits)
    then have "segment_free s" using inv by (auto simp: session_inv_def split: if_splits)
    then have q: "quiet (config rt) s1" using o1 by (simp add: quiet_def)
    have m1: "current_episode_mode s1 \<noteq> ModeTraining" using o1(6) m by simp
    have "tx_output tx = []"
      using f False by (auto simp: PrepareFrame_def end_frame_def Let_def split: prod.splits sum.splits
          dest!: act_inputs_output finalize_inputs_output)
    with frame_quiet [OF f [unfolded Eq_FalseI [OF False]] m1 q] show ?thesis by simp
  qed
qed

lemma abort_agents_output:
  "abort_agents env False ids tx rt = (Inr tx', rt') \<Longrightarrow> tx_output tx' = tx_output tx"
  by (induction ids arbitrary: tx) (fastforce simp: abort_agent_def set_agent_def split: option.splits)+

lemma abort_output:
  assumes a: "PrepareAbort env collect (new_txn rt s) rt = (Inr tx, rt')"
    and p: "phase s = PhaseEpisodeRunning"
    and collect: "collect = (run_mode (config rt) = kTraining \<and> current_episode_mode s = ModeTraining)"
    and inv: "session_inv (config rt) s"
  shows "tx_transitions tx = produced_unique_transitions rt + samples_of (tx_output tx)"
proof -
  have g: "session_good (config rt) s" using inv by (simp add: session_inv_def)
  show ?thesis
  proof (cases collect)
    case True
    from abort_effect [OF a [unfolded eqTrueI [OF True]] g] show ?thesis by simp
  next
    case False
    then have "segment_free s" using collect inv p by (auto simp: session_inv_def in_episode_def split: if_splits)
    then have q: "quiet (config rt) s" using g by (simp add: quiet_def)
    have "tx_output tx = []"
      using a False by (auto simp: PrepareAbort_def split: prod.splits sum.splits dest!: abort_agents_output)
    with abort_quiet [OF a [unfolded Eq_FalseI [OF False]] q] show ?thesis by simp
  qed
qed

section \<open>Calls\<close>

definition flows :: "training_config \<Rightarrow> (envelope \<Rightarrow> nat) \<Rightarrow> 'g runtime \<Rightarrow> 'g runtime \<Rightarrow> bool" where
  "flows cfg bs rt rt' \<longleftrightarrow>
     (dist_good cfg bs (distributor rt) \<longrightarrow> dist_good cfg bs (distributor rt') \<and>
        flow (produced_unique_transitions rt' - produced_unique_transitions rt) (distributor rt) (distributor rt'))"

lemma flows_same:
  "distributor rt' = distributor rt \<Longrightarrow>
     produced_unique_transitions rt' = produced_unique_transitions rt \<Longrightarrow> flows cfg bs rt rt'"
  by (simp add: flows_def)

lemma flows_refl [simp]: "flows cfg bs rt rt"
  by (rule flows_same) simp_all

lemma flows_trans: "flows cfg bs rt rt1 \<Longrightarrow> flows cfg bs rt1 rt2 \<Longrightarrow> flows cfg bs rt rt2"
  unfolding flows_def using flow_trans by fastforce

text \<open>A call whose envelopes have the sizes of the distributor, and during which only the sender moves it.\<close>

definition delivers :: "training_config \<Rightarrow> (envelope \<Rightarrow> nat) \<Rightarrow> 'g call_env \<Rightarrow> bool" where
  "delivers cfg bs ce \<longleftrightarrow>
     byte_size (ce_env ce) = bs \<and> sender_only cfg bs (ce_sender ce) \<and>
     sender_only cfg bs (ce_before_seal ce) \<and> sender_only cfg bs (ce_before_commit ce)"

lemma RejectTask_flows: "flows cfg bs (srv S) (srv (snd (RejectTask s e S)))"
  by (rule flows_same) (simp_all add: RejectTask_def note_task_error_def rt_MarkDegraded_def rollout_failure_def Let_def)

text \<open>Admission of a transaction whose counter agrees with its envelopes.\<close>

lemma admit_flows:
  assumes dl: "delivers (config (srv S)) bs ce" and core: "core rt1 = core (srv S)"
    and tx: "tx_transitions tx = produced S + samples_of (tx_output tx)"
  shows "flows (config (srv S)) bs (srv S) (srv (snd (admit_and_commit ce s lat rsp t ctl tx
    (S\<lparr>srv := rt1\<lparr>distributor := ce_sender ce (distributor rt1)\<rparr>\<rparr>))))"
  unfolding flows_def
proof (intro impI)
  let ?cfg = "config (srv S)" and ?rt = "rt1\<lparr>distributor := ce_sender ce (distributor rt1)\<rparr>"
  assume good: "dist_good ?cfg bs (distributor (srv S))"
  note cf = core_fields [OF core]
  obtain r err rt2 where a: "Admit (ce_env ce) (ce_before_seal ce) (ce_before_commit ce) lat (ce_enqueue_ms ce) tx ?rt
      = (r, err, rt2)" by (metis prod_cases3)
  obtain h where h: "hand_over ?cfg bs (ce_before_seal ce) (ce_before_commit ce) (tx_output tx)
      (ce_sender ce (distributor (srv S))) = (h, distributor rt2)" "r = Reserved \<longleftrightarrow> h = HandedOver"
    using Admit_hands_over [OF a] dl cf by (auto simp: delivers_def)
  note sd = sender_only_flow [of ?cfg bs "ce_sender ce", OF _ good]
  have "flow 0 (distributor (srv S)) (ce_sender ce (distributor (srv S)))"
    "dist_good ?cfg bs (ce_sender ce (distributor (srv S)))" using sd dl by (simp_all add: delivers_def)
  with hand_over_flow [OF h(1)] dl flow_trans [of 0 _ _ _ "distributor rt2"]
  have fl: "flow (if r = Reserved then samples_of (tx_output tx) else 0) (distributor (srv S)) (distributor rt2)"
    "dist_good ?cfg bs (distributor rt2)" unfolding h(2) by (fastforce simp: delivers_def)+
  have p: "produced_unique_transitions rt2 = produced S" using Admit_keeps [OF a] cf by simp
  show "dist_good ?cfg bs (distributor (srv (snd (admit_and_commit ce s lat rsp t ctl tx (S\<lparr>srv := ?rt\<rparr>))))) \<and>
      flow (produced (snd (admit_and_commit ce s lat rsp t ctl tx (S\<lparr>srv := ?rt\<rparr>))) - produced S)
       (distributor (srv S)) (distributor (srv (snd (admit_and_commit ce s lat rsp t ctl tx (S\<lparr>srv := ?rt\<rparr>)))))"
    using fl p tx
    by (auto simp: admit_and_commit_def a txn_Commit_def admit_failed_def rt_MarkDegraded_def Let_def)
qed

lemma handle_flows:
  assumes p: "\<And>s S1. stored S1 (session_id s) = Some s \<Longrightarrow> session_inv (config (srv S1)) s \<Longrightarrow>
      config (srv S1) = config (srv S) \<Longrightarrow> flows cfg bs (srv S1) (srv (snd (proceed s S1)))"
    and ok: "runtime_ok w (srv S)"
  shows "flows cfg bs (srv S) (srv (snd (handle proceed w' now req S)))"
proof (cases "stored S (cmd_session_id (command req))")
  case None
  then show ?thesis by (simp add: handle_def CheckedSession_def Let_def)
next
  case (Some s)
  let ?sid = "cmd_session_id (command req)"
  have s: "session_id s = ?sid" "session_inv (config (srv S)) s" using ok Some by (simp_all add: runtime_ok_def)
  obtain c rsp where c: "CheckCommand w' s req empty_response = (c, rsp)" by force
  let ?s = "touch c now s"
  let ?S = "S\<lparr>srv := (srv S)\<lparr>session_mgr := SetSession ?sid ?s (session_mgr (srv S))\<rparr>\<rparr>"
  have h: "handle proceed w' now req S = (if c = CheckProceed then proceed ?s ?S else (rsp, ?S))"
    using Some c by (simp add: handle_def CheckedSession_def Let_def)
  have 1: "flows cfg bs (srv S) (srv ?S)" by (rule flows_same) simp_all
  note f = same_but_activity_fields [OF touch_same [of s c now]]
  have "phase ?s = phase s" using f(1) by (simp add: protocol_state_def)
  then have "session_inv (config (srv S)) ?s" using s(2) session_inv_cong [of ?s s] f by simp
  then have "flows cfg bs (srv ?S) (srv (snd (proceed ?s ?S)))" using Some s by (intro p) simp_all
  with 1 flows_trans show ?thesis unfolding h by auto
qed

lemma put_session_part_flows [simp]:
  "distributor (srv (put_session_part sid p S)) = distributor (srv S)"
  "produced (put_session_part sid p S) = produced S"
  by (simp_all add: put_session_part_def split: prod.split)

lemma Init_flows: "flows cfg bs (srv S) (srv (snd (Init_proceed ops w req s S)))"
  by (auto simp: Init_proceed_def Let_def RejectTask_flows intro!: flows_same split: sum.splits prod.splits)

lemma Begin_flows: "flows cfg bs (srv S) (srv (snd (BeginEpisode_proceed ops w ce req s S)))"
  by (auto simp: BeginEpisode_proceed_def Let_def RejectTask_flows intro!: flows_same split: sum.splits prod.splits)

lemma append_episode_metrics_same:
  "append_episode_metrics ce s facts rt = Inr rt' \<Longrightarrow> distributor rt' = distributor rt \<and>
     produced_unique_transitions rt' = produced_unique_transitions rt"
  by (auto simp: append_episode_metrics_def split: sum.splits option.splits prod.splits append_result.splits)

lemma End_flows: "flows cfg bs (srv S) (srv (snd (EndEpisode_proceed ops w ce req s S)))"
  by (auto simp: EndEpisode_proceed_def Let_def RejectTask_flows intro!: flows_same
      dest: append_episode_metrics_same split: sum.splits prod.splits outcome_result.splits if_splits)

lemma Close_flows: "flows cfg bs (srv S) (srv (snd (CloseSession_proceed w req s S)))"
  by (auto simp: CloseSession_proceed_def intro!: flows_same split: prod.splits)

context task_adapter
begin

lemma Update_frame_flows:
  assumes dl: "delivers (config (srv S)) bs ce" and t: "clock_ok ce" and p: "phase s = PhaseEpisodeRunning"
    and collect: "collect = (run_mode (config (srv S)) = kTraining \<and> current_episode_mode s = ModeTraining)"
    and inv: "session_inv (config (srv S)) s"
  shows "flows (config (srv S)) bs (srv S) (srv (snd (Update_frame ops w ce req collect s S)))"
proof (cases "op_decode ops (s, tasks S (session_id s)) (body req) collect")
  case (Inl e)
  then show ?thesis by (simp add: Update_frame_def Let_def RejectTask_flows)
next
  case (Inr x)
  obtain s1 t1 inputs where x: "x = ((s1, t1), inputs)" by (metis surj_pair)
  note o = decode [OF Inr [unfolded x]]
  have tx0: "(new_txn (srv S) s)\<lparr>tx_session := s1\<rparr> = new_txn (srv S) s1" by (simp add: new_txn_def)
  obtain r rt1 where r: "PrepareFrame (ce_env ce) inputs (op_frame_id ops (body req)) collect
      (new_txn (srv S) s1) (srv S) = (r, rt1)" by force
  have core: "core rt1 = core (srv S)" by (rule PrepareFrame_core [OF r])
  have 1: "flows (config (srv S)) bs (srv S) rt1" using core_fields [OF core] by (intro flows_same)
  show ?thesis
  proof (cases r)
    case e: (Inl e)
    then show ?thesis using Inr x r 1 by (simp add: Update_frame_def Let_def tx0)
  next
    case y: (Inr y)
    obtain tx acts where tx: "y = (tx, acts)" by force
    have n: "tx_transitions tx = produced S + samples_of (tx_output tx)"
      by (rule frame_output [OF r [unfolded y tx] conjunct1 [OF o] conjunct2 [OF o] p collect inv])
        (use t in \<open>simp add: clock_ok_def\<close>)
    obtain t2 b where en: "op_encode ops (tx_session tx, t1) acts = ((tx_session tx, t2), b)"
      using encode [of "tx_session tx" t1 acts] by (metis prod.collapse)
    let ?obs = "if current_episode_mode s = ModeTraining
      then op_observe ops (controller S) (active_manifest rt1) (tx_transitions tx) else Inr (controller S)"
    show ?thesis
    proof (cases ?obs)
      case (Inl e)
      have "flows (config (srv S)) bs (srv S) (srv (snd (RejectTask s e (S\<lparr>srv := rt1\<rparr>))))"
        using 1 RejectTask_flows [of "config (srv S)" bs "S\<lparr>srv := rt1\<rparr>"] flows_trans by fastforce
      with Inl Inr x r y tx en show ?thesis by (simp add: Update_frame_def Let_def tx0)
    next
      case ctl: (Inr ctl)
      obtain rsp s3 where c: "CommitCommand w
          (if acts = [] then ''terminal Agent states accepted''
           else ''Agent states accepted and actions assigned'')
          req (empty_response\<lparr>result_body := Some b\<rparr>) (tx_session tx) = (rsp, s3)" by force
      have "Update_frame ops w ce req collect s S = admit_and_commit ce s True rsp t2 ctl
          (tx\<lparr>tx_session := s3\<rparr>) (S\<lparr>srv := rt1\<lparr>distributor := ce_sender ce (distributor rt1)\<rparr>\<rparr>)"
        using ctl Inr x r y tx en c by (simp add: Update_frame_def Let_def tx0)
      with admit_flows [OF dl core, of "tx\<lparr>tx_session := s3\<rparr>"] n show ?thesis by simp
    qed
  qed
qed

lemma Update_flows:
  assumes "delivers (config (srv S)) bs ce" "clock_ok ce" "session_inv (config (srv S)) s"
  shows "flows (config (srv S)) bs (srv S) (srv (snd (Update_proceed ops w ce req s S)))"
proof (cases "phase s = PhaseEpisodeRunning")
  case True
  show ?thesis
    unfolding Update_proceed_def Let_def
    by (auto intro: Update_frame_flows [OF assms(1,2) True _ assms(3)] split: delivery_gate.split)
qed (simp add: Update_proceed_def Let_def)

lemma Abort_flows:
  assumes dl: "delivers (config (srv S)) bs ce" and inv: "session_inv (config (srv S)) s"
  shows "flows (config (srv S)) bs (srv S) (srv (snd (AbortEpisode_proceed ops w ce req s S)))"
proof -
  let ?rt = "srv S"
  let ?collect = "run_mode (config ?rt) = kTraining \<and> current_episode_mode s = ModeTraining"
  obtain r rt1 where r: "PrepareAbort (ce_env ce) ?collect (new_txn ?rt s) ?rt = (r, rt1)" by force
  have core: "core rt1 = core (srv S)" by (rule PrepareAbort_core [OF r])
  have 1: "flows (config (srv S)) bs (srv S) rt1" using core_fields [OF core] by (intro flows_same)
  show ?thesis
  proof (cases "shutdown_started ?rt \<or> \<not> op_valid_abort ops (body req) \<or> phase s \<noteq> PhaseEpisodeRunning \<or>
      cmd_episode_id (command req) \<noteq> current_episode_id s \<or> (\<exists>e. r = Inl e)")
    case True
    with r 1 show ?thesis by (auto simp: AbortEpisode_proceed_def Let_def)
  next
    case False
    then obtain tx where tx: "r = Inr tx" by (cases r) auto
    obtain rsp s1 where c: "CommitCommand w ''Episode aborted after controlled Agent segment close'' req
        empty_response (tx_session tx) = (rsp, s1)" by force
    from False r tx c have "AbortEpisode_proceed ops w ce req s S =
        admit_and_commit ce s False rsp (tasks S (session_id s)) (controller S) (tx\<lparr>tx_session := s1\<rparr>)
          (S\<lparr>srv := rt1\<lparr>distributor := ce_sender ce (distributor rt1)\<rparr>\<rparr>)"
      by (simp add: AbortEpisode_proceed_def Let_def)
    moreover have "tx_transitions tx = produced S + samples_of (tx_output tx)"
      using abort_output [OF r [unfolded tx] _ refl inv] False by blast
    ultimately show ?thesis using admit_flows [OF dl core, of "tx\<lparr>tx_session := s1\<rparr>"] by simp
  qed
qed

lemma serve_rpc_flows:
  assumes ok: "runtime_ok w (srv S)" and dl: "delivers (config (srv S)) bs ce" and t: "clock_ok ce"
    and r: "serve_rpc ops w k ce req S = (rsp, S')"
  shows "flows (config (srv S)) bs (srv S) (srv S')"
proof -
  note h = handle_flows [OF _ ok]
  have "flows (config (srv S)) bs (srv S) (srv (snd (serve_rpc ops w k ce req S)))"
  proof (cases k)
    case RpcUpdate
    obtain x S1 where u: "handle (Update_proceed ops w ce req) w (ce_now_ms ce) req S = (x, S1)" by force
    have "flows (config (srv S)) bs (srv S) (srv (snd (handle (Update_proceed ops w ce req) w (ce_now_ms ce) req S)))"
      by (rule h) (use dl t Update_flows in metis)
    moreover have "flows (config (srv S)) bs (srv S1) (RecordUpdateLatency (ce_latency ce) (srv S1))"
      by (rule flows_same) (simp_all add: RecordUpdateLatency_def Let_def)
    ultimately show ?thesis using flows_trans
      unfolding serve_rpc_def RpcUpdate rpc.case Update_def by (auto simp: u)
  next
    case RpcAbort
    show ?thesis unfolding serve_rpc_def RpcAbort rpc.case AbortEpisode_def
      by (rule h) (use dl Abort_flows in metis)
  qed (simp_all add: serve_rpc_def Init_def BeginEpisode_def EndEpisode_def CloseSession_def
      h Init_flows Begin_flows End_flows Close_flows)
  with r show ?thesis by simp
qed

end

lemma OpenSession_flows:
  assumes "OpenSession ops ow ce q S = (rsp, S')"
  shows "flows cfg bs (srv S) (srv S')"
  using assms
  by (intro flows_same)
    (auto simp: OpenSession_def Let_def open_fresh_def note_activity_def remember_open_def
      split: option.splits if_splits prod.splits)

section \<open>Recovery\<close>

definition recovery_delivers ::
  "training_config \<Rightarrow> (envelope \<Rightarrow> nat) \<Rightarrow> 'g environ \<Rightarrow>
   (string \<Rightarrow> (dist \<Rightarrow> dist) \<times> (dist \<Rightarrow> dist)) \<Rightarrow> bool" where
  "recovery_delivers cfg bs env between \<longleftrightarrow>
     byte_size env = bs \<and> (\<forall>sid. sender_only cfg bs (fst (between sid)) \<and> sender_only cfg bs (snd (between sid)))"

lemma closed_output:
  assumes "close_all env reason ids (new_txn rt s) rt = (CloseDone, tx, rt1)" "session_good (config rt) s"
  shows "tx_transitions tx = produced_unique_transitions rt + samples_of (tx_output tx)"
  using close_all_settles [OF assms(1) _ refl] assms(2)
  by (simp add: settles_def abort_ok_def closing_ok_def output_ok_def)

lemma recover_session_flows:
  assumes ok: "runtime_ok w rt" and r: "recover_session env f g now sid rt = (b, rt')"
    and dl: "byte_size env = bs" "sender_only (config rt) bs f" "sender_only (config rt) bs g"
  shows "flows (config rt) bs rt rt'"
proof (cases "\<exists>s. GetSession (session_mgr rt) sid = Some s \<and> client_expired (config rt) now s")
  case False
  with r show ?thesis by (auto simp: recover_session_def split: option.splits)
next
  case True
  then obtain s where s: "GetSession (session_mgr rt) sid = Some s" "client_expired (config rt) now s" by blast
  note good = expired_session(1) [OF ok s]
  obtain c tx rt1 where c: "close_all env ClientRecoveryTimeout (agent_keys s) (new_txn rt s) rt = (c, tx, rt1)"
    by (metis prod_cases3)
  note cf = core_fields [OF close_all_core [OF c]]
  obtain x d where x: "hand_over (config rt) bs f g (tx_output tx) (distributor rt) = (x, d)" by force
  note fl = hand_over_flow [OF x _ dl(2,3)]
  show ?thesis
  proof (cases "c = CloseDone \<and> x = HandedOver")
    case True
    then have "distributor rt' = d" "produced_unique_transitions rt' = tx_transitions tx"
      using r s c x dl(1) cf by (auto simp: recover_session_def store_counts_def)
    with fl closed_output [OF c [unfolded conjunct1 [OF True]] good] True show ?thesis by (simp add: flows_def)
  next
    case False
    then have "produced_unique_transitions rt' = produced_unique_transitions rt \<and>
        (distributor rt' = distributor rt \<or> x \<noteq> HandedOver \<and> distributor rt' = d)"
      using r s c x dl(1) cf
      by (cases c; cases x) (auto simp: recover_session_def recover_failed_def discard_session_def
          rt_MarkDegraded_def Let_def)
    with fl show ?thesis by (auto simp: flows_def)
  qed
qed

lemma recover_sessions_flows:
  assumes "runtime_ok w rt" "recover_sessions env between now ids rt = (b, rt')"
    and "recovery_delivers (config rt) bs env between"
  shows "flows (config rt) bs rt rt'"
  using assms
proof (induction ids arbitrary: rt)
  case (Cons sid ids)
  obtain b1 rt1 where r: "recover_session env (fst (between sid)) (snd (between sid)) now sid rt = (b1, rt1)" by force
  have one: "flows (config rt) bs rt rt1"
    using recover_session_flows [OF Cons.prems(1) r] Cons.prems(3) by (simp add: recovery_delivers_def)
  note ok = recover_session_ok [OF Cons.prems(1) r]
  show ?case
  proof (cases b1)
    case True
    with Cons.prems(2) r have "recover_sessions env between now ids rt1 = (b, rt')" by simp
    with Cons.IH [OF _ this] ok one Cons.prems(3) flows_trans show ?thesis by auto
  qed (use Cons.prems(2) r one in simp)
qed simp

lemma recovery_flows:
  assumes "runtime_ok w rt" "RecoverExpiredClientSessions env between now rt = (b, rt')"
    and "recovery_delivers (config rt) bs env between"
  shows "flows (config rt) bs rt rt'"
  using assms recover_sessions_flows [OF assms(1)]
  by (auto simp: RecoverExpiredClientSessions_def split: if_splits)

section \<open>Runs in which only the sender moves the distributor\<close>

inductive sample_run ::
  "('t, 'c, 'q, 'p) task_ops \<Rightarrow> ('q, 'p) codec \<Rightarrow> ('q, 'p) open_codec \<Rightarrow> (envelope \<Rightarrow> nat) \<Rightarrow>
   ('g, 't, 'c) service \<Rightarrow> int \<Rightarrow> ('g, 't, 'c) service \<Rightarrow> bool"
  for ops :: "('t, 'c, 'q, 'p) task_ops" and w :: "('q, 'p) codec" and ow :: "('q, 'p) open_codec"
    and bs :: "envelope \<Rightarrow> nat" and S0 :: "('g, 't, 'c) service" where
  sample_start: "sample_run ops w ow bs S0 0 S0"
| sample_open: "sample_run ops w ow bs S0 n S \<Longrightarrow> next_of S + 1 \<noteq> 0 \<Longrightarrow>
    OpenSession ops ow ce q S = (rsp, S') \<Longrightarrow> sample_run ops w ow bs S0 n S'"
| sample_call: "sample_run ops w ow bs S0 n S \<Longrightarrow> clock_ok ce \<Longrightarrow> delivers (config (srv S)) bs ce \<Longrightarrow>
    serve_rpc ops w k ce req S = (rsp, S') \<Longrightarrow> sample_run ops w ow bs S0 (n + completed_by k req rsp S) S'"
| sample_other: "sample_run ops w ow bs S0 n S \<Longrightarrow> session_mgr rt = session_mgr (srv S) \<Longrightarrow>
    config rt = config (srv S) \<Longrightarrow> produced_unique_transitions rt = produced S \<Longrightarrow>
    sends (config (srv S)) bs (distributor (srv S)) (distributor rt) \<Longrightarrow>
    sample_run ops w ow bs S0 n (S\<lparr>srv := rt\<rparr>)"
| sample_recover: "sample_run ops w ow bs S0 n S \<Longrightarrow> recovery_delivers (config (srv S)) bs env between \<Longrightarrow>
    RecoverExpiredClientSessions env between now (srv S) = (b, rt) \<Longrightarrow>
    sample_run ops w ow bs S0
      (n - (quarantined_transition_count rt - quarantined_transition_count (srv S))) (S\<lparr>srv := rt\<rparr>)"

text \<open>These are runs of the service.\<close>

lemma sample_run_is_run: "sample_run ops w ow bs S0 n S \<Longrightarrow> service_run ops w ow S0 n S"
  by (induction rule: sample_run.induct) (auto intro: service_run.intros)

context task_adapter
begin

lemma sample_run_flows:
  assumes "sample_run ops w ow bs S0 n S" "codec_ok w" "sessions_ok w S0"
  shows "flows (config (srv S0)) bs (srv S0) (srv S)"
  using assms(1)
proof induction
  case sample_start
  show ?case by simp
next
  case (sample_open n S ce q rsp S')
  from sample_open.IH OpenSession_flows [OF sample_open(3)] show ?case by (rule flows_trans)
next
  case (sample_call n S ce k req rsp S')
  note r = run_invariant [OF sample_run_is_run [OF sample_call(1)] assms(2,3)]
  then have "runtime_ok w (srv S)" "config (srv S) = config (srv S0)" by (simp_all add: sessions_ok_runtime)
  with serve_rpc_flows [OF _ sample_call(3,2,4)] have "flows (config (srv S0)) bs (srv S) (srv S')" by metis
  with sample_call.IH show ?case by (rule flows_trans)
next
  case (sample_other n S rt)
  have "config (srv S) = config (srv S0)"
    using run_invariant [OF sample_run_is_run [OF sample_other(1)] assms(2,3)] by blast
  with sends_flow(1,2) [OF sample_other(5)] have "flows (config (srv S0)) bs (srv S) rt"
    by (simp add: flows_def sample_other(4))
  with sample_other.IH flows_trans show ?case by fastforce
next
  case (sample_recover n S env between now b rt)
  note r = run_invariant [OF sample_run_is_run [OF sample_recover(1)] assms(2,3)]
  then have "runtime_ok w (srv S)" "config (srv S) = config (srv S0)" by (simp_all add: sessions_ok_runtime)
  with recovery_flows [OF _ sample_recover(3,2)] have "flows (config (srv S0)) bs (srv S) rt" by metis
  with sample_recover.IH flows_trans show ?case by fastforce
qed

end

end
