(* ===== verification/Sample_Shutdown.thy ===== *)
theory Sample_Shutdown
  imports Sample_Runs Shutdown_Balance
begin

text \<open>Shutdown admits to the distributor exactly the transitions it adds to the count of produced ones.\<close>

section \<open>The last steps of the distributor\<close>

text \<open>\<open>StopAndDrain\<close> and the sender, in any interleaving.\<close>

definition stop_or_send :: "training_config \<Rightarrow> sys \<Rightarrow> sys \<Rightarrow> bool" where
  "stop_or_send cfg s s' \<longleftrightarrow> sender_step cfg s s' \<or> stop_step s s'"

definition stopping_only :: "training_config \<Rightarrow> (envelope \<Rightarrow> nat) \<Rightarrow> (dist \<Rightarrow> dist) \<Rightarrow> bool" where
  "stopping_only cfg bs f \<longleftrightarrow>
     (\<forall>d. dist_good cfg bs d \<longrightarrow>
        (\<exists>s s'. inv cfg bs s \<and> dst s = d \<and> (stop_or_send cfg)\<^sup>*\<^sup>* s s' \<and> dst s' = f d))"

lemma stopping_run:
  assumes "(stop_or_send cfg)\<^sup>*\<^sup>* s s'" "inv cfg bs s"
  shows "inv cfg bs s' \<and> admitted s' = admitted s \<and> dropped_unqueued s' = dropped_unqueued s \<and>
    (\<exists>ds. delivered s' = delivered s @ ds)"
  using assms
proof (induction rule: rtranclp_induct)
  case (step s1 s2)
  have i: "inv cfg bs s1" using step by simp
  have "inv cfg bs s2 \<and> admitted s2 = admitted s1 \<and> dropped_unqueued s2 = dropped_unqueued s1 \<and>
      (\<exists>ds. delivered s2 = delivered s1 @ ds)"
    using step.hyps(2) unfolding stop_or_send_def
  proof
    assume "sender_step cfg s1 s2"
    then show ?thesis using sender_run [OF r_into_rtranclp i] by blast
  next
    assume s: "stop_step s1 s2"
    from s have "admitted s2 = admitted s1 \<and> dropped_unqueued s2 = dropped_unqueued s1 \<and> delivered s2 = delivered s1"
      by cases simp_all
    with inv_stop_step [OF s i] show ?thesis by simp
  qed
  with step show ?case by auto
qed auto

lemma stopping_flow:
  assumes "stopping_only cfg bs f" "dist_good cfg bs d"
  shows "flow 0 d (f d) \<and> dist_good cfg bs (f d)"
proof -
  obtain s s' where s: "inv cfg bs s" "dst s = d" "(stop_or_send cfg)\<^sup>*\<^sup>* s s'" "dst s' = f d"
    using assms unfolding stopping_only_def by blast
  note r = stopping_run [OF s(3,1)]
  then obtain ds where "delivered s' = delivered s @ ds" by blast
  from flow_inv [OF s(1) _ _ this, of "[]"] r s(2,4) show ?thesis unfolding dist_good_def by auto
qed

text \<open>What other threads do to the runtime in a window leaves the distributor to the sender.\<close>

definition sender_window :: "training_config \<Rightarrow> (envelope \<Rightarrow> nat) \<Rightarrow> ('g runtime \<Rightarrow> 'g runtime) \<Rightarrow> bool" where
  "sender_window cfg bs f \<longleftrightarrow>
     (\<forall>rt. dist_good cfg bs (distributor rt) \<longrightarrow> sends cfg bs (distributor rt) (distributor (f rt)))"

lemma sender_window_id [simp]: "sender_window cfg bs id"
  by (simp add: sender_window_def sends_refl)

definition shutdown_delivers :: "training_config \<Rightarrow> (envelope \<Rightarrow> nat) \<Rightarrow> 'g shutdown_env \<Rightarrow> bool" where
  "shutdown_delivers cfg bs se \<longleftrightarrow>
     byte_size (se_env se) = bs \<and>
     list_all (\<lambda>(f, g, h). sender_only cfg bs f \<and> sender_only cfg bs g \<and> sender_only cfg bs h) (se_turns se) \<and>
     stopping_only cfg bs (\<lambda>d. snd (se_drain se d)) \<and>
     sender_window cfg bs (se_window se) \<and> sender_window cfg bs (se_later se)"

section \<open>The envelopes of a shutdown\<close>

lemma plan_session_output:
  assumes "plan_session env s tx rt = (CloseDone, tx', rt')" "session_inv (config rt) s"
  shows "tx_transitions tx' - samples_of (tx_output tx') = tx_transitions tx - samples_of (tx_output tx)"
    "run_mode (config rt) \<noteq> kTraining \<Longrightarrow> tx_output tx' = tx_output tx"
proof -
  have g: "session_good (config rt) s" using assms(2) by (simp add: session_inv_def)
  show "tx_transitions tx' - samples_of (tx_output tx') = tx_transitions tx - samples_of (tx_output tx)"
  proof (cases "run_mode (config rt) = kTraining \<and> current_episode_mode s = ModeTraining")
    case True
    then have "close_all env AiserverControlledShutdown (agent_keys s) (tx\<lparr>tx_session := s\<rparr>) rt = (CloseDone, tx', rt')"
      using assms(1) by (simp add: plan_session_def)
    from close_all_settles [OF this _ refl] g show ?thesis
      by (simp add: settles_def abort_ok_def closing_ok_def output_ok_def)
  qed (use assms(1) in \<open>auto simp: plan_session_def\<close>)
qed (use assms(1) in \<open>auto simp: plan_session_def\<close>)

lemma plan_sessions_output:
  assumes "plan_sessions env t sp rt = (sp', rt')" "sp_ok sp'" "config rt = cfg"
    "\<forall>(sid, s)\<in>set t. session_inv cfg s"
  shows "tx_transitions (sp_txn sp') - samples_of (tx_output (sp_txn sp')) =
      tx_transitions (sp_txn sp) - samples_of (tx_output (sp_txn sp)) \<and>
    (run_mode cfg \<noteq> kTraining \<longrightarrow> tx_output (sp_txn sp') = tx_output (sp_txn sp))"
  using assms
proof (induction t arbitrary: sp rt)
  case (Cons x t)
  obtain sid s where x: "x = (sid, s)" by force
  obtain r tx rt1 where p: "plan_session env s (sp_txn sp) rt = (r, tx, rt1)" by (metis prod_cases3)
  have r: "r = CloseDone" using Cons.prems(1,2) by (cases r) (auto simp: x p)
  have i: "session_inv (config rt) s" using Cons.prems(3,4) by (auto simp: x)
  note one = plan_session_output [OF p [unfolded r] i]
  let ?sp = "sp\<lparr>sp_txn := tx, sp_sessions := sp_sessions sp @ [(sid, end_session (tx_session tx))]\<rparr>"
  have "plan_sessions env t ?sp rt1 = (sp', rt')" "config rt1 = cfg"
    using Cons.prems(1,3) core_fields(2) [OF plan_session_core [OF p]] by (simp_all add: x p r)
  moreover have "\<forall>(sid, s)\<in>set t. session_inv cfg s" using Cons.prems(4) by simp
  ultimately show ?case using Cons.IH [of ?sp rt1] Cons.prems(2,3) one by simp
qed simp

lemma plan_output:
  fixes w :: "('q, 'p) codec"
  assumes p: "shutdown_plan env rt = (sp, rt1)" and ok: "runtime_ok w rt" and "sp_ok sp"
  shows "tx_transitions (sp_txn sp) = produced_unique_transitions rt + samples_of (tx_output (sp_txn sp))"
    "run_mode (config rt) \<noteq> kTraining \<Longrightarrow> tx_output (sp_txn sp) = []"
proof -
  have q: "plan_sessions env (sessions (session_mgr rt)) (new_plan rt) (start_shutdown rt) = (sp, rt1)"
    using p by (simp add: shutdown_plan_def)
  have inv: "\<forall>(sid, s)\<in>set (sessions (session_mgr rt)). session_inv (config rt) s"
    using ok by (auto simp: runtime_ok_def manager_ok_def GetSession_def)
  have cf: "config (start_shutdown rt) = config rt" by (simp add: start_shutdown_def)
  note o = plan_sessions_output [OF q assms(3) cf inv]
  then show "tx_transitions (sp_txn sp) = produced_unique_transitions rt + samples_of (tx_output (sp_txn sp))"
    "run_mode (config rt) \<noteq> kTraining \<Longrightarrow> tx_output (sp_txn sp) = []" by (simp_all add: new_plan_def)
qed

lemma deliver_flow:
  assumes "shutdown_deliver cfg bs es turns err d = (ok, err', d')" "dist_good cfg bs d"
    and "list_all (\<lambda>(f, g, h). sender_only cfg bs f \<and> sender_only cfg bs g \<and> sender_only cfg bs h) turns"
  shows "flow (if ok then samples_of es else 0) d d' \<and> dist_good cfg bs d'"
  using assms
proof (induction turns arbitrary: err d)
  case (Cons t turns)
  obtain f g h where t: "t = (f, g, h)" by (metis prod_cases3)
  obtain x d1 where x: "hand_over cfg bs g h es (f d) = (x, d1)" by force
  have so: "sender_only cfg bs f" "sender_only cfg bs g" "sender_only cfg bs h" using Cons.prems(3) by (auto simp: t)
  note f1 = sender_only_flow [OF so(1) Cons.prems(2)]
  note f2 = hand_over_flow [OF x f1(2) so(2,3)]
  have f3: "flow (if x = HandedOver then samples_of es else 0) d d1"
    using flow_trans [OF f1(1) conjunct1 [OF f2]] by simp
  show ?case
  proof (cases x)
    case (HandoverWaits stage e)
    then have "shutdown_deliver cfg bs es turns (if_empty e (shutdown_wait stage) e) d1 = (ok, err', d')"
      using Cons.prems(1) by (simp add: t x)
    from Cons.IH [OF this conjunct2 [OF f2]] Cons.prems(3) f3 HandoverWaits show ?thesis
      using flow_trans [of 0 d d1] by auto
  qed (use Cons.prems(1) f2 f3 in \<open>auto simp: t x\<close>)
qed simp

section \<open>The sections of a shutdown\<close>

lemma discard_everything_same:
  "distributor (discard_everything rt) = distributor rt \<and>
     produced_unique_transitions (discard_everything rt) = produced_unique_transitions rt"
proof -
  have "distributor (fold discard_one ids r) = distributor r \<and>
      produced_unique_transitions (fold discard_one ids r) = produced_unique_transitions r"
    for ids and r :: "'a runtime"
    by (induction ids arbitrary: r) (auto simp: discard_one_def discard_session_def Let_def split: option.splits)
  then show ?thesis by (simp add: discard_everything_fold)
qed

lemma settle_sessions_same:
  "distributor (settle_sessions sp c err rt) = distributor rt"
  "produced_unique_transitions (settle_sessions sp c err rt) =
     (if sp_ok sp \<and> c then tx_transitions (sp_txn sp) else produced_unique_transitions rt)"
  using discard_everything_same [of "rt\<lparr>quarantined_envelope_count := quarantined_envelope_count rt +
      int (length (tx_output (sp_txn sp)))\<rparr>"]
  by (auto simp: settle_sessions_def store_counts_def Let_def)

lemma flush_same:
  "flush_sessions ro ids rt = Inr (ok, rt') \<Longrightarrow> distributor rt' = distributor rt \<and>
     produced_unique_transitions rt' = produced_unique_transitions rt"
proof (induction ids arbitrary: rt)
  case (Cons sid ids)
  then obtain b rt1 where f: "flush_session ro sid rt = Inr (b, rt1)"
    "(if b then flush_sessions ro ids rt1 else Inr (False, rt1)) = Inr (ok, rt')"
    by (auto simp: and_then_Inr)
  have "distributor rt1 = distributor rt \<and> produced_unique_transitions rt1 = produced_unique_transitions rt"
    using f(1) by (cases rule: flush_session_cases) auto
  with f(2) Cons.IH show ?case by (cases b) auto
qed simp

lemma settle_same:
  assumes "shutdown_settle ro sp c err rt = Inr (prepared, rt')"
  shows "distributor rt' = distributor rt" "produced_unique_transitions rt' =
     (if sp_ok sp \<and> c then tx_transitions (sp_txn sp) else produced_unique_transitions rt)"
proof -
  obtain flushed rt1 where f: "flush_sessions ro (GetSessionIds (session_mgr (settle_sessions sp c err rt)))
      (settle_sessions sp c err rt) = Inr (flushed, rt1)"
    and r: "rt' = (if flushed then rt1
        else rt1\<lparr>rt_last_error := ''reward tail was not accepted by the local journal''\<rparr>)
      \<lparr>metric_events := journal_Finalize (metric_events (if flushed then rt1
        else rt1\<lparr>rt_last_error := ''reward tail was not accepted by the local journal''\<rparr>))\<rparr>"
    using assms by (auto simp: shutdown_settle_def FlushRewardMetricsLocked_def and_then_Inr Let_def)
  have rt': "distributor rt' = distributor rt1" "produced_unique_transitions rt' = produced_unique_transitions rt1"
    by (cases flushed; simp add: r)+
  from flush_same [OF f] rt' show "distributor rt' = distributor rt" "produced_unique_transitions rt' =
     (if sp_ok sp \<and> c then tx_transitions (sp_txn sp) else produced_unique_transitions rt)"
    by (simp_all add: settle_sessions_same)
qed

lemma release_same:
  "ReleaseTrainingWorkspaceLease io rt = (r, rt') \<Longrightarrow> distributor rt' = distributor rt"
  by (auto simp: ReleaseTrainingWorkspaceLease_def split: if_splits option.splits)

lemma verdict_same: "shutdown_verdict sp ok dr ms rel sn rt = (b, rt') \<Longrightarrow> distributor rt' = distributor rt"
  by (auto simp: shutdown_verdict_def Let_def split: if_splits)

lemma finish_flow:
  assumes fin: "shutdown_finish se sp ok rt = (b, rt')" and dl: "shutdown_delivers cfg bs se"
    and good: "dist_good cfg bs (distributor rt)"
  shows "flow 0 (distributor rt) (distributor rt') \<and> dist_good cfg bs (distributor rt')"
proof -
  obtain drained d1 where x: "(if run_mode (config rt) = kTraining then se_drain se (distributor rt)
      else (True, distributor rt)) = (drained, d1)" by force
  obtain release rt1 where r: "ReleaseTrainingWorkspaceLease (se_release se) (rt\<lparr>distributor := d1\<rparr>) = (release, rt1)"
    by force
  have "flow 0 (distributor rt) d1 \<and> dist_good cfg bs d1"
    using stopping_flow [OF _ good, of "\<lambda>d. snd (se_drain se d)"] dl x good
    by (auto simp: shutdown_delivers_def split: if_splits)
  moreover have d1: "distributor rt1 = d1" using release_same [OF r] by simp
  moreover have "sender_window cfg bs (se_later se)" using dl by (simp add: shutdown_delivers_def)
  ultimately have "sends cfg bs (distributor rt1) (distributor (se_later se rt1))"
    unfolding sender_window_def by blast
  note f2 = sends_flow(1,2) [OF this, unfolded d1]
  have "distributor rt' = distributor (se_later se rt1)"
    using fin verdict_same unfolding shutdown_finish_def Let_def x by (simp add: r)
  with f2 \<open>flow 0 (distributor rt) d1 \<and> _\<close> flow_trans [of 0 _ d1 0] show ?thesis by simp
qed

text \<open>The whole operation: the delivery comes first, and the count follows when it is stored.\<close>

lemma shutdown_flows:
  fixes w :: "('q, 'p) codec"
  assumes s: "BeginShutdown se rt = Inr (b, rt')" "\<not> shutdown_started rt" and ok: "runtime_ok w rt"
    and w: "drains_only (se_window se)" "drains_only (se_later se)"
    and dl: "shutdown_delivers (config rt) bs se"
  shows "flows (config rt) bs rt rt'"
  unfolding flows_def
proof (intro impI)
  let ?cfg = "config rt"
  assume good: "dist_good ?cfg bs (distributor rt)"
  obtain sp rt1 where p: "shutdown_plan (se_env se) rt = (sp, rt1)" by force
  obtain c err rt2 where cm: "shutdown_commit (se_env se) (se_turns se) sp rt1 = (c, err, rt2)"
    by (metis prod_cases3)
  obtain prepared rt3 where st: "shutdown_settle (se_reward se) sp c err (se_window se rt2) = Inr (prepared, rt3)"
    and fin: "shutdown_finish se sp (prepared \<and> c) rt3 = (b, rt')"
    using s by (auto simp: BeginShutdown_def p cm and_then_Inr)
  let ?es = "tx_output (sp_txn sp)"
  note pl = plan_effect [OF p ok]
  have d1: "distributor rt1 = distributor rt" "config rt1 = ?cfg"
    using core_fields(2,3) [OF plan_sessions_core] p
    by (fastforce simp: shutdown_plan_def start_shutdown_def)+
  have f1: "flow (if sp_ok sp \<and> c then samples_of ?es else 0) (distributor rt) (distributor rt2) \<and>
      dist_good ?cfg bs (distributor rt2)"
  proof (cases "run_mode ?cfg = kTraining \<and> sp_ok sp \<and> ?es \<noteq> []")
    case True
    then obtain d where "shutdown_deliver ?cfg bs ?es (se_turns se) [] (distributor rt) = (c, err, d)"
      "rt2 = rt1\<lparr>distributor := d\<rparr>"
      using cm d1 dl by (auto simp: shutdown_commit_def Let_def shutdown_delivers_def split: prod.splits)
    with deliver_flow [OF _ good] dl True show ?thesis by (auto simp: shutdown_delivers_def)
  next
    case False
    then have "rt2 = rt1" "c = (run_mode ?cfg \<noteq> kTraining \<or> ?es = [])"
      using cm d1 by (auto simp: shutdown_commit_def Let_def)
    with plan_output(2) [OF p ok] good d1 False show ?thesis by auto
  qed
  obtain d where rt2: "rt2 = rt1\<lparr>distributor := d\<rparr>" using commit_core [OF cm] by blast
  have "frozen rt1 rt2" unfolding rt2 by (rule frozen_same) simp_all
  moreover have "draining rt2" using pl(2) by (simp add: rt2 draining_def)
  moreover have "store_good rt2" using frozen_effect(1) [OF calculation(1)] pl(3) by simp
  ultimately have "frozen rt (se_window se rt2)" using drains_only_frozen(1) [OF w(1)] pl(1) frozen_trans by blast
  then have pr: "produced_unique_transitions (se_window se rt2) = produced_unique_transitions rt"
    by (simp add: frozen_def)
  have "sends ?cfg bs (distributor rt2) (distributor (se_window se rt2))"
    using f1 dl by (simp add: shutdown_delivers_def sender_window_def)
  note f2 = sends_flow(1,2) [OF this]
  note st = settle_same [OF st]
  have g3: "dist_good ?cfg bs (distributor rt3)" using f2(2) st(1) by simp
  note f3 = finish_flow [OF fin dl g3]
  have se: "store_good (settle_sessions sp c err (se_window se rt2))"
    by (rule settle_effect(3) [OF p ok]) (use \<open>frozen rt (se_window se rt2)\<close> pl(1) in \<open>simp add: frozen_def\<close>)
  have "produced_unique_transitions rt' = produced_unique_transitions rt3"
  proof -
    have dr: "draining (se_window se rt2)"
      using drains_only_frozen(2) [OF w(1) \<open>draining rt2\<close> \<open>store_good rt2\<close>] .
    note sec = settle_section [OF \<open>shutdown_settle (se_reward se) sp c err (se_window se rt2) = Inr (prepared, rt3)\<close> se]
    have "store_good rt3" using frozen_effect(1) [OF sec(1)] se by simp
    from finish_section(1) [OF fin w(2) sec(3) [OF dr] this] show ?thesis by (simp add: frozen_def)
  qed
  then have "produced_unique_transitions rt' - produced_unique_transitions rt =
      (if sp_ok sp \<and> c then samples_of ?es else 0)"
    using st(2) pr plan_output(1) [OF p ok] by simp
  moreover have "flow (if sp_ok sp \<and> c then samples_of ?es else 0) (distributor rt) (distributor rt')"
    using flow_trans [OF flow_trans [OF conjunct1 [OF f1] f2(1)] conjunct1 [OF f3 [unfolded st(1)]]] by simp
  ultimately show "dist_good ?cfg bs (distributor rt') \<and>
      flow (produced_unique_transitions rt' - produced_unique_transitions rt) (distributor rt) (distributor rt')"
    using f3 by simp
qed

end
