(* ===== verification/Sample_Claims.thy ===== *)
theory Sample_Claims
  imports Sample_Shutdown Shutdown_Claims Distributor_Claims
begin

text \<open>
  The way of a collected transition from an Update to the SamplePool, over the service, the sessions and
  the distributor together.
\<close>

section \<open>The end of the way\<close>

text \<open>A distributor that was just started accounts for nothing yet.\<close>

lemma started_dist:
  assumes "dist_Start cfg target conn st msg status init_dist = (True, d)"
  shows "dist_good cfg bs d" "classified d = 0" "duplicate_pushes d = 0"
proof -
  let ?s = "\<lparr>dst = d, pc = AtTop, stopper = NotStopping, admitted = [], delivered = [], abandoned = [],
    dropped_unqueued = []\<rparr>"
  have i: "inv cfg bs ?s" by (rule reachable_inv [OF reachable.started [OF assms]])
  then show "dist_good cfg bs d" unfolding dist_good_def by (intro exI [of _ ?s]) simp
  show "classified d = 0" "duplicate_pushes d = 0" using inv_classified [OF i] by simp_all
qed

text \<open>What a run leaves in the distributor, on top of what it had.\<close>

lemma run_classified:
  assumes r: "sample_run (maze_ops cfg me) w ow bs S0 n S" and w: "codec_ok w"
    and e: "session_mgr (srv S0) = empty_manager" "produced S0 = 0"
    and d: "dist_Start (config (srv S0)) target conn st msg status init_dist = (True, distributor (srv S0))"
    and f: "flows (config (srv S0)) bs (srv S) rt"
  shows "classified (distributor rt) \<le> produced_unique_transitions rt \<and>
    (duplicate_pushes (distributor rt) = 0 \<longrightarrow> classified (distributor rt) = produced_unique_transitions rt)"
proof -
  have "sessions_ok w S0" using fresh_sessions [OF e(1)] by blast
  from flows_trans [OF maze_task.sample_run_flows [OF r w this] f] started_dist(1) [OF d] started_dist(2,3) [OF d] e(2)
  show ?thesis by (simp add: flows_def flow_def)
qed

text \<open>C2: Whatever the clients and the SamplePool do, the transitions that applied Updates completed (less
  those given up with a silent client and counted as quarantined, which n leaves out) are as many as those
  cached in the sessions, waiting in the outbound queue, accepted by the SamplePool, dropped or unresolved,
  all together.  Only the transitions of envelopes that the SamplePool called duplicates may be missing from
  that sum; it never exceeds what was collected.\<close>
theorem collected_transitions_are_accounted_for:
  assumes "sample_run (maze_ops cfg me) w ow bs S0 n S" "codec_ok w"
    and "session_mgr (srv S0) = empty_manager" "produced S0 = 0"
    and "dist_Start (config (srv S0)) target conn st msg status init_dist = (True, distributor (srv S0))"
  shows "let d = distributor (srv S);
             places = CountCachedTransitions (srv S) + queue_transitions d + accepted_unique_transitions (stats d) +
               final_drop_unique_transitions (stats d) + unresolved_push_outcome_unknown_transitions (stats d)
         in places \<le> n \<and> (duplicate_push_attempt_count (stats d) = 0 \<longrightarrow> places = n)"
proof -
  have "produced S + CountCachedTransitions (srv S) = n"
    using maze_task.run_invariant [OF sample_run_is_run [OF assms(1)] assms(2)] fresh_sessions [OF assms(3), of w]
      assms(4) by simp
  with run_classified [OF assms flows_refl] show ?thesis by (auto simp: classified_def Let_def)
qed

text \<open>A training server with one session, whose distributor was started.\<close>

definition demo_training :: "(unit, maze_state, episode_controller) service" where
  "demo_training = demo_service\<lparr>srv := demo_runtime\<lparr>server_state := AiReady, model_load_state := ModelReady,
     distributor := demo_start\<rparr>\<rparr>"

lemma demo_training_started:
  "dist_Start (config (srv demo_training)) [] True GrpcOk [] demo_status init_dist =
     (True, distributor (srv demo_training))"
  using demo_started
  by (simp add: demo_training_def demo_service_def demo_runtime_fields demo_cfg_def dist_Start_def Let_def default_config_def)

lemma demo_start_reserved: "reserved_estimated_bytes demo_start = 0"
  by (simp add: demo_start_def dist_Start_def ProbeSamplePool_def ValidateSamplePoolStatus_def
      demo_status_def default_config_def Let_def) (simp add: init_dist_def SetDeliveryStateLocked_def)

lemma demo_training_idle:
  "session_mgr (srv demo_training) = empty_manager" "produced demo_training = 0"
  "IsReady (srv demo_training)" "open_payloads (srv demo_training) = Map.empty"
  "next_of demo_training + 1 \<noteq> 0" "\<not> shutdown_started (srv demo_training)"
  "\<not> workspace_lease_held (srv demo_training)" "model_load_state (srv demo_training) = ModelReady"
  "\<not> model_ack_pending (srv demo_training)" "\<not> started (srv demo_training)"
  "server_state (srv demo_training) = AiReady" "distributor (srv demo_training) = demo_start"
  by (simp_all add: demo_training_def demo_service_def demo_runtime_def init_runtime_def IsReady_def empty_manager_def
      IsCoreInferenceReady_def IsTrainingDeliveryReady_def ProducerCapacityConstrainedLocked_def byte_limit_def demo_start_fields
      demo_start_reserved demo_cfg_def default_config_def)

lemma demo_start_stats: "stats demo_start = stats init_dist"
  by (simp add: demo_start_def dist_Start_def ProbeSamplePool_def ValidateSamplePoolStatus_def
      demo_status_def default_config_def Let_def)

lemma demo_start_settled: "sender_settled (GetSnapshot cfg 9 demo_start)"
  by (simp add: sender_settled_def GetSnapshot_def demo_start_fields demo_start_stats) (simp add: init_dist_def)

lemma demo_training_run:
  obtains S where "sample_run (maze_ops demo_maze_cfg demo_maze_env) unary_codec unary_open_codec (byte_size demo_env)
      demo_training 0 S" "idle_with demo_training S"
proof -
  let ?o = "OpenSession (maze_ops demo_maze_cfg demo_maze_env) unary_open_codec demo_call demo_open_req demo_training"
  note t = demo_training_idle
  have "sample_run (maze_ops demo_maze_cfg demo_maze_env) unary_codec unary_open_codec (byte_size demo_env)
      demo_training 0 (snd ?o)"
    by (rule sample_open [OF sample_start t(5) prod.collapse [symmetric]])
  moreover have "idle_with demo_training (snd ?o)" by (rule demo_open_idle [OF t(1,3,4)])
  ultimately show thesis by (rule that)
qed

theorem collected_transitions_are_accounted_for_witness:
  "\<exists>S. sample_run (maze_ops demo_maze_cfg demo_maze_env) unary_codec unary_open_codec (byte_size demo_env)
      demo_training 0 S \<and> accepted_unique_transitions (stats (distributor (srv S))) +
        CountCachedTransitions (srv S) = 0"
proof -
  obtain S where S: "sample_run (maze_ops demo_maze_cfg demo_maze_env) unary_codec unary_open_codec (byte_size demo_env)
      demo_training 0 S" "idle_with demo_training S" by (rule demo_training_run)
  note t = demo_training_idle
  have d: "distributor (srv S) = demo_start" using S(2) t(12) by (simp add: idle_with_def)
  have "stats init_dist = stats demo_start" by (simp add: demo_start_stats)
  then have z: "duplicate_push_attempt_count (stats demo_start) = 0" "queue_transitions demo_start = 0"
    "final_drop_unique_transitions (stats demo_start) = 0"
    "unresolved_push_outcome_unknown_transitions (stats demo_start) = 0"
    by (simp_all add: demo_start_stats demo_start_fields) (simp_all add: init_dist_def)
  from collected_transitions_are_accounted_for [OF S(1) unary_codec_ok t(1,2) demo_training_started]
  have "accepted_unique_transitions (stats (distributor (srv S))) + CountCachedTransitions (srv S) = 0"
    by (simp add: Let_def d z)
  with S(1) show ?thesis by blast
qed

text \<open>C3: A shutdown that reports success has brought every collected transition to the SamplePool: as
  many transitions were accepted as applied Updates completed in the whole run (those given up with a
  silent client excepted), unless the SamplePool called an envelope a duplicate; and never more.\<close>
theorem successful_shutdown_delivered_everything:
  assumes "sample_run (maze_ops cfg me) w ow bs S0 n S" "codec_ok w"
    and "session_mgr (srv S0) = empty_manager" "produced S0 = 0"
    and "dist_Start (config (srv S0)) target conn st msg status init_dist = (True, distributor (srv S0))"
    and "\<not> shutdown_started (srv S)" "BeginShutdown se (srv S) = Inr (True, rt)"
    and "calls_only (maze_ops cfg me) w ow (se_window se)" "calls_only (maze_ops cfg me) w ow (se_later se)"
    and "shutdown_delivers (config (srv S)) bs se"
  shows "accepted_unique_transitions (stats (distributor rt)) \<le> n \<and>
    (duplicate_push_attempt_count (stats (distributor rt)) = 0 \<longrightarrow>
      accepted_unique_transitions (stats (distributor rt)) = n)"
proof -
  note inv = maze_task.run_invariant [OF sample_run_is_run [OF assms(1)] assms(2)] fresh_sessions [OF assms(3), of w]
  have ok: "runtime_ok w (srv S)" "config (srv S) = config (srv S0)"
    and n: "produced S + CountCachedTransitions (srv S) = n"
    using inv assms(4) by (simp_all add: sessions_ok_runtime)
  note win = calls_only_drains [OF assms(8)] calls_only_drains [OF assms(9)]
  note s = shutdown_ok [OF assms(7,6) ok(1) win]
  have "flows (config (srv S0)) bs (srv S) rt"
    using shutdown_flows [OF assms(7,6) ok(1) win assms(10)] by (simp only: ok(2))
  from run_classified [OF assms(1-5) this] s(3) [OF TrueI] s(1,2) n show ?thesis
    by (auto simp: classified_def balance_def sender_settled_def GetSnapshot_def)
qed

theorem successful_shutdown_delivered_everything_witness:
  "\<exists>S rt. sample_run (maze_ops demo_maze_cfg demo_maze_env) unary_codec unary_open_codec (byte_size demo_env)
      demo_training 0 S \<and> BeginShutdown demo_shutdown (srv S) = Inr (True, rt) \<and> server_state rt = AiStopped \<and>
      accepted_unique_transitions (stats (distributor rt)) \<le> 0"
proof -
  obtain S where S: "sample_run (maze_ops demo_maze_cfg demo_maze_env) unary_codec unary_open_codec (byte_size demo_env)
      demo_training 0 S" "idle_with demo_training S" by (rule demo_training_run)
  note t = demo_training_idle
  obtain rt where rt: "BeginShutdown demo_shutdown (srv S) = Inr (True, rt)" "server_state rt = AiStopped"
    by (rule demo_shutdown_succeeds [OF S(2) t(6-11)]) (simp add: t(12) demo_start_settled)
  have n: "\<not> shutdown_started (srv S)" using S(2) t(6) by (simp add: idle_with_def)
  have "stopping_only cfg bs (\<lambda>d. d)" for cfg bs
    unfolding stopping_only_def dist_good_def by blast
  then have "shutdown_delivers (config (srv S)) (byte_size demo_env) demo_shutdown"
    by (simp add: shutdown_delivers_def demo_shutdown_def)
  from successful_shutdown_delivered_everything [OF S(1) unary_codec_ok t(1,2) demo_training_started n rt(1) _ _ this]
  have "accepted_unique_transitions (stats (distributor rt)) \<le> 0" by (simp add: demo_shutdown_def calls_only_id)
  with S(1) rt show ?thesis by blast
qed

end
