(* ===== verification/Cache_Claims.thy ===== *)
theory Cache_Claims
  imports Service_Claims Client_Claims
begin

text \<open>
  The model cache and the sessions: pruning leaves the models that open segments, the active, the staged
  and the pending model stand for.
\<close>

lemma pinned_protected:
  assumes "stored S sid = Some s" "map_of (agents s) i = Some a" "segment_open a"
    and "HasModelIdentity (pinned_model a)"
  shows "model_step (pinned_model a) \<in> ProtectedCachedModelStepsLocked (srv S)"
proof -
  have "model_step (pinned_model a) \<in> set (pinned_steps s)"
    using map_of_SomeD [OF assms(2)] assms(3,4) by (force simp: pinned_steps_def)
  moreover have "(sid, s) \<in> set (sessions (session_mgr (srv S)))"
    using assms(1) by (auto simp: GetSession_def dest: map_of_SomeD)
  ultimately show ?thesis by (force simp: ProtectedCachedModelStepsLocked_def)
qed

text \<open>The step of a model is in the cache after a prune exactly as it was before.\<close>

definition kept :: "model_client \<Rightarrow> model_client \<Rightarrow> model_manifest \<Rightarrow> bool" where
  "kept c c' m \<longleftrightarrow>
     cache_dirs c' (CacheStepDirectoryName (model_step m)) = cache_dirs c (CacheStepDirectoryName (model_step m))"

text \<open>C27: A model that is still used is never pruned.  In every run of a server that started without
  sessions, with the watcher replacing models between any two calls, an open segment of an Agent is pinned
  to a model with an identity that is loaded for inference, and a prune of the cache with the steps that
  are protected at that moment leaves the directory of that model alone, whatever fails on the way; and
  likewise those of the active, the staged and the pending model.\<close>
theorem open_segments_keep_their_models:
  assumes "service_run (maze_ops cfg me) w ow S0 n S" "codec_ok w" "session_mgr (srv S0) = empty_manager"
    and "PruneCache k dirs io (ProtectedCachedModelStepsLocked (srv S)) c = (r, c')"
  shows "(\<forall>sid s i a. stored S sid = Some s \<and> map_of (agents s) i = Some a \<and> segment_open a \<longrightarrow>
      HasModelIdentity (pinned_model a) \<and> prepared_valid (pinned_prepared_model a) \<and> kept c c' (pinned_model a)) \<and>
    (HasModelIdentity (active_manifest (srv S)) \<longrightarrow> kept c c' (active_manifest (srv S))) \<and>
    (HasModelIdentity (staged_manifest (srv S)) \<longrightarrow> kept c c' (staged_manifest (srv S))) \<and>
    (model_ack_pending (srv S) \<and> HasModelIdentity (pending_ack_manifest (srv S)) \<longrightarrow>
      kept c c' (pending_ack_manifest (srv S)))"
proof -
  have kept: "kept c c' m" if "model_step m \<in> ProtectedCachedModelStepsLocked (srv S)" for m
    using prune_keeps_protected [OF assms(4)] that by (simp add: kept_def)
  have ok: "sessions_ok w S" using maze_task.run_invariant [OF assms(1,2)] fresh_sessions [OF assms(3), of w] by blast
  have "HasModelIdentity (pinned_model a) \<and> prepared_valid (pinned_prepared_model a) \<and> kept c c' (pinned_model a)"
    if s: "stored S sid = Some s" and a: "map_of (agents s) i = Some a" "segment_open a" for sid s i a
  proof -
    have "agent_good (config (srv S)) None a"
      using ok s a(1) by (auto simp: sessions_ok_def session_inv_def good_def)
    then have "HasModelIdentity (pinned_model a)" "prepared_valid (pinned_prepared_model a)"
      using a(2) by (simp_all add: agent_good_def)
    with kept pinned_protected [OF s a] show ?thesis by blast
  qed
  moreover have "model_step m \<in> ProtectedCachedModelStepsLocked (srv S)"
    if "HasModelIdentity m" "m \<in> {active_manifest (srv S), staged_manifest (srv S)} \<or>
      model_ack_pending (srv S) \<and> m = pending_ack_manifest (srv S)" for m
    using that by (auto simp: ProtectedCachedModelStepsLocked_def)
  ultimately show ?thesis using kept by blast
qed

text \<open>A run in which a session is open and the active model is at step 7.\<close>

theorem open_segments_keep_their_models_witness:
  "\<exists>S r c'. service_run (maze_ops demo_maze_cfg demo_maze_env) unary_codec unary_open_codec demo_evaluation 0 S \<and>
     stored S (session_name 1) \<noteq> None \<and> model_step (active_manifest (srv S)) = 7 \<and>
     PruneCache unary_manifests good_dirs (\<lambda>_. prune_demo) (ProtectedCachedModelStepsLocked (srv S))
       (pinned_demo\<lparr>cached_steps := [7]\<rparr>) = (r, c') \<and>
     kept (pinned_demo\<lparr>cached_steps := [7]\<rparr>) c' (active_manifest (srv S))"
proof -
  obtain S where S: "service_run (maze_ops demo_maze_cfg demo_maze_env) unary_codec unary_open_codec demo_evaluation 0 S"
    "stored S (session_name 1) \<noteq> None" by (rule demo_run)
  let ?rt = "(srv S)\<lparr>active_manifest := wire_demo\<rparr>" and ?c = "pinned_demo\<lparr>cached_steps := [7]\<rparr>"
  let ?S = "S\<lparr>srv := ?rt\<rparr>"
  have run: "service_run (maze_ops demo_maze_cfg demo_maze_env) unary_codec unary_open_codec demo_evaluation 0 ?S"
    by (rule run_other [OF S(1)]) simp_all
  obtain r c' where p: "PruneCache unary_manifests good_dirs (\<lambda>_. prune_demo)
      (ProtectedCachedModelStepsLocked (srv ?S)) ?c = (r, c')" by force
  have "HasModelIdentity wire_demo" "model_step wire_demo = 7"
    by (simp_all add: wire_demo_views) (simp add: wire_demo_def HasModelIdentity_def)
  with open_segments_keep_their_models [OF run unary_codec_ok demo_evaluation_empty(1) p] run p S(2)
  show ?thesis by (intro exI [of _ ?S] exI [of _ r] exI [of _ c']) simp
qed

end
