(* ===== verification/Spec2Isabelle.thy ===== *)
theory Spec2Isabelle
  imports Rollout Distributor_Claims Metric_Claims Segment_Claims Service_Claims Maze_Claims
    Model_Claims Client_Claims Configuration_Claims Model_Session Fragment_Boundary
    Runtime_Status Shutdown_Claims Task_Client_Claims Sample_Claims Cache_Claims
begin

text \<open>
  A model of the rl-aiserver: the server that drives reinforcement learning Episodes for remote
  clients, collects their transitions, turns them into training samples and delivers these to a
  sample distributor.  Paths are below \<open>src/src\<close> unless they start with \<open>proto\<close>.

  \<^bold>\<open>The program.\<close>  A client opens a session and sends commands over gRPC
  (\<open>task/protocol/training_task_service.h\<close>).  Each handler checks the command against its session
  (\<open>proto/rl_sdk\<close>, \<open>task/session\<close>), lets the task (\<open>maze/\<close>) decode the environment's report, and has
  the training runtime (\<open>task/runtime\<close>) finish pending transitions, run the pinned model, choose
  actions (\<open>task/policy\<close>) and close Agent segments, whose transitions the rollout estimator
  (\<open>task/sample\<close>) turns into samples.  All of this happens on a copy of the session inside a
  transaction, which is committed when the sample sender (\<open>task/sample/sample_sender\<close>) has room for
  its envelopes.  Metrics of Episodes go to a journal that a consumer drains in acknowledged batches
  (\<open>task/metrics\<close>).

  \<^bold>\<open>Data and arithmetic.\<close>  Prelude: string tables, fallible computations (a sum with the error on the
  left), decimal numbers.  Floats: IEEE binary32 and binary64 values with rounding to nearest even.
  Task\_Types: configuration, model manifests, transitions, Agents and sessions
  (\<open>task/session/training_session.h\<close>, \<open>task/config\<close>).  Unsigned counters of the code are words of
  their width and wrap; signed 64 bit counters that only count events are integers.

  \<^bold>\<open>Policy and rollout.\<close>  Policy: masked sampling and greedy choice
  (\<open>task/policy/episode_action_policy.cpp\<close>); a selection on valid inputs never fails and yields an
  available action.  Rollout: raw transitions, GAE, projection to samples (\<open>task/sample\<close>); the backward
  loop is the closed GAE sum in exact arithmetic and never returns a non-finite float.

  \<^bold>\<open>Sample distributor.\<close>  Sample\_Distributor has one definition per block run under the mutex of
  \<open>SampleDistributor\<close>; Distributor\_Protocol lets admission, sender and shutdown interleave as step
  relations; Distributor\_Properties and Distributor\_Claims show that it refines a bounded FIFO channel,
  accounts for every transition, keeps its capacity and never refuses a sealed reservation.  The refresh
  of the sample pool's status takes the mutex several times in the code and is one step here: what it
  carries from one block to the next, the count of failures and the identity of the pool, only the sender
  and \<open>Start\<close> write.

  \<^bold>\<open>Metrics.\<close>  Metric\_Registry: definitions, points and the records of Episodes and reward windows.
  Metric\_Journal: \<open>task/metrics/episode_metrics.cpp\<close>; Metric\_Protocol and Metric\_Claims: what a
  consumer that fetches and acknowledges knows of the facts appended.

  \<^bold>\<open>Sessions and runtime.\<close>  Sessions: replay window, command check and commit, session store, client
  cursor and its exchange loop.  Command\_Protocol: the contract of a command handler (locale
  command\_server) and what a retransmission of an applied command is given.  Runtime: \<open>task/runtime/training_runtime\<close>,
  the operations on Agent segments; Transaction: \<open>task/runtime/training_transaction.h\<close>; Segments and
  Segment\_Claims: frames and aborts keep segments well formed and lose no transition.  Preparation and
  Session\_Invariant: what a preparation leaves alone, and the invariant of stored sessions.

  \<^bold>\<open>The service.\<close>  Task\_Service: all RPC handlers as functions from the service state to a response and
  the next state; a call runs under one mutex, and what other threads do meanwhile is part of the
  environment of the call.  Task\_Contracts: the laws the service expects of a task (locale
  task\_adapter), and for each handler that it commits or refuses its command, keeps the sessions well
  formed and accounts for its transitions.  Service\_Protocol shows that the service is a
  command\_server; Service\_Runs are sequences of RPCs in any order.  Service\_Claims holds the
  guarantees to clients, for the Maze service.

  \<^bold>\<open>The client library.\<close>  Task\_Client: \<open>transport.h\<close>, which may send a call twice, \<open>task\_client.h\<close> and the
  drivers of \<open>session.h\<close> (all under \<open>proto/rl_sdk\<close>).  Task\_Client\_Protocol carries the guarantees of a
  command\_server over the transport.  Call\_Log adds a log of the calls that reached the server, which is
  no part of the program, to any command\_server: in every sequence of deliveries of a command at most one
  logged call carries it out.  Service\_Claims and Task\_Client\_Claims state this for the Maze service as
  the number of calls with an effect, and Task\_Client\_Claims what the drivers do after failures.

  \<^bold>\<open>The end of the server.\<close>  Lifecycle: recovery of sessions whose client went silent, the periodic
  output of rewards and the lease of the workspace; Shutdown: \<open>BeginShutdown\<close> as three critical
  sections with the last delivery in between, and what other calls do meanwhile as a function of its
  environment.  Recovery: closing moves transitions into envelopes and giving up into the count of
  quarantined ones, so that their balance stays.  Shutdown\_Runs: what calls can do to a draining server
  (the relation drain\_run); Shutdown\_Balance: each section keeps the balance; Shutdown\_Claims: the
  guarantees.  Runtime\_Status: the status RPC and the metric catalog.

  \<^bold>\<open>From Update to the SamplePool.\<close>  Sample\_Flow: what the distributor accounts for, and that handing
  envelopes over adds their samples to it; Sample\_Runs: each call and each recovery adds there what it adds
  to the count of produced transitions, in runs in which only the steps of the sender move the
  distributor otherwise (the relation sample\_run); Sample\_Shutdown: so does shutdown, with the steps of
  \<open>StopAndDrain\<close>; Sample\_Claims: collected transitions are all accounted for, and a shutdown that
  reports success has delivered them.

  \<^bold>\<open>The Maze task.\<close>  Breadth\_First: the search as a loop with its invariant.  Maze\_Map: map validation
  and exact distances.  Maze\_Types, Maze\_Observation, Maze\_Reward, Maze\_Metrics, Maze\_Controller (the
  training ledger), Maze\_Adapter: the modules of \<open>maze/\<close>.  The design of the reward is stated in exact
  arithmetic; that the frames of an Episode compose rewards as \<open>episode_rewards\<close> does is shown for the
  rounding of the code.  Maze\_Task interprets the locales
  task\_adapter and command\_server with the adapter; Maze\_Claims holds its own guarantees.
  Lossless\_Codec is a wire format to instantiate the codec parameter with.

  \<^bold>\<open>Models.\<close>  Model\_Client: \<open>task/model/model_distributor_client.cpp\<close> and \<open>model_manifest.cpp\<close>, discovery,
  download, the cache of published steps and the acknowledgement, over a map from directories to files;
  Client\_Claims shows that the lineage is fixed, that what is published is what was sent, and that
  pruning spares protected steps; Cache\_Claims, that in runs of the service these include the models of
  all open segments.  Model\_Updates: the start of the runtime and the watcher of
  \<open>training_runtime.tpp\<close> as a state machine whose states are the points between its critical sections;
  Model\_Claims shows that the active model only advances in every run.  Model\_Session: the checks of
  \<open>task/inference/onnx_inferencer.cpp\<close> on a model file, what it reads of the outputs of an inference, and
  the inspection of a model file by \<open>main.cpp\<close>.  Fragment\_Boundary: two headers nothing includes.

  \<^bold>\<open>The process.\<close>  Configuration: \<open>maze/config/config.cpp\<close>, from the lines of the file to the checked
  settings.  Process\_Entry: \<open>main/main.cpp\<close>, the command line and the course of a run.
  Configuration\_Claims: which source each setting comes from, round trips of files and command lines,
  and what every run of the process does.

  \<^bold>\<open>Bounds.\<close>  No definition uses fuel.  The breadth-first loop is a \<open>while_option\<close> that is shown to
  end; loops over lists are structural; the chunking of a segment is a recursion with a measure.  The
  client's waiting loop consumes one turn of a given list per iteration.

  \<^bold>\<open>Parameters.\<close>  Protobuf serialisation (a codec that parses what it wrote), the ONNX session, \<open>exp\<close>,
  \<open>log\<close>, \<open>sqrt\<close>, the random generator, clocks, the iteration order of unordered maps, the outcome of
  writing the receipt file, of file system calls and of calls to the distributor services.

  \<^bold>\<open>Not modelled.\<close>  Logging, generated code, tests and scripts.  In runs of the service the watcher may recover expired sessions; what the other threads do
  to the rest of the runtime leaves its sessions, configuration and count of produced transitions
  alone, as the code does.
\<close>

end
